(* ===== verification/Prelude.thy ===== *)
theory Prelude
  imports
    "HOL-Library.Word"
    "HOL-Library.AList"
    "HOL-Library.Sublist"
    "HOL-Library.Char_ord"
    "HOL-Library.List_Lexorder"
    "HOL-Library.Multiset"
begin

text \<open>
  Shared vocabulary of the development: bytes, thrown JavaScript errors as values of a
  sum type, the handful of standard-library operations the sources use everywhere
  (\<open>Array.prototype.sort\<close> with a comparator, insertion-ordered \<open>Map\<close>, decimal and
  hexadecimal text, little-endian numbers) and the generic lemmas the component theories
  rest on.
\<close>

named_theorems reader_simps
named_theorems reader_backs

section \<open>Bytes and thrown errors\<close>

type_synonym byte = "8 word"
type_synonym bytes = "byte list"

lemma unat_byte_less [simp]: "unat (b::byte) < 256"
  using unsigned_less [of b, where ?'a = nat] by simp

datatype err_class =
    PlainError
  | RangeError
  | TypeError
  | PdaError
  | ReceiptError
  | NormalizationError
  | CanonicalizationError
  | RpcError
  | RpcRateLimitError
  | InvariantViolation
  | SquadsDecodeError
  | CustodyHarnessFailure
  | DecodeError
  | SyntaxError
  | CustodyDefect
  | FunderSecretError
  | VerificationFailure
  | GovernanceFailure
  | CeremonyError
  | RecoveryFailure
  | SmokeFailure

datatype js_error = Thrown (err_class: err_class) (err_message: string)

type_synonym 'a result = "js_error + 'a"

abbreviation throw :: "err_class \<Rightarrow> string \<Rightarrow> 'a result" where
  "throw c msg \<equiv> Inl (Thrown c msg)"

text \<open>Sequencing: a thrown error leaves the rest of the function unexecuted.\<close>

definition bindR :: "'a result \<Rightarrow> ('a \<Rightarrow> 'b result) \<Rightarrow> 'b result" where
  "bindR m f = (case m of Inl e \<Rightarrow> Inl e | Inr a \<Rightarrow> f a)"

lemma bindR_Inl [simp]: "bindR (Inl e) f = Inl e"
  by (simp add: bindR_def)

lemma bindR_Inr [simp]: "bindR (Inr a) f = f a"
  by (simp add: bindR_def)

lemma bindR_eq_Inr: "bindR m f = Inr b \<longleftrightarrow> (\<exists>a. m = Inr a \<and> f a = Inr b)"
  by (simp add: bindR_def split: sum.splits)

lemma bindR_eq_Inl: "bindR m f = Inl e \<longleftrightarrow> m = Inl e \<or> (\<exists>a. m = Inr a \<and> f a = Inl e)"
  by (cases m) simp_all

lemma bindR_InrE:
  assumes "bindR m f = Inr b"
  obtains a where "m = Inr a" and "f a = Inr b"
  using assms by (auto simp: bindR_eq_Inr)

lemma bindR_pairE:
  assumes "bindR m (\<lambda>(a, b). f a b) = Inr r"
  obtains a b where "m = Inr (a, b)" and "f a b = Inr r"
  using assms by (auto simp: bindR_eq_Inr)

lemma bindR_cong [fundef_cong]:
  assumes "m = m'" and "\<And>a. m' = Inr a \<Longrightarrow> f a = f' a"
  shows "bindR m f = bindR m' f'"
  using assms by (cases m') simp_all

fun mapR :: "('a \<Rightarrow> 'b result) \<Rightarrow> 'a list \<Rightarrow> 'b list result" where
  "mapR f [] = Inr []"
| "mapR f (x # xs) = bindR (f x) (\<lambda>y. bindR (mapR f xs) (\<lambda>ys. Inr (y # ys)))"

lemma mapR_Inr_iff: "mapR f xs = Inr ys \<longleftrightarrow> list_all2 (\<lambda>x y. f x = Inr y) xs ys"
  by (induction xs arbitrary: ys) (auto simp: bindR_eq_Inr list_all2_Cons1)

lemma mapR_total: "(\<And>x. x \<in> set xs \<Longrightarrow> f x = Inr (g x)) \<Longrightarrow> mapR f xs = Inr (map g xs)"
  by (induction xs) simp_all

fun foldR :: "('s \<Rightarrow> 'a \<Rightarrow> 's result) \<Rightarrow> 's \<Rightarrow> 'a list \<Rightarrow> 's result" where
  "foldR f s [] = Inr s"
| "foldR f s (x # xs) = bindR (f s x) (\<lambda>s'. foldR f s' xs)"

lemma foldR_append: "foldR f s (xs @ ys) = bindR (foldR f s xs) (\<lambda>s'. foldR f s' ys)"
proof (induction xs arbitrary: s)
  case Nil
  show ?case by simp
next
  case (Cons x xs)
  then show ?case by (cases "f s x") simp_all
qed

lemma foldR_invariant:
  assumes "foldR f s xs = Inr t" and "P s"
    and "\<And>s x s'. P s \<Longrightarrow> x \<in> set xs \<Longrightarrow> f s x = Inr s' \<Longrightarrow> P s'"
  shows "P t"
  using assms
proof (induction xs arbitrary: s)
  case Nil
  then show ?case by simp
next
  case (Cons x xs)
  from Cons.prems(1) obtain s' where s': "f s x = Inr s'" "foldR f s' xs = Inr t"
    by (auto simp: bindR_eq_Inr)
  have "P s'" by (rule Cons.prems(3) [OF Cons.prems(2) _ s'(1)]) simp
  with s'(2) show ?case
    by (rule Cons.IH) (rule Cons.prems(3), simp_all)
qed

section \<open>Numbers of JavaScript\<close>

text \<open>
  Where a \<open>number\<close> may be anything (an envelope handed in by a caller), only what the
  code asks of it is kept: whether it is an integer and which, and otherwise its floor or
  the kind of non-finite value it is. Everything read from bytes is an integer.
\<close>

datatype js_number =
    Whole int
  | Fractional int
  | Pos_Infinity
  | Neg_Infinity
  | Not_a_Number

fun is_integer :: "js_number \<Rightarrow> bool" where
  "is_integer (Whole _) = True"
| "is_integer _ = False"

fun is_finite :: "js_number \<Rightarrow> bool" where
  "is_finite (Whole _) = True"
| "is_finite (Fractional _) = True"
| "is_finite _ = False"

fun whole :: "js_number \<Rightarrow> int" where
  "whole (Whole n) = n"
| "whole _ = 0"

fun negative :: "js_number \<Rightarrow> bool" where
  "negative (Whole n) = (n < 0)"
| "negative (Fractional n) = (n < 0)"
| "negative Neg_Infinity = True"
| "negative _ = False"

definition max_safe_integer :: int where "max_safe_integer = 9007199254740991"

section \<open>Decimal text\<close>

definition digit_char :: "nat \<Rightarrow> char" where
  "digit_char d = ''0123456789'' ! d"

fun dec_nat :: "nat \<Rightarrow> string" where
  "dec_nat n = (if n < 10 then [digit_char n] else dec_nat (n div 10) @ [digit_char (n mod 10)])"

declare dec_nat.simps [simp del]

definition dec_int :: "int \<Rightarrow> string" where
  "dec_int i = (if i < 0 then ''-'' @ dec_nat (nat (- i)) else dec_nat (nat i))"

definition is_digit :: "char \<Rightarrow> bool" where
  "is_digit c \<longleftrightarrow> c \<in> set ''0123456789''"

definition digit_val :: "char \<Rightarrow> nat" where
  "digit_val c = of_char c - 48"

definition nat_of_dec :: "string \<Rightarrow> nat" where
  "nat_of_dec s = foldl (\<lambda>acc c. acc * 10 + digit_val c) 0 s"

lemma less_10_cases:
  "(d::nat) < 10 \<Longrightarrow> d = 0 \<or> d = 1 \<or> d = 2 \<or> d = 3 \<or> d = 4 \<or> d = 5 \<or> d = 6 \<or> d = 7 \<or> d = 8 \<or> d = 9"
  by arith

lemma digit_char_props:
  "d < 10 \<Longrightarrow> is_digit (digit_char d) \<and> digit_val (digit_char d) = d"
  by (drule less_10_cases) (auto simp: digit_char_def is_digit_def digit_val_def)

lemma digit_char_eq_0: "d < 10 \<Longrightarrow> digit_char d = CHR ''0'' \<longleftrightarrow> d = 0"
  by (drule less_10_cases) (auto simp: digit_char_def)

lemma dec_nat_digits: "\<forall>c \<in> set (dec_nat n). is_digit c"
proof (induction n rule: dec_nat.induct)
  case (1 n)
  then show ?case
    by (subst dec_nat.simps) (auto simp: digit_char_props)
qed

lemma dec_nat_nonempty [simp]: "dec_nat n \<noteq> []"
  by (subst dec_nat.simps) simp

lemma nat_of_dec_snoc: "nat_of_dec (s @ [c]) = nat_of_dec s * 10 + digit_val c"
  by (simp add: nat_of_dec_def)

lemma nat_of_dec_dec_nat [simp]: "nat_of_dec (dec_nat n) = n"
proof (induction n rule: dec_nat.induct)
  case (1 n)
  show ?case
  proof (cases "n < 10")
    case True
    then show ?thesis
      by (subst dec_nat.simps) (simp add: nat_of_dec_def digit_char_props)
  next
    case False
    with "1.IH" show ?thesis
      by (subst dec_nat.simps) (simp add: nat_of_dec_snoc digit_char_props)
  qed
qed

lemma dec_nat_inject [simp]: "dec_nat m = dec_nat n \<longleftrightarrow> m = n"
  by (metis nat_of_dec_dec_nat)

lemma dec_nat_hd: "hd (dec_nat n) = CHR ''0'' \<longleftrightarrow> n = 0"
proof (induction n rule: dec_nat.induct)
  case (1 n)
  show ?case
  proof (cases "n < 10")
    case True
    then show ?thesis by (subst dec_nat.simps) (simp add: digit_char_eq_0)
  next
    case False
    then have "n div 10 \<noteq> 0" by simp
    with False "1.IH" show ?thesis by (subst dec_nat.simps) (simp add: hd_append)
  qed
qed

lemma dec_nat_0 [simp]: "dec_nat 0 = ''0''"
  by (simp add: dec_nat.simps digit_char_def)

lemma length_dec_nat_less: "n < 10 ^ k \<Longrightarrow> 0 < k \<Longrightarrow> length (dec_nat n) \<le> k"
proof (induction n arbitrary: k rule: dec_nat.induct)
  case (1 n)
  show ?case
  proof (cases "n < 10")
    case True
    with "1.prems" show ?thesis by (subst dec_nat.simps) simp
  next
    case False
    with "1.prems" have "1 < k"
      by (metis less_one linorder_neqE_nat power_one_right not_less_iff_gr_or_eq)
    with "1.prems" have "n div 10 < 10 ^ (k - 1)"
      by (cases k) (auto simp: less_mult_imp_div_less mult.commute)
    with "1.IH" False \<open>1 < k\<close> have "length (dec_nat (n div 10)) \<le> k - 1" by simp
    with False \<open>1 < k\<close> show ?thesis by (subst dec_nat.simps) simp
  qed
qed

lemma dec_nat_not_in: "\<not> is_digit c \<Longrightarrow> c \<notin> set (dec_nat n)"
  using dec_nat_digits by blast

section \<open>Hexadecimal text\<close>

definition hex_char :: "nat \<Rightarrow> char" where
  "hex_char d = ''0123456789abcdef'' ! d"

definition hex_byte :: "byte \<Rightarrow> string" where
  "hex_byte b = [hex_char (unat b div 16), hex_char (unat b mod 16)]"

text \<open>\<open>Buffer.toString("hex")\<close> and \<open>digest("hex")\<close>.\<close>

definition hex :: "bytes \<Rightarrow> string" where
  "hex bs = concat (map hex_byte bs)"

definition is_lower_hex :: "char \<Rightarrow> bool" where
  "is_lower_hex c \<longleftrightarrow> c \<in> set ''0123456789abcdef''"

lemma less_16_cases:
  "(d::nat) < 16 \<Longrightarrow> d < 10 \<or> d = 10 \<or> d = 11 \<or> d = 12 \<or> d = 13 \<or> d = 14 \<or> d = 15"
  by arith

lemma is_lower_hex_char: "d < 16 \<Longrightarrow> is_lower_hex (hex_char d)"
  by (drule less_16_cases)
     (elim disjE, drule less_10_cases, auto simp: hex_char_def is_lower_hex_def)

lemma hex_char_inject:
  assumes "d < 16" "e < 16" "hex_char d = hex_char e"
  shows "d = e"
proof -
  have "distinct ''0123456789abcdef''" by simp
  moreover have "length ''0123456789abcdef'' = 16" by simp
  ultimately show ?thesis
    using assms nth_eq_iff_index_eq [of "''0123456789abcdef''" d e]
    by (simp add: hex_char_def)
qed

lemma hex_byte_inject [simp]: "hex_byte a = hex_byte b \<longleftrightarrow> a = b"
proof
  assume h: "hex_byte a = hex_byte b"
  have "unat a div 16 < 16" "unat b div 16 < 16"
    using unat_byte_less [of a] unat_byte_less [of b] by linarith+
  with h have "unat a div 16 = unat b div 16" "unat a mod 16 = unat b mod 16"
    by (auto simp: hex_byte_def intro: hex_char_inject)
  then have "unat a = unat b" by (metis div_mult_mod_eq)
  then show "a = b" by (simp add: word_unat_eq_iff)
qed simp

lemma length_hex_byte [simp]: "length (hex_byte b) = 2"
  by (simp add: hex_byte_def)

lemma hex_Nil [simp]: "hex [] = []"
  by (simp add: hex_def)

lemma hex_Cons: "hex (b # bs) = hex_byte b @ hex bs"
  by (simp add: hex_def)

lemma hex_append: "hex (as @ bs) = hex as @ hex bs"
  by (simp add: hex_def)

lemma length_hex [simp]: "length (hex bs) = 2 * length bs"
  by (induction bs) (simp_all add: hex_Cons)

lemma hex_chars: "\<forall>c \<in> set (hex bs). is_lower_hex c"
proof -
  have "unat (b::byte) div 16 < 16" for b
    using unat_byte_less [of b] by linarith
  then show ?thesis
    by (auto simp: hex_def hex_byte_def is_lower_hex_char)
qed

lemma hex_inject [simp]: "hex as = hex bs \<longleftrightarrow> as = bs"
proof (induction as arbitrary: bs)
  case Nil
  show ?case by (cases bs) (simp_all add: hex_Cons hex_byte_def)
next
  case (Cons a as)
  show ?case
  proof (cases bs)
    case Nil
    then show ?thesis by (simp add: hex_Cons hex_byte_def)
  next
    case (Cons b bs')
    then show ?thesis using Cons.IH by (simp add: hex_Cons append_eq_append_conv)
  qed
qed

text \<open>The inverse of \<open>hex\<close>, for the byte layouts of the decoders.\<close>

definition hex_val :: "char \<Rightarrow> nat" where
  "hex_val c = (if is_digit c then digit_val c else of_char c - 87)"

fun unhex :: "string \<Rightarrow> bytes" where
  "unhex (a # b # cs) = word_of_nat (16 * hex_val a + hex_val b) # unhex cs"
| "unhex _ = []"

lemma hex_val_hex_char: "d < 16 \<Longrightarrow> hex_val (hex_char d) = d"
proof -
  assume "d < 16"
  then have "d < 10 \<or> d = 10 \<or> d = 11 \<or> d = 12 \<or> d = 13 \<or> d = 14 \<or> d = 15"
    by (rule less_16_cases)
  moreover have "hex_val (hex_char d) = d" if "d < 10"
  proof -
    have "hex_char d = digit_char d"
      using less_10_cases [OF that] by (elim disjE) (simp_all add: hex_char_def digit_char_def)
    with digit_char_props [OF that] show ?thesis by (simp add: hex_val_def)
  qed
  ultimately show ?thesis
    by (elim disjE) (simp_all add: hex_char_def hex_val_def is_digit_def)
qed

lemma hex_val_props: "is_lower_hex c \<Longrightarrow> hex_val c < 16 \<and> hex_char (hex_val c) = c"
proof -
  assume "is_lower_hex c"
  then obtain d where "d < length ''0123456789abcdef''" "c = ''0123456789abcdef'' ! d"
    unfolding is_lower_hex_def by (metis in_set_conv_nth)
  then have "d < 16" "c = hex_char d" by (simp_all add: hex_char_def)
  then show ?thesis by (simp add: hex_val_hex_char)
qed

lemma unat_div_16 [simp]: "unat (b::byte) div 16 < 16"
  using unat_byte_less [of b] by linarith

lemma unhex_hex [simp]: "unhex (hex bs) = bs"
proof (induction bs)
  case Nil
  show ?case by simp
next
  case (Cons b bs)
  have "16 * (unat b div 16) + unat b mod 16 = unat b" by simp
  then show ?case
    using Cons.IH by (simp add: hex_Cons hex_byte_def hex_val_hex_char)
qed

lemma hex_unhex: "even (length s) \<Longrightarrow> \<forall>c \<in> set s. is_lower_hex c \<Longrightarrow> hex (unhex s) = s"
proof (induction s rule: unhex.induct)
  case (1 a b cs)
  then have ab: "hex_val a < 16" "hex_char (hex_val a) = a" "hex_val b < 16" "hex_char (hex_val b) = b"
    by (simp_all add: hex_val_props)
  then have "unat (word_of_nat (16 * hex_val a + hex_val b) :: byte) = 16 * hex_val a + hex_val b"
    by (simp only: unat_of_nat) simp
  with ab have "hex_byte (word_of_nat (16 * hex_val a + hex_val b)) = [a, b]"
    by (simp add: hex_byte_def)
  with 1 show ?case by (simp add: hex_Cons)
qed simp_all

lemma length_unhex: "length (unhex s) = length s div 2"
  by (induction s rule: unhex.induct) simp_all

section \<open>Little-endian numbers\<close>

definition le_nat :: "bytes \<Rightarrow> nat" where
  "le_nat bs = foldr (\<lambda>b acc. unat b + 256 * acc) bs 0"

fun le_bytes :: "nat \<Rightarrow> nat \<Rightarrow> bytes" where
  "le_bytes 0 v = []"
| "le_bytes (Suc n) v = word_of_nat (v mod 256) # le_bytes n (v div 256)"

lemma le_nat_Nil [simp]: "le_nat [] = 0"
  by (simp add: le_nat_def)

lemma le_nat_Cons [simp]: "le_nat (b # bs) = unat b + 256 * le_nat bs"
  by (simp add: le_nat_def)

lemma le_nat_append: "le_nat (as @ bs) = le_nat as + 256 ^ length as * le_nat bs"
  by (induction as) (simp_all add: algebra_simps)

lemma le_nat_replicate_0 [simp]: "le_nat (replicate n 0) = 0"
  by (induction n) simp_all

lemma length_le_bytes [simp]: "length (le_bytes n v) = n"
  by (induction n arbitrary: v) simp_all

lemma le_nat_less: "le_nat bs < 256 ^ length bs"
proof (induction bs)
  case Nil
  show ?case by simp
next
  case (Cons b bs)
  have "unat b + 256 * le_nat bs < 256 * (le_nat bs + 1)" by simp
  also have "\<dots> \<le> 256 * 256 ^ length bs"
    using Cons.IH by (intro mult_le_mono) simp_all
  finally show ?case by simp
qed

lemma unat_word_of_nat_byte: "v < 256 \<Longrightarrow> unat (word_of_nat v :: byte) = v"
  by (simp add: unat_of_nat)

lemma le_nat_le_bytes: "v < 256 ^ n \<Longrightarrow> le_nat (le_bytes n v) = v"
proof (induction n arbitrary: v)
  case 0
  then show ?case by simp
next
  case (Suc n)
  then have "v div 256 < 256 ^ n"
    by (simp add: less_mult_imp_div_less mult.commute)
  with Suc.IH show ?case by (simp add: unat_word_of_nat_byte)
qed

lemma le_bytes_le_nat [simp]: "le_bytes (length bs) (le_nat bs) = bs"
  by (induction bs) (simp_all add: div_mult_self2)

lemma le_bytes_0: "le_bytes n 0 = replicate n 0"
  by (induction n) simp_all

lemma le_bytes_inject:
  "u < 256 ^ n \<Longrightarrow> v < 256 ^ n \<Longrightarrow> le_bytes n u = le_bytes n v \<longleftrightarrow> u = v"
  by (metis le_nat_le_bytes)

section \<open>Insertion-ordered maps\<close>

text \<open>
  A JavaScript \<open>Map\<close> iterates in insertion order; setting a present key keeps its
  position. \<open>AList.update\<close> and \<open>AList.delete\<close> are exactly \<open>set\<close> and \<open>delete\<close>,
  \<open>map_of\<close> is \<open>get\<close>, and \<open>map snd\<close> is \<open>values()\<close>.
\<close>

abbreviation map_get :: "('k \<times> 'v) list \<Rightarrow> 'k \<Rightarrow> 'v option" where
  "map_get \<equiv> map_of"

abbreviation map_set :: "'k \<Rightarrow> 'v \<Rightarrow> ('k \<times> 'v) list \<Rightarrow> ('k \<times> 'v) list" where
  "map_set \<equiv> AList.update"

abbreviation map_delete :: "'k \<Rightarrow> ('k \<times> 'v) list \<Rightarrow> ('k \<times> 'v) list" where
  "map_delete \<equiv> AList.delete"

lemma map_get_set: "map_get (map_set k v m) k' = (if k' = k then Some v else map_get m k')"
  by (simp add: update_conv')

section \<open>Sorting with a comparator\<close>

text \<open>
  \<open>Array.prototype.sort\<close> is stable. For a consistent comparator its result is the one
  stable sorted arrangement, which insertion from the right computes.
\<close>

fun js_insert :: "('a \<Rightarrow> 'a \<Rightarrow> int) \<Rightarrow> 'a \<Rightarrow> 'a list \<Rightarrow> 'a list" where
  "js_insert cmp x [] = [x]"
| "js_insert cmp x (y # ys) = (if cmp x y \<le> 0 then x # y # ys else y # js_insert cmp x ys)"

definition js_sort :: "('a \<Rightarrow> 'a \<Rightarrow> int) \<Rightarrow> 'a list \<Rightarrow> 'a list" where
  "js_sort cmp xs = foldr (js_insert cmp) xs []"

lemma js_sort_Nil [simp]: "js_sort cmp [] = []"
  by (simp add: js_sort_def)

lemma js_sort_Cons [simp]: "js_sort cmp (x # xs) = js_insert cmp x (js_sort cmp xs)"
  by (simp add: js_sort_def)

lemma mset_js_insert [simp]: "mset (js_insert cmp x xs) = add_mset x (mset xs)"
  by (induction xs) simp_all

lemma mset_js_sort [simp]: "mset (js_sort cmp xs) = mset xs"
  by (induction xs) simp_all

lemma set_js_sort [simp]: "set (js_sort cmp xs) = set xs"
  by (metis mset_js_sort set_mset_mset)

lemma length_js_sort [simp]: "length (js_sort cmp xs) = length xs"
  by (metis mset_js_sort size_mset)

lemma distinct_js_sort [simp]: "distinct (js_sort cmp xs) = distinct xs"
  by (metis mset_eq_imp_distinct_iff mset_js_sort)

text \<open>The contract a comparator has to meet for the sort to mean anything.\<close>

locale comparator =
  fixes cmp :: "'a \<Rightarrow> 'a \<Rightarrow> int"
  assumes cmp_antisym: "cmp y x < 0 \<longleftrightarrow> 0 < cmp x y"
    and cmp_trans: "cmp x y \<le> 0 \<Longrightarrow> cmp y z \<le> 0 \<Longrightarrow> cmp x z \<le> 0"
begin

lemma cmp_total: "cmp x y \<le> 0 \<or> cmp y x \<le> 0"
  using cmp_antisym [of y x] by linarith

lemma cmp_refl: "cmp x x = 0"
  using cmp_antisym [of x x] by linarith

lemma sorted_js_insert:
  "sorted_wrt (\<lambda>a b. cmp a b \<le> 0) xs \<Longrightarrow> sorted_wrt (\<lambda>a b. cmp a b \<le> 0) (js_insert cmp x xs)"
proof (induction xs)
  case Nil
  show ?case by simp
next
  case (Cons y ys)
  show ?case
  proof (cases "cmp x y \<le> 0")
    case True
    with Cons.prems show ?thesis by (auto intro: cmp_trans)
  next
    case False
    then have "cmp y x \<le> 0" using cmp_total by blast
    moreover have "set (js_insert cmp x ys) = insert x (set ys)"
      by (metis mset_js_insert set_mset_add_mset_insert set_mset_mset)
    ultimately show ?thesis using False Cons by auto
  qed
qed

lemma sorted_js_sort: "sorted_wrt (\<lambda>a b. cmp a b \<le> 0) (js_sort cmp xs)"
  by (induction xs) (simp_all add: sorted_js_insert)

lemma sorted_unique:
  assumes "sorted_wrt (\<lambda>a b. cmp a b \<le> 0) xs" "sorted_wrt (\<lambda>a b. cmp a b \<le> 0) ys"
    and "mset xs = mset ys"
    and "\<And>a b. a \<in> set xs \<Longrightarrow> b \<in> set xs \<Longrightarrow> cmp a b = 0 \<Longrightarrow> a = b"
  shows "xs = ys"
  using assms
proof (induction xs arbitrary: ys)
  case Nil
  then show ?case by simp
next
  case (Cons x xs)
  from Cons.prems(3) obtain y ys' where ys: "ys = y # ys'"
    by (cases ys) auto
  have sets: "set (x # xs) = set (y # ys')"
    using Cons.prems(3) ys by (metis set_mset_mset)
  have "y \<in> insert x (set xs)" "x \<in> insert y (set ys')" using sets by auto
  then have "cmp x y \<le> 0" and "cmp y x \<le> 0"
    using Cons.prems(1,2) ys cmp_refl by auto
  then have "cmp x y = 0" using cmp_antisym [of y x] cmp_antisym [of x y] by linarith
  then have "x = y" using Cons.prems(4) sets by auto
  with Cons.prems ys show ?case
    using Cons.IH [of ys'] by auto
qed

text \<open>Permuting the input of a sort by a comparator that separates the elements changes nothing.\<close>

lemma js_sort_perm:
  assumes "mset xs = mset ys"
    and "\<And>a b. a \<in> set xs \<Longrightarrow> b \<in> set xs \<Longrightarrow> cmp a b = 0 \<Longrightarrow> a = b"
  shows "js_sort cmp xs = js_sort cmp ys"
  using assms by (intro sorted_unique) (simp_all add: sorted_js_sort)

end

text \<open>Comparison of numbers by subtraction, and of strings by code units.\<close>

definition str_cmp :: "string \<Rightarrow> string \<Rightarrow> int" where
  "str_cmp a b = (if a < b then -1 else if b < a then 1 else 0)"

interpretation str_order: comparator str_cmp
  by unfold_locales (auto simp: str_cmp_def split: if_splits)

lemma str_cmp_eq_0 [simp]: "str_cmp a b = 0 \<longleftrightarrow> a = b"
  by (auto simp: str_cmp_def)

section \<open>Small list facts\<close>

lemma find_append:
  "find P (xs @ ys) = (case find P xs of None \<Rightarrow> find P ys | Some x \<Rightarrow> Some x)"
  by (induction xs) auto

lemma find_map_distinct:
  assumes "distinct (map f xs)" and "x \<in> set xs"
  shows "find (\<lambda>y. f y = f x) xs = Some x"
  using assms by (induction xs) auto

lemma takeWhile_replicate_append:
  "P x \<Longrightarrow> takeWhile P (replicate n x @ ys) = replicate n x @ takeWhile P ys"
  by (induction n) simp_all

lemma takeWhile_eq_replicate: "takeWhile (\<lambda>y. y = x) xs = replicate (length (takeWhile (\<lambda>y. y = x) xs)) x"
  by (induction xs) simp_all

text \<open>Joining with a separator that neither left part contains loses nothing.\<close>

lemma sep_inject:
  "c \<notin> set a \<Longrightarrow> c \<notin> set a' \<Longrightarrow> a @ c # b = a' @ c # b' \<longleftrightarrow> a = a' \<and> b = b'"
proof (induction a arbitrary: a')
  case Nil
  then show ?case by (cases a') auto
next
  case (Cons x a)
  then show ?case by (cases a') auto
qed

lemma dec_int_chars: "\<forall>c \<in> set (dec_int i). is_digit c \<or> c = CHR ''-''"
  using dec_nat_digits by (auto simp: dec_int_def)

lemma dec_int_not_in: "\<not> is_digit c \<Longrightarrow> c \<noteq> CHR ''-'' \<Longrightarrow> c \<notin> set (dec_int i)"
  using dec_int_chars by blast

lemma dash_not_in_dec_nat: "CHR ''-'' \<notin> set (dec_nat n)"
  by (rule dec_nat_not_in) (simp add: is_digit_def)

lemma dec_int_inject [simp]: "dec_int i = dec_int j \<longleftrightarrow> i = j"
proof
  assume eq: "dec_int i = dec_int j"
  have "dec_nat m \<noteq> CHR ''-'' # s" and "CHR ''-'' # s \<noteq> dec_nat m" for m s
    using dash_not_in_dec_nat [of m] by (auto dest: sym)
  with eq show "i = j" by (auto simp: dec_int_def split: if_splits)
qed simp

lemma dec_int_not_dash [simp]: "dec_int i \<noteq> ''-''"
  using dash_not_in_dec_nat [of "nat i"] by (auto simp: dec_int_def)

section \<open>Text as bytes\<close>

text \<open>A string literal of the sources stands for its bytes: all of them are ASCII.\<close>

definition utf8 :: "string \<Rightarrow> bytes" where
  "utf8 s = map (\<lambda>c. word_of_nat (of_char c)) s"

lemma utf8_inject [simp]: "utf8 s = utf8 t \<longleftrightarrow> s = t"
proof -
  have "(of_char c :: nat) < 256" for c by simp
  then have "inj (\<lambda>c. word_of_nat (of_char c) :: byte)"
    by (intro injI) (metis unat_word_of_nat_byte of_char_eq_iff)
  then show ?thesis by (simp add: utf8_def inj_map_eq_map)
qed

lemma length_utf8 [simp]: "length (utf8 s) = length s"
  by (simp add: utf8_def)

end
