(* ===== verification/Base58.thy ===== *)
theory Base58
  imports Prelude
begin

text \<open>
  The base58 codec of \<open>sdk/src/reputation/base58.ts\<close>. Both directions keep a
  little-endian digit array and run a carry through it for every input symbol; the
  two inner loops are one function here, with the radix and the multiplier as arguments.
\<close>

definition ALPHABET :: string where
  "ALPHABET = ''123456789ABCDEFGHJKLMNPQRSTUVWXYZabcdefghijkmnopqrstuvwxyz''"

text \<open>\<open>ALPHABET_MAP.get\<close>.\<close>

fun index_of :: "'a \<Rightarrow> 'a list \<Rightarrow> nat option" where
  "index_of x [] = None"
| "index_of x (y # ys) = (if x = y then Some 0 else map_option Suc (index_of x ys))"

definition ALPHABET_MAP :: "char \<Rightarrow> nat option" where
  "ALPHABET_MAP c = index_of c ALPHABET"

text \<open>
  The inner \<open>for\<close> loop: multiply the stored digits by \<open>m\<close>, add the carry, keep each
  digit below the radix \<open>r\<close>. Returns the digits and the carry left over.
\<close>

fun carry_pass :: "nat \<Rightarrow> nat \<Rightarrow> nat \<Rightarrow> nat list \<Rightarrow> nat list \<times> nat" where
  "carry_pass r m c [] = ([], c)"
| "carry_pass r m c (d # ds) =
     (let t = c + d * m; (ds', c') = carry_pass r m (t div r) ds in (t mod r # ds', c'))"

text \<open>The \<open>while (carry > 0)\<close> loop that pushes the digits of the carry.\<close>

function push_carry :: "nat \<Rightarrow> nat \<Rightarrow> nat list" where
  "push_carry r c = (if c = 0 \<or> r \<le> 1 then [] else c mod r # push_carry r (c div r))"
  by pat_completeness auto
termination
  by (relation "measure snd") auto

declare push_carry.simps [simp del]

definition radix_step :: "nat \<Rightarrow> nat \<Rightarrow> nat list \<Rightarrow> nat \<Rightarrow> nat list" where
  "radix_step r m ds v = (let (ds', c) = carry_pass r m v ds in ds' @ push_carry r c)"

definition encodeBase58 :: "bytes \<Rightarrow> string" where
  "encodeBase58 bs =
     (let zeros = length (takeWhile (\<lambda>b. b = 0) bs);
          digits = foldl (radix_step 58 256) [] (map unat (drop zeros bs))
      in replicate zeros (CHR ''1'') @ map (\<lambda>d. ALPHABET ! d) (rev digits))"

fun decode_loop :: "nat list \<Rightarrow> string \<Rightarrow> nat list result" where
  "decode_loop ds [] = Inr ds"
| "decode_loop ds (c # cs) =
     (case ALPHABET_MAP c of
        None \<Rightarrow> throw TypeError ''invalid base58 character''
      | Some v \<Rightarrow> decode_loop (radix_step 256 58 ds v) cs)"

definition decodeBase58 :: "string \<Rightarrow> bytes result" where
  "decodeBase58 text =
     (let zeros = length (takeWhile (\<lambda>c. c = CHR ''1'') text)
      in bindR (decode_loop [] (drop zeros text))
           (\<lambda>ds. Inr (replicate zeros 0 @ map word_of_nat (rev ds))))"

section \<open>The digit arrays as numbers\<close>

definition radix_val :: "nat \<Rightarrow> nat list \<Rightarrow> nat" where
  "radix_val r ds = foldr (\<lambda>d acc. d + r * acc) ds 0"

lemma radix_val_Nil [simp]: "radix_val r [] = 0"
  by (simp add: radix_val_def)

lemma radix_val_Cons [simp]: "radix_val r (d # ds) = d + r * radix_val r ds"
  by (simp add: radix_val_def)

lemma radix_val_append: "radix_val r (ds @ es) = radix_val r ds + r ^ length ds * radix_val r es"
  by (induction ds) (simp_all add: algebra_simps)

text \<open>No most significant zero, every digit below the radix.\<close>

definition normal :: "nat \<Rightarrow> nat list \<Rightarrow> bool" where
  "normal r ds \<longleftrightarrow> (\<forall>d \<in> set ds. d < r) \<and> (ds \<noteq> [] \<longrightarrow> last ds \<noteq> 0)"

lemma normal_Nil [simp]: "normal r []"
  by (simp add: normal_def)

lemma normal_tl: "normal r (d # ds) \<Longrightarrow> normal r ds"
  by (auto simp: normal_def split: if_splits)

lemma normal_val_0: "normal r ds \<Longrightarrow> 0 < r \<Longrightarrow> radix_val r ds = 0 \<Longrightarrow> ds = []"
proof (induction ds)
  case Nil
  show ?case by simp
next
  case (Cons d ds)
  from Cons.prems have "d = 0" "radix_val r ds = 0" by simp_all
  with Cons have "ds = []" by (blast dest: normal_tl)
  with Cons.prems \<open>d = 0\<close> show ?case by (simp add: normal_def)
qed

lemma normal_unique:
  "normal r ds \<Longrightarrow> normal r es \<Longrightarrow> 0 < r \<Longrightarrow> radix_val r ds = radix_val r es \<Longrightarrow> ds = es"
proof (induction ds arbitrary: es)
  case Nil
  then show ?case using normal_val_0 [of r es] by simp
next
  case (Cons d ds)
  show ?case
  proof (cases es)
    case Nil
    with Cons.prems show ?thesis using normal_val_0 [of r "d # ds"] by simp
  next
    case (Cons e es')
    note es = this
    have lt: "d < r" "e < r" using Cons.prems(1,2) es by (simp_all add: normal_def)
    have "d = (d + r * radix_val r ds) mod r" "e = (e + r * radix_val r es') mod r"
      using lt by simp_all
    with Cons.prems(4) es have de: "d = e" by (metis radix_val_Cons)
    with Cons.prems(3,4) es have "radix_val r ds = radix_val r es'" by simp
    with Cons.IH Cons.prems(1-3) es have "ds = es'" by (blast dest: normal_tl)
    with de es show ?thesis by simp
  qed
qed

lemma radix_val_less: "(\<forall>d \<in> set ds. d < r) \<Longrightarrow> radix_val r ds < r ^ length ds"
proof (induction ds)
  case Nil
  show ?case by simp
next
  case (Cons d ds)
  then have "radix_val r ds + 1 \<le> r ^ length ds" by simp
  then have "r * (radix_val r ds + 1) \<le> r * r ^ length ds" by (rule mult_le_mono2)
  with Cons.prems show ?case by simp
qed

lemma normal_val_ge: "normal r ds \<Longrightarrow> ds \<noteq> [] \<Longrightarrow> r ^ (length ds - 1) \<le> radix_val r ds"
proof (induction ds)
  case Nil
  then show ?case by simp
next
  case (Cons d ds)
  show ?case
  proof (cases "ds = []")
    case True
    with Cons.prems show ?thesis by (simp add: normal_def)
  next
    case False
    with Cons have "r ^ (length ds - 1) \<le> radix_val r ds" by (blast dest: normal_tl)
    then have "r * r ^ (length ds - 1) \<le> r * radix_val r ds" by (rule mult_le_mono2)
    moreover have "r * r ^ (length ds - 1) = r ^ length ds"
      using False by (metis length_greater_0_conv power_minus_mult mult.commute)
    ultimately have "r ^ length ds \<le> r * radix_val r ds" by (simp only:)
    then show ?thesis by simp
  qed
qed

section \<open>What the loops compute\<close>

lemma carry_pass_val:
  "carry_pass r m c ds = (ds', c') \<Longrightarrow>
     length ds' = length ds \<and> radix_val r ds' + r ^ length ds * c' = c + m * radix_val r ds"
proof (induction ds arbitrary: c ds' c')
  case Nil
  then show ?case by simp
next
  case (Cons d ds)
  obtain es e where es: "carry_pass r m ((c + d * m) div r) ds = (es, e)"
    by (cases "carry_pass r m ((c + d * m) div r) ds") auto
  with Cons.prems have ds': "ds' = (c + d * m) mod r # es" "c' = e"
    by (auto simp: Let_def)
  have ih: "length es = length ds"
      "radix_val r es + r ^ length ds * e = (c + d * m) div r + m * radix_val r ds"
    using Cons.IH [OF es] by simp_all
  have "radix_val r ds' + r ^ length (d # ds) * c'
      = (c + d * m) mod r + r * (radix_val r es + r ^ length ds * e)"
    using ds' by (simp add: algebra_simps)
  also have "\<dots> = (c + d * m) mod r + r * ((c + d * m) div r) + r * m * radix_val r ds"
    by (simp only: ih) (simp add: algebra_simps)
  also have "\<dots> = c + d * m + r * m * radix_val r ds" by simp
  finally show ?case using ds' ih(1) by (simp add: algebra_simps)
qed

lemma carry_pass_less:
  "carry_pass r m c ds = (ds', c') \<Longrightarrow> 0 < r \<Longrightarrow> \<forall>d \<in> set ds'. d < r"
  by (induction ds arbitrary: c ds' c') (auto simp: Let_def split: prod.splits)

lemma push_carry_props:
  "1 < r \<Longrightarrow> radix_val r (push_carry r c) = c \<and> normal r (push_carry r c)"
proof (induction r c rule: push_carry.induct)
  case (1 r c)
  show ?case
  proof (cases "c = 0")
    case True
    then show ?thesis by (simp add: push_carry.simps)
  next
    case False
    with 1 have ih: "radix_val r (push_carry r (c div r)) = c div r"
        "normal r (push_carry r (c div r))"
      by simp_all
    have "last (c mod r # push_carry r (c div r)) \<noteq> 0"
    proof (cases "push_carry r (c div r) = []")
      case True
      then have "c div r = 0" using ih(1) by simp
      then have "c mod r = c" by (metis div_mult_mod_eq mult_0 add_0)
      with True False show ?thesis by simp
    next
      case False
      with ih(2) show ?thesis by (simp add: normal_def)
    qed
    with False 1(2) ih show ?thesis
      by (subst (1 2) push_carry.simps) (simp add: normal_def)
  qed
qed

lemma radix_val_snoc_le:
  "es \<noteq> [] \<Longrightarrow> last es = 0 \<Longrightarrow> (\<forall>d \<in> set es. d < r) \<Longrightarrow> radix_val r es < r ^ (length es - 1)"
proof -
  assume h: "es \<noteq> []" "last es = 0" "\<forall>d \<in> set es. d < r"
  then have e: "es = butlast es @ [0]" by (metis append_butlast_last_id)
  have "radix_val r es = radix_val r (butlast es)" by (subst e) (simp add: radix_val_append)
  moreover have "radix_val r (butlast es) < r ^ length (butlast es)"
    by (rule radix_val_less) (use h(3) in \<open>auto dest: in_set_butlastD\<close>)
  ultimately show ?thesis by simp
qed

text \<open>
  One input symbol: the digits stay normal and their value becomes \<open>m * value + v\<close>.
  A zero first symbol would push nothing, which is why the callers strip leading zeros.
\<close>

lemma radix_step_props:
  assumes "normal r ds" and "1 < r" and "1 \<le> m"
  shows "radix_val r (radix_step r m ds v) = m * radix_val r ds + v \<and> normal r (radix_step r m ds v)"
proof -
  obtain es c where es: "carry_pass r m v ds = (es, c)" by (cases "carry_pass r m v ds") auto
  have len: "length es = length ds"
    and val: "radix_val r es + r ^ length ds * c = v + m * radix_val r ds"
    using carry_pass_val [OF es] by simp_all
  have less: "\<forall>d \<in> set es. d < r" using carry_pass_less [OF es] assms(2) by simp
  have pc: "radix_val r (push_carry r c) = c" "normal r (push_carry r c)"
    using push_carry_props [OF assms(2)] by simp_all
  have eq: "radix_step r m ds v = es @ push_carry r c"
    by (simp add: radix_step_def es)
  have "radix_val r (es @ push_carry r c) = m * radix_val r ds + v"
    using val by (simp add: radix_val_append len pc(1))
  moreover have "normal r (es @ push_carry r c)"
  proof (cases "push_carry r c = []")
    case True
    then have "c = 0" using pc(1) by simp
    have "last es \<noteq> 0" if "es \<noteq> []"
    proof
      assume "last es = 0"
      with that less have "radix_val r es < r ^ (length es - 1)" by (intro radix_val_snoc_le)
      moreover have "ds \<noteq> []" using that len by auto
      then have "r ^ (length ds - 1) \<le> radix_val r ds" by (rule normal_val_ge [OF assms(1)])
      moreover have "radix_val r ds \<le> m * radix_val r ds"
        using mult_le_mono1 [OF assms(3), of "radix_val r ds"] by simp
      moreover have "radix_val r es = v + m * radix_val r ds" using val \<open>c = 0\<close> by simp
      ultimately show False unfolding len by linarith
    qed
    with True less show ?thesis by (simp add: normal_def)
  next
    case False
    with pc(2) less show ?thesis by (auto simp: normal_def)
  qed
  ultimately show ?thesis using eq by simp
qed

definition be_val :: "nat \<Rightarrow> nat list \<Rightarrow> nat" where
  "be_val m vs = foldl (\<lambda>a v. m * a + v) 0 vs"

lemma be_val_rev: "be_val m vs = radix_val m (rev vs)"
proof -
  have "foldl (\<lambda>a v. m * a + v) a vs = radix_val m (rev vs) + m ^ length vs * a" for a
    by (induction vs arbitrary: a) (simp_all add: radix_val_append algebra_simps)
  from this [of 0] show ?thesis by (simp add: be_val_def)
qed

lemma foldl_radix_step:
  assumes "1 < r" and "1 \<le> m"
  shows "radix_val r (foldl (radix_step r m) [] vs) = be_val m vs
       \<and> normal r (foldl (radix_step r m) [] vs)"
proof (induction vs rule: rev_induct)
  case Nil
  show ?case by (simp add: be_val_def)
next
  case (snoc v vs)
  then show ?case
    using radix_step_props [OF _ assms, of "foldl (radix_step r m) [] vs" v]
    by (simp add: be_val_def)
qed

text \<open>Digits of one radix back to symbols of the other: both loops undo each other.\<close>

lemma foldl_radix_inverse:
  assumes "1 < r" "1 < m" and "normal m (rev vs)"
  shows "foldl (radix_step m r) [] (rev (foldl (radix_step r m) [] vs)) = rev vs"
proof (rule normal_unique)
  let ?ds = "foldl (radix_step r m) [] vs"
  have ds: "radix_val r ?ds = be_val m vs" using foldl_radix_step [of r m vs] assms by simp
  have "radix_val m (foldl (radix_step m r) [] (rev ?ds)) = be_val r (rev ?ds)"
    using foldl_radix_step [of m r "rev ?ds"] assms by simp
  also have "\<dots> = radix_val m (rev vs)" by (simp add: be_val_rev ds)
  finally show "radix_val m (foldl (radix_step m r) [] (rev ?ds)) = radix_val m (rev vs)" .
  show "normal m (foldl (radix_step m r) [] (rev ?ds))"
    using foldl_radix_step [of m r] assms by simp
qed (use assms in simp_all)

section \<open>The codec\<close>

lemma ALPHABET_distinct: "distinct ALPHABET"
  by (simp add: ALPHABET_def)

lemma ALPHABET_length [simp]: "length ALPHABET = 58"
  by (simp add: ALPHABET_def)

lemma index_of_Some: "index_of x ys = Some i \<longleftrightarrow> i < length ys \<and> ys ! i = x \<and> x \<notin> set (take i ys)"
proof (induction ys arbitrary: i)
  case Nil
  show ?case by simp
next
  case (Cons y ys)
  then show ?case by (cases i) auto
qed

lemma index_of_None: "index_of x ys = None \<longleftrightarrow> x \<notin> set ys"
  by (induction ys) auto

lemma index_of_nth: "distinct ys \<Longrightarrow> i < length ys \<Longrightarrow> index_of (ys ! i) ys = Some i"
  by (auto simp: index_of_Some in_set_conv_nth nth_eq_iff_index_eq)

lemma ALPHABET_MAP_nth [simp]: "d < 58 \<Longrightarrow> ALPHABET_MAP (ALPHABET ! d) = Some d"
  by (simp add: ALPHABET_MAP_def index_of_nth ALPHABET_distinct)

lemma ALPHABET_MAP_Some: "ALPHABET_MAP c = Some d \<Longrightarrow> d < 58 \<and> ALPHABET ! d = c"
  by (simp add: ALPHABET_MAP_def index_of_Some)

lemma ALPHABET_MAP_None: "ALPHABET_MAP c = None \<longleftrightarrow> c \<notin> set ALPHABET"
  by (simp add: ALPHABET_MAP_def index_of_None)

lemma ALPHABET_zero: "d < 58 \<Longrightarrow> ALPHABET ! d = CHR ''1'' \<longleftrightarrow> d = 0"
proof -
  assume "d < 58"
  moreover have "ALPHABET ! 0 = CHR ''1''" by (simp add: ALPHABET_def)
  ultimately show ?thesis
    using nth_eq_iff_index_eq [OF ALPHABET_distinct, of d 0] by simp
qed

text \<open>\<open>decode_loop\<close> is the fold of the symbols' values, or the error.\<close>

lemma decode_loop_map:
  "decode_loop ds (map (\<lambda>d. ALPHABET ! d) vs) = Inr (foldl (radix_step 256 58) ds vs)"
  if "\<forall>v \<in> set vs. v < 58"
  using that by (induction vs arbitrary: ds) simp_all

lemma decode_loop_Inr:
  "decode_loop ds cs = Inr es \<Longrightarrow>
     \<exists>vs. (\<forall>v \<in> set vs. v < 58) \<and> cs = map (\<lambda>d. ALPHABET ! d) vs
        \<and> es = foldl (radix_step 256 58) ds vs"
proof (induction ds cs rule: decode_loop.induct)
  case (1 ds)
  then show ?case by (intro exI [of _ "[]"]) simp
next
  case (2 ds c cs)
  then obtain v where v: "ALPHABET_MAP c = Some v"
      "decode_loop (radix_step 256 58 ds v) cs = Inr es"
    by (auto split: option.splits)
  with 2 obtain vs where "\<forall>v \<in> set vs. v < 58" "cs = map (\<lambda>d. ALPHABET ! d) vs"
      "es = foldl (radix_step 256 58) (radix_step 256 58 ds v) vs"
    by blast
  with v(1) show ?case
    by (intro exI [of _ "v # vs"]) (auto dest: ALPHABET_MAP_Some)
qed

lemma decode_loop_Inl:
  "decode_loop ds cs = Inl e \<longleftrightarrow>
     e = Thrown TypeError ''invalid base58 character'' \<and> (\<exists>c \<in> set cs. c \<notin> set ALPHABET)"
proof (induction ds cs rule: decode_loop.induct)
  case (1 ds)
  show ?case by simp
next
  case (2 ds c cs)
  show ?case
  proof (cases "ALPHABET_MAP c")
    case None
    then have "c \<notin> set ALPHABET" by (simp add: ALPHABET_MAP_None)
    with None show ?thesis by (simp add: eq_commute [of e])
  next
    case (Some v)
    then have "c \<in> set ALPHABET" using ALPHABET_MAP_None [of c] by auto
    with Some 2 show ?thesis by auto
  qed
qed

lemma dropWhile_zero_rev_normal:
  "normal 256 (rev (map unat (dropWhile (\<lambda>b. b = (0::byte)) bs)))"
proof -
  have "hd (dropWhile (\<lambda>b. b = 0) bs) \<noteq> 0" if "dropWhile (\<lambda>b. b = 0) bs \<noteq> []"
    using hd_dropWhile [OF that] by simp
  then show ?thesis
    by (auto simp: normal_def last_rev hd_map unat_eq_0)
qed

lemma drop_takeWhile: "drop (length (takeWhile P xs)) xs = dropWhile P xs"
  by (simp add: dropWhile_eq_drop)

lemma takeWhile_eq_nil_hd: "xs = [] \<or> \<not> P (hd xs) \<Longrightarrow> takeWhile P xs = []"
  by (cases xs) auto

text \<open>The shape of an encoding: leading zeros as ones, then the normal digits.\<close>

lemma encode_shape:
  fixes bs :: bytes
  defines "z \<equiv> length (takeWhile (\<lambda>b. b = 0) bs)"
  defines "ds \<equiv> foldl (radix_step 58 256) [] (map unat (dropWhile (\<lambda>b. b = 0) bs))"
  shows "encodeBase58 bs = replicate z (CHR ''1'') @ map (\<lambda>d. ALPHABET ! d) (rev ds)"
    and "normal 58 ds"
    and "takeWhile (\<lambda>c. c = CHR ''1'') (map (\<lambda>d. ALPHABET ! d) (rev ds)) = []"
proof -
  show "encodeBase58 bs = replicate z (CHR ''1'') @ map (\<lambda>d. ALPHABET ! d) (rev ds)"
    by (simp add: encodeBase58_def z_def ds_def Let_def drop_takeWhile)
  show n: "normal 58 ds"
    unfolding ds_def using foldl_radix_step [of 58 256] by simp
  show "takeWhile (\<lambda>c. c = CHR ''1'') (map (\<lambda>d. ALPHABET ! d) (rev ds)) = []"
  proof (cases "ds = []")
    case False
    with n have "last ds < 58" "last ds \<noteq> 0" by (simp_all add: normal_def)
    then have "ALPHABET ! last ds \<noteq> CHR ''1''" by (simp add: ALPHABET_zero)
    with False show ?thesis
      by (intro takeWhile_eq_nil_hd) (simp add: hd_map hd_rev)
  qed simp
qed

lemma decode_encode_base58: "decodeBase58 (encodeBase58 bs) = Inr bs"
proof -
  let ?z = "length (takeWhile (\<lambda>b. b = 0) bs)"
  let ?nz = "dropWhile (\<lambda>b. b = 0) bs"
  let ?ds = "foldl (radix_step 58 256) [] (map unat ?nz)"
  let ?cs = "map (\<lambda>d. ALPHABET ! d) (rev ?ds)"
  note sh = encode_shape [of bs]
  have zs: "takeWhile (\<lambda>c. c = CHR ''1'') (encodeBase58 bs) = replicate ?z (CHR ''1'')"
    by (simp only: sh(1) takeWhile_replicate_append [of "\<lambda>c. c = CHR ''1''"] sh(3)) simp
  have lt: "\<forall>v \<in> set (rev ?ds). v < 58" using sh(2) by (auto simp: normal_def)
  have "decode_loop [] ?cs = Inr (foldl (radix_step 256 58) [] (rev ?ds))"
    by (rule decode_loop_map [OF lt])
  also have "foldl (radix_step 256 58) [] (rev ?ds) = rev (map unat ?nz)"
    by (rule foldl_radix_inverse) (simp_all add: dropWhile_zero_rev_normal [simplified rev_map] rev_map)
  finally have loop: "decode_loop [] ?cs = Inr (rev (map unat ?nz))" .
  have "bs = replicate ?z 0 @ ?nz"
    by (metis takeWhile_dropWhile_id takeWhile_eq_replicate)
  moreover have "decodeBase58 (encodeBase58 bs) = Inr (replicate ?z 0 @ ?nz)"
    unfolding decodeBase58_def Let_def zs
    by (simp add: sh(1) loop comp_def)
  ultimately show ?thesis by simp
qed

lemma encode_decode_base58:
  assumes "decodeBase58 t = Inr bs"
  shows "encodeBase58 bs = t"
proof -
  let ?z = "length (takeWhile (\<lambda>c. c = CHR ''1'') t)"
  let ?nz = "dropWhile (\<lambda>c. c = CHR ''1'') t"
  from assms obtain es where es: "decode_loop [] ?nz = Inr es"
      "bs = replicate ?z 0 @ map word_of_nat (rev es)"
    by (auto simp: decodeBase58_def Let_def drop_takeWhile bindR_eq_Inr)
  obtain vs where vs: "\<forall>v \<in> set vs. v < 58" "?nz = map (\<lambda>d. ALPHABET ! d) vs"
      "es = foldl (radix_step 256 58) [] vs"
    using decode_loop_Inr [OF es(1)] by blast
  have nes: "normal 256 es" using foldl_radix_step [of 256 58 vs] vs(3) by simp
  then have byt: "map unat (map word_of_nat (rev es) :: bytes) = rev es"
    by (auto simp: normal_def unat_word_of_nat_byte intro!: map_idI)
  have nvs: "normal 58 (rev vs)"
  proof -
    have "hd vs \<noteq> 0" if "vs \<noteq> []"
    proof -
      have "hd ?nz \<noteq> CHR ''1''" using hd_dropWhile [of "\<lambda>c. c = CHR ''1''" t] vs(2) that by auto
      with that vs(1,2) show ?thesis by (auto simp: hd_map ALPHABET_zero)
    qed
    with vs(1) show ?thesis by (auto simp: normal_def last_rev)
  qed
  have "rev es = [] \<or> hd (rev es) \<noteq> 0" using nes by (auto simp: normal_def hd_rev)
  then have hd0: "map word_of_nat (rev es) = [] \<or> hd (map word_of_nat (rev es) :: bytes) \<noteq> 0"
    using byt by (metis hd_map list.map_disc_iff unat_0)
  then have tw: "takeWhile (\<lambda>b. b = 0) bs = replicate ?z 0"
      "dropWhile (\<lambda>b. b = 0) bs = map word_of_nat (rev es)"
    unfolding es(2)
    by (auto simp: takeWhile_replicate_append dropWhile_append takeWhile_eq_nil_hd dropWhile_replicate
        split: if_splits intro: dropWhile_eq_self_iff [THEN iffD2])
  have "foldl (radix_step 58 256) [] (rev es) = rev vs"
    unfolding vs(3) by (rule foldl_radix_inverse) (simp_all add: nvs)
  then have "encodeBase58 bs = replicate ?z (CHR ''1'') @ ?nz"
    by (simp only: encode_shape(1) tw byt length_replicate vs(2) rev_rev_ident)
  also have "\<dots> = t" by (metis takeWhile_dropWhile_id takeWhile_eq_replicate)
  finally show ?thesis .
qed

text \<open>A text codec: what is encoded decodes, and nothing else does.\<close>

locale text_codec =
  fixes enc :: "'a \<Rightarrow> 'b" and dec :: "'b \<Rightarrow> 'a result"
  assumes dec_enc: "dec (enc a) = Inr a"
    and enc_dec: "dec b = Inr a \<Longrightarrow> enc a = b"
begin

lemma enc_inject: "enc a = enc b \<longleftrightarrow> a = b"
  by (metis dec_enc sum.inject(2))

lemma dec_Inr_iff: "dec b = Inr a \<longleftrightarrow> b = enc a"
  using dec_enc enc_dec by blast

lemma dec_inject: "dec b = Inr a \<Longrightarrow> dec c = Inr a \<Longrightarrow> b = c"
  by (metis enc_dec)

end

interpretation b58: text_codec encodeBase58 decodeBase58
  by unfold_locales (rule decode_encode_base58, rule encode_decode_base58)

lemmas encodeBase58_inject [simp] = b58.enc_inject

lemma encodeBase58_alphabet: "set (encodeBase58 bs) \<subseteq> set ALPHABET"
proof -
  have "CHR ''1'' \<in> set ALPHABET" by (simp add: ALPHABET_def)
  with encode_shape(1,2) [of bs] show ?thesis
    by (auto simp: normal_def in_set_replicate intro!: nth_mem)
qed

lemma decodeBase58_Inl:
  "decodeBase58 t = Inl e \<longleftrightarrow>
     e = Thrown TypeError ''invalid base58 character'' \<and> \<not> set t \<subseteq> set ALPHABET"
proof -
  have one: "CHR ''1'' \<in> set ALPHABET" by (simp add: ALPHABET_def)
  have "(\<exists>c \<in> set (dropWhile (\<lambda>c. c = CHR ''1'') t). c \<notin> set ALPHABET) \<longleftrightarrow> \<not> set t \<subseteq> set ALPHABET"
  proof -
    have "set t = set (takeWhile (\<lambda>c. c = CHR ''1'') t) \<union> set (dropWhile (\<lambda>c. c = CHR ''1'') t)"
      by (metis set_append takeWhile_dropWhile_id)
    moreover have "set (takeWhile (\<lambda>c. c = CHR ''1'') t) \<subseteq> {CHR ''1''}"
      by (auto dest: set_takeWhileD)
    ultimately show ?thesis using one by blast
  qed
  then show ?thesis
    by (auto simp: decodeBase58_def Let_def drop_takeWhile bindR_eq_Inl decode_loop_Inl)
qed

section \<open>Length bounds\<close>

text \<open>
  The digit count of the non-zero part: \<open>n\<close> bytes need at least \<open>n\<close> and at most
  \<open>k\<close> symbols whenever \<open>256 ^ n \<le> 58 ^ k\<close>.
\<close>

lemma digits_bounds:
  fixes vs :: "nat list"
  assumes "normal 256 (rev vs)" and "256 ^ length vs \<le> (58::nat) ^ k"
  shows "length vs \<le> length (foldl (radix_step 58 256) [] vs)
       \<and> length (foldl (radix_step 58 256) [] vs) \<le> k"
proof -
  let ?ds = "foldl (radix_step 58 256) [] vs"
  have ds: "radix_val 58 ?ds = radix_val 256 (rev vs)" "normal 58 ?ds"
    using foldl_radix_step [of 58 256 vs] by (simp_all add: be_val_rev)
  have up: "radix_val 256 (rev vs) < 256 ^ length vs"
    using radix_val_less [of "rev vs" 256] assms(1) by (simp add: normal_def)
  have "length ?ds \<le> k"
  proof (cases "?ds = []")
    case False
    then have "58 ^ (length ?ds - 1) \<le> radix_val 58 ?ds" using normal_val_ge [OF ds(2)] by simp
    with up assms(2) ds(1) have "(58::nat) ^ (length ?ds - 1) < 58 ^ k" by linarith
    then have "length ?ds - 1 < k" by (rule power_less_imp_less_exp [rotated]) simp
    then show ?thesis by simp
  qed simp
  moreover have "length vs \<le> length ?ds"
  proof (cases "vs = []")
    case False
    then have "256 ^ (length vs - 1) \<le> radix_val 256 (rev vs)"
      using normal_val_ge [OF assms(1)] by simp
    moreover have "radix_val 58 ?ds < 58 ^ length ?ds"
      using radix_val_less [of ?ds 58] ds(2) by (simp add: normal_def)
    moreover have "(58::nat) ^ (length vs - 1) \<le> 256 ^ (length vs - 1)" by (rule power_mono) simp_all
    ultimately have "(58::nat) ^ (length vs - 1) < 58 ^ length ?ds" using ds(1) by linarith
    then have "length vs - 1 < length ?ds" by (rule power_less_imp_less_exp [rotated]) simp
    then show ?thesis by simp
  qed simp
  ultimately show ?thesis by simp
qed

lemma encodeBase58_length:
  fixes bs :: bytes
  assumes "\<And>n. n \<le> length bs \<Longrightarrow> 256 ^ n \<le> (58::nat) ^ (n + x)"
  shows "length bs \<le> length (encodeBase58 bs) \<and> length (encodeBase58 bs) \<le> length bs + x"
proof -
  let ?z = "length (takeWhile (\<lambda>b. b = 0) bs)"
  let ?nz = "dropWhile (\<lambda>b. b = 0) bs"
  have len: "length bs = ?z + length ?nz"
    by (metis length_append takeWhile_dropWhile_id)
  have n: "normal 256 (rev (map unat ?nz))"
    using dropWhile_zero_rev_normal by (simp add: rev_map)
  have "256 ^ length (map unat ?nz) \<le> (58::nat) ^ (length ?nz + x)"
    using assms [of "length ?nz"] len by simp
  from digits_bounds [OF n this] len show ?thesis
    by (simp add: encode_shape(1))
qed

lemma pow_256_58:
  assumes "n \<le> m" and "256 ^ m \<le> (58::nat) ^ (m + x)"
  shows "256 ^ n \<le> (58::nat) ^ (n + x)"
proof -
  obtain j where j: "m = n + j" using le_Suc_ex [OF assms(1)] by blast
  have "(256::nat) ^ n * 58 ^ j \<le> 256 ^ n * 256 ^ j" by (simp add: power_mono)
  also have "\<dots> \<le> 58 ^ (n + x) * 58 ^ j"
    using assms(2) by (simp add: j power_add algebra_simps)
  finally show ?thesis by simp
qed

text \<open>An address is 32 to 44 symbols, a signature 64 to 88.\<close>

lemma encodeBase58_length_32:
  "length bs = 32 \<Longrightarrow> 32 \<le> length (encodeBase58 bs) \<and> length (encodeBase58 bs) \<le> 44"
  using encodeBase58_length [of bs 12] pow_256_58 [of _ 32 12] by simp

lemma encodeBase58_length_64:
  "length bs = 64 \<Longrightarrow> 64 \<le> length (encodeBase58 bs) \<and> length (encodeBase58 bs) \<le> 88"
  using encodeBase58_length [of bs 24] pow_256_58 [of _ 64 24] by simp

lemma encodeBase58_zeros: "encodeBase58 (replicate n 0) = replicate n CHR ''1''"
proof -
  have "takeWhile (\<lambda>b. b = 0) (replicate n (0::byte)) = replicate n 0"
    by (induction n) simp_all
  then show ?thesis by (simp add: encodeBase58_def ALPHABET_def Let_def)
qed

end
