(* ===== verification/Hashing.thy ===== *)
theory Hashing
  imports Base58
begin

text \<open>
  Deterministic identifiers (\<open>sdk/src/reputation/hashing.ts\<close>). SHA-256 itself is code of
  \<open>node:crypto\<close>, not of this repository: it is the parameter \<open>sha\<close> of every definition
  that hashes. The lemmas show that the hashed messages determine the chain coordinates
  they are built from, so that two identifiers agree only when the 160 hash bits kept do.
\<close>

definition EVENT_DOMAIN :: string where "EVENT_DOMAIN = ''ppv-reputation-event:v1''"
definition RECEIPT_DOMAIN :: string where "RECEIPT_DOMAIN = ''ppv-receipt:v1''"
definition ID_HEX_LENGTH :: nat where "ID_HEX_LENGTH = 40"

definition sha256Hex :: "(bytes \<Rightarrow> bytes) \<Rightarrow> string \<Rightarrow> string" where
  "sha256Hex sha input = hex (sha (utf8 input))"

record chain_key =
  ck_transactionSignature :: string
  ck_instructionIndex :: int
  ck_innerInstructionIndex :: "int option"

definition chainIdempotencyKey :: "chain_key \<Rightarrow> string" where
  "chainIdempotencyKey key =
     ck_transactionSignature key @ '':'' @ dec_int (ck_instructionIndex key) @ '':''
       @ (case ck_innerInstructionIndex key of None \<Rightarrow> ''-'' | Some i \<Rightarrow> dec_int i)"

definition chain_message :: "chain_key \<Rightarrow> string \<Rightarrow> string" where
  "chain_message key eventType =
     EVENT_DOMAIN @ ''|chain|'' @ chainIdempotencyKey key @ ''|'' @ eventType"

definition chainEventId :: "(bytes \<Rightarrow> bytes) \<Rightarrow> chain_key \<Rightarrow> string \<Rightarrow> string" where
  "chainEventId sha key eventType =
     (let digest = sha256Hex sha (chain_message key eventType)
      in ''evt_'' @ take ID_HEX_LENGTH digest)"

record product_key = chain_key +
  pk_eventType :: string
  pk_sourceProduct :: string
  pk_sourceObjectId :: string
  pk_deliverableId :: string

definition product_message :: "product_key \<Rightarrow> string" where
  "product_message key =
     EVENT_DOMAIN @ ''|product|'' @ chainIdempotencyKey (chain_key.truncate key) @ ''|''
       @ pk_eventType key @ ''|'' @ pk_sourceProduct key @ ''|''
       @ pk_sourceObjectId key @ ''|'' @ pk_deliverableId key"

definition productEventId :: "(bytes \<Rightarrow> bytes) \<Rightarrow> product_key \<Rightarrow> string" where
  "productEventId sha key =
     (let digest = sha256Hex sha (product_message key)
      in ''evt_'' @ take ID_HEX_LENGTH digest)"

definition receipt_message :: "string \<Rightarrow> string \<Rightarrow> string \<Rightarrow> string" where
  "receipt_message eventId holderWallet role =
     RECEIPT_DOMAIN @ ''|'' @ eventId @ ''|'' @ holderWallet @ ''|'' @ role"

definition receiptId :: "(bytes \<Rightarrow> bytes) \<Rightarrow> string \<Rightarrow> string \<Rightarrow> string \<Rightarrow> string" where
  "receiptId sha eventId holderWallet role =
     (let digest = sha256Hex sha (receipt_message eventId holderWallet role)
      in ''rcpt_'' @ take ID_HEX_LENGTH digest)"

definition anchorDiscriminator :: "(bytes \<Rightarrow> bytes) \<Rightarrow> string \<Rightarrow> string \<Rightarrow> bytes" where
  "anchorDiscriminator sha namespace name = take 8 (sha (utf8 (namespace @ '':'' @ name)))"

section \<open>The keys and messages determine their parts\<close>

lemma chainIdempotencyKey_inject:
  assumes "CHR '':'' \<notin> set (ck_transactionSignature k)" "CHR '':'' \<notin> set (ck_transactionSignature l)"
  shows "chainIdempotencyKey k = chainIdempotencyKey l \<longleftrightarrow>
    ck_transactionSignature k = ck_transactionSignature l \<and> ck_instructionIndex k = ck_instructionIndex l
    \<and> ck_innerInstructionIndex k = ck_innerInstructionIndex l"
proof -
  have colon: "CHR '':'' \<notin> set (dec_int i)" for i
    by (rule dec_int_not_in) (simp_all add: is_digit_def)
  have "(case a of None \<Rightarrow> ''-'' | Some i \<Rightarrow> dec_int i) = (case b of None \<Rightarrow> ''-'' | Some i \<Rightarrow> dec_int i)
      \<longleftrightarrow> a = b" for a b :: "int option"
    by (auto split: option.splits dest: dec_int_not_dash [THEN notE] sym)
  with assms colon show ?thesis
    by (simp add: chainIdempotencyKey_def sep_inject)
qed

lemma chainIdempotencyKey_chars:
  "c \<in> set (chainIdempotencyKey k) \<Longrightarrow>
     c \<in> set (ck_transactionSignature k) \<or> c = CHR '':'' \<or> c = CHR ''-'' \<or> is_digit c"
  using dec_int_chars by (auto simp: chainIdempotencyKey_def split: option.splits)

lemma chainIdempotencyKey_no_bar:
  "CHR ''|'' \<notin> set (ck_transactionSignature k) \<Longrightarrow> CHR ''|'' \<notin> set (chainIdempotencyKey k)"
  by (auto dest!: chainIdempotencyKey_chars simp: is_digit_def)

text \<open>A transaction signature as the chain shows it: base58 text, free of separators.\<close>

lemma base58_no_separator:
  "CHR '':'' \<notin> set (encodeBase58 bs)" "CHR ''|'' \<notin> set (encodeBase58 bs)"
  using encodeBase58_alphabet [of bs] by (auto simp: ALPHABET_def)

lemma chain_message_inject:
  assumes "CHR '':'' \<notin> set (ck_transactionSignature k)" "CHR '':'' \<notin> set (ck_transactionSignature l)"
    and "CHR ''|'' \<notin> set (ck_transactionSignature k)" "CHR ''|'' \<notin> set (ck_transactionSignature l)"
  shows "chain_message k t = chain_message l u \<longleftrightarrow>
    ck_transactionSignature k = ck_transactionSignature l \<and> ck_instructionIndex k = ck_instructionIndex l
    \<and> ck_innerInstructionIndex k = ck_innerInstructionIndex l \<and> t = u"
  using assms
  by (simp add: chain_message_def sep_inject chainIdempotencyKey_no_bar chainIdempotencyKey_inject)

lemma receipt_message_inject:
  assumes "CHR ''|'' \<notin> set e" "CHR ''|'' \<notin> set e'" "CHR ''|'' \<notin> set w" "CHR ''|'' \<notin> set w'"
  shows "receipt_message e w r = receipt_message e' w' r' \<longleftrightarrow> e = e' \<and> w = w' \<and> r = r'"
  using assms by (simp add: receipt_message_def sep_inject)

lemma hex_not_in: "\<not> is_lower_hex c \<Longrightarrow> c \<notin> set (hex bs)"
  using hex_chars by blast

lemma take_hex: "take (2 * n) (hex bs) = hex (take n bs)"
  by (induction bs arbitrary: n) (auto simp: hex_Cons take_Cons hex_byte_def split: nat.splits)

lemma id_prefix: "take ID_HEX_LENGTH (sha256Hex sha m) = hex (take 20 (sha (utf8 m)))"
  using take_hex [of 20 "sha (utf8 m)"] by (simp add: sha256Hex_def ID_HEX_LENGTH_def)

lemma chainEventId_eq:
  "chainEventId sha k t = chainEventId sha l u \<longleftrightarrow>
    take 20 (sha (utf8 (chain_message k t))) = take 20 (sha (utf8 (chain_message l u)))"
  by (simp add: chainEventId_def Let_def id_prefix)

lemma receiptId_eq:
  "receiptId sha e w r = receiptId sha e' w' r' \<longleftrightarrow>
    take 20 (sha (utf8 (receipt_message e w r))) = take 20 (sha (utf8 (receipt_message e' w' r')))"
  by (simp add: receiptId_def Let_def id_prefix)

lemma chainEventId_no_bar: "CHR ''|'' \<notin> set (chainEventId sha k t)"
  by (simp add: chainEventId_def Let_def id_prefix hex_not_in is_lower_hex_def)

text \<open>A chain message never equals a product message: the domains are separated.\<close>

lemma domains_separate: "chain_message k t \<noteq> product_message p"
  by (simp add: chain_message_def product_message_def)

lemma length_anchorDiscriminator:
  "8 \<le> length (sha (utf8 (n @ '':'' @ x))) \<Longrightarrow> length (anchorDiscriminator sha n x) = 8"
  by (simp add: anchorDiscriminator_def)

end
