(* ===== verification/States.thy ===== *)
theory States
  imports Prelude
begin

text \<open>
  The escrow lifecycle as the client sees it (\<open>sdk/src/escrow/states.ts\<close>): the state
  enumerations, their decoding from an index byte, the transition table and the questions
  asked of it. Two step relations, read off the tables, say how an agreement and a
  milestone move; the lemmas are invariants of their runs.
\<close>

datatype agreement_state =
    Open | Funded | Completed | Settled | Cancelled | Disputed | Refunded

definition AGREEMENT_STATES :: "agreement_state list" where
  "AGREEMENT_STATES = [Open, Funded, Completed, Settled, Cancelled, Disputed, Refunded]"

datatype agreement_type =
    Escrow | Invoice | Contract | MilestoneContract | Bounty | ProofOnly

definition AGREEMENT_TYPES :: "agreement_type list" where
  "AGREEMENT_TYPES = [Escrow, Invoice, Contract, MilestoneContract, Bounty, ProofOnly]"

definition IMPLEMENTED_AGREEMENT_TYPES :: "agreement_type list" where
  "IMPLEMENTED_AGREEMENT_TYPES = [Escrow, MilestoneContract, Bounty]"

datatype proof_status = Proof_Submitted | Proof_Approved | Proof_Rejected

definition PROOF_STATUSES :: "proof_status list" where
  "PROOF_STATUSES = [Proof_Submitted, Proof_Approved, Proof_Rejected]"

datatype milestone_state =
    Milestone_Pending | Milestone_Submitted | Milestone_Approved | Milestone_Settled

definition MILESTONE_STATES :: "milestone_state list" where
  "MILESTONE_STATES =
     [Milestone_Pending, Milestone_Submitted, Milestone_Approved, Milestone_Settled]"

datatype dispute_outcome = SellerPaid | BuyerRefunded

definition DISPUTE_OUTCOMES :: "dispute_outcome list" where
  "DISPUTE_OUTCOMES = [SellerPaid, BuyerRefunded]"

text \<open>
  Reading past the end of a JavaScript array gives \<open>undefined\<close>; the five decoders of an
  index share this shape and differ in the table and in the text of the error.
\<close>

definition from_index :: "'a list \<Rightarrow> string \<Rightarrow> int \<Rightarrow> 'a result" where
  "from_index names what i =
     (if 0 \<le> i \<and> nat i < length names then Inr (names ! nat i)
      else throw RangeError (''unknown '' @ what @ '' '' @ dec_int i))"

definition proofStatusFromIndex :: "int \<Rightarrow> proof_status result" where
  "proofStatusFromIndex = from_index PROOF_STATUSES ''proof status''"

definition milestoneStateFromIndex :: "int \<Rightarrow> milestone_state result" where
  "milestoneStateFromIndex = from_index MILESTONE_STATES ''milestone state''"

definition disputeOutcomeFromIndex :: "int \<Rightarrow> dispute_outcome result" where
  "disputeOutcomeFromIndex = from_index DISPUTE_OUTCOMES ''dispute outcome''"

definition agreementStateFromIndex :: "int \<Rightarrow> agreement_state result" where
  "agreementStateFromIndex = from_index AGREEMENT_STATES ''agreement state''"

definition agreementTypeFromIndex :: "int \<Rightarrow> agreement_type result" where
  "agreementTypeFromIndex = from_index AGREEMENT_TYPES ''agreement type''"

section \<open>Milestones\<close>

datatype milestone_action =
    submit_milestone | approve_milestone | reject_milestone | settle_milestone

datatype signer_role = by_buyer | by_seller | either_party | conceding_party

fun MILESTONE_TRANSITIONS :: "milestone_action \<Rightarrow> milestone_state \<times> milestone_state" where
  "MILESTONE_TRANSITIONS submit_milestone = (Milestone_Pending, Milestone_Submitted)"
| "MILESTONE_TRANSITIONS approve_milestone = (Milestone_Submitted, Milestone_Approved)"
| "MILESTONE_TRANSITIONS reject_milestone = (Milestone_Submitted, Milestone_Pending)"
| "MILESTONE_TRANSITIONS settle_milestone = (Milestone_Approved, Milestone_Settled)"

fun MILESTONE_ACTION_SIGNER :: "milestone_action \<Rightarrow> signer_role" where
  "MILESTONE_ACTION_SIGNER submit_milestone = by_seller"
| "MILESTONE_ACTION_SIGNER approve_milestone = by_buyer"
| "MILESTONE_ACTION_SIGNER reject_milestone = by_buyer"
| "MILESTONE_ACTION_SIGNER settle_milestone = either_party"

definition isLegalMilestoneTransition :: "milestone_state \<Rightarrow> milestone_action \<Rightarrow> bool" where
  "isLegalMilestoneTransition st act \<longleftrightarrow> fst (MILESTONE_TRANSITIONS act) = st"

definition milestoneStateAfter :: "milestone_state \<Rightarrow> milestone_action \<Rightarrow> milestone_state option" where
  "milestoneStateAfter st act =
     (if isLegalMilestoneTransition st act then Some (snd (MILESTONE_TRANSITIONS act)) else None)"

section \<open>Agreements\<close>

datatype escrow_action =
    select_counterparty | fund | mark_completed | settle | cancel | open_dispute
  | resolve_dispute | refund

definition ESCROW_ACTIONS :: "escrow_action list" where
  "ESCROW_ACTIONS =
     [select_counterparty, fund, mark_completed, settle, cancel, open_dispute,
      resolve_dispute, refund]"

fun TRANSITIONS :: "escrow_action \<Rightarrow> agreement_state list \<times> agreement_state list" where
  "TRANSITIONS select_counterparty = ([Open, Funded], [Open, Funded])"
| "TRANSITIONS fund = ([Open], [Funded])"
| "TRANSITIONS mark_completed = ([Funded], [Completed])"
| "TRANSITIONS settle = ([Completed], [Settled])"
| "TRANSITIONS cancel = ([Open], [Cancelled])"
| "TRANSITIONS open_dispute = ([Funded, Completed], [Disputed])"
| "TRANSITIONS resolve_dispute = ([Disputed], [Settled, Refunded])"
| "TRANSITIONS refund = ([Funded, Completed], [Refunded])"

fun ACTION_SIGNER :: "escrow_action \<Rightarrow> signer_role" where
  "ACTION_SIGNER select_counterparty = by_buyer"
| "ACTION_SIGNER fund = by_buyer"
| "ACTION_SIGNER mark_completed = by_seller"
| "ACTION_SIGNER settle = either_party"
| "ACTION_SIGNER cancel = by_buyer"
| "ACTION_SIGNER open_dispute = either_party"
| "ACTION_SIGNER resolve_dispute = conceding_party"
| "ACTION_SIGNER refund = by_seller"

definition isTerminal :: "agreement_state \<Rightarrow> bool" where
  "isTerminal st \<longleftrightarrow> st = Settled \<or> st = Cancelled \<or> st = Refunded"

definition isLegalTransition :: "agreement_state \<Rightarrow> escrow_action \<Rightarrow> bool" where
  "isLegalTransition st act \<longleftrightarrow> List.member (fst (TRANSITIONS act)) st"

definition stateAfter :: "agreement_state \<Rightarrow> escrow_action \<Rightarrow> agreement_state option" where
  "stateAfter st act =
     (if \<not> isLegalTransition st act then None
      else let destinations = snd (TRANSITIONS act)
           in if length destinations = 1 then Some (destinations ! 0) else None)"

definition legalActions :: "agreement_state \<Rightarrow> escrow_action list" where
  "legalActions st = filter (isLegalTransition st) ESCROW_ACTIONS"

section \<open>Runs\<close>

text \<open>
  One move of an agreement, as the table and its comments describe it: the destination is
  one the action lists, and the one action that does not move the agreement leaves it.
\<close>

inductive agreement_step :: "agreement_state \<Rightarrow> escrow_action \<Rightarrow> agreement_state \<Rightarrow> bool" where
  moving: "isLegalTransition s a \<Longrightarrow> a \<noteq> select_counterparty \<Longrightarrow>
    List.member (snd (TRANSITIONS a)) t \<Longrightarrow> agreement_step s a t"
| staying: "isLegalTransition s select_counterparty \<Longrightarrow> agreement_step s select_counterparty s"

inductive agreement_run :: "agreement_state \<Rightarrow> escrow_action list \<Rightarrow> agreement_state \<Rightarrow> bool" where
  run_start: "agreement_run s [] s"
| run_step: "agreement_run s as t \<Longrightarrow> agreement_step t a u \<Longrightarrow> agreement_run s (as @ [a]) u"

inductive milestone_run :: "milestone_state \<Rightarrow> milestone_action list \<Rightarrow> milestone_state \<Rightarrow> bool" where
  m_start: "milestone_run s [] s"
| m_step: "milestone_run s as t \<Longrightarrow> milestoneStateAfter t a = Some u \<Longrightarrow> milestone_run s (as @ [a]) u"

inductive_simps agreement_step_simps: "agreement_step s a t"
inductive_cases agreement_run_snocE: "agreement_run s (as @ [a]) u"

fun progress :: "agreement_state \<Rightarrow> nat" where
  "progress Open = 0"
| "progress Funded = 1"
| "progress Completed = 2"
| "progress Disputed = 3"
| "progress _ = 4"

definition funded_once :: "agreement_state \<Rightarrow> bool" where
  "funded_once st \<longleftrightarrow> st \<noteq> Open \<and> st \<noteq> Cancelled"

lemma isLegalTransition_cases [simp]:
  "isLegalTransition s select_counterparty \<longleftrightarrow> s = Open \<or> s = Funded"
  "isLegalTransition s fund \<longleftrightarrow> s = Open"
  "isLegalTransition s mark_completed \<longleftrightarrow> s = Funded"
  "isLegalTransition s settle \<longleftrightarrow> s = Completed"
  "isLegalTransition s cancel \<longleftrightarrow> s = Open"
  "isLegalTransition s open_dispute \<longleftrightarrow> s = Funded \<or> s = Completed"
  "isLegalTransition s resolve_dispute \<longleftrightarrow> s = Disputed"
  "isLegalTransition s refund \<longleftrightarrow> s = Funded \<or> s = Completed"
  by (auto simp: isLegalTransition_def)

lemma agreement_step_cases [simp]:
  "agreement_step s select_counterparty t \<longleftrightarrow> t = s \<and> (s = Open \<or> s = Funded)"
  "agreement_step s fund t \<longleftrightarrow> s = Open \<and> t = Funded"
  "agreement_step s mark_completed t \<longleftrightarrow> s = Funded \<and> t = Completed"
  "agreement_step s settle t \<longleftrightarrow> s = Completed \<and> t = Settled"
  "agreement_step s cancel t \<longleftrightarrow> s = Open \<and> t = Cancelled"
  "agreement_step s open_dispute t \<longleftrightarrow> (s = Funded \<or> s = Completed) \<and> t = Disputed"
  "agreement_step s resolve_dispute t \<longleftrightarrow> s = Disputed \<and> (t = Settled \<or> t = Refunded)"
  "agreement_step s refund t \<longleftrightarrow> (s = Funded \<or> s = Completed) \<and> t = Refunded"
  by (auto simp: agreement_step_simps)

lemma step_progress:
  "agreement_step s a t \<Longrightarrow> a \<noteq> select_counterparty \<Longrightarrow> progress s < progress t"
  by (cases a) auto

lemma step_progress_le: "agreement_step s a t \<Longrightarrow> progress s \<le> progress t"
  by (cases a) auto

lemma run_progress:
  "agreement_run s as t \<Longrightarrow>
     progress s + length (filter (\<lambda>a. a \<noteq> select_counterparty) as) \<le> progress t"
proof (induction rule: agreement_run.induct)
  case (run_step s as t a u)
  then show ?case
    using step_progress [of t a u] step_progress_le [of t a u] by fastforce
qed simp

lemma progress_le_4: "progress s \<le> 4"
  by (cases s) simp_all

lemma terminal_no_step: "isTerminal t \<longleftrightarrow> (\<forall>a u. \<not> agreement_step t a u)"
proof
  assume "isTerminal t"
  then have "\<not> agreement_step t a u" for a u
    by (cases a) (auto simp: isTerminal_def)
  then show "\<forall>a u. \<not> agreement_step t a u" by blast
next
  assume stuck: "\<forall>a u. \<not> agreement_step t a u"
  then have "\<not> agreement_step t fund Funded" "\<not> agreement_step t refund Refunded"
    "\<not> agreement_step t resolve_dispute Settled" by blast+
  then show "isTerminal t" by (cases t) (simp_all add: isTerminal_def)
qed

lemma run_funds:
  "agreement_run s as t \<Longrightarrow> s = Open \<Longrightarrow>
     count (mset as) fund = (if funded_once t then 1 else 0)"
proof (induction rule: agreement_run.induct)
  case (run_step s as t a u)
  then show ?case by (cases a) (auto simp: funded_once_def split: if_splits)
qed (simp add: funded_once_def)

lemma milestoneStateAfter_cases [simp]:
  "milestoneStateAfter s submit_milestone = Some t \<longleftrightarrow> s = Milestone_Pending \<and> t = Milestone_Submitted"
  "milestoneStateAfter s approve_milestone = Some t \<longleftrightarrow> s = Milestone_Submitted \<and> t = Milestone_Approved"
  "milestoneStateAfter s reject_milestone = Some t \<longleftrightarrow> s = Milestone_Submitted \<and> t = Milestone_Pending"
  "milestoneStateAfter s settle_milestone = Some t \<longleftrightarrow> s = Milestone_Approved \<and> t = Milestone_Settled"
  by (auto simp: milestoneStateAfter_def isLegalMilestoneTransition_def)

lemma milestone_run_counts:
  "milestone_run s as t \<Longrightarrow> s = Milestone_Pending \<Longrightarrow>
     count (mset as) submit_milestone
       = count (mset as) reject_milestone + (if t = Milestone_Pending then 0 else 1)
     \<and> count (mset as) approve_milestone
       = (if t = Milestone_Approved \<or> t = Milestone_Settled then 1 else 0)
     \<and> count (mset as) settle_milestone = (if t = Milestone_Settled then 1 else 0)"
proof (induction rule: milestone_run.induct)
  case (m_step s as t a u)
  then show ?case by (cases a) auto
qed simp

lemma from_index_Inr_iff:
  "from_index names what i = Inr x \<longleftrightarrow> 0 \<le> i \<and> nat i < length names \<and> x = names ! nat i"
  by (auto simp: from_index_def)

lemma from_index_Inl_iff:
  "from_index names what i = Inl e \<longleftrightarrow>
     (i < 0 \<or> int (length names) \<le> i) \<and> e = Thrown RangeError (''unknown '' @ what @ '' '' @ dec_int i)"
  by (auto simp: from_index_def)

section \<open>Properties\<close>

text \<open>
  C4: From \<open>Open\<close>, however an agreement is driven along the table, it has been funded
  exactly once in every state but \<open>Open\<close> and \<open>Cancelled\<close>, where it never was; it makes at
  most four moves, and in a terminal state no action is legal any more.
\<close>

theorem agreement_run_bounded:
  "agreement_run Open as t \<Longrightarrow>
     count (mset as) fund = (if t = Open \<or> t = Cancelled then 0 else 1)
     \<and> length (filter (\<lambda>a. a \<noteq> select_counterparty) as) \<le> 4
     \<and> (isTerminal t \<longleftrightarrow> (\<forall>a u. \<not> agreement_step t a u))"
proof (intro conjI)
  assume run: "agreement_run Open as t"
  show "count (mset as) fund = (if t = Open \<or> t = Cancelled then 0 else 1)"
    using run_funds [OF run] by (auto simp: funded_once_def)
  show "length (filter (\<lambda>a. a \<noteq> select_counterparty) as) \<le> 4"
    using run_progress [OF run] progress_le_4 [of t] by simp
  show "isTerminal t \<longleftrightarrow> (\<forall>a u. \<not> agreement_step t a u)"
    by (rule terminal_no_step)
qed

theorem agreement_run_bounded_witness:
  "count (mset [fund, open_dispute, resolve_dispute]) fund = 1 \<and> isTerminal Refunded"
proof -
  have "agreement_run Open ([] @ [fund]) Funded"
    by (rule run_step [OF run_start]) simp
  then have "agreement_run Open (([] @ [fund]) @ [open_dispute]) Disputed"
    by (rule run_step) simp
  then have "agreement_run Open ((([] @ [fund]) @ [open_dispute]) @ [resolve_dispute]) Refunded"
    by (rule run_step) simp
  then have "count (mset [fund, open_dispute, resolve_dispute]) fund = 1"
    using agreement_run_bounded [of "[fund, open_dispute, resolve_dispute]" Refunded] by simp
  then show ?thesis by (simp add: isTerminal_def)
qed

text \<open>
  The questions a client asks answer for the step relation: \<open>legalActions\<close> lists the
  actions that have a move, each once and in the table's order; a state is terminal exactly
  when the list is empty; and \<open>stateAfter\<close> gives the destination of every move except for
  the two actions whose destination the action alone does not fix.
\<close>

theorem legalActions_complete:
  "set (legalActions s) = {a. \<exists>t. agreement_step s a t}
   \<and> distinct (legalActions s)
   \<and> (legalActions s = [] \<longleftrightarrow> isTerminal s)
   \<and> (\<forall>a t. stateAfter s a = Some t \<longleftrightarrow>
        agreement_step s a t \<and> a \<noteq> select_counterparty \<and> a \<noteq> resolve_dispute)"
proof (intro conjI allI)
  have "agreement_step s a (hd (snd (TRANSITIONS a))) \<or> agreement_step s a s \<longleftrightarrow> isLegalTransition s a" for a
    by (cases a) auto
  moreover have "agreement_step s a t \<Longrightarrow> isLegalTransition s a" for a t
    by (auto simp: agreement_step_simps)
  moreover have "a \<in> set ESCROW_ACTIONS" for a by (cases a) (simp_all add: ESCROW_ACTIONS_def)
  ultimately show "set (legalActions s) = {a. \<exists>t. agreement_step s a t}"
    unfolding legalActions_def set_filter by blast
  show "distinct (legalActions s)"
    by (simp add: legalActions_def ESCROW_ACTIONS_def)
  show "legalActions s = [] \<longleftrightarrow> isTerminal s"
    by (cases s) (simp_all add: legalActions_def ESCROW_ACTIONS_def isTerminal_def)
  show "stateAfter s a = Some t \<longleftrightarrow>
      agreement_step s a t \<and> a \<noteq> select_counterparty \<and> a \<noteq> resolve_dispute" for a t
    by (cases a) (auto simp: stateAfter_def)
qed

text \<open>
  C9: A milestone that reached its end was submitted once more than it was refused, was
  approved once and paid once: no run pays a tranche twice or without an approval.
\<close>

theorem milestone_paid_once:
  "milestone_run Milestone_Pending as Milestone_Settled \<Longrightarrow>
     count (mset as) settle_milestone = 1 \<and> count (mset as) approve_milestone = 1
     \<and> count (mset as) submit_milestone = count (mset as) reject_milestone + 1"
  using milestone_run_counts by fastforce

theorem milestone_paid_once_witness:
  "count (mset [submit_milestone, reject_milestone, submit_milestone, approve_milestone,
     settle_milestone]) submit_milestone = 1 + 1"
proof -
  have "milestone_run Milestone_Pending
      ((((([] @ [submit_milestone]) @ [reject_milestone]) @ [submit_milestone])
        @ [approve_milestone]) @ [settle_milestone]) Milestone_Settled"
    by (rule m_step [OF m_step [OF m_step [OF m_step [OF m_step [OF m_start]]]]]) simp_all
  from milestone_paid_once [OF this] show ?thesis by simp
qed

end
