(* ===== verification/Reader.thy ===== *)
theory Reader
  imports Base58 States
begin

text \<open>
  The borsh reader shared by the account and event decoders
  (\<open>sdk/src/escrow/reader.ts\<close>): its state is the buffer and the offset, every operation
  either throws or returns what it read and the advanced reader. \<open>codec\<close> is the contract
  of one field reader: it succeeds exactly on the encoding of a valid value and consumes
  exactly that. Each reader below is an interpretation of it, so a decoder built from them
  succeeds exactly on the concatenation of the encodings.
\<close>

record reader =
  rd_bytes :: bytes
  rd_offset :: nat

definition BorshReader :: "bytes \<Rightarrow> reader" where
  "BorshReader bs = \<lparr>rd_bytes = bs, rd_offset = 0\<rparr>"

definition remaining :: "reader \<Rightarrow> int" where
  "remaining r = int (length (rd_bytes r)) - int (rd_offset r)"

definition take_bytes :: "nat \<Rightarrow> reader \<Rightarrow> (bytes \<times> reader) result" where
  "take_bytes n r =
     (if length (rd_bytes r) < rd_offset r + n then throw RangeError ''escrow data truncated''
      else Inr (take n (drop (rd_offset r) (rd_bytes r)), r\<lparr>rd_offset := rd_offset r + n\<rparr>))"

definition read_pubkey :: "reader \<Rightarrow> (string \<times> reader) result" where
  "read_pubkey r = bindR (take_bytes 32 r) (\<lambda>(bs, r). Inr (encodeBase58 bs, r))"

definition read_hex :: "nat \<Rightarrow> reader \<Rightarrow> (string \<times> reader) result" where
  "read_hex n r = bindR (take_bytes n r) (\<lambda>(bs, r). Inr (hex bs, r))"

definition u8 :: "reader \<Rightarrow> (int \<times> reader) result" where
  "u8 r = bindR (take_bytes 1 r) (\<lambda>(bs, r). Inr (uint (bs ! 0), r))"

definition u32 :: "reader \<Rightarrow> (int \<times> reader) result" where
  "u32 r = bindR (take_bytes 4 r) (\<lambda>(bs, r). Inr (int (le_nat bs), r))"

definition u64 :: "reader \<Rightarrow> (int \<times> reader) result" where
  "u64 r = bindR (take_bytes 8 r) (\<lambda>(bs, r). Inr (int (le_nat bs), r))"

text \<open>\<open>getBigInt64\<close> is the two's complement reading.\<close>

definition signed64 :: "nat \<Rightarrow> int" where
  "signed64 n = (if n < 2 ^ 63 then int n else int n - 2 ^ 64)"

definition i64 :: "reader \<Rightarrow> (int \<times> reader) result" where
  "i64 r = bindR (take_bytes 8 r) (\<lambda>(bs, r).
     let value = signed64 (le_nat bs)
     in if value > max_safe_integer \<or> value < - max_safe_integer
        then throw RangeError ''i64 outside safe integer range''
        else Inr (value, r))"

definition optionalPubkey :: "reader \<Rightarrow> (string option \<times> reader) result" where
  "optionalPubkey r = bindR (u8 r) (\<lambda>(tag, r).
     if tag = 0 then Inr (None, r)
     else if tag \<noteq> 1 then throw RangeError ''invalid Option tag''
     else bindR (read_pubkey r) (\<lambda>(k, r). Inr (Some k, r)))"

text \<open>A state byte: \<open>u8\<close> handed to the table lookup that throws on an unknown index.\<close>

definition read_enum :: "(int \<Rightarrow> 'a result) \<Rightarrow> reader \<Rightarrow> ('a \<times> reader) result" where
  "read_enum fromIndex r = bindR (u8 r) (\<lambda>(i, r). bindR (fromIndex i) (\<lambda>s. Inr (s, r)))"

definition read_state :: "reader \<Rightarrow> (agreement_state \<times> reader) result" where
  "read_state = read_enum agreementStateFromIndex"

definition read_agreementType :: "reader \<Rightarrow> (agreement_type \<times> reader) result" where
  "read_agreementType = read_enum agreementTypeFromIndex"

definition read_proofStatus :: "reader \<Rightarrow> (proof_status \<times> reader) result" where
  "read_proofStatus = read_enum proofStatusFromIndex"

definition read_disputeOutcome :: "reader \<Rightarrow> (dispute_outcome \<times> reader) result" where
  "read_disputeOutcome = read_enum disputeOutcomeFromIndex"

definition read_milestoneState :: "reader \<Rightarrow> (milestone_state \<times> reader) result" where
  "read_milestoneState = read_enum milestoneStateFromIndex"

definition rest :: "reader \<Rightarrow> bytes" where
  "rest r = drop (rd_offset r) (rd_bytes r)"

definition skip_bytes :: "nat \<Rightarrow> reader \<Rightarrow> reader result" where
  "skip_bytes n r = bindR (take_bytes n r) (\<lambda>(_, r). Inr r)"

fun bytes_loop :: "bytes \<Rightarrow> bytes \<Rightarrow> bool" where
  "bytes_loop (a # as) (b # bs) = (if a \<noteq> b then False else bytes_loop as bs)"
| "bytes_loop _ _ = True"

definition bytesEqual :: "bytes \<Rightarrow> bytes \<Rightarrow> bool" where
  "bytesEqual a b = (if length a \<noteq> length b then False else bytes_loop a b)"

definition assertOnlyUnwrittenSpaceRemains :: "reader \<Rightarrow> string \<Rightarrow> unit result" where
  "assertOnlyUnwrittenSpaceRemains r what =
     (if \<exists>b \<in> set (rest r). b \<noteq> 0 then throw RangeError (what @ '' has trailing bytes'')
      else Inr ())"

lemma bytesEqual_iff [simp]: "bytesEqual a b \<longleftrightarrow> a = b"
proof -
  have "length a = length b \<Longrightarrow> bytes_loop a b \<longleftrightarrow> a = b" for a b
    by (induction a b rule: bytes_loop.induct) auto
  then show ?thesis by (auto simp: bytesEqual_def)
qed

section \<open>Where a reader stands\<close>

definition reader_at :: "bytes \<Rightarrow> bytes \<Rightarrow> reader" where
  "reader_at pre suf = \<lparr>rd_bytes = pre @ suf, rd_offset = length pre\<rparr>"

lemma BorshReader_at: "BorshReader bs = reader_at [] bs"
  by (simp add: BorshReader_def reader_at_def)

lemma reader_at_inject [simp]: "reader_at p s = reader_at q t \<longleftrightarrow> p = q \<and> s = t"
  by (auto simp: reader_at_def append_eq_append_conv)

lemma remaining_at [simp]: "remaining (reader_at p s) = int (length s)"
  by (simp add: remaining_def reader_at_def)

lemma rest_at [simp]: "rest (reader_at p s) = s"
  by (simp add: rest_def reader_at_def)

lemma take_bytes_at:
  "take_bytes n (reader_at p s) =
     (if length s < n then throw RangeError ''escrow data truncated''
      else Inr (take n s, reader_at (p @ take n s) (drop n s)))"
  by (simp add: take_bytes_def reader_at_def)

lemma take_bytes_Inr:
  "take_bytes n (reader_at p s) = Inr (bs, r') \<longleftrightarrow>
     length bs = n \<and> (\<exists>t. s = bs @ t \<and> r' = reader_at (p @ bs) t)"
  by (force simp: take_bytes_at)

lemma skip_bytes_Inr:
  "skip_bytes n (reader_at p s) = Inr r' \<longleftrightarrow>
     (\<exists>bs t. length bs = n \<and> s = bs @ t \<and> r' = reader_at (p @ bs) t)"
  by (auto simp: skip_bytes_def bindR_eq_Inr take_bytes_Inr)

lemma bind_skip_bytes [reader_simps]:
  "bindR (skip_bytes n (reader_at p s)) f = Inr b \<longleftrightarrow>
     (\<exists>bs. length bs = n \<and> (\<exists>t. s = bs @ t \<and> f (reader_at (p @ bs) t) = Inr b))"
  by (auto simp: bindR_eq_Inr skip_bytes_Inr)

lemma skip_bytes_back [reader_backs]:
  "length bs = n \<Longrightarrow> bindR (skip_bytes n (reader_at p (bs @ t))) f = f (reader_at (p @ bs) t)"
  "length bs = n \<Longrightarrow> bindR (skip_bytes n (reader_at p bs)) f = f (reader_at (p @ bs) [])"
  by (simp_all add: skip_bytes_def take_bytes_at)

lemma assertOnly_Inr:
  "assertOnlyUnwrittenSpaceRemains (reader_at p s) what = Inr u \<longleftrightarrow> s = replicate (length s) 0"
  by (auto simp: assertOnlyUnwrittenSpaceRemains_def replicate_eqI intro: replicate_eqI [symmetric]
      dest!: arg_cong [where f = set])

lemma assertOnly_back [reader_backs]:
  "assertOnlyUnwrittenSpaceRemains (reader_at p (replicate n 0)) what = Inr ()"
  by (simp add: assertOnly_Inr)

lemma bind_assertOnly [reader_simps]:
  "bindR (assertOnlyUnwrittenSpaceRemains (reader_at p s) what) f = Inr b \<longleftrightarrow>
     (\<exists>n. s = replicate n 0) \<and> f () = Inr b"
  unfolding bindR_eq_Inr assertOnly_Inr by (metis (full_types) length_replicate old.unit.exhaust)

section \<open>The contract of a field reader\<close>

locale codec =
  fixes rd :: "reader \<Rightarrow> ('a \<times> reader) result"
    and enc :: "'a \<Rightarrow> bytes"
    and valid :: "'a \<Rightarrow> bool"
  assumes reads: "rd (reader_at p s) = Inr (a, r') \<longleftrightarrow>
    valid a \<and> (\<exists>t. s = enc a @ t \<and> r' = reader_at (p @ enc a) t)"
begin

lemma bind_reads:
  "bindR (rd (reader_at p s)) f = Inr b \<longleftrightarrow>
     (\<exists>a. valid a \<and> (\<exists>t. s = enc a @ t \<and> f (a, reader_at (p @ enc a) t) = Inr b))"
  by (auto simp: bindR_eq_Inr reads)

lemma reads_back: "valid a \<Longrightarrow> rd (reader_at p (enc a @ t)) = Inr (a, reader_at (p @ enc a) t)"
  by (simp add: reads)

lemma bind_back:
  "valid a \<Longrightarrow> bindR (rd (reader_at p (enc a @ t))) f = f (a, reader_at (p @ enc a) t)"
  by (simp add: reads_back)

lemma bind_back_end: "valid a \<Longrightarrow> bindR (rd (reader_at p (enc a))) f = f (a, reader_at (p @ enc a) [])"
  using bind_back [of a p "[]"] by simp

lemma enc_prefix_free:
  assumes "valid a" "valid b" "enc a @ s = enc b @ t"
  shows "a = b \<and> s = t"
proof -
  have "Inr (a, reader_at ([] @ enc a) s) = (Inr (b, reader_at ([] @ enc b) t) :: ('a \<times> reader) result)"
    unfolding reads_back [OF assms(1), symmetric] reads_back [OF assms(2), symmetric] assms(3)
    by (rule refl)
  then show ?thesis by simp
qed

end

text \<open>A reader that maps the bytes of a fixed-width field through an injection.\<close>

lemma fixed_width_codec_gen:
  assumes "\<And>p s bs r'. tk (reader_at p s) = Inr (bs, r') \<longleftrightarrow>
      length bs = n \<and> (\<exists>t. s = bs @ t \<and> r' = reader_at (p @ bs) t)"
    and "\<And>r. rd r = bindR (tk r) (\<lambda>(bs, r). bindR (f bs) (\<lambda>a. Inr (a, r)))"
    and "\<And>bs a. length bs = n \<Longrightarrow> f bs = Inr a \<longleftrightarrow> valid a \<and> bs = enc a"
    and "\<And>a. valid a \<Longrightarrow> length (enc a) = n"
  shows "codec rd enc valid"
  by unfold_locales (auto simp: assms bindR_eq_Inr)

lemma fixed_width_codec:
  assumes "\<And>r. rd r = bindR (take_bytes n r) (\<lambda>(bs, r). bindR (f bs) (\<lambda>a. Inr (a, r)))"
    and "\<And>bs a. length bs = n \<Longrightarrow> f bs = Inr a \<longleftrightarrow> valid a \<and> bs = enc a"
    and "\<And>a. valid a \<Longrightarrow> length (enc a) = n"
  shows "codec rd enc valid"
  by (rule fixed_width_codec_gen [OF take_bytes_Inr assms])

definition key_bytes :: "string \<Rightarrow> bytes" where
  "key_bytes s = (case decodeBase58 s of Inr bs \<Rightarrow> bs | Inl _ \<Rightarrow> [])"

definition is_pubkey :: "string \<Rightarrow> bool" where
  "is_pubkey s \<longleftrightarrow> length (key_bytes s) = 32 \<and> encodeBase58 (key_bytes s) = s"

lemma key_bytes_encode [simp]: "key_bytes (encodeBase58 bs) = bs"
  by (simp add: key_bytes_def decode_encode_base58)

lemma is_pubkey_encode: "length bs = 32 \<Longrightarrow> is_pubkey (encodeBase58 bs)"
  by (simp add: is_pubkey_def)

interpretation pubkey: codec read_pubkey key_bytes is_pubkey
proof (rule fixed_width_codec [where f = "\<lambda>bs. Inr (encodeBase58 bs)" and n = 32])
  fix bs :: bytes and a
  assume "length bs = 32"
  then show "Inr (encodeBase58 bs) = Inr a \<longleftrightarrow> is_pubkey a \<and> bs = key_bytes a"
    unfolding is_pubkey_def sum.inject by (metis key_bytes_encode)
qed (simp_all add: read_pubkey_def is_pubkey_def)

definition is_hex :: "nat \<Rightarrow> string \<Rightarrow> bool" where
  "is_hex n s \<longleftrightarrow> length s = 2 * n \<and> (\<forall>c \<in> set s. is_lower_hex c)"

interpretation hexf: codec "read_hex n" unhex "is_hex n" for n
proof (rule fixed_width_codec [where f = "\<lambda>bs. Inr (hex bs)" and n = n])
  fix bs :: bytes and a
  assume "length bs = n"
  then show "Inr (hex bs) = Inr a \<longleftrightarrow> is_hex n a \<and> bs = unhex a"
    unfolding is_hex_def sum.inject
    by (metis hex_chars hex_unhex length_hex unhex_hex even_mult_iff even_numeral)
qed (simp_all add: read_hex_def is_hex_def length_unhex)

definition uint_in :: "nat \<Rightarrow> int \<Rightarrow> bool" where
  "uint_in n v \<longleftrightarrow> 0 \<le> v \<and> v < 256 ^ n"

definition enc_uint :: "nat \<Rightarrow> int \<Rightarrow> bytes" where
  "enc_uint n v = le_bytes n (nat v)"

lemma uint_codec:
  "length bs = n \<Longrightarrow> int (le_nat bs) = v \<longleftrightarrow> uint_in n v \<and> bs = enc_uint n v"
proof -
  assume len: "length bs = n"
  have "le_nat bs < 256 ^ n" using le_nat_less [of bs] len by simp
  then have "int (le_nat bs) < 256 ^ n" by (simp flip: of_nat_less_iff)
  moreover have "le_nat (le_bytes n (nat v)) = nat v" if "0 \<le> v" "v < 256 ^ n"
    by (rule le_nat_le_bytes) (use that in \<open>simp add: nat_less_iff\<close>)
  ultimately show ?thesis
    using len by (auto simp: uint_in_def enc_uint_def)
qed

lemma length_enc_uint [simp]: "length (enc_uint n v) = n"
  by (simp add: enc_uint_def)

interpretation u8c: codec u8 "enc_uint 1" "uint_in 1"
proof (rule fixed_width_codec [where f = "\<lambda>bs. Inr (int (le_nat bs))" and n = 1])
  have "uint (bs ! 0) = int (le_nat bs)" if "length bs = 1" for bs :: bytes
    using that by (cases bs) auto
  moreover have "take_bytes 1 r = Inr (bs, r') \<Longrightarrow> length bs = 1" for r bs r'
    by (auto simp: take_bytes_def split: if_splits)
  ultimately show "u8 r = bindR (take_bytes 1 r) (\<lambda>(bs, r). bindR (Inr (int (le_nat bs))) (\<lambda>a. Inr (a, r)))" for r
    unfolding u8_def by (intro bindR_cong) auto
qed (simp_all add: uint_codec)

interpretation u32c: codec u32 "enc_uint 4" "uint_in 4"
  by (rule fixed_width_codec [where f = "\<lambda>bs. Inr (int (le_nat bs))" and n = 4])
     (auto simp: u32_def uint_codec)

interpretation u64c: codec u64 "enc_uint 8" "uint_in 8"
  by (rule fixed_width_codec [where f = "\<lambda>bs. Inr (int (le_nat bs))" and n = 8])
     (auto simp: u64_def uint_codec)

definition safe_int :: "int \<Rightarrow> bool" where
  "safe_int v \<longleftrightarrow> - max_safe_integer \<le> v \<and> v \<le> max_safe_integer"

definition enc_i64 :: "int \<Rightarrow> bytes" where
  "enc_i64 v = le_bytes 8 (nat (v mod 2 ^ 64))"

lemma signed64_iff:
  assumes "n < 2 ^ 64" and "- (2 ^ 63) \<le> v" and "v < 2 ^ 63"
  shows "signed64 n = v \<longleftrightarrow> n = nat (v mod 2 ^ 64)"
proof -
  have n: "0 \<le> int n" "int n < 2 ^ 64" using assms(1) by simp_all
  have "signed64 n = (if int n < 2 ^ 63 then int n else int n - 2 ^ 64)"
    by (simp add: signed64_def)
  moreover have "v mod 2 ^ 64 = (if v < 0 then v + 2 ^ 64 else v)"
  proof (cases "v < 0")
    case True
    have "(v + 2 ^ 64) mod 2 ^ 64 = v mod 2 ^ 64" by (rule mod_add_self2)
    moreover have "(v + 2 ^ 64) mod 2 ^ 64 = v + 2 ^ 64"
      by (rule mod_pos_pos_trivial) (use True assms(2) in simp_all)
    ultimately show ?thesis using True by simp
  qed (use assms(3) in \<open>simp add: mod_pos_pos_trivial\<close>)
  moreover have "n = nat w \<longleftrightarrow> int n = w" if "0 \<le> w" for w
    using that by auto
  ultimately show ?thesis using assms n by auto
qed

interpretation i64c: codec i64 enc_i64 safe_int
proof (rule fixed_width_codec [where n = 8 and f = "\<lambda>bs. let value = signed64 (le_nat bs)
      in if value > max_safe_integer \<or> value < - max_safe_integer
         then throw RangeError ''i64 outside safe integer range'' else Inr value"])
  fix bs :: bytes and v :: int
  assume len: "length bs = 8"
  have "le_nat bs < 2 ^ 64" using le_nat_less [of bs] len by simp
  then have "signed64 (le_nat bs) = v \<longleftrightarrow> le_nat bs = nat (v mod 2 ^ 64)" if "safe_int v"
    using that by (intro signed64_iff) (simp_all add: safe_int_def max_safe_integer_def)
  then have "signed64 (le_nat bs) = v \<and> safe_int v \<longleftrightarrow> safe_int v \<and> le_nat bs = nat (v mod 2 ^ 64)"
    by blast
  also have "le_nat bs = nat (v mod 2 ^ 64) \<longleftrightarrow> bs = enc_i64 v"
    unfolding enc_i64_def using le_nat_le_bytes [of "nat (v mod 2 ^ 64)" 8] le_bytes_le_nat [of bs] len
    by (auto simp: nat_less_iff)
  finally show "(let value = signed64 (le_nat bs)
      in if value > max_safe_integer \<or> value < - max_safe_integer
         then throw RangeError ''i64 outside safe integer range'' else Inr value) = Inr v
      \<longleftrightarrow> safe_int v \<and> bs = enc_i64 v"
    by (auto simp: Let_def safe_int_def)
qed (auto simp: i64_def enc_i64_def Let_def intro!: bindR_cong)

text \<open>State bytes.\<close>

definition enc_enum :: "'a list \<Rightarrow> 'a \<Rightarrow> bytes" where
  "enc_enum names s = (case index_of s names of Some i \<Rightarrow> enc_uint 1 (int i) | None \<Rightarrow> [])"

lemma enum_codec:
  assumes "distinct names" and "length names \<le> 256"
  shows "codec (read_enum (from_index names what)) (enc_enum names) (\<lambda>s. s \<in> set names)"
proof
  fix p s a r'
  have "(\<exists>i. uint_in 1 i \<and> from_index names what i = Inr a \<and> bs = enc_uint 1 i)
      \<longleftrightarrow> a \<in> set names \<and> bs = enc_enum names a" for bs
  proof
    assume "\<exists>i. uint_in 1 i \<and> from_index names what i = Inr a \<and> bs = enc_uint 1 i"
    then obtain i where i: "0 \<le> i" "nat i < length names" "a = names ! nat i" "bs = enc_uint 1 i"
      by (auto simp: from_index_Inr_iff)
    then show "a \<in> set names \<and> bs = enc_enum names a"
      using assms(1) by (simp add: enc_enum_def index_of_nth)
  next
    assume a: "a \<in> set names \<and> bs = enc_enum names a"
    then obtain j where j: "index_of a names = Some j" by (metis index_of_None option.exhaust)
    then have "j < length names" "names ! j = a" by (simp_all add: index_of_Some)
    with a j assms(2) have "uint_in 1 (int j) \<and> from_index names what (int j) = Inr a
        \<and> bs = enc_uint 1 (int j)"
      by (simp add: uint_in_def from_index_Inr_iff enc_enum_def)
    then show "\<exists>i. uint_in 1 i \<and> from_index names what i = Inr a \<and> bs = enc_uint 1 i" by blast
  qed
  note this [of "enc_enum names a"]
  then show "read_enum (from_index names what) (reader_at p s) = Inr (a, r') \<longleftrightarrow>
      a \<in> set names \<and> (\<exists>t. s = enc_enum names a @ t \<and> r' = reader_at (p @ enc_enum names a) t)"
    using \<open>\<And>bs. (\<exists>i. uint_in 1 i \<and> from_index names what i = Inr a \<and> bs = enc_uint 1 i)
      \<longleftrightarrow> a \<in> set names \<and> bs = enc_enum names a\<close>
    unfolding read_enum_def u8c.bind_reads by (auto simp: bindR_eq_Inr) (metis+)
qed

lemmas enum_tables =
  AGREEMENT_STATES_def AGREEMENT_TYPES_def PROOF_STATUSES_def DISPUTE_OUTCOMES_def MILESTONE_STATES_def

lemma all_states [simp]:
  "s \<in> set AGREEMENT_STATES" "ty \<in> set AGREEMENT_TYPES" "ps \<in> set PROOF_STATUSES"
  "oc \<in> set DISPUTE_OUTCOMES" "ms \<in> set MILESTONE_STATES"
  by (cases s, simp_all add: enum_tables) (cases ty, simp_all, cases ps, simp_all, cases oc, simp_all,
      cases ms, simp_all)

interpretation statec: codec read_state "enc_enum AGREEMENT_STATES" "\<lambda>s. s \<in> set AGREEMENT_STATES"
  unfolding read_state_def agreementStateFromIndex_def by (rule enum_codec) (simp_all add: enum_tables)

interpretation typec: codec read_agreementType "enc_enum AGREEMENT_TYPES" "\<lambda>s. s \<in> set AGREEMENT_TYPES"
  unfolding read_agreementType_def agreementTypeFromIndex_def
  by (rule enum_codec) (simp_all add: enum_tables)

interpretation pstatc: codec read_proofStatus "enc_enum PROOF_STATUSES" "\<lambda>s. s \<in> set PROOF_STATUSES"
  unfolding read_proofStatus_def proofStatusFromIndex_def
  by (rule enum_codec) (simp_all add: enum_tables)

interpretation outc: codec read_disputeOutcome "enc_enum DISPUTE_OUTCOMES" "\<lambda>s. s \<in> set DISPUTE_OUTCOMES"
  unfolding read_disputeOutcome_def disputeOutcomeFromIndex_def
  by (rule enum_codec) (simp_all add: enum_tables)

interpretation mstatc: codec read_milestoneState "enc_enum MILESTONE_STATES" "\<lambda>s. s \<in> set MILESTONE_STATES"
  unfolding read_milestoneState_def milestoneStateFromIndex_def
  by (rule enum_codec) (simp_all add: enum_tables)

text \<open>The optional key: a tag byte, then the key when the tag says so.\<close>

definition enc_opt :: "('a \<Rightarrow> bytes) \<Rightarrow> 'a option \<Rightarrow> bytes" where
  "enc_opt enc x = (case x of None \<Rightarrow> [0] | Some a \<Rightarrow> 1 # enc a)"

definition valid_opt :: "('a \<Rightarrow> bool) \<Rightarrow> 'a option \<Rightarrow> bool" where
  "valid_opt valid x = (case x of None \<Rightarrow> True | Some a \<Rightarrow> valid a)"

lemma enc_uint_1 [simp]: "enc_uint (Suc 0) v = [word_of_nat (nat v mod 256)]"
  by (simp add: enc_uint_def)

lemma opt_codec:
  assumes "codec rd enc valid"
    and "\<And>r. ord r = bindR (u8 r) (\<lambda>(tag, r).
      if tag = 0 then Inr (None, r)
      else if tag \<noteq> 1 then throw RangeError ''invalid Option tag''
      else bindR (rd r) (\<lambda>(a, r). Inr (Some a, r)))"
  shows "codec ord (enc_opt enc) (valid_opt valid)"
proof
  fix p s a r'
  note rd = codec.reads [OF assms(1)]
  show "ord (reader_at p s) = Inr (a, r') \<longleftrightarrow>
      valid_opt valid a \<and> (\<exists>t. s = enc_opt enc a @ t \<and> r' = reader_at (p @ enc_opt enc a) t)"
  proof (cases a)
    case None
    have "ord (reader_at p s) = Inr (None, r') \<longleftrightarrow>
        (\<exists>t. s = enc_uint 1 0 @ t \<and> Inr (None, reader_at (p @ enc_uint 1 0) t) = Inr (None, r'))"
      unfolding assms(2) u8c.bind_reads
      by (auto simp: bindR_eq_Inr uint_in_def split: if_splits prod.splits) 
    with None show ?thesis by (auto simp: valid_opt_def enc_opt_def)
  next
    case (Some k)
    have "ord (reader_at p s) = Inr (Some k, r') \<longleftrightarrow>
        (\<exists>t. s = enc_uint 1 1 @ t \<and> rd (reader_at (p @ enc_uint 1 1) t) = Inr (k, r'))"
      unfolding assms(2) u8c.bind_reads
      by (auto simp: bindR_eq_Inr uint_in_def split: if_splits prod.splits intro: exI [of _ 1])
    with Some show ?thesis by (auto simp: rd valid_opt_def enc_opt_def)
  qed
qed

interpretation optkey: codec optionalPubkey "enc_opt key_bytes" "valid_opt is_pubkey"
  by (rule opt_codec [OF pubkey.codec_axioms]) (simp add: optionalPubkey_def)

lemmas field_reads [reader_simps] =
  pubkey.bind_reads hexf.bind_reads u8c.bind_reads u32c.bind_reads u64c.bind_reads
  i64c.bind_reads statec.bind_reads typec.bind_reads pstatc.bind_reads outc.bind_reads
  mstatc.bind_reads optkey.bind_reads

lemmas field_backs [reader_backs] =
  pubkey.bind_back pubkey.bind_back_end
  hexf.bind_back hexf.bind_back_end
  u8c.bind_back u8c.bind_back_end
  u32c.bind_back u32c.bind_back_end
  u64c.bind_back u64c.bind_back_end
  i64c.bind_back i64c.bind_back_end
  statec.bind_back statec.bind_back_end
  typec.bind_back typec.bind_back_end
  pstatc.bind_back pstatc.bind_back_end
  outc.bind_back outc.bind_back_end
  mstatc.bind_back mstatc.bind_back_end
  optkey.bind_back optkey.bind_back_end

text \<open>Widths of the encodings.\<close>

lemma length_enc_enum: "s \<in> set names \<Longrightarrow> length (enc_enum names s) = 1"
  by (auto simp: enc_enum_def index_of_None split: option.splits)

lemma length_key_bytes: "is_pubkey k \<Longrightarrow> length (key_bytes k) = 32"
  by (simp add: is_pubkey_def)

lemma length_unhex_hex: "is_hex n s \<Longrightarrow> length (unhex s) = n"
  by (simp add: is_hex_def length_unhex)

lemma length_enc_i64 [simp]: "length (enc_i64 v) = 8"
  by (simp add: enc_i64_def)

lemmas field_lengths =
  length_enc_enum length_key_bytes length_unhex_hex [of 32] length_unhex_hex [of 16]

end
