(* ===== verification/Accounts.thy ===== *)
theory Accounts
  imports Hashing Reader
begin

text \<open>
  The account decoders: \<open>ppv_escrow\<close>'s agreement, proof and milestone
  (\<open>sdk/src/escrow/accounts.ts\<close>), \<open>ppv_core\<close>'s proof record
  (\<open>sdk/src/core/accounts.ts\<close>) and \<open>ppv_commerce\<close>'s agreement
  (\<open>sdk/src/commerce/accounts.ts\<close>). Each comes with the byte layout it accepts
  (\<open>enc_*\<close>, \<open>wf_*\<close>) and the lemma that it accepts exactly that.
\<close>

section \<open>Escrow accounts\<close>

record escrow_agreement_account =
  ea_schemaVersion :: int
  ea_bump :: int
  ea_vaultAuthorityBump :: int
  ea_vaultBump :: int
  ea_creator :: string
  ea_counterparty :: string
  ea_agreementId :: int
  ea_agreementType :: agreement_type
  ea_mint :: string
  ea_vault :: string
  ea_amount :: int
  ea_termsHash :: string
  ea_state :: agreement_state
  ea_createdAt :: int
  ea_fundedAt :: int
  ea_completedAt :: int
  ea_settledAt :: int
  ea_proofCount :: int
  ea_settlementProof :: string
  ea_disputeOpenedBy :: string
  ea_stateChangedAt :: int
  ea_milestoneCount :: int
  ea_milestonesSettled :: int
  ea_milestoneTotal :: int
  ea_settledTotal :: int

definition ESCROW_AGREEMENT_ACCOUNT_SIZE :: nat where
  "ESCROW_AGREEMENT_ACCOUNT_SIZE =
     8 + 4 + 32 * 2 + 8 + 1 + 32 * 2 + 8 + 32 + 1 + 8 * 4 + 4 + 32 + 32 + 8 + 4 * 2 + 8 * 2 + 40"

definition ESCROW_AGREEMENT_ACCOUNT_DISCRIMINATOR :: "(bytes \<Rightarrow> bytes) \<Rightarrow> bytes" where
  "ESCROW_AGREEMENT_ACCOUNT_DISCRIMINATOR sha = anchorDiscriminator sha ''account'' ''EscrowAgreement''"

definition decodeEscrowAgreementAccount :: "(bytes \<Rightarrow> bytes) \<Rightarrow> bytes \<Rightarrow> escrow_agreement_account result" where
  "decodeEscrowAgreementAccount sha data =
     (if \<not> bytesEqual (take 8 data) (ESCROW_AGREEMENT_ACCOUNT_DISCRIMINATOR sha)
      then throw RangeError ''not a ppv_escrow EscrowAgreement account''
      else
     bindR (u8 (BorshReader (drop 8 data))) (\<lambda>(schemaVersion, r).
     bindR (u8 r) (\<lambda>(bump, r).
     bindR (u8 r) (\<lambda>(vaultAuthorityBump, r).
     bindR (u8 r) (\<lambda>(vaultBump, r).
     bindR (read_pubkey r) (\<lambda>(creator, r).
     bindR (read_pubkey r) (\<lambda>(counterparty, r).
     bindR (u64 r) (\<lambda>(agreementId, r).
     bindR (read_agreementType r) (\<lambda>(agreementType, r).
     bindR (read_pubkey r) (\<lambda>(mint, r).
     bindR (read_pubkey r) (\<lambda>(vault, r).
     bindR (u64 r) (\<lambda>(amount, r).
     bindR (read_hex 32 r) (\<lambda>(termsHash, r).
     bindR (read_state r) (\<lambda>(state, r).
     bindR (i64 r) (\<lambda>(createdAt, r).
     bindR (i64 r) (\<lambda>(fundedAt, r).
     bindR (i64 r) (\<lambda>(completedAt, r).
     bindR (i64 r) (\<lambda>(settledAt, r).
     bindR (u32 r) (\<lambda>(proofCount, r).
     bindR (read_pubkey r) (\<lambda>(settlementProof, r).
     bindR (read_pubkey r) (\<lambda>(disputeOpenedBy, r).
     bindR (i64 r) (\<lambda>(stateChangedAt, r).
     bindR (u32 r) (\<lambda>(milestoneCount, r).
     bindR (u32 r) (\<lambda>(milestonesSettled, r).
     bindR (u64 r) (\<lambda>(milestoneTotal, r).
     bindR (u64 r) (\<lambda>(settledTotal, r).
     bindR (skip_bytes 40 r) (\<lambda>r.
     if remaining r \<noteq> 0 then throw RangeError ''agreement account has trailing bytes''
     else Inr \<lparr>ea_schemaVersion = schemaVersion,
       ea_bump = bump,
       ea_vaultAuthorityBump = vaultAuthorityBump,
       ea_vaultBump = vaultBump,
       ea_creator = creator,
       ea_counterparty = counterparty,
       ea_agreementId = agreementId,
       ea_agreementType = agreementType,
       ea_mint = mint,
       ea_vault = vault,
       ea_amount = amount,
       ea_termsHash = termsHash,
       ea_state = state,
       ea_createdAt = createdAt,
       ea_fundedAt = fundedAt,
       ea_completedAt = completedAt,
       ea_settledAt = settledAt,
       ea_proofCount = proofCount,
       ea_settlementProof = settlementProof,
       ea_disputeOpenedBy = disputeOpenedBy,
       ea_stateChangedAt = stateChangedAt,
       ea_milestoneCount = milestoneCount,
       ea_milestonesSettled = milestonesSettled,
       ea_milestoneTotal = milestoneTotal,
       ea_settledTotal = settledTotal\<rparr>)))))))))))))))))))))))))))"

record proof_account =
  pa_schemaVersion :: int
  pa_bump :: int
  pa_agreement :: string
  pa_coreProof :: string
  pa_submitter :: string
  pa_proofIndex :: int
  pa_status :: proof_status
  pa_createdAt :: int
  pa_decidedAt :: int
  pa_decidedBy :: string

definition PROOF_ACCOUNT_SIZE :: nat where
  "PROOF_ACCOUNT_SIZE = 8 + 2 + 32 * 3 + 4 + 1 + 8 * 2 + 32 + 32"

definition PROOF_ACCOUNT_DISCRIMINATOR :: "(bytes \<Rightarrow> bytes) \<Rightarrow> bytes" where
  "PROOF_ACCOUNT_DISCRIMINATOR sha = anchorDiscriminator sha ''account'' ''Proof''"

definition decodeProofAccount :: "(bytes \<Rightarrow> bytes) \<Rightarrow> bytes \<Rightarrow> proof_account result" where
  "decodeProofAccount sha data =
     (if \<not> bytesEqual (take 8 data) (PROOF_ACCOUNT_DISCRIMINATOR sha)
      then throw RangeError ''not a ppv_escrow Proof account''
      else
     bindR (u8 (BorshReader (drop 8 data))) (\<lambda>(schemaVersion, r).
     bindR (u8 r) (\<lambda>(bump, r).
     bindR (read_pubkey r) (\<lambda>(agreement, r).
     bindR (read_pubkey r) (\<lambda>(coreProof, r).
     bindR (read_pubkey r) (\<lambda>(submitter, r).
     bindR (u32 r) (\<lambda>(proofIndex, r).
     bindR (read_proofStatus r) (\<lambda>(status, r).
     bindR (i64 r) (\<lambda>(createdAt, r).
     bindR (i64 r) (\<lambda>(decidedAt, r).
     bindR (read_pubkey r) (\<lambda>(decidedBy, r).
     bindR (skip_bytes 32 r) (\<lambda>r.
     if remaining r \<noteq> 0 then throw RangeError ''proof account has trailing bytes''
     else Inr \<lparr>pa_schemaVersion = schemaVersion,
       pa_bump = bump,
       pa_agreement = agreement,
       pa_coreProof = coreProof,
       pa_submitter = submitter,
       pa_proofIndex = proofIndex,
       pa_status = status,
       pa_createdAt = createdAt,
       pa_decidedAt = decidedAt,
       pa_decidedBy = decidedBy\<rparr>))))))))))))"

record milestone_account =
  ma_schemaVersion :: int
  ma_bump :: int
  ma_agreement :: string
  ma_milestoneIndex :: int
  ma_amount :: int
  ma_termsHash :: string
  ma_state :: milestone_state
  ma_proof :: string
  ma_createdAt :: int
  ma_submittedAt :: int
  ma_approvedAt :: int
  ma_settledAt :: int

definition MILESTONE_ACCOUNT_SIZE :: nat where
  "MILESTONE_ACCOUNT_SIZE = 8 + 2 + 32 + 4 + 8 + 32 + 1 + 32 + 8 * 4 + 32"

definition MILESTONE_ACCOUNT_DISCRIMINATOR :: "(bytes \<Rightarrow> bytes) \<Rightarrow> bytes" where
  "MILESTONE_ACCOUNT_DISCRIMINATOR sha = anchorDiscriminator sha ''account'' ''Milestone''"

definition decodeMilestoneAccount :: "(bytes \<Rightarrow> bytes) \<Rightarrow> bytes \<Rightarrow> milestone_account result" where
  "decodeMilestoneAccount sha data =
     (if \<not> bytesEqual (take 8 data) (MILESTONE_ACCOUNT_DISCRIMINATOR sha)
      then throw RangeError ''not a ppv_escrow Milestone account''
      else
     bindR (u8 (BorshReader (drop 8 data))) (\<lambda>(schemaVersion, r).
     bindR (u8 r) (\<lambda>(bump, r).
     bindR (read_pubkey r) (\<lambda>(agreement, r).
     bindR (u32 r) (\<lambda>(milestoneIndex, r).
     bindR (u64 r) (\<lambda>(amount, r).
     bindR (read_hex 32 r) (\<lambda>(termsHash, r).
     bindR (read_milestoneState r) (\<lambda>(state, r).
     bindR (read_pubkey r) (\<lambda>(proof, r).
     bindR (i64 r) (\<lambda>(createdAt, r).
     bindR (i64 r) (\<lambda>(submittedAt, r).
     bindR (i64 r) (\<lambda>(approvedAt, r).
     bindR (i64 r) (\<lambda>(settledAt, r).
     bindR (skip_bytes 32 r) (\<lambda>r.
     if remaining r \<noteq> 0 then throw RangeError ''milestone account has trailing bytes''
     else Inr \<lparr>ma_schemaVersion = schemaVersion,
       ma_bump = bump,
       ma_agreement = agreement,
       ma_milestoneIndex = milestoneIndex,
       ma_amount = amount,
       ma_termsHash = termsHash,
       ma_state = state,
       ma_proof = proof,
       ma_createdAt = createdAt,
       ma_submittedAt = submittedAt,
       ma_approvedAt = approvedAt,
       ma_settledAt = settledAt\<rparr>))))))))))))))"

section \<open>Core accounts\<close>

datatype core_proof_kind =
    Kind_Creation | Kind_Document | Kind_Agreement | Kind_Invoice | Kind_Deliverable | Kind_Other

definition CORE_PROOF_KINDS :: "core_proof_kind list" where
  "CORE_PROOF_KINDS =
     [Kind_Creation, Kind_Document, Kind_Agreement, Kind_Invoice, Kind_Deliverable, Kind_Other]"

datatype core_proof_status = Core_Active | Core_Revoked

definition CORE_PROOF_STATUSES :: "core_proof_status list" where
  "CORE_PROOF_STATUSES = [Core_Active, Core_Revoked]"

record core_proof_account =
  cp_schemaVersion :: int
  cp_bump :: int
  cp_proofId :: string
  cp_authority :: string
  cp_contentHash :: string
  cp_contextHash :: string
  cp_kind :: core_proof_kind
  cp_status :: core_proof_status
  cp_createdAt :: int
  cp_revokedAt :: int

definition coreProofKindFromIndex :: "int \<Rightarrow> core_proof_kind result" where
  "coreProofKindFromIndex = from_index CORE_PROOF_KINDS ''core proof kind''"

definition coreProofStatusFromIndex :: "int \<Rightarrow> core_proof_status result" where
  "coreProofStatusFromIndex = from_index CORE_PROOF_STATUSES ''core proof status''"

definition CORE_PROOF_DISCRIMINATOR :: "(bytes \<Rightarrow> bytes) \<Rightarrow> bytes" where
  "CORE_PROOF_DISCRIMINATOR sha = anchorDiscriminator sha ''account'' ''ProofRecord''"

definition decodeCoreProofAccount :: "(bytes \<Rightarrow> bytes) \<Rightarrow> bytes \<Rightarrow> core_proof_account result" where
  "decodeCoreProofAccount sha data =
     (if \<not> bytesEqual (take 8 data) (CORE_PROOF_DISCRIMINATOR sha)
      then throw RangeError ''not a ppv_core ProofRecord account''
      else
     bindR (u8 (BorshReader (drop 8 data))) (\<lambda>(schemaVersion, r).
     bindR (u8 r) (\<lambda>(bump, r).
     bindR (read_hex 16 r) (\<lambda>(proofId, r).
     bindR (read_pubkey r) (\<lambda>(authority, r).
     bindR (read_hex 32 r) (\<lambda>(contentHash, r).
     bindR (read_hex 32 r) (\<lambda>(contextHash, r).
     bindR (read_enum coreProofKindFromIndex r) (\<lambda>(kind, r).
     bindR (read_enum coreProofStatusFromIndex r) (\<lambda>(status, r).
     bindR (i64 r) (\<lambda>(createdAt, r).
     bindR (i64 r) (\<lambda>(revokedAt, r).
     bindR (skip_bytes 64 r) (\<lambda>r.
     if remaining r \<noteq> 0 then throw RangeError ''core proof has trailing bytes''
     else Inr \<lparr>cp_schemaVersion = schemaVersion,
       cp_bump = bump,
       cp_proofId = proofId,
       cp_authority = authority,
       cp_contentHash = contentHash,
       cp_contextHash = contextHash,
       cp_kind = kind,
       cp_status = status,
       cp_createdAt = createdAt,
       cp_revokedAt = revokedAt\<rparr>))))))))))))"

text \<open>The regular expression \<open>/^0+$/\<close>.\<close>

definition all_zero_digits :: "string \<Rightarrow> bool" where
  "all_zero_digits s \<longleftrightarrow> s \<noteq> [] \<and> (\<forall>c \<in> set s. c = CHR ''0'')"

definition hasCoreContextCommitment :: "core_proof_account \<Rightarrow> bool" where
  "hasCoreContextCommitment account \<longleftrightarrow> \<not> all_zero_digits (cp_contextHash account)"

section \<open>Commerce accounts\<close>

datatype commerce_state = Commerce_Pending | Commerce_Executed | Commerce_Cancelled

definition COMMERCE_AGREEMENT_STATES :: "commerce_state list" where
  "COMMERCE_AGREEMENT_STATES = [Commerce_Pending, Commerce_Executed, Commerce_Cancelled]"

definition commerceStateFromIndex :: "int \<Rightarrow> commerce_state result" where
  "commerceStateFromIndex = from_index COMMERCE_AGREEMENT_STATES ''commerce agreement state''"

record commerce_signature =
  cs_signer :: string
  cs_versionSigned :: int
  cs_contentHashSigned :: string
  cs_termsHashSigned :: string
  cs_signedAt :: int

definition readSignature :: "reader \<Rightarrow> (commerce_signature option \<times> reader) result" where
  "readSignature r = bindR (u8 r) (\<lambda>(tag, r).
     if tag = 0 then Inr (None, r)
     else if tag \<noteq> 1 then throw RangeError ''invalid Option tag''
     else
     bindR (read_pubkey r) (\<lambda>(signer, r).
     bindR (u32 r) (\<lambda>(versionSigned, r).
     bindR (read_hex 32 r) (\<lambda>(contentHashSigned, r).
     bindR (read_hex 32 r) (\<lambda>(termsHashSigned, r).
     bindR (i64 r) (\<lambda>(signedAt, r).
     Inr (Some \<lparr>cs_signer = signer,
       cs_versionSigned = versionSigned,
       cs_contentHashSigned = contentHashSigned,
       cs_termsHashSigned = termsHashSigned,
       cs_signedAt = signedAt\<rparr>, r)))))))"

record commerce_agreement_account =
  ca_schemaVersion :: int
  ca_bump :: int
  ca_agreementId :: string
  ca_partyA :: string
  ca_partyB :: string
  ca_version :: int
  ca_contentHash :: string
  ca_termsHash :: string
  ca_signatureA :: "commerce_signature option"
  ca_signatureB :: "commerce_signature option"
  ca_state :: commerce_state
  ca_createdAt :: int
  ca_expiresAt :: int
  ca_executedAt :: int
  ca_cancelledAt :: int

definition COMMERCE_AGREEMENT_DISCRIMINATOR :: "(bytes \<Rightarrow> bytes) \<Rightarrow> bytes" where
  "COMMERCE_AGREEMENT_DISCRIMINATOR sha = anchorDiscriminator sha ''account'' ''Agreement''"

definition decodeCommerceAgreementAccount :: "(bytes \<Rightarrow> bytes) \<Rightarrow> bytes \<Rightarrow> commerce_agreement_account result" where
  "decodeCommerceAgreementAccount sha data =
     (if \<not> bytesEqual (take 8 data) (COMMERCE_AGREEMENT_DISCRIMINATOR sha)
      then throw RangeError ''not a ppv_commerce Agreement account''
      else
     bindR (u8 (BorshReader (drop 8 data))) (\<lambda>(schemaVersion, r).
     bindR (u8 r) (\<lambda>(bump, r).
     bindR (read_hex 16 r) (\<lambda>(agreementId, r).
     bindR (read_pubkey r) (\<lambda>(partyA, r).
     bindR (read_pubkey r) (\<lambda>(partyB, r).
     bindR (u32 r) (\<lambda>(version, r).
     bindR (read_hex 32 r) (\<lambda>(contentHash, r).
     bindR (read_hex 32 r) (\<lambda>(termsHash, r).
     bindR (readSignature r) (\<lambda>(signatureA, r).
     bindR (readSignature r) (\<lambda>(signatureB, r).
     bindR (read_enum commerceStateFromIndex r) (\<lambda>(state, r).
     bindR (i64 r) (\<lambda>(createdAt, r).
     bindR (i64 r) (\<lambda>(expiresAt, r).
     bindR (i64 r) (\<lambda>(executedAt, r).
     bindR (i64 r) (\<lambda>(cancelledAt, r).
     bindR (skip_bytes 64 r) (\<lambda>r.
     bindR (assertOnlyUnwrittenSpaceRemains r ''commerce agreement'') (\<lambda>_.
     Inr \<lparr>ca_schemaVersion = schemaVersion,
       ca_bump = bump,
       ca_agreementId = agreementId,
       ca_partyA = partyA,
       ca_partyB = partyB,
       ca_version = version,
       ca_contentHash = contentHash,
       ca_termsHash = termsHash,
       ca_signatureA = signatureA,
       ca_signatureB = signatureB,
       ca_state = state,
       ca_createdAt = createdAt,
       ca_expiresAt = expiresAt,
       ca_executedAt = executedAt,
       ca_cancelledAt = cancelledAt\<rparr>))))))))))))))))))"

section \<open>Layouts\<close>

definition enc_agreement :: "escrow_agreement_account \<Rightarrow> bytes" where
  "enc_agreement a =
     enc_uint 1 (ea_schemaVersion a)
       @ enc_uint 1 (ea_bump a)
       @ enc_uint 1 (ea_vaultAuthorityBump a)
       @ enc_uint 1 (ea_vaultBump a)
       @ key_bytes (ea_creator a)
       @ key_bytes (ea_counterparty a)
       @ enc_uint 8 (ea_agreementId a)
       @ enc_enum AGREEMENT_TYPES (ea_agreementType a)
       @ key_bytes (ea_mint a)
       @ key_bytes (ea_vault a)
       @ enc_uint 8 (ea_amount a)
       @ unhex (ea_termsHash a)
       @ enc_enum AGREEMENT_STATES (ea_state a)
       @ enc_i64 (ea_createdAt a)
       @ enc_i64 (ea_fundedAt a)
       @ enc_i64 (ea_completedAt a)
       @ enc_i64 (ea_settledAt a)
       @ enc_uint 4 (ea_proofCount a)
       @ key_bytes (ea_settlementProof a)
       @ key_bytes (ea_disputeOpenedBy a)
       @ enc_i64 (ea_stateChangedAt a)
       @ enc_uint 4 (ea_milestoneCount a)
       @ enc_uint 4 (ea_milestonesSettled a)
       @ enc_uint 8 (ea_milestoneTotal a)
       @ enc_uint 8 (ea_settledTotal a)"

definition wf_agreement :: "escrow_agreement_account \<Rightarrow> bool" where
  "wf_agreement a \<longleftrightarrow>
     uint_in 1 (ea_schemaVersion a)
     \<and> uint_in 1 (ea_bump a)
     \<and> uint_in 1 (ea_vaultAuthorityBump a)
     \<and> uint_in 1 (ea_vaultBump a)
     \<and> is_pubkey (ea_creator a)
     \<and> is_pubkey (ea_counterparty a)
     \<and> uint_in 8 (ea_agreementId a)
     \<and> is_pubkey (ea_mint a)
     \<and> is_pubkey (ea_vault a)
     \<and> uint_in 8 (ea_amount a)
     \<and> is_hex 32 (ea_termsHash a)
     \<and> safe_int (ea_createdAt a)
     \<and> safe_int (ea_fundedAt a)
     \<and> safe_int (ea_completedAt a)
     \<and> safe_int (ea_settledAt a)
     \<and> uint_in 4 (ea_proofCount a)
     \<and> is_pubkey (ea_settlementProof a)
     \<and> is_pubkey (ea_disputeOpenedBy a)
     \<and> safe_int (ea_stateChangedAt a)
     \<and> uint_in 4 (ea_milestoneCount a)
     \<and> uint_in 4 (ea_milestonesSettled a)
     \<and> uint_in 8 (ea_milestoneTotal a)
     \<and> uint_in 8 (ea_settledTotal a)"

definition enc_proof :: "proof_account \<Rightarrow> bytes" where
  "enc_proof a =
     enc_uint 1 (pa_schemaVersion a)
       @ enc_uint 1 (pa_bump a)
       @ key_bytes (pa_agreement a)
       @ key_bytes (pa_coreProof a)
       @ key_bytes (pa_submitter a)
       @ enc_uint 4 (pa_proofIndex a)
       @ enc_enum PROOF_STATUSES (pa_status a)
       @ enc_i64 (pa_createdAt a)
       @ enc_i64 (pa_decidedAt a)
       @ key_bytes (pa_decidedBy a)"

definition wf_proof :: "proof_account \<Rightarrow> bool" where
  "wf_proof a \<longleftrightarrow>
     uint_in 1 (pa_schemaVersion a)
     \<and> uint_in 1 (pa_bump a)
     \<and> is_pubkey (pa_agreement a)
     \<and> is_pubkey (pa_coreProof a)
     \<and> is_pubkey (pa_submitter a)
     \<and> uint_in 4 (pa_proofIndex a)
     \<and> safe_int (pa_createdAt a)
     \<and> safe_int (pa_decidedAt a)
     \<and> is_pubkey (pa_decidedBy a)"

definition enc_milestone :: "milestone_account \<Rightarrow> bytes" where
  "enc_milestone a =
     enc_uint 1 (ma_schemaVersion a)
       @ enc_uint 1 (ma_bump a)
       @ key_bytes (ma_agreement a)
       @ enc_uint 4 (ma_milestoneIndex a)
       @ enc_uint 8 (ma_amount a)
       @ unhex (ma_termsHash a)
       @ enc_enum MILESTONE_STATES (ma_state a)
       @ key_bytes (ma_proof a)
       @ enc_i64 (ma_createdAt a)
       @ enc_i64 (ma_submittedAt a)
       @ enc_i64 (ma_approvedAt a)
       @ enc_i64 (ma_settledAt a)"

definition wf_milestone :: "milestone_account \<Rightarrow> bool" where
  "wf_milestone a \<longleftrightarrow>
     uint_in 1 (ma_schemaVersion a)
     \<and> uint_in 1 (ma_bump a)
     \<and> is_pubkey (ma_agreement a)
     \<and> uint_in 4 (ma_milestoneIndex a)
     \<and> uint_in 8 (ma_amount a)
     \<and> is_hex 32 (ma_termsHash a)
     \<and> is_pubkey (ma_proof a)
     \<and> safe_int (ma_createdAt a)
     \<and> safe_int (ma_submittedAt a)
     \<and> safe_int (ma_approvedAt a)
     \<and> safe_int (ma_settledAt a)"

definition enc_core_proof :: "core_proof_account \<Rightarrow> bytes" where
  "enc_core_proof a =
     enc_uint 1 (cp_schemaVersion a)
       @ enc_uint 1 (cp_bump a)
       @ unhex (cp_proofId a)
       @ key_bytes (cp_authority a)
       @ unhex (cp_contentHash a)
       @ unhex (cp_contextHash a)
       @ enc_enum CORE_PROOF_KINDS (cp_kind a)
       @ enc_enum CORE_PROOF_STATUSES (cp_status a)
       @ enc_i64 (cp_createdAt a)
       @ enc_i64 (cp_revokedAt a)"

definition wf_core_proof :: "core_proof_account \<Rightarrow> bool" where
  "wf_core_proof a \<longleftrightarrow>
     uint_in 1 (cp_schemaVersion a)
     \<and> uint_in 1 (cp_bump a)
     \<and> is_hex 16 (cp_proofId a)
     \<and> is_pubkey (cp_authority a)
     \<and> is_hex 32 (cp_contentHash a)
     \<and> is_hex 32 (cp_contextHash a)
     \<and> safe_int (cp_createdAt a)
     \<and> safe_int (cp_revokedAt a)"

definition enc_signature :: "commerce_signature \<Rightarrow> bytes" where
  "enc_signature a =
     key_bytes (cs_signer a)
       @ enc_uint 4 (cs_versionSigned a)
       @ unhex (cs_contentHashSigned a)
       @ unhex (cs_termsHashSigned a)
       @ enc_i64 (cs_signedAt a)"

definition wf_signature :: "commerce_signature \<Rightarrow> bool" where
  "wf_signature a \<longleftrightarrow>
     is_pubkey (cs_signer a)
     \<and> uint_in 4 (cs_versionSigned a)
     \<and> is_hex 32 (cs_contentHashSigned a)
     \<and> is_hex 32 (cs_termsHashSigned a)
     \<and> safe_int (cs_signedAt a)"

definition enc_commerce :: "commerce_agreement_account \<Rightarrow> bytes" where
  "enc_commerce a =
     enc_uint 1 (ca_schemaVersion a)
       @ enc_uint 1 (ca_bump a)
       @ unhex (ca_agreementId a)
       @ key_bytes (ca_partyA a)
       @ key_bytes (ca_partyB a)
       @ enc_uint 4 (ca_version a)
       @ unhex (ca_contentHash a)
       @ unhex (ca_termsHash a)
       @ enc_opt enc_signature (ca_signatureA a)
       @ enc_opt enc_signature (ca_signatureB a)
       @ enc_enum COMMERCE_AGREEMENT_STATES (ca_state a)
       @ enc_i64 (ca_createdAt a)
       @ enc_i64 (ca_expiresAt a)
       @ enc_i64 (ca_executedAt a)
       @ enc_i64 (ca_cancelledAt a)"

definition wf_commerce :: "commerce_agreement_account \<Rightarrow> bool" where
  "wf_commerce a \<longleftrightarrow>
     uint_in 1 (ca_schemaVersion a)
     \<and> uint_in 1 (ca_bump a)
     \<and> is_hex 16 (ca_agreementId a)
     \<and> is_pubkey (ca_partyA a)
     \<and> is_pubkey (ca_partyB a)
     \<and> uint_in 4 (ca_version a)
     \<and> is_hex 32 (ca_contentHash a)
     \<and> is_hex 32 (ca_termsHash a)
     \<and> valid_opt wf_signature (ca_signatureA a)
     \<and> valid_opt wf_signature (ca_signatureB a)
     \<and> safe_int (ca_createdAt a)
     \<and> safe_int (ca_expiresAt a)
     \<and> safe_int (ca_executedAt a)
     \<and> safe_int (ca_cancelledAt a)"

lemmas core_tables = CORE_PROOF_KINDS_def CORE_PROOF_STATUSES_def COMMERCE_AGREEMENT_STATES_def

lemma all_core_states [simp]:
  "k \<in> set CORE_PROOF_KINDS" "st \<in> set CORE_PROOF_STATUSES" "cs \<in> set COMMERCE_AGREEMENT_STATES"
  by (cases k, simp_all add: core_tables) (cases st, simp_all, cases cs, simp_all)

interpretation ckindc: codec "read_enum coreProofKindFromIndex" "enc_enum CORE_PROOF_KINDS"
    "\<lambda>s. s \<in> set CORE_PROOF_KINDS"
  unfolding coreProofKindFromIndex_def by (rule enum_codec) (simp_all add: core_tables)

interpretation cstatc: codec "read_enum coreProofStatusFromIndex" "enc_enum CORE_PROOF_STATUSES"
    "\<lambda>s. s \<in> set CORE_PROOF_STATUSES"
  unfolding coreProofStatusFromIndex_def by (rule enum_codec) (simp_all add: core_tables)

interpretation cstatec: codec "read_enum commerceStateFromIndex" "enc_enum COMMERCE_AGREEMENT_STATES"
    "\<lambda>s. s \<in> set COMMERCE_AGREEMENT_STATES"
  unfolding commerceStateFromIndex_def by (rule enum_codec) (simp_all add: core_tables)

text \<open>The body of a signature, after its tag.\<close>

definition read_signature_body :: "reader \<Rightarrow> (commerce_signature \<times> reader) result" where
  "read_signature_body r =
     bindR (read_pubkey r) (\<lambda>(signer, r).
     bindR (u32 r) (\<lambda>(versionSigned, r).
     bindR (read_hex 32 r) (\<lambda>(contentHashSigned, r).
     bindR (read_hex 32 r) (\<lambda>(termsHashSigned, r).
     bindR (i64 r) (\<lambda>(signedAt, r).
     Inr (\<lparr>cs_signer = signer,
       cs_versionSigned = versionSigned,
       cs_contentHashSigned = contentHashSigned,
       cs_termsHashSigned = termsHashSigned,
       cs_signedAt = signedAt\<rparr>, r))))))"

lemma read_signature_body_reads:
  "read_signature_body (reader_at p s) = Inr (a, r') \<longleftrightarrow>
     wf_signature a \<and> (\<exists>t. s = enc_signature a @ t \<and> r' = reader_at (p @ enc_signature a) t)"
  unfolding read_signature_body_def
  by (cases a) (auto simp: reader_simps wf_signature_def enc_signature_def)

interpretation sigbody: codec read_signature_body enc_signature wf_signature
  by (rule codec.intro) (rule read_signature_body_reads)

interpretation sigc: codec readSignature "enc_opt enc_signature" "valid_opt wf_signature"
  by (rule opt_codec [OF sigbody.codec_axioms])
     (auto simp: readSignature_def read_signature_body_def bindR_def split: sum.splits intro!: bindR_cong)

lemmas core_backs [reader_backs] =
  ckindc.bind_back cstatc.bind_back cstatec.bind_back sigc.bind_back

lemmas core_reads [reader_simps] =
  ckindc.bind_reads cstatc.bind_reads cstatec.bind_reads sigc.bind_reads

section \<open>What the decoders accept\<close>

lemma decodeProofAccount_Inr:
  "decodeProofAccount sha data = Inr a \<longleftrightarrow>
     take 8 data = PROOF_ACCOUNT_DISCRIMINATOR sha \<and> wf_proof a
     \<and> (\<exists>pad. length pad = 32 \<and> drop 8 data = enc_proof a @ pad)" (is "?decoded \<longleftrightarrow> ?accepted")
proof
  assume ?decoded
  then show ?accepted
    unfolding decodeProofAccount_def wf_proof_def enc_proof_def BorshReader_at
    by (cases a) (auto simp: reader_simps split: if_splits)
next
  assume ?accepted
  then show ?decoded
    unfolding decodeProofAccount_def wf_proof_def enc_proof_def BorshReader_at
    by (auto simp: reader_backs simp del: One_nat_def enc_uint_1)
qed

lemma decodeMilestoneAccount_Inr:
  "decodeMilestoneAccount sha data = Inr a \<longleftrightarrow>
     take 8 data = MILESTONE_ACCOUNT_DISCRIMINATOR sha \<and> wf_milestone a
     \<and> (\<exists>pad. length pad = 32 \<and> drop 8 data = enc_milestone a @ pad)" (is "?decoded \<longleftrightarrow> ?accepted")
proof
  assume ?decoded
  then show ?accepted
    unfolding decodeMilestoneAccount_def wf_milestone_def enc_milestone_def BorshReader_at
    by (cases a) (auto simp: reader_simps split: if_splits)
next
  assume ?accepted
  then show ?decoded
    unfolding decodeMilestoneAccount_def wf_milestone_def enc_milestone_def BorshReader_at
    by (auto simp: reader_backs simp del: One_nat_def enc_uint_1)
qed

lemma decodeCoreProofAccount_Inr:
  "decodeCoreProofAccount sha data = Inr a \<longleftrightarrow>
     take 8 data = CORE_PROOF_DISCRIMINATOR sha \<and> wf_core_proof a
     \<and> (\<exists>pad. length pad = 64 \<and> drop 8 data = enc_core_proof a @ pad)" (is "?decoded \<longleftrightarrow> ?accepted")
proof
  assume ?decoded
  then show ?accepted
    unfolding decodeCoreProofAccount_def wf_core_proof_def enc_core_proof_def BorshReader_at
    by (cases a) (auto simp: reader_simps split: if_splits)
next
  assume ?accepted
  then show ?decoded
    unfolding decodeCoreProofAccount_def wf_core_proof_def enc_core_proof_def BorshReader_at
    by (auto simp: reader_backs simp del: One_nat_def enc_uint_1)
qed

lemma decodeEscrow_Inr:
  "decodeEscrowAgreementAccount sha data = Inr a \<longleftrightarrow>
     take 8 data = ESCROW_AGREEMENT_ACCOUNT_DISCRIMINATOR sha \<and> wf_agreement a
     \<and> (\<exists>pad. length pad = 40 \<and> drop 8 data = enc_agreement a @ pad)" (is "?decoded \<longleftrightarrow> ?accepted")
proof
  assume ?decoded
  then show ?accepted
    unfolding decodeEscrowAgreementAccount_def wf_agreement_def enc_agreement_def BorshReader_at
    by (cases a) (auto simp: reader_simps split: if_splits)
next
  assume ?accepted
  then show ?decoded
    unfolding decodeEscrowAgreementAccount_def wf_agreement_def enc_agreement_def BorshReader_at
    by (auto simp: reader_backs simp del: One_nat_def enc_uint_1)
qed

lemma decodeCommerce_Inr:
  "decodeCommerceAgreementAccount sha data = Inr a \<longleftrightarrow>
     take 8 data = COMMERCE_AGREEMENT_DISCRIMINATOR sha \<and> wf_commerce a
     \<and> (\<exists>pad n. length pad = 64 \<and> drop 8 data = enc_commerce a @ pad @ replicate n 0)" (is "?decoded \<longleftrightarrow> ?accepted")
proof
  assume ?decoded
  then show ?accepted
    unfolding decodeCommerceAgreementAccount_def wf_commerce_def enc_commerce_def BorshReader_at
    by (cases a) (auto simp: reader_simps split: if_splits)
next
  assume ?accepted
  then show ?decoded
    unfolding decodeCommerceAgreementAccount_def wf_commerce_def enc_commerce_def BorshReader_at
    by (auto simp: reader_backs simp del: One_nat_def enc_uint_1)
qed

lemma length_enc_agreement: "wf_agreement a \<Longrightarrow> length (enc_agreement a) = 314"
  by (simp add: enc_agreement_def wf_agreement_def field_lengths)

lemma split_disc:
  "drop 8 data = enc @ pad \<Longrightarrow> 0 < length enc \<Longrightarrow> length data = 8 + length enc + length pad"
  by (cases "8 \<le> length data") (auto dest!: arg_cong [where f = length])

section \<open>Properties\<close>

text \<open>
  C6: The agreement decoder accepts exactly the discriminator followed by the borsh layout
  of some well-formed agreement and 40 reserved bytes, returns that agreement, and so only
  ever accepts buffers of the declared size; whatever the reserved bytes hold is ignored.
\<close>

theorem decodeEscrowAgreementAccount_exact:
  "(decodeEscrowAgreementAccount sha data = Inr a \<longleftrightarrow>
      take 8 data = ESCROW_AGREEMENT_ACCOUNT_DISCRIMINATOR sha
      \<and> length data = ESCROW_AGREEMENT_ACCOUNT_SIZE \<and> wf_agreement a
      \<and> take (ESCROW_AGREEMENT_ACCOUNT_SIZE - 48) (drop 8 data) = enc_agreement a)"
proof -
  have size: "ESCROW_AGREEMENT_ACCOUNT_SIZE = 362"
    by (simp add: ESCROW_AGREEMENT_ACCOUNT_SIZE_def)
  show ?thesis
  proof
    assume "decodeEscrowAgreementAccount sha data = Inr a"
    then obtain pad where h: "take 8 data = ESCROW_AGREEMENT_ACCOUNT_DISCRIMINATOR sha"
        "wf_agreement a" "length pad = 40" "drop 8 data = enc_agreement a @ pad"
      unfolding decodeEscrow_Inr by blast
    then show "take 8 data = ESCROW_AGREEMENT_ACCOUNT_DISCRIMINATOR sha
      \<and> length data = ESCROW_AGREEMENT_ACCOUNT_SIZE \<and> wf_agreement a
      \<and> take (ESCROW_AGREEMENT_ACCOUNT_SIZE - 48) (drop 8 data) = enc_agreement a"
      using split_disc [OF h(4)] length_enc_agreement [OF h(2)] size by simp
  next
    assume h: "take 8 data = ESCROW_AGREEMENT_ACCOUNT_DISCRIMINATOR sha
      \<and> length data = ESCROW_AGREEMENT_ACCOUNT_SIZE \<and> wf_agreement a
      \<and> take (ESCROW_AGREEMENT_ACCOUNT_SIZE - 48) (drop 8 data) = enc_agreement a"
    moreover have "(362::nat) - 48 = 314" by simp
    ultimately have enc: "take 314 (drop 8 data) = enc_agreement a" and "length (drop 322 data) = 40"
      unfolding size by (argo, simp)
    moreover have "drop 8 data = enc_agreement a @ drop 322 data"
      using append_take_drop_id [of 314 "drop 8 data"] enc by (simp add: drop_drop)
    ultimately show "decodeEscrowAgreementAccount sha data = Inr a"
      using h unfolding decodeEscrow_Inr by blast
  qed
qed

text \<open>
  The negotiated agreement of \<open>ppv_commerce\<close> is accepted exactly as its layout, each
  absent signature one byte long, then 64 reserved bytes and nothing but zeros after them:
  a buffer with content the decoder does not know is refused, not misread.
\<close>

theorem decodeCommerceAgreementAccount_exact:
  "decodeCommerceAgreementAccount sha data = Inr a \<longleftrightarrow>
     take 8 data = COMMERCE_AGREEMENT_DISCRIMINATOR sha \<and> wf_commerce a
     \<and> take (length (enc_commerce a)) (drop 8 data) = enc_commerce a
     \<and> length (enc_commerce a) + 72 \<le> length data
     \<and> set (drop (length (enc_commerce a) + 72) data) \<subseteq> {0}"
proof -
  let ?n = "length (enc_commerce a)"
  have pos: "0 < ?n"
    by (simp add: enc_commerce_def)
  have "(\<exists>pad n. length pad = 64 \<and> drop 8 data = enc_commerce a @ pad @ replicate n 0) \<longleftrightarrow>
      take ?n (drop 8 data) = enc_commerce a \<and> ?n + 72 \<le> length data
      \<and> set (drop (?n + 72) data) \<subseteq> {0}" (is "?l \<longleftrightarrow> ?r")
  proof
    assume ?l
    then obtain pad n where h: "length pad = 64" "drop 8 data = enc_commerce a @ pad @ replicate n 0"
      by blast
    then have "drop (?n + 72) data = replicate n 0"
      using drop_drop [of "?n + 64" 8 data] by (simp add: add.commute)
    with h show ?r using split_disc [OF h(2) pos] by auto
  next
    assume r: ?r
    then have "drop (?n + 72) data = replicate (length data - (?n + 72)) 0"
      by (intro replicate_eqI) auto
    moreover have "drop 8 data = take ?n (drop 8 data) @ take 64 (drop ?n (drop 8 data))
        @ drop 64 (drop ?n (drop 8 data))" by (simp only: append_take_drop_id)
    moreover have "drop ?n (drop 8 data) = drop (?n + 8) data" by (rule drop_drop)
    moreover have "drop 64 (drop (?n + 8) data) = drop (?n + 72) data"
      unfolding drop_drop by (rule arg_cong [where f = "\<lambda>k. drop k data"]) simp
    ultimately have "drop 8 data = enc_commerce a @ take 64 (drop (?n + 8) data)
        @ replicate (length data - (?n + 72)) 0"
      using r by argo
    moreover have "length (take 64 (drop (?n + 8) data)) = 64" using r by (simp add: min_def) linarith
    ultimately show ?l by blast
  qed
  then show ?thesis unfolding decodeCommerce_Inr by blast
qed

end
