(* ===== verification/Escrow_Events.thy ===== *)
theory Escrow_Events
  imports Hashing Reader
begin

text \<open>
  The events \<open>ppv_escrow\<close> emits (\<open>sdk/src/escrow/events.ts\<close>): the union of event shapes,
  the decoder of an event CPI, and the layout it accepts. Fields that several shapes share
  have one selector; the two fields whose type depends on the shape have two.
\<close>

definition EVENT_IX_TAG :: bytes where
  "EVENT_IX_TAG = [0xe4, 0x45, 0xa5, 0x2e, 0x51, 0xcb, 0x9a, 0x1d]"

datatype escrow_event_name =
    Name_AgreementOpened | Name_AgreementFunded | Name_WorkCompleted | Name_SettlementExecuted
    | Name_ProofSubmitted | Name_ProofApproved | Name_ProofRejected | Name_AgreementAbandoned
    | Name_DisputeOpened | Name_DisputeResolved | Name_RefundExecuted | Name_MilestoneCreated
    | Name_MilestoneSubmitted | Name_MilestoneApproved | Name_MilestoneRejected
    | Name_MilestoneSettled | Name_CounterpartyAssigned

fun escrow_event_name_text :: "escrow_event_name \<Rightarrow> string" where
  "escrow_event_name_text Name_AgreementOpened = ''AgreementOpened''"
| "escrow_event_name_text Name_AgreementFunded = ''AgreementFunded''"
| "escrow_event_name_text Name_WorkCompleted = ''WorkCompleted''"
| "escrow_event_name_text Name_SettlementExecuted = ''SettlementExecuted''"
| "escrow_event_name_text Name_ProofSubmitted = ''ProofSubmitted''"
| "escrow_event_name_text Name_ProofApproved = ''ProofApproved''"
| "escrow_event_name_text Name_ProofRejected = ''ProofRejected''"
| "escrow_event_name_text Name_AgreementAbandoned = ''AgreementAbandoned''"
| "escrow_event_name_text Name_DisputeOpened = ''DisputeOpened''"
| "escrow_event_name_text Name_DisputeResolved = ''DisputeResolved''"
| "escrow_event_name_text Name_RefundExecuted = ''RefundExecuted''"
| "escrow_event_name_text Name_MilestoneCreated = ''MilestoneCreated''"
| "escrow_event_name_text Name_MilestoneSubmitted = ''MilestoneSubmitted''"
| "escrow_event_name_text Name_MilestoneApproved = ''MilestoneApproved''"
| "escrow_event_name_text Name_MilestoneRejected = ''MilestoneRejected''"
| "escrow_event_name_text Name_MilestoneSettled = ''MilestoneSettled''"
| "escrow_event_name_text Name_CounterpartyAssigned = ''CounterpartyAssigned''"

definition PPV_ESCROW_EVENT_NAMES :: "escrow_event_name list" where
  "PPV_ESCROW_EVENT_NAMES =
     [Name_AgreementOpened, Name_AgreementFunded, Name_WorkCompleted, Name_SettlementExecuted,
     Name_ProofSubmitted, Name_ProofApproved, Name_ProofRejected, Name_AgreementAbandoned,
     Name_DisputeOpened, Name_DisputeResolved, Name_RefundExecuted, Name_MilestoneCreated,
     Name_MilestoneSubmitted, Name_MilestoneApproved, Name_MilestoneRejected,
     Name_MilestoneSettled, Name_CounterpartyAssigned]"

datatype escrow_event =
    AgreementOpened
      (ev_agreement: string) (ev_agreementId: int) (ev_creator: string)
      (ev_counterparty: string) (ev_agreementType: agreement_type) (ev_mint: string)
      (ev_vault: string) (ev_amount: int) (ev_termsHash: string)
      (ev_newState: agreement_state) (ev_timestamp: int)
  | AgreementFunded
      (ev_agreement: string) (ev_creator: string) (ev_counterparty: string) (ev_amount: int)
      (ev_mint: string) (ev_vault: string) (ev_previousState: agreement_state)
      (ev_newState: agreement_state) (ev_timestamp: int)
  | WorkCompleted
      (ev_agreement: string) (ev_creator: string) (ev_counterparty: string) (ev_actor: string)
      (ev_previousState: agreement_state) (ev_newState: agreement_state) (ev_timestamp: int)
  | SettlementExecuted
      (ev_agreement: string) (ev_buyer: string) (ev_seller: string) (ev_amount: int)
      (ev_mint: string) (ev_destination: string) (ev_settlementProof: "string option")
      (ev_previousState: agreement_state) (ev_newState: agreement_state) (ev_timestamp: int)
  | ProofSubmitted
      (ev_agreement: string) (ev_proof: string) (ev_coreProof: string) (ev_creator: string)
      (ev_counterparty: string) (ev_submitter: string) (ev_proofIndex: int)
      (ev_contentHash: string) (ev_metadataHash: string) (ev_agreementState: agreement_state)
      (ev_timestamp: int)
  | ProofApproved
      (ev_agreement: string) (ev_proof: string) (ev_coreProof: string) (ev_creator: string)
      (ev_counterparty: string) (ev_submitter: string) (ev_decidedBy: string)
      (ev_proofIndex: int) (ev_agreementState: agreement_state) (ev_timestamp: int)
  | ProofRejected
      (ev_agreement: string) (ev_proof: string) (ev_coreProof: string) (ev_creator: string)
      (ev_counterparty: string) (ev_submitter: string) (ev_decidedBy: string)
      (ev_proofIndex: int) (ev_agreementState: agreement_state) (ev_timestamp: int)
  | AgreementAbandoned
      (ev_agreement: string) (ev_creator: string) (ev_counterparty: string)
      (ev_cancelledBy: string) (ev_previousState: agreement_state)
      (ev_newState: agreement_state) (ev_timestamp: int)
  | DisputeOpened
      (ev_agreement: string) (ev_creator: string) (ev_counterparty: string)
      (ev_openedBy: string) (ev_reasonHash: string) (ev_previousState: agreement_state)
      (ev_newState: agreement_state) (ev_timestamp: int)
  | DisputeResolved
      (ev_agreement: string) (ev_creator: string) (ev_counterparty: string)
      (ev_resolvedBy: string) (ev_beneficiary: string) (ev_outcome: dispute_outcome)
      (ev_openedBy: string) (ev_resultingState: agreement_state) (ev_timestamp: int)
  | RefundExecuted
      (ev_agreement: string) (ev_buyer: string) (ev_seller: string) (ev_refundedBy: string)
      (ev_amount: int) (ev_mint: string) (ev_destination: string)
      (ev_previousState: agreement_state) (ev_newState: agreement_state) (ev_timestamp: int)
  | MilestoneCreated
      (ev_agreement: string) (ev_milestone: string) (ev_creator: string)
      (ev_counterparty: string) (ev_milestoneIndex: int) (ev_amount: int)
      (ev_termsHash: string) (ev_agreementState: agreement_state) (ev_timestamp: int)
  | MilestoneSubmitted
      (ev_agreement: string) (ev_milestone: string) (ev_creator: string)
      (ev_counterparty: string) (ev_milestoneIndex: int)
      (ev_previousMilestone: milestone_state) (ev_newMilestone: milestone_state)
      (ev_agreementState: agreement_state) (ev_timestamp: int)
  | MilestoneApproved
      (ev_agreement: string) (ev_milestone: string) (ev_creator: string)
      (ev_counterparty: string) (ev_milestoneIndex: int)
      (ev_previousMilestone: milestone_state) (ev_newMilestone: milestone_state)
      (ev_agreementState: agreement_state) (ev_timestamp: int)
  | MilestoneRejected
      (ev_agreement: string) (ev_milestone: string) (ev_creator: string)
      (ev_counterparty: string) (ev_milestoneIndex: int)
      (ev_previousMilestone: milestone_state) (ev_newMilestone: milestone_state)
      (ev_agreementState: agreement_state) (ev_timestamp: int)
  | MilestoneSettled
      (ev_agreement: string) (ev_milestone: string) (ev_creator: string)
      (ev_counterparty: string) (ev_milestoneIndex: int) (ev_amount: int)
      (ev_destination: string) (ev_settlementProof: "string option")
      (ev_previousMilestone: milestone_state) (ev_newMilestone: milestone_state)
      (ev_agreementState: agreement_state) (ev_timestamp: int)
  | CounterpartyAssigned
      (ev_agreement: string) (ev_creator: string) (ev_counterparty: string)
      (ev_agreementState: agreement_state) (ev_timestamp: int)

fun ev_name :: "escrow_event \<Rightarrow> escrow_event_name" where
  "ev_name (AgreementOpened _ _ _ _ _ _ _ _ _ _ _) = Name_AgreementOpened"
| "ev_name (AgreementFunded _ _ _ _ _ _ _ _ _) = Name_AgreementFunded"
| "ev_name (WorkCompleted _ _ _ _ _ _ _) = Name_WorkCompleted"
| "ev_name (SettlementExecuted _ _ _ _ _ _ _ _ _ _) = Name_SettlementExecuted"
| "ev_name (ProofSubmitted _ _ _ _ _ _ _ _ _ _ _) = Name_ProofSubmitted"
| "ev_name (ProofApproved _ _ _ _ _ _ _ _ _ _) = Name_ProofApproved"
| "ev_name (ProofRejected _ _ _ _ _ _ _ _ _ _) = Name_ProofRejected"
| "ev_name (AgreementAbandoned _ _ _ _ _ _ _) = Name_AgreementAbandoned"
| "ev_name (DisputeOpened _ _ _ _ _ _ _ _) = Name_DisputeOpened"
| "ev_name (DisputeResolved _ _ _ _ _ _ _ _ _) = Name_DisputeResolved"
| "ev_name (RefundExecuted _ _ _ _ _ _ _ _ _ _) = Name_RefundExecuted"
| "ev_name (MilestoneCreated _ _ _ _ _ _ _ _ _) = Name_MilestoneCreated"
| "ev_name (MilestoneSubmitted _ _ _ _ _ _ _ _ _) = Name_MilestoneSubmitted"
| "ev_name (MilestoneApproved _ _ _ _ _ _ _ _ _) = Name_MilestoneApproved"
| "ev_name (MilestoneRejected _ _ _ _ _ _ _ _ _) = Name_MilestoneRejected"
| "ev_name (MilestoneSettled _ _ _ _ _ _ _ _ _ _ _ _) = Name_MilestoneSettled"
| "ev_name (CounterpartyAssigned _ _ _ _ _) = Name_CounterpartyAssigned"

definition escrowEventDiscriminatorHex :: "(bytes \<Rightarrow> bytes) \<Rightarrow> escrow_event_name \<Rightarrow> string" where
  "escrowEventDiscriminatorHex sha name =
     hex (anchorDiscriminator sha ''event'' (escrow_event_name_text name))"

definition ESCROW_DISCRIMINATORS :: "(bytes \<Rightarrow> bytes) \<Rightarrow> (escrow_event_name \<times> bytes) list" where
  "ESCROW_DISCRIMINATORS sha =
     map (\<lambda>name. (name, anchorDiscriminator sha ''event'' (escrow_event_name_text name)))
       PPV_ESCROW_EVENT_NAMES"

definition readMilestoneTransition ::
    "reader \<Rightarrow> ((string \<times> string \<times> string \<times> string \<times> int \<times> milestone_state
       \<times> milestone_state \<times> agreement_state \<times> int) \<times> reader) result" where
  "readMilestoneTransition r =
     bindR (read_pubkey r) (\<lambda>(agreement, r).
     bindR (read_pubkey r) (\<lambda>(milestone, r).
     bindR (read_pubkey r) (\<lambda>(creator, r).
     bindR (read_pubkey r) (\<lambda>(counterparty, r).
     bindR (u32 r) (\<lambda>(milestoneIndex, r).
     bindR (read_milestoneState r) (\<lambda>(previousMilestone, r).
     bindR (read_milestoneState r) (\<lambda>(newMilestone, r).
     bindR (read_state r) (\<lambda>(agreementState, r).
     bindR (i64 r) (\<lambda>(timestamp, r).
     Inr ((agreement, milestone, creator, counterparty,
       milestoneIndex, previousMilestone, newMilestone, agreementState, timestamp), r))))))))))"

fun read_escrow_event :: "escrow_event_name \<Rightarrow> reader \<Rightarrow> (escrow_event \<times> reader) result" where
  "read_escrow_event Name_AgreementOpened r =
     bindR (read_pubkey r) (\<lambda>(agreement, r).
     bindR (u64 r) (\<lambda>(agreementId, r).
     bindR (read_pubkey r) (\<lambda>(creator, r).
     bindR (read_pubkey r) (\<lambda>(counterparty, r).
     bindR (read_agreementType r) (\<lambda>(agreementType, r).
     bindR (read_pubkey r) (\<lambda>(mint, r).
     bindR (read_pubkey r) (\<lambda>(vault, r).
     bindR (u64 r) (\<lambda>(amount, r).
     bindR (read_hex 32 r) (\<lambda>(termsHash, r).
     bindR (read_state r) (\<lambda>(newState, r).
     bindR (i64 r) (\<lambda>(timestamp, r).
     Inr (AgreementOpened
       agreement agreementId creator counterparty agreementType mint vault amount termsHash
       newState timestamp, r))))))))))))"
| "read_escrow_event Name_AgreementFunded r =
     bindR (read_pubkey r) (\<lambda>(agreement, r).
     bindR (read_pubkey r) (\<lambda>(creator, r).
     bindR (read_pubkey r) (\<lambda>(counterparty, r).
     bindR (u64 r) (\<lambda>(amount, r).
     bindR (read_pubkey r) (\<lambda>(mint, r).
     bindR (read_pubkey r) (\<lambda>(vault, r).
     bindR (read_state r) (\<lambda>(previousState, r).
     bindR (read_state r) (\<lambda>(newState, r).
     bindR (i64 r) (\<lambda>(timestamp, r).
     Inr (AgreementFunded
       agreement creator counterparty amount mint vault previousState newState timestamp, r))))))))))"
| "read_escrow_event Name_WorkCompleted r =
     bindR (read_pubkey r) (\<lambda>(agreement, r).
     bindR (read_pubkey r) (\<lambda>(creator, r).
     bindR (read_pubkey r) (\<lambda>(counterparty, r).
     bindR (read_pubkey r) (\<lambda>(actor, r).
     bindR (read_state r) (\<lambda>(previousState, r).
     bindR (read_state r) (\<lambda>(newState, r).
     bindR (i64 r) (\<lambda>(timestamp, r).
     Inr (WorkCompleted
       agreement creator counterparty actor previousState newState timestamp, r))))))))"
| "read_escrow_event Name_SettlementExecuted r =
     bindR (read_pubkey r) (\<lambda>(agreement, r).
     bindR (read_pubkey r) (\<lambda>(buyer, r).
     bindR (read_pubkey r) (\<lambda>(seller, r).
     bindR (u64 r) (\<lambda>(amount, r).
     bindR (read_pubkey r) (\<lambda>(mint, r).
     bindR (read_pubkey r) (\<lambda>(destination, r).
     bindR (optionalPubkey r) (\<lambda>(settlementProof, r).
     bindR (read_state r) (\<lambda>(previousState, r).
     bindR (read_state r) (\<lambda>(newState, r).
     bindR (i64 r) (\<lambda>(timestamp, r).
     Inr (SettlementExecuted
       agreement buyer seller amount mint destination settlementProof previousState newState
       timestamp, r)))))))))))"
| "read_escrow_event Name_ProofSubmitted r =
     bindR (read_pubkey r) (\<lambda>(agreement, r).
     bindR (read_pubkey r) (\<lambda>(proof, r).
     bindR (read_pubkey r) (\<lambda>(coreProof, r).
     bindR (read_pubkey r) (\<lambda>(creator, r).
     bindR (read_pubkey r) (\<lambda>(counterparty, r).
     bindR (read_pubkey r) (\<lambda>(submitter, r).
     bindR (u32 r) (\<lambda>(proofIndex, r).
     bindR (read_hex 32 r) (\<lambda>(contentHash, r).
     bindR (read_hex 32 r) (\<lambda>(metadataHash, r).
     bindR (read_state r) (\<lambda>(agreementState, r).
     bindR (i64 r) (\<lambda>(timestamp, r).
     Inr (ProofSubmitted
       agreement proof coreProof creator counterparty submitter proofIndex contentHash
       metadataHash agreementState timestamp, r))))))))))))"
| "read_escrow_event Name_ProofApproved r =
     bindR (read_pubkey r) (\<lambda>(agreement, r).
     bindR (read_pubkey r) (\<lambda>(proof, r).
     bindR (read_pubkey r) (\<lambda>(coreProof, r).
     bindR (read_pubkey r) (\<lambda>(creator, r).
     bindR (read_pubkey r) (\<lambda>(counterparty, r).
     bindR (read_pubkey r) (\<lambda>(submitter, r).
     bindR (read_pubkey r) (\<lambda>(decidedBy, r).
     bindR (u32 r) (\<lambda>(proofIndex, r).
     bindR (read_state r) (\<lambda>(agreementState, r).
     bindR (i64 r) (\<lambda>(timestamp, r).
     Inr (ProofApproved
       agreement proof coreProof creator counterparty submitter decidedBy proofIndex
       agreementState timestamp, r)))))))))))"
| "read_escrow_event Name_ProofRejected r =
     bindR (read_pubkey r) (\<lambda>(agreement, r).
     bindR (read_pubkey r) (\<lambda>(proof, r).
     bindR (read_pubkey r) (\<lambda>(coreProof, r).
     bindR (read_pubkey r) (\<lambda>(creator, r).
     bindR (read_pubkey r) (\<lambda>(counterparty, r).
     bindR (read_pubkey r) (\<lambda>(submitter, r).
     bindR (read_pubkey r) (\<lambda>(decidedBy, r).
     bindR (u32 r) (\<lambda>(proofIndex, r).
     bindR (read_state r) (\<lambda>(agreementState, r).
     bindR (i64 r) (\<lambda>(timestamp, r).
     Inr (ProofRejected
       agreement proof coreProof creator counterparty submitter decidedBy proofIndex
       agreementState timestamp, r)))))))))))"
| "read_escrow_event Name_AgreementAbandoned r =
     bindR (read_pubkey r) (\<lambda>(agreement, r).
     bindR (read_pubkey r) (\<lambda>(creator, r).
     bindR (read_pubkey r) (\<lambda>(counterparty, r).
     bindR (read_pubkey r) (\<lambda>(cancelledBy, r).
     bindR (read_state r) (\<lambda>(previousState, r).
     bindR (read_state r) (\<lambda>(newState, r).
     bindR (i64 r) (\<lambda>(timestamp, r).
     Inr (AgreementAbandoned
       agreement creator counterparty cancelledBy previousState newState timestamp, r))))))))"
| "read_escrow_event Name_DisputeOpened r =
     bindR (read_pubkey r) (\<lambda>(agreement, r).
     bindR (read_pubkey r) (\<lambda>(creator, r).
     bindR (read_pubkey r) (\<lambda>(counterparty, r).
     bindR (read_pubkey r) (\<lambda>(openedBy, r).
     bindR (read_hex 32 r) (\<lambda>(reasonHash, r).
     bindR (read_state r) (\<lambda>(previousState, r).
     bindR (read_state r) (\<lambda>(newState, r).
     bindR (i64 r) (\<lambda>(timestamp, r).
     Inr (DisputeOpened
       agreement creator counterparty openedBy reasonHash previousState newState timestamp, r)))))))))"
| "read_escrow_event Name_DisputeResolved r =
     bindR (read_pubkey r) (\<lambda>(agreement, r).
     bindR (read_pubkey r) (\<lambda>(creator, r).
     bindR (read_pubkey r) (\<lambda>(counterparty, r).
     bindR (read_pubkey r) (\<lambda>(resolvedBy, r).
     bindR (read_pubkey r) (\<lambda>(beneficiary, r).
     bindR (read_disputeOutcome r) (\<lambda>(outcome, r).
     bindR (read_pubkey r) (\<lambda>(openedBy, r).
     bindR (read_state r) (\<lambda>(resultingState, r).
     bindR (i64 r) (\<lambda>(timestamp, r).
     Inr (DisputeResolved
       agreement creator counterparty resolvedBy beneficiary outcome openedBy resultingState
       timestamp, r))))))))))"
| "read_escrow_event Name_RefundExecuted r =
     bindR (read_pubkey r) (\<lambda>(agreement, r).
     bindR (read_pubkey r) (\<lambda>(buyer, r).
     bindR (read_pubkey r) (\<lambda>(seller, r).
     bindR (read_pubkey r) (\<lambda>(refundedBy, r).
     bindR (u64 r) (\<lambda>(amount, r).
     bindR (read_pubkey r) (\<lambda>(mint, r).
     bindR (read_pubkey r) (\<lambda>(destination, r).
     bindR (read_state r) (\<lambda>(previousState, r).
     bindR (read_state r) (\<lambda>(newState, r).
     bindR (i64 r) (\<lambda>(timestamp, r).
     Inr (RefundExecuted
       agreement buyer seller refundedBy amount mint destination previousState newState
       timestamp, r)))))))))))"
| "read_escrow_event Name_MilestoneCreated r =
     bindR (read_pubkey r) (\<lambda>(agreement, r).
     bindR (read_pubkey r) (\<lambda>(milestone, r).
     bindR (read_pubkey r) (\<lambda>(creator, r).
     bindR (read_pubkey r) (\<lambda>(counterparty, r).
     bindR (u32 r) (\<lambda>(milestoneIndex, r).
     bindR (u64 r) (\<lambda>(amount, r).
     bindR (read_hex 32 r) (\<lambda>(termsHash, r).
     bindR (read_state r) (\<lambda>(agreementState, r).
     bindR (i64 r) (\<lambda>(timestamp, r).
     Inr (MilestoneCreated
       agreement milestone creator counterparty milestoneIndex amount termsHash agreementState
       timestamp, r))))))))))"
| "read_escrow_event Name_MilestoneSubmitted r =
     bindR (readMilestoneTransition r) (\<lambda>((agreement, milestone, creator, counterparty,
       milestoneIndex, previousMilestone, newMilestone, agreementState, timestamp), r).
     Inr (MilestoneSubmitted
       agreement milestone creator counterparty milestoneIndex previousMilestone newMilestone
       agreementState timestamp, r))"
| "read_escrow_event Name_MilestoneApproved r =
     bindR (readMilestoneTransition r) (\<lambda>((agreement, milestone, creator, counterparty,
       milestoneIndex, previousMilestone, newMilestone, agreementState, timestamp), r).
     Inr (MilestoneApproved
       agreement milestone creator counterparty milestoneIndex previousMilestone newMilestone
       agreementState timestamp, r))"
| "read_escrow_event Name_MilestoneRejected r =
     bindR (readMilestoneTransition r) (\<lambda>((agreement, milestone, creator, counterparty,
       milestoneIndex, previousMilestone, newMilestone, agreementState, timestamp), r).
     Inr (MilestoneRejected
       agreement milestone creator counterparty milestoneIndex previousMilestone newMilestone
       agreementState timestamp, r))"
| "read_escrow_event Name_MilestoneSettled r =
     bindR (read_pubkey r) (\<lambda>(agreement, r).
     bindR (read_pubkey r) (\<lambda>(milestone, r).
     bindR (read_pubkey r) (\<lambda>(creator, r).
     bindR (read_pubkey r) (\<lambda>(counterparty, r).
     bindR (u32 r) (\<lambda>(milestoneIndex, r).
     bindR (u64 r) (\<lambda>(amount, r).
     bindR (read_pubkey r) (\<lambda>(destination, r).
     bindR (optionalPubkey r) (\<lambda>(settlementProof, r).
     bindR (read_milestoneState r) (\<lambda>(previousMilestone, r).
     bindR (read_milestoneState r) (\<lambda>(newMilestone, r).
     bindR (read_state r) (\<lambda>(agreementState, r).
     bindR (i64 r) (\<lambda>(timestamp, r).
     Inr (MilestoneSettled
       agreement milestone creator counterparty milestoneIndex amount destination
       settlementProof previousMilestone newMilestone agreementState timestamp, r)))))))))))))"
| "read_escrow_event Name_CounterpartyAssigned r =
     bindR (read_pubkey r) (\<lambda>(agreement, r).
     bindR (read_pubkey r) (\<lambda>(creator, r).
     bindR (read_pubkey r) (\<lambda>(counterparty, r).
     bindR (read_state r) (\<lambda>(agreementState, r).
     bindR (i64 r) (\<lambda>(timestamp, r).
     Inr (CounterpartyAssigned
       agreement creator counterparty agreementState timestamp, r))))))"

definition decodeEscrowEventData :: "(bytes \<Rightarrow> bytes) \<Rightarrow> bytes \<Rightarrow> escrow_event option result" where
  "decodeEscrowEventData sha data =
     (if length data < 16 \<or> \<not> bytesEqual (take 8 data) EVENT_IX_TAG then Inr None
      else let discriminator = take 8 (drop 8 data)
           in case find (\<lambda>entry. bytesEqual (snd entry) discriminator) (ESCROW_DISCRIMINATORS sha) of
                None \<Rightarrow> Inr None
              | Some (name, _) \<Rightarrow>
                  bindR (read_escrow_event name (BorshReader (drop 16 data))) (\<lambda>(event, r).
                  if remaining r \<noteq> 0 then throw RangeError ''event data has trailing bytes''
                  else Inr (Some event)))"

section \<open>Layout\<close>

fun enc_escrow_event :: "escrow_event \<Rightarrow> bytes" where
  "enc_escrow_event (AgreementOpened
       agreement agreementId creator counterparty agreementType mint vault amount termsHash
       newState timestamp) =
     key_bytes agreement @ enc_uint 8 agreementId @ key_bytes creator @
     key_bytes counterparty @ enc_enum AGREEMENT_TYPES agreementType @ key_bytes mint @
     key_bytes vault @ enc_uint 8 amount @ unhex termsHash @
     enc_enum AGREEMENT_STATES newState @ enc_i64 timestamp"
| "enc_escrow_event (AgreementFunded
       agreement creator counterparty amount mint vault previousState newState timestamp) =
     key_bytes agreement @ key_bytes creator @ key_bytes counterparty @ enc_uint 8 amount @
     key_bytes mint @ key_bytes vault @ enc_enum AGREEMENT_STATES previousState @
     enc_enum AGREEMENT_STATES newState @ enc_i64 timestamp"
| "enc_escrow_event (WorkCompleted
       agreement creator counterparty actor previousState newState timestamp) =
     key_bytes agreement @ key_bytes creator @ key_bytes counterparty @ key_bytes actor @
     enc_enum AGREEMENT_STATES previousState @ enc_enum AGREEMENT_STATES newState @
     enc_i64 timestamp"
| "enc_escrow_event (SettlementExecuted
       agreement buyer seller amount mint destination settlementProof previousState newState
       timestamp) =
     key_bytes agreement @ key_bytes buyer @ key_bytes seller @ enc_uint 8 amount @
     key_bytes mint @ key_bytes destination @ enc_opt key_bytes settlementProof @
     enc_enum AGREEMENT_STATES previousState @ enc_enum AGREEMENT_STATES newState @
     enc_i64 timestamp"
| "enc_escrow_event (ProofSubmitted
       agreement proof coreProof creator counterparty submitter proofIndex contentHash
       metadataHash agreementState timestamp) =
     key_bytes agreement @ key_bytes proof @ key_bytes coreProof @ key_bytes creator @
     key_bytes counterparty @ key_bytes submitter @ enc_uint 4 proofIndex @
     unhex contentHash @ unhex metadataHash @ enc_enum AGREEMENT_STATES agreementState @
     enc_i64 timestamp"
| "enc_escrow_event (ProofApproved
       agreement proof coreProof creator counterparty submitter decidedBy proofIndex
       agreementState timestamp) =
     key_bytes agreement @ key_bytes proof @ key_bytes coreProof @ key_bytes creator @
     key_bytes counterparty @ key_bytes submitter @ key_bytes decidedBy @
     enc_uint 4 proofIndex @ enc_enum AGREEMENT_STATES agreementState @ enc_i64 timestamp"
| "enc_escrow_event (ProofRejected
       agreement proof coreProof creator counterparty submitter decidedBy proofIndex
       agreementState timestamp) =
     key_bytes agreement @ key_bytes proof @ key_bytes coreProof @ key_bytes creator @
     key_bytes counterparty @ key_bytes submitter @ key_bytes decidedBy @
     enc_uint 4 proofIndex @ enc_enum AGREEMENT_STATES agreementState @ enc_i64 timestamp"
| "enc_escrow_event (AgreementAbandoned
       agreement creator counterparty cancelledBy previousState newState timestamp) =
     key_bytes agreement @ key_bytes creator @ key_bytes counterparty @
     key_bytes cancelledBy @ enc_enum AGREEMENT_STATES previousState @
     enc_enum AGREEMENT_STATES newState @ enc_i64 timestamp"
| "enc_escrow_event (DisputeOpened
       agreement creator counterparty openedBy reasonHash previousState newState timestamp) =
     key_bytes agreement @ key_bytes creator @ key_bytes counterparty @ key_bytes openedBy @
     unhex reasonHash @ enc_enum AGREEMENT_STATES previousState @
     enc_enum AGREEMENT_STATES newState @ enc_i64 timestamp"
| "enc_escrow_event (DisputeResolved
       agreement creator counterparty resolvedBy beneficiary outcome openedBy resultingState
       timestamp) =
     key_bytes agreement @ key_bytes creator @ key_bytes counterparty @ key_bytes resolvedBy @
     key_bytes beneficiary @ enc_enum DISPUTE_OUTCOMES outcome @ key_bytes openedBy @
     enc_enum AGREEMENT_STATES resultingState @ enc_i64 timestamp"
| "enc_escrow_event (RefundExecuted
       agreement buyer seller refundedBy amount mint destination previousState newState
       timestamp) =
     key_bytes agreement @ key_bytes buyer @ key_bytes seller @ key_bytes refundedBy @
     enc_uint 8 amount @ key_bytes mint @ key_bytes destination @
     enc_enum AGREEMENT_STATES previousState @ enc_enum AGREEMENT_STATES newState @
     enc_i64 timestamp"
| "enc_escrow_event (MilestoneCreated
       agreement milestone creator counterparty milestoneIndex amount termsHash agreementState
       timestamp) =
     key_bytes agreement @ key_bytes milestone @ key_bytes creator @ key_bytes counterparty @
     enc_uint 4 milestoneIndex @ enc_uint 8 amount @ unhex termsHash @
     enc_enum AGREEMENT_STATES agreementState @ enc_i64 timestamp"
| "enc_escrow_event (MilestoneSubmitted
       agreement milestone creator counterparty milestoneIndex previousMilestone newMilestone
       agreementState timestamp) =
     key_bytes agreement @ key_bytes milestone @ key_bytes creator @ key_bytes counterparty @
     enc_uint 4 milestoneIndex @ enc_enum MILESTONE_STATES previousMilestone @
     enc_enum MILESTONE_STATES newMilestone @ enc_enum AGREEMENT_STATES agreementState @
     enc_i64 timestamp"
| "enc_escrow_event (MilestoneApproved
       agreement milestone creator counterparty milestoneIndex previousMilestone newMilestone
       agreementState timestamp) =
     key_bytes agreement @ key_bytes milestone @ key_bytes creator @ key_bytes counterparty @
     enc_uint 4 milestoneIndex @ enc_enum MILESTONE_STATES previousMilestone @
     enc_enum MILESTONE_STATES newMilestone @ enc_enum AGREEMENT_STATES agreementState @
     enc_i64 timestamp"
| "enc_escrow_event (MilestoneRejected
       agreement milestone creator counterparty milestoneIndex previousMilestone newMilestone
       agreementState timestamp) =
     key_bytes agreement @ key_bytes milestone @ key_bytes creator @ key_bytes counterparty @
     enc_uint 4 milestoneIndex @ enc_enum MILESTONE_STATES previousMilestone @
     enc_enum MILESTONE_STATES newMilestone @ enc_enum AGREEMENT_STATES agreementState @
     enc_i64 timestamp"
| "enc_escrow_event (MilestoneSettled
       agreement milestone creator counterparty milestoneIndex amount destination
       settlementProof previousMilestone newMilestone agreementState timestamp) =
     key_bytes agreement @ key_bytes milestone @ key_bytes creator @ key_bytes counterparty @
     enc_uint 4 milestoneIndex @ enc_uint 8 amount @ key_bytes destination @
     enc_opt key_bytes settlementProof @ enc_enum MILESTONE_STATES previousMilestone @
     enc_enum MILESTONE_STATES newMilestone @ enc_enum AGREEMENT_STATES agreementState @
     enc_i64 timestamp"
| "enc_escrow_event (CounterpartyAssigned
       agreement creator counterparty agreementState timestamp) =
     key_bytes agreement @ key_bytes creator @ key_bytes counterparty @
     enc_enum AGREEMENT_STATES agreementState @ enc_i64 timestamp"

fun wf_escrow_event :: "escrow_event \<Rightarrow> bool" where
  "wf_escrow_event (AgreementOpened
       agreement agreementId creator counterparty _ mint vault amount termsHash _ timestamp) \<longleftrightarrow>
     is_pubkey agreement \<and> uint_in 8 agreementId \<and> is_pubkey creator \<and>
     is_pubkey counterparty \<and> is_pubkey mint \<and> is_pubkey vault \<and>
     uint_in 8 amount \<and> is_hex 32 termsHash \<and> safe_int timestamp"
| "wf_escrow_event (AgreementFunded
       agreement creator counterparty amount mint vault _ _ timestamp) \<longleftrightarrow>
     is_pubkey agreement \<and> is_pubkey creator \<and> is_pubkey counterparty \<and>
     uint_in 8 amount \<and> is_pubkey mint \<and> is_pubkey vault \<and> safe_int timestamp"
| "wf_escrow_event (WorkCompleted
       agreement creator counterparty actor _ _ timestamp) \<longleftrightarrow>
     is_pubkey agreement \<and> is_pubkey creator \<and> is_pubkey counterparty \<and>
     is_pubkey actor \<and> safe_int timestamp"
| "wf_escrow_event (SettlementExecuted
       agreement buyer seller amount mint destination settlementProof _ _ timestamp) \<longleftrightarrow>
     is_pubkey agreement \<and> is_pubkey buyer \<and> is_pubkey seller \<and>
     uint_in 8 amount \<and> is_pubkey mint \<and> is_pubkey destination \<and>
     valid_opt is_pubkey settlementProof \<and> safe_int timestamp"
| "wf_escrow_event (ProofSubmitted
       agreement proof coreProof creator counterparty submitter proofIndex contentHash
       metadataHash _ timestamp) \<longleftrightarrow>
     is_pubkey agreement \<and> is_pubkey proof \<and> is_pubkey coreProof \<and>
     is_pubkey creator \<and> is_pubkey counterparty \<and> is_pubkey submitter \<and>
     uint_in 4 proofIndex \<and> is_hex 32 contentHash \<and> is_hex 32 metadataHash \<and>
     safe_int timestamp"
| "wf_escrow_event (ProofApproved
       agreement proof coreProof creator counterparty submitter decidedBy proofIndex _
       timestamp) \<longleftrightarrow>
     is_pubkey agreement \<and> is_pubkey proof \<and> is_pubkey coreProof \<and>
     is_pubkey creator \<and> is_pubkey counterparty \<and> is_pubkey submitter \<and>
     is_pubkey decidedBy \<and> uint_in 4 proofIndex \<and> safe_int timestamp"
| "wf_escrow_event (ProofRejected
       agreement proof coreProof creator counterparty submitter decidedBy proofIndex _
       timestamp) \<longleftrightarrow>
     is_pubkey agreement \<and> is_pubkey proof \<and> is_pubkey coreProof \<and>
     is_pubkey creator \<and> is_pubkey counterparty \<and> is_pubkey submitter \<and>
     is_pubkey decidedBy \<and> uint_in 4 proofIndex \<and> safe_int timestamp"
| "wf_escrow_event (AgreementAbandoned
       agreement creator counterparty cancelledBy _ _ timestamp) \<longleftrightarrow>
     is_pubkey agreement \<and> is_pubkey creator \<and> is_pubkey counterparty \<and>
     is_pubkey cancelledBy \<and> safe_int timestamp"
| "wf_escrow_event (DisputeOpened
       agreement creator counterparty openedBy reasonHash _ _ timestamp) \<longleftrightarrow>
     is_pubkey agreement \<and> is_pubkey creator \<and> is_pubkey counterparty \<and>
     is_pubkey openedBy \<and> is_hex 32 reasonHash \<and> safe_int timestamp"
| "wf_escrow_event (DisputeResolved
       agreement creator counterparty resolvedBy beneficiary _ openedBy _ timestamp) \<longleftrightarrow>
     is_pubkey agreement \<and> is_pubkey creator \<and> is_pubkey counterparty \<and>
     is_pubkey resolvedBy \<and> is_pubkey beneficiary \<and> is_pubkey openedBy \<and>
     safe_int timestamp"
| "wf_escrow_event (RefundExecuted
       agreement buyer seller refundedBy amount mint destination _ _ timestamp) \<longleftrightarrow>
     is_pubkey agreement \<and> is_pubkey buyer \<and> is_pubkey seller \<and>
     is_pubkey refundedBy \<and> uint_in 8 amount \<and> is_pubkey mint \<and>
     is_pubkey destination \<and> safe_int timestamp"
| "wf_escrow_event (MilestoneCreated
       agreement milestone creator counterparty milestoneIndex amount termsHash _ timestamp) \<longleftrightarrow>
     is_pubkey agreement \<and> is_pubkey milestone \<and> is_pubkey creator \<and>
     is_pubkey counterparty \<and> uint_in 4 milestoneIndex \<and> uint_in 8 amount \<and>
     is_hex 32 termsHash \<and> safe_int timestamp"
| "wf_escrow_event (MilestoneSubmitted
       agreement milestone creator counterparty milestoneIndex _ _ _ timestamp) \<longleftrightarrow>
     is_pubkey agreement \<and> is_pubkey milestone \<and> is_pubkey creator \<and>
     is_pubkey counterparty \<and> uint_in 4 milestoneIndex \<and> safe_int timestamp"
| "wf_escrow_event (MilestoneApproved
       agreement milestone creator counterparty milestoneIndex _ _ _ timestamp) \<longleftrightarrow>
     is_pubkey agreement \<and> is_pubkey milestone \<and> is_pubkey creator \<and>
     is_pubkey counterparty \<and> uint_in 4 milestoneIndex \<and> safe_int timestamp"
| "wf_escrow_event (MilestoneRejected
       agreement milestone creator counterparty milestoneIndex _ _ _ timestamp) \<longleftrightarrow>
     is_pubkey agreement \<and> is_pubkey milestone \<and> is_pubkey creator \<and>
     is_pubkey counterparty \<and> uint_in 4 milestoneIndex \<and> safe_int timestamp"
| "wf_escrow_event (MilestoneSettled
       agreement milestone creator counterparty milestoneIndex amount destination
       settlementProof _ _ _ timestamp) \<longleftrightarrow>
     is_pubkey agreement \<and> is_pubkey milestone \<and> is_pubkey creator \<and>
     is_pubkey counterparty \<and> uint_in 4 milestoneIndex \<and> uint_in 8 amount \<and>
     is_pubkey destination \<and> valid_opt is_pubkey settlementProof \<and>
     safe_int timestamp"
| "wf_escrow_event (CounterpartyAssigned
       agreement creator counterparty _ timestamp) \<longleftrightarrow>
     is_pubkey agreement \<and> is_pubkey creator \<and> is_pubkey counterparty \<and>
     safe_int timestamp"

fun enc_transition :: "string \<times> string \<times> string \<times> string \<times> int \<times> milestone_state
    \<times> milestone_state \<times> agreement_state \<times> int \<Rightarrow> bytes" where
  "enc_transition (agreement, milestone, creator, counterparty, milestoneIndex,
       previousMilestone, newMilestone, agreementState, timestamp) =
     key_bytes agreement @ key_bytes milestone @ key_bytes creator @ key_bytes counterparty @
     enc_uint 4 milestoneIndex @ enc_enum MILESTONE_STATES previousMilestone @
     enc_enum MILESTONE_STATES newMilestone @ enc_enum AGREEMENT_STATES agreementState @
     enc_i64 timestamp"

fun wf_transition :: "string \<times> string \<times> string \<times> string \<times> int \<times> milestone_state
    \<times> milestone_state \<times> agreement_state \<times> int \<Rightarrow> bool" where
  "wf_transition (agreement, milestone, creator, counterparty, milestoneIndex, _, _, _, timestamp) \<longleftrightarrow>
     is_pubkey agreement \<and> is_pubkey milestone \<and> is_pubkey creator \<and> is_pubkey counterparty \<and>
     uint_in 4 milestoneIndex \<and> safe_int timestamp"

interpretation transition: codec readMilestoneTransition enc_transition wf_transition
proof
  fix p s a r'
  show "readMilestoneTransition (reader_at p s) = Inr (a, r') \<longleftrightarrow>
      wf_transition a \<and> (\<exists>t. s = enc_transition a @ t \<and> r' = reader_at (p @ enc_transition a) t)"
  proof
    assume "readMilestoneTransition (reader_at p s) = Inr (a, r')"
    then show "wf_transition a \<and> (\<exists>t. s = enc_transition a @ t \<and> r' = reader_at (p @ enc_transition a) t)"
      by (cases a) (auto simp: reader_simps readMilestoneTransition_def)
  next
    assume "wf_transition a \<and> (\<exists>t. s = enc_transition a @ t \<and> r' = reader_at (p @ enc_transition a) t)"
    then show "readMilestoneTransition (reader_at p s) = Inr (a, r')"
      by (cases a) (auto simp: reader_backs readMilestoneTransition_def)
  qed
qed

declare transition.bind_reads [reader_simps]

lemma transition_back [reader_backs]:
  assumes "wf_transition (a, m, c, k, i, ps, ns, st, ts)"
  shows "bindR (readMilestoneTransition (reader_at p (key_bytes a @ key_bytes m @ key_bytes c
       @ key_bytes k @ enc_uint 4 i @ enc_enum MILESTONE_STATES ps @ enc_enum MILESTONE_STATES ns
       @ enc_enum AGREEMENT_STATES st @ enc_i64 ts @ t))) f
     = f ((a, m, c, k, i, ps, ns, st, ts), reader_at (p @ enc_transition (a, m, c, k, i, ps, ns, st, ts)) t)"
  using transition.bind_back [OF assms, of p t f] by simp

lemma read_escrow_event_reads:
  "read_escrow_event name (reader_at p s) = Inr (e, r') \<longleftrightarrow>
     ev_name e = name \<and> wf_escrow_event e
     \<and> (\<exists>t. s = enc_escrow_event e @ t \<and> r' = reader_at (p @ enc_escrow_event e) t)"
proof
  assume "read_escrow_event name (reader_at p s) = Inr (e, r')"
  then show "ev_name e = name \<and> wf_escrow_event e
     \<and> (\<exists>t. s = enc_escrow_event e @ t \<and> r' = reader_at (p @ enc_escrow_event e) t)"
    by (cases name) (auto simp: reader_simps)
next
  assume "ev_name e = name \<and> wf_escrow_event e
     \<and> (\<exists>t. s = enc_escrow_event e @ t \<and> r' = reader_at (p @ enc_escrow_event e) t)"
  then show "read_escrow_event name (reader_at p s) = Inr (e, r')"
    by (cases e) (auto simp: reader_backs)
qed

text \<open>Which event a discriminator selects: the first of the table that carries it.\<close>

definition escrow_event_match :: "(bytes \<Rightarrow> bytes) \<Rightarrow> bytes \<Rightarrow> escrow_event_name option" where
  "escrow_event_match sha d =
     map_option fst (find (\<lambda>entry. bytesEqual (snd entry) d) (ESCROW_DISCRIMINATORS sha))"

lemma decodeEscrowEventData_match:
  "decodeEscrowEventData sha data =
     (if length data < 16 \<or> take 8 data \<noteq> EVENT_IX_TAG then Inr None
      else case escrow_event_match sha (take 8 (drop 8 data)) of
             None \<Rightarrow> Inr None
           | Some name \<Rightarrow> bindR (read_escrow_event name (reader_at [] (drop 16 data))) (\<lambda>(event, r).
               if remaining r \<noteq> 0 then throw RangeError ''event data has trailing bytes''
               else Inr (Some event)))"
  by (auto simp: decodeEscrowEventData_def escrow_event_match_def BorshReader_at Let_def
      split: option.splits)

lemma decodeEscrowEventData_Some:
  "decodeEscrowEventData sha data = Inr (Some e) \<longleftrightarrow>
     16 \<le> length data \<and> take 8 data = EVENT_IX_TAG
     \<and> escrow_event_match sha (take 8 (drop 8 data)) = Some (ev_name e)
     \<and> wf_escrow_event e \<and> drop 16 data = enc_escrow_event e"
proof
  assume "decodeEscrowEventData sha data = Inr (Some e)"
  then show "16 \<le> length data \<and> take 8 data = EVENT_IX_TAG
     \<and> escrow_event_match sha (take 8 (drop 8 data)) = Some (ev_name e)
     \<and> wf_escrow_event e \<and> drop 16 data = enc_escrow_event e"
    unfolding decodeEscrowEventData_match
    by (auto simp: bindR_eq_Inr read_escrow_event_reads split: option.splits if_splits)
next
  assume h: "16 \<le> length data \<and> take 8 data = EVENT_IX_TAG
     \<and> escrow_event_match sha (take 8 (drop 8 data)) = Some (ev_name e)
     \<and> wf_escrow_event e \<and> drop 16 data = enc_escrow_event e"
  then have "read_escrow_event (ev_name e) (reader_at [] (drop 16 data))
      = Inr (e, reader_at ([] @ enc_escrow_event e) [])"
    by (simp add: read_escrow_event_reads)
  with h show "decodeEscrowEventData sha data = Inr (Some e)"
    unfolding decodeEscrowEventData_match by simp
qed

lemma all_escrow_names [simp]: "n \<in> set PPV_ESCROW_EVENT_NAMES"
  by (cases n) (simp_all add: PPV_ESCROW_EVENT_NAMES_def)

lemma distinct_escrow_names: "distinct PPV_ESCROW_EVENT_NAMES"
  by (simp add: PPV_ESCROW_EVENT_NAMES_def)

lemma escrow_event_match_own:
  assumes "distinct (map snd (ESCROW_DISCRIMINATORS sha))"
  shows "escrow_event_match sha (anchorDiscriminator sha ''event'' (escrow_event_name_text n)) = Some n"
proof -
  let ?e = "(n, anchorDiscriminator sha ''event'' (escrow_event_name_text n))"
  have "?e \<in> set (ESCROW_DISCRIMINATORS sha)"
    by (simp add: ESCROW_DISCRIMINATORS_def)
  from find_map_distinct [OF assms this]
  show ?thesis by (simp add: escrow_event_match_def)
qed

text \<open>
  A stand-in hash for the evaluated examples: short, 32 bytes long on every name of the
  sources, and different on all of them.
\<close>

definition toy_sha :: "bytes \<Rightarrow> bytes" where
  "toy_sha bs = take 32 (take 3 (drop 6 bs) @ take 5 (rev bs) @ replicate 24 0)"

lemma toy_sha_distinct: "distinct (map snd (ESCROW_DISCRIMINATORS toy_sha))"
  by (simp add: ESCROW_DISCRIMINATORS_def PPV_ESCROW_EVENT_NAMES_def anchorDiscriminator_def
      toy_sha_def utf8_def)

section \<open>Properties\<close>

text \<open>
  Decoding an event CPI inverts its encoding: over pairwise different 8-byte event
  discriminators, the tag, the event's discriminator and its borsh fields decode to that
  event, for each of the seventeen event shapes.
\<close>

theorem decodeEscrowEventData_roundtrip:
  assumes "distinct (map snd (ESCROW_DISCRIMINATORS sha))"
    and "length (anchorDiscriminator sha ''event'' (escrow_event_name_text (ev_name e))) = 8"
    and "wf_escrow_event e"
  shows "decodeEscrowEventData sha
     (EVENT_IX_TAG @ anchorDiscriminator sha ''event'' (escrow_event_name_text (ev_name e))
        @ enc_escrow_event e) = Inr (Some e)"
  using assms escrow_event_match_own [OF assms(1), of "ev_name e"]
  unfolding decodeEscrowEventData_Some by (simp add: EVENT_IX_TAG_def)

theorem decodeEscrowEventData_roundtrip_witness:
  "decodeEscrowEventData toy_sha
     (EVENT_IX_TAG @ anchorDiscriminator toy_sha ''event'' ''CounterpartyAssigned''
        @ replicate 32 0 @ replicate 32 0 @ replicate 32 0 @ [1] @ replicate 8 0)
   = Inr (Some (CounterpartyAssigned (replicate 32 CHR ''1'') (replicate 32 CHR ''1'')
       (replicate 32 CHR ''1'') Funded 0))"
proof -
  let ?k = "replicate 32 CHR ''1''"
  let ?e = "CounterpartyAssigned ?k ?k ?k Funded 0"
  have k: "encodeBase58 (replicate 32 0) = ?k"
    by (rule encodeBase58_zeros)
  then have key: "key_bytes ?k = replicate 32 0" by (metis key_bytes_encode)
  have ok: "is_pubkey ?k" unfolding k [symmetric] by (rule is_pubkey_encode) simp
  have enc: "enc_escrow_event ?e
      = replicate 32 0 @ replicate 32 0 @ replicate 32 0 @ [1] @ replicate 8 0"
    unfolding enc_escrow_event.simps key
    by (simp add: enc_enum_def enum_tables enc_i64_def le_bytes_0)
  have "wf_escrow_event ?e" using ok by (simp add: safe_int_def max_safe_integer_def)
  moreover have "length (anchorDiscriminator toy_sha ''event'' (escrow_event_name_text (ev_name ?e))) = 8"
    by (simp add: anchorDiscriminator_def toy_sha_def)
  ultimately have "decodeEscrowEventData toy_sha (EVENT_IX_TAG
      @ anchorDiscriminator toy_sha ''event'' (escrow_event_name_text (ev_name ?e)) @ enc_escrow_event ?e)
      = Inr (Some ?e)"
    by (intro decodeEscrowEventData_roundtrip toy_sha_distinct)
  then show ?thesis unfolding enc by (simp only: ev_name.simps escrow_event_name_text.simps)
qed

text \<open>
  C5: The decoder tells ``not ours'' from ``corrupt'': it answers nothing exactly when the
  bytes lack the event tag or carry no discriminator of this program; otherwise it returns
  an event only for the full layout of that event, and throws in every other case.
\<close>

theorem decodeEscrowEventData_classifies:
  "case decodeEscrowEventData sha data of
     Inr None \<Rightarrow> \<not> (16 \<le> length data \<and> take 8 data = EVENT_IX_TAG
       \<and> take 8 (drop 8 data) \<in> snd ` set (ESCROW_DISCRIMINATORS sha))
   | Inr (Some e) \<Rightarrow> wf_escrow_event e
       \<and> data = EVENT_IX_TAG
           @ anchorDiscriminator sha ''event'' (escrow_event_name_text (ev_name e)) @ enc_escrow_event e
   | Inl _ \<Rightarrow> take 8 data = EVENT_IX_TAG
       \<and> take 8 (drop 8 data) \<in> snd ` set (ESCROW_DISCRIMINATORS sha)
       \<and> \<not> (\<exists>e. wf_escrow_event e
             \<and> escrow_event_match sha (take 8 (drop 8 data)) = Some (ev_name e)
             \<and> drop 16 data = enc_escrow_event e)"
proof -
  let ?d = "take 8 (drop 8 data)"
  have none: "escrow_event_match sha ?d = None \<longleftrightarrow> ?d \<notin> snd ` set (ESCROW_DISCRIMINATORS sha)"
    by (auto simp: escrow_event_match_def find_None_iff image_iff)
  have own: "anchorDiscriminator sha ''event'' (escrow_event_name_text n) = ?d"
    if "escrow_event_match sha ?d = Some n" for n
    using that by (auto simp: escrow_event_match_def ESCROW_DISCRIMINATORS_def find_Some_iff)
  have split: "data = take 8 data @ ?d @ drop 16 data"
    by (metis append_take_drop_id drop_drop add_numeral_left arith_simps(45) numeral_plus_numeral
        add.commute numeral_Bit0)
  show ?thesis
  proof (cases "decodeEscrowEventData sha data")
    case (Inl err)
    then have notag: "16 \<le> length data" "take 8 data = EVENT_IX_TAG"
      "escrow_event_match sha ?d \<noteq> None"
      unfolding decodeEscrowEventData_match by (auto split: if_splits option.splits)
    moreover have "decodeEscrowEventData sha data \<noteq> Inr (Some e)" for e using Inl by simp
    ultimately show ?thesis using Inl none unfolding decodeEscrowEventData_Some by auto
  next
    case (Inr r)
    show ?thesis
    proof (cases r)
      case None
      with Inr show ?thesis using none
        unfolding decodeEscrowEventData_match
        by (auto simp: bindR_eq_Inr split: if_splits option.splits)
    next
      case (Some e)
      with Inr have "decodeEscrowEventData sha data = Inr (Some e)" by simp
      then show ?thesis
        using own [of "ev_name e"] split Inr Some unfolding decodeEscrowEventData_Some by simp
    qed
  qed
qed

end
