(* ===== verification/Iso_Time.thy ===== *)
theory Iso_Time
  imports Prelude
begin

text \<open>
  \<open>Date.prototype.toISOString\<close> on a whole number of seconds since the epoch: the proleptic
  Gregorian calendar, the six-digit years beyond 9999 and the \<open>RangeError\<close> outside the
  representable time range, as ECMAScript defines them. Used wherever the sources turn a
  chain timestamp into text.
\<close>

text \<open>Year, month and day of a day number, counted from 1970-01-01.\<close>

definition civil_of_days :: "int \<Rightarrow> int \<times> int \<times> int" where
  "civil_of_days days =
     (let z = days + 719468;
          era = z div 146097;
          doe = z mod 146097;
          yoe = (doe - doe div 1460 + doe div 36524 - doe div 146096) div 365;
          doy = doe - (365 * yoe + yoe div 4 - yoe div 100);
          mp = (5 * doy + 2) div 153;
          day = doy - (153 * mp + 2) div 5 + 1;
          month = (if mp < 10 then mp + 3 else mp - 9)
      in (yoe + era * 400 + (if month \<le> 2 then 1 else 0), month, day))"

definition pad :: "nat \<Rightarrow> int \<Rightarrow> string" where
  "pad width n = (let s = dec_nat (nat n) in replicate (width - length s) (CHR ''0'') @ s)"

definition year_text :: "int \<Rightarrow> string" where
  "year_text y = (if 0 \<le> y \<and> y \<le> 9999 then pad 4 y
     else (if y < 0 then ''-'' else ''+'') @ pad 6 (abs y))"

definition MAX_TIME_MS :: int where "MAX_TIME_MS = 8640000000000000"

definition toISOString :: "int \<Rightarrow> string result" where
  "toISOString seconds =
     (if seconds * 1000 > MAX_TIME_MS \<or> seconds * 1000 < - MAX_TIME_MS
      then throw RangeError ''Invalid time value''
      else let days = seconds div 86400;
               sec = seconds mod 86400;
               (y, m, d) = civil_of_days days
           in Inr (year_text y @ ''-'' @ pad 2 m @ ''-'' @ pad 2 d @ ''T'' @ pad 2 (sec div 3600)
                @ '':'' @ pad 2 (sec div 60 mod 60) @ '':'' @ pad 2 (sec mod 60) @ ''.000Z''))"

definition leap :: "int \<Rightarrow> bool" where
  "leap y \<longleftrightarrow> y mod 4 = 0 \<and> (y mod 100 \<noteq> 0 \<or> y mod 400 = 0)"

lemma toISOString_epoch: "toISOString 0 = Inr ''1970-01-01T00:00:00.000Z''"
  by code_simp

lemma toISOString_leap_day: "toISOString 951782400 = Inr ''2000-02-29T00:00:00.000Z''"
  by code_simp

lemma toISOString_last_second: "toISOString 1704067199 = Inr ''2023-12-31T23:59:59.000Z''"
  by code_simp

lemma toISOString_error:
  "toISOString s = Inl e \<longleftrightarrow>
     (s > 8640000000000 \<or> s < -8640000000000) \<and> e = Thrown RangeError ''Invalid time value''"
  by (auto simp: toISOString_def MAX_TIME_MS_def Let_def split: prod.splits)

section \<open>The calendar\<close>

text \<open>
  Within a 400-year era the year and the day of the year are what they should be: centuries
  of 36524 days, four-year spans of 1461, and the leap day at the end.
\<close>

lemma era_day:
  fixes doe :: int
  assumes "0 \<le> doe" and "doe < 146097"
  defines "yoe \<equiv> (doe - doe div 1460 + doe div 36524 - doe div 146096) div 365"
  defines "doy \<equiv> doe - (365 * yoe + yoe div 4 - yoe div 100)"
  shows "0 \<le> doy \<and> doy \<le> 365 \<and> 0 \<le> yoe \<and> yoe \<le> 399 \<and> (doe \<le> 146036 \<longrightarrow> yoe < 399 \<or> doy \<le> 305)"
proof (cases "doe = 146096")
  case True
  then show ?thesis by (simp add: yoe_def doy_def)
next
  case False
  define b where "b = doe div 36524"
  define r where "r = doe mod 36524"
  define k where "k = r div 1461"
  define s where "s = r mod 1461"
  define e :: int where "e = (if 1460 \<le> 24 * b + k + s then 1 else 0)"
  define y where "y = (s - e) div 365"
  define d where "d = (s - e) mod 365"
  have doe: "doe = 36524 * b + r" "r = 1461 * k + s" and r: "0 \<le> r" "r < 36524"
    and s: "0 \<le> s" "s < 1461" and sy: "s - e = 365 * y + d" and d: "0 \<le> d" "d < 365"
    unfolding b_def r_def k_def s_def y_def d_def by simp_all
  have b: "0 \<le> b" "b \<le> 3" using doe(1) r assms(1,2) False by linarith+
  have k: "0 \<le> k" "k \<le> 24" using doe(2) r s by linarith+
  have e: "0 \<le> e" "e \<le> 1" "e \<le> s" "24 * b + k + s - 1460 * e < 1460" "0 \<le> 24 * b + k + s - 1460 * e"
    unfolding e_def using b k s by auto
  have s_e: "s - e < 1460" using e s k b unfolding e_def by auto
  have y: "0 \<le> y" "y \<le> 3" using sy d e s s_e by linarith+
  have a: "doe div 1460 = 25 * b + k + e"
    apply (rule int_div_pos_eq [where r = "24 * b + k + s - 1460 * e"])
    subgoal unfolding doe by (simp add: algebra_simps)
    subgoal using e by linarith
    subgoal using e by linarith
    done
  have c: "doe div 146096 = 0"
    using assms(1,2) False by (intro div_pos_pos_trivial) linarith+
  have yoe: "yoe = 100 * b + 4 * k + y"
    unfolding yoe_def a c b_def [symmetric]
    by (rule int_div_pos_eq [where r = d]; (insert doe sy d, simp add: algebra_simps))
  have "yoe div 4 = 25 * b + k"
    by (rule int_div_pos_eq [where r = y]; (insert yoe y, simp add: algebra_simps))
  moreover have "yoe div 100 = b"
    by (rule int_div_pos_eq [where r = "4 * k + y"]; (insert yoe y k, simp add: algebra_simps))
  ultimately have doy: "doy = d + e"
    unfolding doy_def using doe sy yoe by linarith
  have "yoe < 399 \<or> doy \<le> 305" if "doe \<le> 146036"
  proof (cases "yoe = 399")
    case True
    with yoe b k y have "b = 3" "k = 24" "y = 3" by linarith+
    with doe sy doy that show ?thesis by linarith
  next
    case False
    with yoe b k y show ?thesis by linarith
  qed
  with doy yoe b k y d e show ?thesis by auto
qed

lemma civil_range:
  assumes "civil_of_days days = (y, m, d)" and "0 \<le> days" and "days < 2932897"
  shows "0 \<le> y \<and> y \<le> 9999 \<and> 1 \<le> m \<and> m \<le> 12 \<and> 1 \<le> d \<and> d \<le> 31"
proof -
  define z where "z = days + 719468"
  define era where "era = z div 146097"
  define doe where "doe = z mod 146097"
  define yoe where "yoe = (doe - doe div 1460 + doe div 36524 - doe div 146096) div 365"
  define doy where "doy = doe - (365 * yoe + yoe div 4 - yoe div 100)"
  define mp where "mp = (5 * doy + 2) div 153"
  have z: "z = 146097 * era + doe" and doe: "0 \<le> doe" "doe < 146097"
    unfolding era_def doe_def by simp_all
  have era: "0 \<le> era" "era \<le> 24" using z doe assms(2,3) z_def by linarith+
  have last: "doe \<le> 146036" if "era = 24" using z assms(3) that z_def by linarith
  note ed = era_day [OF doe, folded yoe_def, folded doy_def]
  have mp: "153 * mp \<le> 5 * doy + 2" "5 * doy + 2 < 153 * mp + 153"
    unfolding mp_def by (simp_all add: mult.commute)
  have mp_range: "0 \<le> mp" "mp \<le> 11" using mp ed by linarith+
  have q: "5 * ((153 * mp + 2) div 5) \<le> 153 * mp + 2" "153 * mp + 2 < 5 * ((153 * mp + 2) div 5) + 5"
    by presburger+
  have m: "m = (if mp < 10 then mp + 3 else mp - 9)"
    and d: "d = doy - (153 * mp + 2) div 5 + 1"
    and y: "y = yoe + era * 400 + (if m \<le> 2 then 1 else 0)"
    using assms(1) unfolding civil_of_days_def Let_def z_def [symmetric] era_def [symmetric]
      doe_def [symmetric] yoe_def [symmetric] doy_def [symmetric] mp_def [symmetric] prod.inject
    by blast+
  have "1 \<le> m" "m \<le> 12" using m mp_range by auto
  moreover have "1 \<le> d" "d \<le> 31" using d q mp by linarith+
  moreover have "0 \<le> y" using y ed era by simp
  moreover have "y \<le> 9999"
  proof (cases "era = 24")
    case True
    then have "yoe < 399 \<or> doy \<le> 305" using ed last by blast
    moreover have "mp < 10" if "doy \<le> 305" using that mp by linarith
    ultimately show ?thesis using y m True ed mp_range by (auto split: if_splits)
  next
    case False
    then show ?thesis using y era ed by auto
  qed
  ultimately show ?thesis by blast
qed

end
