(* ===== verification/Receipts.thy ===== *)
theory Receipts
  imports Escrow_Events Iso_Time
begin

text \<open>
  Receipts as projections of committed events (\<open>sdk/src/escrow/receipts.ts\<close>, first half):
  the deterministic identifier, the field-by-field construction for each event shape, and
  the derived kind. An action is represented by the key of the action table, which is the
  event's name; its text is the table's value.
\<close>

definition ESCROW_RECEIPT_DOMAIN :: string where "ESCROW_RECEIPT_DOMAIN = ''ppv-escrow-receipt:v1''"
definition RECEIPT_ID_HEX_LENGTH :: nat where "RECEIPT_ID_HEX_LENGTH = 40"
definition ESCROW_RECEIPT_SCHEMA_VERSION :: int where "ESCROW_RECEIPT_SCHEMA_VERSION = 1"

fun ESCROW_RECEIPT_ACTIONS :: "escrow_event_name \<Rightarrow> string" where
  "ESCROW_RECEIPT_ACTIONS Name_AgreementOpened = ''AGREEMENT_OPENED''"
| "ESCROW_RECEIPT_ACTIONS Name_AgreementFunded = ''AGREEMENT_FUNDED''"
| "ESCROW_RECEIPT_ACTIONS Name_WorkCompleted = ''WORK_COMPLETED''"
| "ESCROW_RECEIPT_ACTIONS Name_SettlementExecuted = ''SETTLEMENT_EXECUTED''"
| "ESCROW_RECEIPT_ACTIONS Name_ProofSubmitted = ''PROOF_SUBMITTED''"
| "ESCROW_RECEIPT_ACTIONS Name_ProofApproved = ''PROOF_APPROVED''"
| "ESCROW_RECEIPT_ACTIONS Name_ProofRejected = ''PROOF_REJECTED''"
| "ESCROW_RECEIPT_ACTIONS Name_AgreementAbandoned = ''AGREEMENT_ABANDONED''"
| "ESCROW_RECEIPT_ACTIONS Name_DisputeOpened = ''DISPUTE_OPENED''"
| "ESCROW_RECEIPT_ACTIONS Name_DisputeResolved = ''DISPUTE_RESOLVED''"
| "ESCROW_RECEIPT_ACTIONS Name_RefundExecuted = ''REFUND_EXECUTED''"
| "ESCROW_RECEIPT_ACTIONS Name_MilestoneCreated = ''MILESTONE_CREATED''"
| "ESCROW_RECEIPT_ACTIONS Name_MilestoneSubmitted = ''MILESTONE_SUBMITTED''"
| "ESCROW_RECEIPT_ACTIONS Name_MilestoneApproved = ''MILESTONE_APPROVED''"
| "ESCROW_RECEIPT_ACTIONS Name_MilestoneRejected = ''MILESTONE_REJECTED''"
| "ESCROW_RECEIPT_ACTIONS Name_MilestoneSettled = ''MILESTONE_SETTLED''"
| "ESCROW_RECEIPT_ACTIONS Name_CounterpartyAssigned = ''COUNTERPARTY_ASSIGNED''"

datatype receipt_kind = Transition | Annotation

definition kindOf :: "agreement_state option \<Rightarrow> agreement_state \<Rightarrow> receipt_kind" where
  "kindOf previousState newState =
     (if previousState = None \<or> previousState \<noteq> Some newState then Transition else Annotation)"

text \<open>
  The envelope of an event. The slot and the index are whatever number the caller supplies;
  block times are whole seconds, as the ledger records them.
\<close>

record event_envelope =
  en_event :: escrow_event
  en_programId :: string
  en_transactionSignature :: string
  en_slot :: js_number
  en_instructionIndex :: js_number
  en_innerInstructionIndex :: "int option"
  en_blockTime :: "int option"

record receipt_body =
  rc_schemaVersion :: int
  rc_receiptId :: string
  rc_programId :: string
  rc_action :: escrow_event_name
  rc_agreement :: string
  rc_agreementId :: int
  rc_buyer :: string
  rc_seller :: string
  rc_actor :: string
  rc_mint :: "string option"
  rc_amount :: "int option"
  rc_destination :: "string option"
  rc_proof :: "string option"
  rc_proofIndex :: "int option"
  rc_milestone :: "string option"
  rc_milestoneIndex :: "int option"
  rc_previousState :: "agreement_state option"
  rc_newState :: agreement_state
  rc_occurredAt :: string
  rc_transactionSignature :: string
  rc_slot :: int
  rc_instructionIndex :: int
  rc_innerInstructionIndex :: "int option"

record escrow_receipt = receipt_body +
  rc_kind :: receipt_kind

definition isoFromUnix :: "int \<Rightarrow> string result" where
  "isoFromUnix seconds =
     (if seconds < 0 then throw ReceiptError ''invalid timestamp'' else toISOString seconds)"

definition receipt_text ::
    "string \<Rightarrow> string \<Rightarrow> int \<Rightarrow> int option \<Rightarrow> escrow_event_name \<Rightarrow> string" where
  "receipt_text programId transactionSignature instructionIndex innerInstructionIndex action =
     ESCROW_RECEIPT_DOMAIN @ ''|'' @ programId @ ''|'' @ transactionSignature @ ''|''
       @ dec_int instructionIndex @ ''|''
       @ (case innerInstructionIndex of None \<Rightarrow> ''-'' | Some i \<Rightarrow> dec_int i) @ ''|''
       @ ESCROW_RECEIPT_ACTIONS action"

definition escrowReceiptId ::
    "(bytes \<Rightarrow> bytes) \<Rightarrow> string \<Rightarrow> string \<Rightarrow> int \<Rightarrow> int option \<Rightarrow> escrow_event_name \<Rightarrow> string" where
  "escrowReceiptId sha programId transactionSignature instructionIndex innerInstructionIndex action =
     (let digest = sha256Hex sha (receipt_text programId transactionSignature instructionIndex
            innerInstructionIndex action)
      in ''ppvr_'' @ take RECEIPT_ID_HEX_LENGTH digest)"

definition receipt_of ::
    "(bytes \<Rightarrow> bytes) \<Rightarrow> event_envelope \<Rightarrow> int \<Rightarrow> int \<Rightarrow> string \<Rightarrow> int \<Rightarrow> string \<Rightarrow> string \<Rightarrow> string
      \<Rightarrow> string option \<Rightarrow> int option \<Rightarrow> string option \<Rightarrow> string option \<Rightarrow> int option
      \<Rightarrow> string option \<Rightarrow> int option \<Rightarrow> agreement_state option \<Rightarrow> agreement_state \<Rightarrow> receipt_body" where
  "receipt_of sha en slot ix occurredAt agreementId buyer seller actor mint amount destination proof
       proofIndex milestone milestoneIndex previousState newState =
     \<lparr>rc_schemaVersion = ESCROW_RECEIPT_SCHEMA_VERSION,
      rc_receiptId = escrowReceiptId sha (en_programId en) (en_transactionSignature en) ix
        (en_innerInstructionIndex en) (ev_name (en_event en)),
      rc_programId = en_programId en, rc_action = ev_name (en_event en),
      rc_agreement = ev_agreement (en_event en), rc_agreementId = agreementId, rc_buyer = buyer,
      rc_seller = seller, rc_actor = actor, rc_mint = mint, rc_amount = amount,
      rc_destination = destination, rc_proof = proof, rc_proofIndex = proofIndex,
      rc_milestone = milestone, rc_milestoneIndex = milestoneIndex,
      rc_previousState = previousState, rc_newState = newState, rc_occurredAt = occurredAt,
      rc_transactionSignature = en_transactionSignature en, rc_slot = slot,
      rc_instructionIndex = ix, rc_innerInstructionIndex = en_innerInstructionIndex en\<rparr>"

definition receipt_fields ::
    "(bytes \<Rightarrow> bytes) \<Rightarrow> event_envelope \<Rightarrow> int \<Rightarrow> int \<Rightarrow> string \<Rightarrow> receipt_body" where
  "receipt_fields sha en slot ix at =
     (let e = en_event en; r = receipt_of sha en slot ix at
      in case ev_name e of
          Name_AgreementOpened \<Rightarrow>
            r (ev_agreementId e) (ev_creator e) (ev_counterparty e) (ev_creator e)
              (Some (ev_mint e)) None None None None None None None (ev_newState e)
        | Name_AgreementFunded \<Rightarrow>
            r 0 (ev_creator e) (ev_counterparty e) (ev_creator e) (Some (ev_mint e))
              (Some (ev_amount e)) (Some (ev_vault e)) None None None None
              (Some (ev_previousState e)) (ev_newState e)
        | Name_WorkCompleted \<Rightarrow>
            r 0 (ev_creator e) (ev_counterparty e) (ev_actor e) None None None None None None
              None (Some (ev_previousState e)) (ev_newState e)
        | Name_SettlementExecuted \<Rightarrow>
            r 0 (ev_buyer e) (ev_seller e) (ev_seller e) (Some (ev_mint e))
              (Some (ev_amount e)) (Some (ev_destination e)) (ev_settlementProof e) None None
              None (Some (ev_previousState e)) (ev_newState e)
        | Name_CounterpartyAssigned \<Rightarrow>
            r 0 (ev_creator e) (ev_counterparty e) (ev_creator e) None None None None None None
              None (Some (ev_agreementState e)) (ev_agreementState e)
        | Name_MilestoneCreated \<Rightarrow>
            r 0 (ev_creator e) (ev_counterparty e) (ev_creator e) None (Some (ev_amount e))
              None None None (Some (ev_milestone e)) (Some (ev_milestoneIndex e))
              (Some (ev_agreementState e)) (ev_agreementState e)
        | Name_MilestoneSubmitted \<Rightarrow>
            r 0 (ev_creator e) (ev_counterparty e) (ev_counterparty e) None None None None None
              (Some (ev_milestone e)) (Some (ev_milestoneIndex e)) (Some (ev_agreementState e))
              (ev_agreementState e)
        | Name_MilestoneApproved \<Rightarrow>
            r 0 (ev_creator e) (ev_counterparty e) (ev_creator e) None None None None None
              (Some (ev_milestone e)) (Some (ev_milestoneIndex e)) (Some (ev_agreementState e))
              (ev_agreementState e)
        | Name_MilestoneRejected \<Rightarrow>
            r 0 (ev_creator e) (ev_counterparty e) (ev_creator e) None None None None None
              (Some (ev_milestone e)) (Some (ev_milestoneIndex e)) (Some (ev_agreementState e))
              (ev_agreementState e)
        | Name_MilestoneSettled \<Rightarrow>
            r 0 (ev_creator e) (ev_counterparty e) (ev_counterparty e) None None
              (Some (ev_destination e)) (ev_settlementProof e) None (Some (ev_milestone e))
              (Some (ev_milestoneIndex e)) (Some (ev_agreementState e)) (ev_agreementState e)
        | Name_AgreementAbandoned \<Rightarrow>
            r 0 (ev_creator e) (ev_counterparty e) (ev_cancelledBy e) None None None None None
              None None (Some (ev_previousState e)) (ev_newState e)
        | Name_DisputeOpened \<Rightarrow>
            r 0 (ev_creator e) (ev_counterparty e) (ev_openedBy e) None None None None None
              None None (Some (ev_previousState e)) (ev_newState e)
        | Name_DisputeResolved \<Rightarrow>
            r 0 (ev_creator e) (ev_counterparty e) (ev_resolvedBy e) None None None None None
              None None (Some (ev_resultingState e)) (ev_resultingState e)
        | Name_RefundExecuted \<Rightarrow>
            r 0 (ev_buyer e) (ev_seller e) (ev_refundedBy e) (Some (ev_mint e))
              (Some (ev_amount e)) (Some (ev_destination e)) None None None None
              (Some (ev_previousState e)) (ev_newState e)
        | Name_ProofApproved \<Rightarrow>
            r 0 (ev_creator e) (ev_counterparty e) (ev_decidedBy e) None None None
              (Some (ev_proof e)) (Some (ev_proofIndex e)) None None
              (Some (ev_agreementState e)) (ev_agreementState e)
        | Name_ProofRejected \<Rightarrow>
            r 0 (ev_creator e) (ev_counterparty e) (ev_decidedBy e) None None None
              (Some (ev_proof e)) (Some (ev_proofIndex e)) None None
              (Some (ev_agreementState e)) (ev_agreementState e)
        | Name_ProofSubmitted \<Rightarrow>
            r 0 (ev_creator e) (ev_counterparty e) (ev_submitter e) None None None
              (Some (ev_proof e)) (Some (ev_proofIndex e)) None None
              (Some (ev_agreementState e)) (ev_agreementState e))"

definition buildReceipt :: "(bytes \<Rightarrow> bytes) \<Rightarrow> event_envelope \<Rightarrow> receipt_body result" where
  "buildReceipt sha en =
     (if en_transactionSignature en = [] then throw ReceiptError ''receipt requires a transaction signature''
      else if \<not> is_integer (en_instructionIndex en) \<or> negative (en_instructionIndex en)
      then throw ReceiptError ''invalid instruction index''
      else if \<not> is_integer (en_slot en) \<or> negative (en_slot en)
      then throw ReceiptError ''invalid slot''
      else
        bindR (isoFromUnix (case en_blockTime en of None \<Rightarrow> ev_timestamp (en_event en) | Some t \<Rightarrow> t))
          (\<lambda>at. Inr (receipt_fields sha en (whole (en_slot en)) (whole (en_instructionIndex en)) at)))"

definition escrowReceiptFromEvent :: "(bytes \<Rightarrow> bytes) \<Rightarrow> event_envelope \<Rightarrow> escrow_receipt result" where
  "escrowReceiptFromEvent sha en =
     bindR (buildReceipt sha en) (\<lambda>receipt.
       Inr (receipt_body.extend receipt
         (escrow_receipt.fields (kindOf (rc_previousState receipt) (rc_newState receipt)))))"

section \<open>Lemmas\<close>

lemma action_text_inject: "ESCROW_RECEIPT_ACTIONS a = ESCROW_RECEIPT_ACTIONS b \<Longrightarrow> a = b"
  by (cases a; cases b) simp_all

lemma receipt_text_inject:
  assumes "CHR ''|'' \<notin> set p" "CHR ''|'' \<notin> set p'" "CHR ''|'' \<notin> set s" "CHR ''|'' \<notin> set s'"
  shows "receipt_text p s i j a = receipt_text p' s' i' j' a' \<longleftrightarrow>
    p = p' \<and> s = s' \<and> i = i' \<and> j = j' \<and> a = a'"
proof -
  have bar: "CHR ''|'' \<notin> set (dec_int k)" for k
    by (rule dec_int_not_in) (simp_all add: is_digit_def)
  have inner: "(case j of None \<Rightarrow> ''-'' | Some i \<Rightarrow> dec_int i) = (case j' of None \<Rightarrow> ''-'' | Some i \<Rightarrow> dec_int i)
      \<longleftrightarrow> j = j'" for j j' :: "int option"
    by (auto split: option.splits dest: dec_int_not_dash [THEN notE] sym)
  have inner_bar: "CHR ''|'' \<notin> set (case j of None \<Rightarrow> ''-'' | Some i \<Rightarrow> dec_int i)" for j
    using bar by (simp split: option.split)
  have act: "ESCROW_RECEIPT_ACTIONS a = ESCROW_RECEIPT_ACTIONS a' \<longleftrightarrow> a = a'"
    using action_text_inject by blast
  show ?thesis
    unfolding receipt_text_def append_assoc append_Cons append_Nil same_append_eq list.inject simp_thms
      sep_inject [OF assms(1,2)] sep_inject [OF assms(3,4)] sep_inject [OF bar bar]
      sep_inject [OF inner_bar inner_bar] inner act dec_int_inject by blast
qed

lemma escrowReceiptId_eq:
  "escrowReceiptId sha p s i j a = escrowReceiptId sha p' s' i' j' a' \<longleftrightarrow>
     take 20 (sha (utf8 (receipt_text p s i j a))) = take 20 (sha (utf8 (receipt_text p' s' i' j' a')))"
  using id_prefix [unfolded ID_HEX_LENGTH_def]
  by (simp add: escrowReceiptId_def Let_def RECEIPT_ID_HEX_LENGTH_def)

section \<open>Properties\<close>

text \<open>
  A receipt identifier stands for its chain coordinates: two receipts of base58 program
  ids and signatures share an identifier only when SHA-256 agrees on the first 160 bits of
  their texts, and the texts are equal only for the same program, transaction, instruction,
  inner instruction and action.
\<close>

theorem escrowReceiptId_coordinates:
  "let m = receipt_text (encodeBase58 p) (encodeBase58 s) i j a;
       m' = receipt_text (encodeBase58 p') (encodeBase58 s') i' j' a'
   in (escrowReceiptId sha (encodeBase58 p) (encodeBase58 s) i j a
         = escrowReceiptId sha (encodeBase58 p') (encodeBase58 s') i' j' a'
       \<longleftrightarrow> take 20 (sha (utf8 m)) = take 20 (sha (utf8 m')))
      \<and> (m = m' \<longleftrightarrow> p = p' \<and> s = s' \<and> i = i' \<and> j = j' \<and> a = a')"
  unfolding Let_def escrowReceiptId_eq
  using receipt_text_inject [OF base58_no_separator(2) base58_no_separator(2) base58_no_separator(2)
      base58_no_separator(2)]
  by (simp only: encodeBase58_inject simp_thms)

definition annotating :: "escrow_event_name set" where
  "annotating = {Name_ProofSubmitted, Name_ProofApproved, Name_ProofRejected, Name_DisputeResolved,
     Name_MilestoneCreated, Name_MilestoneSubmitted, Name_MilestoneApproved, Name_MilestoneRejected,
     Name_MilestoneSettled, Name_CounterpartyAssigned}"

text \<open>
  Building a receipt fails exactly for an empty signature, an index or slot that is not
  a non-negative integer, or a time before the epoch or beyond the calendar; otherwise the
  receipt restates the event, an event that does not move the agreement is an annotation, the
  creation is a transition, and an amount is reported for the four events that state one and
  no other, so a tranche is never counted twice.
\<close>

theorem escrowReceiptFromEvent_total:
  "let e = en_event en; time = (case en_blockTime en of None \<Rightarrow> ev_timestamp e | Some t \<Rightarrow> t)
   in case escrowReceiptFromEvent sha en of
     Inl err \<Rightarrow> \<not> (en_transactionSignature en \<noteq> []
       \<and> is_integer (en_instructionIndex en) \<and> \<not> negative (en_instructionIndex en)
       \<and> is_integer (en_slot en) \<and> \<not> negative (en_slot en) \<and> 0 \<le> time \<and> time \<le> 8640000000000)
   | Inr r \<Rightarrow> en_transactionSignature en \<noteq> [] \<and> 0 \<le> time \<and> time \<le> 8640000000000
       \<and> en_instructionIndex en = Whole (rc_instructionIndex r) \<and> 0 \<le> rc_instructionIndex r
       \<and> en_slot en = Whole (rc_slot r) \<and> 0 \<le> rc_slot r
       \<and> rc_agreement r = ev_agreement e \<and> rc_action r = ev_name e
       \<and> rc_kind r = (if ev_name e \<in> annotating then Annotation
            else if ev_name e = Name_AgreementOpened then Transition
            else if ev_previousState e = rc_newState r then Annotation else Transition)
       \<and> rc_amount r = (if ev_name e \<in> {Name_AgreementFunded, Name_SettlementExecuted,
              Name_RefundExecuted, Name_MilestoneCreated} then Some (ev_amount e) else None)"
proof -
  let ?e = "en_event en"
  let ?time = "case en_blockTime en of None \<Rightarrow> ev_timestamp ?e | Some t \<Rightarrow> t"
  have whole: "is_integer n \<Longrightarrow> n = Whole (whole n)" "negative (Whole k) \<longleftrightarrow> k < 0" for n k
    by (cases n) simp_all
  have fields: "rc_agreement (receipt_fields sha en slot ix at) = ev_agreement ?e"
    "rc_action (receipt_fields sha en slot ix at) = ev_name ?e"
    "rc_slot (receipt_fields sha en slot ix at) = slot"
    "rc_instructionIndex (receipt_fields sha en slot ix at) = ix"
    "kindOf (rc_previousState (receipt_fields sha en slot ix at))
        (rc_newState (receipt_fields sha en slot ix at))
      = (if ev_name ?e \<in> annotating then Annotation
         else if ev_name ?e = Name_AgreementOpened then Transition
         else if ev_previousState ?e = rc_newState (receipt_fields sha en slot ix at) then Annotation
         else Transition)"
    "rc_amount (receipt_fields sha en slot ix at) = (if ev_name ?e \<in> {Name_AgreementFunded,
        Name_SettlementExecuted, Name_RefundExecuted, Name_MilestoneCreated} then Some (ev_amount ?e)
        else None)" for slot ix at
    by (cases "ev_name ?e"; simp add: receipt_fields_def receipt_of_def Let_def annotating_def kindOf_def)+
  have iso: "isoFromUnix ?time = Inl err \<Longrightarrow> ?time < 0 \<or> 8640000000000 < ?time" for err
    by (auto simp: isoFromUnix_def toISOString_error split: if_splits)
  have iso': "isoFromUnix ?time = Inr at \<Longrightarrow> 0 \<le> ?time \<and> ?time \<le> 8640000000000" for at
    using toISOString_error [of ?time "Thrown RangeError ''Invalid time value''"]
    by (auto simp: isoFromUnix_def split: if_splits)
  show ?thesis
  proof (cases "escrowReceiptFromEvent sha en")
    case (Inl err)
    then have "\<not> (en_transactionSignature en \<noteq> []
       \<and> is_integer (en_instructionIndex en) \<and> \<not> negative (en_instructionIndex en)
       \<and> is_integer (en_slot en) \<and> \<not> negative (en_slot en) \<and> 0 \<le> ?time \<and> ?time \<le> 8640000000000)"
      using iso by (auto simp: escrowReceiptFromEvent_def buildReceipt_def bindR_eq_Inl split: if_splits)
    then show ?thesis unfolding Inl Let_def sum.case .
  next
    case (Inr r)
    then obtain body where body: "buildReceipt sha en = Inr body"
      and r: "r = receipt_body.extend body (escrow_receipt.fields
         (kindOf (rc_previousState body) (rc_newState body)))"
      by (auto simp: escrowReceiptFromEvent_def bindR_eq_Inr)
    from body obtain at where at: "isoFromUnix ?time = Inr at"
      and b: "body = receipt_fields sha en (whole (en_slot en)) (whole (en_instructionIndex en)) at"
      and ok: "en_transactionSignature en \<noteq> []" "is_integer (en_instructionIndex en)"
        "\<not> negative (en_instructionIndex en)" "is_integer (en_slot en)" "\<not> negative (en_slot en)"
      by (auto simp: buildReceipt_def bindR_eq_Inr split: if_splits)
    have sel: "rc_kind r = kindOf (rc_previousState body) (rc_newState body)"
      "rc_agreement r = rc_agreement body" "rc_action r = rc_action body" "rc_slot r = rc_slot body"
      "rc_instructionIndex r = rc_instructionIndex body" "rc_newState r = rc_newState body"
      "rc_amount r = rc_amount body"
      by (simp_all add: r receipt_body.defs escrow_receipt.defs)
    note idx = whole(1) [OF ok(2)] whole(1) [OF ok(4)]
    have "0 \<le> whole (en_instructionIndex en)" "0 \<le> whole (en_slot en)"
      using ok idx whole(2) by (metis not_less)+
    then show ?thesis
      using iso' [OF at] ok(1) idx unfolding Let_def Inr sum.case sel b fields by blast
  qed
qed

end
