(* ===== verification/Lifecycle.thy ===== *)
theory Lifecycle
  imports Receipts
begin

text \<open>
  Rebuilding one agreement's history from its receipts (\<open>sdk/src/escrow/receipts.ts\<close>,
  second half). The steps of \<open>reconstructAgreementLifecycle\<close> are separate definitions,
  composed in the order of the source; \<open>localeCompare\<close>, the last tie-breaker of the
  annotation sort, belongs to the host's collation and is the parameter \<open>lc\<close>.
\<close>

record proof_record =
  pr_proof :: "string option"
  pr_proofIndex :: "int option"
  pr_submitter :: string
  pr_agreementState :: agreement_state
  pr_status :: proof_status
  pr_decidedBy :: "string option"
  pr_receiptId :: string
  pr_occurredAt :: string
  pr_slot :: int

record milestone_record =
  mr_milestone :: "string option"
  mr_milestoneIndex :: "int option"
  mr_amount :: "int option"
  mr_state :: milestone_state
  mr_destination :: "string option"
  mr_slot :: int

datatype outcome = Outcome_settled | Outcome_refunded | Outcome_cancelled | Outcome_open

record lifecycle =
  lc_agreement :: string
  lc_agreementId :: int
  lc_buyer :: string
  lc_seller :: string
  lc_mint :: "string option"
  lc_state :: agreement_state
  lc_fundedAmount :: "int option"
  lc_settledAmount :: "int option"
  lc_refundedAmount :: "int option"
  lc_settlementDestination :: "string option"
  lc_outcome :: outcome
  lc_lastSlot :: int
  lc_proofs :: "proof_record list"
  lc_milestones :: "milestone_record list"
  lc_receipts :: "escrow_receipt list"

fun agreement_state_text :: "agreement_state \<Rightarrow> string" where
  "agreement_state_text Open = ''Open''"
| "agreement_state_text Funded = ''Funded''"
| "agreement_state_text Completed = ''Completed''"
| "agreement_state_text Settled = ''Settled''"
| "agreement_state_text Cancelled = ''Cancelled''"
| "agreement_state_text Disputed = ''Disputed''"
| "agreement_state_text Refunded = ''Refunded''"

fun proof_status_text :: "proof_status \<Rightarrow> string" where
  "proof_status_text Proof_Submitted = ''Submitted''"
| "proof_status_text Proof_Approved = ''Approved''"
| "proof_status_text Proof_Rejected = ''Rejected''"

text \<open>A string that may be \<open>null\<close>, interpolated into a message.\<close>

definition or_null :: "string option \<Rightarrow> string" where
  "or_null s = (case s of None \<Rightarrow> ''null'' | Some s \<Rightarrow> s)"

section \<open>Proofs and milestones of the annotations\<close>

definition new_proof_record :: "escrow_receipt \<Rightarrow> proof_record" where
  "new_proof_record r =
     \<lparr>pr_proof = rc_proof r, pr_proofIndex = rc_proofIndex r, pr_submitter = rc_actor r,
      pr_agreementState = rc_newState r, pr_status = Proof_Submitted, pr_decidedBy = None,
      pr_receiptId = rc_receiptId r, pr_occurredAt = rc_occurredAt r, pr_slot = rc_slot r\<rparr>"

definition submit_proofs :: "escrow_receipt list \<Rightarrow> (string option \<times> proof_record) list" where
  "submit_proofs annotations =
     foldl (\<lambda>byProof r. if rc_action r = Name_ProofSubmitted
         then map_set (rc_proof r) (new_proof_record r) byProof else byProof) [] annotations"

definition decide_proof ::
    "(string option \<times> proof_record) list \<Rightarrow> escrow_receipt
       \<Rightarrow> (string option \<times> proof_record) list result" where
  "decide_proof byProof r =
     (if rc_action r \<noteq> Name_ProofApproved \<and> rc_action r \<noteq> Name_ProofRejected then Inr byProof
      else case map_get byProof (rc_proof r) of
        None \<Rightarrow> throw ReceiptError
          (''a decision names proof '' @ or_null (rc_proof r) @ '', which was never submitted'')
      | Some record \<Rightarrow>
          if pr_decidedBy record \<noteq> None
          then throw ReceiptError (''proof '' @ or_null (pr_proof record) @ '' was decided more than once'')
          else Inr (map_set (rc_proof r)
            (record\<lparr>pr_status := (if rc_action r = Name_ProofApproved then Proof_Approved
                                  else Proof_Rejected),
                    pr_decidedBy := Some (rc_actor r)\<rparr>) byProof))"

definition proofRecords :: "escrow_receipt list \<Rightarrow> proof_record list result" where
  "proofRecords annotations =
     bindR (foldR decide_proof (submit_proofs annotations) annotations)
       (\<lambda>byProof. Inr (map snd byProof))"

definition new_milestone_record :: "escrow_receipt \<Rightarrow> milestone_record" where
  "new_milestone_record r =
     \<lparr>mr_milestone = rc_milestone r, mr_milestoneIndex = rc_milestoneIndex r,
      mr_amount = rc_amount r, mr_state = Milestone_Pending, mr_destination = None,
      mr_slot = rc_slot r\<rparr>"

definition create_milestones :: "escrow_receipt list \<Rightarrow> (string option \<times> milestone_record) list" where
  "create_milestones annotations =
     foldl (\<lambda>byMilestone r. if rc_action r = Name_MilestoneCreated
         then map_set (rc_milestone r) (new_milestone_record r) byMilestone else byMilestone)
       [] annotations"

definition update_milestone :: "escrow_receipt \<Rightarrow> milestone_record \<Rightarrow> milestone_record" where
  "update_milestone r record =
     (case rc_action r of
        Name_MilestoneSubmitted \<Rightarrow> record\<lparr>mr_state := Milestone_Submitted\<rparr>
      | Name_MilestoneApproved \<Rightarrow> record\<lparr>mr_state := Milestone_Approved\<rparr>
      | Name_MilestoneRejected \<Rightarrow> record\<lparr>mr_state := Milestone_Pending\<rparr>
      | Name_MilestoneSettled \<Rightarrow>
          record\<lparr>mr_state := Milestone_Settled, mr_destination := rc_destination r\<rparr>
      | _ \<Rightarrow> record)"

text \<open>\<open>receipt.milestone ?? ""\<close>, the key of the lookup.\<close>

definition milestone_key :: "escrow_receipt \<Rightarrow> string option" where
  "milestone_key r = (case rc_milestone r of None \<Rightarrow> Some [] | Some m \<Rightarrow> Some m)"

definition step_milestone ::
    "(string option \<times> milestone_record) list \<Rightarrow> escrow_receipt
       \<Rightarrow> (string option \<times> milestone_record) list result" where
  "step_milestone byMilestone r =
     (case map_get byMilestone (milestone_key r) of
        None \<Rightarrow>
          if rc_milestone r \<noteq> None \<and> rc_milestone r \<noteq> Some [] \<and> rc_action r \<noteq> Name_MilestoneCreated
          then throw ReceiptError
            (''a milestone step names '' @ or_null (rc_milestone r) @ '', which was never created'')
          else Inr byMilestone
      | Some record \<Rightarrow> Inr (map_set (milestone_key r) (update_milestone r record) byMilestone))"

text \<open>\<open>a.milestoneIndex - b.milestoneIndex\<close>; a missing index counts as zero.\<close>

definition index_value :: "milestone_record \<Rightarrow> int" where
  "index_value m = (case mr_milestoneIndex m of None \<Rightarrow> 0 | Some i \<Rightarrow> i)"

definition milestoneRecords :: "escrow_receipt list \<Rightarrow> milestone_record list result" where
  "milestoneRecords annotations =
     bindR (foldR step_milestone (create_milestones annotations) annotations)
       (\<lambda>byMilestone. Inr (js_sort (\<lambda>a b. index_value a - index_value b) (map snd byMilestone)))"

section \<open>Collecting the receipts\<close>

definition dedupe_step ::
    "(string \<times> escrow_receipt) list \<Rightarrow> escrow_receipt \<Rightarrow> (string \<times> escrow_receipt) list result" where
  "dedupe_step byId r =
     (case map_get byId (rc_receiptId r) of
        Some existing \<Rightarrow>
          if rc_action existing \<noteq> rc_action r
          then throw ReceiptError (''receipt '' @ rc_receiptId r @ '' replayed with a different action'')
          else Inr (map_set (rc_receiptId r) r byId)
      | None \<Rightarrow> Inr (map_set (rc_receiptId r) r byId))"

definition transition_step ::
    "(agreement_state \<times> escrow_receipt) list \<Rightarrow> escrow_receipt
       \<Rightarrow> (agreement_state \<times> escrow_receipt) list result" where
  "transition_step transitions r =
     (case rc_previousState r of
        None \<Rightarrow> Inr transitions
      | Some p \<Rightarrow>
          (case map_get transitions p of
             Some existing \<Rightarrow>
               if rc_receiptId existing \<noteq> rc_receiptId r
               then throw ReceiptError (''two transitions leave '' @ agreement_state_text p)
               else Inr (map_set p r transitions)
           | None \<Rightarrow> Inr (map_set p r transitions)))"

section \<open>Following the path\<close>

text \<open>
  The loop over \<open>transitions.get(state)\<close>; it carries the ordered history, the visited states
  and the transitions not yet taken, and every round removes one of them.
\<close>

function follow_path ::
    "(agreement_state \<times> escrow_receipt) list \<Rightarrow> agreement_state list \<Rightarrow> agreement_state
       \<Rightarrow> escrow_receipt \<Rightarrow> escrow_receipt list
       \<Rightarrow> (escrow_receipt list \<times> agreement_state \<times> escrow_receipt
            \<times> (agreement_state \<times> escrow_receipt) list) result" where
  "follow_path transitions visited st prev ordered =
     (case map_get transitions st of
        None \<Rightarrow> Inr (ordered, st, prev, transitions)
      | Some nxt \<Rightarrow>
          if rc_slot nxt < rc_slot prev
          then throw ReceiptError
            (ESCROW_RECEIPT_ACTIONS (rc_action nxt) @ '' committed in slot '' @ dec_int (rc_slot nxt)
               @ '', before the '' @ ESCROW_RECEIPT_ACTIONS (rc_action prev) @ '' it follows'')
          else if List.member visited (rc_newState nxt)
          then throw ReceiptError (''lifecycle revisits '' @ agreement_state_text (rc_newState nxt))
          else follow_path (map_delete st transitions) (rc_newState nxt # visited) (rc_newState nxt)
                 nxt (ordered @ [nxt]))"
  by pat_completeness auto
termination
proof (relation "measure (\<lambda>(transitions, _). length transitions)")
  fix transitions :: "(agreement_state \<times> escrow_receipt) list" and st nxt
  assume "map_get transitions st = Some nxt"
  then have "(st, nxt) \<in> set transitions" by (rule map_of_SomeD)
  then have "length (map_delete st transitions) < length transitions"
    by (auto simp: AList.delete_eq intro!: length_filter_less)
  then show "((map_delete st transitions, visited', st', prev', ordered'), transitions, visited, st,
      prev, ordered) \<in> measure (\<lambda>(transitions, _). length transitions)"
    for visited visited' :: "agreement_state list" and st' prev prev' ordered ordered'
    by simp
qed simp

declare follow_path.simps [simp del]

section \<open>Placing the annotations\<close>

definition nullish_index :: "int option \<Rightarrow> int" where
  "nullish_index i = (case i of None \<Rightarrow> -1 | Some i \<Rightarrow> i)"

definition annotation_cmp ::
    "(string \<Rightarrow> string \<Rightarrow> int) \<Rightarrow> escrow_receipt \<Rightarrow> escrow_receipt \<Rightarrow> int" where
  "annotation_cmp lc a b =
     (if rc_slot a - rc_slot b \<noteq> 0 then rc_slot a - rc_slot b
      else if rc_instructionIndex a - rc_instructionIndex b \<noteq> 0
      then rc_instructionIndex a - rc_instructionIndex b
      else if nullish_index (rc_innerInstructionIndex a) - nullish_index (rc_innerInstructionIndex b) \<noteq> 0
      then nullish_index (rc_innerInstructionIndex a) - nullish_index (rc_innerInstructionIndex b)
      else lc (rc_receiptId a) (rc_receiptId b))"

text \<open>The last position whose transition had committed, as the \<open>forEach\<close> leaves it in \<open>home\<close>.\<close>

definition home_of :: "escrow_receipt list \<Rightarrow> escrow_receipt \<Rightarrow> nat option" where
  "home_of ordered a =
     foldl (\<lambda>home (i, t). if rc_slot t \<le> rc_slot a then Some i else home) None
       (zip [0 ..< length ordered] ordered)"

definition attach_step ::
    "escrow_receipt list \<Rightarrow> (nat \<times> escrow_receipt list) list \<Rightarrow> escrow_receipt
       \<Rightarrow> (nat \<times> escrow_receipt list) list result" where
  "attach_step ordered attached a =
     (case home_of ordered a of
        None \<Rightarrow> throw ReceiptError
          (ESCROW_RECEIPT_ACTIONS (rc_action a) @ '' committed in slot '' @ dec_int (rc_slot a)
             @ '', before this agreement existed'')
      | Some home \<Rightarrow>
          (case map_get attached home of
             Some bucket \<Rightarrow> Inr (map_set home (bucket @ [a]) attached)
           | None \<Rightarrow> Inr (map_set home [a] attached)))"

definition with_annotations ::
    "escrow_receipt list \<Rightarrow> (nat \<times> escrow_receipt list) list \<Rightarrow> escrow_receipt list" where
  "with_annotations ordered attached =
     concat (map (\<lambda>(i, t). t # (case map_get attached i of None \<Rightarrow> [] | Some bucket \<Rightarrow> bucket))
       (zip [0 ..< length ordered] ordered))"

section \<open>The money\<close>

definition paidOut :: "escrow_receipt list \<Rightarrow> escrow_event_name \<Rightarrow> int option" where
  "paidOut all action =
     foldl (\<lambda>total r. Some ((case total of None \<Rightarrow> 0 | Some t \<Rightarrow> t)
          + (case rc_amount r of None \<Rightarrow> 0 | Some a \<Rightarrow> a)))
       None (filter (\<lambda>r. rc_action r = action) all)"

definition find_action :: "escrow_event_name \<Rightarrow> escrow_receipt list \<Rightarrow> escrow_receipt option" where
  "find_action action rs = find (\<lambda>r. rc_action r = action) rs"

definition or_zero :: "int option \<Rightarrow> int" where
  "or_zero x = (case x of None \<Rightarrow> 0 | Some x \<Rightarrow> x)"

definition check_money ::
    "escrow_receipt list \<Rightarrow> int option \<Rightarrow> int option \<Rightarrow> unit result" where
  "check_money ordered settledTotal refundedTotal =
     (let funded = find_action Name_AgreementFunded ordered;
          settled = find_action Name_SettlementExecuted ordered;
          refunded = find_action Name_RefundExecuted ordered
      in if settledTotal \<noteq> None \<and> funded = None
         then throw ReceiptError ''settlement without the funding it pays out''
         else if settled \<noteq> None \<and> funded \<noteq> None \<and> settledTotal \<noteq> rc_amount (the funded)
         then throw ReceiptError ''settled amount does not match the funded amount''
         else if settled \<noteq> None \<and> refunded \<noteq> None
         then throw ReceiptError ''an agreement cannot be both settled and refunded''
         else if refundedTotal \<noteq> None \<and> funded = None
         then throw ReceiptError ''refund without the funding it returns''
         else if refunded \<noteq> None \<and> funded \<noteq> None
           \<and> Some (or_zero refundedTotal + or_zero settledTotal) \<noteq> rc_amount (the funded)
         then throw ReceiptError ''refunded and settled amounts do not add up to the funded amount''
         else Inr ())"

text \<open>Adding \<open>null\<close> to a \<open>bigint\<close> is a \<open>TypeError\<close>.\<close>

definition scheduled_step :: "int \<Rightarrow> milestone_record \<Rightarrow> int result" where
  "scheduled_step sum_so_far m =
     (case mr_amount m of
        None \<Rightarrow> throw TypeError ''Cannot mix BigInt and other types, use explicit conversions''
      | Some a \<Rightarrow> Inr (sum_so_far + a))"

definition check_citation :: "escrow_receipt option \<Rightarrow> proof_record list \<Rightarrow> unit result" where
  "check_citation settled proofs =
     (case settled of None \<Rightarrow> Inr ()
      | Some s \<Rightarrow>
          if rc_proof s = None \<or> rc_proof s = Some [] then Inr ()
          else (case find (\<lambda>p. pr_proof p = rc_proof s) proofs of
            None \<Rightarrow> throw ReceiptError
              (''settlement cites proof '' @ or_null (rc_proof s) @ '', which this history never saw'')
          | Some cited \<Rightarrow>
              if pr_status cited \<noteq> Proof_Approved
              then throw ReceiptError (''settlement cites proof '' @ or_null (rc_proof s) @ '', which is ''
                @ proof_status_text (pr_status cited))
              else Inr ()))"

section \<open>Reconstruction\<close>

definition outcome_of :: "agreement_state \<Rightarrow> outcome" where
  "outcome_of st =
     (if st = Settled then Outcome_settled
      else if st = Refunded then Outcome_refunded
      else if st = Cancelled then Outcome_cancelled
      else Outcome_open)"

text \<open>What follows the path: annotations, money, proofs and milestones, then the report.\<close>

definition finish_lifecycle ::
    "(string \<Rightarrow> string \<Rightarrow> int) \<Rightarrow> string \<Rightarrow> escrow_receipt \<Rightarrow> escrow_receipt list \<Rightarrow> agreement_state
       \<Rightarrow> escrow_receipt \<Rightarrow> escrow_receipt list \<Rightarrow> lifecycle result" where
  "finish_lifecycle lc agreement created ordered st prev annotations =
     (let sortedAnnotations = js_sort (annotation_cmp lc) annotations
      in bindR (foldR (attach_step ordered) [] sortedAnnotations) (\<lambda>attached.
         let withAnnotations = with_annotations ordered attached;
             funded = find_action Name_AgreementFunded ordered;
             all = ordered @ annotations;
             settledTotal = paidOut all Name_SettlementExecuted;
             settled = find_action Name_SettlementExecuted ordered;
             refunded = find_action Name_RefundExecuted ordered;
             refundedTotal = paidOut all Name_RefundExecuted
         in bindR (check_money ordered settledTotal refundedTotal) (\<lambda>_.
            let assigned = filter (\<lambda>r. rc_action r = Name_CounterpartyAssigned) sortedAnnotations
            in if length assigned > 1 then throw ReceiptError ''a payee was assigned more than once''
            else
              let seller = (case assigned of a # _ \<Rightarrow> rc_seller a | [] \<Rightarrow> rc_seller created)
              in bindR (proofRecords sortedAnnotations) (\<lambda>proofs.
                 bindR (milestoneRecords sortedAnnotations) (\<lambda>milestones.
                 bindR (foldR scheduled_step 0 milestones) (\<lambda>scheduled.
                 if milestones \<noteq> [] \<and> funded \<noteq> None \<and> Some scheduled \<noteq> rc_amount (the funded)
                 then throw ReceiptError ''the milestone schedule does not add up to the funded amount''
                 else bindR (check_citation settled proofs) (\<lambda>_.
                 Inr \<lparr>lc_agreement = agreement, lc_agreementId = rc_agreementId created,
                   lc_buyer = rc_buyer created, lc_seller = seller, lc_mint = rc_mint created,
                   lc_state = st,
                   lc_fundedAmount = (case funded of None \<Rightarrow> None | Some f \<Rightarrow> rc_amount f),
                   lc_settledAmount = settledTotal, lc_refundedAmount = refundedTotal,
                   lc_settlementDestination =
                     (case Option.bind settled rc_destination of
                        Some d \<Rightarrow> Some d
                      | None \<Rightarrow> Option.bind refunded rc_destination),
                   lc_outcome = outcome_of st, lc_lastSlot = rc_slot prev,
                   lc_proofs = proofs, lc_milestones = milestones,
                   lc_receipts = withAnnotations\<rparr>)))))))"

text \<open>What precedes it, from the receipts left after the annotations are set aside.\<close>

definition chain_lifecycle ::
    "(string \<Rightarrow> string \<Rightarrow> int) \<Rightarrow> escrow_receipt list \<Rightarrow> escrow_receipt list \<Rightarrow> lifecycle result" where
  "chain_lifecycle lc annotations moves =
     (let agreement = (case moves of [] \<Rightarrow> [] | r # _ \<Rightarrow> rc_agreement r)
      in if \<exists>r \<in> set moves. rc_agreement r \<noteq> agreement
         then throw ReceiptError ''receipts describe more than one agreement''
         else let roots = filter (\<lambda>r. rc_previousState r = None) moves
         in case roots of
              [] \<Rightarrow> throw ReceiptError ''lifecycle is missing its creation receipt''
            | created # others \<Rightarrow>
                if others \<noteq> [] then throw ReceiptError ''lifecycle has more than one creation receipt''
                else
                  bindR (foldR transition_step [] moves) (\<lambda>transitions.
                  bindR (follow_path transitions [rc_newState created] (rc_newState created) created [created])
                    (\<lambda>(ordered, st, prev, left).
                     case left of
                       (p, orphan) # _ \<Rightarrow> throw ReceiptError
                         (ESCROW_RECEIPT_ACTIONS (rc_action orphan) @ '' claims to start from ''
                            @ agreement_state_text p @ '', which this history never reached'')
                     | [] \<Rightarrow> finish_lifecycle lc agreement created ordered st prev annotations)))"

definition reconstructAgreementLifecycle ::
    "(string \<Rightarrow> string \<Rightarrow> int) \<Rightarrow> escrow_receipt list \<Rightarrow> lifecycle result" where
  "reconstructAgreementLifecycle lc receipts =
     (if receipts = [] then throw ReceiptError ''no receipts''
      else bindR (foldR dedupe_step [] receipts) (\<lambda>byId.
        let annotations = filter (\<lambda>r. rc_kind r = Annotation) (map snd byId);
            byId' = foldl (\<lambda>m a. map_delete (rc_receiptId a) m) byId annotations
        in chain_lifecycle lc annotations (map snd byId')))"

end
