(* ===== verification/Lifecycle_Props.thy ===== *)
theory Lifecycle_Props
  imports Lifecycle
begin

text \<open>
  What a rebuilt history guarantees: which receipts it holds and in what order, that
  delivery order and replays do not change it, and what the amounts add up to.
\<close>

section \<open>Deduplication\<close>

lemma set_map_set: "set (map_set k v m) \<subseteq> insert (k, v) (set m)"
  by (induction m) auto

definition keyed :: "(string \<times> escrow_receipt) list \<Rightarrow> bool" where
  "keyed m \<longleftrightarrow> distinct (map fst m) \<and> (\<forall>(k, r) \<in> set m. k = rc_receiptId r)"

lemma keyed_Nil [simp]: "keyed []"
  by (simp add: keyed_def)

lemma keyed_set: "keyed m \<Longrightarrow> keyed (map_set (rc_receiptId r) r m)"
proof -
  assume m: "keyed m"
  then have "distinct (map fst (map_set (rc_receiptId r) r m))"
    by (simp add: keyed_def distinct_update)
  moreover have "k = rc_receiptId s" if "(k, s) \<in> set (map_set (rc_receiptId r) r m)" for k s
    using that m set_map_set [of "rc_receiptId r" r m] by (auto simp: keyed_def)
  ultimately show ?thesis by (auto simp: keyed_def)
qed

lemma map_of_keyed: "keyed m \<Longrightarrow> map_get m k = Some r \<longleftrightarrow> r \<in> set (map snd m) \<and> k = rc_receiptId r"
  by (force simp: keyed_def map_of_eq_Some_iff)

lemma dedupe_keyed:
  "foldR dedupe_step m rs = Inr m' \<Longrightarrow> keyed m \<Longrightarrow> keyed m' \<and> set (map snd m') \<subseteq> set (map snd m) \<union> set rs"
proof (induction rs arbitrary: m)
  case Nil
  then show ?case by auto
next
  case (Cons r rs)
  from Cons.prems(1) obtain n where n: "dedupe_step m r = Inr n" "foldR dedupe_step n rs = Inr m'"
    by (auto simp: bindR_eq_Inr)
  then have nn: "n = map_set (rc_receiptId r) r m"
    by (auto simp: dedupe_step_def split: option.splits if_splits)
  then have "keyed n" using keyed_set Cons.prems(2) by blast
  moreover have "set (map snd n) \<subseteq> insert r (set (map snd m))"
    unfolding nn using set_map_set [of "rc_receiptId r" r m] by force
  moreover note Cons.IH [OF n(2)]
  ultimately have "keyed m'" "set (map snd m') \<subseteq> set (map snd n) \<union> set rs" by blast+
  moreover have "set (map snd n) \<union> set rs \<subseteq> set (map snd m) \<union> set (r # rs)"
    using \<open>set (map snd n) \<subseteq> insert r (set (map snd m))\<close> by (simp only: list.set) blast
  ultimately show ?case by blast
qed

lemma map_set_same: "map_get m k = Some v \<Longrightarrow> map_set k v m = m"
proof (induction m)
  case (Cons x m)
  then show ?case by (cases x) (auto split: if_splits)
qed simp

lemma map_set_new: "map_get m k = None \<Longrightarrow> map_set k v m = m @ [(k, v)]"
proof (induction m)
  case (Cons x m)
  then show ?case by (cases x) (auto split: if_splits)
qed simp

lemma dedupe_total:
  assumes "inj_on rc_receiptId (set (map snd m) \<union> set rs)" "keyed m"
  shows "\<exists>m'. foldR dedupe_step m rs = Inr m' \<and> keyed m'
    \<and> set (map snd m') = set (map snd m) \<union> set rs"
  using assms
proof (induction rs arbitrary: m)
  case Nil
  then show ?case by simp
next
  case (Cons r rs)
  show ?case
  proof (cases "map_get m (rc_receiptId r)")
    case None
    then have step: "dedupe_step m r = Inr (m @ [(rc_receiptId r, r)])"
      by (simp add: dedupe_step_def map_set_new)
    have "keyed (m @ [(rc_receiptId r, r)])"
      using keyed_set [OF Cons.prems(2), of r] None by (simp add: map_set_new)
    with Cons.IH [of "m @ [(rc_receiptId r, r)]"] Cons.prems(1) step show ?thesis
      by (auto simp: insert_commute Un_commute)
  next
    case (Some s)
    then have s: "s \<in> set (map snd m)" "rc_receiptId r = rc_receiptId s"
      using map_of_keyed [OF Cons.prems(2)] by auto
    then have "s = r" using Cons.prems(1) by (auto simp: inj_on_def)
    with Some have step: "dedupe_step m r = Inr m"
      by (simp add: dedupe_step_def map_set_same)
    have "r \<in> set (map snd m)" using s \<open>s = r\<close> by simp
    then have "set (map snd m) \<union> set (r # rs) = set (map snd m) \<union> set rs" by auto
    with Cons.IH [of m] Cons.prems step show ?thesis by simp
  qed
qed

lemma keyed_distinct: "keyed m \<Longrightarrow> distinct (map rc_receiptId (map snd m))"
proof -
  assume m: "keyed m"
  then have "map rc_receiptId (map snd m) = map fst m"
    by (auto simp: keyed_def)
  with m show ?thesis unfolding keyed_def by (simp only:)
qed

lemma delete_values:
  "keyed m \<Longrightarrow> map snd (map_delete k m) = filter (\<lambda>r. rc_receiptId r \<noteq> k) (map snd m) \<and> keyed (map_delete k m)"
proof -
  assume m: "keyed m"
  have "map snd (filter (\<lambda>(k', _). k \<noteq> k') m) = filter (\<lambda>r. rc_receiptId r \<noteq> k) (map snd m)"
    using m unfolding keyed_def by (induction m) auto
  moreover have "keyed (map_delete k m)"
    using m by (auto simp: keyed_def AList.delete_eq distinct_map inj_on_def)
  ultimately show ?thesis by (simp add: AList.delete_eq)
qed

lemma delete_all_values:
  "keyed m \<Longrightarrow> map snd (foldl (\<lambda>m a. map_delete (rc_receiptId a) m) m as)
     = filter (\<lambda>r. rc_receiptId r \<notin> rc_receiptId ` set as) (map snd m)"
proof (induction as arbitrary: m)
  case (Cons a as)
  with delete_values [OF Cons.prems, of "rc_receiptId a"] show ?case
    by (auto intro: filter_cong)
qed simp

text \<open>After deduplication only the distinct receipts matter, split by kind.\<close>

lemma reconstruct_values:
  assumes "foldR dedupe_step [] receipts = Inr m" and "receipts \<noteq> []"
  shows "reconstructAgreementLifecycle lc receipts =
    chain_lifecycle lc (filter (\<lambda>r. rc_kind r = Annotation) (map snd m))
      (filter (\<lambda>r. rc_kind r \<noteq> Annotation) (map snd m))"
proof -
  have m: "keyed m" using dedupe_keyed [OF assms(1)] by simp
  have "inj_on rc_receiptId (set (map snd m))"
    using keyed_distinct [OF m] distinct_map by blast
  then have "filter (\<lambda>r. rc_receiptId r \<notin> rc_receiptId ` set (filter (\<lambda>r. rc_kind r = Annotation) (map snd m)))
      (map snd m) = filter (\<lambda>r. rc_kind r \<noteq> Annotation) (map snd m)"
    by (intro filter_cong) (auto simp: inj_on_def)
  then have "map snd (foldl (\<lambda>m a. map_delete (rc_receiptId a) m) m
      (filter (\<lambda>r. rc_kind r = Annotation) (map snd m)))
    = filter (\<lambda>r. rc_kind r \<noteq> Annotation) (map snd m)"
    unfolding delete_all_values [OF m] .
  then show ?thesis
    using assms by (simp only: reconstructAgreementLifecycle_def Let_def if_False bindR_Inr)
qed

section \<open>Transitions as a function of the states\<close>

definition leaving :: "escrow_receipt list \<Rightarrow> (agreement_state \<times> escrow_receipt) list" where
  "leaving rs = map (\<lambda>r. (the (rc_previousState r), r)) (filter (\<lambda>r. rc_previousState r \<noteq> None) rs)"

lemma transition_steps:
  assumes "distinct (map rc_receiptId (map snd tr @ rs))"
  shows "foldR transition_step tr rs = Inr tr' \<longleftrightarrow>
    (distinct (map fst tr) \<longrightarrow> distinct (map fst (tr @ leaving rs)) \<and> tr' = tr @ leaving rs)
    \<and> (\<not> distinct (map fst tr) \<longrightarrow> foldR transition_step tr rs = Inr tr')"
proof (cases "distinct (map fst tr)")
  case True
  then show ?thesis using assms
  proof (induction rs arbitrary: tr)
    case Nil
    then show ?case by (auto simp: leaving_def)
  next
    case (Cons r rs)
    show ?case
    proof (cases "rc_previousState r")
      case None
      then have "transition_step tr r = Inr tr" "leaving (r # rs) = leaving rs"
        by (simp_all add: transition_step_def leaving_def)
      with Cons show ?thesis by simp
    next
      case (Some p)
      then have lv: "leaving (r # rs) = (p, r) # leaving rs" by (simp add: leaving_def)
      show ?thesis
      proof (cases "map_get tr p")
        case None
        then have step: "transition_step tr r = Inr (tr @ [(p, r)])"
          using Some by (simp add: transition_step_def map_set_new)
        have "p \<notin> set (map fst tr)" using None by (simp add: map_of_eq_None_iff)
        then show ?thesis
          using Cons.IH [of "tr @ [(p, r)]"] Cons.prems step lv by simp
      next
        case (Some s)
        then have "(p, s) \<in> set tr" by (rule map_of_SomeD)
        then have "rc_receiptId s \<noteq> rc_receiptId r" "p \<in> set (map fst tr)"
          using Cons.prems(2) by (force, force)
        with Some \<open>rc_previousState r = Some p\<close> have "\<exists>e. transition_step tr r = Inl e"
          by (simp add: transition_step_def)
        with \<open>p \<in> set (map fst tr)\<close> lv Cons.prems(1) show ?thesis by auto
      qed
    qed
  qed
qed simp

lemma transitions_Inr:
  assumes "distinct (map rc_receiptId rs)"
  shows "foldR transition_step [] rs = Inr tr \<longleftrightarrow> distinct (map fst (leaving rs)) \<and> tr = leaving rs"
  using transition_steps [of "[]" rs tr] assms by simp

lemma mset_leaving: "mset rs = mset rs' \<Longrightarrow> mset (leaving rs) = mset (leaving rs')"
  by (simp add: leaving_def)

lemma map_of_leaving:
  assumes "mset rs = mset rs'" "distinct (map fst (leaving rs))"
  shows "distinct (map fst (leaving rs')) \<and> map_get (leaving rs') = map_get (leaving rs)"
proof -
  have ms: "mset (leaving rs) = mset (leaving rs')" by (rule mset_leaving [OF assms(1)])
  then have "mset (map fst (leaving rs)) = mset (map fst (leaving rs'))" by simp
  then have d: "distinct (map fst (leaving rs'))"
    using assms(2) mset_eq_imp_distinct_iff by blast
  moreover have "set (leaving rs) = set (leaving rs')" using ms by (metis set_mset_mset)
  ultimately show ?thesis using assms(2) map_of_inject_set by metis
qed

section \<open>The path\<close>

lemma map_of_delete: "map_get (map_delete k m) = (map_get m)(k := None)"
  by (rule AList.delete_conv')

lemma follow_path_cong:
  assumes "follow_path tr visited st prev ordered = Inr (ord', st', prev', left)"
    and "map_get tr = map_get tr'"
  shows "\<exists>left'. follow_path tr' visited st prev ordered = Inr (ord', st', prev', left')
    \<and> map_get left = map_get left'"
  using assms
proof (induction tr visited st prev ordered arbitrary: tr' rule: follow_path.induct)
  case (1 tr visited st prev ordered)
  show ?case
  proof (cases "map_get tr st")
    case None
    with 1(3) have "map_get tr' st = None" by simp
    with None 1(2,3) show ?thesis by (simp add: follow_path.simps)
  next
    case (Some nxt)
    with 1(3) have Some': "map_get tr' st = Some nxt" by simp
    from Some 1(2) have ok: "\<not> rc_slot nxt < rc_slot prev" "\<not> List.member visited (rc_newState nxt)"
      and rest: "follow_path (map_delete st tr) (rc_newState nxt # visited) (rc_newState nxt) nxt
        (ordered @ [nxt]) = Inr (ord', st', prev', left)"
      by (subst (asm) follow_path.simps, simp split: if_splits)+
    have "map_get (map_delete st tr) = map_get (map_delete st tr')"
      unfolding map_of_delete 1(3) by (rule refl)
    from 1(1) [OF Some ok rest this] show ?thesis
      by (subst follow_path.simps) (simp only: Some' option.simps ok if_False)
  qed
qed

fun linked :: "escrow_receipt list \<Rightarrow> bool" where
  "linked (a # b # rs) \<longleftrightarrow>
     rc_previousState b = Some (rc_newState a) \<and> rc_slot a \<le> rc_slot b \<and> linked (b # rs)"
| "linked _ \<longleftrightarrow> True"

text \<open>Every transition taken is keyed by the state it leaves.\<close>

definition by_source :: "(agreement_state \<times> escrow_receipt) list \<Rightarrow> bool" where
  "by_source tr \<longleftrightarrow> distinct (map fst tr) \<and> (\<forall>(p, r) \<in> set tr. rc_previousState r = Some p)"

lemma by_source_leaving: "distinct (map fst (leaving rs)) \<Longrightarrow> by_source (leaving rs)"
  by (auto simp: by_source_def leaving_def)

lemma by_source_delete: "by_source tr \<Longrightarrow> by_source (map_delete k tr)"
  by (auto simp: by_source_def AList.delete_eq distinct_map inj_on_def)

lemma mset_delete:
  "distinct (map fst tr) \<Longrightarrow> map_get tr k = Some r \<Longrightarrow>
     mset (map snd tr) = add_mset r (mset (map snd (map_delete k tr)))"
proof (induction tr)
  case (Cons x tr)
  show ?case
  proof (cases "fst x = k")
    case True
    then have "k \<notin> fst ` set tr" using Cons.prems(1) by auto
    then have "map_delete k tr = tr" by (force simp: AList.delete_eq filter_id_conv)
    with True Cons.prems(2) show ?thesis by (cases x) (simp add: AList.delete_eq)
  next
    case False
    with Cons show ?thesis by (cases x) (auto simp: AList.delete_eq)
  qed
qed simp

lemma follow_path_spec:
  assumes "follow_path tr visited st prev ordered = Inr (ord', st', prev', left)"
    and "by_source tr" "rc_newState prev = st"
  shows "\<exists>path. ord' = ordered @ path \<and> linked (prev # path) \<and> prev' = last (prev # path)
    \<and> st' = rc_newState prev' \<and> mset (map snd tr) = mset path + mset (map snd left)
    \<and> distinct (map rc_newState path) \<and> set (map rc_newState path) \<inter> set visited = {}"
  using assms
proof (induction tr visited st prev ordered rule: follow_path.induct)
  case (1 tr visited st prev ordered)
  show ?case
  proof (cases "map_get tr st")
    case None
    with 1(2,4) show ?thesis by (simp add: follow_path.simps)
  next
    case (Some nxt)
    from Some 1(2) have ok: "\<not> rc_slot nxt < rc_slot prev" "\<not> List.member visited (rc_newState nxt)"
      and rest: "follow_path (map_delete st tr) (rc_newState nxt # visited) (rc_newState nxt) nxt
        (ordered @ [nxt]) = Inr (ord', st', prev', left)"
      by (subst (asm) follow_path.simps, simp split: if_splits)+
    have "(st, nxt) \<in> set tr" using Some by (rule map_of_SomeD)
    then have src: "rc_previousState nxt = Some st" using 1(3) by (auto simp: by_source_def)
    from 1(1) [OF Some ok rest by_source_delete [OF 1(3)] refl] obtain path where
      p: "ord' = (ordered @ [nxt]) @ path" "linked (nxt # path)" "prev' = last (nxt # path)"
        "st' = rc_newState prev'"
        "mset (map snd (map_delete st tr)) = mset path + mset (map snd left)"
        "distinct (map rc_newState path)"
        "set (map rc_newState path) \<inter> set (rc_newState nxt # visited) = {}"
      by blast
    have "mset (map snd tr) = add_mset nxt (mset path + mset (map snd left))"
      using mset_delete [of tr st nxt] 1(3) Some p(5) by (simp add: by_source_def)
    with p ok src 1(4) show ?thesis
      by (intro exI [of _ "nxt # path"]) auto
  qed
qed

section \<open>The annotations\<close>

lemma comparator_annotation:
  assumes "comparator lc"
  shows "comparator (annotation_cmp lc)"
proof
  note anti = comparator.cmp_antisym [OF assms] and tr = comparator.cmp_trans [OF assms]
  show "annotation_cmp lc y x < 0 \<longleftrightarrow> 0 < annotation_cmp lc x y" for x y
    by (auto simp: annotation_cmp_def anti)
  show "annotation_cmp lc x y \<le> 0 \<Longrightarrow> annotation_cmp lc y z \<le> 0 \<Longrightarrow> annotation_cmp lc x z \<le> 0" for x y z
    unfolding annotation_cmp_def using tr [of "rc_receiptId x" "rc_receiptId y" "rc_receiptId z"]
    by (auto split: if_splits)
qed

lemma annotation_cmp_0: "annotation_cmp lc a b = 0 \<Longrightarrow> lc (rc_receiptId a) (rc_receiptId b) = 0"
  by (simp add: annotation_cmp_def split: if_splits)

lemma annotation_sort_perm:
  assumes "comparator lc" "mset as = mset bs" "inj_on rc_receiptId (set as)"
    and "\<And>x y. x \<in> rc_receiptId ` set as \<Longrightarrow> y \<in> rc_receiptId ` set as \<Longrightarrow> lc x y = 0 \<Longrightarrow> x = y"
  shows "js_sort (annotation_cmp lc) as = js_sort (annotation_cmp lc) bs"
proof (rule comparator.js_sort_perm [OF comparator_annotation [OF assms(1)] assms(2)])
  fix a b
  assume ab: "a \<in> set as" "b \<in> set as" "annotation_cmp lc a b = 0"
  then have "rc_receiptId a = rc_receiptId b" using assms(4) annotation_cmp_0 by blast
  with ab assms(3) show "a = b" by (simp add: inj_on_def)
qed

lemma paidOut_perm_aux:
  "foldl (\<lambda>tot r. Some ((case tot of None \<Rightarrow> 0 | Some t \<Rightarrow> t)
      + (case rc_amount r of None \<Rightarrow> 0 | Some a \<Rightarrow> a))) acc rs
   = (if rs = [] then acc else Some (or_zero acc + (\<Sum>r \<leftarrow> rs. or_zero (rc_amount r))))"
  by (induction rs arbitrary: acc) (auto simp: or_zero_def split: option.splits)

lemma paidOut_sum:
  "paidOut all action =
     (let rs = filter (\<lambda>r. rc_action r = action) all
      in if rs = [] then None else Some (\<Sum>r \<leftarrow> rs. or_zero (rc_amount r)))"
  by (simp add: paidOut_def paidOut_perm_aux Let_def or_zero_def)

lemma paidOut_perm: "mset as = mset bs \<Longrightarrow> paidOut as action = paidOut bs action"
proof -
  assume ms: "mset as = mset bs"
  let ?f = "filter (\<lambda>r. rc_action r = action)"
  have f: "mset (?f as) = mset (?f bs)" using ms by simp
  have "(\<Sum>r \<leftarrow> rs. or_zero (rc_amount r)) = (\<Sum>r \<in># mset rs. or_zero (rc_amount r))" for rs
    by (induction rs) simp_all
  with f have "(\<Sum>r \<leftarrow> ?f as. or_zero (rc_amount r)) = (\<Sum>r \<leftarrow> ?f bs. or_zero (rc_amount r))" by metis
  moreover have "?f as = [] \<longleftrightarrow> ?f bs = []" using f by (metis mset_zero_iff)
  ultimately show ?thesis by (simp add: paidOut_sum Let_def)
qed

lemma finish_perm:
  assumes "comparator lc" "mset as = mset bs" "inj_on rc_receiptId (set as)"
    and "\<And>x y. x \<in> rc_receiptId ` set as \<Longrightarrow> y \<in> rc_receiptId ` set as \<Longrightarrow> lc x y = 0 \<Longrightarrow> x = y"
  shows "finish_lifecycle lc agreement created ordered st prev as
    = finish_lifecycle lc agreement created ordered st prev bs"
proof -
  have "paidOut (ordered @ as) action = paidOut (ordered @ bs) action" for action
    by (rule paidOut_perm) (simp add: assms(2))
  moreover have "js_sort (annotation_cmp lc) as = js_sort (annotation_cmp lc) bs"
    by (rule annotation_sort_perm [OF assms])
  ultimately show ?thesis unfolding finish_lifecycle_def by (simp only: Let_def)
qed

definition agreement_of :: "escrow_receipt list \<Rightarrow> string" where
  "agreement_of ms = (case ms of [] \<Rightarrow> [] | r # _ \<Rightarrow> rc_agreement r)"

lemma chain_Inr:
  "chain_lifecycle lc as ms = Inr l \<longleftrightarrow>
     (\<forall>r \<in> set ms. rc_agreement r = agreement_of ms)
     \<and> (\<exists>created tr ord st prev. filter (\<lambda>r. rc_previousState r = None) ms = [created]
         \<and> foldR transition_step [] ms = Inr tr
         \<and> follow_path tr [rc_newState created] (rc_newState created) created [created]
             = Inr (ord, st, prev, [])
         \<and> finish_lifecycle lc (agreement_of ms) created ord st prev as = Inr l)"
proof (cases "\<forall>r \<in> set ms. rc_agreement r = agreement_of ms")
  case False
  then show ?thesis by (auto simp: chain_lifecycle_def agreement_of_def Let_def)
next
  case True
  then have chain: "chain_lifecycle lc as ms =
      (case filter (\<lambda>r. rc_previousState r = None) ms of
              [] \<Rightarrow> throw ReceiptError ''lifecycle is missing its creation receipt''
            | created # others \<Rightarrow>
                if others \<noteq> [] then throw ReceiptError ''lifecycle has more than one creation receipt''
                else
                  bindR (foldR transition_step [] ms) (\<lambda>transitions.
                  bindR (follow_path transitions [rc_newState created] (rc_newState created) created [created])
                    (\<lambda>(ordered, st, prev, left).
                     case left of
                       (p, orphan) # _ \<Rightarrow> throw ReceiptError
                         (ESCROW_RECEIPT_ACTIONS (rc_action orphan) @ '' claims to start from ''
                            @ agreement_state_text p @ '', which this history never reached'')
                     | [] \<Rightarrow> finish_lifecycle lc (agreement_of ms) created ordered st prev as)))"
    unfolding chain_lifecycle_def agreement_of_def Let_def by simp
  show ?thesis
  proof (cases "filter (\<lambda>r. rc_previousState r = None) ms")
    case Nil
    then show ?thesis unfolding chain by simp
  next
    case (Cons created others)
    show ?thesis
    proof (cases "others = []")
      case False
      with Cons show ?thesis unfolding chain by simp
    next
      case others: True
      have left: "(case left of (p, orphan) # _ \<Rightarrow> Inl (e p orphan) | [] \<Rightarrow> m) = Inr l
          \<longleftrightarrow> left = [] \<and> m = Inr l" for left :: "(agreement_state \<times> escrow_receipt) list" and e m
        by (cases left) auto
      show ?thesis
        using True unfolding chain Cons others list.case simp_thms if_False bindR_eq_Inr
        by (simp only: split_paired_Ex prod.case left list.inject) blast
    qed
  qed
qed

lemma chain_perm:
  assumes ok: "chain_lifecycle lc as ms = Inr l"
    and perm: "mset as = mset as'" "mset ms = mset ms'"
    and ids: "distinct (map rc_receiptId ms)" "inj_on rc_receiptId (set as)"
    and lc: "comparator lc"
      "\<And>x y. x \<in> rc_receiptId ` set as \<Longrightarrow> y \<in> rc_receiptId ` set as \<Longrightarrow> lc x y = 0 \<Longrightarrow> x = y"
  shows "chain_lifecycle lc as' ms' = Inr l"
proof -
  let ?roots = "\<lambda>ms. filter (\<lambda>r. rc_previousState r = None) ms"
  from ok obtain created tr ord st prev where same: "\<forall>r \<in> set ms. rc_agreement r = agreement_of ms"
    and root: "?roots ms = [created]" and tr: "foldR transition_step [] ms = Inr tr"
    and path: "follow_path tr [rc_newState created] (rc_newState created) created [created]
        = Inr (ord, st, prev, [])"
    and fin: "finish_lifecycle lc (agreement_of ms) created ord st prev as = Inr l"
    unfolding chain_Inr by blast
  have sets: "set ms = set ms'" using perm(2) by (metis set_mset_mset)
  have "mset (?roots ms') = mset (?roots ms)" using perm(2) by simp
  then have "mset (?roots ms') = {#created#}" unfolding root by (simp only: mset.simps)
  then have root': "?roots ms' = [created]" unfolding mset_single_iff .
  have "created \<in> set (?roots ms)" unfolding root by simp
  then have "ms' \<noteq> []" using sets by auto
  then have "hd ms' \<in> set ms" using sets by simp
  then have ag': "agreement_of ms' = agreement_of ms"
    using same \<open>ms' \<noteq> []\<close> by (cases ms') (simp_all add: agreement_of_def)
  have ids': "distinct (map rc_receiptId ms')"
  proof -
    have "mset (map rc_receiptId ms) = mset (map rc_receiptId ms')" using perm(2) by simp
    then show ?thesis using ids(1) mset_eq_imp_distinct_iff by blast
  qed
  have d: "distinct (map fst (leaving ms))" "tr = leaving ms"
    using tr transitions_Inr [OF ids(1)] by blast+
  note m = map_of_leaving [OF perm(2) d(1)]
  have tr': "foldR transition_step [] ms' = Inr (leaving ms')"
    unfolding transitions_Inr [OF ids'] using m by blast
  have "map_get tr = map_get (leaving ms')" using m d(2) by simp
  from follow_path_cong [OF path this] obtain left where
    "follow_path (leaving ms') [rc_newState created] (rc_newState created) created [created]
        = Inr (ord, st, prev, left)" "map_get [] = map_get left"
    by blast
  moreover from this(2) have "left = []" by (simp only: map_of.simps empty_eq_map_of_iff)
  ultimately have path': "follow_path (leaving ms') [rc_newState created] (rc_newState created) created
      [created] = Inr (ord, st, prev, [])"
    by simp
  have "finish_lifecycle lc (agreement_of ms) created ord st prev as' = Inr l"
    unfolding fin [symmetric]
    by (rule finish_perm [OF lc(1) perm(1) ids(2) lc(2), symmetric])
  moreover have "\<forall>r \<in> set ms'. rc_agreement r = agreement_of ms'"
    unfolding ag' sets [symmetric] by (rule same)
  ultimately show ?thesis
    unfolding chain_Inr ag' using root' tr' path' by blast
qed

end
