(* ===== verification/Lifecycle_Facts.thy ===== *)
theory Lifecycle_Facts
  imports Lifecycle_Props
begin

text \<open>
  The facts of a successful reconstruction, from the placement of the annotations to the
  amounts, and the properties of the whole.
\<close>

section \<open>Placement\<close>

lemma home_of_Nil [simp]: "home_of [] a = None"
  by (simp add: home_of_def)

lemma home_of_snoc [simp]:
  "home_of (ts @ [t]) a = (if rc_slot t \<le> rc_slot a then Some (length ts) else home_of ts a)"
  by (simp add: home_of_def)

lemma home_of_Some:
  "home_of ts a = Some i \<Longrightarrow>
     i < length ts \<and> rc_slot (ts ! i) \<le> rc_slot a
     \<and> (\<forall>j. i < j \<and> j < length ts \<longrightarrow> rc_slot a < rc_slot (ts ! j))"
proof (induction ts rule: rev_induct)
  case (snoc t ts)
  show ?case
  proof (cases "rc_slot t \<le> rc_slot a")
    case True
    with snoc.prems show ?thesis by auto
  next
    case False
    with snoc show ?thesis by (auto simp: nth_append less_Suc_eq)
  qed
qed simp

definition bucket :: "(nat \<times> escrow_receipt list) list \<Rightarrow> nat \<Rightarrow> escrow_receipt list" where
  "bucket attached i = (case map_get attached i of None \<Rightarrow> [] | Some b \<Rightarrow> b)"

lemma attach_step_bucket:
  assumes "attach_step ts att a = Inr att'"
  shows "\<exists>h. home_of ts a = Some h \<and> bucket att' i = bucket att i @ (if h = i then [a] else [])"
proof (cases "home_of ts a")
  case None
  with assms show ?thesis by (simp add: attach_step_def)
next
  case (Some h)
  have "att' = map_set h (bucket att h @ [a]) att"
    using assms Some by (cases "map_get att h") (simp_all add: attach_step_def bucket_def)
  then have "map_get att' i = (if i = h then Some (bucket att h @ [a]) else map_get att i)"
    by (simp only: map_get_set)
  with Some show ?thesis by (simp add: bucket_def)
qed

lemma attach_buckets:
  "foldR (attach_step ts) att as = Inr att' \<Longrightarrow>
     bucket att' i = bucket att i @ filter (\<lambda>a. home_of ts a = Some i) as
     \<and> (\<forall>a \<in> set as. home_of ts a \<noteq> None)"
proof (induction as arbitrary: att)
  case (Cons a as)
  from Cons.prems obtain att1 where s: "attach_step ts att a = Inr att1"
      "foldR (attach_step ts) att1 as = Inr att'"
    by (auto simp: bindR_eq_Inr)
  from attach_step_bucket [OF s(1), of i] Cons.IH [OF s(2)] show ?case by auto
qed simp

definition placed :: "escrow_receipt list \<Rightarrow> escrow_receipt list \<Rightarrow> nat \<Rightarrow> escrow_receipt list" where
  "placed ts as i = ts ! i # filter (\<lambda>a. home_of ts a = Some i) as"

lemma map_zip_upt: "map (\<lambda>(i, t). f i t) (zip [0 ..< length ts] ts) = map (\<lambda>i. f i (ts ! i)) [0 ..< length ts]"
  by (rule nth_equalityI) simp_all

lemma with_annotations_placed:
  assumes "foldR (attach_step ts) [] as = Inr att"
  shows "with_annotations ts att = concat (map (placed ts as) [0 ..< length ts])"
proof -
  have b: "(case map_get att i of None \<Rightarrow> [] | Some b \<Rightarrow> b) = filter (\<lambda>a. home_of ts a = Some i) as" for i
    using attach_buckets [OF assms, of i] by (simp add: bucket_def)
  show ?thesis
    unfolding with_annotations_def map_zip_upt b placed_def by (rule refl)
qed

lemma sum_none: "k \<notin> set is \<Longrightarrow> (\<Sum>i \<leftarrow> is. if k = i then {#x#} else {#}) = {#}"
  by (induction "is") auto

lemma sum_single: "distinct is \<Longrightarrow> k \<in> set is \<Longrightarrow> (\<Sum>i \<leftarrow> is. if k = i then {#x#} else {#}) = {#x#}"
  by (induction "is") (auto simp: sum_none)

lemma filter_partition:
  "distinct is \<Longrightarrow> (\<forall>a \<in> set as. \<exists>i \<in> set is. h a = Some i) \<Longrightarrow>
     (\<Sum>i \<leftarrow> is. mset (filter (\<lambda>a. h a = Some i) as)) = mset as"
proof (induction as)
  case (Cons a as)
  then obtain k where k: "h a = Some k" "k \<in> set is" by auto
  have "(\<Sum>i \<leftarrow> is. mset (filter (\<lambda>a. h a = Some i) (a # as)))
      = (\<Sum>i \<leftarrow> is. (if k = i then {#a#} else {#}) + mset (filter (\<lambda>a. h a = Some i) as))"
    using k by (intro arg_cong [where f = sum_list] map_cong) auto
  also have "\<dots> = (\<Sum>i \<leftarrow> is. if k = i then {#a#} else {#})
      + (\<Sum>i \<leftarrow> is. mset (filter (\<lambda>a. h a = Some i) as))"
    by (rule sum_list_addf)
  also have "\<dots> = mset (a # as)"
    using Cons k(2) by (simp add: sum_single)
  finally show ?case .
qed simp

lemma mset_nth_upt: "(\<Sum>i \<leftarrow> [0 ..< length ts]. {#ts ! i#}) = mset ts"
proof -
  have "(\<Sum>x \<leftarrow> ts. {#x#}) = mset ts" by (induction ts) simp_all
  moreover have "map (\<lambda>i. {#ts ! i#}) [0 ..< length ts] = map (\<lambda>x. {#x#}) ts"
    by (rule nth_equalityI) simp_all
  ultimately show ?thesis by simp
qed

lemma mset_placed:
  assumes "\<forall>a \<in> set as. home_of ts a \<noteq> None"
  shows "mset (concat (map (placed ts as) [0 ..< length ts])) = mset ts + mset as"
proof -
  have "\<forall>a \<in> set as. \<exists>i \<in> set [0 ..< length ts]. home_of ts a = Some i"
  proof
    fix a assume "a \<in> set as"
    then obtain i where i: "home_of ts a = Some i" using assms by auto
    then have "i < length ts" using home_of_Some by blast
    with i show "\<exists>i \<in> set [0 ..< length ts]. home_of ts a = Some i" by auto
  qed
  note part = filter_partition [OF distinct_upt this]
  have "mset (concat (map (placed ts as) [0 ..< length ts]))
      = (\<Sum>i \<leftarrow> [0 ..< length ts]. {#ts ! i#} + mset (filter (\<lambda>a. home_of ts a = Some i) as))"
    by (simp add: mset_concat comp_def placed_def)
  also have "\<dots> = (\<Sum>i \<leftarrow> [0 ..< length ts]. {#ts ! i#})
      + (\<Sum>i \<leftarrow> [0 ..< length ts]. mset (filter (\<lambda>a. home_of ts a = Some i) as))"
    by (rule sum_list_addf)
  finally show ?thesis unfolding part mset_nth_upt .
qed

lemma linked_nth:
  "linked ts \<Longrightarrow> i \<le> j \<Longrightarrow> j < length ts \<Longrightarrow> rc_slot (ts ! i) \<le> rc_slot (ts ! j)"
proof (induction ts arbitrary: i j rule: linked.induct)
  case (1 a b rs)
  show ?case
  proof (cases i)
    case 0
    show ?thesis
    proof (cases j)
      case (Suc k)
      with 1 have "rc_slot ((b # rs) ! 0) \<le> rc_slot ((b # rs) ! k)" by (intro 1(1)) auto
      with 0 Suc 1(2) show ?thesis by simp
    qed (use 0 in simp)
  next
    case (Suc k)
    with 1(3) obtain j' where "j = Suc j'" "k \<le> j'" by (cases j) auto
    with Suc 1 show ?thesis by simp
  qed
qed (auto simp: less_Suc_eq_0_disj)

lemma placed_slots:
  assumes "linked ts" "sorted (map rc_slot as)"
  shows "n \<le> length ts \<Longrightarrow> sorted (map rc_slot (concat (map (placed ts as) [0 ..< n])))"
proof (induction n)
  case (Suc n)
  then have n: "n < length ts" by simp
  have "sorted_wrt (\<lambda>a b. rc_slot a \<le> rc_slot b) (filter (\<lambda>a. home_of ts a = Some n) as)"
    using assms(2) by (simp add: sorted_map sorted_wrt_filter)
  moreover have "\<forall>a \<in> set (filter (\<lambda>a. home_of ts a = Some n) as). rc_slot (ts ! n) \<le> rc_slot a"
    using home_of_Some [of ts _ n] by simp
  ultimately have own: "sorted (map rc_slot (placed ts as n))"
    by (simp add: placed_def sorted_map)
  have low: "rc_slot x \<le> rc_slot (ts ! n)" if "x \<in> set (placed ts as i)" "i < n" for x i
  proof (cases "x = ts ! i")
    case True
    then show ?thesis using that n linked_nth [OF assms(1), of i n] by simp
  next
    case False
    then have "home_of ts x = Some i" using that by (simp add: placed_def)
    from home_of_Some [OF this] that n have "rc_slot x < rc_slot (ts ! n)" by blast
    then show ?thesis by simp
  qed
  have high: "rc_slot (ts ! n) \<le> rc_slot y" if "y \<in> set (placed ts as n)" for y
  proof (cases "y = ts ! n")
    case False
    then have "home_of ts y = Some n" using that by (simp add: placed_def)
    then show ?thesis using home_of_Some by blast
  qed simp
  have cross: "rc_slot x \<le> rc_slot y"
    if "x \<in> set (concat (map (placed ts as) [0 ..< n]))" "y \<in> set (placed ts as n)" for x y
  proof -
    from that(1) obtain i where "i < n" "x \<in> set (placed ts as i)" by auto
    then show ?thesis using low high [OF that(2)] by (blast intro: order_trans)
  qed
  have "concat (map (placed ts as) [0 ..< Suc n])
      = concat (map (placed ts as) [0 ..< n]) @ placed ts as n" by simp
  moreover have "sorted (map rc_slot (concat (map (placed ts as) [0 ..< n])))" using Suc by simp
  ultimately show ?case
    using own cross by (simp only: map_append sorted_append) (simp only: set_map ball_simps, blast)
qed simp

lemma annotations_by_slot:
  assumes "comparator lc"
  shows "sorted (map rc_slot (js_sort (annotation_cmp lc) as))"
proof -
  have "sorted_wrt (\<lambda>a b. annotation_cmp lc a b \<le> 0) (js_sort (annotation_cmp lc) as)"
    by (rule comparator.sorted_js_sort [OF comparator_annotation [OF assms]])
  then have "sorted_wrt (\<lambda>a b. rc_slot a \<le> rc_slot b) (js_sort (annotation_cmp lc) as)"
    by (rule sorted_wrt_mono_rel [rotated]) (auto simp: annotation_cmp_def split: if_splits)
  then show ?thesis by (simp add: sorted_map)
qed

lemma filter_placed:
  assumes "\<forall>t \<in> set ts. p t" "\<forall>a \<in> set as. \<not> p a"
  shows "filter p (concat (map (placed ts as) [0 ..< length ts])) = ts"
proof -
  have "filter p (placed ts as i) = [ts ! i]" if "i < length ts" for i
    using that assms by (auto simp: placed_def filter_empty_conv)
  then have "map (filter p \<circ> placed ts as) [0 ..< length ts] = map (\<lambda>i. [ts ! i]) [0 ..< length ts]"
    by simp
  then have "filter p (concat (map (placed ts as) [0 ..< length ts]))
      = concat (map (\<lambda>i. [ts ! i]) [0 ..< length ts])"
    by (simp only: filter_concat map_map)
  also have "\<dots> = map (\<lambda>i. ts ! i) [0 ..< length ts]"
    by (simp only: concat_map_singleton)
  finally show ?thesis by (simp add: map_nth)
qed

section \<open>What a report says\<close>

lemma finish_Inr:
  assumes "finish_lifecycle lc ag created ts st prev as = Inr l"
  shows "(\<exists>att. foldR (attach_step ts) [] (js_sort (annotation_cmp lc) as) = Inr att
       \<and> lc_receipts l = with_annotations ts att)"
    and "check_money ts (lc_settledAmount l) (lc_refundedAmount l) = Inr ()"
    and "lc_settledAmount l = paidOut (ts @ as) Name_SettlementExecuted"
    and "lc_refundedAmount l = paidOut (ts @ as) Name_RefundExecuted"
    and "lc_fundedAmount l = Option.bind (find_action Name_AgreementFunded ts) rc_amount"
    and "lc_state l = st" "lc_agreement l = ag" "lc_lastSlot l = rc_slot prev"
    and "lc_buyer l = rc_buyer created" "lc_outcome l = outcome_of st"
    and "proofRecords (js_sort (annotation_cmp lc) as) = Inr (lc_proofs l)"
    and "milestoneRecords (js_sort (annotation_cmp lc) as) = Inr (lc_milestones l)"
    and "check_citation (find_action Name_SettlementExecuted ts) (lc_proofs l) = Inr ()"
    and "\<exists>scheduled. foldR scheduled_step 0 (lc_milestones l) = Inr scheduled
       \<and> (lc_milestones l = [] \<or> find_action Name_AgreementFunded ts = None
          \<or> lc_fundedAmount l = Some scheduled)"
  using assms unfolding finish_lifecycle_def Let_def
  by (auto simp: bindR_eq_Inr split: if_splits option.splits)

text \<open>
  A successful reconstruction in one place: the distinct receipts \<open>vs\<close>, the path through
  their transitions and the annotations.
\<close>

lemma dedupe_ids_aux:
  "foldR dedupe_step m rs = Inr m' \<Longrightarrow> keyed m \<Longrightarrow>
     rc_receiptId ` set (map snd m') = rc_receiptId ` set (map snd m) \<union> rc_receiptId ` set rs"
proof (induction rs arbitrary: m)
  case (Cons r rs)
  from Cons.prems(1) obtain n where n: "dedupe_step m r = Inr n" "foldR dedupe_step n rs = Inr m'"
    by (auto simp: bindR_eq_Inr)
  then have nn: "n = map_set (rc_receiptId r) r m"
    by (auto simp: dedupe_step_def split: option.splits if_splits)
  have keys: "rc_receiptId ` set (map snd k) = fst ` set k" if "keyed k" for k
    using that by (force simp: keyed_def)
  have kn: "keyed n" unfolding nn by (rule keyed_set [OF Cons.prems(2)])
  have "fst ` set n = insert (rc_receiptId r) (fst ` set m)"
    unfolding nn using dom_update [of "rc_receiptId r" r m] by simp
  then have "rc_receiptId ` set (map snd n) = insert (rc_receiptId r) (rc_receiptId ` set (map snd m))"
    using keys [OF kn] keys [OF Cons.prems(2)] by simp
  with Cons.IH [OF n(2) kn] show ?case by auto
qed simp

lemma dedupe_ids:
  "foldR dedupe_step [] rs = Inr m \<Longrightarrow> rc_receiptId ` set (map snd m) = rc_receiptId ` set rs"
  using dedupe_ids_aux [of "[]" rs m] by simp

lemma mset_split_root:
  "filter q ms = [c] \<Longrightarrow> mset p = mset (filter (\<lambda>r. \<not> q r) ms) \<Longrightarrow> mset (c # p) = mset ms"
proof -
  assume root: "filter q ms = [c]" and p: "mset p = mset (filter (\<lambda>r. \<not> q r) ms)"
  have "mset ms = mset (filter q ms) + mset (filter (\<lambda>r. \<not> q r) ms)"
    by (induction ms) auto
  then show ?thesis unfolding root p [symmetric] by simp
qed

lemma reconstruct_Inr:
  assumes "reconstructAgreementLifecycle lc rs = Inr l"
  obtains vs created ts prev where
    "set vs \<subseteq> set rs" "distinct (map rc_receiptId vs)" "rc_receiptId ` set vs = rc_receiptId ` set rs"
    "mset ts = mset (filter (\<lambda>r. rc_kind r \<noteq> Annotation) vs)"
    "hd ts = created" "ts \<noteq> []" "rc_previousState created = None" "linked ts"
    "distinct (map rc_newState ts)" "prev = last ts" "lc_state l = rc_newState prev"
    "finish_lifecycle lc (lc_agreement l) created ts (rc_newState prev) prev
       (filter (\<lambda>r. rc_kind r = Annotation) vs) = Inr l"
proof -
  have "rs \<noteq> []" using assms by (auto simp: reconstructAgreementLifecycle_def)
  with assms obtain m where m: "foldR dedupe_step [] rs = Inr m"
    by (auto simp: reconstructAgreementLifecycle_def Let_def bindR_eq_Inr)
  note km = dedupe_keyed [OF m keyed_Nil]
  let ?vs = "map snd m"
  let ?ms = "filter (\<lambda>r. rc_kind r \<noteq> Annotation) ?vs"
  let ?as = "filter (\<lambda>r. rc_kind r = Annotation) ?vs"
  have ids: "distinct (map rc_receiptId ?vs)" using keyed_distinct km by blast
  then have ms_ids: "distinct (map rc_receiptId ?ms)" by (simp only: distinct_map_filter)
  from assms have "chain_lifecycle lc ?as ?ms = Inr l"
    unfolding reconstruct_values [OF m \<open>rs \<noteq> []\<close>] .
  then obtain created tr ts st prev where
    root: "filter (\<lambda>r. rc_previousState r = None) ?ms = [created]"
    and tr: "foldR transition_step [] ?ms = Inr tr"
    and path: "follow_path tr [rc_newState created] (rc_newState created) created [created]
        = Inr (ts, st, prev, [])"
    and fin: "finish_lifecycle lc (agreement_of ?ms) created ts st prev ?as = Inr l"
    unfolding chain_Inr by blast
  from tr have lv: "distinct (map fst (leaving ?ms))" "tr = leaving ?ms"
    using transitions_Inr [OF ms_ids] by blast+
  have "by_source tr" unfolding lv(2) by (rule by_source_leaving [OF lv(1)])
  from follow_path_spec [OF path this refl] obtain p where
    p: "ts = [created] @ p" "linked (created # p)" "prev = last (created # p)" "st = rc_newState prev"
      "mset (map snd tr) = mset p" "distinct (map rc_newState p)"
      "set (map rc_newState p) \<inter> set [rc_newState created] = {}"
    by auto
  have "mset (map snd (leaving ?ms)) = mset (filter (\<lambda>r. rc_previousState r \<noteq> None) ?ms)"
    by (simp add: leaving_def comp_def)
  then have "mset p = mset (filter (\<lambda>r. \<not> rc_previousState r = None) ?ms)"
    using p(5) lv(2) by simp
  with root p(1) have "mset ts = mset ?ms"
    using mset_split_root by (simp only: append_Cons append_Nil)
  moreover have "created \<in> set (filter (\<lambda>r. rc_previousState r = None) ?ms)"
    unfolding root by simp
  then have "rc_previousState created = None" by simp
  moreover have "rc_receiptId ` set ?vs = rc_receiptId ` set rs"
    using dedupe_ids [OF m] .
  moreover have "agreement_of ?ms = lc_agreement l" using finish_Inr(7) [OF fin] by simp
  moreover have "lc_state l = st" using finish_Inr(6) [OF fin] .
  ultimately show ?thesis
    using that [of ?vs ts created prev] km ids p fin by simp
qed

section \<open>Facts about the report\<close>

lemma report_receipts:
  assumes "finish_lifecycle lc ag created ts st prev as = Inr l"
  shows "mset (lc_receipts l) = mset ts + mset as"
    and "\<forall>t \<in> set ts. rc_kind t \<noteq> Annotation \<Longrightarrow> \<forall>a \<in> set as. rc_kind a = Annotation \<Longrightarrow>
      filter (\<lambda>r. rc_kind r \<noteq> Annotation) (lc_receipts l) = ts"
    and "comparator lc \<Longrightarrow> linked ts \<Longrightarrow> sorted (map rc_slot (lc_receipts l))"
proof -
  obtain att where att: "foldR (attach_step ts) [] (js_sort (annotation_cmp lc) as) = Inr att"
      "lc_receipts l = with_annotations ts att"
    using finish_Inr(1) [OF assms] by blast
  note placed = att(2) [unfolded with_annotations_placed [OF att(1)]]
  have homes: "\<forall>a \<in> set (js_sort (annotation_cmp lc) as). home_of ts a \<noteq> None"
    using attach_buckets [OF att(1)] by blast
  show "mset (lc_receipts l) = mset ts + mset as"
    unfolding placed mset_placed [OF homes] by simp
  show "filter (\<lambda>r. rc_kind r \<noteq> Annotation) (lc_receipts l) = ts"
    if "\<forall>t \<in> set ts. rc_kind t \<noteq> Annotation" "\<forall>a \<in> set as. rc_kind a = Annotation"
    unfolding placed by (rule filter_placed) (use that in simp_all)
  show "sorted (map rc_slot (lc_receipts l))" if "comparator lc" "linked ts"
    unfolding placed
    by (rule placed_slots [OF that(2) annotations_by_slot [OF that(1)]]) simp
qed

lemma find_action_None: "find_action a ts = None \<longleftrightarrow> (\<forall>t \<in> set ts. rc_action t \<noteq> a)"
  by (auto simp: find_action_def find_None_iff)

lemma find_action_Some: "find_action a ts = Some t \<Longrightarrow> t \<in> set ts \<and> rc_action t = a"
  by (auto simp: find_action_def find_Some_iff)

lemma paidOut_None: "paidOut all a = None \<longleftrightarrow> (\<forall>t \<in> set all. rc_action t \<noteq> a)"
  by (auto simp: paidOut_sum Let_def filter_empty_conv)

text \<open>What passing the checks on the amounts means.\<close>

lemma check_money_Inr:
  assumes "check_money ts s r = Inr ()"
  shows "s \<noteq> None \<or> r \<noteq> None \<Longrightarrow> find_action Name_AgreementFunded ts \<noteq> None"
    and "find_action Name_SettlementExecuted ts \<noteq> None \<Longrightarrow> find_action Name_AgreementFunded ts = Some f \<Longrightarrow>
      s = rc_amount f \<and> find_action Name_RefundExecuted ts = None"
    and "find_action Name_RefundExecuted ts \<noteq> None \<Longrightarrow> find_action Name_AgreementFunded ts = Some f \<Longrightarrow>
      rc_amount f = Some (or_zero r + or_zero s)"
  using assms by (auto simp: check_money_def Let_def split: if_splits)

definition moves :: "escrow_receipt list \<Rightarrow> escrow_receipt list" where
  "moves rs = filter (\<lambda>r. rc_kind r \<noteq> Annotation) rs"

definition has_move :: "escrow_event_name \<Rightarrow> escrow_receipt list \<Rightarrow> bool" where
  "has_move a rs \<longleftrightarrow> (\<exists>r \<in> set (moves rs). rc_action r = a)"

lemma report_moves:
  assumes "reconstructAgreementLifecycle lc rs = Inr l"
  obtains created where
    "moves (lc_receipts l) \<noteq> []" "rc_previousState (hd (moves (lc_receipts l))) = None"
    "linked (moves (lc_receipts l))" "distinct (map rc_newState (moves (lc_receipts l)))"
    "lc_state l = rc_newState (last (moves (lc_receipts l)))"
    "distinct (map rc_receiptId (lc_receipts l))" "set (lc_receipts l) \<subseteq> set rs"
    "rc_receiptId ` set (lc_receipts l) = rc_receiptId ` set rs"
    "comparator lc \<Longrightarrow> sorted (map rc_slot (lc_receipts l))"
    "check_money (moves (lc_receipts l)) (lc_settledAmount l) (lc_refundedAmount l) = Inr ()"
    "lc_settledAmount l = paidOut (lc_receipts l) Name_SettlementExecuted"
    "lc_refundedAmount l = paidOut (lc_receipts l) Name_RefundExecuted"
    "lc_fundedAmount l = Option.bind (find_action Name_AgreementFunded (moves (lc_receipts l))) rc_amount"
    "created = hd (moves (lc_receipts l))"
proof -
  from reconstruct_Inr [OF assms] obtain vs created ts prev where
    vs: "set vs \<subseteq> set rs" "distinct (map rc_receiptId vs)" "rc_receiptId ` set vs = rc_receiptId ` set rs"
      "mset ts = mset (filter (\<lambda>r. rc_kind r \<noteq> Annotation) vs)"
    and ts: "hd ts = created" "ts \<noteq> []" "rc_previousState created = None" "linked ts"
      "distinct (map rc_newState ts)" "prev = last ts" "lc_state l = rc_newState prev"
    and fin: "finish_lifecycle lc (lc_agreement l) created ts (rc_newState prev) prev
       (filter (\<lambda>r. rc_kind r = Annotation) vs) = Inr l"
    by this
  have set_ts: "set ts = set (filter (\<lambda>r. rc_kind r \<noteq> Annotation) vs)"
    using vs(4) by (metis set_mset_mset)
  then have kinds: "\<forall>t \<in> set ts. rc_kind t \<noteq> Annotation" by simp
  have annots: "\<forall>a \<in> set (filter (\<lambda>r. rc_kind r = Annotation) vs). rc_kind a = Annotation" by simp
  note mv = report_receipts(2) [OF fin kinds annots, folded moves_def]
  have part: "mset vs = mset (filter (\<lambda>r. rc_kind r \<noteq> Annotation) vs)
      + mset (filter (\<lambda>r. rc_kind r = Annotation) vs)"
    by (induction vs) auto
  have ms: "mset (lc_receipts l) = mset vs"
    unfolding report_receipts(1) [OF fin] vs(4) part [symmetric] by (rule refl)
  then have sets: "set (lc_receipts l) = set vs" by (metis set_mset_mset)
  have "mset (map rc_receiptId (lc_receipts l)) = mset (map rc_receiptId vs)" using ms by simp
  then have "distinct (map rc_receiptId (lc_receipts l))"
    using vs(2) mset_eq_imp_distinct_iff by blast
  note ids = this
  have perm: "mset (ts @ filter (\<lambda>r. rc_kind r = Annotation) vs) = mset (lc_receipts l)"
    using report_receipts(1) [OF fin] by simp
  note paid = paidOut_perm [OF perm]
  show ?thesis
  proof (rule that [of created])
    show "comparator lc \<Longrightarrow> sorted (map rc_slot (lc_receipts l))"
      by (rule report_receipts(3) [OF fin _ ts(4)])
    show "lc_state l = rc_newState (last (moves (lc_receipts l)))"
      unfolding mv ts(6) [symmetric] by (rule ts(7))
    show "lc_settledAmount l = paidOut (lc_receipts l) Name_SettlementExecuted"
      unfolding paid [symmetric] by (rule finish_Inr(3) [OF fin])
    show "lc_refundedAmount l = paidOut (lc_receipts l) Name_RefundExecuted"
      unfolding paid [symmetric] by (rule finish_Inr(4) [OF fin])
    show "moves (lc_receipts l) \<noteq> []" "linked (moves (lc_receipts l))"
      "distinct (map rc_newState (moves (lc_receipts l)))"
      unfolding mv by (rule ts(2), rule ts(4), rule ts(5))
    show "rc_previousState (hd (moves (lc_receipts l))) = None" "created = hd (moves (lc_receipts l))"
      unfolding mv ts(1) by (rule ts(3), rule refl)
    show "set (lc_receipts l) \<subseteq> set rs" "rc_receiptId ` set (lc_receipts l) = rc_receiptId ` set rs"
      unfolding sets by (rule vs(1), rule vs(3))
    show "check_money (moves (lc_receipts l)) (lc_settledAmount l) (lc_refundedAmount l) = Inr ()"
      "lc_fundedAmount l = Option.bind (find_action Name_AgreementFunded (moves (lc_receipts l))) rc_amount"
      unfolding mv by (rule finish_Inr(2) [OF fin], rule finish_Inr(5) [OF fin])
  qed (rule ids)
qed

lemma report_money:
  assumes "reconstructAgreementLifecycle lc rs = Inr l"
  shows "(lc_settledAmount l \<noteq> None \<or> lc_refundedAmount l \<noteq> None \<longrightarrow>
        has_move Name_AgreementFunded (lc_receipts l))
    \<and> (has_move Name_SettlementExecuted (lc_receipts l) \<longrightarrow>
        lc_settledAmount l = lc_fundedAmount l \<and> lc_settledAmount l \<noteq> None
        \<and> \<not> has_move Name_RefundExecuted (lc_receipts l))
    \<and> (has_move Name_RefundExecuted (lc_receipts l) \<longrightarrow>
        lc_fundedAmount l = Some (or_zero (lc_refundedAmount l) + or_zero (lc_settledAmount l)))
    \<and> lc_settledAmount l = paidOut (lc_receipts l) Name_SettlementExecuted
    \<and> lc_refundedAmount l = paidOut (lc_receipts l) Name_RefundExecuted"
proof -
  let ?ts = "moves (lc_receipts l)"
  have hm: "has_move a (lc_receipts l) \<longleftrightarrow> find_action a ?ts \<noteq> None" for a
    by (auto simp: has_move_def find_action_None)
  have cm: "check_money ?ts (lc_settledAmount l) (lc_refundedAmount l) = Inr ()"
    and sa: "lc_settledAmount l = paidOut (lc_receipts l) Name_SettlementExecuted"
    and ra: "lc_refundedAmount l = paidOut (lc_receipts l) Name_RefundExecuted"
    and fa: "lc_fundedAmount l = Option.bind (find_action Name_AgreementFunded ?ts) rc_amount"
    using report_moves [OF assms] by metis+
  have paid: "has_move Name_SettlementExecuted (lc_receipts l) \<Longrightarrow> lc_settledAmount l \<noteq> None"
    "has_move Name_RefundExecuted (lc_receipts l) \<Longrightarrow> lc_refundedAmount l \<noteq> None"
    unfolding sa ra paidOut_None by (auto simp: has_move_def moves_def)
  note cm' = check_money_Inr [OF cm]
  show ?thesis
  proof (cases "find_action Name_AgreementFunded ?ts")
    case None
    then show ?thesis using cm'(1) paid sa ra unfolding hm by blast
  next
    case (Some f)
    then have "lc_fundedAmount l = rc_amount f" using fa by simp
    then show ?thesis using cm'(2,3) [OF _ Some] Some paid sa ra unfolding hm by auto
  qed
qed

lemma rebuild_order_free:
  assumes "set rs = set rs'" and "inj_on rc_receiptId (set rs)" and "comparator lc"
    and "\<And>x y. lc x y = 0 \<Longrightarrow> x = y"
  shows "reconstructAgreementLifecycle lc rs = Inr l \<longleftrightarrow> reconstructAgreementLifecycle lc rs' = Inr l"
proof -
  have one: "reconstructAgreementLifecycle lc bs = Inr l"
    if ok: "reconstructAgreementLifecycle lc as = Inr l" and same: "set as = set bs"
      and inj: "inj_on rc_receiptId (set as)" for as bs
  proof -
    have "as \<noteq> []" using ok by (auto simp: reconstructAgreementLifecycle_def)
    then have "bs \<noteq> []" using same by auto
    obtain m where m: "foldR dedupe_step [] as = Inr m" "keyed m" "set (map snd m) = set as"
      using dedupe_total [of "[]" as] inj by auto
    obtain n where n: "foldR dedupe_step [] bs = Inr n" "keyed n" "set (map snd n) = set bs"
      using dedupe_total [of "[]" bs] inj same by auto
    have dm: "distinct (map rc_receiptId (map snd m))" "distinct (map rc_receiptId (map snd n))"
      using keyed_distinct m(2) n(2) by blast+
    then have "distinct (map snd m)" "distinct (map snd n)" using distinct_map by blast+
    then have ms: "mset (map snd m) = mset (map snd n)"
      using m(3) n(3) same set_eq_iff_mset_eq_distinct by metis
    let ?an = "filter (\<lambda>r. rc_kind r = Annotation)" and ?mv = "filter (\<lambda>r. rc_kind r \<noteq> Annotation)"
    show ?thesis
      unfolding reconstruct_values [OF n(1) \<open>bs \<noteq> []\<close>]
    proof (rule chain_perm)
      show "chain_lifecycle lc (?an (map snd m)) (?mv (map snd m)) = Inr l"
        using ok unfolding reconstruct_values [OF m(1) \<open>as \<noteq> []\<close>] .
      show "mset (?an (map snd m)) = mset (?an (map snd n))" "mset (?mv (map snd m)) = mset (?mv (map snd n))"
        unfolding mset_filter ms by (rule refl)+
      show "distinct (map rc_receiptId (?mv (map snd m)))"
        using dm(1) by (simp only: distinct_map_filter)
      show "inj_on rc_receiptId (set (?an (map snd m)))"
        using inj m(3) by (auto simp: inj_on_def)
    qed (use assms(3,4) in blast)+
  qed
  show ?thesis using one [of rs rs'] one [of rs' rs] assms(1,2) by metis
qed

section \<open>Properties\<close>

text \<open>
  C3: Delivery order and replays do not change a history: two non-empty deliveries of the
  same receipts, in any order and with any repetitions, rebuild to the same report whenever
  either rebuilds, provided a receipt id stands for one receipt and the collation that breaks
  the last ties is a total order on the ids.
\<close>

theorem reconstruct_order_free:
  assumes "set rs = set rs'" and "inj_on rc_receiptId (set rs)" and "comparator lc"
    and "\<And>x y. lc x y = 0 \<Longrightarrow> x = y"
  shows "reconstructAgreementLifecycle lc rs = Inr l \<longleftrightarrow> reconstructAgreementLifecycle lc rs' = Inr l"
  using assms by (rule rebuild_order_free)

text \<open>
  C1: A rebuilt history is one path: its transitions start at the creation receipt, each
  leaves the state its predecessor reached, no state is entered twice, and the reported state
  is the last one reached; every delivered receipt appears in it exactly once, and the whole
  list, annotations included, is in slot order.
\<close>

theorem reconstruct_is_path:
  assumes "reconstructAgreementLifecycle lc rs = Inr l" and "comparator lc"
  shows "let history = lc_receipts l; path = filter (\<lambda>r. rc_kind r \<noteq> Annotation) history
     in path \<noteq> [] \<and> rc_previousState (hd path) = None \<and> linked path
        \<and> distinct (map rc_newState path) \<and> lc_state l = rc_newState (last path)
        \<and> distinct (map rc_receiptId history) \<and> set history \<subseteq> set rs
        \<and> rc_receiptId ` set history = rc_receiptId ` set rs
        \<and> sorted (map rc_slot history)"
  using report_moves [OF assms(1)] assms(2) unfolding moves_def Let_def by metis

text \<open>
  C2: The amounts of a rebuilt history add up: money only leaves after it was funded; a
  settled agreement has paid out exactly the funded amount, over all its payments, and was
  not refunded; a refunded one has returned what its milestones had not paid.
\<close>

theorem reconstruct_conserves:
  assumes "reconstructAgreementLifecycle lc rs = Inr l"
  shows "(lc_settledAmount l \<noteq> None \<or> lc_refundedAmount l \<noteq> None \<longrightarrow>
        has_move Name_AgreementFunded (lc_receipts l))
    \<and> (has_move Name_SettlementExecuted (lc_receipts l) \<longrightarrow>
        lc_settledAmount l = lc_fundedAmount l \<and> lc_settledAmount l \<noteq> None
        \<and> \<not> has_move Name_RefundExecuted (lc_receipts l))
    \<and> (has_move Name_RefundExecuted (lc_receipts l) \<longrightarrow>
        lc_fundedAmount l = Some (or_zero (lc_refundedAmount l) + or_zero (lc_settledAmount l)))
    \<and> lc_settledAmount l = paidOut (lc_receipts l) Name_SettlementExecuted
    \<and> lc_refundedAmount l = paidOut (lc_receipts l) Name_RefundExecuted"
  by (rule report_money [OF assms])

end
