(* ===== verification/Lifecycle_Examples.thy ===== *)
theory Lifecycle_Examples
  imports Lifecycle_Facts
begin

text \<open>
  Concrete histories: the evaluated instances of the lifecycle properties, and the one
  behaviour of the reconstruction that its own error messages do not announce.
\<close>

definition sample_receipt ::
    "string \<Rightarrow> string \<Rightarrow> escrow_event_name \<Rightarrow> agreement_state option \<Rightarrow> agreement_state \<Rightarrow> int
       \<Rightarrow> int option \<Rightarrow> string option \<Rightarrow> escrow_receipt" where
  "sample_receipt agreement ident action before after slot amount proof =
     \<lparr>rc_schemaVersion = 1, rc_receiptId = ident, rc_programId = ''P'', rc_action = action,
      rc_agreement = agreement, rc_agreementId = 7, rc_buyer = ''buyer'', rc_seller = ''seller'',
      rc_actor = ''actor'', rc_mint = Some ''mint'', rc_amount = amount, rc_destination = None,
      rc_proof = proof, rc_proofIndex = None, rc_milestone = None, rc_milestoneIndex = None,
      rc_previousState = before, rc_newState = after, rc_occurredAt = ''t'',
      rc_transactionSignature = ''sig'', rc_slot = slot, rc_instructionIndex = 0,
      rc_innerInstructionIndex = None, rc_kind = kindOf before after\<rparr>"

definition sample_history :: "escrow_receipt list" where
  "sample_history =
     [sample_receipt ''A'' ''1'' Name_AgreementOpened None Open 1 None None,
      sample_receipt ''A'' ''2'' Name_AgreementFunded (Some Open) Funded 2 (Some 50) None,
      sample_receipt ''A'' ''3'' Name_WorkCompleted (Some Funded) Completed 4 None None,
      sample_receipt ''A'' ''4'' Name_SettlementExecuted (Some Completed) Settled 5 (Some 50) None,
      sample_receipt ''A'' ''5'' Name_ProofSubmitted (Some Funded) Funded 3 None (Some ''P1'')]"

lemma sample_ids: "inj_on rc_receiptId (set sample_history)"
  by (simp add: sample_history_def sample_receipt_def inj_on_def)

lemma sample_rebuilds:
  "case reconstructAgreementLifecycle str_cmp sample_history of
     Inr l \<Rightarrow> lc_state l = Settled \<and> map rc_slot (lc_receipts l) = [1, 2, 3, 4, 5]
   | Inl _ \<Rightarrow> False"
  by code_simp

theorem reconstruct_order_free_witness:
  "\<exists>l. reconstructAgreementLifecycle str_cmp sample_history = Inr l
     \<and> reconstructAgreementLifecycle str_cmp (rev sample_history @ sample_history) = Inr l"
proof -
  obtain l where l: "reconstructAgreementLifecycle str_cmp sample_history = Inr l"
    using sample_rebuilds by (auto split: sum.splits)
  have "set sample_history = set (rev sample_history @ sample_history)" by simp
  from reconstruct_order_free [OF this sample_ids str_order.comparator_axioms, of l] l
  show ?thesis by simp
qed

theorem reconstruct_is_path_witness:
  "\<exists>l. reconstructAgreementLifecycle str_cmp sample_history = Inr l
     \<and> linked (filter (\<lambda>r. rc_kind r \<noteq> Annotation) (lc_receipts l))
     \<and> sorted (map rc_slot (lc_receipts l))"
proof -
  obtain l where l: "reconstructAgreementLifecycle str_cmp sample_history = Inr l"
    using sample_rebuilds by (auto split: sum.splits)
  from reconstruct_is_path [OF l str_order.comparator_axioms] l show ?thesis
    unfolding Let_def by blast
qed

theorem reconstruct_conserves_witness:
  "\<exists>l. reconstructAgreementLifecycle str_cmp sample_history = Inr l
     \<and> lc_settledAmount l = lc_fundedAmount l"
proof -
  obtain l where l: "reconstructAgreementLifecycle str_cmp sample_history = Inr l"
    using sample_rebuilds by (auto split: sum.splits)
  have "sample_receipt ''A'' ''4'' Name_SettlementExecuted (Some Completed) Settled 5 (Some 50) None
      \<in> set (lc_receipts l)" (is "?s \<in> _")
  proof -
    have "case reconstructAgreementLifecycle str_cmp sample_history of
        Inr l \<Rightarrow> List.member (lc_receipts l) ?s | Inl _ \<Rightarrow> False" by code_simp
    with l show ?thesis by simp
  qed
  then have "has_move Name_SettlementExecuted (lc_receipts l)"
    by (auto simp: has_move_def moves_def sample_receipt_def kindOf_def intro!: bexI [of _ ?s])
  with reconstruct_conserves [OF l] l show ?thesis by blast
qed

text \<open>
  Mixing agreements is only refused for transitions. A transition of another agreement
  is an error, but an annotation of one is filed into the history as if it belonged there,
  and a payment it reports is counted into the settled amount: the agreement check runs after
  the annotations were set aside.
\<close>

theorem foreign_annotation_accepted:
  "(case reconstructAgreementLifecycle str_cmp
      [sample_receipt ''A'' ''1'' Name_AgreementOpened None Open 1 None None,
       sample_receipt ''A'' ''2'' Name_AgreementFunded (Some Open) Funded 2 (Some 50) None,
       sample_receipt ''B'' ''3'' Name_SettlementExecuted (Some Funded) Funded 3 (Some 30) None] of
     Inr l \<Rightarrow> lc_agreement l = ''A'' \<and> map rc_agreement (lc_receipts l) = [''A'', ''A'', ''B'']
       \<and> lc_settledAmount l = Some 30
   | Inl _ \<Rightarrow> False)
   \<and> (case reconstructAgreementLifecycle str_cmp
      [sample_receipt ''A'' ''1'' Name_AgreementOpened None Open 1 None None,
       sample_receipt ''B'' ''2'' Name_AgreementFunded (Some Open) Funded 2 (Some 50) None] of
     Inr l \<Rightarrow> False
   | Inl e \<Rightarrow> e = Thrown ReceiptError ''receipts describe more than one agreement'')"
  by code_simp

end
