(* ===== verification/Chain_Events.thy ===== *)
theory Chain_Events
  imports Escrow_Events
begin

text \<open>
  The events of \<open>ppv_core\<close> and \<open>ppv_commerce\<close> (\<open>sdk/src/reputation/chain-events.ts\<close>),
  decoded by a reader of their own, and the program-scoped decoder over all three programs
  (\<open>sdk/src/programs.ts\<close>).
\<close>

datatype proof_kind =
    Chain_creation | Chain_document | Chain_agreement | Chain_invoice | Chain_deliverable | Chain_other

definition PROOF_KINDS :: "proof_kind list" where
  "PROOF_KINDS =
     [Chain_creation, Chain_document, Chain_agreement, Chain_invoice, Chain_deliverable, Chain_other]"

section \<open>The reader of this file\<close>

definition ce_take :: "nat \<Rightarrow> reader \<Rightarrow> (bytes \<times> reader) result" where
  "ce_take n r =
     (if length (rd_bytes r) < rd_offset r + n then throw RangeError ''event data truncated''
      else Inr (take n (drop (rd_offset r) (rd_bytes r)), r\<lparr>rd_offset := rd_offset r + n\<rparr>))"

definition ce_pubkey :: "reader \<Rightarrow> (string \<times> reader) result" where
  "ce_pubkey r = bindR (ce_take 32 r) (\<lambda>(bs, r). Inr (encodeBase58 bs, r))"

definition ce_hex :: "nat \<Rightarrow> reader \<Rightarrow> (string \<times> reader) result" where
  "ce_hex n r = bindR (ce_take n r) (\<lambda>(bs, r). Inr (hex bs, r))"

definition ce_u8 :: "reader \<Rightarrow> (int \<times> reader) result" where
  "ce_u8 r = bindR (ce_take 1 r) (\<lambda>(bs, r). Inr (uint (bs ! 0), r))"

definition ce_bool :: "reader \<Rightarrow> (bool \<times> reader) result" where
  "ce_bool r = bindR (ce_u8 r) (\<lambda>(value, r).
     if value > 1 then throw RangeError ''invalid bool'' else Inr (value = 1, r))"

definition ce_u32 :: "reader \<Rightarrow> (int \<times> reader) result" where
  "ce_u32 r = bindR (ce_take 4 r) (\<lambda>(bs, r). Inr (int (le_nat bs), r))"

definition ce_i64 :: "reader \<Rightarrow> (int \<times> reader) result" where
  "ce_i64 r = bindR (ce_take 8 r) (\<lambda>(bs, r).
     let value = signed64 (le_nat bs)
     in if value > max_safe_integer \<or> value < - max_safe_integer
        then throw RangeError ''i64 outside safe integer range''
        else Inr (value, r))"

definition ce_proofKind :: "reader \<Rightarrow> (proof_kind \<times> reader) result" where
  "ce_proofKind r = bindR (ce_u8 r) (\<lambda>(index, r).
     if nat index < length PROOF_KINDS then Inr (PROOF_KINDS ! nat index, r)
     else throw RangeError ''unknown proof kind'')"

section \<open>The events\<close>

datatype chain_event_name =
    Name_ProofCreated | Name_ProofRevoked | Name_AgreementCreated | Name_AgreementRevised
    | Name_AgreementSigned | Name_AgreementExecuted | Name_AgreementCancelled

fun chain_event_name_text :: "chain_event_name \<Rightarrow> string" where
  "chain_event_name_text Name_ProofCreated = ''ProofCreated''"
| "chain_event_name_text Name_ProofRevoked = ''ProofRevoked''"
| "chain_event_name_text Name_AgreementCreated = ''AgreementCreated''"
| "chain_event_name_text Name_AgreementRevised = ''AgreementRevised''"
| "chain_event_name_text Name_AgreementSigned = ''AgreementSigned''"
| "chain_event_name_text Name_AgreementExecuted = ''AgreementExecuted''"
| "chain_event_name_text Name_AgreementCancelled = ''AgreementCancelled''"

datatype chain_event =
    ProofCreated
      (ce_proof: string) (ce_authority: string) (ce_proofId: string) (ce_contentHash: string)
      (ce_contextHash: string) (ce_kind: proof_kind) (ce_createdAt: int)
  | ProofRevoked
      (ce_proof: string) (ce_authority: string) (ce_proofId: string) (ce_contentHash: string)
      (ce_kind: proof_kind) (ce_revokedAt: int)
  | AgreementCreated
      (ce_agreement: string) (ce_agreementId: string) (ce_partyA: string) (ce_partyB: string)
      (ce_version: int) (ce_contentHash: string) (ce_termsHash: string) (ce_expiresAt: int)
      (ce_createdAt: int)
  | AgreementRevised
      (ce_agreement: string) (ce_partyA: string) (ce_partyB: string) (ce_proposer: string)
      (ce_previousVersion: int) (ce_newVersion: int) (ce_contentHash: string)
      (ce_termsHash: string) (ce_signaturesCleared: bool) (ce_revisedAt: int)
  | AgreementSigned
      (ce_agreement: string) (ce_partyA: string) (ce_partyB: string) (ce_signer: string)
      (ce_version: int) (ce_contentHash: string) (ce_termsHash: string) (ce_signedAt: int)
  | AgreementExecuted
      (ce_agreement: string) (ce_partyA: string) (ce_partyB: string) (ce_version: int)
      (ce_contentHash: string) (ce_termsHash: string) (ce_executedAt: int)
  | AgreementCancelled
      (ce_agreement: string) (ce_partyA: string) (ce_partyB: string) (ce_cancelledBy: string)
      (ce_version: int) (ce_cancelledAt: int)

fun ce_name :: "chain_event \<Rightarrow> chain_event_name" where
  "ce_name (ProofCreated _ _ _ _ _ _ _) = Name_ProofCreated"
| "ce_name (ProofRevoked _ _ _ _ _ _) = Name_ProofRevoked"
| "ce_name (AgreementCreated _ _ _ _ _ _ _ _ _) = Name_AgreementCreated"
| "ce_name (AgreementRevised _ _ _ _ _ _ _ _ _ _) = Name_AgreementRevised"
| "ce_name (AgreementSigned _ _ _ _ _ _ _ _) = Name_AgreementSigned"
| "ce_name (AgreementExecuted _ _ _ _ _ _ _) = Name_AgreementExecuted"
| "ce_name (AgreementCancelled _ _ _ _ _ _) = Name_AgreementCancelled"

definition PPV_CORE_EVENT_NAMES :: "chain_event_name list" where
  "PPV_CORE_EVENT_NAMES = [Name_ProofCreated, Name_ProofRevoked]"

definition PPV_COMMERCE_EVENT_NAMES :: "chain_event_name list" where
  "PPV_COMMERCE_EVENT_NAMES =
     [Name_AgreementCreated, Name_AgreementRevised, Name_AgreementSigned, Name_AgreementExecuted,
      Name_AgreementCancelled]"

definition PPV_EVENT_NAMES :: "chain_event_name list" where
  "PPV_EVENT_NAMES = PPV_CORE_EVENT_NAMES @ PPV_COMMERCE_EVENT_NAMES"

definition eventDiscriminatorHex :: "(bytes \<Rightarrow> bytes) \<Rightarrow> chain_event_name \<Rightarrow> string" where
  "eventDiscriminatorHex sha name =
     hex (anchorDiscriminator sha ''event'' (chain_event_name_text name))"

definition CHAIN_DISCRIMINATORS :: "(bytes \<Rightarrow> bytes) \<Rightarrow> (chain_event_name \<times> bytes) list" where
  "CHAIN_DISCRIMINATORS sha =
     map (\<lambda>name. (name, anchorDiscriminator sha ''event'' (chain_event_name_text name)))
       PPV_EVENT_NAMES"

fun read_chain_event :: "chain_event_name \<Rightarrow> reader \<Rightarrow> (chain_event \<times> reader) result" where
  "read_chain_event Name_ProofCreated r =
     bindR (ce_pubkey r) (\<lambda>(proof, r).
     bindR (ce_pubkey r) (\<lambda>(authority, r).
     bindR (ce_hex 16 r) (\<lambda>(proofId, r).
     bindR (ce_hex 32 r) (\<lambda>(contentHash, r).
     bindR (ce_hex 32 r) (\<lambda>(contextHash, r).
     bindR (ce_proofKind r) (\<lambda>(kind, r).
     bindR (ce_i64 r) (\<lambda>(createdAt, r).
     Inr (ProofCreated
       proof authority proofId contentHash contextHash kind createdAt, r))))))))"
| "read_chain_event Name_ProofRevoked r =
     bindR (ce_pubkey r) (\<lambda>(proof, r).
     bindR (ce_pubkey r) (\<lambda>(authority, r).
     bindR (ce_hex 16 r) (\<lambda>(proofId, r).
     bindR (ce_hex 32 r) (\<lambda>(contentHash, r).
     bindR (ce_proofKind r) (\<lambda>(kind, r).
     bindR (ce_i64 r) (\<lambda>(revokedAt, r).
     Inr (ProofRevoked
       proof authority proofId contentHash kind revokedAt, r)))))))"
| "read_chain_event Name_AgreementCreated r =
     bindR (ce_pubkey r) (\<lambda>(agreement, r).
     bindR (ce_hex 16 r) (\<lambda>(agreementId, r).
     bindR (ce_pubkey r) (\<lambda>(partyA, r).
     bindR (ce_pubkey r) (\<lambda>(partyB, r).
     bindR (ce_u32 r) (\<lambda>(version, r).
     bindR (ce_hex 32 r) (\<lambda>(contentHash, r).
     bindR (ce_hex 32 r) (\<lambda>(termsHash, r).
     bindR (ce_i64 r) (\<lambda>(expiresAt, r).
     bindR (ce_i64 r) (\<lambda>(createdAt, r).
     Inr (AgreementCreated
       agreement agreementId partyA partyB version contentHash termsHash expiresAt createdAt, r))))))))))"
| "read_chain_event Name_AgreementRevised r =
     bindR (ce_pubkey r) (\<lambda>(agreement, r).
     bindR (ce_pubkey r) (\<lambda>(partyA, r).
     bindR (ce_pubkey r) (\<lambda>(partyB, r).
     bindR (ce_pubkey r) (\<lambda>(proposer, r).
     bindR (ce_u32 r) (\<lambda>(previousVersion, r).
     bindR (ce_u32 r) (\<lambda>(newVersion, r).
     bindR (ce_hex 32 r) (\<lambda>(contentHash, r).
     bindR (ce_hex 32 r) (\<lambda>(termsHash, r).
     bindR (ce_bool r) (\<lambda>(signaturesCleared, r).
     bindR (ce_i64 r) (\<lambda>(revisedAt, r).
     Inr (AgreementRevised
       agreement partyA partyB proposer previousVersion newVersion contentHash termsHash
       signaturesCleared revisedAt, r)))))))))))"
| "read_chain_event Name_AgreementSigned r =
     bindR (ce_pubkey r) (\<lambda>(agreement, r).
     bindR (ce_pubkey r) (\<lambda>(partyA, r).
     bindR (ce_pubkey r) (\<lambda>(partyB, r).
     bindR (ce_pubkey r) (\<lambda>(signer, r).
     bindR (ce_u32 r) (\<lambda>(version, r).
     bindR (ce_hex 32 r) (\<lambda>(contentHash, r).
     bindR (ce_hex 32 r) (\<lambda>(termsHash, r).
     bindR (ce_i64 r) (\<lambda>(signedAt, r).
     Inr (AgreementSigned
       agreement partyA partyB signer version contentHash termsHash signedAt, r)))))))))"
| "read_chain_event Name_AgreementExecuted r =
     bindR (ce_pubkey r) (\<lambda>(agreement, r).
     bindR (ce_pubkey r) (\<lambda>(partyA, r).
     bindR (ce_pubkey r) (\<lambda>(partyB, r).
     bindR (ce_u32 r) (\<lambda>(version, r).
     bindR (ce_hex 32 r) (\<lambda>(contentHash, r).
     bindR (ce_hex 32 r) (\<lambda>(termsHash, r).
     bindR (ce_i64 r) (\<lambda>(executedAt, r).
     Inr (AgreementExecuted
       agreement partyA partyB version contentHash termsHash executedAt, r))))))))"
| "read_chain_event Name_AgreementCancelled r =
     bindR (ce_pubkey r) (\<lambda>(agreement, r).
     bindR (ce_pubkey r) (\<lambda>(partyA, r).
     bindR (ce_pubkey r) (\<lambda>(partyB, r).
     bindR (ce_pubkey r) (\<lambda>(cancelledBy, r).
     bindR (ce_u32 r) (\<lambda>(version, r).
     bindR (ce_i64 r) (\<lambda>(cancelledAt, r).
     Inr (AgreementCancelled
       agreement partyA partyB cancelledBy version cancelledAt, r)))))))"

definition decodePpvEventData :: "(bytes \<Rightarrow> bytes) \<Rightarrow> bytes \<Rightarrow> chain_event option result" where
  "decodePpvEventData sha data =
     (if length data < 16 \<or> \<not> bytesEqual (take 8 data) EVENT_IX_TAG then Inr None
      else let discriminator = take 8 (drop 8 data)
           in case find (\<lambda>entry. bytesEqual (snd entry) discriminator) (CHAIN_DISCRIMINATORS sha) of
                None \<Rightarrow> Inr None
              | Some (name, _) \<Rightarrow>
                  bindR (read_chain_event name (BorshReader (drop 16 data))) (\<lambda>(event, r).
                  if remaining r \<noteq> 0 then throw RangeError ''event data has trailing bytes''
                  else Inr (Some event)))"

datatype ppv_program = ppv_core | ppv_commerce | ppv_escrow

definition PPV_PROGRAM_NAMES :: "ppv_program list" where
  "PPV_PROGRAM_NAMES = [ppv_core, ppv_commerce, ppv_escrow]"

fun program_text :: "ppv_program \<Rightarrow> string" where
  "program_text ppv_core = ''ppv_core''"
| "program_text ppv_commerce = ''ppv_commerce''"
| "program_text ppv_escrow = ''ppv_escrow''"

definition programForEvent :: "chain_event_name \<Rightarrow> ppv_program" where
  "programForEvent name = (if List.member PPV_CORE_EVENT_NAMES name then ppv_core else ppv_commerce)"

datatype program_event =
    Chain_Event (pe_program: ppv_program) (pe_chain: chain_event)
  | Escrow_Event (pe_escrow: escrow_event)

definition decodeEventForProgram ::
    "(bytes \<Rightarrow> bytes) \<Rightarrow> ppv_program \<Rightarrow> bytes \<Rightarrow> program_event option result" where
  "decodeEventForProgram sha program data =
     (if program = ppv_escrow
      then bindR (decodeEscrowEventData sha data) (\<lambda>event.
             Inr (map_option Escrow_Event event))
      else bindR (decodePpvEventData sha data) (\<lambda>event.
             case event of None \<Rightarrow> Inr None
             | Some event \<Rightarrow>
                 let owner = programForEvent (ce_name event)
                 in if owner \<noteq> program
                    then throw RangeError (chain_event_name_text (ce_name event) @ '' belongs to ''
                           @ program_text owner @ '', decoded as '' @ program_text program)
                    else Inr (Some (Chain_Event owner event))))"

section \<open>Layout\<close>

lemma ce_take_Inr:
  "ce_take n (reader_at p s) = Inr (bs, r') \<longleftrightarrow>
     length bs = n \<and> (\<exists>t. s = bs @ t \<and> r' = reader_at (p @ bs) t)"
proof -
  have "ce_take n (reader_at p s) =
      (if length s < n then throw RangeError ''event data truncated''
       else Inr (take n s, reader_at (p @ take n s) (drop n s)))"
    by (simp add: ce_take_def reader_at_def)
  then show ?thesis by force
qed

text \<open>
  This reader is the other one with a different message: where the escrow reader succeeds
  it succeeds with the same value, so the contracts carry over.
\<close>

definition same_success :: "'a result \<Rightarrow> 'a result \<Rightarrow> bool" where
  "same_success m n \<longleftrightarrow> (\<forall>a. m = Inr a \<longleftrightarrow> n = Inr a)"

lemma same_success_bind:
  "same_success m n \<Longrightarrow> same_success (bindR m f) (bindR n f)"
  by (auto simp: same_success_def bindR_eq_Inr)

lemma same_success_take: "same_success (ce_take n r) (take_bytes n r)"
  by (auto simp: same_success_def ce_take_def take_bytes_def)

lemma codec_same_success:
  assumes "codec rd enc valid" and "\<And>r. same_success (rd' r) (rd r)"
  shows "codec rd' enc valid"
  by unfold_locales (use assms(2) codec.reads [OF assms(1)] in \<open>auto simp: same_success_def\<close>)

interpretation ce_key: codec ce_pubkey key_bytes is_pubkey
  by (rule codec_same_success [OF pubkey.codec_axioms])
     (simp add: ce_pubkey_def read_pubkey_def same_success_bind same_success_take)

interpretation ce_hexf: codec "ce_hex n" unhex "is_hex n" for n
  by (rule codec_same_success [OF hexf.codec_axioms])
     (simp add: ce_hex_def read_hex_def same_success_bind same_success_take)

interpretation ce_u8c: codec ce_u8 "enc_uint 1" "uint_in 1"
  by (rule codec_same_success [OF u8c.codec_axioms])
     (simp add: ce_u8_def u8_def same_success_bind same_success_take)

interpretation ce_u32c: codec ce_u32 "enc_uint 4" "uint_in 4"
  by (rule codec_same_success [OF u32c.codec_axioms])
     (simp add: ce_u32_def u32_def same_success_bind same_success_take)

interpretation ce_i64c: codec ce_i64 enc_i64 safe_int
  by (rule codec_same_success [OF i64c.codec_axioms])
     (simp add: ce_i64_def i64_def same_success_bind same_success_take)

interpretation ce_kindc: codec ce_proofKind "enc_enum PROOF_KINDS" "\<lambda>s. s \<in> set PROOF_KINDS"
proof (rule codec_same_success)
  show "codec (read_enum (from_index PROOF_KINDS ''proof kind'')) (enc_enum PROOF_KINDS)
      (\<lambda>s. s \<in> set PROOF_KINDS)"
    by (rule enum_codec) (simp_all add: PROOF_KINDS_def)
  have u8: "same_success (ce_u8 r) (u8 r)" for r
    by (simp add: ce_u8_def u8_def same_success_bind same_success_take)
  have nonneg: "u8 r = Inr (i, r') \<Longrightarrow> 0 \<le> i" for r i r'
    by (auto simp: u8_def bindR_eq_Inr)
  show "same_success (ce_proofKind r) (read_enum (from_index PROOF_KINDS ''proof kind'') r)" for r
    using u8 [of r] nonneg [of r]
    by (auto simp: same_success_def ce_proofKind_def read_enum_def bindR_eq_Inr from_index_def
        split: if_splits)
qed

definition enc_bool :: "bool \<Rightarrow> bytes" where
  "enc_bool b = [if b then 1 else 0]"

interpretation ce_boolc: codec ce_bool enc_bool "\<lambda>_. True"
proof
  fix p s a r'
  have "ce_bool (reader_at p s) = Inr (a, r') \<longleftrightarrow>
      (\<exists>t. s = enc_uint 1 (if a then 1 else 0) @ t
         \<and> r' = reader_at (p @ enc_uint 1 (if a then 1 else 0)) t)"
    unfolding ce_bool_def ce_u8c.bind_reads
    by (auto simp: uint_in_def split: if_splits intro: exI [of _ "0::int"] exI [of _ "1::int"])
  also have "enc_uint 1 (if a then 1 else 0) = enc_bool a"
    by (simp add: enc_bool_def)
  finally show "ce_bool (reader_at p s) = Inr (a, r') \<longleftrightarrow>
      True \<and> (\<exists>t. s = enc_bool a @ t \<and> r' = reader_at (p @ enc_bool a) t)" by simp
qed

lemmas chain_reads [reader_simps] =
  ce_key.bind_reads ce_hexf.bind_reads ce_u32c.bind_reads ce_i64c.bind_reads
  ce_kindc.bind_reads ce_boolc.bind_reads

lemmas chain_backs [reader_backs] =
  ce_key.bind_back ce_hexf.bind_back ce_u32c.bind_back ce_i64c.bind_back
  ce_kindc.bind_back ce_boolc.bind_back

lemma all_proof_kinds [simp]: "k \<in> set PROOF_KINDS"
  by (cases k) (simp_all add: PROOF_KINDS_def)

fun enc_chain_event :: "chain_event \<Rightarrow> bytes" where
  "enc_chain_event (ProofCreated
       proof authority proofId contentHash contextHash kind createdAt) =
     key_bytes proof @ key_bytes authority @ unhex proofId @ unhex contentHash @
     unhex contextHash @ enc_enum PROOF_KINDS kind @ enc_i64 createdAt"
| "enc_chain_event (ProofRevoked
       proof authority proofId contentHash kind revokedAt) =
     key_bytes proof @ key_bytes authority @ unhex proofId @ unhex contentHash @
     enc_enum PROOF_KINDS kind @ enc_i64 revokedAt"
| "enc_chain_event (AgreementCreated
       agreement agreementId partyA partyB version contentHash termsHash expiresAt createdAt) =
     key_bytes agreement @ unhex agreementId @ key_bytes partyA @ key_bytes partyB @
     enc_uint 4 version @ unhex contentHash @ unhex termsHash @ enc_i64 expiresAt @
     enc_i64 createdAt"
| "enc_chain_event (AgreementRevised
       agreement partyA partyB proposer previousVersion newVersion contentHash termsHash
       signaturesCleared revisedAt) =
     key_bytes agreement @ key_bytes partyA @ key_bytes partyB @ key_bytes proposer @
     enc_uint 4 previousVersion @ enc_uint 4 newVersion @ unhex contentHash @
     unhex termsHash @ enc_bool signaturesCleared @ enc_i64 revisedAt"
| "enc_chain_event (AgreementSigned
       agreement partyA partyB signer version contentHash termsHash signedAt) =
     key_bytes agreement @ key_bytes partyA @ key_bytes partyB @ key_bytes signer @
     enc_uint 4 version @ unhex contentHash @ unhex termsHash @ enc_i64 signedAt"
| "enc_chain_event (AgreementExecuted
       agreement partyA partyB version contentHash termsHash executedAt) =
     key_bytes agreement @ key_bytes partyA @ key_bytes partyB @ enc_uint 4 version @
     unhex contentHash @ unhex termsHash @ enc_i64 executedAt"
| "enc_chain_event (AgreementCancelled
       agreement partyA partyB cancelledBy version cancelledAt) =
     key_bytes agreement @ key_bytes partyA @ key_bytes partyB @ key_bytes cancelledBy @
     enc_uint 4 version @ enc_i64 cancelledAt"

fun wf_chain_event :: "chain_event \<Rightarrow> bool" where
  "wf_chain_event (ProofCreated
       proof authority proofId contentHash contextHash _ createdAt) \<longleftrightarrow>
     is_pubkey proof \<and> is_pubkey authority \<and> is_hex 16 proofId \<and>
     is_hex 32 contentHash \<and> is_hex 32 contextHash \<and> safe_int createdAt"
| "wf_chain_event (ProofRevoked
       proof authority proofId contentHash _ revokedAt) \<longleftrightarrow>
     is_pubkey proof \<and> is_pubkey authority \<and> is_hex 16 proofId \<and>
     is_hex 32 contentHash \<and> safe_int revokedAt"
| "wf_chain_event (AgreementCreated
       agreement agreementId partyA partyB version contentHash termsHash expiresAt createdAt) \<longleftrightarrow>
     is_pubkey agreement \<and> is_hex 16 agreementId \<and> is_pubkey partyA \<and>
     is_pubkey partyB \<and> uint_in 4 version \<and> is_hex 32 contentHash \<and>
     is_hex 32 termsHash \<and> safe_int expiresAt \<and> safe_int createdAt"
| "wf_chain_event (AgreementRevised
       agreement partyA partyB proposer previousVersion newVersion contentHash termsHash _
       revisedAt) \<longleftrightarrow>
     is_pubkey agreement \<and> is_pubkey partyA \<and> is_pubkey partyB \<and>
     is_pubkey proposer \<and> uint_in 4 previousVersion \<and> uint_in 4 newVersion \<and>
     is_hex 32 contentHash \<and> is_hex 32 termsHash \<and> safe_int revisedAt"
| "wf_chain_event (AgreementSigned
       agreement partyA partyB signer version contentHash termsHash signedAt) \<longleftrightarrow>
     is_pubkey agreement \<and> is_pubkey partyA \<and> is_pubkey partyB \<and>
     is_pubkey signer \<and> uint_in 4 version \<and> is_hex 32 contentHash \<and>
     is_hex 32 termsHash \<and> safe_int signedAt"
| "wf_chain_event (AgreementExecuted
       agreement partyA partyB version contentHash termsHash executedAt) \<longleftrightarrow>
     is_pubkey agreement \<and> is_pubkey partyA \<and> is_pubkey partyB \<and>
     uint_in 4 version \<and> is_hex 32 contentHash \<and> is_hex 32 termsHash \<and>
     safe_int executedAt"
| "wf_chain_event (AgreementCancelled
       agreement partyA partyB cancelledBy version cancelledAt) \<longleftrightarrow>
     is_pubkey agreement \<and> is_pubkey partyA \<and> is_pubkey partyB \<and>
     is_pubkey cancelledBy \<and> uint_in 4 version \<and> safe_int cancelledAt"

lemma read_chain_event_reads:
  "read_chain_event name (reader_at p s) = Inr (e, r') \<longleftrightarrow>
     ce_name e = name \<and> wf_chain_event e
     \<and> (\<exists>t. s = enc_chain_event e @ t \<and> r' = reader_at (p @ enc_chain_event e) t)"
proof
  assume "read_chain_event name (reader_at p s) = Inr (e, r')"
  then show "ce_name e = name \<and> wf_chain_event e
     \<and> (\<exists>t. s = enc_chain_event e @ t \<and> r' = reader_at (p @ enc_chain_event e) t)"
    by (cases name) (auto simp: reader_simps)
next
  assume "ce_name e = name \<and> wf_chain_event e
     \<and> (\<exists>t. s = enc_chain_event e @ t \<and> r' = reader_at (p @ enc_chain_event e) t)"
  then show "read_chain_event name (reader_at p s) = Inr (e, r')"
    by (cases e) (auto simp: reader_backs)
qed

definition chain_event_match :: "(bytes \<Rightarrow> bytes) \<Rightarrow> bytes \<Rightarrow> chain_event_name option" where
  "chain_event_match sha d =
     map_option fst (find (\<lambda>entry. bytesEqual (snd entry) d) (CHAIN_DISCRIMINATORS sha))"

lemma chain_event_match_own:
  "chain_event_match sha d = Some n \<Longrightarrow> anchorDiscriminator sha ''event'' (chain_event_name_text n) = d"
  by (auto simp: chain_event_match_def CHAIN_DISCRIMINATORS_def find_Some_iff)

lemma decodePpvEventData_match:
  "decodePpvEventData sha data =
     (if length data < 16 \<or> take 8 data \<noteq> EVENT_IX_TAG then Inr None
      else case chain_event_match sha (take 8 (drop 8 data)) of
             None \<Rightarrow> Inr None
           | Some name \<Rightarrow> bindR (read_chain_event name (reader_at [] (drop 16 data))) (\<lambda>(event, r).
               if remaining r \<noteq> 0 then throw RangeError ''event data has trailing bytes''
               else Inr (Some event)))"
  by (auto simp: decodePpvEventData_def chain_event_match_def BorshReader_at Let_def
      split: option.splits)

lemma decodePpvEventData_Some:
  "decodePpvEventData sha data = Inr (Some e) \<longleftrightarrow>
     16 \<le> length data \<and> take 8 data = EVENT_IX_TAG
     \<and> chain_event_match sha (take 8 (drop 8 data)) = Some (ce_name e)
     \<and> wf_chain_event e \<and> drop 16 data = enc_chain_event e" (is "?l \<longleftrightarrow> ?r")
proof
  assume ?l
  then show ?r
    unfolding decodePpvEventData_match
    by (auto simp: bindR_eq_Inr read_chain_event_reads split: option.splits if_splits)
next
  assume h: ?r
  then have "read_chain_event (ce_name e) (reader_at [] (drop 16 data))
      = Inr (e, reader_at ([] @ enc_chain_event e) [])"
    by (simp add: read_chain_event_reads)
  with h show ?l unfolding decodePpvEventData_match by simp
qed

section \<open>Properties\<close>

text \<open>
  An event is never attributed to a program that did not announce it: decoding the data
  of an instruction to \<open>program\<close> returns an event only when the name belongs to that
  program's list, the bytes are the tag, that name's discriminator and the full layout; an
  event of the sibling program is an error naming both, not an event and not silence.
\<close>

theorem decodeEventForProgram_attributes:
  "case decodeEventForProgram sha program data of
     Inr None \<Rightarrow>
       (if program = ppv_escrow then decodeEscrowEventData sha data = Inr None
        else decodePpvEventData sha data = Inr None)
   | Inr (Some (Escrow_Event e)) \<Rightarrow> program = ppv_escrow \<and> drop 16 data = enc_escrow_event e
       \<and> take 8 (drop 8 data) = anchorDiscriminator sha ''event'' (escrow_event_name_text (ev_name e))
   | Inr (Some (Chain_Event owner e)) \<Rightarrow> owner = program
       \<and> ce_name e \<in> set (if program = ppv_core then PPV_CORE_EVENT_NAMES else PPV_COMMERCE_EVENT_NAMES)
       \<and> drop 16 data = enc_chain_event e
       \<and> take 8 (drop 8 data) = anchorDiscriminator sha ''event'' (chain_event_name_text (ce_name e))
   | Inl err \<Rightarrow>
       (if program = ppv_escrow then decodeEscrowEventData sha data = Inl err
        else decodePpvEventData sha data = Inl err
          \<or> (\<exists>e. decodePpvEventData sha data = Inr (Some e) \<and> programForEvent (ce_name e) \<noteq> program))"
proof (cases "program = ppv_escrow")
  case True
  have own: "take 8 (drop 8 data) = anchorDiscriminator sha ''event'' (escrow_event_name_text n)"
    if "escrow_event_match sha (take 8 (drop 8 data)) = Some n" for n
    using that by (auto simp: escrow_event_match_def ESCROW_DISCRIMINATORS_def find_Some_iff)
  show ?thesis
  proof (cases "decodeEscrowEventData sha data")
    case (Inr r)
    show ?thesis
    proof (cases r)
      case (Some e)
      note dec = Inr [unfolded Some, unfolded decodeEscrowEventData_Some]
      show ?thesis
        using True Inr Some dec own [of "ev_name e"] by (simp add: decodeEventForProgram_def)
    qed (simp add: True Inr decodeEventForProgram_def)
  qed (simp add: True decodeEventForProgram_def)
next
  case False
  have member: "n \<in> set PPV_EVENT_NAMES" for n
    by (cases n) (simp_all add: PPV_EVENT_NAMES_def PPV_CORE_EVENT_NAMES_def PPV_COMMERCE_EVENT_NAMES_def)
  show ?thesis
  proof (cases "decodePpvEventData sha data")
    case (Inr r)
    show ?thesis
    proof (cases r)
      case (Some e)
      note dec = Inr [unfolded Some, unfolded decodePpvEventData_Some]
      show ?thesis
        using False Inr Some dec chain_event_match_own [of sha "take 8 (drop 8 data)" "ce_name e"]
          member [of "ce_name e"]
        by (cases program) (auto simp: decodeEventForProgram_def Let_def programForEvent_def
            PPV_EVENT_NAMES_def)
    qed (simp add: False Inr decodeEventForProgram_def)
  qed (simp add: False decodeEventForProgram_def)
qed

end
