(* ===== verification/Curve.thy ===== *)
theory Curve
  imports Prelude
begin

text \<open>
  Curve membership of a 32-byte value (\<open>sdk/src/escrow/curve.ts\<close>), over unbounded
  integers as the source's \<open>bigint\<close>s are. The file computes square-and-multiply
  powers; the lemmas give them as powers modulo the field prime and show which bits of the
  input the answer depends on.
\<close>

definition P :: int where "P = 2 ^ 255 - 19"

definition D :: int where
  "D = 37095705934669439343138083508754565189542113879843219016388785533085940283555"

text \<open>JavaScript's \<open>%\<close> takes the sign of the dividend.\<close>

definition js_rem :: "int \<Rightarrow> int \<Rightarrow> int" where
  "js_rem a b = (if a < 0 then - ((- a) mod b) else a mod b)"

definition mod_p :: "int \<Rightarrow> int" where
  "mod_p v = (let r = js_rem v P in if r < 0 then r + P else r)"

function modPow_loop :: "int \<Rightarrow> int \<Rightarrow> int \<Rightarrow> int" where
  "modPow_loop res acc e =
     (if 0 < e
      then modPow_loop (if odd e then js_rem (res * acc) P else res) (js_rem (acc * acc) P) (e div 2)
      else res)"
  by pat_completeness auto
termination
  by (relation "measure (\<lambda>(res, acc, e). nat e)") auto

declare modPow_loop.simps [simp del]

definition modPow :: "int \<Rightarrow> int \<Rightarrow> int" where
  "modPow base e = modPow_loop 1 (mod_p base) e"

definition inverse_p :: "int \<Rightarrow> int" where
  "inverse_p v = modPow v (P - 2)"

definition isSquare :: "int \<Rightarrow> bool" where
  "isSquare w = (if w = 0 then True else modPow w ((P - 1) div 2) = 1)"

text \<open>The loop over the bytes from the last to the first.\<close>

definition read_y :: "bytes \<Rightarrow> int" where
  "read_y bs = foldl (\<lambda>y b. y * 256 + uint b) 0 (rev bs)"

definition isOnCurve :: "bytes \<Rightarrow> bool" where
  "isOnCurve bs =
     (if length bs \<noteq> 32 then False
      else let y0 = read_y bs;
               signBit = take_bit 1 (drop_bit 255 y0);
               y = mod_p (take_bit 255 y0);
               ySquared = js_rem (y * y) P;
               u = mod_p (ySquared - 1);
               v = mod_p (D * ySquared + 1)
           in if v = 0 then False
              else let w = js_rem (u * inverse_p v) P
                   in if \<not> isSquare w then False
                      else if w = 0 \<and> signBit = 1 then False
                      else True)"

section \<open>The arithmetic\<close>

lemma P_pos [simp]: "0 < P"
  by (simp add: P_def)

lemma js_rem_nonneg: "0 \<le> a \<Longrightarrow> js_rem a b = a mod b"
  by (simp add: js_rem_def)

lemma mod_p_eq: "mod_p v = v mod P"
proof (cases "v < 0")
  case True
  have "(- v) mod P = (if v mod P = 0 then 0 else P - v mod P)"
    by (rule zmod_zminus1_eq_if)
  moreover have "0 \<le> v mod P" by (rule pos_mod_sign) simp
  moreover have "v mod P < P" by (rule pos_mod_bound) simp
  ultimately show ?thesis using True by (simp add: mod_p_def js_rem_def Let_def)
next
  case False
  have "0 \<le> v mod P" by (rule pos_mod_sign) simp
  then have nn: "\<not> v mod P < 0" by (simp only: not_less)
  show ?thesis using False nn by (simp only: mod_p_def js_rem_def Let_def if_False)
qed

lemma mod_p_bounds: "0 \<le> mod_p v" "mod_p v < P"
  by (simp_all add: mod_p_eq)

lemma int_halve: "0 < e \<Longrightarrow> nat e = 2 * nat (e div 2) + (if odd e then 1 else 0)" for e :: int
proof -
  assume "0 < e"
  have "e = 2 * (e div 2) + (if odd e then 1 else 0)"
    by presburger
  moreover have "0 \<le> e div 2" using \<open>0 < e\<close> by simp
  ultimately show ?thesis by (auto simp: nat_add_distrib nat_mult_distrib nat_eq_iff)
qed

lemma power_mod_cong: "a mod P = b mod P \<Longrightarrow> a ^ n mod P = b ^ n mod P"
  by (metis power_mod)

lemma modPow_loop_eq:
  "0 \<le> res \<Longrightarrow> 0 \<le> acc \<Longrightarrow> modPow_loop res acc e mod P = res * acc ^ nat e mod P"
proof (induction res acc e rule: modPow_loop.induct)
  case (1 res acc e)
  show ?case
  proof (cases "0 < e")
    case False
    then show ?thesis by (simp add: modPow_loop.simps)
  next
    case True
    let ?res = "if odd e then js_rem (res * acc) P else res"
    let ?acc = "js_rem (acc * acc) P"
    have nn: "0 \<le> ?res" "0 \<le> ?acc"
      using "1.prems" by (simp_all add: js_rem_nonneg)
    have acc: "?acc mod P = (acc ^ 2) mod P"
      using "1.prems" by (simp add: js_rem_nonneg power2_eq_square)
    have res: "?res mod P = res * (if odd e then acc else 1) mod P"
      using "1.prems" by (simp add: js_rem_nonneg)
    have "modPow_loop res acc e = modPow_loop ?res ?acc (e div 2)"
      using True by (subst modPow_loop.simps) (simp only: if_True)
    then have "modPow_loop res acc e mod P = ?res * ?acc ^ nat (e div 2) mod P"
      using "1.IH" [OF True nn] by (simp only:)
    also have "\<dots> = (res * (if odd e then acc else 1)) * (acc ^ 2) ^ nat (e div 2) mod P"
      by (rule mod_mult_cong [OF res power_mod_cong [OF acc]])
    also have "(res * (if odd e then acc else 1)) * (acc ^ 2) ^ nat (e div 2)
        = res * acc ^ (2 * nat (e div 2) + (if odd e then 1 else 0))"
      by (simp only: power_mult power_add) simp
    also have "\<dots> = res * acc ^ nat e" by (simp only: int_halve [OF True])
    finally show ?thesis .
  qed
qed

lemma modPow_loop_range:
  "0 \<le> res \<Longrightarrow> res < P \<Longrightarrow> 0 \<le> acc \<Longrightarrow> 0 \<le> modPow_loop res acc e \<and> modPow_loop res acc e < P"
proof (induction res acc e rule: modPow_loop.induct)
  case (1 res acc e)
  show ?case
  proof (cases "0 < e")
    case True
    let ?res = "if odd e then js_rem (res * acc) P else res"
    let ?acc = "js_rem (acc * acc) P"
    have "modPow_loop res acc e = modPow_loop ?res ?acc (e div 2)"
      using True by (subst modPow_loop.simps) (simp only: if_True)
    moreover have "0 \<le> modPow_loop ?res ?acc (e div 2) \<and> modPow_loop ?res ?acc (e div 2) < P"
      by (rule "1.IH" [OF True]) (use "1.prems" in \<open>simp_all add: js_rem_nonneg\<close>)
    ultimately show ?thesis by (simp only:)
  next
    case False
    with "1.prems" show ?thesis by (simp add: modPow_loop.simps)
  qed
qed

lemma modPow_power: "modPow b e = b ^ nat e mod P"
proof -
  have "0 \<le> modPow b e \<and> modPow b e < P"
    unfolding modPow_def by (rule modPow_loop_range) (simp_all add: mod_p_bounds P_def)
  then have "modPow b e = modPow b e mod P" by simp
  also have "\<dots> = 1 * mod_p b ^ nat e mod P"
    unfolding modPow_def by (rule modPow_loop_eq) (simp_all add: mod_p_bounds)
  also have "\<dots> = b ^ nat e mod P" by (simp add: mod_p_eq power_mod)
  finally show ?thesis .
qed

lemma read_y_le: "read_y bs = int (le_nat bs)"
proof -
  have "foldl (\<lambda>y b. y * 256 + uint b) 0 (rev bs) = int (le_nat bs)"
    by (induction bs) simp_all
  then show ?thesis by (simp add: read_y_def)
qed

text \<open>The candidate the code tests: \<open>(y\<^sup>2 - 1) / (d y\<^sup>2 + 1)\<close>, by Fermat inversion.\<close>

definition candidate :: "int \<Rightarrow> int" where
  "candidate y = (y\<^sup>2 - 1) * (D * y\<^sup>2 + 1) ^ nat (P - 2) mod P"

lemma mod_sq: "js_rem (mod_p a * mod_p a) P = (a ^ 2) mod P"
proof -
  have "js_rem (mod_p a * mod_p a) P = (mod_p a * mod_p a) mod P"
    by (rule js_rem_nonneg) (intro mult_nonneg_nonneg mod_p_bounds)
  also have "\<dots> = (a ^ 2) mod P"
    unfolding mod_p_eq power2_eq_square by (rule mod_mult_eq)
  finally show ?thesis .
qed

lemma numer_step: "mod_p (a ^ 2 mod P - 1) = (a ^ 2 - 1) mod P"
  by (simp add: mod_p_eq mod_diff_left_eq)

lemma denom_step: "mod_p (D * (a ^ 2 mod P) + 1) = (D * a ^ 2 + 1) mod P"
proof -
  have "D * (a ^ 2 mod P) mod P = D * a ^ 2 mod P" by (rule mod_mult_right_eq)
  then show ?thesis unfolding mod_p_eq by (rule mod_add_cong) simp
qed

lemma candidate_step:
  "js_rem (mod_p (a ^ 2 mod P - 1) * inverse_p (mod_p (D * (a ^ 2 mod P) + 1))) P = candidate a"
proof -
  have "0 \<le> inverse_p x" for x
    by (simp add: inverse_p_def modPow_power)
  then have "js_rem (mod_p (a ^ 2 mod P - 1) * inverse_p (mod_p (D * (a ^ 2 mod P) + 1))) P
      = (mod_p (a ^ 2 mod P - 1) * inverse_p (mod_p (D * (a ^ 2 mod P) + 1))) mod P"
    by (simp add: js_rem_nonneg mod_p_bounds)
  also have "\<dots> = candidate a"
    unfolding candidate_def numer_step denom_step inverse_p_def modPow_power
    by (rule mod_mult_cong) (simp_all add: power_mod)
  finally show ?thesis .
qed

text \<open>What \<open>isOnCurve\<close> decides, as arithmetic in the field.\<close>

lemma isOnCurve_spec:
  "isOnCurve bs \<longleftrightarrow>
     length bs = 32 \<and>
     (let y = int (le_nat bs) mod 2 ^ 255 in
        (D * y ^ 2 + 1) mod P \<noteq> 0
        \<and> (candidate y = 0 \<or> candidate y ^ nat ((P - 1) div 2) mod P = 1)
        \<and> \<not> (candidate y = 0 \<and> int (le_nat bs) div 2 ^ 255 mod 2 = 1))"
proof -
  have bit: "take_bit 1 (drop_bit 255 i) = i div 2 ^ 255 mod 2" for i :: int
    by (simp only: take_bit_eq_mod drop_bit_eq_div power_one_right)
  show ?thesis
    unfolding isOnCurve_def Let_def mod_sq
    unfolding candidate_step
    unfolding denom_step read_y_le isSquare_def modPow_power bit take_bit_eq_mod [of 255]
    by presburger
qed

lemma candidate_cong:
  assumes "y mod P = z mod P"
  shows "candidate y = candidate z"
proof -
  have sq: "y ^ 2 mod P = z ^ 2 mod P" by (rule power_mod_cong [OF assms])
  have "(y ^ 2 - 1) mod P = (z ^ 2 - 1) mod P" by (rule mod_diff_cong [OF sq refl])
  moreover have "(D * y ^ 2 + 1) mod P = (D * z ^ 2 + 1) mod P"
    by (intro mod_add_cong mod_mult_cong sq refl)
  ultimately show ?thesis
    unfolding candidate_def by (intro mod_mult_cong power_mod_cong)
qed

text \<open>
  A non-canonical \<open>y\<close> is reduced, not rejected: two encodings with the same sign bit and
  congruent \<open>y\<close> get the same answer.
\<close>

lemma isOnCurve_reduces:
  assumes "length as = length bs"
    and "(int (le_nat as) mod 2 ^ 255) mod P = (int (le_nat bs) mod 2 ^ 255) mod P"
    and "int (le_nat as) div 2 ^ 255 mod 2 = int (le_nat bs) div 2 ^ 255 mod 2"
  shows "isOnCurve as = isOnCurve bs"
proof -
  let ?y = "int (le_nat as) mod 2 ^ 255" and ?z = "int (le_nat bs) mod 2 ^ 255"
  have "candidate ?y = candidate ?z" by (rule candidate_cong [OF assms(2)])
  moreover have "(D * ?y ^ 2 + 1) mod P = (D * ?z ^ 2 + 1) mod P"
    by (intro mod_add_cong mod_mult_cong power_mod_cong assms(2) refl)
  ultimately show ?thesis
    unfolding isOnCurve_spec Let_def assms(1,3) by (simp only:)
qed

lemma isOnCurve_length: "isOnCurve bs \<Longrightarrow> length bs = 32"
  by (simp add: isOnCurve_spec)

text \<open>The encoding of \<open>y = 1\<close>: on the curve without the sign bit, off it with the bit set.\<close>

definition y_one :: "byte \<Rightarrow> bytes" where
  "y_one hi = 1 # replicate 30 0 @ [hi]"

lemma length_y_one [simp]: "length (y_one hi) = 32"
  by (simp add: y_one_def)

lemma le_nat_y_one: "le_nat (y_one hi) = 1 + 256 ^ 31 * unat hi"
  by (simp add: y_one_def le_nat_append)

lemma candidate_1: "candidate 1 = 0"
  by (simp add: candidate_def)

lemma y_one_on_curve: "isOnCurve (y_one 0)"
  unfolding isOnCurve_spec le_nat_y_one by (simp add: candidate_1 D_def P_def)

lemma y_one_off_curve: "\<not> isOnCurve (y_one 128)"
  unfolding isOnCurve_spec le_nat_y_one by (simp add: candidate_1)

end
