(* ===== verification/Pdas.thy ===== *)
theory Pdas
  imports Base58 Curve
begin

text \<open>
  Deterministic addresses (\<open>sdk/src/escrow/pdas.ts\<close>). The hash of \<open>node:crypto\<close> is the
  parameter \<open>sha\<close>. The lemmas say which bump the search picks, that the pre-images of the
  protocol's address families are told apart, and what each derivation refuses.
\<close>

definition AGREEMENT_SEED :: bytes where "AGREEMENT_SEED = utf8 ''agreement''"
definition VAULT_AUTHORITY_SEED :: bytes where "VAULT_AUTHORITY_SEED = utf8 ''vault''"
definition VAULT_TOKEN_SEED :: bytes where "VAULT_TOKEN_SEED = utf8 ''vault_token''"
definition PROOF_SEED :: bytes where "PROOF_SEED = utf8 ''proof''"
definition MILESTONE_SEED :: bytes where "MILESTONE_SEED = utf8 ''milestone''"
definition CORE_PROOF_SEED :: bytes where "CORE_PROOF_SEED = utf8 ''proof''"
definition CORE_PROOF_ID_DOMAIN :: bytes where
  "CORE_PROOF_ID_DOMAIN = utf8 ''ppv:escrow:core-proof:v1''"
definition PDA_MARKER :: bytes where "PDA_MARKER = utf8 ''ProgramDerivedAddress''"
definition MAX_SEED_LENGTH :: nat where "MAX_SEED_LENGTH = 32"
definition MAX_SEEDS :: nat where "MAX_SEEDS = 16"

type_synonym address = string

definition addressBytes :: "address \<Rightarrow> bytes result" where
  "addressBytes a = bindR (decodeBase58 a) (\<lambda>bs.
     if length bs \<noteq> 32 then throw PdaError (''not a 32-byte address: '' @ a) else Inr bs)"

definition createProgramAddress :: "(bytes \<Rightarrow> bytes) \<Rightarrow> bytes list \<Rightarrow> address \<Rightarrow> address result" where
  "createProgramAddress sha seeds programId =
     (if length seeds > MAX_SEEDS then throw PdaError ''too many seeds''
      else if \<exists>seed \<in> set seeds. length seed > MAX_SEED_LENGTH
      then throw PdaError ''seed longer than 32 bytes''
      else bindR (addressBytes programId) (\<lambda>pid.
        let bs = sha (concat (seeds @ [pid, PDA_MARKER]))
        in if isOnCurve bs then throw PdaError ''derived address is on the ed25519 curve''
           else Inr (encodeBase58 bs)))"

text \<open>\<open>String.prototype.includes\<close>.\<close>

definition str_includes :: "string \<Rightarrow> string \<Rightarrow> bool" where
  "str_includes text needle \<longleftrightarrow> sublist needle text"

definition on_curve_error :: "js_error \<Rightarrow> bool" where
  "on_curve_error e \<longleftrightarrow> err_class e = PdaError \<and> str_includes (err_message e) ''on the ed25519 curve''"

text \<open>The loop from 255 down to 0; the argument is the number of bumps left to try.\<close>

fun bump_loop :: "(bytes \<Rightarrow> bytes) \<Rightarrow> bytes list \<Rightarrow> address \<Rightarrow> nat \<Rightarrow> (address \<times> nat) result" where
  "bump_loop sha seeds programId 0 = throw PdaError ''no off-curve bump exists for these seeds''"
| "bump_loop sha seeds programId (Suc bump) =
     (case createProgramAddress sha (seeds @ [[word_of_nat bump]]) programId of
        Inr a \<Rightarrow> Inr (a, bump)
      | Inl e \<Rightarrow> if on_curve_error e then bump_loop sha seeds programId bump else Inl e)"

definition findProgramAddress ::
    "(bytes \<Rightarrow> bytes) \<Rightarrow> bytes list \<Rightarrow> address \<Rightarrow> (address \<times> nat) result" where
  "findProgramAddress sha seeds programId = bump_loop sha seeds programId 256"

definition agreementIdSeed :: "int \<Rightarrow> bytes result" where
  "agreementIdSeed v =
     (if v < 0 \<or> v > 0xffffffffffffffff then throw PdaError ''agreement id out of u64 range''
      else Inr (le_bytes 8 (nat v)))"

definition deriveAgreement ::
    "(bytes \<Rightarrow> bytes) \<Rightarrow> address \<Rightarrow> address \<Rightarrow> int \<Rightarrow> (address \<times> nat) result" where
  "deriveAgreement sha programId creator agreementId =
     bindR (addressBytes creator) (\<lambda>c. bindR (agreementIdSeed agreementId) (\<lambda>i.
       findProgramAddress sha [AGREEMENT_SEED, c, i] programId))"

definition deriveVaultAuthority :: "(bytes \<Rightarrow> bytes) \<Rightarrow> address \<Rightarrow> address \<Rightarrow> (address \<times> nat) result" where
  "deriveVaultAuthority sha programId agreement =
     bindR (addressBytes agreement) (\<lambda>a. findProgramAddress sha [VAULT_AUTHORITY_SEED, a] programId)"

definition deriveVault :: "(bytes \<Rightarrow> bytes) \<Rightarrow> address \<Rightarrow> address \<Rightarrow> (address \<times> nat) result" where
  "deriveVault sha programId agreement =
     bindR (addressBytes agreement) (\<lambda>a. findProgramAddress sha [VAULT_TOKEN_SEED, a] programId)"

definition proofIndexSeed :: "js_number \<Rightarrow> bytes result" where
  "proofIndexSeed n =
     (case n of
        Whole i \<Rightarrow> if i < 0 \<or> i > 0xffffffff then throw PdaError ''index out of u32 range''
                   else Inr (le_bytes 4 (nat i))
      | _ \<Rightarrow> throw PdaError ''index out of u32 range'')"

definition deriveProof ::
    "(bytes \<Rightarrow> bytes) \<Rightarrow> address \<Rightarrow> address \<Rightarrow> js_number \<Rightarrow> (address \<times> nat) result" where
  "deriveProof sha programId agreement proofIndex =
     bindR (addressBytes agreement) (\<lambda>a. bindR (proofIndexSeed proofIndex) (\<lambda>i.
       findProgramAddress sha [PROOF_SEED, a, i] programId))"

definition coreProofId :: "(bytes \<Rightarrow> bytes) \<Rightarrow> address \<Rightarrow> js_number \<Rightarrow> bytes result" where
  "coreProofId sha agreement proofIndex =
     bindR (addressBytes agreement) (\<lambda>a. bindR (proofIndexSeed proofIndex) (\<lambda>i.
       Inr (take 16 (sha (CORE_PROOF_ID_DOMAIN @ a @ i)))))"

definition deriveCoreProof ::
    "(bytes \<Rightarrow> bytes) \<Rightarrow> address \<Rightarrow> address \<Rightarrow> address \<Rightarrow> js_number \<Rightarrow> (address \<times> nat) result" where
  "deriveCoreProof sha coreProgramId submitter agreement proofIndex =
     bindR (addressBytes submitter) (\<lambda>s. bindR (coreProofId sha agreement proofIndex) (\<lambda>i.
       findProgramAddress sha [CORE_PROOF_SEED, s, i] coreProgramId))"

definition deriveMilestone ::
    "(bytes \<Rightarrow> bytes) \<Rightarrow> address \<Rightarrow> address \<Rightarrow> js_number \<Rightarrow> (address \<times> nat) result" where
  "deriveMilestone sha programId agreement milestoneIndex =
     bindR (addressBytes agreement) (\<lambda>a. bindR (proofIndexSeed milestoneIndex) (\<lambda>i.
       findProgramAddress sha [MILESTONE_SEED, a, i] programId))"

record agreement_addresses =
  aa_agreement :: address
  aa_agreementBump :: nat
  aa_vaultAuthority :: address
  aa_vaultAuthorityBump :: nat
  aa_vault :: address
  aa_vaultBump :: nat

definition deriveAgreementAddresses ::
    "(bytes \<Rightarrow> bytes) \<Rightarrow> address \<Rightarrow> address \<Rightarrow> int \<Rightarrow> agreement_addresses result" where
  "deriveAgreementAddresses sha programId creator agreementId =
     bindR (deriveAgreement sha programId creator agreementId) (\<lambda>(agreement, agreementBump).
     bindR (deriveVaultAuthority sha programId agreement) (\<lambda>(vaultAuthority, vaultAuthorityBump).
     bindR (deriveVault sha programId agreement) (\<lambda>(vault, vaultBump).
     Inr \<lparr>aa_agreement = agreement, aa_agreementBump = agreementBump,
          aa_vaultAuthority = vaultAuthority, aa_vaultAuthorityBump = vaultAuthorityBump,
          aa_vault = vault, aa_vaultBump = vaultBump\<rparr>)))"

section \<open>Addresses as bytes\<close>

lemma addressBytes_Inr:
  "addressBytes a = Inr bs \<longleftrightarrow> length bs = 32 \<and> a = encodeBase58 bs"
proof
  assume "addressBytes a = Inr bs"
  then have "decodeBase58 a = Inr bs" "length bs = 32"
    by (auto simp: addressBytes_def bindR_eq_Inr split: if_splits)
  then show "length bs = 32 \<and> a = encodeBase58 bs"
    using encode_decode_base58 [of a bs] by simp
qed (simp add: addressBytes_def decode_encode_base58)

lemma addressBytes_length: "addressBytes a = Inr bs \<Longrightarrow> length bs = 32"
  by (simp add: addressBytes_Inr)

lemma addressBytes_inject: "addressBytes a = Inr bs \<Longrightarrow> addressBytes b = Inr bs \<Longrightarrow> a = b"
  by (simp add: addressBytes_Inr)

section \<open>The search\<close>

text \<open>The bytes hashed for one bump.\<close>

definition pda_preimage :: "bytes list \<Rightarrow> bytes \<Rightarrow> nat \<Rightarrow> bytes" where
  "pda_preimage seeds pid bump = concat seeds @ [word_of_nat bump] @ pid @ PDA_MARKER"

definition seeds_ok :: "bytes list \<Rightarrow> bool" where
  "seeds_ok seeds \<longleftrightarrow> length seeds < MAX_SEEDS \<and> (\<forall>seed \<in> set seeds. length seed \<le> MAX_SEED_LENGTH)"

lemma createProgramAddress_bump:
  "seeds_ok seeds \<Longrightarrow> addressBytes p = Inr pid \<Longrightarrow>
     createProgramAddress sha (seeds @ [[word_of_nat bump]]) p =
       (let bs = sha (pda_preimage seeds pid bump)
        in if isOnCurve bs then throw PdaError ''derived address is on the ed25519 curve''
           else Inr (encodeBase58 bs))"
  by (auto simp: createProgramAddress_def seeds_ok_def pda_preimage_def MAX_SEED_LENGTH_def MAX_SEEDS_def
      Let_def)

lemma on_curve_error_derived:
  "on_curve_error (Thrown PdaError ''derived address is on the ed25519 curve'')"
proof -
  have "''derived address is on the ed25519 curve''
      = ''derived address is '' @ ''on the ed25519 curve'' @ []" by simp
  then show ?thesis
    unfolding on_curve_error_def str_includes_def js_error.sel sublist_def by blast
qed

lemma createProgramAddress_not_ok:
  assumes "\<not> seeds_ok seeds \<or> (\<exists>e. addressBytes p = Inl e)"
  shows "\<exists>e. createProgramAddress sha (seeds @ [[word_of_nat bump]]) p = Inl e
    \<and> (\<not> on_curve_error e \<or> (\<exists>e'. addressBytes p = Inl e' \<and> e = e'))"
proof (cases "seeds_ok seeds")
  case True
  with assms obtain e where "addressBytes p = Inl e" by blast
  with True show ?thesis
    by (auto simp: createProgramAddress_def seeds_ok_def MAX_SEED_LENGTH_def MAX_SEEDS_def)
next
  case False
  have "\<not> on_curve_error (Thrown PdaError ''too many seeds'')"
    "\<not> on_curve_error (Thrown PdaError ''seed longer than 32 bytes'')"
    by (simp_all add: on_curve_error_def str_includes_def sublist_code)
  with False show ?thesis
    by (auto simp: createProgramAddress_def seeds_ok_def MAX_SEED_LENGTH_def MAX_SEEDS_def not_less)
qed

lemma bump_loop_ok:
  assumes "seeds_ok seeds" "addressBytes p = Inr pid"
  shows "bump_loop sha seeds p n = Inr (a, b) \<longleftrightarrow>
    b < n \<and> a = encodeBase58 (sha (pda_preimage seeds pid b))
    \<and> \<not> isOnCurve (sha (pda_preimage seeds pid b))
    \<and> (\<forall>b'. b < b' \<and> b' < n \<longrightarrow> isOnCurve (sha (pda_preimage seeds pid b')))"
proof (induction n)
  case 0
  show ?case by simp
next
  case (Suc n)
  show ?case
  proof (cases "isOnCurve (sha (pda_preimage seeds pid n))")
    case True
    then have "bump_loop sha seeds p (Suc n) = bump_loop sha seeds p n"
      using createProgramAddress_bump [OF assms, of sha n]
      by (simp add: Let_def on_curve_error_derived)
    with True Suc.IH show ?thesis by (auto simp: less_Suc_eq)
  next
    case False
    then have "bump_loop sha seeds p (Suc n) = Inr (encodeBase58 (sha (pda_preimage seeds pid n)), n)"
      using createProgramAddress_bump [OF assms, of sha n] by (simp add: Let_def)
    with False show ?thesis by (auto simp: less_Suc_eq)
  qed
qed

lemma bump_loop_not_ok:
  assumes "\<not> seeds_ok seeds \<or> (\<exists>e. addressBytes p = Inl e)"
  shows "bump_loop sha seeds p n \<noteq> Inr r"
proof (induction n)
  case (Suc n)
  obtain e where "createProgramAddress sha (seeds @ [[word_of_nat n]]) p = Inl e"
    using createProgramAddress_not_ok [OF assms] by blast
  with Suc show ?case by simp
qed simp

lemma findProgramAddress_Inr:
  "findProgramAddress sha seeds p = Inr (a, b) \<longleftrightarrow>
     seeds_ok seeds \<and> (\<exists>pid. addressBytes p = Inr pid
       \<and> b < 256 \<and> a = encodeBase58 (sha (pda_preimage seeds pid b))
       \<and> \<not> isOnCurve (sha (pda_preimage seeds pid b))
       \<and> (\<forall>b'. b < b' \<and> b' < 256 \<longrightarrow> isOnCurve (sha (pda_preimage seeds pid b'))))"
proof (cases "seeds_ok seeds \<and> (\<exists>pid. addressBytes p = Inr pid)")
  case True
  then obtain pid where "seeds_ok seeds" "addressBytes p = Inr pid" by blast
  then show ?thesis by (simp add: findProgramAddress_def bump_loop_ok)
next
  case False
  then have "\<not> seeds_ok seeds \<or> (\<exists>e. addressBytes p = Inl e)" by (cases "addressBytes p") auto
  from bump_loop_not_ok [OF this] False show ?thesis
    unfolding findProgramAddress_def by blast
qed

section \<open>The address families of the escrow program\<close>

datatype pda =
    Agreement_Pda address int
  | Authority_Pda address
  | Vault_Pda address
  | Proof_Pda address js_number
  | Milestone_Pda address js_number

fun derive_pda :: "(bytes \<Rightarrow> bytes) \<Rightarrow> address \<Rightarrow> pda \<Rightarrow> (address \<times> nat) result" where
  "derive_pda sha p (Agreement_Pda c i) = deriveAgreement sha p c i"
| "derive_pda sha p (Authority_Pda a) = deriveVaultAuthority sha p a"
| "derive_pda sha p (Vault_Pda a) = deriveVault sha p a"
| "derive_pda sha p (Proof_Pda a n) = deriveProof sha p a n"
| "derive_pda sha p (Milestone_Pda a n) = deriveMilestone sha p a n"

fun pda_seeds :: "pda \<Rightarrow> bytes list result" where
  "pda_seeds (Agreement_Pda c i) =
     bindR (addressBytes c) (\<lambda>c. bindR (agreementIdSeed i) (\<lambda>i. Inr [AGREEMENT_SEED, c, i]))"
| "pda_seeds (Authority_Pda a) = bindR (addressBytes a) (\<lambda>a. Inr [VAULT_AUTHORITY_SEED, a])"
| "pda_seeds (Vault_Pda a) = bindR (addressBytes a) (\<lambda>a. Inr [VAULT_TOKEN_SEED, a])"
| "pda_seeds (Proof_Pda a n) =
     bindR (addressBytes a) (\<lambda>a. bindR (proofIndexSeed n) (\<lambda>n. Inr [PROOF_SEED, a, n]))"
| "pda_seeds (Milestone_Pda a n) =
     bindR (addressBytes a) (\<lambda>a. bindR (proofIndexSeed n) (\<lambda>n. Inr [MILESTONE_SEED, a, n]))"

lemma derive_pda_seeds:
  "derive_pda sha p k = bindR (pda_seeds k) (\<lambda>seeds. findProgramAddress sha seeds p)"
proof (cases k)
  case (Agreement_Pda c i)
  then show ?thesis
    by (cases "addressBytes c"; cases "agreementIdSeed i") (simp_all add: deriveAgreement_def)
next
  case (Authority_Pda a)
  then show ?thesis by (cases "addressBytes a") (simp_all add: deriveVaultAuthority_def)
next
  case (Vault_Pda a)
  then show ?thesis by (cases "addressBytes a") (simp_all add: deriveVault_def)
next
  case (Proof_Pda a n)
  then show ?thesis
    by (cases "addressBytes a"; cases "proofIndexSeed n") (simp_all add: deriveProof_def)
next
  case (Milestone_Pda a n)
  then show ?thesis
    by (cases "addressBytes a"; cases "proofIndexSeed n") (simp_all add: deriveMilestone_def)
qed

lemma agreementIdSeed_Inr:
  "agreementIdSeed v = Inr bs \<longleftrightarrow> 0 \<le> v \<and> v < 2 ^ 64 \<and> bs = le_bytes 8 (nat v)"
  by (auto simp: agreementIdSeed_def)

lemma proofIndexSeed_Inr:
  "proofIndexSeed n = Inr bs \<longleftrightarrow> (\<exists>i. n = Whole i \<and> 0 \<le> i \<and> i < 2 ^ 32 \<and> bs = le_bytes 4 (nat i))"
  by (auto simp: proofIndexSeed_def split: js_number.splits)

lemma le_bytes_nat_inject:
  "0 \<le> i \<Longrightarrow> i < 256 ^ n \<Longrightarrow> 0 \<le> j \<Longrightarrow> j < 256 ^ n \<Longrightarrow>
     le_bytes n (nat i) = le_bytes n (nat j) \<longleftrightarrow> i = j"
  by (subst le_bytes_inject) (auto simp: nat_less_iff)

lemma seed_lengths [simp]:
  "length AGREEMENT_SEED = 9" "length VAULT_AUTHORITY_SEED = 5" "length VAULT_TOKEN_SEED = 11"
  "length PROOF_SEED = 5" "length MILESTONE_SEED = 9" "length CORE_PROOF_SEED = 5"
  by (simp_all add: AGREEMENT_SEED_def VAULT_AUTHORITY_SEED_def VAULT_TOKEN_SEED_def PROOF_SEED_def
      MILESTONE_SEED_def CORE_PROOF_SEED_def)

text \<open>The families have pre-images of different lengths.\<close>

fun family_length :: "pda \<Rightarrow> nat" where
  "family_length (Agreement_Pda _ _) = 49"
| "family_length (Authority_Pda _) = 37"
| "family_length (Vault_Pda _) = 43"
| "family_length (Proof_Pda _ _) = 41"
| "family_length (Milestone_Pda _ _) = 45"

lemma pda_seeds_length: "pda_seeds k = Inr s \<Longrightarrow> length (concat s) = family_length k"
  by (cases k) (auto simp: bindR_eq_Inr agreementIdSeed_Inr proofIndexSeed_Inr dest!: addressBytes_length)

lemma pda_seeds_ok: "pda_seeds k = Inr s \<Longrightarrow> seeds_ok s"
  by (cases k) (auto simp: bindR_eq_Inr agreementIdSeed_Inr proofIndexSeed_Inr seeds_ok_def MAX_SEEDS_def
      MAX_SEED_LENGTH_def dest!: addressBytes_length)

lemma pda_seeds_inject:
  assumes "pda_seeds k = Inr s" "pda_seeds k' = Inr s'" "concat s = concat s'"
  shows "k = k'"
proof -
  have "family_length k = family_length k'"
    using assms pda_seeds_length by metis
  with assms show ?thesis
    by (cases k; cases k')
       (auto simp: bindR_eq_Inr agreementIdSeed_Inr proofIndexSeed_Inr le_bytes_nat_inject
          dest: addressBytes_length addressBytes_inject)
qed

lemma encodeBase58_eq: "encodeBase58 a = encodeBase58 b \<longleftrightarrow> a = b"
  by simp

lemma unat_word_nat_byte: "b < 256 \<Longrightarrow> b' < 256 \<Longrightarrow> (word_of_nat b :: byte) = word_of_nat b' \<longleftrightarrow> b = b'"
  by (metis unat_word_of_nat_byte)

text \<open>The bytes hashed for an account of the program, at one bump.\<close>

definition pda_message :: "address \<Rightarrow> pda \<Rightarrow> nat \<Rightarrow> bytes" where
  "pda_message p k b =
     (case (addressBytes p, pda_seeds k) of
        (Inr pid, Inr seeds) \<Rightarrow> pda_preimage seeds pid b
      | _ \<Rightarrow> [])"

section \<open>Properties\<close>

text \<open>
  The address search returns exactly the highest bump whose hash is off the curve, with
  that hash in base58; it succeeds only for a 32-byte program id and at most fifteen seeds of
  at most 32 bytes each, and never returns an address that has a private key.
\<close>

theorem findProgramAddress_canonical:
  "findProgramAddress sha seeds p = Inr (a, b) \<longleftrightarrow>
     length seeds \<le> 15 \<and> list_all (\<lambda>seed. length seed \<le> 32) seeds
     \<and> (\<exists>pid. addressBytes p = Inr pid \<and> b \<le> 255
         \<and> (let digest = (\<lambda>bump. sha (concat seeds @ [word_of_nat bump] @ pid @ PDA_MARKER))
            in a = encodeBase58 (digest b) \<and> \<not> isOnCurve (digest b)
               \<and> list_all (\<lambda>b'. isOnCurve (digest b')) [Suc b ..< 256]))"
proof -
  have "seeds_ok seeds \<longleftrightarrow> length seeds \<le> 15 \<and> list_all (\<lambda>seed. length seed \<le> 32) seeds"
    by (auto simp: seeds_ok_def MAX_SEEDS_def MAX_SEED_LENGTH_def list_all_iff)
  moreover have "(\<forall>b'. b < b' \<and> b' < 256 \<longrightarrow> isOnCurve (f b')) \<longleftrightarrow>
      list_all (\<lambda>b'. isOnCurve (f b')) [Suc b ..< 256]" for f
    by (auto simp: list_all_iff)
  moreover have "b < 256 \<longleftrightarrow> b \<le> 255" by linarith
  ultimately show ?thesis
    unfolding findProgramAddress_Inr pda_preimage_def Let_def by simp
qed

text \<open>
  C8: No two of a program's agreements, vault authorities, vaults, proofs and milestones
  share an address, unless SHA-256 collides on the two different messages they hash: the
  agreement and the index are in the pre-image, and the kinds never overlap.
\<close>

theorem pda_families_separate:
  assumes "derive_pda sha p k = Inr (a, b)" and "derive_pda sha p k' = Inr (a, b')" and "k \<noteq> k'"
  shows "pda_message p k b \<noteq> pda_message p k' b' \<and> sha (pda_message p k b) = sha (pda_message p k' b')"
proof -
  obtain s pid where s: "pda_seeds k = Inr s" "addressBytes p = Inr pid"
      "a = encodeBase58 (sha (pda_preimage s pid b))"
    using assms(1) by (auto simp: derive_pda_seeds bindR_eq_Inr findProgramAddress_Inr)
  obtain s' where s': "pda_seeds k' = Inr s'" "a = encodeBase58 (sha (pda_preimage s' pid b'))"
    using assms(2) s(2) by (auto simp: derive_pda_seeds bindR_eq_Inr findProgramAddress_Inr)
  have "concat s \<noteq> concat s'" using pda_seeds_inject [OF s(1) s'(1)] assms(3) by blast
  then have "pda_preimage s pid b \<noteq> pda_preimage s' pid b'"
    by (auto simp: pda_preimage_def append_eq_append_conv)
  with s s' show ?thesis by (simp add: pda_message_def)
qed

lemma addressBytes_system: "addressBytes (replicate 32 CHR ''1'') = Inr (replicate 32 0)"
  unfolding addressBytes_Inr encodeBase58_zeros by simp

lemma find_off_curve:
  assumes "seeds_ok seeds" and "addressBytes p = Inr pid"
  shows "findProgramAddress (\<lambda>_. y_one 128) seeds p = Inr (encodeBase58 (y_one 128), 255)"
  unfolding findProgramAddress_Inr using assms y_one_off_curve by auto

theorem pda_families_separate_witness:
  "\<exists>p k k' a. derive_pda (\<lambda>_. y_one 128) p k = Inr (a, 255)
     \<and> derive_pda (\<lambda>_. y_one 128) p k' = Inr (a, 255)
     \<and> pda_message p k 255 \<noteq> pda_message p k' 255"
proof -
  let ?p = "replicate 32 CHR ''1''"
  have d: "derive_pda (\<lambda>_. y_one 128) ?p (Authority_Pda ?p) = Inr (encodeBase58 (y_one 128), 255)"
    "derive_pda (\<lambda>_. y_one 128) ?p (Vault_Pda ?p) = Inr (encodeBase58 (y_one 128), 255)"
    unfolding derive_pda_seeds pda_seeds.simps addressBytes_system bindR_Inr
    by (rule find_off_curve [OF _ addressBytes_system];
        simp add: seeds_ok_def MAX_SEEDS_def MAX_SEED_LENGTH_def)+
  have "pda_message ?p (Authority_Pda ?p) 255 \<noteq> pda_message ?p (Vault_Pda ?p) 255"
    using pda_families_separate [OF d] by simp
  with d show ?thesis by blast
qed

end
