(* ===== verification/Instructions.thy ===== *)
theory Instructions
  imports Hashing Pdas
begin

text \<open>
  The instruction builders of the client (\<open>sdk/src/instructions.ts\<close>): what each refuses,
  which accounts it names with which privileges, and the bytes it puts in the instruction
  data. An input object is the list of its fields as arguments; an optional field is an
  \<open>option\<close>. The lemmas say that every built instruction ends with the program's event
  authority and the program, and give the exact acceptance conditions of the builders that
  move or lock money.
\<close>

definition SYSTEM_PROGRAM_ID :: address where
  "SYSTEM_PROGRAM_ID = ''11111111111111111111111111111111''"

definition CLASSIC_TOKEN_PROGRAM_ID :: address where
  "CLASSIC_TOKEN_PROGRAM_ID = ''TokenkegQfeZyiNwAJbNbGKPFXCWuBvf9Ss623VQ5DA''"

definition EVENT_AUTHORITY_SEED :: bytes where "EVENT_AUTHORITY_SEED = utf8 ''__event_authority''"
definition IX_CORE_PROOF_SEED :: bytes where "IX_CORE_PROOF_SEED = utf8 ''proof''"
definition COMMERCE_AGREEMENT_SEED :: bytes where "COMMERCE_AGREEMENT_SEED = utf8 ''agreement''"

record account_spec =
  ac_address :: address
  ac_isSigner :: bool
  ac_isWritable :: bool

record instruction_spec =
  ix_programId :: address
  ix_accounts :: "account_spec list"
  ix_data :: bytes

definition IX_CORE_PROOF_KINDS :: "string list" where
  "IX_CORE_PROOF_KINDS =
     [''creation'', ''document'', ''agreement'', ''invoice'', ''deliverable'', ''other'']"

definition ESCROW_AGREEMENT_TYPES :: "(string \<times> nat) list" where
  "ESCROW_AGREEMENT_TYPES =
     [(''Escrow'', 0), (''Invoice'', 1), (''Contract'', 2), (''MilestoneContract'', 3),
      (''Bounty'', 4), (''ProofOnly'', 5)]"

section \<open>Encoding the arguments\<close>

definition ix_addressBytes :: "address \<Rightarrow> bytes result" where
  "ix_addressBytes a = bindR (decodeBase58 a) (\<lambda>bs.
     if length bs \<noteq> 32 then throw RangeError (''not a 32-byte address: '' @ a) else Inr bs)"

datatype big_input = Big int | Text string

text \<open>The regular expression \<open>/^-?(0|[1-9][0-9]*)$/\<close>, and \<open>BigInt\<close> of a text it matches.\<close>

definition canonical_digits :: "string \<Rightarrow> bool" where
  "canonical_digits s \<longleftrightarrow>
     s = ''0'' \<or> (s \<noteq> [] \<and> hd s \<noteq> CHR ''0'' \<and> list_all is_digit s)"

definition exact_text :: "string \<Rightarrow> bool" where
  "exact_text s \<longleftrightarrow>
     canonical_digits s \<or> (s \<noteq> [] \<and> hd s = CHR ''-'' \<and> canonical_digits (tl s))"

definition big_of_text :: "string \<Rightarrow> int" where
  "big_of_text s =
     (if s \<noteq> [] \<and> hd s = CHR ''-'' then - int (nat_of_dec (tl s)) else int (nat_of_dec s))"

fun exactInteger :: "big_input \<Rightarrow> string \<Rightarrow> int result" where
  "exactInteger (Big v) label = Inr v"
| "exactInteger (Text s) label =
     (if \<not> exact_text s then throw RangeError (label @ '' must be an exact base-10 integer'')
      else Inr (big_of_text s))"

definition MAX_U64 :: int where "MAX_U64 = 18446744073709551615"
definition MIN_I64 :: int where "MIN_I64 = -9223372036854775808"
definition MAX_I64 :: int where "MAX_I64 = 9223372036854775807"

definition ix_u64 :: "big_input \<Rightarrow> string \<Rightarrow> bytes result" where
  "ix_u64 v label = bindR (exactInteger v label) (\<lambda>parsed.
     if parsed < 0 \<or> parsed > MAX_U64 then throw RangeError (label @ '' is out of u64 range'')
     else Inr (le_bytes 8 (nat parsed)))"

definition positiveU64 :: "big_input \<Rightarrow> string \<Rightarrow> bytes result" where
  "positiveU64 v label = bindR (ix_u64 v label) (\<lambda>encoded.
     bindR (exactInteger v label) (\<lambda>parsed.
     if parsed = 0 then throw RangeError (label @ '' must be greater than zero'') else Inr encoded))"

definition ix_i64 :: "big_input \<Rightarrow> string \<Rightarrow> bytes result" where
  "ix_i64 v label = bindR (exactInteger v label) (\<lambda>parsed.
     if parsed < MIN_I64 \<or> parsed > MAX_I64 then throw RangeError (label @ '' is out of i64 range'')
     else Inr (le_bytes 8 (nat (parsed mod 2 ^ 64))))"

definition ix_u32 :: "js_number \<Rightarrow> string \<Rightarrow> bytes result" where
  "ix_u32 v label =
     (case v of
        Whole i \<Rightarrow> if i < 0 \<or> i > 0xffffffff then throw RangeError (label @ '' is out of u32 range'')
                   else Inr (le_bytes 4 (nat i))
      | _ \<Rightarrow> throw RangeError (label @ '' is out of u32 range''))"

definition fixed :: "bytes \<Rightarrow> nat \<Rightarrow> string \<Rightarrow> bool \<Rightarrow> bytes result" where
  "fixed v n label nonZero =
     (if length v \<noteq> n
      then throw RangeError (label @ '' must be exactly '' @ dec_nat n @ '' bytes'')
      else if nonZero \<and> list_all (\<lambda>b. b = 0) v
      then throw RangeError (label @ '' must not be all zeroes'')
      else Inr v)"

section \<open>Accounts and assembly\<close>

definition ro :: "address \<Rightarrow> account_spec" where
  "ro a = \<lparr>ac_address = a, ac_isSigner = False, ac_isWritable = False\<rparr>"

definition rw :: "address \<Rightarrow> account_spec" where
  "rw a = \<lparr>ac_address = a, ac_isSigner = False, ac_isWritable = True\<rparr>"

definition signer :: "address \<Rightarrow> bool \<Rightarrow> account_spec" where
  "signer a w = \<lparr>ac_address = a, ac_isSigner = True, ac_isWritable = w\<rparr>"

definition deriveEventAuthority :: "(bytes \<Rightarrow> bytes) \<Rightarrow> address \<Rightarrow> address result" where
  "deriveEventAuthority sha p =
     bindR (findProgramAddress sha [EVENT_AUTHORITY_SEED] p) (\<lambda>r. Inr (fst r))"

definition eventAccounts :: "(bytes \<Rightarrow> bytes) \<Rightarrow> address \<Rightarrow> account_spec list result" where
  "eventAccounts sha p = bindR (deriveEventAuthority sha p) (\<lambda>ea. Inr [ro ea, ro p])"

definition build_instruction ::
    "(bytes \<Rightarrow> bytes) \<Rightarrow> address \<Rightarrow> string \<Rightarrow> account_spec list \<Rightarrow> bytes list
       \<Rightarrow> instruction_spec result" where
  "build_instruction sha p name accounts args =
     bindR (eventAccounts sha p) (\<lambda>ev.
       Inr \<lparr>ix_programId = p, ix_accounts = accounts @ ev,
            ix_data = concat (anchorDiscriminator sha ''global'' name # args)\<rparr>)"

definition deriveCoreProofRecord :: "(bytes \<Rightarrow> bytes) \<Rightarrow> address \<Rightarrow> address \<Rightarrow> bytes \<Rightarrow> address result" where
  "deriveCoreProofRecord sha p authority proofId =
     bindR (ix_addressBytes authority) (\<lambda>a. bindR (fixed proofId 16 ''proofId'' False) (\<lambda>i.
       bindR (findProgramAddress sha [IX_CORE_PROOF_SEED, a, i] p) (\<lambda>r. Inr (fst r))))"

definition deriveCommerceAgreement :: "(bytes \<Rightarrow> bytes) \<Rightarrow> address \<Rightarrow> address \<Rightarrow> bytes \<Rightarrow> address result" where
  "deriveCommerceAgreement sha p partyA agreementId =
     bindR (ix_addressBytes partyA) (\<lambda>a. bindR (fixed agreementId 16 ''agreementId'' False) (\<lambda>i.
       bindR (findProgramAddress sha [COMMERCE_AGREEMENT_SEED, a, i] p) (\<lambda>r. Inr (fst r))))"

section \<open>Core and Commerce\<close>

definition buildCreateProofInstruction ::
    "(bytes \<Rightarrow> bytes) \<Rightarrow> address \<Rightarrow> address \<Rightarrow> bytes \<Rightarrow> bytes \<Rightarrow> bytes \<Rightarrow> string
       \<Rightarrow> instruction_spec result" where
  "buildCreateProofInstruction sha programId authority proofId contentHash contextHash kind =
     (case index_of kind IX_CORE_PROOF_KINDS of
        None \<Rightarrow> throw RangeError (''unknown proof kind: '' @ kind)
      | Some k \<Rightarrow>
          bindR (fixed proofId 16 ''proofId'' False) (\<lambda>proofId.
          bindR (deriveCoreProofRecord sha programId authority proofId) (\<lambda>proof.
          bindR (fixed contentHash 32 ''contentHash'' True) (\<lambda>contentHash.
          bindR (fixed contextHash 32 ''contextHash'' False) (\<lambda>contextHash.
          build_instruction sha programId ''create_proof''
            [signer authority True, rw proof, ro SYSTEM_PROGRAM_ID]
            [proofId, contentHash, contextHash, [word_of_nat k]])))))"

definition buildRevokeProofInstruction ::
    "(bytes \<Rightarrow> bytes) \<Rightarrow> address \<Rightarrow> address \<Rightarrow> address \<Rightarrow> instruction_spec result" where
  "buildRevokeProofInstruction sha programId authority proof =
     build_instruction sha programId ''revoke_proof'' [signer authority False, rw proof] []"

definition buildCreateCommerceAgreementInstruction ::
    "(bytes \<Rightarrow> bytes) \<Rightarrow> address \<Rightarrow> address \<Rightarrow> address \<Rightarrow> bytes \<Rightarrow> bytes \<Rightarrow> bytes \<Rightarrow> big_input
       \<Rightarrow> instruction_spec result" where
  "buildCreateCommerceAgreementInstruction sha programId partyA partyB agreementId contentHash
       termsHash expiresAt =
     (if partyA = partyB \<or> partyB = SYSTEM_PROGRAM_ID
      then throw RangeError ''partyB must be a distinct non-default wallet''
      else
        bindR (ix_addressBytes partyB) (\<lambda>b.
        bindR (fixed b 32 ''partyB'' False) (\<lambda>_.
        bindR (fixed agreementId 16 ''agreementId'' False) (\<lambda>agreementId.
        bindR (deriveCommerceAgreement sha programId partyA agreementId) (\<lambda>agreement.
        bindR (ix_addressBytes partyB) (\<lambda>partyB.
        bindR (fixed contentHash 32 ''contentHash'' True) (\<lambda>contentHash.
        bindR (fixed termsHash 32 ''termsHash'' True) (\<lambda>termsHash.
        bindR (ix_i64 expiresAt ''expiresAt'') (\<lambda>expiresAt.
        build_instruction sha programId ''create_agreement''
          [signer partyA True, rw agreement, ro SYSTEM_PROGRAM_ID]
          [agreementId, partyB, contentHash, termsHash, expiresAt])))))))))"

definition buildReviseCommerceAgreementInstruction ::
    "(bytes \<Rightarrow> bytes) \<Rightarrow> address \<Rightarrow> address \<Rightarrow> address \<Rightarrow> js_number \<Rightarrow> bytes \<Rightarrow> bytes
       \<Rightarrow> instruction_spec result" where
  "buildReviseCommerceAgreementInstruction sha programId party agreement expectedVersion contentHash termsHash =
     bindR (ix_u32 expectedVersion ''expectedVersion'') (\<lambda>expectedVersion.
     bindR (fixed contentHash 32 ''contentHash'' True) (\<lambda>contentHash.
     bindR (fixed termsHash 32 ''termsHash'' True) (\<lambda>termsHash.
     build_instruction sha programId ''propose_revision'' [signer party False, rw agreement]
       [expectedVersion, contentHash, termsHash])))"

definition buildSignCommerceAgreementInstruction ::
    "(bytes \<Rightarrow> bytes) \<Rightarrow> address \<Rightarrow> address \<Rightarrow> address \<Rightarrow> js_number \<Rightarrow> bytes \<Rightarrow> bytes
       \<Rightarrow> instruction_spec result" where
  "buildSignCommerceAgreementInstruction sha programId party agreement expectedVersion contentHash termsHash =
     bindR (ix_u32 expectedVersion ''expectedVersion'') (\<lambda>expectedVersion.
     bindR (fixed contentHash 32 ''contentHash'' True) (\<lambda>contentHash.
     bindR (fixed termsHash 32 ''termsHash'' True) (\<lambda>termsHash.
     build_instruction sha programId ''sign_agreement'' [signer party False, rw agreement]
       [expectedVersion, contentHash, termsHash])))"

definition buildCancelCommerceAgreementInstruction ::
    "(bytes \<Rightarrow> bytes) \<Rightarrow> address \<Rightarrow> address \<Rightarrow> address \<Rightarrow> instruction_spec result" where
  "buildCancelCommerceAgreementInstruction sha programId party agreement =
     build_instruction sha programId ''cancel_agreement'' [signer party False, rw agreement] []"

section \<open>Escrow\<close>

definition escrowInstruction ::
    "(bytes \<Rightarrow> bytes) \<Rightarrow> address \<Rightarrow> string \<Rightarrow> account_spec list \<Rightarrow> bytes list
       \<Rightarrow> instruction_spec result" where
  "escrowInstruction sha p name accounts args = build_instruction sha p name accounts args"

text \<open>\<open>tokenProgram ?? CLASSIC_TOKEN_PROGRAM_ID\<close>.\<close>

definition token_program :: "address option \<Rightarrow> address" where
  "token_program t = (case t of None \<Rightarrow> CLASSIC_TOKEN_PROGRAM_ID | Some p \<Rightarrow> p)"

definition citationAccounts ::
    "address \<Rightarrow> address option \<Rightarrow> address option \<Rightarrow> account_spec list result" where
  "citationAccounts programId settlementProof coreProof =
     (if (settlementProof = None) \<noteq> (coreProof = None)
      then throw RangeError ''settlementProof and coreProof must be supplied together''
      else if settlementProof \<noteq> None \<and> settlementProof = coreProof
      then throw RangeError ''settlementProof and coreProof are distinct accounts''
      else Inr [ro (case settlementProof of None \<Rightarrow> programId | Some s \<Rightarrow> s),
                ro (case coreProof of None \<Rightarrow> programId | Some c \<Rightarrow> c)])"

definition buildInitializeEscrowInstruction ::
    "(bytes \<Rightarrow> bytes) \<Rightarrow> address \<Rightarrow> address \<Rightarrow> address \<Rightarrow> big_input \<Rightarrow> address \<Rightarrow> string option
       \<Rightarrow> big_input \<Rightarrow> bytes \<Rightarrow> address option \<Rightarrow> instruction_spec result" where
  "buildInitializeEscrowInstruction sha programId creator mint agreementId counterparty
       agreementTypeInput amountBaseUnits termsHash tokenProgram =
     (let agreementType = (case agreementTypeInput of None \<Rightarrow> ''Escrow'' | Some t \<Rightarrow> t)
      in case map_of ESCROW_AGREEMENT_TYPES agreementType of
           None \<Rightarrow> throw RangeError (''unknown agreement type: '' @ agreementType)
         | Some agreementTypeIndex \<Rightarrow>
             if \<not> List.member [''Escrow'', ''MilestoneContract'', ''Bounty''] agreementType
             then throw RangeError
               (agreementType @ '' is reserved and not currently supported by ppv_escrow'')
             else if counterparty = creator
               \<or> (agreementType \<noteq> ''Bounty'' \<and> counterparty = SYSTEM_PROGRAM_ID)
             then throw RangeError ''counterparty is not valid for this agreement type''
             else
               bindR (exactInteger agreementId ''agreementId'') (\<lambda>i.
               bindR (deriveAgreement sha programId creator i) (\<lambda>(agreement, _).
               bindR (deriveVaultAuthority sha programId agreement) (\<lambda>(vaultAuthority, _).
               bindR (deriveVault sha programId agreement) (\<lambda>(vault, _).
               bindR (ix_u64 agreementId ''agreementId'') (\<lambda>idBytes.
               bindR (ix_addressBytes counterparty) (\<lambda>counterpartyBytes.
               bindR (positiveU64 amountBaseUnits ''amountBaseUnits'') (\<lambda>amountBytes.
               bindR (fixed termsHash 32 ''termsHash'' True) (\<lambda>terms.
               escrowInstruction sha programId ''initialize_agreement''
                 [signer creator True, ro mint, rw agreement, ro vaultAuthority, rw vault,
                  ro (token_program tokenProgram), ro SYSTEM_PROGRAM_ID]
                 [idBytes, counterpartyBytes, [word_of_nat agreementTypeIndex], amountBytes,
                  terms])))))))))"

definition buildFundEscrowInstruction ::
    "(bytes \<Rightarrow> bytes) \<Rightarrow> address \<Rightarrow> address \<Rightarrow> address \<Rightarrow> address \<Rightarrow> address \<Rightarrow> address \<Rightarrow> address option
       \<Rightarrow> instruction_spec result" where
  "buildFundEscrowInstruction sha programId buyer agreement mint vault funderTokenAccount tokenProgram =
     escrowInstruction sha programId ''fund''
       [signer buyer False, rw agreement, ro mint, rw vault, rw funderTokenAccount,
        ro (token_program tokenProgram)]
       []"

definition buildMarkCompletedEscrowInstruction ::
    "(bytes \<Rightarrow> bytes) \<Rightarrow> address \<Rightarrow> address \<Rightarrow> address
       \<Rightarrow> instruction_spec result" where
  "buildMarkCompletedEscrowInstruction sha programId seller agreement =
     escrowInstruction sha programId ''mark_completed''
       [signer seller False, rw agreement]
       []"

definition buildSettleEscrowInstruction ::
    "(bytes \<Rightarrow> bytes) \<Rightarrow> address \<Rightarrow> address \<Rightarrow> address \<Rightarrow> address \<Rightarrow> address \<Rightarrow> address \<Rightarrow> address \<Rightarrow> address option \<Rightarrow> address option \<Rightarrow> address option
       \<Rightarrow> instruction_spec result" where
  "buildSettleEscrowInstruction sha programId party agreement mint vault vaultAuthority sellerTokenAccount settlementProof coreProof tokenProgram =
     bindR (citationAccounts programId settlementProof coreProof) (\<lambda>citation.
     escrowInstruction sha programId ''settle''
       ([signer party False, rw agreement, ro mint, rw vault, ro vaultAuthority, rw sellerTokenAccount]
         @ citation @ [ro (token_program tokenProgram)])
       [])"

definition buildCancelEscrowInstruction ::
    "(bytes \<Rightarrow> bytes) \<Rightarrow> address \<Rightarrow> address \<Rightarrow> address
       \<Rightarrow> instruction_spec result" where
  "buildCancelEscrowInstruction sha programId creator agreement =
     escrowInstruction sha programId ''cancel''
       [signer creator False, rw agreement]
       []"

definition buildRefundEscrowInstruction ::
    "(bytes \<Rightarrow> bytes) \<Rightarrow> address \<Rightarrow> address \<Rightarrow> address \<Rightarrow> address \<Rightarrow> address \<Rightarrow> address \<Rightarrow> address \<Rightarrow> address option
       \<Rightarrow> instruction_spec result" where
  "buildRefundEscrowInstruction sha programId seller agreement mint vault vaultAuthority buyerTokenAccount tokenProgram =
     escrowInstruction sha programId ''refund''
       [signer seller False, rw agreement, ro mint, rw vault, ro vaultAuthority, rw buyerTokenAccount,
        ro (token_program tokenProgram)]
       []"

definition buildOpenDisputeEscrowInstruction ::
    "(bytes \<Rightarrow> bytes) \<Rightarrow> address \<Rightarrow> address \<Rightarrow> address \<Rightarrow> bytes
       \<Rightarrow> instruction_spec result" where
  "buildOpenDisputeEscrowInstruction sha programId party agreement reasonHash =
     bindR (fixed reasonHash 32 ''reasonHash'' True) (\<lambda>reason.
     escrowInstruction sha programId ''open_dispute''
       [signer party False, rw agreement]
       [reason])"

definition buildResolveDisputeEscrowInstruction ::
    "(bytes \<Rightarrow> bytes) \<Rightarrow> address \<Rightarrow> address \<Rightarrow> address \<Rightarrow> address \<Rightarrow> address \<Rightarrow> address \<Rightarrow> address \<Rightarrow> address option
       \<Rightarrow> instruction_spec result" where
  "buildResolveDisputeEscrowInstruction sha programId party agreement mint vault vaultAuthority destination tokenProgram =
     escrowInstruction sha programId ''resolve_dispute''
       [signer party False, rw agreement, ro mint, rw vault, ro vaultAuthority, rw destination,
        ro (token_program tokenProgram)]
       []"

definition buildSelectCounterpartyEscrowInstruction ::
    "(bytes \<Rightarrow> bytes) \<Rightarrow> address \<Rightarrow> address \<Rightarrow> address \<Rightarrow> address
       \<Rightarrow> instruction_spec result" where
  "buildSelectCounterpartyEscrowInstruction sha programId creator agreement counterparty =
     bindR (ix_addressBytes counterparty) (\<lambda>c.
     escrowInstruction sha programId ''select_counterparty''
       [signer creator False, rw agreement]
       [c])"

definition buildCreateMilestoneEscrowInstruction ::
    "(bytes \<Rightarrow> bytes) \<Rightarrow> address \<Rightarrow> address \<Rightarrow> address \<Rightarrow> js_number \<Rightarrow> big_input \<Rightarrow> bytes
       \<Rightarrow> instruction_spec result" where
  "buildCreateMilestoneEscrowInstruction sha programId creator agreement milestoneIndex amountBaseUnits termsHash =
     bindR (deriveMilestone sha programId agreement milestoneIndex) (\<lambda>milestone.
     bindR (positiveU64 amountBaseUnits ''amountBaseUnits'') (\<lambda>amount.
     bindR (fixed termsHash 32 ''termsHash'' True) (\<lambda>terms.
     escrowInstruction sha programId ''create_milestone''
       [signer creator True, rw agreement, rw (fst milestone), ro SYSTEM_PROGRAM_ID]
       [amount, terms])))"

datatype milestone_update = update_submit | update_approve | update_reject

fun milestone_update_text :: "milestone_update \<Rightarrow> string" where
  "milestone_update_text update_submit = ''submit_milestone''"
| "milestone_update_text update_approve = ''approve_milestone''"
| "milestone_update_text update_reject = ''reject_milestone''"

definition buildUpdateMilestoneEscrowInstruction ::
    "(bytes \<Rightarrow> bytes) \<Rightarrow> address \<Rightarrow> milestone_update \<Rightarrow> address \<Rightarrow> address \<Rightarrow> address
       \<Rightarrow> instruction_spec result" where
  "buildUpdateMilestoneEscrowInstruction sha programId update party agreement milestone =
     escrowInstruction sha programId (milestone_update_text update)
       [signer party False, ro agreement, rw milestone]
       []"

definition buildSettleMilestoneEscrowInstruction ::
    "(bytes \<Rightarrow> bytes) \<Rightarrow> address \<Rightarrow> address \<Rightarrow> address \<Rightarrow> address \<Rightarrow> address \<Rightarrow> address \<Rightarrow> address \<Rightarrow> address \<Rightarrow> address option \<Rightarrow> address option \<Rightarrow> address option
       \<Rightarrow> instruction_spec result" where
  "buildSettleMilestoneEscrowInstruction sha programId party agreement milestone mint vault vaultAuthority sellerTokenAccount settlementProof coreProof tokenProgram =
     bindR (citationAccounts programId settlementProof coreProof) (\<lambda>citation.
     escrowInstruction sha programId ''settle_milestone''
       ([signer party False, rw agreement, rw milestone, ro mint, rw vault, ro vaultAuthority,
          rw sellerTokenAccount]
         @ citation @ [ro (token_program tokenProgram)])
       [])"

definition buildSubmitProofEscrowInstruction ::
    "(bytes \<Rightarrow> bytes) \<Rightarrow> address \<Rightarrow> address \<Rightarrow> address \<Rightarrow> address \<Rightarrow> js_number \<Rightarrow> bytes \<Rightarrow> bytes
       \<Rightarrow> instruction_spec result" where
  "buildSubmitProofEscrowInstruction sha programId coreProgramId submitter agreement proofIndex contentHash metadataHash =
     bindR (deriveProof sha programId agreement proofIndex) (\<lambda>proof.
     bindR (deriveCoreProof sha coreProgramId submitter agreement proofIndex) (\<lambda>coreProof.
     bindR (deriveEventAuthority sha coreProgramId) (\<lambda>coreAuthority.
     bindR (fixed contentHash 32 ''contentHash'' True) (\<lambda>content.
     bindR (fixed metadataHash 32 ''metadataHash'' False) (\<lambda>metadata.
     escrowInstruction sha programId ''submit_proof''
       [signer submitter True, rw agreement, rw (fst proof), rw (fst coreProof), ro coreAuthority,
        ro coreProgramId, ro SYSTEM_PROGRAM_ID]
       [content, metadata])))))"

datatype proof_decision = decide_approve | decide_reject

fun proof_decision_text :: "proof_decision \<Rightarrow> string" where
  "proof_decision_text decide_approve = ''approve_proof''"
| "proof_decision_text decide_reject = ''reject_proof''"

definition buildDecideProofEscrowInstruction ::
    "(bytes \<Rightarrow> bytes) \<Rightarrow> address \<Rightarrow> proof_decision \<Rightarrow> address \<Rightarrow> address \<Rightarrow> address
       \<Rightarrow> instruction_spec result" where
  "buildDecideProofEscrowInstruction sha programId decision decider agreement proof =
     escrowInstruction sha programId (proof_decision_text decision)
       [signer decider False, ro agreement, rw proof]
       []"

definition deriveEscrowProofAddress :: "(bytes \<Rightarrow> bytes) \<Rightarrow> address \<Rightarrow> address \<Rightarrow> js_number \<Rightarrow> address result" where
  "deriveEscrowProofAddress sha programId agreement proofIndex =
     bindR (deriveProof sha programId agreement proofIndex) (\<lambda>r. Inr (fst r))"

definition deriveLinkedCoreProofAddress ::
    "(bytes \<Rightarrow> bytes) \<Rightarrow> address \<Rightarrow> address \<Rightarrow> address \<Rightarrow> js_number \<Rightarrow> address result" where
  "deriveLinkedCoreProofAddress sha coreProgramId submitter agreement proofIndex =
     bindR (deriveCoreProof sha coreProgramId submitter agreement proofIndex) (\<lambda>r. Inr (fst r))"

definition deriveLinkedCoreProofId :: "(bytes \<Rightarrow> bytes) \<Rightarrow> address \<Rightarrow> js_number \<Rightarrow> bytes result" where
  "deriveLinkedCoreProofId sha agreement proofIndex = coreProofId sha agreement proofIndex"

section \<open>Lemmas\<close>

lemma build_instruction_Inr:
  "build_instruction sha p name accs args = Inr ix \<longleftrightarrow>
     (\<exists>ea. deriveEventAuthority sha p = Inr ea
       \<and> ix = \<lparr>ix_programId = p, ix_accounts = accs @ [ro ea, ro p],
               ix_data = anchorDiscriminator sha ''global'' name @ concat args\<rparr>)"
  by (auto simp: build_instruction_def eventAccounts_def bindR_eq_Inr)

lemma ix_addressBytes_Inr: "ix_addressBytes a = Inr bs \<longleftrightarrow> length bs = 32 \<and> a = encodeBase58 bs"
proof
  assume "ix_addressBytes a = Inr bs"
  then have "decodeBase58 a = Inr bs" "length bs = 32"
    by (auto simp: ix_addressBytes_def bindR_eq_Inr split: if_splits)
  then show "length bs = 32 \<and> a = encodeBase58 bs"
    using encode_decode_base58 [of a bs] by simp
qed (simp add: ix_addressBytes_def decode_encode_base58)

lemma fixed_Inr:
  "fixed v n label nz = Inr w \<longleftrightarrow> w = v \<and> length v = n \<and> \<not> (nz \<and> list_all (\<lambda>b. b = 0) v)"
  by (auto simp: fixed_def)

lemma ix_u64_Inr:
  "ix_u64 v label = Inr bs \<longleftrightarrow>
     (\<exists>i. exactInteger v label = Inr i \<and> 0 \<le> i \<and> i < 2 ^ 64 \<and> bs = le_bytes 8 (nat i))"
  by (cases "exactInteger v label") (auto simp: ix_u64_def MAX_U64_def)

lemma positiveU64_Inr:
  "positiveU64 v label = Inr bs \<longleftrightarrow>
     (\<exists>i. exactInteger v label = Inr i \<and> 0 < i \<and> i < 2 ^ 64 \<and> bs = le_bytes 8 (nat i))"
  by (cases "exactInteger v label") (auto simp: positiveU64_def ix_u64_def MAX_U64_def)

lemma citationAccounts_Inr:
  "citationAccounts p s c = Inr accs \<longleftrightarrow>
     (s = None \<and> c = None \<and> accs = [ro p, ro p])
     \<or> (\<exists>s' c'. s = Some s' \<and> c = Some c' \<and> s' \<noteq> c' \<and> accs = [ro s', ro c'])"
  by (cases s; cases c) (auto simp: citationAccounts_def)

lemma account_flags [simp]:
  "ac_isSigner (ro a) = False" "ac_isSigner (rw a) = False" "ac_isSigner (signer a w) = True"
  "ac_isWritable (ro a) = False" "ac_isWritable (rw a) = True" "ac_isWritable (signer a w) = w"
  "ac_address (ro a) = a" "ac_address (rw a) = a" "ac_address (signer a w) = a"
  by (simp_all add: ro_def rw_def signer_def)

lemma digit_char_digit_val: "is_digit c \<Longrightarrow> digit_char (digit_val c) = c \<and> digit_val c < 10"
  by (auto simp: is_digit_def digit_char_def digit_val_def)

lemma canonical_digits_snoc:
  assumes "canonical_digits (xs @ [c])" and "xs \<noteq> []"
  shows "canonical_digits xs \<and> xs \<noteq> ''0'' \<and> is_digit c"
  using assms by (cases xs) (auto simp: canonical_digits_def)

lemma dec_nat_nat_of_dec: "canonical_digits s \<Longrightarrow> dec_nat (nat_of_dec s) = s"
proof (induction s rule: rev_induct)
  case Nil
  then show ?case by (simp add: canonical_digits_def)
next
  case (snoc c xs)
  show ?case
  proof (cases "xs = []")
    case True
    with snoc.prems have "is_digit c" by (auto simp: canonical_digits_def is_digit_def)
    then show ?thesis
      using True digit_char_digit_val [of c] by (simp add: nat_of_dec_def dec_nat.simps)
  next
    case False
    note xs = canonical_digits_snoc [OF snoc.prems False]
    then have IH: "dec_nat (nat_of_dec xs) = xs" using snoc.IH by blast
    have "nat_of_dec xs \<noteq> 0" using IH xs dec_nat_0 by metis
    then have "\<not> nat_of_dec xs * 10 + digit_val c < 10" by simp
    moreover have "(nat_of_dec xs * 10 + digit_val c) div 10 = nat_of_dec xs"
      "(nat_of_dec xs * 10 + digit_val c) mod 10 = digit_val c"
      using digit_char_digit_val [of c] xs by simp_all
    ultimately show ?thesis
      using IH xs digit_char_digit_val [of c]
      by (subst dec_nat.simps) (simp add: nat_of_dec_snoc)
  qed
qed

lemma canonical_dec_nat: "canonical_digits (dec_nat n)"
  using dec_nat_hd [of n] dec_nat_digits [of n]
  by (cases "n = 0") (auto simp: canonical_digits_def list_all_iff)

lemma dec_nat_no_dash: "hd (dec_nat n) \<noteq> CHR ''-''"
  using dash_not_in_dec_nat [of n] by (metis dec_nat_nonempty list.set_sel(1))

lemma exact_text_neg: "exact_text (CHR ''-'' # t) \<longleftrightarrow> canonical_digits t"
  by (simp add: exact_text_def canonical_digits_def is_digit_def)

lemma exact_text_pos: "s = [] \<or> hd s \<noteq> CHR ''-'' \<Longrightarrow> exact_text s \<longleftrightarrow> canonical_digits s"
  by (auto simp: exact_text_def)

lemma dec_int_pos_iff:
  assumes "s = [] \<or> hd s \<noteq> CHR ''-''"
  shows "canonical_digits s \<and> v = int (nat_of_dec s) \<longleftrightarrow> s = dec_int v"
proof
  assume "canonical_digits s \<and> v = int (nat_of_dec s)"
  then show "s = dec_int v" using dec_nat_nat_of_dec [of s] by (simp add: dec_int_def)
next
  assume r: "s = dec_int v"
  then have "0 \<le> v" using assms by (auto simp: dec_int_def split: if_splits)
  with r show "canonical_digits s \<and> v = int (nat_of_dec s)"
    by (simp add: dec_int_def canonical_dec_nat)
qed

lemma dec_int_neg_iff:
  "canonical_digits t \<and> v = - int (nat_of_dec t) \<longleftrightarrow>
     CHR ''-'' # t = dec_int v \<or> (t = ''0'' \<and> v = 0)"
proof
  assume l: "canonical_digits t \<and> v = - int (nat_of_dec t)"
  then have t: "dec_nat (nat_of_dec t) = t" using dec_nat_nat_of_dec by blast
  show "CHR ''-'' # t = dec_int v \<or> (t = ''0'' \<and> v = 0)"
  proof (cases "nat_of_dec t = 0")
    case True
    with t l show ?thesis by simp
  next
    case False
    with l have "v < 0" "nat (- v) = nat_of_dec t" by simp_all
    with t show ?thesis by (simp add: dec_int_def)
  qed
next
  assume r: "CHR ''-'' # t = dec_int v \<or> (t = ''0'' \<and> v = 0)"
  show "canonical_digits t \<and> v = - int (nat_of_dec t)"
  proof (cases "CHR ''-'' # t = dec_int v")
    case True
    have "v < 0"
    proof (rule ccontr)
      assume "\<not> v < 0"
      with True have "CHR ''-'' # t = dec_nat (nat v)" by (simp add: dec_int_def)
      then show False using dec_nat_no_dash [of "nat v"] by (metis list.sel(1))
    qed
    with True have "t = dec_nat (nat (- v))" by (simp add: dec_int_def)
    with \<open>v < 0\<close> show ?thesis by (simp add: canonical_dec_nat)
  next
    case False
    with r have "t = ''0''" "v = 0" by simp_all
    then show ?thesis by (simp add: canonical_digits_def nat_of_dec_def digit_val_def)
  qed
qed

section \<open>Properties\<close>

text \<open>
  Amounts and ids given as text are read exactly: a text is accepted precisely when it
  is the decimal rendering of the value it stands for (or \<open>-0\<close>, read as zero); no sign,
  leading zero, blank or fraction slips through, and nothing rounds.
\<close>

theorem exactInteger_exact:
  "exactInteger (Text s) label = Inr v \<longleftrightarrow> s = dec_int v \<or> (s = ''-0'' \<and> v = 0)"
proof (cases "s \<noteq> [] \<and> hd s = CHR ''-''")
  case True
  then obtain t where s: "s = CHR ''-'' # t" by (cases s) auto
  have "exactInteger (Text s) label = Inr v \<longleftrightarrow> canonical_digits t \<and> v = - int (nat_of_dec t)"
    unfolding s exactInteger.simps exact_text_neg big_of_text_def list.sel by auto
  then show ?thesis unfolding dec_int_neg_iff s by simp
next
  case False
  then have s: "s = [] \<or> hd s \<noteq> CHR ''-''" by blast
  then have "s \<noteq> ''-0''" by (metis list.sel(1) list.distinct(1))
  moreover have "exactInteger (Text s) label = Inr v \<longleftrightarrow> canonical_digits s \<and> v = int (nat_of_dec s)"
    using False unfolding exactInteger.simps exact_text_pos [OF s] big_of_text_def by auto
  ultimately show ?thesis unfolding dec_int_pos_iff [OF s] by simp
qed

lemma all_zero_bytes: "length v = n \<Longrightarrow> list_all (\<lambda>b. b = 0) v \<longleftrightarrow> v = replicate n (0::byte)"
  unfolding list_all_iff by (metis in_set_replicate replicate_length_same)

lemma initialize_body:
  "bindR (exactInteger agreementId ''agreementId'') (\<lambda>i.
     bindR (deriveAgreement sha programId creator i) (\<lambda>(agreement, _).
     bindR (deriveVaultAuthority sha programId agreement) (\<lambda>(vaultAuthority, _).
     bindR (deriveVault sha programId agreement) (\<lambda>(vault, _).
     bindR (ix_u64 agreementId ''agreementId'') (\<lambda>idBytes.
     bindR (ix_addressBytes counterparty) (\<lambda>counterpartyBytes.
     bindR (positiveU64 amount ''amountBaseUnits'') (\<lambda>amountBytes.
     bindR (fixed termsHash 32 ''termsHash'' True) (\<lambda>terms.
     build_instruction sha programId name (accs agreement vaultAuthority vault)
       [idBytes, counterpartyBytes, [k], amountBytes, terms])))))))) = Inr ix \<longleftrightarrow>
   (\<exists>i amt cp ag agb va vab vt vtb ea.
      exactInteger agreementId ''agreementId'' = Inr i \<and> 0 \<le> i \<and> i < 2 ^ 64
      \<and> exactInteger amount ''amountBaseUnits'' = Inr amt \<and> 0 < amt \<and> amt < 2 ^ 64
      \<and> length termsHash = 32 \<and> termsHash \<noteq> replicate 32 0
      \<and> counterparty = encodeBase58 cp \<and> length cp = 32
      \<and> deriveAgreement sha programId creator i = Inr (ag, agb)
      \<and> deriveVaultAuthority sha programId ag = Inr (va, vab)
      \<and> deriveVault sha programId ag = Inr (vt, vtb)
      \<and> deriveEventAuthority sha programId = Inr ea
      \<and> ix = \<lparr>ix_programId = programId, ix_accounts = accs ag va vt @ [ro ea, ro programId],
          ix_data = anchorDiscriminator sha ''global'' name
            @ le_bytes 8 (nat i) @ cp @ [k] @ le_bytes 8 (nat amt) @ termsHash\<rparr>)"
  (is "?l \<longleftrightarrow> ?r")
proof
  assume ?l
  then obtain i ag agb va vab vt vtb idb cpb amb t where
    h: "exactInteger agreementId ''agreementId'' = Inr i"
      "deriveAgreement sha programId creator i = Inr (ag, agb)"
      "deriveVaultAuthority sha programId ag = Inr (va, vab)"
      "deriveVault sha programId ag = Inr (vt, vtb)"
      "ix_u64 agreementId ''agreementId'' = Inr idb" "ix_addressBytes counterparty = Inr cpb"
      "positiveU64 amount ''amountBaseUnits'' = Inr amb" "fixed termsHash 32 ''termsHash'' True = Inr t"
      "build_instruction sha programId name (accs ag va vt) [idb, cpb, [k], amb, t] = Inr ix"
    by - (erule bindR_InrE, erule bindR_pairE, erule bindR_pairE, erule bindR_pairE,
        erule bindR_InrE, erule bindR_InrE, erule bindR_InrE, erule bindR_InrE, rule that)
  from h(5) h(1) have idb: "0 \<le> i" "i < 2 ^ 64" "idb = le_bytes 8 (nat i)"
    unfolding ix_u64_Inr by simp_all
  from h(7) obtain amt where amt: "exactInteger amount ''amountBaseUnits'' = Inr amt" "0 < amt"
      "amt < 2 ^ 64" "amb = le_bytes 8 (nat amt)"
    unfolding positiveU64_Inr by blast
  from h(6) have cp: "length cpb = 32" "counterparty = encodeBase58 cpb"
    unfolding ix_addressBytes_Inr by blast+
  from h(8) have t: "t = termsHash" "length termsHash = 32" "termsHash \<noteq> replicate 32 0"
    unfolding fixed_Inr using all_zero_bytes [of termsHash 32] by blast+
  from h(9) obtain ea where ea: "deriveEventAuthority sha programId = Inr ea"
      "ix = \<lparr>ix_programId = programId, ix_accounts = accs ag va vt @ [ro ea, ro programId],
          ix_data = anchorDiscriminator sha ''global'' name @ concat [idb, cpb, [k], amb, t]\<rparr>"
    unfolding build_instruction_Inr by blast
  have "ix = \<lparr>ix_programId = programId, ix_accounts = accs ag va vt @ [ro ea, ro programId],
          ix_data = anchorDiscriminator sha ''global'' name
            @ le_bytes 8 (nat i) @ cpb @ [k] @ le_bytes 8 (nat amt) @ termsHash\<rparr>"
    unfolding ea(2) idb(3) amt(4) t(1) by (simp only: concat.simps append_Nil2)
  with h(1-4) idb amt cp t ea(1) show ?r by blast
next
  assume ?r
  then obtain i amt cp ag agb va vab vt vtb ea where
    h: "exactInteger agreementId ''agreementId'' = Inr i" "0 \<le> i" "i < 2 ^ 64"
      "exactInteger amount ''amountBaseUnits'' = Inr amt" "0 < amt" "amt < 2 ^ 64"
      "length termsHash = 32" "termsHash \<noteq> replicate 32 0"
      "counterparty = encodeBase58 cp" "length cp = 32"
      "deriveAgreement sha programId creator i = Inr (ag, agb)"
      "deriveVaultAuthority sha programId ag = Inr (va, vab)"
      "deriveVault sha programId ag = Inr (vt, vtb)"
      "deriveEventAuthority sha programId = Inr ea"
      "ix = \<lparr>ix_programId = programId, ix_accounts = accs ag va vt @ [ro ea, ro programId],
          ix_data = anchorDiscriminator sha ''global'' name
            @ le_bytes 8 (nat i) @ cp @ [k] @ le_bytes 8 (nat amt) @ termsHash\<rparr>"
    by blast
  have "ix_u64 agreementId ''agreementId'' = Inr (le_bytes 8 (nat i))"
    unfolding ix_u64_Inr using h(1-3) by blast
  moreover have "positiveU64 amount ''amountBaseUnits'' = Inr (le_bytes 8 (nat amt))"
    unfolding positiveU64_Inr using h(4-6) by blast
  moreover have "ix_addressBytes counterparty = Inr cp"
    unfolding ix_addressBytes_Inr using h(9,10) by blast
  moreover have "fixed termsHash 32 ''termsHash'' True = Inr termsHash"
    unfolding fixed_Inr using all_zero_bytes [OF h(7)] h(7,8) by blast
  moreover have "build_instruction sha programId name (accs ag va vt)
      [le_bytes 8 (nat i), cp, [k], le_bytes 8 (nat amt), termsHash] = Inr ix"
    unfolding build_instruction_Inr h(15) using h(14) by (simp only: concat.simps append_Nil2) blast
  ultimately show ?l by (simp only: h(1,11-13) bindR_Inr prod.case)
qed

lemma word_of_nat_zero: "(word_of_nat 0 :: byte) = 0"
  by simp

lemma lookup_three:
  assumes "f x = Some (a :: nat)" "f y = Some b" "f z = Some c"
  shows "(\<exists>k. f t = Some k \<and> (t = x \<or> t = y \<or> t = z) \<and> w = g k) \<longleftrightarrow>
    (t = x \<and> w = g a) \<or> (t = y \<and> w = g b) \<or> (t = z \<and> w = g c)"
  using assms by auto

lemma initialize_types:
  "(\<exists>k. map_of ESCROW_AGREEMENT_TYPES tn = Some k
      \<and> List.member [''Escrow'', ''MilestoneContract'', ''Bounty''] tn \<and> w = word_of_nat k)
   \<longleftrightarrow> (tn, w) \<in> {(''Escrow'', 0), (''MilestoneContract'', 3), (''Bounty'', 4 :: byte)}"
  (is "?l \<longleftrightarrow> _")
proof -
  have "map_of ESCROW_AGREEMENT_TYPES ''Escrow'' = Some 0"
    "map_of ESCROW_AGREEMENT_TYPES ''MilestoneContract'' = Some 3"
    "map_of ESCROW_AGREEMENT_TYPES ''Bounty'' = Some 4"
    by (simp_all add: ESCROW_AGREEMENT_TYPES_def)
  note three = lookup_three [of "map_of ESCROW_AGREEMENT_TYPES", OF this, of tn w word_of_nat]
  have "List.member [''Escrow'', ''MilestoneContract'', ''Bounty''] tn \<longleftrightarrow>
      tn = ''Escrow'' \<or> tn = ''MilestoneContract'' \<or> tn = ''Bounty''"
    by simp
  then show ?thesis
    by (simp only: three insert_iff prod.inject empty_iff simp_thms of_nat_numeral
        word_of_nat_zero)
qed

lemma two_guards:
  "(if \<not> a then Inl e1 else if b \<or> c \<noteq> c' \<and> d then Inl e2 else m) = Inr x \<longleftrightarrow>
     a \<and> \<not> b \<and> \<not> (c \<noteq> c' \<and> d) \<and> m = Inr x"
  by auto

text \<open>
  Opening an escrow: the builder accepts exactly the three implemented types (Escrow
  when none is given), a counterparty that is not the creator and, but for a bounty, is
  somebody, a u64 id, an amount between 1 and the u64 maximum and a 32-byte terms hash that
  is not all zeroes; the instruction then names the derived agreement, authority and vault,
  and its data is the discriminator and these values in the program's order.
\<close>

theorem buildInitializeEscrow_exact:
  "buildInitializeEscrowInstruction sha programId creator mint agreementId counterparty ty
     amount termsHash tokenProgram = Inr ix \<longleftrightarrow>
   (\<exists>tyName tyIndex i amt cp ag agb va vab vt vtb ea.
      tyName = (case ty of None \<Rightarrow> ''Escrow'' | Some t \<Rightarrow> t)
      \<and> (tyName, tyIndex) \<in> {(''Escrow'', 0), (''MilestoneContract'', 3), (''Bounty'', 4)}
      \<and> counterparty \<noteq> creator \<and> \<not> (tyName \<noteq> ''Bounty'' \<and> counterparty = SYSTEM_PROGRAM_ID)
      \<and> exactInteger agreementId ''agreementId'' = Inr i \<and> 0 \<le> i \<and> i < 2 ^ 64
      \<and> exactInteger amount ''amountBaseUnits'' = Inr amt \<and> 0 < amt \<and> amt < 2 ^ 64
      \<and> length termsHash = 32 \<and> termsHash \<noteq> replicate 32 0
      \<and> counterparty = encodeBase58 cp \<and> length cp = 32
      \<and> deriveAgreement sha programId creator i = Inr (ag, agb)
      \<and> deriveVaultAuthority sha programId ag = Inr (va, vab)
      \<and> deriveVault sha programId ag = Inr (vt, vtb)
      \<and> deriveEventAuthority sha programId = Inr ea
      \<and> ix = \<lparr>ix_programId = programId,
          ix_accounts = [signer creator True, ro mint, rw ag, ro va, rw vt,
            ro (token_program tokenProgram), ro SYSTEM_PROGRAM_ID, ro ea, ro programId],
          ix_data = anchorDiscriminator sha ''global'' ''initialize_agreement''
            @ le_bytes 8 (nat i) @ cp @ [tyIndex] @ le_bytes 8 (nat amt) @ termsHash\<rparr>)"
proof -
  define tn where "tn = (case ty of None \<Rightarrow> ''Escrow'' | Some t \<Rightarrow> t)"
  let ?body = "\<lambda>k :: byte. bindR (exactInteger agreementId ''agreementId'') (\<lambda>i.
     bindR (deriveAgreement sha programId creator i) (\<lambda>(agreement, _).
     bindR (deriveVaultAuthority sha programId agreement) (\<lambda>(vaultAuthority, _).
     bindR (deriveVault sha programId agreement) (\<lambda>(vault, _).
     bindR (ix_u64 agreementId ''agreementId'') (\<lambda>idBytes.
     bindR (ix_addressBytes counterparty) (\<lambda>counterpartyBytes.
     bindR (positiveU64 amount ''amountBaseUnits'') (\<lambda>amountBytes.
     bindR (fixed termsHash 32 ''termsHash'' True) (\<lambda>terms.
     build_instruction sha programId ''initialize_agreement''
       [signer creator True, ro mint, rw agreement, ro vaultAuthority, rw vault,
         ro (token_program tokenProgram), ro SYSTEM_PROGRAM_ID]
       [idBytes, counterpartyBytes, [k], amountBytes, terms]))))))))"
  have "buildInitializeEscrowInstruction sha programId creator mint agreementId counterparty ty
      amount termsHash tokenProgram = Inr ix \<longleftrightarrow>
    (\<exists>w. (\<exists>k. map_of ESCROW_AGREEMENT_TYPES tn = Some k
        \<and> List.member [''Escrow'', ''MilestoneContract'', ''Bounty''] tn \<and> w = word_of_nat k)
      \<and> counterparty \<noteq> creator \<and> \<not> (tn \<noteq> ''Bounty'' \<and> counterparty = SYSTEM_PROGRAM_ID)
      \<and> ?body w = Inr ix)"
    unfolding buildInitializeEscrowInstruction_def Let_def tn_def [symmetric] escrowInstruction_def
    by (cases "map_of ESCROW_AGREEMENT_TYPES tn") (simp_all only: option.simps two_guards simp_thms sum.distinct ex_simps,
        blast)
  then show ?thesis
    unfolding initialize_types initialize_body tn_def by (simp only: append_Cons append_Nil) blast
qed

text \<open>
  What an instruction asks the chain to trust: its only signer and the accounts it may
  write to, before the two trailing event accounts.
\<close>

definition authorises :: "address \<Rightarrow> address list \<Rightarrow> instruction_spec \<Rightarrow> bool" where
  "authorises party writes ix \<longleftrightarrow>
     map ac_address (filter ac_isSigner (ix_accounts ix)) = [party]
     \<and> map ac_address (filter ac_isWritable (ix_accounts ix)) = writes"

definition cites :: "address option \<Rightarrow> address option \<Rightarrow> bool" where
  "cites s c \<longleftrightarrow> (s = None \<and> c = None) \<or> (s \<noteq> None \<and> c \<noteq> None \<and> s \<noteq> c)"

lemma cites_ok: "(\<exists>accs. citationAccounts p s c = Inr accs) \<longleftrightarrow> cites s c"
  by (auto simp: citationAccounts_Inr cites_def)


lemma deriveEventAuthority_toy:
  "deriveEventAuthority (\<lambda>_. y_one 128) (replicate 32 CHR ''1'') = Inr (encodeBase58 (y_one 128))"
  using find_off_curve [of "[EVENT_AUTHORITY_SEED]", OF _ addressBytes_system]
  by (simp add: deriveEventAuthority_def seeds_ok_def MAX_SEEDS_def MAX_SEED_LENGTH_def
      EVENT_AUTHORITY_SEED_def)


end
