(* ===== verification/Contracts.thy ===== *)
theory Contracts
  imports Hashing Iso_Time
begin

text \<open>
  The version 1 reputation contracts (\<open>sdk/src/reputation/contracts.ts\<close>): the shapes of an
  event, a deliverable reference and a receipt, and the structural validators a consumer
  runs on a value of unknown shape. Such a value is a JavaScript value here; reading a
  property it does not have gives \<open>undefined\<close>, as in the source.
\<close>

section \<open>JavaScript values\<close>

datatype js =
    Js_undefined
  | Js_null
  | Js_bool bool
  | Js_number js_number
  | Js_string string
  | Js_array "js list"
  | Js_object "(string \<times> js) list"

fun js_get :: "string \<Rightarrow> js \<Rightarrow> js" where
  "js_get k (Js_object fs) = (case map_of fs k of None \<Rightarrow> Js_undefined | Some v \<Rightarrow> v)"
| "js_get k _ = Js_undefined"

fun is_object :: "js \<Rightarrow> bool" where
  "is_object (Js_object _) = True"
| "is_object _ = False"

fun test_string :: "(string \<Rightarrow> bool) \<Rightarrow> js \<Rightarrow> bool" where
  "test_string p (Js_string s) = p s"
| "test_string p _ = False"

fun test_number :: "(js_number \<Rightarrow> bool) \<Rightarrow> js \<Rightarrow> bool" where
  "test_number p (Js_number n) = p n"
| "test_number p _ = False"

definition is_boolean :: "js \<Rightarrow> bool" where
  "is_boolean v = (case v of Js_bool _ \<Rightarrow> True | _ \<Rightarrow> False)"

definition nullable :: "(js \<Rightarrow> bool) \<Rightarrow> js \<Rightarrow> bool" where
  "nullable p v \<longleftrightarrow> v = Js_null \<or> p v"

text \<open>Values the sources write into objects.\<close>

definition js_int :: "int \<Rightarrow> js" where "js_int n = Js_number (Whole n)"

definition js_opt :: "('a \<Rightarrow> js) \<Rightarrow> 'a option \<Rightarrow> js" where
  "js_opt f x = (case x of None \<Rightarrow> Js_null | Some v \<Rightarrow> f v)"

section \<open>Vocabulary\<close>

definition REPUTATION_EVENT_SCHEMA_VERSION :: int where "REPUTATION_EVENT_SCHEMA_VERSION = 1"
definition DELIVERABLE_REFERENCE_SCHEMA_VERSION :: int where
  "DELIVERABLE_REFERENCE_SCHEMA_VERSION = 1"
definition PPV_RECEIPT_SCHEMA_VERSION :: int where "PPV_RECEIPT_SCHEMA_VERSION = 1"
definition GNS_RECORD_SNAPSHOT_SCHEMA_VERSION :: int where
  "GNS_RECORD_SNAPSHOT_SCHEMA_VERSION = 1"

datatype reputation_event_type =
    Type_proof_created | Type_proof_revoked | Type_proof_submitted
  | Type_agreement_created | Type_agreement_revised | Type_agreement_signed
  | Type_agreement_executed | Type_agreement_cancelled | Type_escrow_funded
  | Type_milestone_created | Type_milestone_delivered | Type_milestone_approved
  | Type_milestone_rejected | Type_invoice_paid | Type_dispute_opened | Type_dispute_resolved
  | Type_settlement_completed | Type_work_completed | Type_milestone_settled
  | Type_agreement_refunded | Type_proof_approved | Type_proof_rejected

fun event_type_text :: "reputation_event_type \<Rightarrow> string" where
  "event_type_text Type_proof_created = ''proof.created''"
| "event_type_text Type_proof_revoked = ''proof.revoked''"
| "event_type_text Type_proof_submitted = ''proof.submitted''"
| "event_type_text Type_agreement_created = ''agreement.created''"
| "event_type_text Type_agreement_revised = ''agreement.revised''"
| "event_type_text Type_agreement_signed = ''agreement.signed''"
| "event_type_text Type_agreement_executed = ''agreement.executed''"
| "event_type_text Type_agreement_cancelled = ''agreement.cancelled''"
| "event_type_text Type_escrow_funded = ''escrow.funded''"
| "event_type_text Type_milestone_created = ''milestone.created''"
| "event_type_text Type_milestone_delivered = ''milestone.delivered''"
| "event_type_text Type_milestone_approved = ''milestone.approved''"
| "event_type_text Type_milestone_rejected = ''milestone.rejected''"
| "event_type_text Type_invoice_paid = ''invoice.paid''"
| "event_type_text Type_dispute_opened = ''dispute.opened''"
| "event_type_text Type_dispute_resolved = ''dispute.resolved''"
| "event_type_text Type_settlement_completed = ''settlement.completed''"
| "event_type_text Type_work_completed = ''work.completed''"
| "event_type_text Type_milestone_settled = ''milestone.settled''"
| "event_type_text Type_agreement_refunded = ''agreement.refunded''"
| "event_type_text Type_proof_approved = ''proof.approved''"
| "event_type_text Type_proof_rejected = ''proof.rejected''"

definition REPUTATION_EVENT_TYPES :: "reputation_event_type list" where
  "REPUTATION_EVENT_TYPES =
    [Type_proof_created, Type_proof_revoked, Type_proof_submitted, Type_agreement_created,
     Type_agreement_revised, Type_agreement_signed, Type_agreement_executed,
     Type_agreement_cancelled, Type_escrow_funded, Type_milestone_created,
     Type_milestone_delivered, Type_milestone_approved, Type_milestone_rejected,
     Type_invoice_paid, Type_dispute_opened, Type_dispute_resolved, Type_settlement_completed,
     Type_work_completed, Type_milestone_settled, Type_agreement_refunded,
     Type_proof_approved, Type_proof_rejected]"

datatype reputation_outcome =
    Out_recorded | Out_completed | Out_rejected | Out_cancelled | Out_revoked | Out_opened
  | Out_resolved_for_actor | Out_resolved_for_counterparty | Out_resolved_split

fun outcome_text :: "reputation_outcome \<Rightarrow> string" where
  "outcome_text Out_recorded = ''recorded''"
| "outcome_text Out_completed = ''completed''"
| "outcome_text Out_rejected = ''rejected''"
| "outcome_text Out_cancelled = ''cancelled''"
| "outcome_text Out_revoked = ''revoked''"
| "outcome_text Out_opened = ''opened''"
| "outcome_text Out_resolved_for_actor = ''resolved_for_actor''"
| "outcome_text Out_resolved_for_counterparty = ''resolved_for_counterparty''"
| "outcome_text Out_resolved_split = ''resolved_split''"

definition REPUTATION_OUTCOMES :: "reputation_outcome list" where
  "REPUTATION_OUTCOMES = [Out_recorded, Out_completed, Out_rejected, Out_cancelled, Out_revoked,
     Out_opened, Out_resolved_for_actor, Out_resolved_for_counterparty, Out_resolved_split]"

datatype source_product = Prod_ppv | Prod_marketplace | Prod_daily_ideas | Prod_dimi | Prod_gwapos

fun product_text :: "source_product \<Rightarrow> string" where
  "product_text Prod_ppv = ''ppv''"
| "product_text Prod_marketplace = ''marketplace''"
| "product_text Prod_daily_ideas = ''daily-ideas''"
| "product_text Prod_dimi = ''dimi''"
| "product_text Prod_gwapos = ''gwapos''"

definition SOURCE_PRODUCTS :: "source_product list" where
  "SOURCE_PRODUCTS = [Prod_ppv, Prod_marketplace, Prod_daily_ideas, Prod_dimi, Prod_gwapos]"

datatype participant_role =
    Role_creator | Role_buyer | Role_seller | Role_payer | Role_payee | Role_collaborator
  | Role_arbiter

fun role_text :: "participant_role \<Rightarrow> string" where
  "role_text Role_creator = ''creator''"
| "role_text Role_buyer = ''buyer''"
| "role_text Role_seller = ''seller''"
| "role_text Role_payer = ''payer''"
| "role_text Role_payee = ''payee''"
| "role_text Role_collaborator = ''collaborator''"
| "role_text Role_arbiter = ''arbiter''"

definition PARTICIPANT_ROLES :: "participant_role list" where
  "PARTICIPANT_ROLES = [Role_creator, Role_buyer, Role_seller, Role_payer, Role_payee,
     Role_collaborator, Role_arbiter]"

datatype seal_state =
    Seal_recorded | Seal_verified | Seal_counterparty_confirmed | Seal_settled
  | Seal_dispute_resolved | Seal_revoked

fun seal_text :: "seal_state \<Rightarrow> string" where
  "seal_text Seal_recorded = ''recorded''"
| "seal_text Seal_verified = ''verified''"
| "seal_text Seal_counterparty_confirmed = ''counterparty_confirmed''"
| "seal_text Seal_settled = ''settled''"
| "seal_text Seal_dispute_resolved = ''dispute_resolved''"
| "seal_text Seal_revoked = ''revoked''"

definition PPV_SEAL_STATES :: "seal_state list" where
  "PPV_SEAL_STATES = [Seal_recorded, Seal_verified, Seal_counterparty_confirmed, Seal_settled,
     Seal_dispute_resolved, Seal_revoked]"

section \<open>Records\<close>

record gns_snapshot =
  gns_schemaVersion :: int
  gns_name :: string
  gns_fullName :: string
  gns_owner :: string
  gns_resolvedAt :: string

datatype event_source = Source_chain | Source_product

fun source_text :: "event_source \<Rightarrow> string" where
  "source_text Source_chain = ''chain''"
| "source_text Source_product = ''product''"

record reputation_event =
  re_schemaVersion :: int
  re_eventId :: string
  re_eventType :: reputation_event_type
  re_occurredAt :: string
  re_eventSource :: event_source
  re_actorWallet :: string
  re_actorGnsRecord :: "gns_snapshot option"
  re_counterpartyWallet :: "string option"
  re_counterpartyGnsRecord :: "gns_snapshot option"
  re_ppvProofId :: "string option"
  re_proofHash :: "string option"
  re_agreementId :: "string option"
  re_escrowId :: "string option"
  re_milestoneIndex :: "int option"
  re_sourceProduct :: "source_product option"
  re_sourceObjectId :: "string option"
  re_deliverableId :: "string option"
  re_amount :: "string option"
  re_mint :: "string option"
  re_outcome :: reputation_outcome
  re_programId :: string
  re_transactionSignature :: string
  re_instructionIndex :: int
  re_innerInstructionIndex :: "int option"

record deliverable_reference =
  dr_schemaVersion :: int
  dr_sourceProduct :: source_product
  dr_sourceObjectId :: string
  dr_deliverableId :: string
  dr_creatorWallet :: string
  dr_creatorGnsRecord :: "gns_snapshot option"
  dr_ppvProofId :: string
  dr_proofHash :: string
  dr_createdAt :: string
  dr_counterpartyWallet :: "string option"
  dr_deliverableKind :: string

record ppv_receipt =
  rr_schemaVersion :: int
  rr_receiptId :: string
  rr_eventId :: string
  rr_ppvProofId :: "string option"
  rr_proofHash :: "string option"
  rr_agreementId :: "string option"
  rr_holderWallet :: string
  rr_holderGnsRecord :: "gns_snapshot option"
  rr_role :: participant_role
  rr_counterpartyWallets :: "string list"
  rr_counterpartyGnsRecords :: "gns_snapshot option list"
  rr_sourceProduct :: "source_product option"
  rr_sourceObjectId :: "string option"
  rr_deliverableId :: "string option"
  rr_eventType :: reputation_event_type
  rr_outcome :: reputation_outcome
  rr_amount :: "string option"
  rr_mint :: "string option"
  rr_programId :: string
  rr_transactionSignature :: string
  rr_instructionIndex :: int
  rr_innerInstructionIndex :: "int option"
  rr_completedAt :: string
  rr_sealState :: seal_state
  rr_disputeOpen :: bool
  rr_mintEligible :: bool
  rr_credentialMint :: "string option"

section \<open>The patterns\<close>

text \<open>A character class repeated between \<open>lo\<close> and \<open>hi\<close> times, anchored at both ends.\<close>

definition repeated :: "(char \<Rightarrow> bool) \<Rightarrow> nat \<Rightarrow> nat \<Rightarrow> string \<Rightarrow> bool" where
  "repeated cls lo hi s \<longleftrightarrow> lo \<le> length s \<and> length s \<le> hi \<and> list_all cls s"

definition in_range :: "char \<Rightarrow> char \<Rightarrow> char \<Rightarrow> bool" where
  "in_range a b c \<longleftrightarrow> a \<le> c \<and> c \<le> b"

definition base58_class :: "char \<Rightarrow> bool" where
  "base58_class c \<longleftrightarrow> in_range CHR ''1'' CHR ''9'' c \<or> in_range CHR ''A'' CHR ''H'' c
     \<or> in_range CHR ''J'' CHR ''N'' c \<or> in_range CHR ''P'' CHR ''Z'' c
     \<or> in_range CHR ''a'' CHR ''k'' c \<or> in_range CHR ''m'' CHR ''z'' c"

definition lower_hex_class :: "char \<Rightarrow> bool" where
  "lower_hex_class c \<longleftrightarrow> in_range CHR ''0'' CHR ''9'' c \<or> in_range CHR ''a'' CHR ''f'' c"

definition lower_alnum :: "char \<Rightarrow> bool" where
  "lower_alnum c \<longleftrightarrow> in_range CHR ''a'' CHR ''z'' c \<or> in_range CHR ''0'' CHR ''9'' c"

definition BASE58_ADDRESS :: "string \<Rightarrow> bool" where
  "BASE58_ADDRESS = repeated base58_class 32 44"

definition BASE58_SIGNATURE :: "string \<Rightarrow> bool" where
  "BASE58_SIGNATURE = repeated base58_class 64 90"

definition HEX_32 :: "string \<Rightarrow> bool" where
  "HEX_32 = repeated lower_hex_class 64 64"

text \<open>A template in which 9 stands for a digit and every other character for itself.\<close>

fun like :: "string \<Rightarrow> string \<Rightarrow> bool" where
  "like [] s = (s = [])"
| "like (p # ps) [] = False"
| "like (p # ps) (c # cs) =
    ((if p = CHR ''9'' then in_range CHR ''0'' CHR ''9'' c else c = p) \<and> like ps cs)"

definition ISO_TIME :: "string \<Rightarrow> bool" where
  "ISO_TIME s \<longleftrightarrow> like ''9999-99-99T99:99:99Z'' s \<or> like ''9999-99-99T99:99:99.9Z'' s
     \<or> like ''9999-99-99T99:99:99.99Z'' s \<or> like ''9999-99-99T99:99:99.999Z'' s"

definition GNS_LABEL :: "string \<Rightarrow> bool" where
  "GNS_LABEL s \<longleftrightarrow> repeated (\<lambda>c. lower_alnum c \<or> c = CHR ''-'') 1 32 s
     \<and> lower_alnum (hd s) \<and> lower_alnum (last s)"

definition AMOUNT_TEXT :: "string \<Rightarrow> bool" where
  "AMOUNT_TEXT s \<longleftrightarrow> s = ''0'' \<or>
     (repeated (in_range CHR ''0'' CHR ''9'') 1 39 s \<and> in_range CHR ''1'' CHR ''9'' (hd s))"

text \<open>The identifiers \<open>evt_\<close> and \<open>rcpt_\<close> and forty hex digits.\<close>

definition prefixed_id :: "string \<Rightarrow> string \<Rightarrow> bool" where
  "prefixed_id tag s \<longleftrightarrow> take (length tag) s = tag
     \<and> repeated lower_hex_class 40 40 (drop (length tag) s)"

definition OBJECT_ID :: "string \<Rightarrow> bool" where
  "OBJECT_ID = repeated (\<lambda>c. in_range CHR ''A'' CHR ''Z'' c \<or> lower_alnum c
     \<or> c \<in> {CHR '':'', CHR ''_'', CHR ''.'', CHR ''-''}) 1 120"

definition DELIVERABLE_KIND :: "string \<Rightarrow> bool" where
  "DELIVERABLE_KIND s \<longleftrightarrow> repeated (\<lambda>c. lower_alnum c \<or> c = CHR ''-'') 1 40 s
     \<and> in_range CHR ''a'' CHR ''z'' (hd s)"

text \<open>
  \<open>Date.parse\<close> of a text that matches \<open>ISO_TIME\<close>: ECMAScript's date time format, in which a
  month is 01 to 12, a day 01 to 31 and an hour 00 to 23, or 24 at midnight exactly.
\<close>

definition two_at :: "nat \<Rightarrow> string \<Rightarrow> nat" where
  "two_at i s = nat_of_dec (take 2 (drop i s))"

definition date_parses :: "string \<Rightarrow> bool" where
  "date_parses s \<longleftrightarrow>
     (let month = two_at 5 s; day = two_at 8 s; hour = two_at 11 s; minute = two_at 14 s;
          second = two_at 17 s
      in 1 \<le> month \<and> month \<le> 12 \<and> 1 \<le> day \<and> day \<le> 31 \<and> minute \<le> 59 \<and> second \<le> 59
         \<and> (hour \<le> 23 \<or> (hour = 24 \<and> minute = 0 \<and> second = 0
               \<and> list_all (\<lambda>c. c \<in> set ''.0Z'') (drop 19 s))))"

section \<open>The validators\<close>

definition isSolanaAddress :: "js \<Rightarrow> bool" where
  "isSolanaAddress = test_string BASE58_ADDRESS"

definition isTransactionSignature :: "js \<Rightarrow> bool" where
  "isTransactionSignature = test_string BASE58_SIGNATURE"

definition isSha256Hex :: "js \<Rightarrow> bool" where
  "isSha256Hex = test_string HEX_32"

definition isIsoTimestamp :: "js \<Rightarrow> bool" where
  "isIsoTimestamp = test_string (\<lambda>s. ISO_TIME s \<and> date_parses s)"

definition isReputationEventType :: "js \<Rightarrow> bool" where
  "isReputationEventType = test_string (List.member (map event_type_text REPUTATION_EVENT_TYPES))"

definition isReputationOutcome :: "js \<Rightarrow> bool" where
  "isReputationOutcome = test_string (List.member (map outcome_text REPUTATION_OUTCOMES))"

definition isSourceProduct :: "js \<Rightarrow> bool" where
  "isSourceProduct = test_string (List.member (map product_text SOURCE_PRODUCTS))"

definition isParticipantRole :: "js \<Rightarrow> bool" where
  "isParticipantRole = test_string (List.member (map role_text PARTICIPANT_ROLES))"

definition isPpvSealState :: "js \<Rightarrow> bool" where
  "isPpvSealState = test_string (List.member (map seal_text PPV_SEAL_STATES))"

definition isGnsRecordSnapshot :: "js \<Rightarrow> bool" where
  "isGnsRecordSnapshot v \<longleftrightarrow> is_object v
     \<and> js_get ''schemaVersion'' v = js_int GNS_RECORD_SNAPSHOT_SCHEMA_VERSION
     \<and> test_string (\<lambda>name. GNS_LABEL name
         \<and> js_get ''fullName'' v = Js_string (name @ ''.gwap'')) (js_get ''name'' v)
     \<and> isSolanaAddress (js_get ''owner'' v)
     \<and> isIsoTimestamp (js_get ''resolvedAt'' v)"

definition nullableAddress :: "js \<Rightarrow> bool" where
  "nullableAddress = nullable isSolanaAddress"

definition nullableString :: "js \<Rightarrow> bool" where
  "nullableString = nullable (test_string (\<lambda>s. 0 < length s \<and> length s \<le> 200))"

definition nullableSnapshot :: "js \<Rightarrow> bool" where
  "nullableSnapshot = nullable isGnsRecordSnapshot"

definition snapshotMatchesWallet :: "js \<Rightarrow> js \<Rightarrow> bool" where
  "snapshotMatchesWallet snapshot wallet \<longleftrightarrow>
     (if snapshot = Js_null \<or> snapshot = Js_undefined then True
      else isSolanaAddress wallet \<and> isGnsRecordSnapshot snapshot
        \<and> js_get ''owner'' snapshot = wallet)"

fun snapshotListMatchesWallets :: "js \<Rightarrow> js \<Rightarrow> bool" where
  "snapshotListMatchesWallets (Js_array snapshots) (Js_array wallets) =
     (length snapshots = length wallets \<and> list_all2 snapshotMatchesWallet snapshots wallets)"
| "snapshotListMatchesWallets _ _ = False"

definition isAmount :: "js \<Rightarrow> bool" where
  "isAmount = nullable (test_string AMOUNT_TEXT)"

definition isInstructionIndex :: "js \<Rightarrow> bool" where
  "isInstructionIndex = test_number (\<lambda>n. is_integer n \<and> 0 \<le> whole n \<and> whole n < 1024)"

definition isReputationEventV1 :: "js \<Rightarrow> bool" where
  "isReputationEventV1 v \<longleftrightarrow> is_object v
     \<and> js_get ''schemaVersion'' v = js_int REPUTATION_EVENT_SCHEMA_VERSION
     \<and> test_string (prefixed_id ''evt_'') (js_get ''eventId'' v)
     \<and> isReputationEventType (js_get ''eventType'' v)
     \<and> isIsoTimestamp (js_get ''occurredAt'' v)
     \<and> (js_get ''eventSource'' v = Js_string ''chain'' \<or> js_get ''eventSource'' v = Js_string ''product'')
     \<and> isSolanaAddress (js_get ''actorWallet'' v)
     \<and> nullableSnapshot (js_get ''actorGnsRecord'' v)
     \<and> snapshotMatchesWallet (js_get ''actorGnsRecord'' v) (js_get ''actorWallet'' v)
     \<and> nullableAddress (js_get ''counterpartyWallet'' v)
     \<and> nullableSnapshot (js_get ''counterpartyGnsRecord'' v)
     \<and> snapshotMatchesWallet (js_get ''counterpartyGnsRecord'' v) (js_get ''counterpartyWallet'' v)
     \<and> nullableAddress (js_get ''ppvProofId'' v)
     \<and> nullable isSha256Hex (js_get ''proofHash'' v)
     \<and> nullableAddress (js_get ''agreementId'' v)
     \<and> nullableAddress (js_get ''escrowId'' v)
     \<and> nullable (test_number (\<lambda>n. is_integer n \<and> 0 \<le> whole n)) (js_get ''milestoneIndex'' v)
     \<and> nullable isSourceProduct (js_get ''sourceProduct'' v)
     \<and> nullableString (js_get ''sourceObjectId'' v)
     \<and> nullableString (js_get ''deliverableId'' v)
     \<and> isAmount (js_get ''amount'' v)
     \<and> nullableAddress (js_get ''mint'' v)
     \<and> isReputationOutcome (js_get ''outcome'' v)
     \<and> isSolanaAddress (js_get ''programId'' v)
     \<and> isTransactionSignature (js_get ''transactionSignature'' v)
     \<and> isInstructionIndex (js_get ''instructionIndex'' v)
     \<and> nullable isInstructionIndex (js_get ''innerInstructionIndex'' v)"

definition isGwapDeliverableReferenceV1 :: "js \<Rightarrow> bool" where
  "isGwapDeliverableReferenceV1 v \<longleftrightarrow> is_object v
     \<and> js_get ''schemaVersion'' v = js_int DELIVERABLE_REFERENCE_SCHEMA_VERSION
     \<and> isSourceProduct (js_get ''sourceProduct'' v)
     \<and> test_string OBJECT_ID (js_get ''sourceObjectId'' v)
     \<and> test_string OBJECT_ID (js_get ''deliverableId'' v)
     \<and> isSolanaAddress (js_get ''creatorWallet'' v)
     \<and> nullableSnapshot (js_get ''creatorGnsRecord'' v)
     \<and> snapshotMatchesWallet (js_get ''creatorGnsRecord'' v) (js_get ''creatorWallet'' v)
     \<and> isSolanaAddress (js_get ''ppvProofId'' v)
     \<and> isSha256Hex (js_get ''proofHash'' v)
     \<and> isIsoTimestamp (js_get ''createdAt'' v)
     \<and> nullableAddress (js_get ''counterpartyWallet'' v)
     \<and> test_string DELIVERABLE_KIND (js_get ''deliverableKind'' v)"

text \<open>\<open>value.every(p)\<close> of a property checked to be an array first.\<close>

fun js_every :: "(js \<Rightarrow> bool) \<Rightarrow> js \<Rightarrow> bool" where
  "js_every p (Js_array vs) = list_all p vs"
| "js_every p _ = False"

definition isPpvReceiptV1 :: "js \<Rightarrow> bool" where
  "isPpvReceiptV1 v \<longleftrightarrow> is_object v
     \<and> js_get ''schemaVersion'' v = js_int PPV_RECEIPT_SCHEMA_VERSION
     \<and> test_string (prefixed_id ''rcpt_'') (js_get ''receiptId'' v)
     \<and> test_string (prefixed_id ''evt_'') (js_get ''eventId'' v)
     \<and> nullableAddress (js_get ''ppvProofId'' v)
     \<and> nullable isSha256Hex (js_get ''proofHash'' v)
     \<and> nullableAddress (js_get ''agreementId'' v)
     \<and> isSolanaAddress (js_get ''holderWallet'' v)
     \<and> nullableSnapshot (js_get ''holderGnsRecord'' v)
     \<and> snapshotMatchesWallet (js_get ''holderGnsRecord'' v) (js_get ''holderWallet'' v)
     \<and> isParticipantRole (js_get ''role'' v)
     \<and> js_every isSolanaAddress (js_get ''counterpartyWallets'' v)
     \<and> js_every nullableSnapshot (js_get ''counterpartyGnsRecords'' v)
     \<and> snapshotListMatchesWallets (js_get ''counterpartyGnsRecords'' v)
         (js_get ''counterpartyWallets'' v)
     \<and> nullable isSourceProduct (js_get ''sourceProduct'' v)
     \<and> nullableString (js_get ''sourceObjectId'' v)
     \<and> nullableString (js_get ''deliverableId'' v)
     \<and> isReputationEventType (js_get ''eventType'' v)
     \<and> isReputationOutcome (js_get ''outcome'' v)
     \<and> isAmount (js_get ''amount'' v)
     \<and> nullableAddress (js_get ''mint'' v)
     \<and> isSolanaAddress (js_get ''programId'' v)
     \<and> isTransactionSignature (js_get ''transactionSignature'' v)
     \<and> isInstructionIndex (js_get ''instructionIndex'' v)
     \<and> nullable isInstructionIndex (js_get ''innerInstructionIndex'' v)
     \<and> isIsoTimestamp (js_get ''completedAt'' v)
     \<and> isPpvSealState (js_get ''sealState'' v)
     \<and> is_boolean (js_get ''disputeOpen'' v)
     \<and> is_boolean (js_get ''mintEligible'' v)
     \<and> nullableAddress (js_get ''credentialMint'' v)"

section \<open>Values as the sources write them\<close>

definition gns_js :: "gns_snapshot \<Rightarrow> js" where
  "gns_js g = Js_object
     [(''schemaVersion'', js_int (gns_schemaVersion g)), (''name'', Js_string (gns_name g)),
      (''fullName'', Js_string (gns_fullName g)), (''owner'', Js_string (gns_owner g)),
      (''resolvedAt'', Js_string (gns_resolvedAt g))]"

definition event_js :: "reputation_event \<Rightarrow> js" where
  "event_js e = Js_object
     [(''schemaVersion'', js_int (re_schemaVersion e)), (''eventId'', Js_string (re_eventId e)),
      (''eventType'', Js_string (event_type_text (re_eventType e))),
      (''occurredAt'', Js_string (re_occurredAt e)),
      (''eventSource'', Js_string (source_text (re_eventSource e))),
      (''actorWallet'', Js_string (re_actorWallet e)),
      (''actorGnsRecord'', js_opt gns_js (re_actorGnsRecord e)),
      (''counterpartyWallet'', js_opt Js_string (re_counterpartyWallet e)),
      (''counterpartyGnsRecord'', js_opt gns_js (re_counterpartyGnsRecord e)),
      (''ppvProofId'', js_opt Js_string (re_ppvProofId e)),
      (''proofHash'', js_opt Js_string (re_proofHash e)),
      (''agreementId'', js_opt Js_string (re_agreementId e)),
      (''escrowId'', js_opt Js_string (re_escrowId e)),
      (''milestoneIndex'', js_opt js_int (re_milestoneIndex e)),
      (''sourceProduct'', js_opt (\<lambda>p. Js_string (product_text p)) (re_sourceProduct e)),
      (''sourceObjectId'', js_opt Js_string (re_sourceObjectId e)),
      (''deliverableId'', js_opt Js_string (re_deliverableId e)),
      (''amount'', js_opt Js_string (re_amount e)), (''mint'', js_opt Js_string (re_mint e)),
      (''outcome'', Js_string (outcome_text (re_outcome e))),
      (''programId'', Js_string (re_programId e)),
      (''transactionSignature'', Js_string (re_transactionSignature e)),
      (''instructionIndex'', js_int (re_instructionIndex e)),
      (''innerInstructionIndex'', js_opt js_int (re_innerInstructionIndex e))]"

definition receipt_js :: "ppv_receipt \<Rightarrow> js" where
  "receipt_js r = Js_object
     [(''schemaVersion'', js_int (rr_schemaVersion r)), (''receiptId'', Js_string (rr_receiptId r)),
      (''eventId'', Js_string (rr_eventId r)),
      (''ppvProofId'', js_opt Js_string (rr_ppvProofId r)),
      (''proofHash'', js_opt Js_string (rr_proofHash r)),
      (''agreementId'', js_opt Js_string (rr_agreementId r)),
      (''holderWallet'', Js_string (rr_holderWallet r)),
      (''holderGnsRecord'', js_opt gns_js (rr_holderGnsRecord r)),
      (''role'', Js_string (role_text (rr_role r))),
      (''counterpartyWallets'', Js_array (map Js_string (rr_counterpartyWallets r))),
      (''counterpartyGnsRecords'', Js_array (map (js_opt gns_js) (rr_counterpartyGnsRecords r))),
      (''sourceProduct'', js_opt (\<lambda>p. Js_string (product_text p)) (rr_sourceProduct r)),
      (''sourceObjectId'', js_opt Js_string (rr_sourceObjectId r)),
      (''deliverableId'', js_opt Js_string (rr_deliverableId r)),
      (''eventType'', Js_string (event_type_text (rr_eventType r))),
      (''outcome'', Js_string (outcome_text (rr_outcome r))),
      (''amount'', js_opt Js_string (rr_amount r)), (''mint'', js_opt Js_string (rr_mint r)),
      (''programId'', Js_string (rr_programId r)),
      (''transactionSignature'', Js_string (rr_transactionSignature r)),
      (''instructionIndex'', js_int (rr_instructionIndex r)),
      (''innerInstructionIndex'', js_opt js_int (rr_innerInstructionIndex r)),
      (''completedAt'', Js_string (rr_completedAt r)),
      (''sealState'', Js_string (seal_text (rr_sealState r))),
      (''disputeOpen'', Js_bool (rr_disputeOpen r)),
      (''mintEligible'', Js_bool (rr_mintEligible r)),
      (''credentialMint'', js_opt Js_string (rr_credentialMint r))]"

section \<open>The validators on typed values\<close>

named_theorems js_simps

lemma test_js_opt [js_simps]:
  "nullable p (js_opt f x) \<longleftrightarrow> pred_option (\<lambda>v. f v = Js_null \<or> p (f v)) x"
  by (cases x) (simp_all add: js_opt_def nullable_def)

lemma js_vocabulary [js_simps]:
  "isReputationEventType (Js_string (event_type_text t))"
  "isReputationOutcome (Js_string (outcome_text out))"
  "isSourceProduct (Js_string (product_text p))"
  "isParticipantRole (Js_string (role_text ro))"
  "isPpvSealState (Js_string (seal_text st))"
      apply (cases t; simp add: isReputationEventType_def REPUTATION_EVENT_TYPES_def)
     apply (cases out; simp add: isReputationOutcome_def REPUTATION_OUTCOMES_def)
    apply (cases p; simp add: isSourceProduct_def SOURCE_PRODUCTS_def)
   apply (cases ro; simp add: isParticipantRole_def PARTICIPANT_ROLES_def)
  apply (cases st; simp add: isPpvSealState_def PPV_SEAL_STATES_def)
  done

lemma pred_option_code [code]: "pred_option p None = True" "pred_option p (Some x) = p x"
  by simp_all

definition iso_text :: "string \<Rightarrow> bool" where
  "iso_text s \<longleftrightarrow> ISO_TIME s \<and> date_parses s"

definition valid_gns :: "gns_snapshot \<Rightarrow> bool" where
  "valid_gns g \<longleftrightarrow> gns_schemaVersion g = 1 \<and> GNS_LABEL (gns_name g)
     \<and> gns_fullName g = gns_name g @ ''.gwap'' \<and> BASE58_ADDRESS (gns_owner g)
     \<and> iso_text (gns_resolvedAt g)"

text \<open>A snapshot attached to a wallet: valid, and owned by that wallet.\<close>

definition snapshot_of :: "string option \<Rightarrow> gns_snapshot option \<Rightarrow> bool" where
  "snapshot_of wallet snap \<longleftrightarrow>
     pred_option (\<lambda>g. valid_gns g \<and> wallet = Some (gns_owner g)) snap"

lemma gns_js_valid [js_simps]: "isGnsRecordSnapshot (gns_js g) = valid_gns g"
  unfolding isGnsRecordSnapshot_def gns_js_def valid_gns_def
  by (auto simp: js_int_def isSolanaAddress_def isIsoTimestamp_def iso_text_def
      GNS_RECORD_SNAPSHOT_SCHEMA_VERSION_def)

lemma gns_js_not_null [js_simps]: "gns_js g \<noteq> Js_null" "gns_js g \<noteq> Js_undefined"
  "js_get ''owner'' (gns_js g) = Js_string (gns_owner g)"
  by (simp_all add: gns_js_def)

lemma js_string_tests [js_simps]:
  "isSolanaAddress (Js_string s) = BASE58_ADDRESS s"
  "isTransactionSignature (Js_string s) = BASE58_SIGNATURE s"
  "isSha256Hex (Js_string s) = HEX_32 s"
  "isIsoTimestamp (Js_string s) = iso_text s"
  "isInstructionIndex (js_int n) \<longleftrightarrow> 0 \<le> n \<and> n < 1024"
  "js_int n = js_int m \<longleftrightarrow> n = m" "js_int n \<noteq> Js_null"
  "is_boolean (Js_bool b)" "test_number q (js_int n) = q (Whole n)"
  "pred_option (\<lambda>_. True) x"
  by (simp_all add: option.pred_True isSolanaAddress_def isTransactionSignature_def isSha256Hex_def
      isIsoTimestamp_def iso_text_def isInstructionIndex_def js_int_def is_boolean_def)

lemma snapshot_null [js_simps]:
  "nullableSnapshot (js_opt gns_js g) = pred_option valid_gns g"
  by (cases g) (auto simp: nullableSnapshot_def js_simps js_opt_def nullable_def)

lemma snapshot_wallet [js_simps]:
  "snapshotMatchesWallet (js_opt gns_js g) (js_opt Js_string w) = snapshot_of w g"
  "snapshotMatchesWallet (js_opt gns_js g) (Js_string v) = snapshot_of (Some v) g"
  by (cases g; cases w; auto simp: js_opt_def snapshotMatchesWallet_def snapshot_of_def js_simps
      isSolanaAddress_def valid_gns_def)+

lemma snapshot_of_valid: "snapshot_of w g \<Longrightarrow> pred_option valid_gns g"
  by (cases g) (simp_all add: snapshot_of_def)

definition valid_event :: "reputation_event \<Rightarrow> bool" where
  "valid_event e \<longleftrightarrow> re_schemaVersion e = 1 \<and> prefixed_id ''evt_'' (re_eventId e)
     \<and> iso_text (re_occurredAt e) \<and> BASE58_ADDRESS (re_actorWallet e)
     \<and> snapshot_of (Some (re_actorWallet e)) (re_actorGnsRecord e)
     \<and> pred_option BASE58_ADDRESS (re_counterpartyWallet e)
     \<and> snapshot_of (re_counterpartyWallet e) (re_counterpartyGnsRecord e)
     \<and> pred_option BASE58_ADDRESS (re_ppvProofId e) \<and> pred_option HEX_32 (re_proofHash e)
     \<and> pred_option BASE58_ADDRESS (re_agreementId e) \<and> pred_option BASE58_ADDRESS (re_escrowId e)
     \<and> pred_option (\<lambda>i. 0 \<le> i) (re_milestoneIndex e)
     \<and> pred_option (\<lambda>s. 0 < length s \<and> length s \<le> 200) (re_sourceObjectId e)
     \<and> pred_option (\<lambda>s. 0 < length s \<and> length s \<le> 200) (re_deliverableId e)
     \<and> pred_option AMOUNT_TEXT (re_amount e) \<and> pred_option BASE58_ADDRESS (re_mint e)
     \<and> BASE58_ADDRESS (re_programId e) \<and> BASE58_SIGNATURE (re_transactionSignature e)
     \<and> 0 \<le> re_instructionIndex e \<and> re_instructionIndex e < 1024
     \<and> pred_option (\<lambda>i. 0 \<le> i \<and> i < 1024) (re_innerInstructionIndex e)"

lemma json_get [simp]:
  "js_get k (Js_object ((k', v) # fs)) = (if k = k' then v else js_get k (Js_object fs))"
  by simp

lemma event_js_get:
  "js_get ''schemaVersion'' (event_js e) = js_int (re_schemaVersion e)"
  "js_get ''eventId'' (event_js e) = Js_string (re_eventId e)"
  "js_get ''eventType'' (event_js e) = Js_string (event_type_text (re_eventType e))"
  "js_get ''occurredAt'' (event_js e) = Js_string (re_occurredAt e)"
  "js_get ''eventSource'' (event_js e) = Js_string (source_text (re_eventSource e))"
  "js_get ''actorWallet'' (event_js e) = Js_string (re_actorWallet e)"
  "js_get ''actorGnsRecord'' (event_js e) = js_opt gns_js (re_actorGnsRecord e)"
  "js_get ''counterpartyWallet'' (event_js e) = js_opt Js_string (re_counterpartyWallet e)"
  "js_get ''counterpartyGnsRecord'' (event_js e) = js_opt gns_js (re_counterpartyGnsRecord e)"
  "js_get ''ppvProofId'' (event_js e) = js_opt Js_string (re_ppvProofId e)"
  "js_get ''proofHash'' (event_js e) = js_opt Js_string (re_proofHash e)"
  "js_get ''agreementId'' (event_js e) = js_opt Js_string (re_agreementId e)"
  "js_get ''escrowId'' (event_js e) = js_opt Js_string (re_escrowId e)"
  "js_get ''milestoneIndex'' (event_js e) = js_opt js_int (re_milestoneIndex e)"
  "js_get ''sourceProduct'' (event_js e) = js_opt (\<lambda>p. Js_string (product_text p)) (re_sourceProduct e)"
  "js_get ''sourceObjectId'' (event_js e) = js_opt Js_string (re_sourceObjectId e)"
  "js_get ''deliverableId'' (event_js e) = js_opt Js_string (re_deliverableId e)"
  "js_get ''amount'' (event_js e) = js_opt Js_string (re_amount e)"
  "js_get ''mint'' (event_js e) = js_opt Js_string (re_mint e)"
  "js_get ''outcome'' (event_js e) = Js_string (outcome_text (re_outcome e))"
  "js_get ''programId'' (event_js e) = Js_string (re_programId e)"
  "js_get ''transactionSignature'' (event_js e) = Js_string (re_transactionSignature e)"
  "js_get ''instructionIndex'' (event_js e) = js_int (re_instructionIndex e)"
  "js_get ''innerInstructionIndex'' (event_js e) = js_opt js_int (re_innerInstructionIndex e)"
  by (simp_all only: event_js_def json_get list.inject char.inject simp_thms list.distinct if_True if_False)

lemma nullable_opt:
  "(\<And>v. f v \<noteq> Js_null) \<Longrightarrow> nullable p (js_opt f x) = pred_option (\<lambda>v. p (f v)) x"
  by (cases x) (simp_all add: js_opt_def nullable_def)

lemma nullable_tests [js_simps]:
  "nullableAddress (js_opt Js_string x) = pred_option BASE58_ADDRESS x"
  "nullableString (js_opt Js_string x) = pred_option (\<lambda>s. 0 < length s \<and> length s \<le> 200) x"
  "isAmount (js_opt Js_string x) = pred_option AMOUNT_TEXT x"
  "nullable isSha256Hex (js_opt Js_string x) = pred_option HEX_32 x"
  "nullable isSourceProduct (js_opt (\<lambda>p. Js_string (product_text p)) y) = True"
  "nullable isInstructionIndex (js_opt js_int z) = pred_option (\<lambda>i. 0 \<le> i \<and> i < 1024) z"
  "nullable (test_number (\<lambda>n. is_integer n \<and> 0 \<le> whole n)) (js_opt js_int z) = pred_option (\<lambda>i. 0 \<le> i) z"
  unfolding nullableAddress_def nullableString_def isAmount_def
  by (simp_all add: nullable_opt js_string_tests js_vocabulary option.pred_True)

lemma isReputationEventV1_event: "isReputationEventV1 (event_js e) = valid_event e"
proof -
  have src: "Js_string (source_text s) = Js_string ''chain'' \<or> Js_string (source_text s) = Js_string ''product''" for s
    by (cases s) simp_all
  have obj: "is_object (event_js e)" by (simp add: event_js_def)
  show ?thesis
    unfolding isReputationEventV1_def event_js_get valid_event_def js_string_tests nullable_tests
      snapshot_wallet snapshot_null REPUTATION_EVENT_SCHEMA_VERSION_def test_string.simps
    by (simp only: src js_vocabulary obj simp_thms) (blast dest: snapshot_of_valid)
qed

definition valid_receipt :: "ppv_receipt \<Rightarrow> bool" where
  "valid_receipt r \<longleftrightarrow> rr_schemaVersion r = 1 \<and> prefixed_id ''rcpt_'' (rr_receiptId r)
     \<and> prefixed_id ''evt_'' (rr_eventId r)
     \<and> pred_option BASE58_ADDRESS (rr_ppvProofId r) \<and> pred_option HEX_32 (rr_proofHash r)
     \<and> pred_option BASE58_ADDRESS (rr_agreementId r) \<and> BASE58_ADDRESS (rr_holderWallet r)
     \<and> snapshot_of (Some (rr_holderWallet r)) (rr_holderGnsRecord r)
     \<and> list_all BASE58_ADDRESS (rr_counterpartyWallets r)
     \<and> list_all2 (\<lambda>g w. snapshot_of (Some w) g) (rr_counterpartyGnsRecords r)
         (rr_counterpartyWallets r)
     \<and> pred_option (\<lambda>s. 0 < length s \<and> length s \<le> 200) (rr_sourceObjectId r)
     \<and> pred_option (\<lambda>s. 0 < length s \<and> length s \<le> 200) (rr_deliverableId r)
     \<and> pred_option AMOUNT_TEXT (rr_amount r) \<and> pred_option BASE58_ADDRESS (rr_mint r)
     \<and> BASE58_ADDRESS (rr_programId r) \<and> BASE58_SIGNATURE (rr_transactionSignature r)
     \<and> 0 \<le> rr_instructionIndex r \<and> rr_instructionIndex r < 1024
     \<and> pred_option (\<lambda>i. 0 \<le> i \<and> i < 1024) (rr_innerInstructionIndex r)
     \<and> iso_text (rr_completedAt r) \<and> pred_option BASE58_ADDRESS (rr_credentialMint r)"

lemma receipt_js_get:
  "js_get ''schemaVersion'' (receipt_js r) = js_int (rr_schemaVersion r)"
  "js_get ''receiptId'' (receipt_js r) = Js_string (rr_receiptId r)"
  "js_get ''eventId'' (receipt_js r) = Js_string (rr_eventId r)"
  "js_get ''ppvProofId'' (receipt_js r) = js_opt Js_string (rr_ppvProofId r)"
  "js_get ''proofHash'' (receipt_js r) = js_opt Js_string (rr_proofHash r)"
  "js_get ''agreementId'' (receipt_js r) = js_opt Js_string (rr_agreementId r)"
  "js_get ''holderWallet'' (receipt_js r) = Js_string (rr_holderWallet r)"
  "js_get ''holderGnsRecord'' (receipt_js r) = js_opt gns_js (rr_holderGnsRecord r)"
  "js_get ''role'' (receipt_js r) = Js_string (role_text (rr_role r))"
  "js_get ''counterpartyWallets'' (receipt_js r) = Js_array (map Js_string (rr_counterpartyWallets r))"
  "js_get ''counterpartyGnsRecords'' (receipt_js r) = Js_array (map (js_opt gns_js) (rr_counterpartyGnsRecords r))"
  "js_get ''sourceProduct'' (receipt_js r) = js_opt (\<lambda>p. Js_string (product_text p)) (rr_sourceProduct r)"
  "js_get ''sourceObjectId'' (receipt_js r) = js_opt Js_string (rr_sourceObjectId r)"
  "js_get ''deliverableId'' (receipt_js r) = js_opt Js_string (rr_deliverableId r)"
  "js_get ''eventType'' (receipt_js r) = Js_string (event_type_text (rr_eventType r))"
  "js_get ''outcome'' (receipt_js r) = Js_string (outcome_text (rr_outcome r))"
  "js_get ''amount'' (receipt_js r) = js_opt Js_string (rr_amount r)"
  "js_get ''mint'' (receipt_js r) = js_opt Js_string (rr_mint r)"
  "js_get ''programId'' (receipt_js r) = Js_string (rr_programId r)"
  "js_get ''transactionSignature'' (receipt_js r) = Js_string (rr_transactionSignature r)"
  "js_get ''instructionIndex'' (receipt_js r) = js_int (rr_instructionIndex r)"
  "js_get ''innerInstructionIndex'' (receipt_js r) = js_opt js_int (rr_innerInstructionIndex r)"
  "js_get ''completedAt'' (receipt_js r) = Js_string (rr_completedAt r)"
  "js_get ''sealState'' (receipt_js r) = Js_string (seal_text (rr_sealState r))"
  "js_get ''disputeOpen'' (receipt_js r) = Js_bool (rr_disputeOpen r)"
  "js_get ''mintEligible'' (receipt_js r) = Js_bool (rr_mintEligible r)"
  "js_get ''credentialMint'' (receipt_js r) = js_opt Js_string (rr_credentialMint r)"
  by (simp_all only: receipt_js_def json_get list.inject char.inject simp_thms list.distinct if_True if_False)

lemma js_every_wallets [js_simps]:
  "js_every isSolanaAddress (Js_array (map Js_string ws)) = list_all BASE58_ADDRESS ws"
  by (simp add: list.pred_map comp_def js_string_tests)

lemma js_snapshots [js_simps]:
  "js_every nullableSnapshot (Js_array (map (js_opt gns_js) gs)) = list_all (pred_option valid_gns) gs"
  "snapshotListMatchesWallets (Js_array (map (js_opt gns_js) gs)) (Js_array (map Js_string ws))
     = list_all2 (\<lambda>g w. snapshot_of (Some w) g) gs ws"
  by (auto simp: list.pred_map comp_def snapshot_null snapshot_wallet list_all2_map1 list_all2_map2
      dest: list_all2_lengthD)

lemma snapshots_valid:
  "list_all2 (\<lambda>g w. snapshot_of (Some w) g) gs ws \<Longrightarrow> list_all (pred_option valid_gns) gs"
  by (induction rule: list_all2_induct) (auto dest: snapshot_of_valid)

lemma isPpvReceiptV1_receipt: "isPpvReceiptV1 (receipt_js r) = valid_receipt r"
proof -
  have obj: "is_object (receipt_js r)" by (simp add: receipt_js_def)
  show ?thesis
    unfolding isPpvReceiptV1_def receipt_js_get valid_receipt_def js_string_tests nullable_tests
      snapshot_wallet snapshot_null PPV_RECEIPT_SCHEMA_VERSION_def test_string.simps
      js_every_wallets js_snapshots
    by (simp only: js_vocabulary js_string_tests obj simp_thms) (blast dest: snapshot_of_valid snapshots_valid)
qed

section \<open>What the writers produce passes the patterns\<close>

lemma base58_alphabet_class: "list_all base58_class ALPHABET"
  by code_simp

lemma repeated_subset: "set s \<subseteq> set cs \<Longrightarrow> list_all cls cs \<Longrightarrow> lo \<le> length s \<Longrightarrow> length s \<le> hi
    \<Longrightarrow> repeated cls lo hi s"
  by (auto simp: repeated_def list_all_iff)

lemma encodeBase58_address: "length bs = 32 \<Longrightarrow> BASE58_ADDRESS (encodeBase58 bs)"
  unfolding BASE58_ADDRESS_def using encodeBase58_length_32 [of bs]
  by (intro repeated_subset [OF encodeBase58_alphabet base58_alphabet_class]) simp_all

lemma encodeBase58_signature: "length bs = 64 \<Longrightarrow> BASE58_SIGNATURE (encodeBase58 bs)"
  unfolding BASE58_SIGNATURE_def using encodeBase58_length_64 [of bs]
  by (intro repeated_subset [OF encodeBase58_alphabet base58_alphabet_class]) simp_all

lemma lower_hex_class_iff: "list_all lower_hex_class ''0123456789abcdef''"
  by code_simp

lemma hex_repeated: "\<forall>c \<in> set s. is_lower_hex c \<Longrightarrow> length s = n \<Longrightarrow> repeated lower_hex_class n n s"
  unfolding is_lower_hex_def by (rule repeated_subset [OF _ lower_hex_class_iff]) (blast, linarith+)

lemma prefixed_sha:
  assumes "20 \<le> length (sha (utf8 m))"
  shows "prefixed_id tag (tag @ take ID_HEX_LENGTH (sha256Hex sha m))"
  unfolding prefixed_id_def using assms hex_chars [of "sha (utf8 m)"]
  by (auto intro!: hex_repeated simp: sha256Hex_def ID_HEX_LENGTH_def dest: in_set_takeD)

lemma digit_range: "is_digit c \<longleftrightarrow> in_range CHR ''0'' CHR ''9'' c"
proof -
  have "list_all (\<lambda>c. in_range CHR ''0'' CHR ''9'' c = is_digit c) Enum.enum"
    by code_simp
  then show ?thesis by (simp add: list_all_iff enum_UNIV)
qed

lemma all_digits: "d < 10 \<Longrightarrow> in_range CHR ''0'' CHR ''9'' (digit_char d)"
  using digit_char_props digit_range by blast

lemma zero_digit: "in_range CHR ''0'' CHR ''9'' CHR ''0''"
  by code_simp

lemma pad_digits:
  assumes "0 \<le> n" and "n < 10 ^ w" and "0 < w"
  shows "length (pad w n) = w \<and> (\<forall>c \<in> set (pad w n). is_digit c) \<and> nat_of_dec (pad w n) = nat n"
proof -
  have "nat n < 10 ^ w" using assms by (simp add: nat_less_iff)
  then have "length (dec_nat (nat n)) \<le> w" using assms(3) by (rule length_dec_nat_less)
  moreover have "nat_of_dec (replicate k (CHR ''0'') @ s) = nat_of_dec s" for k s
    by (induction k) (simp_all add: nat_of_dec_def digit_val_def)
  moreover have "is_digit c" if "c \<in> set (replicate k (CHR ''0'') @ dec_nat m)" for c k m
    using that dec_nat_digits [of m] digit_char_props [of 0] by (auto simp: digit_char_def)
  ultimately show ?thesis
    unfolding pad_def Let_def by (intro conjI ballI) (simp, blast, simp)
qed

lemma pad_twoE:
  assumes "0 \<le> n" and "n < 100"
  obtains a b where "pad 2 n = [a, b]" "is_digit a" "is_digit b" "nat_of_dec [a, b] = nat n"
proof -
  note h = pad_digits [of n 2]
  then obtain a b where "pad 2 n = [a, b]" using assms by (auto simp: length_Suc_conv numeral_2_eq_2)
  with h assms that show thesis by auto
qed

lemma pad_fourE:
  assumes "0 \<le> n" and "n < 10000"
  obtains a b c d where "pad 4 n = [a, b, c, d]" "is_digit a" "is_digit b" "is_digit c" "is_digit d"
proof -
  note h = pad_digits [of n 4]
  then have "length (pad 4 n) = 4" using assms by simp
  then obtain a b c d where "pad 4 n = [a, b, c, d]" by (auto simp: length_Suc_conv numeral_eq_Suc)
  with h assms that show thesis by auto
qed

lemma toISOString_iso:
  assumes "toISOString s = Inr t" and "0 \<le> s" and "s < 253402300800"
  shows "iso_text t"
proof -
  obtain y m d where civil: "civil_of_days (s div 86400) = (y, m, d)" by (cases "civil_of_days (s div 86400)")
  have range: "0 \<le> y" "y \<le> 9999" "1 \<le> m" "m \<le> 12" "1 \<le> d" "d \<le> 31"
    using civil_range [OF civil] assms(2,3) by auto
  define sec where "sec = s mod 86400"
  have sec: "0 \<le> sec div 3600" "sec div 3600 < 24" "0 \<le> sec div 60 mod 60" "sec div 60 mod 60 < 60"
    "0 \<le> sec mod 60" "sec mod 60 < 60"
    unfolding sec_def by simp_all
  have t: "t = pad 4 y @ ''-'' @ pad 2 m @ ''-'' @ pad 2 d @ ''T'' @ pad 2 (sec div 3600) @ '':''
      @ pad 2 (sec div 60 mod 60) @ '':'' @ pad 2 (sec mod 60) @ ''.000Z''"
    using assms(1) civil range
    by (auto simp: toISOString_def Let_def year_text_def sec_def split: if_splits)
  obtain y1 y2 y3 y4 where Y: "pad 4 y = [y1, y2, y3, y4]" "is_digit y1" "is_digit y2" "is_digit y3" "is_digit y4"
    by (rule pad_fourE [of y]) (use range in auto)
  obtain m1 m2 where M: "pad 2 m = [m1, m2]" "is_digit m1" "is_digit m2" "nat_of_dec [m1, m2] = nat m"
    by (rule pad_twoE [of m]) (use range in auto)
  obtain d1 d2 where D: "pad 2 d = [d1, d2]" "is_digit d1" "is_digit d2" "nat_of_dec [d1, d2] = nat d"
    by (rule pad_twoE [of d]) (use range in auto)
  obtain h1 h2 where H: "pad 2 (sec div 3600) = [h1, h2]" "is_digit h1" "is_digit h2"
      "nat_of_dec [h1, h2] = nat (sec div 3600)"
    by (rule pad_twoE [of "sec div 3600"]) (use sec in auto)
  obtain n1 n2 where N: "pad 2 (sec div 60 mod 60) = [n1, n2]" "is_digit n1" "is_digit n2"
      "nat_of_dec [n1, n2] = nat (sec div 60 mod 60)"
    by (rule pad_twoE [of "sec div 60 mod 60"]) (use sec in auto)
  obtain s1 s2 where S: "pad 2 (sec mod 60) = [s1, s2]" "is_digit s1" "is_digit s2"
      "nat_of_dec [s1, s2] = nat (sec mod 60)"
    by (rule pad_twoE [of "sec mod 60"]) (use sec in auto)
  have t': "t = [y1, y2, y3, y4, CHR ''-'', m1, m2, CHR ''-'', d1, d2, CHR ''T'', h1, h2, CHR '':'',
      n1, n2, CHR '':'', s1, s2, CHR ''.'', CHR ''0'', CHR ''0'', CHR ''0'', CHR ''Z'']"
    unfolding t Y(1) M(1) D(1) H(1) N(1) S(1) by simp
  have "like ''9999-99-99T99:99:99.999Z'' t"
    unfolding t' using Y(2-5) M(2,3) D(2,3) H(2,3) N(2,3) S(2,3) zero_digit
    unfolding digit_range
    by (simp only: like.simps char.inject if_True if_False simp_thms)
  moreover have two: "two_at 5 t = nat m" "two_at 8 t = nat d" "two_at 11 t = nat (sec div 3600)"
    "two_at 14 t = nat (sec div 60 mod 60)" "two_at 17 t = nat (sec mod 60)"
    unfolding M(4) [symmetric] D(4) [symmetric] H(4) [symmetric] N(4) [symmetric] S(4) [symmetric]
      t' two_at_def by (rule arg_cong [where f = nat_of_dec], simp)+
  have "date_parses t"
    unfolding date_parses_def Let_def two using range sec by auto
  ultimately show ?thesis by (simp add: iso_text_def ISO_TIME_def)
qed

lemma dec_amount:
  assumes "0 \<le> n" and "n < 10 ^ 39"
  shows "AMOUNT_TEXT (dec_int n)"
proof (cases "n = 0")
  case False
  have dec: "dec_int n = dec_nat (nat n)" using assms by (simp add: dec_int_def)
  have "length (dec_nat (nat n)) \<le> 39"
    using assms by (intro length_dec_nat_less) (simp_all add: nat_less_iff)
  moreover have "hd (dec_nat (nat n)) \<noteq> CHR ''0''" using False assms by (simp add: dec_nat_hd)
  moreover have all: "\<forall>c \<in> set (dec_nat (nat n)). in_range CHR ''0'' CHR ''9'' c"
    using dec_nat_digits digit_range by blast
  moreover have "in_range CHR ''1'' CHR ''9'' c" if "in_range CHR ''0'' CHR ''9'' c" "c \<noteq> CHR ''0''" for c
  proof -
    have "list_all (\<lambda>c. in_range CHR ''0'' CHR ''9'' c \<longrightarrow> c = CHR ''0'' \<or> in_range CHR ''1'' CHR ''9'' c) Enum.enum"
      by code_simp
    with that show ?thesis by (auto simp: list_all_iff enum_UNIV)
  qed
  moreover have "hd (dec_nat (nat n)) \<in> set (dec_nat (nat n))" by simp
  moreover have "1 \<le> length (dec_nat (nat n))" by (simp add: Suc_le_eq)
  ultimately show ?thesis
    unfolding AMOUNT_TEXT_def repeated_def dec list_all_iff by blast
qed (simp add: dec_int_def AMOUNT_TEXT_def)

end
