(* ===== verification/Seal.thy ===== *)
theory Seal
  imports Contracts
begin

text \<open>
  Seal state (\<open>sdk/src/reputation/seal-state.ts\<close>): the fold of the known events of a proof or
  agreement into facts, the state the facts resolve to and its rank. Times are compared as
  the source compares them, as text by code units.
\<close>

record seal_facts =
  sf_chainVerified :: bool
  sf_proofRevoked :: bool
  sf_counterpartyConfirmed :: bool
  sf_settled :: bool
  sf_refunded :: bool
  sf_disputeOpen :: bool
  sf_disputeResolved :: bool

definition EMPTY_SEAL_FACTS :: seal_facts where
  "EMPTY_SEAL_FACTS =
     \<lparr>sf_chainVerified = False, sf_proofRevoked = False, sf_counterpartyConfirmed = False,
      sf_settled = False, sf_refunded = False, sf_disputeOpen = False,
      sf_disputeResolved = False\<rparr>"

text \<open>The variables of the fold: the facts and the two latest dispute times.\<close>

record seal_fold =
  fold_facts :: seal_facts
  fold_opened :: "string option"
  fold_resolved :: "string option"

text \<open>\<open>if (!last || at > last) last = at\<close>; the empty string is false.\<close>

definition later :: "string option \<Rightarrow> string \<Rightarrow> string option" where
  "later latest at =
     (if latest = None \<or> latest = Some [] \<or> the latest < at then Some at else latest)"

fun seal_step :: "seal_fold \<Rightarrow> reputation_event \<Rightarrow> seal_fold" where
  "seal_step s e =
     (case re_eventType e of
        Type_proof_revoked \<Rightarrow> s\<lparr>fold_facts := (fold_facts s)\<lparr>sf_proofRevoked := True\<rparr>\<rparr>
      | Type_agreement_executed \<Rightarrow>
          s\<lparr>fold_facts := (fold_facts s)\<lparr>sf_counterpartyConfirmed := True\<rparr>\<rparr>
      | Type_milestone_approved \<Rightarrow>
          s\<lparr>fold_facts := (fold_facts s)\<lparr>sf_counterpartyConfirmed := True\<rparr>\<rparr>
      | Type_proof_approved \<Rightarrow>
          s\<lparr>fold_facts := (fold_facts s)\<lparr>sf_counterpartyConfirmed := True\<rparr>\<rparr>
      | Type_invoice_paid \<Rightarrow>
          s\<lparr>fold_facts := (fold_facts s)\<lparr>sf_counterpartyConfirmed := True, sf_settled := True\<rparr>\<rparr>
      | Type_settlement_completed \<Rightarrow>
          s\<lparr>fold_facts := (fold_facts s)\<lparr>sf_counterpartyConfirmed := True, sf_settled := True\<rparr>\<rparr>
      | Type_milestone_settled \<Rightarrow>
          s\<lparr>fold_facts := (fold_facts s)\<lparr>sf_counterpartyConfirmed := True, sf_settled := True\<rparr>\<rparr>
      | Type_agreement_refunded \<Rightarrow> s\<lparr>fold_facts := (fold_facts s)\<lparr>sf_refunded := True\<rparr>\<rparr>
      | Type_dispute_opened \<Rightarrow> s\<lparr>fold_opened := later (fold_opened s) (re_occurredAt e)\<rparr>
      | Type_dispute_resolved \<Rightarrow> s\<lparr>fold_resolved := later (fold_resolved s) (re_occurredAt e)\<rparr>
      | _ \<Rightarrow> s)"

definition deriveSealFacts :: "reputation_event list \<Rightarrow> bool \<Rightarrow> seal_facts" where
  "deriveSealFacts events chainVerified =
     (let s = foldl seal_step
          \<lparr>fold_facts = EMPTY_SEAL_FACTS\<lparr>sf_chainVerified := chainVerified\<rparr>,
           fold_opened = None, fold_resolved = None\<rparr> events
      in (fold_facts s)
         \<lparr>sf_disputeResolved := fold_resolved s \<noteq> None,
          sf_disputeOpen := fold_opened s \<noteq> None
            \<and> (fold_resolved s = None \<or> the (fold_resolved s) < the (fold_opened s))\<rparr>)"

definition resolveSealState :: "seal_facts \<Rightarrow> seal_state" where
  "resolveSealState facts =
     (if sf_proofRevoked facts then Seal_revoked
      else if sf_disputeResolved facts \<and> \<not> sf_disputeOpen facts then Seal_dispute_resolved
      else if sf_settled facts then Seal_settled
      else if sf_counterpartyConfirmed facts then Seal_counterparty_confirmed
      else if sf_chainVerified facts then Seal_verified
      else Seal_recorded)"

fun sealRank :: "seal_state \<Rightarrow> int" where
  "sealRank Seal_revoked = -1"
| "sealRank Seal_recorded = 0"
| "sealRank Seal_verified = 1"
| "sealRank Seal_counterparty_confirmed = 2"
| "sealRank Seal_settled = 3"
| "sealRank Seal_dispute_resolved = 4"

section \<open>What the facts say of the events\<close>

definition confirming :: "reputation_event_type set" where
  "confirming = {Type_agreement_executed, Type_milestone_approved, Type_proof_approved}"

definition settling :: "reputation_event_type set" where
  "settling = {Type_invoice_paid, Type_settlement_completed, Type_milestone_settled}"

definition times_of :: "reputation_event_type \<Rightarrow> reputation_event set \<Rightarrow> string set" where
  "times_of ty es = re_occurredAt ` {e \<in> es. re_eventType e = ty}"

definition has_type :: "reputation_event_type set \<Rightarrow> reputation_event set \<Rightarrow> bool" where
  "has_type tys es \<longleftrightarrow> (\<exists>e \<in> es. re_eventType e \<in> tys)"

text \<open>The facts as a function of the set of events alone.\<close>

definition facts_of :: "reputation_event set \<Rightarrow> bool \<Rightarrow> seal_facts" where
  "facts_of es chainVerified =
     \<lparr>sf_chainVerified = chainVerified,
      sf_proofRevoked = has_type {Type_proof_revoked} es,
      sf_counterpartyConfirmed = has_type (confirming \<union> settling) es,
      sf_settled = has_type settling es,
      sf_refunded = has_type {Type_agreement_refunded} es,
      sf_disputeOpen = (\<exists>t \<in> times_of Type_dispute_opened es.
          \<forall>u \<in> times_of Type_dispute_resolved es. u < t),
      sf_disputeResolved = has_type {Type_dispute_resolved} es\<rparr>"

text \<open>The latest of a finite set of times.\<close>

definition latest_of :: "string set \<Rightarrow> string option" where
  "latest_of ts = (if ts = {} then None else Some (Max ts))"

lemma later_latest:
  assumes "finite ts"
  shows "later (latest_of ts) t = latest_of (insert t ts)"
proof (cases "ts = {}")
  case False
  have "Max (insert t ts) = max t (Max ts)" using assms False by (rule Max_insert)
  moreover have "max t [] = t" by (simp add: max_def)
  ultimately show ?thesis
    unfolding later_def latest_of_def using False
    by (simp only: insert_not_empty if_False option.inject option.distinct option.sel simp_thms)
       (simp only: max_def, auto split: if_splits)
qed (simp add: later_def latest_of_def)

text \<open>What the fold holds after the events of \<open>es\<close>.\<close>

definition fold_state :: "reputation_event set \<Rightarrow> bool \<Rightarrow> seal_fold" where
  "fold_state es cv =
     \<lparr>fold_facts = (facts_of es cv)\<lparr>sf_disputeOpen := False, sf_disputeResolved := False\<rparr>,
      fold_opened = latest_of (times_of Type_dispute_opened es),
      fold_resolved = latest_of (times_of Type_dispute_resolved es)\<rparr>"

lemma finite_times [simp]: "finite es \<Longrightarrow> finite (times_of ty es)"
  by (simp add: times_of_def)

lemma times_insert:
  "times_of ty (insert e es) =
     (if re_eventType e = ty then insert (re_occurredAt e) (times_of ty es) else times_of ty es)"
  by (auto simp: times_of_def)

lemma has_type_insert: "has_type tys (insert e es) \<longleftrightarrow> re_eventType e \<in> tys \<or> has_type tys es"
  by (auto simp: has_type_def)

lemma seal_step_state:
  assumes "finite es"
  shows "seal_step (fold_state es cv) e = fold_state (insert e es) cv"
  using assms
  by (cases "re_eventType e")
     (simp_all add: fold_state_def facts_of_def times_insert has_type_insert later_latest
       confirming_def settling_def)

lemma fold_state_fold:
  "finite es \<Longrightarrow> foldl seal_step (fold_state es cv) evs = fold_state (es \<union> set evs) cv"
proof (induction evs arbitrary: es)
  case (Cons e evs)
  have "insert e es \<union> set evs = es \<union> set (e # evs)" by auto
  with Cons.IH [of "insert e es"] Cons.prems show ?case
    by (simp only: foldl.simps seal_step_state finite_insert)
qed simp

lemma fold_state_empty:
  "\<lparr>fold_facts = EMPTY_SEAL_FACTS\<lparr>sf_chainVerified := cv\<rparr>, fold_opened = None,
    fold_resolved = None\<rparr> = fold_state {} cv"
  by (simp add: fold_state_def facts_of_def EMPTY_SEAL_FACTS_def has_type_def times_of_def
      latest_of_def)

lemma open_latest:
  assumes "finite os" and "finite rs"
  shows "(latest_of os \<noteq> None \<and> (latest_of rs = None \<or> the (latest_of rs) < the (latest_of os)))
     \<longleftrightarrow> (\<exists>t \<in> os. \<forall>u \<in> rs. u < t)"
proof (cases "os = {} \<or> rs = {}")
  case False
  then have "(\<exists>t \<in> os. \<forall>u \<in> rs. u < t) \<longleftrightarrow> Max rs < Max os"
    using assms by (metis Max_in Max_less_iff Max_ge order_less_le_trans)
  with False show ?thesis by (simp add: latest_of_def)
qed (auto simp: latest_of_def)

lemma times_empty: "times_of ty es = {} \<longleftrightarrow> \<not> has_type {ty} es"
  by (auto simp: times_of_def has_type_def)

lemma facts_of_events: "deriveSealFacts events cv = facts_of (set events) cv"
  unfolding deriveSealFacts_def fold_state_empty
    fold_state_fold [OF finite.emptyI, of cv events, simplified] Let_def
  using open_latest [of "times_of Type_dispute_opened (set events)"
      "times_of Type_dispute_resolved (set events)"]
    times_empty [of Type_dispute_resolved "set events"]
  by (auto simp: fold_state_def facts_of_def latest_of_def)

section \<open>Properties\<close>


text \<open>
  No party seals itself. From events in which nobody but their own author took part
  (work declared complete, evidence submitted, agreements proposed, funded or abandoned) the
  seal never rises above what the indexer itself verified; a revocation always ranks lowest;
  and a settled seal needs an event that moved the value, a resolved one an event that
  resolved the dispute.
\<close>

theorem seal_not_self_made:
  "let st = resolveSealState (deriveSealFacts events cv); types = re_eventType ` set events
   in (st = Seal_revoked \<longleftrightarrow> Type_proof_revoked \<in> types)
    \<and> (sealRank st < 0 \<longleftrightarrow> Type_proof_revoked \<in> types)
    \<and> (types \<inter> (confirming \<union> settling \<union> {Type_dispute_resolved, Type_proof_revoked}) = {}
         \<longrightarrow> sealRank st = (if cv then 1 else 0))
    \<and> (st = Seal_settled \<longrightarrow> types \<inter> settling \<noteq> {})
    \<and> (st = Seal_dispute_resolved \<longrightarrow> Type_dispute_resolved \<in> types)"
proof -
  have ty: "has_type tys (set events) \<longleftrightarrow> re_eventType ` set events \<inter> tys \<noteq> {}" for tys
    by (auto simp: has_type_def)
  show ?thesis
    unfolding Let_def facts_of_events resolveSealState_def facts_of_def seal_facts.simps ty by auto
qed

section \<open>Examples\<close>

definition sample_event :: "reputation_event_type \<Rightarrow> string \<Rightarrow> reputation_event" where
  "sample_event ty t =
     \<lparr>re_schemaVersion = 1, re_eventId = ''evt_'' @ replicate 40 CHR ''0'', re_eventType = ty,
      re_occurredAt = t, re_eventSource = Source_chain,
      re_actorWallet = replicate 32 CHR ''1'', re_actorGnsRecord = None,
      re_counterpartyWallet = None, re_counterpartyGnsRecord = None, re_ppvProofId = None,
      re_proofHash = None, re_agreementId = None, re_escrowId = None, re_milestoneIndex = None,
      re_sourceProduct = None, re_sourceObjectId = None, re_deliverableId = None,
      re_amount = None, re_mint = None, re_outcome = Out_recorded,
      re_programId = replicate 32 CHR ''1'', re_transactionSignature = replicate 64 CHR ''1'',
      re_instructionIndex = 0, re_innerInstructionIndex = None\<rparr>"

theorem seal_not_self_made_witness:
  "sealRank (resolveSealState (deriveSealFacts
     [sample_event Type_work_completed ''2024-01-01T00:00:00.000Z'',
      sample_event Type_proof_created ''2024-01-02T00:00:00.000Z''] True)) = 1"
  using seal_not_self_made [of "[sample_event Type_work_completed ''2024-01-01T00:00:00.000Z'',
      sample_event Type_proof_created ''2024-01-02T00:00:00.000Z'']" True]
  by (simp add: Let_def sample_event_def confirming_def settling_def)

text \<open>
  Dispute times are compared as text, which is not their order once a time is written
  with a fraction: two events the contracts accept, a dispute opened on the second and a
  resolution half a second later, leave the dispute open. With the milliseconds written on
  both, as the normalizers write them, the resolution closes it.
\<close>

theorem dispute_order_is_textual:
  "valid_event (sample_event Type_dispute_opened ''2024-01-01T00:00:00Z'')
   \<and> valid_event (sample_event Type_dispute_resolved ''2024-01-01T00:00:00.500Z'')
   \<and> sf_disputeOpen (deriveSealFacts
       [sample_event Type_dispute_opened ''2024-01-01T00:00:00Z'',
        sample_event Type_dispute_resolved ''2024-01-01T00:00:00.500Z''] True)
   \<and> \<not> sf_disputeOpen (deriveSealFacts
       [sample_event Type_dispute_opened ''2024-01-01T00:00:00.000Z'',
        sample_event Type_dispute_resolved ''2024-01-01T00:00:00.500Z''] True)"
  by code_simp

end
