(* ===== verification/Rep_Receipts.thy ===== *)
theory Rep_Receipts
  imports Seal
begin

text \<open>
  Participant receipts (\<open>sdk/src/reputation/receipts.ts\<close>): one receipt per participant of an
  event, and the refresh of the fields that are presentation only.
\<close>

record participant =
  pt_wallet :: string
  pt_gnsRecord :: "gns_snapshot option"
  pt_role :: participant_role

record projection_context =
  pc_sealState :: seal_state
  pc_disputeOpen :: bool
  pc_roleHints :: "string \<rightharpoonup> participant_role"
  pc_arbiterWallet :: "string option"
  pc_arbiterGnsRecord :: "gns_snapshot option"

text \<open>The roles of the actor and of the counterparty.\<close>

definition defaultRoles :: "reputation_event \<Rightarrow> participant_role \<times> participant_role" where
  "defaultRoles event =
     (case re_eventType event of
        Type_proof_created \<Rightarrow> (Role_creator, Role_collaborator)
      | Type_proof_revoked \<Rightarrow> (Role_creator, Role_collaborator)
      | Type_proof_submitted \<Rightarrow>
          (Role_creator, if re_sourceProduct event = Some Prod_marketplace then Role_buyer
             else Role_collaborator)
      | Type_agreement_created \<Rightarrow> (Role_collaborator, Role_collaborator)
      | Type_agreement_revised \<Rightarrow> (Role_collaborator, Role_collaborator)
      | Type_agreement_signed \<Rightarrow> (Role_collaborator, Role_collaborator)
      | Type_agreement_executed \<Rightarrow> (Role_collaborator, Role_collaborator)
      | Type_agreement_cancelled \<Rightarrow> (Role_collaborator, Role_collaborator)
      | Type_dispute_opened \<Rightarrow> (Role_collaborator, Role_collaborator)
      | Type_dispute_resolved \<Rightarrow> (Role_collaborator, Role_collaborator)
      | Type_proof_approved \<Rightarrow> (Role_collaborator, Role_collaborator)
      | Type_proof_rejected \<Rightarrow> (Role_collaborator, Role_collaborator)
      | Type_escrow_funded \<Rightarrow> (Role_payer, Role_payee)
      | Type_invoice_paid \<Rightarrow> (Role_payer, Role_payee)
      | Type_milestone_approved \<Rightarrow> (Role_payer, Role_payee)
      | Type_milestone_settled \<Rightarrow> (Role_payer, Role_payee)
      | Type_settlement_completed \<Rightarrow> (Role_payer, Role_payee)
      | Type_agreement_refunded \<Rightarrow> (Role_seller, Role_buyer)
      | Type_milestone_created \<Rightarrow> (Role_buyer, Role_seller)
      | Type_milestone_rejected \<Rightarrow> (Role_buyer, Role_seller)
      | Type_milestone_delivered \<Rightarrow> (Role_seller, Role_buyer)
      | Type_work_completed \<Rightarrow> (Role_seller, Role_buyer))"

definition hinted_role ::
    "projection_context \<Rightarrow> string \<Rightarrow> participant_role \<Rightarrow> participant_role" where
  "hinted_role context wallet fallback =
     (case pc_roleHints context wallet of Some r \<Rightarrow> r | None \<Rightarrow> fallback)"

definition non_empty :: "string option \<Rightarrow> bool" where
  "non_empty s \<longleftrightarrow> s \<noteq> None \<and> s \<noteq> Some []"

definition participantsFor :: "reputation_event \<Rightarrow> projection_context \<Rightarrow> participant list" where
  "participantsFor event context =
     (let (actor, counterparty) = defaultRoles event;
          p1 = [\<lparr>pt_wallet = re_actorWallet event, pt_gnsRecord = re_actorGnsRecord event,
                 pt_role = hinted_role context (re_actorWallet event) actor\<rparr>];
          p2 = (if non_empty (re_counterpartyWallet event)
                  \<and> the (re_counterpartyWallet event) \<noteq> re_actorWallet event
                then p1 @ [\<lparr>pt_wallet = the (re_counterpartyWallet event),
                    pt_gnsRecord = re_counterpartyGnsRecord event,
                    pt_role = hinted_role context (the (re_counterpartyWallet event)) counterparty\<rparr>]
                else p1);
          isDispute = (re_eventType event = Type_dispute_opened
            \<or> re_eventType event = Type_dispute_resolved)
      in if isDispute \<and> non_empty (pc_arbiterWallet context)
           \<and> \<not> list_ex (\<lambda>p. pt_wallet p = the (pc_arbiterWallet context)) p2
         then p2 @ [\<lparr>pt_wallet = the (pc_arbiterWallet context),
             pt_gnsRecord = pc_arbiterGnsRecord context, pt_role = Role_arbiter\<rparr>]
         else p2)"

definition projectReceipt ::
    "(bytes \<Rightarrow> bytes) \<Rightarrow> reputation_event \<Rightarrow> participant \<Rightarrow> participant list \<Rightarrow> projection_context
       \<Rightarrow> ppv_receipt" where
  "projectReceipt sha event holder others context =
     \<lparr>rr_schemaVersion = PPV_RECEIPT_SCHEMA_VERSION,
      rr_receiptId = receiptId sha (re_eventId event) (pt_wallet holder) (role_text (pt_role holder)),
      rr_eventId = re_eventId event, rr_ppvProofId = re_ppvProofId event,
      rr_proofHash = re_proofHash event, rr_agreementId = re_agreementId event,
      rr_holderWallet = pt_wallet holder, rr_holderGnsRecord = pt_gnsRecord holder,
      rr_role = pt_role holder, rr_counterpartyWallets = map pt_wallet others,
      rr_counterpartyGnsRecords = map pt_gnsRecord others,
      rr_sourceProduct = re_sourceProduct event, rr_sourceObjectId = re_sourceObjectId event,
      rr_deliverableId = re_deliverableId event, rr_eventType = re_eventType event,
      rr_outcome = re_outcome event, rr_amount = re_amount event, rr_mint = re_mint event,
      rr_programId = re_programId event,
      rr_transactionSignature = re_transactionSignature event,
      rr_instructionIndex = re_instructionIndex event,
      rr_innerInstructionIndex = re_innerInstructionIndex event,
      rr_completedAt = re_occurredAt event, rr_sealState = pc_sealState context,
      rr_disputeOpen = pc_disputeOpen context, rr_mintEligible = False,
      rr_credentialMint = None\<rparr>"

definition projectReceipts ::
    "(bytes \<Rightarrow> bytes) \<Rightarrow> reputation_event \<Rightarrow> projection_context \<Rightarrow> ppv_receipt list" where
  "projectReceipts sha event context =
     (let participants = participantsFor event context
      in map (\<lambda>holder. projectReceipt sha event holder
           (filter (\<lambda>p. pt_wallet p \<noteq> pt_wallet holder) participants) context) participants)"

record receipt_state =
  rs_sealState :: seal_state
  rs_disputeOpen :: bool
  rs_mintEligible :: bool
  rs_credentialMint :: "string option"

definition refreshReceiptState :: "ppv_receipt \<Rightarrow> receipt_state \<Rightarrow> ppv_receipt" where
  "refreshReceiptState receipt st =
     receipt\<lparr>rr_sealState := rs_sealState st, rr_disputeOpen := rs_disputeOpen st,
       rr_mintEligible := rs_mintEligible st, rr_credentialMint := rs_credentialMint st\<rparr>"

section \<open>Participants\<close>

definition named_wallets :: "reputation_event \<Rightarrow> projection_context \<Rightarrow> string set" where
  "named_wallets event context =
     insert (re_actorWallet event)
       ((if non_empty (re_counterpartyWallet event) then {the (re_counterpartyWallet event)} else {})
        \<union> (if re_eventType event \<in> {Type_dispute_opened, Type_dispute_resolved}
              \<and> non_empty (pc_arbiterWallet context) then {the (pc_arbiterWallet context)} else {}))"

lemma participants_wallet_list:
  "map pt_wallet (participantsFor event context) =
     (let ws = re_actorWallet event # (if non_empty (re_counterpartyWallet event)
            \<and> the (re_counterpartyWallet event) \<noteq> re_actorWallet event
          then [the (re_counterpartyWallet event)] else [])
      in if re_eventType event \<in> {Type_dispute_opened, Type_dispute_resolved}
           \<and> non_empty (pc_arbiterWallet context) \<and> the (pc_arbiterWallet context) \<notin> set ws
         then ws @ [the (pc_arbiterWallet context)] else ws)"
proof (cases "defaultRoles event")
  case (Pair a c)
  show ?thesis
    unfolding participantsFor_def Pair Let_def prod.case
    by (cases "non_empty (re_counterpartyWallet event)
        \<and> the (re_counterpartyWallet event) \<noteq> re_actorWallet event") auto
qed

lemma participants_wallets:
  "distinct (map pt_wallet (participantsFor event context))
   \<and> set (map pt_wallet (participantsFor event context)) = named_wallets event context"
  unfolding participants_wallet_list named_wallets_def Let_def by auto

lemma participants_snapshots:
  assumes "snapshot_of (Some (re_actorWallet event)) (re_actorGnsRecord event)"
    and "snapshot_of (re_counterpartyWallet event) (re_counterpartyGnsRecord event)"
    and "snapshot_of (pc_arbiterWallet context) (pc_arbiterGnsRecord context)"
    and "p \<in> set (participantsFor event context)"
  shows "snapshot_of (Some (pt_wallet p)) (pt_gnsRecord p)"
  using assms
  by (auto simp: participantsFor_def Let_def non_empty_def split: prod.splits if_splits)

lemma participants_addresses:
  assumes "BASE58_ADDRESS (re_actorWallet event)"
    and "pred_option BASE58_ADDRESS (re_counterpartyWallet event)"
    and "pred_option BASE58_ADDRESS (pc_arbiterWallet context)"
    and "p \<in> set (participantsFor event context)"
  shows "BASE58_ADDRESS (pt_wallet p)"
  using assms
  by (auto simp: participantsFor_def Let_def non_empty_def split: prod.splits if_splits)

lemma snapshots_list: 
  "list_all (\<lambda>p. snapshot_of (Some (pt_wallet p)) (pt_gnsRecord p)) ps \<Longrightarrow>
   list_all2 (\<lambda>g w. snapshot_of (Some w) g) (map pt_gnsRecord ps) (map pt_wallet ps)"
  by (induction ps) simp_all

section \<open>Properties\<close>

text \<open>
  One receipt per wallet the event names and none for anybody else, whatever the role
  hints say: the holders are the actor, the counterparty and, for a dispute, the arbiter,
  each once; every receipt of a valid event passes the receipt contract, states the event's
  own facts, names exactly the other participants and recomputes its id from the event, the
  holder and the role; none is born eligible for a mint.
\<close>

theorem projectReceipts_valid:
  assumes "valid_event event" and "\<And>m. 20 \<le> length (sha m)"
    and "pred_option BASE58_ADDRESS (pc_arbiterWallet context)"
    and "snapshot_of (pc_arbiterWallet context) (pc_arbiterGnsRecord context)"
  shows "distinct (map rr_holderWallet (projectReceipts sha event context))
    \<and> set (map rr_holderWallet (projectReceipts sha event context)) = named_wallets event context
    \<and> (\<forall>r \<in> set (projectReceipts sha event context).
         isPpvReceiptV1 (receipt_js r)
         \<and> rr_receiptId r = receiptId sha (re_eventId event) (rr_holderWallet r) (role_text (rr_role r))
         \<and> set (rr_counterpartyWallets r) = named_wallets event context - {rr_holderWallet r}
         \<and> (rr_eventId r, rr_eventType r, rr_outcome r, rr_amount r, rr_completedAt r)
             = (re_eventId event, re_eventType event, re_outcome event, re_amount event,
                re_occurredAt event)
         \<and> \<not> rr_mintEligible r \<and> rr_credentialMint r = None)"
proof -
  let ?ps = "participantsFor event context"
  note ev = assms(1) [unfolded valid_event_def]
  have wallets: "map rr_holderWallet (projectReceipts sha event context) = map pt_wallet ?ps"
    by (simp add: projectReceipts_def projectReceipt_def Let_def comp_def)
  have valid: "valid_receipt (projectReceipt sha event p (filter (\<lambda>q. pt_wallet q \<noteq> pt_wallet p) ?ps) context)"
    if p: "p \<in> set ?ps" for p
  proof -
    have snaps: "list_all (\<lambda>q. snapshot_of (Some (pt_wallet q)) (pt_gnsRecord q))
        (filter (\<lambda>q. pt_wallet q \<noteq> pt_wallet p) ?ps)"
      unfolding list_all_iff using ev assms(4) by (auto intro: participants_snapshots)
    have addr: "BASE58_ADDRESS (pt_wallet q)" if "q \<in> set ?ps" for q
      using ev assms(3) that by (blast intro: participants_addresses)
    have own: "snapshot_of (Some (pt_wallet p)) (pt_gnsRecord p)"
      using ev assms(4) p by (blast intro: participants_snapshots)
    have id: "prefixed_id ''rcpt_'' (receiptId sha e w ro)" for e w ro
      unfolding receiptId_def Let_def by (rule prefixed_sha) (rule assms(2))
    show ?thesis
      unfolding valid_receipt_def projectReceipt_def ppv_receipt.simps
      using ev snapshots_list [OF snaps] addr own id p
      by (auto simp: PPV_RECEIPT_SCHEMA_VERSION_def list_all_iff)
  qed
  show ?thesis
    unfolding wallets using participants_wallets [of event "context"] valid
    by (auto simp: projectReceipts_def Let_def isPpvReceiptV1_receipt)
       (auto simp: projectReceipt_def)
qed

definition sample_context :: projection_context where
  "sample_context = \<lparr>pc_sealState = Seal_verified, pc_disputeOpen = True,
     pc_roleHints = (\<lambda>_. None), pc_arbiterWallet = Some (replicate 32 CHR ''3''),
     pc_arbiterGnsRecord = None\<rparr>"

definition sample_dispute :: reputation_event where
  "sample_dispute = (sample_event Type_dispute_opened ''2024-01-01T00:00:00Z'')
     \<lparr>re_counterpartyWallet := Some (replicate 32 CHR ''2'')\<rparr>"

theorem projectReceipts_valid_witness:
  "set (map rr_holderWallet (projectReceipts (\<lambda>_. replicate 32 0) sample_dispute sample_context))
     = {replicate 32 CHR ''1'', replicate 32 CHR ''2'', replicate 32 CHR ''3''}"
proof -
  have "valid_event sample_dispute" by code_simp
  moreover have "pred_option BASE58_ADDRESS (pc_arbiterWallet sample_context)" by code_simp
  moreover have "snapshot_of (pc_arbiterWallet sample_context) (pc_arbiterGnsRecord sample_context)"
    by (simp add: sample_context_def snapshot_of_def)
  ultimately have "set (map rr_holderWallet (projectReceipts (\<lambda>_. replicate 32 0) sample_dispute
      sample_context)) = named_wallets sample_dispute sample_context"
    using projectReceipts_valid [of sample_dispute "\<lambda>_. replicate 32 0" sample_context] by simp
  then show ?thesis
    by (simp only:) (simp add: named_wallets_def sample_dispute_def sample_event_def sample_context_def
        non_empty_def insert_commute)
qed

end
