(* ===== verification/Eligibility.thy ===== *)
theory Eligibility
  imports Rep_Receipts
begin

text \<open>
  The optional credential (\<open>sdk/src/reputation/eligibility.ts\<close>): who may mint it, evaluated on
  a receipt of unknown shape against facts of the chain, and the public metadata it carries.
\<close>

datatype credential_rejection =
    Rej_proof_missing | Rej_proof_revoked | Rej_proof_not_verified | Rej_receipt_invalid
  | Rej_wrong_holder | Rej_dispute_active | Rej_not_settled | Rej_already_minted

definition CREDENTIAL_REJECTIONS :: "credential_rejection list" where
  "CREDENTIAL_REJECTIONS = [Rej_proof_missing, Rej_proof_revoked, Rej_proof_not_verified,
     Rej_receipt_invalid, Rej_wrong_holder, Rej_dispute_active, Rej_not_settled, Rej_already_minted]"

record proof_chain_state =
  pf_exists :: bool
  pf_revoked :: bool
  pf_authority :: "string option"
  pf_contentHash :: "string option"

record eligibility_input =
  el_receipt :: js
  el_requestedBy :: string
  el_proof :: proof_chain_state
  el_facts :: seal_facts

datatype credential_eligibility =
    Eligible js seal_state
  | Ineligible "credential_rejection list"

text \<open>A value as a condition, a property read as text, and \<open>[...new Set(xs)]\<close>.\<close>

fun js_truthy :: "js \<Rightarrow> bool" where
  "js_truthy Js_undefined = False"
| "js_truthy Js_null = False"
| "js_truthy (Js_bool b) = b"
| "js_truthy (Js_number n) = (n \<noteq> Whole 0 \<and> n \<noteq> Not_a_Number)"
| "js_truthy (Js_string s) = (s \<noteq> [])"
| "js_truthy (Js_array _) = True"
| "js_truthy (Js_object _) = True"

fun js_text :: "js \<Rightarrow> string" where
  "js_text (Js_string s) = s"
| "js_text _ = []"

definition set_order :: "'a list \<Rightarrow> 'a list" where
  "set_order xs = rev (remdups (rev xs))"

definition evaluateCredentialEligibility ::
    "(bytes \<Rightarrow> bytes) \<Rightarrow> eligibility_input \<Rightarrow> credential_eligibility" where
  "evaluateCredentialEligibility sha input =
     (let receipt = el_receipt input; proof = el_proof input; facts = el_facts input;
          mk = (\<lambda>b reason. if b then [reason] else [])
      in if \<not> isPpvReceiptV1 receipt then Ineligible [Rej_receipt_invalid]
         else
           let sealState = resolveSealState facts;
               ppvProofId = js_get ''ppvProofId'' receipt;
               proofHash = js_get ''proofHash'' receipt;
               contentHash = js_opt Js_string (pf_contentHash proof);
               reasons =
                 mk (receiptId sha (js_text (js_get ''eventId'' receipt))
                      (js_text (js_get ''holderWallet'' receipt)) (js_text (js_get ''role'' receipt))
                    \<noteq> js_text (js_get ''receiptId'' receipt)) Rej_receipt_invalid
                 @ mk (js_get ''holderWallet'' receipt \<noteq> Js_string (el_requestedBy input)) Rej_wrong_holder
                 @ mk (js_truthy (js_get ''credentialMint'' receipt)) Rej_already_minted
                 @ (if \<not> js_truthy ppvProofId \<or> \<not> pf_exists proof then [Rej_proof_missing]
                    else mk (pf_revoked proof \<or> sf_proofRevoked facts) Rej_proof_revoked
                       @ mk (js_truthy proofHash \<and> js_truthy contentHash \<and> proofHash \<noteq> contentHash)
                           Rej_receipt_invalid
                       @ mk (\<not> sf_chainVerified facts) Rej_proof_not_verified)
                 @ mk (sf_disputeOpen facts) Rej_dispute_active
                 @ mk (sealState \<noteq> Seal_settled \<and> sealState \<noteq> Seal_dispute_resolved) Rej_not_settled
           in if reasons \<noteq> [] then Ineligible (set_order reasons)
              else Eligible receipt sealState)"

section \<open>Public metadata\<close>

definition PRIVATE_METADATA_KEYS :: "string list" where
  "PRIVATE_METADATA_KEYS =
    [''agreement'', ''agreement_content'', ''agreementContent'', ''terms'', ''invoice'',
     ''invoice_lines'', ''line_items'', ''lineItems'', ''deliverable'', ''deliverable_content'',
     ''document'', ''ciphertext'', ''encrypted'', ''evidence'', ''dispute_evidence'',
     ''attachments'', ''files'', ''context'', ''context_hash'', ''notes'', ''email'', ''phone'']"

definition PUBLIC_METADATA_KEYS :: "string list" where
  "PUBLIC_METADATA_KEYS =
    [''schemaVersion'', ''name'', ''symbol'', ''description'', ''ppv_proof_id'', ''receipt_id'',
     ''holder_wallet'', ''holder_gns_record'', ''role'', ''source_product'', ''event_type'',
     ''completion_date'', ''seal_state'', ''verification_uri'']"

definition GNS_RECORD_KEYS :: "string list" where
  "GNS_RECORD_KEYS = [''schemaVersion'', ''name'', ''fullName'', ''owner'', ''resolvedAt'']"

fun object_keys :: "js \<Rightarrow> string list" where
  "object_keys (Js_object fs) = map fst fs"
| "object_keys (Js_array vs) = map dec_nat [0 ..< length vs]"
| "object_keys _ = []"

definition check_key :: "string list \<Rightarrow> string \<Rightarrow> string \<Rightarrow> unit result" where
  "check_key allowed before key =
     (if List.member allowed key then Inr ()
      else throw TypeError (before @ [CHR 0x22] @ key @ [CHR 0x22] @ '' is not public''))"

definition assertPublicCredentialMetadata :: "js \<Rightarrow> unit result" where
  "assertPublicCredentialMetadata v =
     (if \<not> is_object v then throw TypeError ''metadata must be an object''
      else bindR (mapR (check_key PUBLIC_METADATA_KEYS ''metadata key '') (object_keys v)) (\<lambda>_.
        let nested = js_get ''holder_gns_record'' v
        in bindR (mapR (check_key GNS_RECORD_KEYS ''holder_gns_record key '') (object_keys nested))
             (\<lambda>_. Inr ())))"

definition is_https :: "string \<Rightarrow> bool" where
  "is_https uri \<longleftrightarrow> take 8 uri = ''https://''"

definition buildCredentialMetadata :: "js \<Rightarrow> seal_state \<Rightarrow> string \<Rightarrow> js result" where
  "buildCredentialMetadata receipt sealState verificationUri =
     (if \<not> is_https verificationUri then throw TypeError ''verification URI must be https''
      else
        let metadata = Js_object
          [(''schemaVersion'', js_int 1),
           (''name'', Js_string (''PPV Receipt '' @ [CHR 0xB7] @ '' ''
              @ js_text (js_get ''eventType'' receipt))),
           (''symbol'', Js_string ''PPV''),
           (''description'', Js_string (''This credential corresponds to a verifiable PPV protocol record. ''
              @ ''It does not certify quality, ownership, honesty, or future behaviour.'')),
           (''ppv_proof_id'', js_get ''ppvProofId'' receipt),
           (''receipt_id'', js_get ''receiptId'' receipt),
           (''holder_wallet'', js_get ''holderWallet'' receipt),
           (''holder_gns_record'', js_get ''holderGnsRecord'' receipt),
           (''role'', js_get ''role'' receipt),
           (''source_product'', js_get ''sourceProduct'' receipt),
           (''event_type'', js_get ''eventType'' receipt),
           (''completion_date'', js_get ''completedAt'' receipt),
           (''seal_state'', Js_string (seal_text sealState)),
           (''verification_uri'', Js_string verificationUri)]
        in bindR (assertPublicCredentialMetadata metadata) (\<lambda>_. Inr metadata))"

section \<open>Lemmas\<close>

lemma set_order_Nil [simp]: "set_order xs = [] \<longleftrightarrow> xs = []"
  by (simp add: set_order_def)

lemma check_keys:
  "mapR (check_key allowed before) ks = Inr us \<Longrightarrow> set ks \<subseteq> set allowed"
  by (induction ks arbitrary: us) (auto simp: bindR_eq_Inr check_key_def split: if_splits)

lemma check_keys_ok: "set ks \<subseteq> set allowed \<Longrightarrow> \<not> isl (mapR (check_key allowed before) ks)"
  by (induction ks) (auto simp: check_key_def bindR_def isl_def split: sum.splits)

lemma metadata_ok_iff:
  "(\<exists>u. assertPublicCredentialMetadata v = Inr u) \<longleftrightarrow> is_object v
     \<and> set (object_keys v) \<subseteq> set PUBLIC_METADATA_KEYS
     \<and> set (object_keys (js_get ''holder_gns_record'' v)) \<subseteq> set GNS_RECORD_KEYS"
proof -
  have keys: "(\<exists>us. mapR (check_key allowed before) ks = Inr us) \<longleftrightarrow> set ks \<subseteq> set allowed"
    for allowed before ks
    using check_keys [of allowed before ks] check_keys_ok [of ks allowed before]
    by (cases "mapR (check_key allowed before) ks") auto
  show ?thesis
    unfolding assertPublicCredentialMetadata_def Let_def
    using keys by (auto simp: bindR_eq_Inr)
qed

lemma check_key_error: "mapR (check_key allowed before) ks = Inl e \<Longrightarrow> err_class e = TypeError"
  by (induction ks) (auto simp: bindR_eq_Inl check_key_def split: if_splits)

lemma assert_error: "assertPublicCredentialMetadata v = Inl e \<Longrightarrow> err_class e = TypeError"
  unfolding assertPublicCredentialMetadata_def Let_def
  by (auto simp: bindR_eq_Inl check_key_error split: if_splits)

section \<open>Properties\<close>

text \<open>
  A credential may be minted exactly for a structurally valid receipt whose id recomputes,
  asked for by its holder, not minted before, over a proof that exists on chain with the
  receipt's hash, is not revoked and was verified by the indexer, with no dispute open and
  value settled or a dispute resolved; in every other case the answer lists at least one
  reason, each once.
\<close>

theorem eligibility_exact:
  "case evaluateCredentialEligibility sha input of
     Eligible r st \<Rightarrow> r = el_receipt input \<and> st = resolveSealState (el_facts input)
       \<and> isPpvReceiptV1 r
       \<and> receiptId sha (js_text (js_get ''eventId'' r)) (el_requestedBy input)
            (js_text (js_get ''role'' r)) = js_text (js_get ''receiptId'' r)
       \<and> js_get ''holderWallet'' r = Js_string (el_requestedBy input)
       \<and> \<not> js_truthy (js_get ''credentialMint'' r)
       \<and> js_truthy (js_get ''ppvProofId'' r) \<and> pf_exists (el_proof input)
       \<and> \<not> pf_revoked (el_proof input) \<and> \<not> sf_proofRevoked (el_facts input)
       \<and> \<not> (js_truthy (js_get ''proofHash'' r) \<and> js_truthy (js_opt Js_string (pf_contentHash (el_proof input)))
            \<and> js_get ''proofHash'' r \<noteq> js_opt Js_string (pf_contentHash (el_proof input)))
       \<and> sf_chainVerified (el_facts input) \<and> \<not> sf_disputeOpen (el_facts input)
       \<and> st \<in> {Seal_settled, Seal_dispute_resolved}
   | Ineligible reasons \<Rightarrow> reasons \<noteq> [] \<and> distinct reasons \<and>
       \<not> (isPpvReceiptV1 (el_receipt input)
          \<and> receiptId sha (js_text (js_get ''eventId'' (el_receipt input))) (el_requestedBy input)
            (js_text (js_get ''role'' (el_receipt input))) = js_text (js_get ''receiptId'' (el_receipt input))
          \<and> js_get ''holderWallet'' (el_receipt input) = Js_string (el_requestedBy input)
          \<and> \<not> js_truthy (js_get ''credentialMint'' (el_receipt input))
          \<and> js_truthy (js_get ''ppvProofId'' (el_receipt input)) \<and> pf_exists (el_proof input)
          \<and> \<not> pf_revoked (el_proof input) \<and> \<not> sf_proofRevoked (el_facts input)
          \<and> \<not> (js_truthy (js_get ''proofHash'' (el_receipt input))
               \<and> js_truthy (js_opt Js_string (pf_contentHash (el_proof input)))
               \<and> js_get ''proofHash'' (el_receipt input) \<noteq> js_opt Js_string (pf_contentHash (el_proof input)))
          \<and> sf_chainVerified (el_facts input) \<and> \<not> sf_disputeOpen (el_facts input)
          \<and> resolveSealState (el_facts input) \<in> {Seal_settled, Seal_dispute_resolved})"
  unfolding evaluateCredentialEligibility_def Let_def
  by (auto simp: set_order_def resolveSealState_def split: if_splits)

text \<open>
  The metadata of a credential is public or it is not built: what is returned has exactly
  the fourteen allowed keys, none of the private ones, a name record with nothing but its five
  fields, the receipt's identity and an https link; building it fails exactly for another
  scheme or a name record that carries more.
\<close>

theorem metadata_public:
  "case buildCredentialMetadata receipt st uri of
     Inr m \<Rightarrow> object_keys m = PUBLIC_METADATA_KEYS
       \<and> set (object_keys m) \<inter> set PRIVATE_METADATA_KEYS = {}
       \<and> set (object_keys (js_get ''holder_gns_record'' m)) \<subseteq> set GNS_RECORD_KEYS
       \<and> js_get ''receipt_id'' m = js_get ''receiptId'' receipt
       \<and> js_get ''holder_wallet'' m = js_get ''holderWallet'' receipt
       \<and> js_get ''seal_state'' m = Js_string (seal_text st)
       \<and> js_get ''verification_uri'' m = Js_string uri \<and> is_https uri
   | Inl e \<Rightarrow> err_class e = TypeError \<and> \<not> (is_https uri
       \<and> set (object_keys (js_get ''holderGnsRecord'' receipt)) \<subseteq> set GNS_RECORD_KEYS)"
proof (cases "is_https uri")
  case False
  then show ?thesis by (simp add: buildCredentialMetadata_def)
next
  case True
  define m where "m = Js_object
      [(''schemaVersion'', js_int 1),
       (''name'', Js_string (''PPV Receipt '' @ [CHR 0xB7] @ '' ''
          @ js_text (js_get ''eventType'' receipt))),
       (''symbol'', Js_string ''PPV''),
       (''description'', Js_string (''This credential corresponds to a verifiable PPV protocol record. ''
          @ ''It does not certify quality, ownership, honesty, or future behaviour.'')),
       (''ppv_proof_id'', js_get ''ppvProofId'' receipt),
       (''receipt_id'', js_get ''receiptId'' receipt),
       (''holder_wallet'', js_get ''holderWallet'' receipt),
       (''holder_gns_record'', js_get ''holderGnsRecord'' receipt),
       (''role'', js_get ''role'' receipt),
       (''source_product'', js_get ''sourceProduct'' receipt),
       (''event_type'', js_get ''eventType'' receipt),
       (''completion_date'', js_get ''completedAt'' receipt),
       (''seal_state'', Js_string (seal_text st)),
       (''verification_uri'', Js_string uri)]"
  have build: "buildCredentialMetadata receipt st uri
      = bindR (assertPublicCredentialMetadata m) (\<lambda>_. Inr m)"
    using True unfolding buildCredentialMetadata_def Let_def m_def by simp
  have m: "is_object m" "object_keys m = PUBLIC_METADATA_KEYS"
    "js_get ''holder_gns_record'' m = js_get ''holderGnsRecord'' receipt"
    "js_get ''receipt_id'' m = js_get ''receiptId'' receipt"
    "js_get ''holder_wallet'' m = js_get ''holderWallet'' receipt"
    "js_get ''seal_state'' m = Js_string (seal_text st)"
    "js_get ''verification_uri'' m = Js_string uri"
    by (simp_all add: m_def PUBLIC_METADATA_KEYS_def)
  have no_private: "set PUBLIC_METADATA_KEYS \<inter> set PRIVATE_METADATA_KEYS = {}"
    by (simp add: PUBLIC_METADATA_KEYS_def PRIVATE_METADATA_KEYS_def)
  show ?thesis
  proof (cases "assertPublicCredentialMetadata m")
    case (Inl e)
    then have "\<not> set (object_keys (js_get ''holderGnsRecord'' receipt)) \<subseteq> set GNS_RECORD_KEYS"
      using metadata_ok_iff [of m] m(1,2,3) by auto
    moreover have "err_class e = TypeError"
      using Inl assert_error by blast
    ultimately show ?thesis unfolding build Inl by simp
  next
    case (Inr u)
    then have "set (object_keys (js_get ''holderGnsRecord'' receipt)) \<subseteq> set GNS_RECORD_KEYS"
      using metadata_ok_iff [of m] m(3) by auto
    then show ?thesis unfolding build Inr using m no_private True by simp
  qed
qed

end
