(* ===== verification/Normalize.thy ===== *)
theory Normalize
  imports Contracts Chain_Events Receipts
begin

text \<open>
  Normalization of program events into reputation events
  (\<open>sdk/src/reputation/normalize.ts\<close> and \<open>normalize-escrow.ts\<close>). The name service and the
  store of deliverable references are the caller's: they are arguments here as they are
  options there. A resolver that rejects is an error value; of several rejections the
  leftmost is reported.
\<close>

record mapped_event =
  mp_eventType :: reputation_event_type
  mp_actorWallet :: string
  mp_counterpartyWallet :: "string option"
  mp_outcome :: reputation_outcome
  mp_amount :: "string option"
  mp_mint :: "string option"
  mp_milestoneIndex :: "int option"
  mp_ppvProofId :: "string option"
  mp_proofHash :: "string option"

record mapped_chain =
  mc_eventType :: reputation_event_type
  mc_actorWallet :: string
  mc_counterpartyWallet :: "string option"
  mc_ppvProofId :: "string option"
  mc_proofHash :: "string option"
  mc_agreementId :: "string option"
  mc_outcome :: reputation_outcome
  mc_occurredAtUnix :: int

record chain_envelope =
  xe_event :: chain_event
  xe_programId :: string
  xe_transactionSignature :: string
  xe_instructionIndex :: js_number
  xe_innerInstructionIndex :: "int option"
  xe_blockTime :: "int option"

type_synonym gns_resolver = "string \<Rightarrow> gns_snapshot option result"
type_synonym deliverable_lookup = "string \<Rightarrow> deliverable_reference option result"

text \<open>A nullable string as a condition.\<close>

definition truthy :: "string option \<Rightarrow> bool" where
  "truthy s \<longleftrightarrow> s \<noteq> None \<and> s \<noteq> Some []"

definition normalize_isoFromUnix :: "int \<Rightarrow> string result" where
  "normalize_isoFromUnix seconds =
     (if seconds < 0 then throw NormalizationError ''invalid timestamp'' else toISOString seconds)"

fun mapChainEvent :: "chain_event \<Rightarrow> mapped_chain" where
  "mapChainEvent (ProofCreated proof authority proofId contentHash contextHash kind createdAt) =
     \<lparr>mc_eventType = Type_proof_created, mc_actorWallet = authority, mc_counterpartyWallet = None,
      mc_ppvProofId = Some proof, mc_proofHash = Some contentHash, mc_agreementId = None,
      mc_outcome = Out_recorded, mc_occurredAtUnix = createdAt\<rparr>"
| "mapChainEvent (ProofRevoked proof authority proofId contentHash kind revokedAt) =
     \<lparr>mc_eventType = Type_proof_revoked, mc_actorWallet = authority, mc_counterpartyWallet = None,
      mc_ppvProofId = Some proof, mc_proofHash = Some contentHash, mc_agreementId = None,
      mc_outcome = Out_revoked, mc_occurredAtUnix = revokedAt\<rparr>"
| "mapChainEvent (AgreementCreated agreement agreementId partyA partyB version contentHash
       termsHash expiresAt createdAt) =
     \<lparr>mc_eventType = Type_agreement_created, mc_actorWallet = partyA,
      mc_counterpartyWallet = Some partyB, mc_ppvProofId = None,
      mc_proofHash = Some contentHash, mc_agreementId = Some agreement,
      mc_outcome = Out_recorded, mc_occurredAtUnix = createdAt\<rparr>"
| "mapChainEvent (AgreementRevised agreement partyA partyB proposer previousVersion newVersion
       contentHash termsHash signaturesCleared revisedAt) =
     \<lparr>mc_eventType = Type_agreement_revised, mc_actorWallet = proposer,
      mc_counterpartyWallet = Some (if proposer = partyA then partyB else partyA),
      mc_ppvProofId = None, mc_proofHash = Some contentHash, mc_agreementId = Some agreement,
      mc_outcome = Out_recorded, mc_occurredAtUnix = revisedAt\<rparr>"
| "mapChainEvent (AgreementSigned agreement partyA partyB signer version contentHash termsHash
       signedAt) =
     \<lparr>mc_eventType = Type_agreement_signed, mc_actorWallet = signer,
      mc_counterpartyWallet = Some (if signer = partyA then partyB else partyA),
      mc_ppvProofId = None, mc_proofHash = Some contentHash, mc_agreementId = Some agreement,
      mc_outcome = Out_recorded, mc_occurredAtUnix = signedAt\<rparr>"
| "mapChainEvent (AgreementExecuted agreement partyA partyB version contentHash termsHash
       executedAt) =
     \<lparr>mc_eventType = Type_agreement_executed, mc_actorWallet = partyA,
      mc_counterpartyWallet = Some partyB, mc_ppvProofId = None,
      mc_proofHash = Some contentHash, mc_agreementId = Some agreement,
      mc_outcome = Out_completed, mc_occurredAtUnix = executedAt\<rparr>"
| "mapChainEvent (AgreementCancelled agreement partyA partyB cancelledBy version cancelledAt) =
     \<lparr>mc_eventType = Type_agreement_cancelled, mc_actorWallet = cancelledBy,
      mc_counterpartyWallet = Some (if cancelledBy = partyA then partyB else partyA),
      mc_ppvProofId = None, mc_proofHash = None, mc_agreementId = Some agreement,
      mc_outcome = Out_cancelled, mc_occurredAtUnix = cancelledAt\<rparr>"

text \<open>A snapshot is only valid for the wallet it was resolved for.\<close>

definition snapshotFor :: "gns_snapshot option \<Rightarrow> string \<Rightarrow> gns_snapshot option result" where
  "snapshotFor snap wallet =
     (case snap of None \<Rightarrow> Inr None
      | Some g \<Rightarrow>
          if gns_owner g \<noteq> wallet
          then throw NormalizationError
            (''GNS snapshot owner '' @ gns_owner g @ '' does not match wallet '' @ wallet)
          else Inr (Some g))"

definition snapshot_for_counterparty ::
    "gns_snapshot option \<Rightarrow> string option \<Rightarrow> gns_snapshot option result" where
  "snapshot_for_counterparty snap wallet =
     (if truthy wallet then snapshotFor snap (the wallet) else Inr None)"

definition resolve_counterparty :: "gns_resolver \<Rightarrow> string option \<Rightarrow> gns_snapshot option result" where
  "resolve_counterparty resolveGns wallet =
     (if truthy wallet then resolveGns (the wallet) else Inr None)"

definition normalizeChainEvent ::
    "(bytes \<Rightarrow> bytes) \<Rightarrow> gns_resolver \<Rightarrow> deliverable_lookup option \<Rightarrow> string \<Rightarrow> string
       \<Rightarrow> chain_envelope \<Rightarrow> reputation_event result" where
  "normalizeChainEvent sha resolveGns lookupDeliverable ppvCore ppvCommerce envelope =
     (let event = xe_event envelope;
          owner = programForEvent (ce_name event);
          expected = (if owner = ppv_core then ppvCore else ppvCommerce)
      in if xe_programId envelope \<noteq> expected
         then throw NormalizationError (chain_event_name_text (ce_name event) @ '' arrived from ''
           @ xe_programId envelope @ '', expected '' @ expected)
         else if \<not> isTransactionSignature (Js_string (xe_transactionSignature envelope))
         then throw NormalizationError ''invalid transaction signature''
         else if \<not> is_integer (xe_instructionIndex envelope) \<or> negative (xe_instructionIndex envelope)
         then throw NormalizationError ''invalid instruction index''
         else
           let mapped = mapChainEvent event; index = whole (xe_instructionIndex envelope)
           in bindR (resolveGns (mc_actorWallet mapped)) (\<lambda>actorGnsRecord.
              bindR (resolve_counterparty resolveGns (mc_counterpartyWallet mapped))
                (\<lambda>counterpartyGnsRecord.
              bindR (case lookupDeliverable of
                  Some look \<Rightarrow> if truthy (mc_ppvProofId mapped) then look (the (mc_ppvProofId mapped))
                    else Inr None
                | None \<Rightarrow> Inr None) (\<lambda>deliverable.
              bindR (normalize_isoFromUnix (case xe_blockTime envelope of
                  None \<Rightarrow> mc_occurredAtUnix mapped | Some t \<Rightarrow> t)) (\<lambda>occurredAt.
              bindR (snapshotFor actorGnsRecord (mc_actorWallet mapped)) (\<lambda>actorGns.
              bindR (snapshot_for_counterparty counterpartyGnsRecord (mc_counterpartyWallet mapped))
                (\<lambda>counterpartyGns.
              Inr \<lparr>re_schemaVersion = REPUTATION_EVENT_SCHEMA_VERSION,
                re_eventId = chainEventId sha
                  \<lparr>ck_transactionSignature = xe_transactionSignature envelope,
                   ck_instructionIndex = index,
                   ck_innerInstructionIndex = xe_innerInstructionIndex envelope\<rparr>
                  (event_type_text (mc_eventType mapped)),
                re_eventType = mc_eventType mapped, re_occurredAt = occurredAt,
                re_eventSource = Source_chain, re_actorWallet = mc_actorWallet mapped,
                re_actorGnsRecord = actorGns,
                re_counterpartyWallet = mc_counterpartyWallet mapped,
                re_counterpartyGnsRecord = counterpartyGns,
                re_ppvProofId = mc_ppvProofId mapped, re_proofHash = mc_proofHash mapped,
                re_agreementId = mc_agreementId mapped, re_escrowId = None,
                re_milestoneIndex = None,
                re_sourceProduct = map_option dr_sourceProduct deliverable,
                re_sourceObjectId = map_option dr_sourceObjectId deliverable,
                re_deliverableId = map_option dr_deliverableId deliverable,
                re_amount = None, re_mint = None, re_outcome = mc_outcome mapped,
                re_programId = xe_programId envelope,
                re_transactionSignature = xe_transactionSignature envelope,
                re_instructionIndex = index,
                re_innerInstructionIndex = xe_innerInstructionIndex envelope\<rparr>)))))))"

section \<open>Product submissions\<close>

record product_submission =
  ps_reference :: deliverable_reference
  ps_proofCreated :: reputation_event
  ps_submittedAt :: string
  ps_counterpartyGnsRecord :: "gns_snapshot option"

definition normalizeProductSubmission ::
    "(bytes \<Rightarrow> bytes) \<Rightarrow> product_submission \<Rightarrow> reputation_event result" where
  "normalizeProductSubmission sha input =
     (let reference = ps_reference input; proofCreated = ps_proofCreated input
      in if re_eventType proofCreated \<noteq> Type_proof_created
         then throw NormalizationError ''a submission must reference a proof.created event''
         else if re_ppvProofId proofCreated \<noteq> Some (dr_ppvProofId reference)
         then throw NormalizationError ''deliverable reference does not match the proof event''
         else if re_proofHash proofCreated \<noteq> Some (dr_proofHash reference)
         then throw NormalizationError ''deliverable reference hash does not match the proof event''
         else if re_actorWallet proofCreated \<noteq> dr_creatorWallet reference
         then throw NormalizationError ''deliverable creator is not the proof authority''
         else if \<not> isSourceProduct (Js_string (product_text (dr_sourceProduct reference)))
         then throw NormalizationError ''invalid source product''
         else if dr_counterpartyWallet reference \<noteq> None
           \<and> \<not> isSolanaAddress (Js_string (the (dr_counterpartyWallet reference)))
         then throw NormalizationError ''invalid counterparty wallet''
         else
           bindR (snapshot_for_counterparty (ps_counterpartyGnsRecord input)
               (dr_counterpartyWallet reference)) (\<lambda>counterpartyGns.
           Inr \<lparr>re_schemaVersion = REPUTATION_EVENT_SCHEMA_VERSION,
             re_eventId = productEventId sha
               \<lparr>ck_transactionSignature = re_transactionSignature proofCreated,
                ck_instructionIndex = re_instructionIndex proofCreated,
                ck_innerInstructionIndex = re_innerInstructionIndex proofCreated,
                pk_eventType = ''proof.submitted'',
                pk_sourceProduct = product_text (dr_sourceProduct reference),
                pk_sourceObjectId = dr_sourceObjectId reference,
                pk_deliverableId = dr_deliverableId reference\<rparr>,
             re_eventType = Type_proof_submitted, re_occurredAt = ps_submittedAt input,
             re_eventSource = Source_product, re_actorWallet = dr_creatorWallet reference,
             re_actorGnsRecord = dr_creatorGnsRecord reference,
             re_counterpartyWallet = dr_counterpartyWallet reference,
             re_counterpartyGnsRecord = counterpartyGns,
             re_ppvProofId = Some (dr_ppvProofId reference),
             re_proofHash = Some (dr_proofHash reference),
             re_agreementId = None, re_escrowId = None, re_milestoneIndex = None,
             re_sourceProduct = Some (dr_sourceProduct reference),
             re_sourceObjectId = Some (dr_sourceObjectId reference),
             re_deliverableId = Some (dr_deliverableId reference),
             re_amount = None, re_mint = None, re_outcome = Out_recorded,
             re_programId = re_programId proofCreated,
             re_transactionSignature = re_transactionSignature proofCreated,
             re_instructionIndex = re_instructionIndex proofCreated,
             re_innerInstructionIndex = re_innerInstructionIndex proofCreated\<rparr>))"

section \<open>Escrow events\<close>

text \<open>The default address means ``not named yet'', not a participant.\<close>

definition namedOrNull :: "string \<Rightarrow> string option" where
  "namedOrNull wallet = (if wallet = ''11111111111111111111111111111111'' then None else Some wallet)"

definition other_party :: "string \<Rightarrow> string \<Rightarrow> string \<Rightarrow> string" where
  "other_party actor a b = (if actor = a then b else a)"

fun mapEscrowEvent :: "escrow_event \<Rightarrow> mapped_event option" where
  "mapEscrowEvent (AgreementOpened agreement agreementId creator counterparty agreementType mint
       vault amount termsHash newState timestamp) =
     Some \<lparr>mp_eventType = Type_agreement_created, mp_actorWallet = creator,
       mp_counterpartyWallet = namedOrNull counterparty, mp_outcome = Out_recorded,
       mp_amount = Some (dec_int amount), mp_mint = Some mint, mp_milestoneIndex = None,
       mp_ppvProofId = None, mp_proofHash = Some termsHash\<rparr>"
| "mapEscrowEvent (AgreementFunded agreement creator counterparty amount mint vault previousState
       newState timestamp) =
     Some \<lparr>mp_eventType = Type_escrow_funded, mp_actorWallet = creator,
       mp_counterpartyWallet = namedOrNull counterparty, mp_outcome = Out_recorded,
       mp_amount = Some (dec_int amount), mp_mint = Some mint, mp_milestoneIndex = None,
       mp_ppvProofId = None, mp_proofHash = None\<rparr>"
| "mapEscrowEvent (WorkCompleted agreement creator counterparty actor previousState newState
       timestamp) =
     Some \<lparr>mp_eventType = Type_work_completed, mp_actorWallet = actor,
       mp_counterpartyWallet = Some creator, mp_outcome = Out_completed, mp_amount = None,
       mp_mint = None, mp_milestoneIndex = None, mp_ppvProofId = None, mp_proofHash = None\<rparr>"
| "mapEscrowEvent (SettlementExecuted agreement buyer seller amount mint destination proof
       previousState newState timestamp) =
     Some \<lparr>mp_eventType = Type_settlement_completed, mp_actorWallet = buyer,
       mp_counterpartyWallet = Some seller, mp_outcome = Out_completed,
       mp_amount = Some (dec_int amount), mp_mint = Some mint, mp_milestoneIndex = None,
       mp_ppvProofId = proof, mp_proofHash = None\<rparr>"
| "mapEscrowEvent (RefundExecuted agreement buyer seller refundedBy amount mint destination
       previousState newState timestamp) =
     Some \<lparr>mp_eventType = Type_agreement_refunded, mp_actorWallet = refundedBy,
       mp_counterpartyWallet = Some (if refundedBy = seller then buyer else seller),
       mp_outcome = Out_resolved_for_counterparty,
       mp_amount = Some (dec_int amount), mp_mint = Some mint, mp_milestoneIndex = None,
       mp_ppvProofId = None, mp_proofHash = None\<rparr>"
| "mapEscrowEvent (AgreementAbandoned agreement creator counterparty cancelledBy previousState
       newState timestamp) =
     Some \<lparr>mp_eventType = Type_agreement_cancelled, mp_actorWallet = cancelledBy,
       mp_counterpartyWallet = namedOrNull counterparty, mp_outcome = Out_cancelled,
       mp_amount = None, mp_mint = None, mp_milestoneIndex = None, mp_ppvProofId = None,
       mp_proofHash = None\<rparr>"
| "mapEscrowEvent (DisputeOpened agreement creator counterparty openedBy reasonHash previousState
       newState timestamp) =
     Some \<lparr>mp_eventType = Type_dispute_opened, mp_actorWallet = openedBy,
       mp_counterpartyWallet = Some (other_party openedBy creator counterparty),
       mp_outcome = Out_opened, mp_amount = None, mp_mint = None, mp_milestoneIndex = None,
       mp_ppvProofId = None, mp_proofHash = Some reasonHash\<rparr>"
| "mapEscrowEvent (DisputeResolved agreement creator counterparty resolvedBy beneficiary
       disputeOutcome openedBy resultingState timestamp) =
     Some \<lparr>mp_eventType = Type_dispute_resolved, mp_actorWallet = resolvedBy,
       mp_counterpartyWallet = Some beneficiary, mp_outcome = Out_resolved_for_counterparty,
       mp_amount = None, mp_mint = None, mp_milestoneIndex = None, mp_ppvProofId = None,
       mp_proofHash = None\<rparr>"
| "mapEscrowEvent (ProofSubmitted agreement proof coreProof creator counterparty submitter
       proofIndex contentHash metadataHash agreementState timestamp) =
     Some \<lparr>mp_eventType = Type_proof_created, mp_actorWallet = submitter,
       mp_counterpartyWallet = Some (other_party submitter creator counterparty),
       mp_outcome = Out_recorded, mp_amount = None, mp_mint = None, mp_milestoneIndex = None,
       mp_ppvProofId = Some coreProof, mp_proofHash = Some contentHash\<rparr>"
| "mapEscrowEvent (ProofApproved agreement proof coreProof creator counterparty submitter
       decidedBy proofIndex agreementState timestamp) =
     Some \<lparr>mp_eventType = Type_proof_approved, mp_actorWallet = decidedBy,
       mp_counterpartyWallet = Some submitter, mp_outcome = Out_completed, mp_amount = None,
       mp_mint = None, mp_milestoneIndex = None, mp_ppvProofId = Some coreProof,
       mp_proofHash = None\<rparr>"
| "mapEscrowEvent (ProofRejected agreement proof coreProof creator counterparty submitter
       decidedBy proofIndex agreementState timestamp) =
     Some \<lparr>mp_eventType = Type_proof_rejected, mp_actorWallet = decidedBy,
       mp_counterpartyWallet = Some submitter, mp_outcome = Out_rejected, mp_amount = None,
       mp_mint = None, mp_milestoneIndex = None, mp_ppvProofId = Some coreProof,
       mp_proofHash = None\<rparr>"
| "mapEscrowEvent (MilestoneCreated agreement milestone creator counterparty milestoneIndex amount
       termsHash agreementState timestamp) =
     Some \<lparr>mp_eventType = Type_milestone_created, mp_actorWallet = creator,
       mp_counterpartyWallet = Some counterparty, mp_outcome = Out_recorded,
       mp_amount = Some (dec_int amount), mp_mint = None,
       mp_milestoneIndex = Some milestoneIndex, mp_ppvProofId = None,
       mp_proofHash = Some termsHash\<rparr>"
| "mapEscrowEvent (MilestoneSubmitted agreement milestone creator counterparty milestoneIndex
       previousMilestone newMilestone agreementState timestamp) =
     Some \<lparr>mp_eventType = Type_milestone_delivered, mp_actorWallet = counterparty,
       mp_counterpartyWallet = Some creator, mp_outcome = Out_recorded, mp_amount = None,
       mp_mint = None, mp_milestoneIndex = Some milestoneIndex, mp_ppvProofId = None,
       mp_proofHash = None\<rparr>"
| "mapEscrowEvent (MilestoneApproved agreement milestone creator counterparty milestoneIndex
       previousMilestone newMilestone agreementState timestamp) =
     Some \<lparr>mp_eventType = Type_milestone_approved, mp_actorWallet = creator,
       mp_counterpartyWallet = Some counterparty, mp_outcome = Out_completed, mp_amount = None,
       mp_mint = None, mp_milestoneIndex = Some milestoneIndex, mp_ppvProofId = None,
       mp_proofHash = None\<rparr>"
| "mapEscrowEvent (MilestoneRejected agreement milestone creator counterparty milestoneIndex
       previousMilestone newMilestone agreementState timestamp) =
     Some \<lparr>mp_eventType = Type_milestone_rejected, mp_actorWallet = creator,
       mp_counterpartyWallet = Some counterparty, mp_outcome = Out_rejected, mp_amount = None,
       mp_mint = None, mp_milestoneIndex = Some milestoneIndex, mp_ppvProofId = None,
       mp_proofHash = None\<rparr>"
| "mapEscrowEvent (MilestoneSettled agreement milestone creator counterparty milestoneIndex amount
       destination proof previousMilestone newMilestone agreementState timestamp) =
     Some \<lparr>mp_eventType = Type_milestone_settled, mp_actorWallet = creator,
       mp_counterpartyWallet = Some counterparty, mp_outcome = Out_completed,
       mp_amount = Some (dec_int amount), mp_mint = None,
       mp_milestoneIndex = Some milestoneIndex, mp_ppvProofId = proof, mp_proofHash = None\<rparr>"
| "mapEscrowEvent (CounterpartyAssigned agreement creator counterparty agreementState timestamp) = None"

definition normalizeEscrowEvent ::
    "(bytes \<Rightarrow> bytes) \<Rightarrow> gns_resolver \<Rightarrow> string \<Rightarrow> event_envelope \<Rightarrow> reputation_event option result" where
  "normalizeEscrowEvent sha resolveGns expectedProgramId envelope =
     (let event = en_event envelope
      in if en_programId envelope \<noteq> expectedProgramId
         then throw NormalizationError (escrow_event_name_text (ev_name event) @ '' arrived from ''
           @ en_programId envelope @ '', expected '' @ expectedProgramId)
         else if \<not> isTransactionSignature (Js_string (en_transactionSignature envelope))
         then throw NormalizationError ''invalid transaction signature''
         else if \<not> is_integer (en_instructionIndex envelope) \<or> negative (en_instructionIndex envelope)
         then throw NormalizationError ''invalid instruction index''
         else
           let index = whole (en_instructionIndex envelope)
           in case mapEscrowEvent event of
             None \<Rightarrow> Inr None
           | Some mapped \<Rightarrow>
              bindR (resolveGns (mp_actorWallet mapped)) (\<lambda>actorGnsRecord.
              bindR (resolve_counterparty resolveGns (mp_counterpartyWallet mapped))
                (\<lambda>counterpartyGnsRecord.
              let occurredAtUnix = (case en_blockTime envelope of
                    None \<Rightarrow> ev_timestamp event | Some t \<Rightarrow> t)
              in bindR (normalize_isoFromUnix occurredAtUnix) (\<lambda>occurredAt.
              bindR (snapshotFor actorGnsRecord (mp_actorWallet mapped)) (\<lambda>actorGns.
              bindR (snapshot_for_counterparty counterpartyGnsRecord (mp_counterpartyWallet mapped))
                (\<lambda>counterpartyGns.
              Inr (Some \<lparr>re_schemaVersion = REPUTATION_EVENT_SCHEMA_VERSION,
                re_eventId = chainEventId sha
                  \<lparr>ck_transactionSignature = en_transactionSignature envelope,
                   ck_instructionIndex = index,
                   ck_innerInstructionIndex = en_innerInstructionIndex envelope\<rparr>
                  (event_type_text (mp_eventType mapped)),
                re_eventType = mp_eventType mapped, re_occurredAt = occurredAt,
                re_eventSource = Source_chain, re_actorWallet = mp_actorWallet mapped,
                re_actorGnsRecord = actorGns,
                re_counterpartyWallet = mp_counterpartyWallet mapped,
                re_counterpartyGnsRecord = counterpartyGns,
                re_ppvProofId = mp_ppvProofId mapped, re_proofHash = mp_proofHash mapped,
                re_agreementId = Some (ev_agreement event), re_escrowId = Some (ev_agreement event),
                re_milestoneIndex = mp_milestoneIndex mapped,
                re_sourceProduct = None, re_sourceObjectId = None, re_deliverableId = None,
                re_amount = mp_amount mapped, re_mint = mp_mint mapped,
                re_outcome = mp_outcome mapped,
                re_programId = en_programId envelope,
                re_transactionSignature = en_transactionSignature envelope,
                re_instructionIndex = index,
                re_innerInstructionIndex = en_innerInstructionIndex envelope\<rparr>)))))))"

section \<open>What the mappings produce\<close>

lemma pubkey_address: "is_pubkey s \<Longrightarrow> BASE58_ADDRESS s"
  unfolding is_pubkey_def using encodeBase58_address [of "key_bytes s"] by auto

lemma pubkey_nonempty: "is_pubkey s \<Longrightarrow> s \<noteq> []"
  using pubkey_address [of s] by (auto simp: BASE58_ADDRESS_def repeated_def)

lemma is_hex_HEX_32: "is_hex 32 s \<Longrightarrow> HEX_32 s"
  unfolding is_hex_def HEX_32_def by (intro hex_repeated) simp_all

lemma uint_amount: "uint_in 8 n \<Longrightarrow> AMOUNT_TEXT (dec_int n)"
  unfolding uint_in_def by (intro dec_amount) simp_all

lemma object_id_size: "OBJECT_ID s \<Longrightarrow> 0 < length s \<and> length s \<le> 200"
  by (auto simp: OBJECT_ID_def repeated_def)

definition valid_mapped_chain :: "mapped_chain \<Rightarrow> bool" where
  "valid_mapped_chain m \<longleftrightarrow> is_pubkey (mc_actorWallet m)
     \<and> pred_option is_pubkey (mc_counterpartyWallet m) \<and> pred_option is_pubkey (mc_ppvProofId m)
     \<and> pred_option (is_hex 32) (mc_proofHash m) \<and> pred_option is_pubkey (mc_agreementId m)"

lemma mapChainEvent_valid: "wf_chain_event e \<Longrightarrow> valid_mapped_chain (mapChainEvent e)"
  by (cases e) (simp_all add: valid_mapped_chain_def)

definition valid_mapped :: "mapped_event \<Rightarrow> bool" where
  "valid_mapped m \<longleftrightarrow> is_pubkey (mp_actorWallet m)
     \<and> pred_option is_pubkey (mp_counterpartyWallet m) \<and> pred_option is_pubkey (mp_ppvProofId m)
     \<and> pred_option (is_hex 32) (mp_proofHash m) \<and> pred_option is_pubkey (mp_mint m)
     \<and> pred_option AMOUNT_TEXT (mp_amount m) \<and> pred_option (\<lambda>i. 0 \<le> i) (mp_milestoneIndex m)"

lemma mapEscrowEvent_valid:
  "wf_escrow_event e \<Longrightarrow> mapEscrowEvent e = Some m \<Longrightarrow> valid_mapped m \<and> is_pubkey (ev_agreement e)"
  by (cases e)
     (auto simp: valid_mapped_def namedOrNull_def other_party_def uint_amount valid_opt_def uint_in_def
       split: option.splits)

lemma mapEscrowEvent_agreement: "wf_escrow_event e \<Longrightarrow> is_pubkey (ev_agreement e)"
  by (cases e) simp_all

text \<open>The snapshots that survive \<open>snapshotFor\<close> belong to their wallets.\<close>

lemma snapshotFor_of:
  assumes "snapshotFor g w = Inr r" and "pred_option valid_gns g"
  shows "snapshot_of (Some w) r"
  using assms by (cases g) (auto simp: snapshotFor_def snapshot_of_def split: if_splits)

lemma snapshot_for_counterparty_of:
  assumes "snapshot_for_counterparty g w = Inr r" and "pred_option valid_gns g"
  shows "snapshot_of w r"
  using assms snapshotFor_of [of g "the w" r]
  by (cases w) (auto simp: snapshot_for_counterparty_def truthy_def snapshot_of_def split: if_splits)

lemma normalize_iso:
  "normalize_isoFromUnix t = Inr s \<Longrightarrow> t < 253402300800 \<Longrightarrow> iso_text s"
  by (auto simp: normalize_isoFromUnix_def toISOString_iso split: if_splits)

lemma evt_id: "(\<And>m. 20 \<le> length (sha m)) \<Longrightarrow> prefixed_id ''evt_'' (chainEventId sha k ty)"
  unfolding chainEventId_def Let_def by (rule prefixed_sha)

definition resolver_ok :: "gns_resolver \<Rightarrow> bool" where
  "resolver_ok resolveGns \<longleftrightarrow> (\<forall>w g. resolveGns w = Inr (Some g) \<longrightarrow> valid_gns g)"

definition lookup_ok :: "deliverable_lookup option \<Rightarrow> bool" where
  "lookup_ok look \<longleftrightarrow> (\<forall>f p d. look = Some f \<longrightarrow> f p = Inr (Some d) \<longrightarrow>
     OBJECT_ID (dr_sourceObjectId d) \<and> OBJECT_ID (dr_deliverableId d))"

lemma resolver_valid: "resolver_ok f \<Longrightarrow> f w = Inr g \<Longrightarrow> pred_option valid_gns g"
  by (cases g) (auto simp: resolver_ok_def)

lemma resolve_counterparty_valid:
  "resolver_ok f \<Longrightarrow> resolve_counterparty f w = Inr g \<Longrightarrow> pred_option valid_gns g"
  by (auto simp: resolve_counterparty_def split: if_splits dest: resolver_valid)

lemma pred_option_mono: "pred_option p x \<Longrightarrow> (\<And>v. p v \<Longrightarrow> q v) \<Longrightarrow> pred_option q x"
  by (cases x) simp_all

lemmas field_facts = pubkey_address is_hex_HEX_32
  pred_option_mono [OF _ pubkey_address] pred_option_mono [OF _ is_hex_HEX_32]

lemma guard_InrE:
  assumes "(if b then Inl e else m) = Inr r"
  obtains "\<not> b" and "m = Inr r"
  using assms by (cases b) simp_all

section \<open>Properties\<close>


text \<open>
  The same for escrow events: every event of the escrow program but the naming of a payee
  becomes one event that passes the contract, about the agreement it happened in, reported
  by the program it came from and identified by its chain coordinates.
\<close>

theorem normalizeEscrowEvent_valid:
  assumes "normalizeEscrowEvent sha resolveGns expected en = Inr r"
    and "wf_escrow_event (en_event en)" and "is_pubkey (en_programId en)"
    and "\<And>m. 20 \<le> length (sha m)" and "resolver_ok resolveGns"
    and "whole (en_instructionIndex en) < 1024"
    and "pred_option (\<lambda>i. 0 \<le> i \<and> i < 1024) (en_innerInstructionIndex en)"
    and "(case en_blockTime en of None \<Rightarrow> ev_timestamp (en_event en) | Some t \<Rightarrow> t) < 253402300800"
  shows "(r = None \<longleftrightarrow> ev_name (en_event en) = Name_CounterpartyAssigned)
    \<and> en_programId en = expected
    \<and> (\<forall>ev. r = Some ev \<longrightarrow> isReputationEventV1 (event_js ev)
        \<and> re_agreementId ev = Some (ev_agreement (en_event en))
        \<and> re_eventId ev = chainEventId sha
            \<lparr>ck_transactionSignature = en_transactionSignature en,
             ck_instructionIndex = whole (en_instructionIndex en),
             ck_innerInstructionIndex = en_innerInstructionIndex en\<rparr>
            (event_type_text (re_eventType ev)))"
proof (cases "mapEscrowEvent (en_event en)")
  case None
  with assms(1) have "r = None" "en_programId en = expected"
    by (auto simp: normalizeEscrowEvent_def Let_def split: if_splits)
  moreover from None have "ev_name (en_event en) = Name_CounterpartyAssigned"
    by (cases "en_event en") simp_all
  ultimately show ?thesis by simp
next
  case (Some m)
  let ?ev = "\<lambda>at g1 g2. \<lparr>re_schemaVersion = REPUTATION_EVENT_SCHEMA_VERSION,
        re_eventId = chainEventId sha
          \<lparr>ck_transactionSignature = en_transactionSignature en,
           ck_instructionIndex = whole (en_instructionIndex en),
           ck_innerInstructionIndex = en_innerInstructionIndex en\<rparr> (event_type_text (mp_eventType m)),
        re_eventType = mp_eventType m, re_occurredAt = at, re_eventSource = Source_chain,
        re_actorWallet = mp_actorWallet m, re_actorGnsRecord = g1,
        re_counterpartyWallet = mp_counterpartyWallet m, re_counterpartyGnsRecord = g2,
        re_ppvProofId = mp_ppvProofId m, re_proofHash = mp_proofHash m,
        re_agreementId = Some (ev_agreement (en_event en)),
        re_escrowId = Some (ev_agreement (en_event en)),
        re_milestoneIndex = mp_milestoneIndex m,
        re_sourceProduct = None, re_sourceObjectId = None, re_deliverableId = None,
        re_amount = mp_amount m, re_mint = mp_mint m, re_outcome = mp_outcome m,
        re_programId = en_programId en,
        re_transactionSignature = en_transactionSignature en,
        re_instructionIndex = whole (en_instructionIndex en),
        re_innerInstructionIndex = en_innerInstructionIndex en\<rparr>"
  from assms(1) obtain ag cg at g1 g2 where
    p: "\<not> en_programId en \<noteq> expected"
      "\<not> \<not> isTransactionSignature (Js_string (en_transactionSignature en))"
      "\<not> (\<not> is_integer (en_instructionIndex en) \<or> negative (en_instructionIndex en))"
    and h: "resolveGns (mp_actorWallet m) = Inr ag"
      "resolve_counterparty resolveGns (mp_counterpartyWallet m) = Inr cg"
      "normalize_isoFromUnix (case en_blockTime en of None \<Rightarrow> ev_timestamp (en_event en) | Some t \<Rightarrow> t) = Inr at"
      "snapshotFor ag (mp_actorWallet m) = Inr g1"
      "snapshot_for_counterparty cg (mp_counterpartyWallet m) = Inr g2"
    and "Inr (Some (?ev at g1 g2)) = (Inr r :: reputation_event option result)"
    unfolding normalizeEscrowEvent_def Let_def Some option.case
    by (elim guard_InrE bindR_InrE) (rule that)
  then have r: "r = Some (?ev at g1 g2)" by (simp only: sum.inject)
  have m: "valid_mapped m" "is_pubkey (ev_agreement (en_event en))"
    using mapEscrowEvent_valid [OF assms(2) Some] by blast+
  have idx: "0 \<le> whole (en_instructionIndex en)"
    using p(3) by (cases "en_instructionIndex en") simp_all
  have "valid_event (?ev at g1 g2)"
    unfolding valid_event_def reputation_event.simps
    using evt_id [of sha, OF assms(4)] normalize_iso [OF h(3) assms(8)]
      snapshotFor_of [OF h(4) resolver_valid [OF assms(5) h(1)]]
      snapshot_for_counterparty_of [OF h(5) resolve_counterparty_valid [OF assms(5) h(2)]]
      m [unfolded valid_mapped_def] idx assms(3,6,7) p(2)
    by (auto simp: REPUTATION_EVENT_SCHEMA_VERSION_def field_facts js_string_tests
        elim!: pred_option_mono)
  moreover have "ev_name (en_event en) \<noteq> Name_CounterpartyAssigned"
    using Some by (cases "en_event en") simp_all
  ultimately show ?thesis
    unfolding r option.inject using p(1) by (auto simp: isReputationEventV1_event)
qed

text \<open>
  A product cannot attest to a proof that is not on chain: a submission is normalized
  only against the creation event of exactly the referenced proof, by its authority and with
  its hash, and it borrows that event's coordinates and program; its id is of the product
  kind, so it can never pass for a chain event's.
\<close>

theorem productSubmission_anchored:
  assumes "normalizeProductSubmission sha input = Inr ev"
  shows "re_eventType (ps_proofCreated input) = Type_proof_created
    \<and> re_ppvProofId ev = re_ppvProofId (ps_proofCreated input) \<and> re_ppvProofId ev \<noteq> None
    \<and> re_proofHash ev = re_proofHash (ps_proofCreated input) \<and> re_proofHash ev \<noteq> None
    \<and> re_actorWallet ev = re_actorWallet (ps_proofCreated input)
    \<and> re_transactionSignature ev = re_transactionSignature (ps_proofCreated input)
    \<and> re_programId ev = re_programId (ps_proofCreated input)
    \<and> re_eventType ev = Type_proof_submitted \<and> re_eventSource ev = Source_product
    \<and> (\<exists>m. re_eventId ev = ''evt_'' @ take ID_HEX_LENGTH (sha256Hex sha m)
         \<and> (\<forall>key ty. chain_message key ty \<noteq> m))"
proof -
  have sep: "chain_message k t \<noteq> product_message q" for k t q by (rule domains_separate)
  show ?thesis
    using assms unfolding normalizeProductSubmission_def Let_def
    by (elim guard_InrE bindR_InrE) (auto simp: productEventId_def Let_def sep)
qed

section \<open>Examples\<close>

definition zero_key :: string where "zero_key = replicate 32 CHR ''1''"

lemma zero_key_pubkey: "is_pubkey zero_key"
  unfolding zero_key_def encodeBase58_zeros [symmetric] by (rule is_pubkey_encode) simp

definition sample_chain :: chain_envelope where
  "sample_chain =
     \<lparr>xe_event = ProofCreated zero_key zero_key (replicate 32 CHR ''0'') (replicate 64 CHR ''0'')
        (replicate 64 CHR ''0'') Chain_creation 1700000000,
      xe_programId = zero_key, xe_transactionSignature = replicate 64 CHR ''1'',
      xe_instructionIndex = Whole 2, xe_innerInstructionIndex = Some 0,
      xe_blockTime = Some 1700000001\<rparr>"

definition zero_sha :: "bytes \<Rightarrow> bytes" where "zero_sha bs = replicate 32 0"

definition no_names :: gns_resolver where "no_names wallet = Inr None"

lemma sample_hex: "is_hex 16 (replicate 32 CHR ''0'')" "is_hex 32 (replicate 64 CHR ''0'')"
  by (simp_all add: is_hex_def is_lower_hex_def)


definition sample_escrow :: event_envelope where
  "sample_escrow =
     \<lparr>en_event = MilestoneApproved zero_key zero_key zero_key zero_key 0 Milestone_Submitted
        Milestone_Approved Funded 1700000000,
      en_programId = zero_key, en_transactionSignature = replicate 64 CHR ''1'',
      en_slot = Whole 9, en_instructionIndex = Whole 2, en_innerInstructionIndex = None,
      en_blockTime = None\<rparr>"

theorem normalizeEscrowEvent_valid_witness:
  "\<exists>ev. normalizeEscrowEvent zero_sha no_names zero_key sample_escrow = Inr (Some ev)
     \<and> isReputationEventV1 (event_js ev) \<and> re_agreementId ev = Some zero_key"
proof -
  have "\<not> isl (normalizeEscrowEvent zero_sha no_names zero_key sample_escrow)"
    by code_simp
  then obtain r where r: "normalizeEscrowEvent zero_sha no_names zero_key sample_escrow = Inr r"
    unfolding isl_def by (cases "normalizeEscrowEvent zero_sha no_names zero_key sample_escrow") blast+
  have "r \<noteq> None \<and> (\<forall>ev. r = Some ev \<longrightarrow> isReputationEventV1 (event_js ev)
      \<and> re_agreementId ev = Some (ev_agreement (en_event sample_escrow)))"
    using normalizeEscrowEvent_valid [OF r]
    by (simp add: sample_escrow_def zero_key_pubkey safe_int_def max_safe_integer_def uint_in_def
        zero_sha_def resolver_ok_def no_names_def)
  with r show ?thesis by (auto simp: sample_escrow_def)
qed

definition sample_submission :: product_submission where
  "sample_submission =
     \<lparr>ps_reference =
        \<lparr>dr_schemaVersion = 1, dr_sourceProduct = Prod_dimi, dr_sourceObjectId = ''track:7'',
         dr_deliverableId = ''master'', dr_creatorWallet = zero_key, dr_creatorGnsRecord = None,
         dr_ppvProofId = zero_key, dr_proofHash = replicate 64 CHR ''0'',
         dr_createdAt = ''2024-01-01T00:00:00Z'', dr_counterpartyWallet = None,
         dr_deliverableKind = ''master''\<rparr>,
      ps_proofCreated =
        \<lparr>re_schemaVersion = 1, re_eventId = ''evt_'' @ replicate 40 CHR ''0'',
         re_eventType = Type_proof_created, re_occurredAt = ''2024-01-01T00:00:00.000Z'',
         re_eventSource = Source_chain, re_actorWallet = zero_key, re_actorGnsRecord = None,
         re_counterpartyWallet = None, re_counterpartyGnsRecord = None,
         re_ppvProofId = Some zero_key, re_proofHash = Some (replicate 64 CHR ''0''),
         re_agreementId = None, re_escrowId = None, re_milestoneIndex = None,
         re_sourceProduct = None, re_sourceObjectId = None, re_deliverableId = None,
         re_amount = None, re_mint = None, re_outcome = Out_recorded, re_programId = zero_key,
         re_transactionSignature = replicate 64 CHR ''1'', re_instructionIndex = 0,
         re_innerInstructionIndex = None\<rparr>,
      ps_submittedAt = ''2024-01-02T00:00:00Z'', ps_counterpartyGnsRecord = None\<rparr>"

theorem productSubmission_anchored_witness:
  "\<exists>ev. normalizeProductSubmission zero_sha sample_submission = Inr ev
     \<and> re_eventType ev = Type_proof_submitted \<and> re_actorWallet ev = zero_key"
proof -
  have "\<not> isl (normalizeProductSubmission zero_sha sample_submission)"
    by code_simp
  then obtain ev where ev: "normalizeProductSubmission zero_sha sample_submission = Inr ev"
    unfolding isl_def by (cases "normalizeProductSubmission zero_sha sample_submission") blast+
  from productSubmission_anchored [OF ev] ev show ?thesis
    by (auto simp: sample_submission_def)
qed

end
