(* ===== verification/Credential.thy ===== *)
theory Credential
  imports Lifecycle_Examples Normalize Seal
begin

text \<open>
  The credential of an escrow agreement (\<open>sdk/src/escrow/credential.ts\<close>): seal facts read off a
  reconstructed lifecycle, without the reputation pipeline, and how they relate to the facts
  that pipeline derives.
\<close>

record escrow_credential =
  cr_agreement :: string
  cr_state :: seal_state
  cr_facts :: seal_facts
  cr_buyer :: string
  cr_seller :: string
  cr_mint :: "string option"
  cr_fundedAmount :: "int option"
  cr_settledAmount :: "int option"
  cr_refundedAmount :: "int option"
  cr_approvedProofs :: "string option list"
  cr_receiptIds :: "string list"
  cr_lastSlot :: int

definition positive_amount :: "int option \<Rightarrow> bool" where
  "positive_amount x = (case x of None \<Rightarrow> False | Some a \<Rightarrow> a > 0)"

definition escrowSealFacts :: "lifecycle \<Rightarrow> bool \<Rightarrow> seal_facts" where
  "escrowSealFacts l chainVerified =
     \<lparr>sf_chainVerified = chainVerified,
      sf_proofRevoked = False,
      sf_counterpartyConfirmed =
        list_ex (\<lambda>p. pr_status p = Proof_Approved) (lc_proofs l)
        \<or> list_ex (\<lambda>m. mr_state m = Milestone_Settled) (lc_milestones l)
        \<or> lc_state l = Settled,
      sf_settled = positive_amount (lc_settledAmount l),
      sf_refunded = positive_amount (lc_refundedAmount l),
      sf_disputeOpen = (lc_state l = Disputed),
      sf_disputeResolved = list_ex (\<lambda>r. rc_action r = Name_DisputeResolved) (lc_receipts l)\<rparr>"

definition escrowCredential :: "lifecycle \<Rightarrow> bool \<Rightarrow> escrow_credential" where
  "escrowCredential l chainVerified =
     (let facts = escrowSealFacts l chainVerified
      in \<lparr>cr_agreement = lc_agreement l, cr_state = resolveSealState facts, cr_facts = facts,
          cr_buyer = lc_buyer l, cr_seller = lc_seller l, cr_mint = lc_mint l,
          cr_fundedAmount = lc_fundedAmount l, cr_settledAmount = lc_settledAmount l,
          cr_refundedAmount = lc_refundedAmount l,
          cr_approvedProofs = map pr_proof (filter (\<lambda>p. pr_status p = Proof_Approved) (lc_proofs l)),
          cr_receiptIds = map rc_receiptId (lc_receipts l), cr_lastSlot = lc_lastSlot l\<rparr>)"

section \<open>Two ways to the same seal\<close>

text \<open>
  A milestone contract whose one tranche the buyer has approved and not yet paid: the program
  events, and the receipts they are reported with.
\<close>

definition tranche_events :: "escrow_event list" where
  "tranche_events =
     (let hash = replicate 64 CHR ''0'' in
      [AgreementOpened ''A'' 7 ''buyer'' ''seller'' MilestoneContract ''mint'' ''vault'' 50 hash Open 1,
       MilestoneCreated ''A'' ''M'' ''buyer'' ''seller'' 0 50 hash Open 2,
       AgreementFunded ''A'' ''buyer'' ''seller'' 50 ''mint'' ''vault'' Open Funded 3,
       MilestoneSubmitted ''A'' ''M'' ''buyer'' ''seller'' 0 Milestone_Pending Milestone_Submitted
         Funded 4,
       MilestoneApproved ''A'' ''M'' ''buyer'' ''seller'' 0 Milestone_Submitted Milestone_Approved
         Funded 5])"

definition tranche_receipts :: "escrow_receipt list" where
  "tranche_receipts =
     (let tranche = (\<lambda>r. r\<lparr>rc_milestone := Some ''M'', rc_milestoneIndex := Some 0\<rparr>) in
      [sample_receipt ''A'' ''1'' Name_AgreementOpened None Open 1 None None,
       tranche (sample_receipt ''A'' ''2'' Name_MilestoneCreated (Some Open) Open 2 (Some 50) None),
       sample_receipt ''A'' ''3'' Name_AgreementFunded (Some Open) Funded 3 (Some 50) None,
       tranche (sample_receipt ''A'' ''4'' Name_MilestoneSubmitted (Some Funded) Funded 4 None None),
       tranche (sample_receipt ''A'' ''5'' Name_MilestoneApproved (Some Funded) Funded 5 None None)])"

text \<open>
  The two ways to a seal do not agree by construction. For one history (a milestone
  contract opened, scheduled, funded, delivered and approved) the reputation events the
  normalizer maps the program events to derive a seal confirmed by the counterparty, while
  the credential of the lifecycle rebuilt from the receipts stays at verified: it counts a
  milestone only once it is settled.
\<close>

theorem credential_disagrees:
  "map rc_action tranche_receipts = map ev_name tranche_events
   \<and> (case reconstructAgreementLifecycle str_cmp tranche_receipts of
        Inr l \<Rightarrow> map mr_state (lc_milestones l) = [Milestone_Approved]
          \<and> cr_state (escrowCredential l True) = Seal_verified
      | Inl _ \<Rightarrow> False)
   \<and> resolveSealState (deriveSealFacts
        (map (\<lambda>e. sample_event (mp_eventType (the (mapEscrowEvent e))) ''t'') tranche_events) True)
      = Seal_counterparty_confirmed"
  by code_simp



end
