(* ===== verification/Canonical.thy ===== *)
theory Canonical
  imports Hashing
begin

text \<open>
  Canonical documents (\<open>sdk/src/canonical.ts\<close>). The input is any JavaScript value, so it is
  modelled as one: references into a heap of objects whose own properties are listed with
  their descriptors, which is what the source inspects (symbols, prototypes, accessors,
  holes, cycles). Unicode normalization is the parameter \<open>nfc\<close>.
\<close>

definition PPV_CANONICALIZATION_VERSION :: string where "PPV_CANONICALIZATION_VERSION = ''1''"

text \<open>\<open>C_kind\<close> is a value of another \<open>typeof\<close>: number, undefined, bigint, symbol, function.\<close>

datatype cval = C_string string | C_bool bool | C_null | C_kind string | C_ref nat

datatype descriptor = Accessor bool | Data cval bool

fun enumerable :: "descriptor \<Rightarrow> bool" where
  "enumerable (Accessor e) = e"
| "enumerable (Data _ e) = e"

record jobject =
  ob_isArray :: bool
  ob_length :: nat
  ob_plainProto :: bool
  ob_symbols :: nat
  ob_props :: "(string \<times> descriptor) list"

type_synonym heap = "(nat \<times> jobject) list"

definition canon_error :: "string \<Rightarrow> string \<Rightarrow> 'a result" where
  "canon_error path message = throw CanonicalizationError (path @ '': '' @ message)"

definition isPlainRecord :: "heap \<Rightarrow> cval \<Rightarrow> bool" where
  "isPlainRecord heap v =
     (case v of C_ref a \<Rightarrow>
        (case map_of heap a of None \<Rightarrow> False | Some ob \<Rightarrow> \<not> ob_isArray ob \<and> ob_plainProto ob)
      | _ \<Rightarrow> False)"

text \<open>\<open>JSON.stringify\<close> of a string.\<close>

definition json_char :: "char \<Rightarrow> string" where
  "json_char c =
     (if c = CHR 0x22 then [CHR 0x5C, CHR 0x22]
      else if c = CHR 0x5C then [CHR 0x5C, CHR 0x5C]
      else if c = CHR 0x08 then [CHR 0x5C, CHR ''b'']
      else if c = CHR 0x0C then [CHR 0x5C, CHR ''f'']
      else if c = CHR 0x0A then [CHR 0x5C, CHR ''n'']
      else if c = CHR 0x0D then [CHR 0x5C, CHR ''r'']
      else if c = CHR 0x09 then [CHR 0x5C, CHR ''t'']
      else if (of_char c :: nat) < 32
      then [CHR 0x5C, CHR ''u'', CHR ''0'', CHR ''0'', hex_char (of_char c div 16),
            hex_char (of_char c mod 16)]
      else [c])"

definition json_string :: "string \<Rightarrow> string" where
  "json_string s = [CHR 0x22] @ concat (map json_char s) @ [CHR 0x22]"

definition quote :: "(string \<Rightarrow> string) \<Rightarrow> string \<Rightarrow> string" where
  "quote nfc s = json_string (nfc s)"

definition childPath :: "string \<Rightarrow> string \<Rightarrow> string" where
  "childPath path key = path @ ''['' @ json_string key @ '']''"

definition assertDataProperty :: "descriptor option \<Rightarrow> string \<Rightarrow> cval result" where
  "assertDataProperty d path =
     (case d of
        None \<Rightarrow> canon_error path ''accessor properties are not supported''
      | Some (Accessor _) \<Rightarrow> canon_error path ''accessor properties are not supported''
      | Some (Data v e) \<Rightarrow>
          if e then Inr v else canon_error path ''non-enumerable properties are not supported'')"

fun join_with :: "string \<Rightarrow> string list \<Rightarrow> string" where
  "join_with sep [] = []"
| "join_with sep [x] = x"
| "join_with sep (x # y # xs) = x @ sep @ join_with sep (y # xs)"

definition enumerable_keys :: "jobject \<Rightarrow> string list" where
  "enumerable_keys ob = map fst (filter (\<lambda>(_, d). enumerable d) (ob_props ob))"

definition not_dense :: "string" where
  "not_dense = ''arrays must be dense and contain no named properties''"

definition serializeArray ::
    "(string \<Rightarrow> cval \<Rightarrow> string result) \<Rightarrow> jobject \<Rightarrow> string \<Rightarrow> string result" where
  "serializeArray ser ob path =
     (if ob_symbols ob \<noteq> 0 then canon_error path ''symbol properties are not supported''
      else if length (ob_props ob) \<noteq> ob_length ob + 1
         \<or> \<not> List.member (map fst (ob_props ob)) ''length''
         \<or> length (enumerable_keys ob) \<noteq> ob_length ob
      then canon_error path not_dense
      else
        bindR (mapR (\<lambda>index.
            let key = dec_nat index; itemPath = path @ ''['' @ dec_nat index @ '']''
            in if enumerable_keys ob ! index \<noteq> key then canon_error path not_dense
               else bindR (assertDataProperty (map_of (ob_props ob) key) itemPath)
                 (\<lambda>v. ser itemPath v))
          [0 ..< ob_length ob])
        (\<lambda>items. Inr (''['' @ join_with '','' items @ '']'')))"

definition key_order :: "string \<times> 'a \<Rightarrow> string \<times> 'a \<Rightarrow> int" where
  "key_order x y = str_cmp (fst x) (fst y)"

text \<open>The loop over the own property names, collecting under the normalized names.\<close>

definition entry_step ::
    "(string \<Rightarrow> string) \<Rightarrow> string \<Rightarrow> (string \<times> string \<times> cval) list \<Rightarrow> string \<times> descriptor
       \<Rightarrow> (string \<times> string \<times> cval) list result" where
  "entry_step nfc path normalized p =
     (let rawKey = fst p
      in bindR (assertDataProperty (Some (snd p)) (childPath path rawKey)) (\<lambda>v.
         (case map_of normalized (nfc rawKey) of
            Some prior \<Rightarrow> canon_error path (''keys '' @ json_string (fst prior) @ '' and ''
              @ json_string rawKey @ '' collide after NFC normalization'')
          | None \<Rightarrow> Inr (normalized @ [(nfc rawKey, rawKey, v)]))))"

definition recordEntries ::
    "(string \<Rightarrow> string) \<Rightarrow> jobject \<Rightarrow> string \<Rightarrow> (string \<times> cval) list result" where
  "recordEntries nfc ob path =
     (if ob_symbols ob \<noteq> 0 then canon_error path ''symbol properties are not supported''
      else bindR (foldR (entry_step nfc path) [] (ob_props ob)) (\<lambda>normalized.
        Inr (map (\<lambda>(k, raw, v). (k, v)) (js_sort key_order normalized))))"

definition inject_version :: "string \<Rightarrow> (string \<times> cval) list \<Rightarrow> (string \<times> cval) list result" where
  "inject_version path entries =
     (case find (\<lambda>(k, _). k = ''specVersion'') entries of
        None \<Rightarrow> Inr (js_sort key_order
          (entries @ [(''specVersion'', C_string PPV_CANONICALIZATION_VERSION)]))
      | Some (_, v) \<Rightarrow>
          if v \<noteq> C_string PPV_CANONICALIZATION_VERSION
          then canon_error (path @ ''.specVersion'')
            (''expected '' @ json_string PPV_CANONICALIZATION_VERSION)
          else Inr entries)"

definition serialize_properties ::
    "(string \<Rightarrow> string) \<Rightarrow> (string \<Rightarrow> cval \<Rightarrow> string result) \<Rightarrow> string \<Rightarrow> (string \<times> cval) list
       \<Rightarrow> string result" where
  "serialize_properties nfc ser path entries =
     bindR (mapR (\<lambda>(key, v).
         bindR (ser (childPath path key) v) (\<lambda>t. Inr (quote nfc key @ '':'' @ t))) entries)
       (\<lambda>properties. Inr (''{'' @ join_with '','' properties @ ''}''))"

definition serializeRecord ::
    "(string \<Rightarrow> string) \<Rightarrow> (string \<Rightarrow> cval \<Rightarrow> string result) \<Rightarrow> jobject \<Rightarrow> string \<Rightarrow> bool
       \<Rightarrow> string result" where
  "serializeRecord nfc ser ob path injectVersion =
     bindR (recordEntries nfc ob path) (\<lambda>entries.
     bindR (if injectVersion then inject_version path entries else Inr entries) (\<lambda>entries.
     serialize_properties nfc ser path entries))"

lemma mapR_cong [fundef_cong]:
  "xs = ys \<Longrightarrow> (\<And>x. x \<in> set ys \<Longrightarrow> f x = g x) \<Longrightarrow> mapR f xs = mapR g ys"
  by (induction xs arbitrary: ys) (auto simp: bindR_def split: sum.splits)

lemma serializeArray_cong [fundef_cong]:
  assumes "ob = ob'" and "path = path'" and "\<And>p v. ser p v = ser' p v"
  shows "serializeArray ser ob path = serializeArray ser' ob' path'"
proof -
  have "ser = ser'" using assms(3) by (intro ext)
  with assms(1,2) show ?thesis by simp
qed

lemma serializeRecord_cong [fundef_cong]:
  assumes "nfc = nfc'" and "ob = ob'" and "path = path'" and "b = b'" and "\<And>p v. ser p v = ser' p v"
  shows "serializeRecord nfc ser ob path b = serializeRecord nfc' ser' ob' path' b'"
proof -
  have "ser = ser'" using assms(5) by (intro ext)
  with assms(1-4) show ?thesis by simp
qed

text \<open>
  The recursion is bounded by the objects not yet among the ancestors: every nested object
  joins them before its contents are visited.
\<close>

function serializeValue ::
    "(string \<Rightarrow> string) \<Rightarrow> heap \<Rightarrow> nat list \<Rightarrow> string \<Rightarrow> cval \<Rightarrow> string result" where
  "serializeValue nfc heap ancestors path v =
     (case v of
        C_string s \<Rightarrow> Inr (quote nfc s)
      | C_bool b \<Rightarrow> Inr (if b then ''true'' else ''false'')
      | C_null \<Rightarrow> canon_error path ''null values are not supported''
      | C_kind k \<Rightarrow> canon_error path (k @ '' values are not supported'')
      | C_ref a \<Rightarrow>
          (case map_of heap a of
             None \<Rightarrow> throw PlainError ''dangling reference''
           | Some ob \<Rightarrow>
               if \<not> ob_isArray ob \<and> \<not> ob_plainProto ob
               then canon_error path ''only arrays and plain objects are supported''
               else if a \<in> set ancestors
               then canon_error path ''cyclic values are not supported''
               else if ob_isArray ob
               then serializeArray (\<lambda>p w. serializeValue nfc heap (a # ancestors) p w) ob path
               else serializeRecord nfc (\<lambda>p w. serializeValue nfc heap (a # ancestors) p w) ob path
                 False))"
  by pat_completeness auto
termination
proof (relation "measure (\<lambda>(nfc, heap, ancestors, path, v). card (fst ` set heap - set ancestors))")
  fix heap :: heap and a ob and ancestors :: "nat list"
  assume "map_of heap a = Some ob" and "a \<notin> set ancestors"
  then have "a \<in> fst ` set heap - set ancestors"
    by (metis DiffI domI dom_map_of_conv_image_fst)
  then have less: "card (fst ` set heap - set (a # ancestors)) < card (fst ` set heap - set ancestors)"
    by (intro psubset_card_mono) auto
  fix nfc :: "string \<Rightarrow> string" and path p :: string and v w
  show "((nfc, heap, a # ancestors, p, w), nfc, heap, ancestors, path, v) \<in>
      measure (\<lambda>(nfc, heap, ancestors, path, v). card (fst ` set heap - set ancestors))"
    using less by simp
  show "((nfc, heap, a # ancestors, p, w), nfc, heap, ancestors, path, v) \<in>
      measure (\<lambda>(nfc, heap, ancestors, path, v). card (fst ` set heap - set ancestors))"
    using less by simp
qed simp

declare serializeValue.simps [simp del]

definition canonicalizeV1 :: "(string \<Rightarrow> string) \<Rightarrow> heap \<Rightarrow> cval \<Rightarrow> string result" where
  "canonicalizeV1 nfc heap document =
     (if \<not> isPlainRecord heap document
      then canon_error ''$'' ''the top-level value must be a plain object''
      else case document of
          C_ref a \<Rightarrow> serializeRecord nfc (\<lambda>p v. serializeValue nfc heap [a] p v)
            (the (map_of heap a)) ''$'' True
        | _ \<Rightarrow> throw PlainError ''not an object'')"

text \<open>\<open>TextEncoder\<close> on the code points below 256 the model's characters cover.\<close>

definition encode_char :: "char \<Rightarrow> bytes" where
  "encode_char c =
     (if (of_char c :: nat) < 128 then [word_of_nat (of_char c)]
      else [word_of_nat (192 + of_char c div 64), word_of_nat (128 + of_char c mod 64)])"

definition text_encoder :: "string \<Rightarrow> bytes" where
  "text_encoder s = concat (map encode_char s)"

definition canonicalizeBytesV1 :: "(string \<Rightarrow> string) \<Rightarrow> heap \<Rightarrow> cval \<Rightarrow> bytes result" where
  "canonicalizeBytesV1 nfc heap document =
     bindR (canonicalizeV1 nfc heap document) (\<lambda>text. Inr (text_encoder text))"

definition hashDocumentV1 ::
    "(bytes \<Rightarrow> bytes) \<Rightarrow> (string \<Rightarrow> string) \<Rightarrow> heap \<Rightarrow> cval \<Rightarrow> bytes result" where
  "hashDocumentV1 sha nfc heap document =
     bindR (canonicalizeBytesV1 nfc heap document) (\<lambda>bs. Inr (sha bs))"

definition bytesToHex :: "bytes \<Rightarrow> string" where
  "bytesToHex bs = foldl (\<lambda>output b. output @ hex_byte b) [] bs"

definition hashDocumentHexV1 ::
    "(bytes \<Rightarrow> bytes) \<Rightarrow> (string \<Rightarrow> string) \<Rightarrow> heap \<Rightarrow> cval \<Rightarrow> string result" where
  "hashDocumentHexV1 sha nfc heap document =
     bindR (hashDocumentV1 sha nfc heap document) (\<lambda>bs. Inr (bytesToHex bs))"

end
