(* ===== verification/Canonical_Props.thy ===== *)
theory Canonical_Props
  imports Canonical
begin

text \<open>
  What a canonical text commits to. A document value is what remains of a JavaScript value
  once the order of properties, the identity of objects and the spelling of strings before
  normalization are forgotten; the canonicalizer computes the printed form of that value and
  nothing else, and the printed form determines it.
\<close>

datatype doc = D_str string | D_bool bool | D_arr "doc list" | D_obj "(string \<times> doc) list"

primrec print :: "doc \<Rightarrow> string" where
  "print (D_str s) = json_string s"
| "print (D_bool b) = (if b then ''true'' else ''false'')"
| "print (D_arr ds) = ''['' @ join_with '','' (map print ds) @ '']''"
| "print (D_obj fs) =
     ''{'' @ join_with '','' (map (\<lambda>(k, t). json_string k @ '':'' @ t) (map (map_prod id print) fs)) @ ''}''"

section \<open>Printing is unambiguous\<close>

lemma json_char_inject:
  assumes "json_char c @ r = json_char c' @ r'"
  shows "c = c' \<and> r = r'"
proof -
  have small: "c = c'" if "(of_char c :: nat) < 32" "(of_char c' :: nat) < 32"
    "hex_char (of_char c div 16) = hex_char (of_char c' div 16)"
    "hex_char (of_char c mod 16) = hex_char (of_char c' mod 16)"
  proof -
    have "(of_char c :: nat) div 16 = of_char c' div 16" "(of_char c :: nat) mod 16 = of_char c' mod 16"
      using that hex_char_inject by auto
    then have "(of_char c :: nat) = of_char c'" by (metis div_mult_mod_eq)
    then show ?thesis by simp
  qed
  show ?thesis
    using assms small unfolding json_char_def by (auto split: if_splits)
qed

lemma json_char_not_quote: "json_char c @ r \<noteq> CHR 0x22 # r'"
  by (auto simp: json_char_def split: if_splits)

lemma json_chars_inject:
  "concat (map json_char s) @ CHR 0x22 # r = concat (map json_char s') @ CHR 0x22 # r' \<Longrightarrow> s = s' \<and> r = r'"
proof (induction s arbitrary: s')
  case Nil
  then show ?case
    using json_char_not_quote by (cases s') (auto dest: sym)
next
  case (Cons c s)
  show ?case
  proof (cases s')
    case Nil
    with Cons.prems json_char_not_quote show ?thesis by auto
  next
    case (Cons c' t)
    with Cons.prems have "json_char c @ (concat (map json_char s) @ CHR 0x22 # r)
        = json_char c' @ (concat (map json_char t) @ CHR 0x22 # r')" by simp
    from json_char_inject [OF this] Cons.IH Cons show ?thesis by auto
  qed
qed

lemma json_string_inject: "json_string s @ r = json_string s' @ r' \<longleftrightarrow> s = s' \<and> r = r'"
  using json_chars_inject [of s r s' r'] by (auto simp: json_string_def)

definition starts_value :: "char \<Rightarrow> bool" where
  "starts_value c \<longleftrightarrow> c \<in> {CHR 0x22, CHR ''t'', CHR ''f'', CHR ''['', CHR ''{''}"

lemma print_start: "\<exists>c t. print d = c # t \<and> starts_value c"
  by (cases d) (auto simp: json_string_def starts_value_def)

text \<open>A separated list closed by a character that starts no item and is not the separator.\<close>

lemma join_inject:
  assumes "\<And>x r x' r'. x \<in> set xs \<Longrightarrow> f x @ r = f x' @ r' \<Longrightarrow> x = x' \<and> r = r'"
    and "\<And>x. \<exists>c t. f x = c # t \<and> c \<noteq> close"
    and "close \<noteq> CHR '',''"
    and "join_with '','' (map f xs) @ close # r = join_with '','' (map f ys) @ close # r'"
  shows "xs = ys \<and> r = r'"
  using assms(1,4)
proof (induction xs arbitrary: ys)
  case Nil
  then show ?case
  proof (cases ys)
    case (Cons y zs)
    obtain c t where "f y = c # t" "c \<noteq> close" using assms(2) by blast
    with Nil.prems(2) Cons show ?thesis by (cases zs) auto
  qed auto
next
  case (Cons x xs)
  obtain c t where x: "f x = c # t" "c \<noteq> close" using assms(2) by blast
  show ?case
  proof (cases ys)
    case Nil
    with Cons.prems(2) x show ?thesis by (cases xs) auto
  next
    case (Cons y zs)
    let ?rest = "\<lambda>l r. (if l = [] then close # r else CHR '','' # join_with '','' (map f l) @ close # r)"
    have unfold: "join_with '','' (map f (z # l)) @ close # r = f z @ ?rest l r" for z l r
      by (cases l) simp_all
    from Cons.prems(2) have "f x @ ?rest xs r = f y @ ?rest zs r'"
      unfolding Cons unfold .
    from Cons.prems(1) [OF _ this] have eq: "x = y" "?rest xs r = ?rest zs r'" by auto
    show ?thesis
    proof (cases "xs = [] \<or> zs = []")
      case True
      with eq(2) assms(3) have "xs = [] \<and> zs = [] \<and> r = r'" by (auto split: if_splits)
      with eq(1) Cons show ?thesis by simp
    next
      case False
      with eq(2) have "join_with '','' (map f xs) @ close # r = join_with '','' (map f zs) @ close # r'"
        by simp
      then have "xs = zs \<and> r = r'"
        using Cons.prems(1) by (intro Cons.IH) auto
      with eq(1) Cons show ?thesis by simp
    qed
  qed
qed

lemma print_field_map:
  "map (\<lambda>(k, t). json_string k @ '':'' @ t) (map (map_prod id print) fs)
     = map (\<lambda>(k, d). json_string k @ '':'' @ print d) fs"
  by (induction fs) auto

lemma print_inject: "print d @ r = print d' @ r' \<Longrightarrow> d = d' \<and> r = r'"
proof (induction d arbitrary: d' r r')
  case (D_str s)
  then show ?case
    by (cases d') (auto simp: json_string_inject, auto simp: json_string_def split: if_splits)
next
  case (D_bool b)
  then show ?case
    by (cases d') (auto simp: json_string_def split: if_splits)
next
  case (D_arr ds)
  then obtain es where d': "d' = D_arr es"
    by (cases d') (auto simp: json_string_def split: if_splits)
  have "ds = es \<and> r = r'"
  proof (rule join_inject [where f = print and close = "CHR '']''"])
    show "\<exists>c t. print x = c # t \<and> c \<noteq> CHR '']''" for x
      using print_start [of x] by (auto simp: starts_value_def)
    show "join_with '','' (map print ds) @ CHR '']'' # r = join_with '','' (map print es) @ CHR '']'' # r'"
      using D_arr.prems unfolding d' by simp
  qed (use D_arr.IH in \<open>blast, simp\<close>)
  with d' show ?case by simp
next
  case (D_obj fs)
  then obtain gs where d': "d' = D_obj gs"
    by (cases d') (auto simp: json_string_def split: if_splits)
  let ?f = "\<lambda>(k, d). json_string k @ '':'' @ print d"
  have "fs = gs \<and> r = r'"
  proof (rule join_inject [where f = ?f and close = "CHR ''}''"])
    show "\<exists>c t. ?f x = c # t \<and> c \<noteq> CHR ''}''" for x
      by (cases x) (simp add: json_string_def)
    show "x = x' \<and> u = u'" if "x \<in> set fs" "?f x @ u = ?f x' @ u'" for x u x' u'
    proof -
      obtain k d k' e where x: "x = (k, d)" "x' = (k', e)" by (cases x, cases x') blast
      with that have "k = k'" "print d @ u = print e @ u'"
        using json_string_inject [of k "'':'' @ print d @ u" k' "'':'' @ print e @ u'"] by auto
      moreover have "d \<in> Basic_BNFs.snds (k, d)" by simp
      ultimately show ?thesis using D_obj.IH that(1) x by blast
    qed
    show "join_with '','' (map ?f fs) @ CHR ''}'' # r = join_with '','' (map ?f gs) @ CHR ''}'' # r'"
      using D_obj.prems unfolding d' print.simps print_field_map by simp
  qed simp
  with d' show ?case by simp
qed

section \<open>The value a document denotes\<close>

definition sorted_keys :: "(string \<times> 'a) list \<Rightarrow> bool" where
  "sorted_keys kvs \<longleftrightarrow> sorted_wrt (\<lambda>x y. fst x < fst y) kvs"

definition data_props :: "(string \<times> cval) list \<Rightarrow> (string \<times> descriptor) list" where
  "data_props pairs = map (\<lambda>(r, v). (r, Data v True)) pairs"

text \<open>The elements of an array, the properties of a record and those of a whole document.\<close>

definition array_values :: "jobject \<Rightarrow> cval list \<Rightarrow> bool" where
  "array_values ob vs \<longleftrightarrow>
     ob_symbols ob = 0 \<and> ob_length ob = length vs \<and> length (ob_props ob) = length vs + 1
     \<and> ''length'' \<in> fst ` set (ob_props ob) \<and> enumerable_keys ob = map dec_nat [0 ..< length vs]
     \<and> (\<forall>i < length vs. map_of (ob_props ob) (dec_nat i) = Some (Data (vs ! i) True))"

definition record_values ::
    "(string \<Rightarrow> string) \<Rightarrow> jobject \<Rightarrow> (string \<times> cval) list \<Rightarrow> bool" where
  "record_values nfc ob kvs \<longleftrightarrow> ob_symbols ob = 0 \<and> sorted_keys kvs
     \<and> (\<exists>pairs. ob_props ob = data_props pairs \<and> distinct (map (nfc \<circ> fst) pairs)
          \<and> set kvs = (\<lambda>(r, v). (nfc r, v)) ` set pairs)"

definition version_entry :: "string \<times> cval" where
  "version_entry = (''specVersion'', C_string PPV_CANONICALIZATION_VERSION)"

definition document_values ::
    "(string \<Rightarrow> string) \<Rightarrow> jobject \<Rightarrow> (string \<times> cval) list \<Rightarrow> bool" where
  "document_values nfc ob kvs \<longleftrightarrow> sorted_keys kvs
     \<and> (\<exists>raw. record_values nfc ob raw \<and> set kvs = insert version_entry (set raw))"

lemma sorted_keys_distinct: "sorted_keys kvs \<Longrightarrow> distinct (map fst kvs)"
  by (induction kvs) (auto simp: sorted_keys_def)

lemma sorted_keys_unique:
  assumes "sorted_keys xs" and "sorted_keys ys" and "set xs = set ys"
  shows "xs = ys"
  using assms
proof (induction xs arbitrary: ys)
  case (Cons x xs)
  then obtain y zs where ys: "ys = y # zs" by (cases ys) auto
  have "x = y"
  proof (rule ccontr)
    assume "x \<noteq> y"
    with Cons.prems ys have "x \<in> set zs" "y \<in> set xs" by auto
    with Cons.prems(1,2) ys have "fst y < fst x" "fst x < fst y" by (auto simp: sorted_keys_def)
    then show False by simp
  qed
  moreover have "x \<notin> set xs" "y \<notin> set zs"
    using Cons.prems(1,2) ys by (auto simp: sorted_keys_def)
  ultimately have "set xs = set zs" using Cons.prems(3) ys by auto
  with Cons \<open>x = y\<close> ys show ?case by (auto simp: sorted_keys_def)
qed (simp add: sorted_keys_def)

interpretation by_key: comparator "key_order :: string \<times> 'a \<Rightarrow> string \<times> 'a \<Rightarrow> int"
  by unfold_locales (auto simp: key_order_def str_cmp_def split: if_splits)

lemma sorted_keys_sort:
  assumes "distinct (map fst kvs)"
  shows "sorted_keys (js_sort key_order kvs)"
proof -
  have d: "distinct (map fst (js_sort key_order kvs))"
    by (metis assms distinct_map mset_eq_setD mset_js_sort distinct_js_sort)
  have step: "fst a < fst b" if "key_order a b \<le> 0" "fst a \<noteq> fst b" for a b :: "string \<times> 'a"
    using that by (auto simp: key_order_def str_cmp_def split: if_splits)
  have "sorted_wrt (\<lambda>a b. key_order a b \<le> 0) xs \<Longrightarrow> distinct (map fst xs) \<Longrightarrow> sorted_keys xs"
    for xs :: "(string \<times> 'a) list"
  proof (induction xs)
    case (Cons x xs)
    then have "fst x < fst y" if "y \<in> set xs" for y
      using that by (intro step) (auto simp: image_iff)
    with Cons show ?case by (simp add: sorted_keys_def)
  qed (simp add: sorted_keys_def)
  from this [OF by_key.sorted_js_sort d] show ?thesis .
qed

text \<open>Renaming the entries does not disturb a sort by key.\<close>

lemma js_insert_map:
  "js_insert key_order (k, g v) (map (\<lambda>(k, v). (k, g v)) xs)
     = map (\<lambda>(k, v). (k, g v)) (js_insert key_order (k, v) xs)"
  by (induction xs) (auto simp: key_order_def)

lemma js_sort_map:
  "map (\<lambda>(k, v). (k, g v)) (js_sort key_order xs) = js_sort key_order (map (\<lambda>(k, v). (k, g v)) xs)"
proof (induction xs)
  case (Cons x xs)
  then show ?case by (cases x) (simp add: js_insert_map [symmetric])
qed simp

section \<open>What the two collectors compute\<close>

lemma assertDataProperty_iff: "assertDataProperty d path = Inr v \<longleftrightarrow> d = Some (Data v True)"
  by (auto simp: assertDataProperty_def canon_error_def split: option.splits descriptor.splits)

lemma entry_step_iff:
  "entry_step nfc path acc (r, d) = Inr acc' \<longleftrightarrow>
     (\<exists>v. d = Data v True \<and> nfc r \<notin> fst ` set acc \<and> acc' = acc @ [(nfc r, r, v)])"
proof (cases "map_of acc (nfc r)")
  case None
  then have "nfc r \<notin> fst ` set acc" by (simp add: map_of_eq_None_iff)
  with None show ?thesis
    by (auto simp: entry_step_def Let_def bindR_eq_Inr assertDataProperty_iff)
next
  case (Some prior)
  then have "nfc r \<in> fst ` set acc" by (auto dest: map_of_SomeD intro: rev_image_eqI)
  with Some show ?thesis
    by (simp add: entry_step_def Let_def bindR_eq_Inr canon_error_def)
qed

lemma collect_entries_iff:
  "foldR (entry_step nfc path) acc props = Inr out \<longleftrightarrow>
     (\<exists>pairs. props = data_props pairs \<and> out = acc @ map (\<lambda>(r, v). (nfc r, r, v)) pairs
        \<and> distinct (map (nfc \<circ> fst) pairs) \<and> fst ` set acc \<inter> (nfc \<circ> fst) ` set pairs = {})"
proof (induction props arbitrary: acc)
  case Nil
  then show ?case by (auto simp: data_props_def)
next
  case (Cons p props)
  obtain r d where p: "p = (r, d)" by force
  show ?case
  proof
    assume "foldR (entry_step nfc path) acc (p # props) = Inr out"
    then obtain v where "d = Data v True" "nfc r \<notin> fst ` set acc"
      "foldR (entry_step nfc path) (acc @ [(nfc r, r, v)]) props = Inr out"
      by (auto simp: bindR_eq_Inr p entry_step_iff)
    then obtain pairs where "props = data_props pairs"
      "out = (acc @ [(nfc r, r, v)]) @ map (\<lambda>(r, v). (nfc r, r, v)) pairs"
      "distinct (map (nfc \<circ> fst) pairs)"
      "fst ` set (acc @ [(nfc r, r, v)]) \<inter> (nfc \<circ> fst) ` set pairs = {}"
      unfolding Cons.IH by blast
    then have "p # props = data_props ((r, v) # pairs)"
      "out = acc @ map (\<lambda>(r, v). (nfc r, r, v)) ((r, v) # pairs)"
      "distinct (map (nfc \<circ> fst) ((r, v) # pairs))"
      "fst ` set acc \<inter> (nfc \<circ> fst) ` set ((r, v) # pairs) = {}"
      using \<open>d = _\<close> \<open>nfc r \<notin> _\<close> p by (simp_all add: data_props_def Int_insert_right)
    then show "\<exists>pairs. p # props = data_props pairs
        \<and> out = acc @ map (\<lambda>(r, v). (nfc r, r, v)) pairs
        \<and> distinct (map (nfc \<circ> fst) pairs) \<and> fst ` set acc \<inter> (nfc \<circ> fst) ` set pairs = {}"
      by blast
  next
    assume "\<exists>pairs. p # props = data_props pairs
        \<and> out = acc @ map (\<lambda>(r, v). (nfc r, r, v)) pairs
        \<and> distinct (map (nfc \<circ> fst) pairs) \<and> fst ` set acc \<inter> (nfc \<circ> fst) ` set pairs = {}"
    then obtain all_pairs where all: "p # props = data_props all_pairs"
      "out = acc @ map (\<lambda>(r, v). (nfc r, r, v)) all_pairs"
      "distinct (map (nfc \<circ> fst) all_pairs)" "fst ` set acc \<inter> (nfc \<circ> fst) ` set all_pairs = {}"
      by blast
    then obtain q pairs where "all_pairs = q # pairs" by (cases all_pairs) (simp_all add: data_props_def)
    note q = all [unfolded this]
    obtain v where v: "q = (r, v)" "d = Data v True"
      using q(1) p by (cases q) (auto simp: data_props_def)
    with q have "foldR (entry_step nfc path) (acc @ [(nfc r, r, v)]) props = Inr out"
      by (subst Cons.IH, intro exI [of _ pairs]) (simp add: data_props_def comp_def)
    with v q(4) show "foldR (entry_step nfc path) acc (p # props) = Inr out"
      by (auto simp: bindR_eq_Inr p entry_step_iff)
  qed
qed

lemma recordEntries_iff: "recordEntries nfc ob path = Inr kvs \<longleftrightarrow> record_values nfc ob kvs"
proof -
  let ?m = "\<lambda>pairs. map (\<lambda>(r :: string, v :: cval). (nfc r, r, v)) pairs"
  have strip: "map (\<lambda>(k, raw, v). (k, v)) (js_sort key_order (?m pairs))
      = js_sort key_order (map (\<lambda>(r, v). (nfc r, v)) pairs)" for pairs
    using js_sort_map [of snd "?m pairs"] by (simp add: case_prod_beta' comp_def)
  have sorted: "sorted_keys (js_sort key_order (map (\<lambda>(r, v). (nfc r, v)) pairs))"
    if "distinct (map (nfc \<circ> fst) pairs)" for pairs :: "(string \<times> cval) list"
    using that by (intro sorted_keys_sort) (simp add: case_prod_beta' comp_def)
  show ?thesis
  proof (cases "ob_symbols ob = 0")
    case True
    then have "recordEntries nfc ob path = Inr kvs \<longleftrightarrow>
        (\<exists>pairs. ob_props ob = data_props pairs \<and> distinct (map (nfc \<circ> fst) pairs)
           \<and> kvs = js_sort key_order (map (\<lambda>(r, v). (nfc r, v)) pairs))"
      by (auto simp: recordEntries_def bindR_eq_Inr collect_entries_iff strip)
    also have "\<dots> \<longleftrightarrow> record_values nfc ob kvs"
      unfolding record_values_def using True sorted
      by (auto intro!: sorted_keys_unique [of kvs]) 
    finally show ?thesis .
  qed (simp add: recordEntries_def record_values_def canon_error_def)
qed

lemma inject_version_iff:
  assumes "sorted_keys raw"
  shows "inject_version path raw = Inr kvs \<longleftrightarrow>
    sorted_keys kvs \<and> set kvs = insert version_entry (set raw)"
proof (cases "find (\<lambda>(k, _). k = ''specVersion'') raw")
  case None
  then have absent: "''specVersion'' \<notin> fst ` set raw" by (auto simp: find_None_iff)
  let ?all = "raw @ [(''specVersion'', C_string PPV_CANONICALIZATION_VERSION)]"
  have "sorted_keys (js_sort key_order ?all)"
    using absent sorted_keys_distinct [OF assms] by (intro sorted_keys_sort) auto
  moreover have "set (js_sort key_order ?all) = insert version_entry (set raw)"
    by (simp add: version_entry_def)
  moreover have "inject_version path raw = Inr kvs \<longleftrightarrow> kvs = js_sort key_order ?all"
    using None by (auto simp: inject_version_def)
  ultimately show ?thesis using sorted_keys_unique by metis
next
  case (Some e)
  then obtain v where e: "e = (''specVersion'', v)" "(''specVersion'', v) \<in> set raw"
    by (auto simp: find_Some_iff) (metis nth_mem)
  show ?thesis
  proof (cases "v = C_string PPV_CANONICALIZATION_VERSION")
    case True
    then have "insert version_entry (set raw) = set raw" using e(2) by (auto simp: version_entry_def)
    moreover have "inject_version path raw = Inr kvs \<longleftrightarrow> kvs = raw"
      using True Some e(1) by (auto simp: inject_version_def)
    ultimately show ?thesis using assms sorted_keys_unique by metis
  next
    case False
    have "\<not> (sorted_keys kvs \<and> set kvs = insert version_entry (set raw))"
    proof
      assume k: "sorted_keys kvs \<and> set kvs = insert version_entry (set raw)"
      then have "distinct (map fst kvs)" by (simp add: sorted_keys_distinct)
      moreover have "(''specVersion'', v) \<in> set kvs" "version_entry \<in> set kvs" using k e(2) by auto
      ultimately show False
        using False eq_key_imp_eq_value by (fastforce simp: version_entry_def)
    qed
    with False Some e(1) show ?thesis by (simp add: inject_version_def canon_error_def)
  qed
qed

lemma serialize_properties_iff:
  "serialize_properties nfc ser path kvs = Inr t \<longleftrightarrow>
     (\<exists>ts. length ts = length kvs
        \<and> (\<forall>i < length kvs. ser (childPath path (fst (kvs ! i))) (snd (kvs ! i)) = Inr (ts ! i))
        \<and> t = ''{'' @ join_with '','' (map2 (\<lambda>kv s. quote nfc (fst kv) @ '':'' @ s) kvs ts) @ ''}'')"
  (is "_ = (\<exists>ts. ?ok ts \<and> ?ser ts \<and> t = ?out ts)")
proof -
  let ?one = "\<lambda>kv out. \<exists>s. ser (childPath path (fst kv)) (snd kv) = Inr s
      \<and> quote nfc (fst kv) @ '':'' @ s = out"
  have "list_all2 ?one kvs outs \<longleftrightarrow>
      (\<exists>ts. ?ok ts \<and> ?ser ts \<and> outs = map2 (\<lambda>kv s. quote nfc (fst kv) @ '':'' @ s) kvs ts)" for outs
  proof
    assume all: "list_all2 ?one kvs outs"
    then have "\<forall>i < length kvs. ?one (kvs ! i) (outs ! i)" and len: "length outs = length kvs"
      by (simp_all add: list_all2_conv_all_nth)
    then obtain s where s: "\<forall>i < length kvs. ser (childPath path (fst (kvs ! i))) (snd (kvs ! i)) = Inr (s i)
        \<and> quote nfc (fst (kvs ! i)) @ '':'' @ s i = outs ! i" by metis
    show "\<exists>ts. ?ok ts \<and> ?ser ts \<and> outs = map2 (\<lambda>kv s. quote nfc (fst kv) @ '':'' @ s) kvs ts"
      using s len by (intro exI [of _ "map s [0 ..< length kvs]"]) (auto intro: nth_equalityI)
  qed (auto simp: list_all2_conv_all_nth)
  then show ?thesis
    by (auto simp: serialize_properties_def bindR_eq_Inr mapR_Inr_iff case_prod_beta
        simp del: append.simps)
qed

definition item_path :: "string \<Rightarrow> nat \<Rightarrow> string" where
  "item_path path i = path @ ''['' @ dec_nat i @ '']''"

lemma serializeArray_iff:
  "serializeArray ser ob path = Inr t \<longleftrightarrow>
     (\<exists>vs ts. array_values ob vs \<and> length ts = length vs
        \<and> (\<forall>i < length vs. ser (item_path path i) (vs ! i) = Inr (ts ! i))
        \<and> t = ''['' @ join_with '','' ts @ '']'')" (is "_ \<longleftrightarrow> ?rhs")
proof
  assume run: "serializeArray ser ob path = Inr t"
  let ?n = "ob_length ob"
  from run obtain ts where shape: "ob_symbols ob = 0" "length (ob_props ob) = ?n + 1"
      "''length'' \<in> fst ` set (ob_props ob)" "length (enumerable_keys ob) = ?n"
    and t: "t = ''['' @ join_with '','' ts @ '']''" "length ts = ?n"
    and items: "\<forall>i < ?n. enumerable_keys ob ! i = dec_nat i
      \<and> (\<exists>v. map_of (ob_props ob) (dec_nat i) = Some (Data v True)
           \<and> ser (item_path path i) v = Inr (ts ! i))"
    by (auto simp: serializeArray_def canon_error_def bindR_eq_Inr mapR_Inr_iff list_all2_conv_all_nth
        Let_def assertDataProperty_iff item_path_def split: if_splits)
  from items obtain val where val: "\<forall>i < ?n. map_of (ob_props ob) (dec_nat i) = Some (Data (val i) True)
      \<and> ser (item_path path i) (val i) = Inr (ts ! i)" by metis
  have "enumerable_keys ob = map dec_nat [0 ..< ?n]"
    using items shape(4) by (intro nth_equalityI) auto
  with shape val t show ?rhs
    by (intro exI [of _ "map val [0 ..< ?n]"] exI [of _ ts]) (simp add: array_values_def)
next
  assume ?rhs
  then obtain vs ts where vs: "array_values ob vs" and len: "length ts = length vs"
    and ser: "\<forall>i < length vs. ser (item_path path i) (vs ! i) = Inr (ts ! i)"
    and t: "t = ''['' @ join_with '','' ts @ '']''" by blast
  have "mapR (\<lambda>i. let key = dec_nat i; itemPath = path @ ''['' @ dec_nat i @ '']''
      in if enumerable_keys ob ! i \<noteq> key then canon_error path not_dense
         else bindR (assertDataProperty (map_of (ob_props ob) key) itemPath) (\<lambda>v. ser itemPath v))
      [0 ..< ob_length ob] = Inr ts"
    using vs ser len unfolding mapR_Inr_iff
    by (simp add: list_all2_conv_all_nth array_values_def Let_def bindR_eq_Inr assertDataProperty_iff
        item_path_def)
  then show "serializeArray ser ob path = Inr t"
    using vs t by (simp add: serializeArray_def array_values_def)
qed

section \<open>The serializer computes the printed value\<close>

inductive denotes :: "(string \<Rightarrow> string) \<Rightarrow> heap \<Rightarrow> cval \<Rightarrow> doc \<Rightarrow> bool"
  for nfc :: "string \<Rightarrow> string" and heap :: heap where
  den_str: "denotes nfc heap (C_string s) (D_str (nfc s))"
| den_bool: "denotes nfc heap (C_bool b) (D_bool b)"
| den_arr: "map_of heap a = Some ob \<Longrightarrow> ob_isArray ob \<Longrightarrow> array_values ob vs \<Longrightarrow>
    length ds = length vs \<Longrightarrow> (\<And>i. i < length vs \<Longrightarrow> denotes nfc heap (vs ! i) (ds ! i)) \<Longrightarrow>
    denotes nfc heap (C_ref a) (D_arr ds)"
| den_obj: "map_of heap a = Some ob \<Longrightarrow> \<not> ob_isArray ob \<Longrightarrow> ob_plainProto ob \<Longrightarrow>
    record_values nfc ob kvs \<Longrightarrow> length fs = length kvs \<Longrightarrow>
    (\<And>i. i < length kvs \<Longrightarrow> fst (fs ! i) = fst (kvs ! i)
       \<and> denotes nfc heap (snd (kvs ! i)) (snd (fs ! i))) \<Longrightarrow>
    denotes nfc heap (C_ref a) (D_obj fs)"

inductive_simps denotes_string [simp]: "denotes nfc heap (C_string s) d"
inductive_simps denotes_bool [simp]: "denotes nfc heap (C_bool b) d"
inductive_simps denotes_null [simp]: "denotes nfc heap C_null d"
inductive_simps denotes_kind [simp]: "denotes nfc heap (C_kind k) d"
inductive_cases denotes_refE: "denotes nfc heap (C_ref a) d"

text \<open>The whole document: a plain object, with its version.\<close>

definition denotes_document :: "(string \<Rightarrow> string) \<Rightarrow> heap \<Rightarrow> cval \<Rightarrow> doc \<Rightarrow> bool" where
  "denotes_document nfc heap v d \<longleftrightarrow>
     (\<exists>a ob kvs fs. v = C_ref a \<and> map_of heap a = Some ob \<and> \<not> ob_isArray ob \<and> ob_plainProto ob
        \<and> document_values nfc ob kvs \<and> length fs = length kvs
        \<and> (\<forall>i < length kvs. fst (fs ! i) = fst (kvs ! i)
             \<and> denotes nfc heap (snd (kvs ! i)) (snd (fs ! i)))
        \<and> d = D_obj fs)"

lemma record_values_unique: "record_values nfc ob kvs \<Longrightarrow> record_values nfc ob kvs' \<Longrightarrow> kvs = kvs'"
  by (metis recordEntries_iff sum.inject(2))

lemma array_values_unique: "array_values ob vs \<Longrightarrow> array_values ob vs' \<Longrightarrow> vs = vs'"
  by (auto simp: array_values_def intro!: nth_equalityI)

lemma document_values_unique:
  "document_values nfc ob kvs \<Longrightarrow> document_values nfc ob kvs' \<Longrightarrow> kvs = kvs'"
  unfolding document_values_def by (metis record_values_unique sorted_keys_unique)

lemma fields_equalityI:
  assumes "length fs = length kvs" "length gs = length kvs"
    and "\<And>i. i < length kvs \<Longrightarrow> fst (fs ! i) = fst (kvs ! i) \<and> fst (gs ! i) = fst (kvs ! i)
      \<and> snd (fs ! i) = snd (gs ! i)"
  shows "fs = gs"
  using assms by (intro nth_equalityI prod_eqI) simp_all

lemma denotes_array:
  assumes "denotes nfc heap (C_ref a) e" and "map_of heap a = Some ob" and "array_values ob vs"
    and "ob_isArray ob"
  shows "\<exists>es. e = D_arr es \<and> length es = length vs
    \<and> (\<forall>i < length vs. denotes nfc heap (vs ! i) (es ! i))"
  using assms by (elim denotes_refE) (auto dest: array_values_unique)

lemma denotes_record:
  assumes "denotes nfc heap (C_ref a) e" and "map_of heap a = Some ob" and "record_values nfc ob kvs"
    and "\<not> ob_isArray ob"
  shows "\<exists>gs. e = D_obj gs \<and> length gs = length kvs
    \<and> (\<forall>i < length kvs. fst (gs ! i) = fst (kvs ! i) \<and> denotes nfc heap (snd (kvs ! i)) (snd (gs ! i)))"
  using assms by (elim denotes_refE) (auto dest: record_values_unique)

lemma denotes_unique: "denotes nfc heap v d \<Longrightarrow> denotes nfc heap v e \<Longrightarrow> d = e"
proof (induction arbitrary: e rule: denotes.induct)
  case (den_arr a ob vs ds)
  with denotes_array [OF den_arr.prems den_arr.hyps(1,3,2)] obtain es where
    e: "e = D_arr es" "length es = length vs" "\<forall>i < length vs. denotes nfc heap (vs ! i) (es ! i)"
    by blast
  then have "ds = es" using den_arr.IH den_arr.hyps(4) by (intro nth_equalityI) auto
  with e show ?case by simp
next
  case (den_obj a ob kvs fs)
  with denotes_record [OF den_obj.prems den_obj.hyps(1,4,2)] obtain gs where
    e: "e = D_obj gs" "length gs = length kvs"
      "\<forall>i < length kvs. fst (gs ! i) = fst (kvs ! i) \<and> denotes nfc heap (snd (kvs ! i)) (snd (gs ! i))"
    by blast
  have "fs = gs"
    by (rule fields_equalityI [OF den_obj.hyps(5) e(2)]) (use den_obj.IH e(3) in blast)
  with e show ?case by simp
qed simp_all

text \<open>The normal form is one: what the code assumes of \<open>String.prototype.normalize\<close>.\<close>

definition normal_form :: "(string \<Rightarrow> string) \<Rightarrow> bool" where
  "normal_form nfc \<longleftrightarrow> (\<forall>s. nfc (nfc s) = nfc s)"

lemma record_key_normal:
  assumes "record_values nfc ob kvs" and "normal_form nfc" and "kv \<in> set kvs"
  shows "nfc (fst kv) = fst kv"
proof -
  from assms obtain r v pairs where "(r, v) \<in> set pairs" "kv = (nfc r, v)"
    by (auto simp: record_values_def)
  with assms(2) show ?thesis by (simp add: normal_form_def)
qed

lemma print_fields:
  assumes "length fs = length kvs" and "length ts = length kvs"
    and "\<And>i. i < length kvs \<Longrightarrow> fst (fs ! i) = fst (kvs ! i) \<and> nfc (fst (kvs ! i)) = fst (kvs ! i)
      \<and> ts ! i = print (snd (fs ! i))"
  shows "''{'' @ join_with '','' (map2 (\<lambda>kv s. quote nfc (fst kv) @ '':'' @ s) kvs ts) @ ''}'' = print (D_obj fs)"
proof -
  have "map2 (\<lambda>kv s. quote nfc (fst kv) @ '':'' @ s) kvs ts
      = map (\<lambda>(k, d). json_string k @ '':'' @ print d) fs"
  proof (rule nth_equalityI)
    show "length (map2 (\<lambda>kv s. quote nfc (fst kv) @ '':'' @ s) kvs ts)
        = length (map (\<lambda>(k, d). json_string k @ '':'' @ print d) fs)"
      using assms(1,2) by simp
    fix i assume "i < length (map2 (\<lambda>kv s. quote nfc (fst kv) @ '':'' @ s) kvs ts)"
    then have i: "i < length kvs" using assms(2) by simp
    with assms(3) [OF i] assms(1,2) show "map2 (\<lambda>kv s. quote nfc (fst kv) @ '':'' @ s) kvs ts ! i
        = map (\<lambda>(k, d). json_string k @ '':'' @ print d) fs ! i"
      by (simp add: quote_def case_prod_beta)
  qed
  then show ?thesis by (simp only: print.simps print_field_map)
qed

text \<open>Every successful run prints the value denoted.\<close>

lemma serialize_fields_sound:
  assumes run: "serialize_properties nfc ser path kvs = Inr t"
    and each: "\<And>p v s. ser p v = Inr s \<Longrightarrow> \<exists>d. denotes nfc heap v d \<and> s = print d"
    and normal: "\<And>kv. kv \<in> set kvs \<Longrightarrow> nfc (fst kv) = fst kv"
  shows "\<exists>fs. length fs = length kvs
    \<and> (\<forall>i < length kvs. fst (fs ! i) = fst (kvs ! i) \<and> denotes nfc heap (snd (kvs ! i)) (snd (fs ! i)))
    \<and> t = print (D_obj fs)"
proof -
  from run obtain ts where ts: "length ts = length kvs"
    "\<forall>i < length kvs. ser (childPath path (fst (kvs ! i))) (snd (kvs ! i)) = Inr (ts ! i)"
    "t = ''{'' @ join_with '','' (map2 (\<lambda>kv s. quote nfc (fst kv) @ '':'' @ s) kvs ts) @ ''}''"
    unfolding serialize_properties_iff by blast
  from ts(2) each have "\<forall>i < length kvs. \<exists>d. denotes nfc heap (snd (kvs ! i)) d \<and> ts ! i = print d"
    by blast
  then obtain val where
    val: "\<forall>i < length kvs. denotes nfc heap (snd (kvs ! i)) (val i) \<and> ts ! i = print (val i)"
    by metis
  let ?fs = "map (\<lambda>i. (fst (kvs ! i), val i)) [0 ..< length kvs]"
  have "t = print (D_obj ?fs)"
    unfolding ts(3) using val ts(1) normal by (intro print_fields) auto
  with val show ?thesis by (intro exI [of _ ?fs]) simp
qed

lemma serializeValue_ref:
  "map_of heap a = Some ob \<Longrightarrow> serializeValue nfc heap anc path (C_ref a) =
     (if \<not> ob_isArray ob \<and> \<not> ob_plainProto ob
      then canon_error path ''only arrays and plain objects are supported''
      else if a \<in> set anc then canon_error path ''cyclic values are not supported''
      else if ob_isArray ob then serializeArray (serializeValue nfc heap (a # anc)) ob path
      else serializeRecord nfc (serializeValue nfc heap (a # anc)) ob path False)"
  by (subst serializeValue.simps) simp

lemma serializeValue_dangling:
  "map_of heap a = None \<Longrightarrow> serializeValue nfc heap anc path (C_ref a) \<noteq> Inr t"
  by (subst serializeValue.simps) simp

lemma serializeValue_sound:
  "normal_form nfc \<Longrightarrow> serializeValue nfc heap anc path v = Inr t \<Longrightarrow> \<exists>d. denotes nfc heap v d \<and> t = print d"
proof (induction nfc heap anc path v arbitrary: t rule: serializeValue.induct)
  case (1 nfc heap anc path v)
  show ?case
  proof (cases v)
    case (C_ref a)
    with "1.prems" obtain ob where ob: "map_of heap a = Some ob"
        "ob_isArray ob \<or> ob_plainProto ob" "a \<notin> set anc"
      using serializeValue_dangling [of heap a] serializeValue_ref [of heap a]
      by (cases "map_of heap a") (auto simp: canon_error_def split: if_splits)
    show ?thesis
    proof (cases "ob_isArray ob")
      case True
      with "1.prems" C_ref ob have "serializeArray (serializeValue nfc heap (a # anc)) ob path = Inr t"
        by (simp add: serializeValue_ref)
      then obtain vs ts where vs: "array_values ob vs" "length ts = length vs"
        "\<forall>i < length vs. serializeValue nfc heap (a # anc) (item_path path i) (vs ! i) = Inr (ts ! i)"
        "t = ''['' @ join_with '','' ts @ '']''"
        unfolding serializeArray_iff by blast
      have "\<forall>i < length vs. \<exists>d. denotes nfc heap (vs ! i) d \<and> ts ! i = print d"
        using vs(3) "1.IH"(1) [OF C_ref ob(1)] ob True "1.prems"(1) by blast
      then obtain val where val: "\<forall>i < length vs. denotes nfc heap (vs ! i) (val i) \<and> ts ! i = print (val i)"
        by metis
      let ?ds = "map val [0 ..< length vs]"
      have "map print ?ds = ts" using val vs(2) by (intro nth_equalityI) auto
      then have "t = print (D_arr ?ds)" using vs(4) by simp
      moreover have "denotes nfc heap v (D_arr ?ds)"
        unfolding C_ref using val by (intro den_arr [OF ob(1) True vs(1)]) auto
      ultimately show ?thesis by blast
    next
      case False
      with "1.prems" C_ref ob obtain kvs where kvs: "record_values nfc ob kvs"
        "serialize_properties nfc (serializeValue nfc heap (a # anc)) path kvs = Inr t"
        by (auto simp: serializeValue_ref serializeRecord_def bindR_eq_Inr recordEntries_iff)
      have each: "\<exists>d. denotes nfc heap w d \<and> s = print d"
        if "serializeValue nfc heap (a # anc) p w = Inr s" for p w s
        using that "1.IH"(2) [OF C_ref ob(1)] ob False "1.prems"(1) by blast
      obtain fs where "length fs = length kvs" "t = print (D_obj fs)"
        "\<forall>i < length kvs. fst (fs ! i) = fst (kvs ! i) \<and> denotes nfc heap (snd (kvs ! i)) (snd (fs ! i))"
        using serialize_fields_sound [OF kvs(2), of heap] each record_key_normal [OF kvs(1) "1.prems"(1)]
        by blast
      moreover from this have "denotes nfc heap v (D_obj fs)"
        unfolding C_ref using ob False kvs(1) by (intro den_obj [of heap a ob]) auto
      ultimately show ?thesis by blast
    qed
  qed (use "1.prems" in \<open>auto simp: serializeValue.simps canon_error_def quote_def\<close>)
qed

text \<open>
  Conversely every value denoted is printed: a value that contains itself denotes nothing,
  so the check for cycles never refuses one that does.
\<close>

lemma size_item: "i < length ds \<Longrightarrow> size (ds ! i) < size (D_arr ds)"
  by (simp add: less_Suc_eq_le size_list_estimation' [OF nth_mem])

lemma size_field: "i < length fs \<Longrightarrow> size (snd (fs ! i)) < size (D_obj fs)"
proof (induction fs arbitrary: i)
  case (Cons f fs)
  then show ?case by (cases i; cases f) (auto dest!: Cons.IH)
qed simp

lemma serialize_fields_complete:
  assumes "length fs = length kvs" and "\<And>kv. kv \<in> set kvs \<Longrightarrow> nfc (fst kv) = fst kv"
    and "\<And>i p. i < length kvs \<Longrightarrow> fst (fs ! i) = fst (kvs ! i)
      \<and> ser p (snd (kvs ! i)) = Inr (print (snd (fs ! i)))"
  shows "serialize_properties nfc ser path kvs = Inr (print (D_obj fs))"
  unfolding serialize_properties_iff
proof (intro exI conjI allI impI)
  let ?ts = "map (\<lambda>f. print (snd f)) fs"
  show "length ?ts = length kvs" using assms(1) by simp
  show "ser (childPath path (fst (kvs ! i))) (snd (kvs ! i)) = Inr (?ts ! i)" if "i < length kvs" for i
    using assms(1) assms(3) [OF that] that by simp
  show "print (D_obj fs) = ''{'' @ join_with '','' (map2 (\<lambda>kv s. quote nfc (fst kv) @ '':'' @ s) kvs ?ts) @ ''}''"
    using assms by (intro print_fields [symmetric]) simp_all
qed

lemma serializeValue_complete:
  "denotes nfc heap v d \<Longrightarrow> normal_form nfc \<Longrightarrow>
    (\<And>a e. a \<in> set anc \<Longrightarrow> denotes nfc heap (C_ref a) e \<Longrightarrow> size d < size e) \<Longrightarrow>
    serializeValue nfc heap anc path v = Inr (print d)"
proof (induction arbitrary: anc path rule: denotes.induct)
  case (den_arr a ob vs ds)
  have self: "denotes nfc heap (C_ref a) (D_arr ds)"
    using den_arr.hyps den_arr.IH by (intro denotes.den_arr) auto
  with den_arr.prems(2) have fresh: "a \<notin> set anc" by blast
  have each: "serializeValue nfc heap (a # anc) (item_path path i) (vs ! i) = Inr (map print ds ! i)"
    if i: "i < length vs" for i
  proof -
    have less: "size (ds ! i) < size (D_arr ds)" using i den_arr.hyps(4) by (intro size_item) simp
    have "size (ds ! i) < size e" if b: "b \<in> set (a # anc)" and e: "denotes nfc heap (C_ref b) e" for b e
    proof (cases "b = a")
      case True
      then have "e = D_arr ds" using e self denotes_unique by blast
      with less show ?thesis by simp
    next
      case False
      then have "size (D_arr ds) < size e" using b e den_arr.prems(2) by simp
      with less show ?thesis by linarith
    qed
    then have "serializeValue nfc heap (a # anc) (item_path path i) (vs ! i) = Inr (print (ds ! i))"
      using den_arr.IH [OF i] den_arr.prems(1) by blast
    with i den_arr.hyps(4) show ?thesis by simp
  qed
  have "serializeArray (serializeValue nfc heap (a # anc)) ob path = Inr (print (D_arr ds))"
    unfolding serializeArray_iff
    by (rule exI [of _ vs], rule exI [of _ "map print ds"])
      (use den_arr.hyps(3,4) each in simp)
  with den_arr.hyps fresh show ?case by (simp add: serializeValue_ref)
next
  case (den_obj a ob kvs fs)
  have self: "denotes nfc heap (C_ref a) (D_obj fs)"
    using den_obj.hyps den_obj.IH by (intro denotes.den_obj [of heap a ob _ kvs]) auto
  with den_obj.prems(2) have fresh: "a \<notin> set anc" by blast
  have each: "fst (fs ! i) = fst (kvs ! i)
      \<and> serializeValue nfc heap (a # anc) p (snd (kvs ! i)) = Inr (print (snd (fs ! i)))"
    if i: "i < length kvs" for i p
  proof -
    have less: "size (snd (fs ! i)) < size (D_obj fs)" using i den_obj.hyps(5) by (intro size_field) simp
    have "size (snd (fs ! i)) < size e" if b: "b \<in> set (a # anc)" and e: "denotes nfc heap (C_ref b) e" for b e
    proof (cases "b = a")
      case True
      then have "e = D_obj fs" using e self denotes_unique by blast
      with less show ?thesis by simp
    next
      case False
      then have "size (D_obj fs) < size e" using b e den_obj.prems(2) by simp
      with less show ?thesis by linarith
    qed
    with den_obj.IH [OF i] den_obj.prems(1) show ?thesis by blast
  qed
  have "serialize_properties nfc (serializeValue nfc heap (a # anc)) path kvs = Inr (print (D_obj fs))"
    using den_obj.hyps(4,5) den_obj.prems(1) each
    by (intro serialize_fields_complete) (auto simp del: print.simps intro: record_key_normal)
  with den_obj.hyps(1-4) fresh show ?case
    by (simp add: serializeValue_ref serializeRecord_def bindR_eq_Inr recordEntries_iff del: print.simps) blast
qed (simp_all add: serializeValue.simps quote_def)

lemma document_key_normal:
  assumes "document_values nfc ob kvs" and "normal_form nfc" and "nfc ''specVersion'' = ''specVersion''"
    and "kv \<in> set kvs"
  shows "nfc (fst kv) = fst kv"
  using assms record_key_normal [of nfc ob _ kv] by (auto simp: document_values_def version_entry_def)

section \<open>Documents\<close>

lemma canonicalizeV1_object:
  "map_of heap a = Some ob \<Longrightarrow> canonicalizeV1 nfc heap (C_ref a) =
     (if ob_isArray ob \<or> \<not> ob_plainProto ob
      then canon_error ''$'' ''the top-level value must be a plain object''
      else serializeRecord nfc (serializeValue nfc heap [a]) ob ''$'' True)"
  by (simp add: canonicalizeV1_def isPlainRecord_def)

lemma serializeRecord_document:
  "serializeRecord nfc ser ob path True = Inr t \<longleftrightarrow>
     (\<exists>kvs. document_values nfc ob kvs \<and> serialize_properties nfc ser path kvs = Inr t)"
proof -
  have "bindR (recordEntries nfc ob path) (inject_version path) = Inr kvs \<longleftrightarrow> document_values nfc ob kvs"
    for kvs
    unfolding document_values_def bindR_eq_Inr recordEntries_iff
    using inject_version_iff by (auto simp: record_values_def)
  moreover have "serializeRecord nfc ser ob path True =
      bindR (bindR (recordEntries nfc ob path) (inject_version path)) (serialize_properties nfc ser path)"
    by (cases "recordEntries nfc ob path") (simp_all add: serializeRecord_def)
  ultimately show ?thesis by (auto simp: bindR_eq_Inr)
qed

lemma document_sound:
  assumes "normal_form nfc" and "nfc ''specVersion'' = ''specVersion''"
    and run: "canonicalizeV1 nfc heap v = Inr t"
  shows "\<exists>d. denotes_document nfc heap v d \<and> t = print d"
proof -
  from run obtain a ob where v: "v = C_ref a" "map_of heap a = Some ob" "\<not> ob_isArray ob" "ob_plainProto ob"
    by (auto simp: canonicalizeV1_def isPlainRecord_def canon_error_def split: cval.splits option.splits if_splits)
  with run obtain kvs where kvs: "document_values nfc ob kvs"
    "serialize_properties nfc (serializeValue nfc heap [a]) ''$'' kvs = Inr t"
    by (auto simp: canonicalizeV1_object serializeRecord_document)
  obtain fs where "length fs = length kvs" "t = print (D_obj fs)"
    "\<forall>i < length kvs. fst (fs ! i) = fst (kvs ! i) \<and> denotes nfc heap (snd (kvs ! i)) (snd (fs ! i))"
    using serialize_fields_sound [OF kvs(2), of heap] serializeValue_sound [OF assms(1)]
      document_key_normal [OF kvs(1) assms(1,2)] by blast
  then show ?thesis using v kvs(1) unfolding denotes_document_def by blast
qed

lemma document_complete:
  assumes "normal_form nfc" and "nfc ''specVersion'' = ''specVersion''"
    and "denotes_document nfc heap v d"
  shows "canonicalizeV1 nfc heap v = Inr (print d)"
proof -
  from assms(3) obtain a ob kvs fs where v: "v = C_ref a" "map_of heap a = Some ob" "\<not> ob_isArray ob"
      "ob_plainProto ob" and kvs: "document_values nfc ob kvs" and fs: "length fs = length kvs"
      "\<And>i. i < length kvs \<Longrightarrow> fst (fs ! i) = fst (kvs ! i) \<and> denotes nfc heap (snd (kvs ! i)) (snd (fs ! i))"
    and d: "d = D_obj fs"
    unfolding denotes_document_def by blast
  from kvs obtain raw where raw: "record_values nfc ob raw" "set kvs = insert version_entry (set raw)"
    by (auto simp: document_values_def)
  have each: "serializeValue nfc heap [a] p (snd (kvs ! i)) = Inr (print (snd (fs ! i)))"
    if i: "i < length kvs" for i p
  proof (cases "kvs ! i \<in> set raw")
    case True
    then obtain j where j: "j < length raw" "raw ! j = kvs ! i" by (metis in_set_conv_nth)
    have "size (snd (fs ! i)) < size e" if e: "denotes nfc heap (C_ref a) e" for e
    proof -
      obtain gs where gs: "e = D_obj gs" "length gs = length raw"
          "denotes nfc heap (snd (raw ! j)) (snd (gs ! j))"
        using denotes_record [OF e v(2) raw(1) v(3)] j(1) by blast
      with fs(2) [OF i] j(2) have "snd (gs ! j) = snd (fs ! i)" by (metis denotes_unique)
      with size_field [of j gs] gs(1,2) j(1) show ?thesis by simp
    qed
    with fs(2) [OF i] assms(1) show ?thesis by (intro serializeValue_complete) auto
  next
    case False
    with raw(2) i have "kvs ! i = version_entry" using nth_mem by blast
    with fs(2) [OF i] show ?thesis
      by (simp add: version_entry_def serializeValue.simps quote_def)
  qed
  have "serialize_properties nfc (serializeValue nfc heap [a]) ''$'' kvs = Inr (print d)"
    unfolding d using fs each document_key_normal [OF kvs assms(1,2)]
    by (intro serialize_fields_complete) auto
  with kvs v show ?thesis
    by (simp add: canonicalizeV1_object) (auto simp: serializeRecord_document)
qed

lemma denotes_document_unique:
  "denotes_document nfc heap v d \<Longrightarrow> denotes_document nfc heap v e \<Longrightarrow> normal_form nfc \<Longrightarrow>
    nfc ''specVersion'' = ''specVersion'' \<Longrightarrow> d = e"
  using document_complete [of nfc heap v d] document_complete [of nfc heap v e] print_inject [of d "[]" e "[]"]
  by simp

section \<open>The bytes and the hash\<close>

lemma byte_of_nat_inject:
  "m < 256 \<Longrightarrow> n < 256 \<Longrightarrow> (word_of_nat m :: byte) = word_of_nat n \<longleftrightarrow> m = n"
  by (simp add: word_of_nat_eq_iff take_bit_nat_eq_self)

lemma encode_char_inject:
  assumes "encode_char c @ r = encode_char c' @ r'"
  shows "c = c' \<and> r = r'"
proof -
  let ?m = "of_char c :: nat" and ?n = "of_char c' :: nat"
  have "?m < 256" "?n < 256" by simp_all
  then have bounds: "192 + ?m div 64 < 256" "192 + ?n div 64 < 256" "128 + ?m mod 64 < 256"
      "128 + ?n mod 64 < 256" by linarith+
  have "?m = ?n \<and> r = r'"
  proof (cases "?m < 128"; cases "?n < 128")
    assume "?m < 128" "?n < 128"
    with assms byte_of_nat_inject [of ?m ?n] show ?thesis by (simp add: encode_char_def)
  next
    assume "?m < 128" "\<not> ?n < 128"
    with assms byte_of_nat_inject [OF _ bounds(2), of ?m] show ?thesis by (simp add: encode_char_def)
  next
    assume "\<not> ?m < 128" "?n < 128"
    with assms byte_of_nat_inject [OF bounds(1), of ?n] show ?thesis by (simp add: encode_char_def)
  next
    assume "\<not> ?m < 128" "\<not> ?n < 128"
    with assms have "?m div 64 = ?n div 64" "?m mod 64 = ?n mod 64" "r = r'"
      using byte_of_nat_inject [OF bounds(1,2)] byte_of_nat_inject [OF bounds(3,4)]
      by (simp_all add: encode_char_def)
    then show ?thesis by (metis div_mult_mod_eq)
  qed
  then show ?thesis by simp
qed

lemma text_encoder_inject [simp]: "text_encoder s = text_encoder s' \<longleftrightarrow> s = s'"
proof
  show "text_encoder s = text_encoder s' \<Longrightarrow> s = s'"
  proof (induction s arbitrary: s')
    case Nil
    then show ?case by (cases s') (auto simp: text_encoder_def encode_char_def split: if_splits)
  next
    case (Cons c s)
    show ?case
    proof (cases s')
      case Nil
      with Cons.prems show ?thesis by (auto simp: text_encoder_def encode_char_def split: if_splits)
    next
      case (Cons c' t)
      with Cons.prems have "encode_char c @ text_encoder s = encode_char c' @ text_encoder t"
        by (simp add: text_encoder_def)
      from encode_char_inject [OF this] Cons Cons.IH show ?thesis by blast
    qed
  qed
qed simp

lemma bytesToHex_hex: "bytesToHex bs = hex bs"
proof -
  have "foldl (\<lambda>output b. output @ hex_byte b) acc bs = acc @ hex bs" for acc
    by (induction bs arbitrary: acc) (simp_all add: hex_Cons hex_def)
  then show ?thesis by (simp add: bytesToHex_def)
qed

section \<open>Properties\<close>

text \<open>
  C17: Canonicalization implements the document model: a JavaScript value is accepted exactly
  when it denotes a document (a plain object of strings, booleans, dense arrays and plain
  objects, with data properties only, no two of them with one normalized name, and nothing
  inside itself, carrying version 1 if any), and the text is the printed form of that document
  with its keys in order and the version added.
\<close>

theorem canonical_refines:
  assumes "normal_form nfc" and "nfc ''specVersion'' = ''specVersion''"
  shows "canonicalizeV1 nfc heap v = Inr t \<longleftrightarrow> (\<exists>d. denotes_document nfc heap v d \<and> t = print d)"
  using document_sound [OF assms] document_complete [OF assms] by blast

definition sample_heap :: heap where
  "sample_heap =
     [(0, \<lparr>ob_isArray = False, ob_length = 0, ob_plainProto = True, ob_symbols = 0,
           ob_props = [(''title'', Data (C_string ''a'') True), (''items'', Data (C_ref 1) True)]\<rparr>),
      (1, \<lparr>ob_isArray = True, ob_length = 2, ob_plainProto = False, ob_symbols = 0,
           ob_props = [(''0'', Data (C_bool True) True), (''1'', Data (C_string ''b'') True),
             (''length'', Data (C_kind ''number'') False)]\<rparr>)]"

definition sample_text :: string where
  "sample_text = ''{'' @ json_string ''items'' @ '':[true,'' @ json_string ''b'' @ ''],''
     @ json_string ''specVersion'' @ '':'' @ json_string ''1'' @ '',''
     @ json_string ''title'' @ '':'' @ json_string ''a'' @ ''}''"

lemma sample_canonical: "canonicalizeV1 (\<lambda>s. s) sample_heap (C_ref 0) = Inr sample_text"
  by code_simp

theorem canonical_refines_witness:
  "normal_form (\<lambda>s. s) \<and> (\<exists>d. denotes_document (\<lambda>s. s) sample_heap (C_ref 0) d \<and> sample_text = print d)"
  using canonical_refines [of "\<lambda>s. s" sample_heap "C_ref 0" sample_text] sample_canonical
  by (simp add: normal_form_def)

text \<open>
  C18: A commitment pins the document. Two values canonicalize to the same bytes exactly when
  they denote the same document, whatever the order of their properties, the identity of their
  objects or the spelling of their strings before normalization; and two values with one
  commitment are the same document unless the hash collides on their bytes.
\<close>

theorem canonical_commits:
  assumes "normal_form nfc" and "nfc ''specVersion'' = ''specVersion''"
    and "canonicalizeBytesV1 nfc h v = Inr b" and "canonicalizeBytesV1 nfc h' v' = Inr b'"
  shows "(b = b' \<longleftrightarrow> (\<exists>d. denotes_document nfc h v d \<and> denotes_document nfc h' v' d))
    \<and> hashDocumentHexV1 sha nfc h v = Inr (hex (sha b))
    \<and> (hashDocumentHexV1 sha nfc h v = hashDocumentHexV1 sha nfc h' v' \<longleftrightarrow> sha b = sha b')"
proof -
  obtain d d' where d: "denotes_document nfc h v d" "b = text_encoder (print d)"
    "denotes_document nfc h' v' d'" "b' = text_encoder (print d')"
    using assms(3,4) document_sound [OF assms(1,2)]
    unfolding canonicalizeBytesV1_def bindR_eq_Inr by blast
  then have "b = b' \<longleftrightarrow> d = d'" using print_inject [of d "[]" d' "[]"] by auto
  moreover have "(\<exists>e. denotes_document nfc h v e \<and> denotes_document nfc h' v' e) \<longleftrightarrow> d = d'"
    using d(1,3) denotes_document_unique assms(1,2) by blast
  ultimately show ?thesis
    using assms(3,4) by (simp add: hashDocumentHexV1_def hashDocumentV1_def bytesToHex_hex)
qed

theorem canonical_commits_witness:
  "\<exists>d. denotes_document (\<lambda>s. s) sample_heap (C_ref 0) d"
  using canonical_commits [of "\<lambda>s. s" sample_heap "C_ref 0" "text_encoder sample_text"
      sample_heap "C_ref 0" "text_encoder sample_text" "\<lambda>bs. bs"] sample_canonical
  by (simp add: normal_form_def canonicalizeBytesV1_def)

end
