(* ===== verification/Commerce_Binding.thy ===== *)
theory Commerce_Binding
  imports Accounts
begin

text \<open>
  The binding of a negotiated contract to the escrow that funds it
  (\<open>sdk/src/commerce/binding.ts\<close>): every way the two accounts can disagree is a reason, and
  they are bound when there is none.
\<close>

record terms_binding =
  tb_bound :: bool
  tb_reasons :: "string list"

record escrow_terms =
  et_creator :: string
  et_counterparty :: string
  et_termsHash :: string

fun commerce_state_text :: "commerce_state \<Rightarrow> string" where
  "commerce_state_text Commerce_Pending = ''Pending''"
| "commerce_state_text Commerce_Executed = ''Executed''"
| "commerce_state_text Commerce_Cancelled = ''Cancelled''"

text \<open>\<open>if (condition) reasons.push(reason)\<close>.\<close>

definition push_if :: "bool \<Rightarrow> string \<Rightarrow> string list \<Rightarrow> string list" where
  "push_if c reason reasons = (if c then reasons @ [reason] else reasons)"

text \<open>The first loop: what each signature is a signature of.\<close>

definition check_signature ::
    "commerce_agreement_account \<Rightarrow> string list \<Rightarrow> string \<times> commerce_signature option \<Rightarrow> string list" where
  "check_signature contract reasons labelled =
     (let label = fst labelled
      in case snd labelled of
        None \<Rightarrow> reasons @ [label @ '' has not signed the current version'']
      | Some s \<Rightarrow>
          push_if (cs_contentHashSigned s \<noteq> ca_contentHash contract)
            (label @ '' signed a different content hash'')
          (push_if (cs_termsHashSigned s \<noteq> ca_termsHash contract)
            (label @ '' signed a different terms hash'')
          (push_if (cs_versionSigned s \<noteq> ca_version contract)
            (label @ '' signed version '' @ dec_int (cs_versionSigned s) @ '', not ''
               @ dec_int (ca_version contract)) reasons)))"

text \<open>The second loop, over two signatures that are there: who signed.\<close>

definition check_signer ::
    "string list \<Rightarrow> string list \<Rightarrow> string \<times> commerce_signature \<Rightarrow> string list" where
  "check_signer parties reasons labelled =
     push_if (cs_signer (snd labelled) \<notin> set parties)
       (fst labelled @ [CHR 0x27] @ ''s signature is from a wallet that is not a party'') reasons"

definition verifyTermsBinding :: "escrow_terms \<Rightarrow> commerce_agreement_account \<Rightarrow> terms_binding" where
  "verifyTermsBinding escrow contract =
     (let parties = [ca_partyA contract, ca_partyB contract];
          reasons = push_if (ca_termsHash contract \<noteq> et_termsHash escrow)
            (''the escrow'' @ [CHR 0x27] @ ''s terms hash does not match the contract'' @ [CHR 0x27] @ ''s'') [];
          reasons = push_if (ca_state contract \<noteq> Commerce_Executed)
            (''the contract is '' @ commerce_state_text (ca_state contract) @ '', not Executed'') reasons;
          reasons = push_if (et_creator escrow \<notin> set parties \<or> et_counterparty escrow \<notin> set parties)
            (''the escrow'' @ [CHR 0x27] @ ''s parties are not the contract'' @ [CHR 0x27] @ ''s parties'') reasons;
          reasons = push_if (et_creator escrow = et_counterparty escrow)
            ''the escrow names the same wallet twice'' reasons;
          reasons = foldl (check_signature contract) reasons
            [(''party A'', ca_signatureA contract), (''party B'', ca_signatureB contract)];
          reasons =
            (case (ca_signatureA contract, ca_signatureB contract) of
               (Some a, Some b) \<Rightarrow>
                 foldl (check_signer parties)
                   (push_if (cs_signer a = cs_signer b) ''both signatures are from the same wallet'' reasons)
                   [(''party A'', a), (''party B'', b)]
             | _ \<Rightarrow> reasons)
      in \<lparr>tb_bound = (length reasons = 0), tb_reasons = reasons\<rparr>)"

lemma push_if_Nil [simp]: "push_if c r rs = [] \<longleftrightarrow> \<not> c \<and> rs = []"
  by (simp add: push_if_def)

lemma length_push_if: "length (push_if c r rs) = length rs + (if c then 1 else 0)"
  by (simp add: push_if_def)

definition signs_current :: "commerce_agreement_account \<Rightarrow> commerce_signature option \<Rightarrow> bool" where
  "signs_current contract sig \<longleftrightarrow> (\<exists>s. sig = Some s
     \<and> cs_versionSigned s = ca_version contract \<and> cs_termsHashSigned s = ca_termsHash contract
     \<and> cs_contentHashSigned s = ca_contentHash contract)"

lemma check_signature_Nil [simp]:
  "check_signature contract reasons (label, sig) = [] \<longleftrightarrow> reasons = [] \<and> signs_current contract sig"
  by (auto simp: check_signature_def signs_current_def split: option.splits)

lemma check_signer_Nil [simp]:
  "check_signer parties reasons (label, s) = [] \<longleftrightarrow> reasons = [] \<and> cs_signer s \<in> set parties"
  by (auto simp: check_signer_def)

definition signers :: "commerce_agreement_account \<Rightarrow> string set" where
  "signers contract = cs_signer ` (set_option (ca_signatureA contract) \<union> set_option (ca_signatureB contract))"

lemma binding_reasons:
  "tb_reasons (verifyTermsBinding escrow contract) = [] \<longleftrightarrow>
     et_termsHash escrow = ca_termsHash contract \<and> ca_state contract = Commerce_Executed
     \<and> et_creator escrow \<in> {ca_partyA contract, ca_partyB contract}
     \<and> et_counterparty escrow \<in> {ca_partyA contract, ca_partyB contract}
     \<and> et_creator escrow \<noteq> et_counterparty escrow
     \<and> (\<exists>a b. ca_signatureA contract = Some a \<and> ca_signatureB contract = Some b
          \<and> signs_current contract (Some a) \<and> signs_current contract (Some b)
          \<and> cs_signer a \<noteq> cs_signer b
          \<and> cs_signer a \<in> {ca_partyA contract, ca_partyB contract}
          \<and> cs_signer b \<in> {ca_partyA contract, ca_partyB contract})"
proof (cases "ca_signatureA contract"; cases "ca_signatureB contract")
  fix a b assume "ca_signatureA contract = Some a" "ca_signatureB contract = Some b"
  then show ?thesis
    by (simp only: verifyTermsBinding_def Let_def terms_binding.simps prod.case option.case foldl.simps
        push_if_Nil check_signature_Nil check_signer_Nil option.inject) auto
qed (simp_all only: verifyTermsBinding_def Let_def terms_binding.simps prod.case option.case foldl.simps
        push_if_Nil check_signature_Nil, simp_all add: signs_current_def)

lemma length_push: "length rs \<le> n \<Longrightarrow> length (push_if c r rs) \<le> Suc n"
  by (simp add: push_if_def)

lemma length_check_signature: "length rs \<le> n \<Longrightarrow> length (check_signature contract rs ls) \<le> Suc (Suc (Suc n))"
  by (auto simp: check_signature_def Let_def push_if_def split: option.splits)

lemma length_check_signer: "length rs \<le> n \<Longrightarrow> length (check_signer parties rs ls) \<le> Suc n"
  by (simp add: check_signer_def length_push)

lemma binding_length: "length (tb_reasons (verifyTermsBinding escrow contract)) \<le> 13"
proof -
  let ?n = "Suc (Suc (Suc (Suc 0)))"
  have first: "length (foldl (check_signature contract) rs [x, y]) \<le> 10" if "length rs \<le> ?n" for rs x y
    using length_check_signature [OF length_check_signature [OF that]] by (simp add: eval_nat_numeral)
  have second: "length (foldl (check_signer parties) (push_if c r rs) [x, y]) \<le> 13" if "length rs \<le> 10"
    for parties c r rs x y
    using length_check_signer [OF length_check_signer [OF length_push [OF that]]]
    by (simp add: eval_nat_numeral)
  show ?thesis
    unfolding verifyTermsBinding_def Let_def terms_binding.simps prod.case
    by (auto simp only: split: option.split intro!: le_trans [OF first] second first length_push)
qed

text \<open>
  C19: An escrow is bound to a contract exactly when it carries the contract's terms hash, the
  contract is executed between two different wallets, these two wallets are the parties of the
  escrow, and each of them signed the current version, terms and content, one signature each.
  A binding that fails gives at least one and at most thirteen reasons.
\<close>

theorem verifyTermsBinding_exact:
  "let b = verifyTermsBinding escrow contract; parties = {ca_partyA contract, ca_partyB contract}
   in (tb_bound b \<longleftrightarrow>
        et_termsHash escrow = ca_termsHash contract \<and> ca_state contract = Commerce_Executed
        \<and> {et_creator escrow, et_counterparty escrow} = parties \<and> card parties = 2
        \<and> signs_current contract (ca_signatureA contract)
        \<and> signs_current contract (ca_signatureB contract)
        \<and> signers contract = parties)
    \<and> (tb_bound b \<longleftrightarrow> tb_reasons b = []) \<and> length (tb_reasons b) \<le> 13"
proof -
  have "tb_bound b \<longleftrightarrow> tb_reasons b = []" if "b = verifyTermsBinding escrow contract" for b
    unfolding that verifyTermsBinding_def Let_def by simp
  moreover have pair: "s \<in> {x, y} \<and> t \<in> {x, y} \<and> s \<noteq> t \<longleftrightarrow> {s, t} = {x, y} \<and> card {x, y} = 2"
    for s t x y :: string
    by (auto simp: card_2_iff doubleton_eq_iff)
  have "tb_reasons (verifyTermsBinding escrow contract) = [] \<longleftrightarrow>
      et_termsHash escrow = ca_termsHash contract \<and> ca_state contract = Commerce_Executed
      \<and> {et_creator escrow, et_counterparty escrow} = {ca_partyA contract, ca_partyB contract}
      \<and> card {ca_partyA contract, ca_partyB contract} = 2
      \<and> signs_current contract (ca_signatureA contract) \<and> signs_current contract (ca_signatureB contract)
      \<and> signers contract = {ca_partyA contract, ca_partyB contract}"
    unfolding binding_reasons signers_def pair [symmetric]
    by (auto simp: signs_current_def doubleton_eq_iff)
  ultimately show ?thesis using binding_length by (simp add: Let_def)
qed

end
