(* ===== verification/Invoice.thy ===== *)
theory Invoice
  imports Canonical_Props Lifecycle_Examples Commerce_Binding
begin

text \<open>
  Invoices (\<open>sdk/src/compositions/invoice.ts\<close>): a document whose commitment is the terms hash of
  an escrow, checked against the lifecycle rebuilt from the escrow's receipts.
\<close>

definition PPV_INVOICE_SCHEMA_VERSION :: string where
  "PPV_INVOICE_SCHEMA_VERSION = ''ppv-invoice:v1''"

record invoice_line =
  il_description :: string
  il_quantity :: string
  il_unitAmount :: string
  il_lineAmount :: string

record invoice =
  in_schema :: string
  in_invoiceNumber :: string
  in_issuedAt :: string
  in_dueAt :: string
  in_issuer :: string
  in_payer :: string
  in_mint :: string
  in_totalAmount :: string
  in_lines :: "invoice_line list"
  in_memo :: "string option"

text \<open>
  The JavaScript object such a value is: object 0 with its own properties, the array of lines
  as object 1 and the lines from object 2 on.
\<close>

definition plain_object :: "(string \<times> cval) list \<Rightarrow> jobject" where
  "plain_object pairs =
     \<lparr>ob_isArray = False, ob_length = 0, ob_plainProto = True, ob_symbols = 0, ob_props = data_props pairs\<rparr>"

definition dense_array :: "cval list \<Rightarrow> jobject" where
  "dense_array vs =
     \<lparr>ob_isArray = True, ob_length = length vs, ob_plainProto = False, ob_symbols = 0,
      ob_props = map (\<lambda>(i, v). (dec_nat i, Data v True)) (zip [0 ..< length vs] vs)
        @ [(''length'', Data (C_kind ''number'') False)]\<rparr>"

definition line_pairs :: "invoice_line \<Rightarrow> (string \<times> cval) list" where
  "line_pairs l =
     [(''description'', C_string (il_description l)), (''quantity'', C_string (il_quantity l)),
      (''unitAmount'', C_string (il_unitAmount l)), (''lineAmount'', C_string (il_lineAmount l))]"

definition invoice_pairs :: "invoice \<Rightarrow> (string \<times> cval) list" where
  "invoice_pairs i =
     [(''schema'', C_string (in_schema i)), (''invoiceNumber'', C_string (in_invoiceNumber i)),
      (''issuedAt'', C_string (in_issuedAt i)), (''dueAt'', C_string (in_dueAt i)),
      (''issuer'', C_string (in_issuer i)), (''payer'', C_string (in_payer i)),
      (''mint'', C_string (in_mint i)), (''totalAmount'', C_string (in_totalAmount i)),
      (''lines'', C_ref 1)]
     @ (case in_memo i of None \<Rightarrow> [] | Some m \<Rightarrow> [(''memo'', C_string m)])"

definition line_refs :: "invoice \<Rightarrow> nat list" where
  "line_refs i = map ((+) 2) [0 ..< length (in_lines i)]"

definition invoice_heap :: "invoice \<Rightarrow> heap" where
  "invoice_heap i =
     (0, plain_object (invoice_pairs i))
     # (1, dense_array (map C_ref (line_refs i)))
     # zip (line_refs i) (map (plain_object \<circ> line_pairs) (in_lines i))"

definition invoiceCommitment ::
    "(bytes \<Rightarrow> bytes) \<Rightarrow> (string \<Rightarrow> string) \<Rightarrow> invoice \<Rightarrow> string result" where
  "invoiceCommitment sha nfc i = hashDocumentHexV1 sha nfc (invoice_heap i) (C_ref 0)"

datatype invoice_status = Issued | Funded_invoice | Paid | Refunded_invoice | Cancelled_invoice

definition invoiceStatus :: "lifecycle \<Rightarrow> invoice_status" where
  "invoiceStatus l =
     (case lc_state l of
        Open \<Rightarrow> Issued
      | Funded \<Rightarrow> Funded_invoice
      | Completed \<Rightarrow> Funded_invoice
      | Disputed \<Rightarrow> Funded_invoice
      | Settled \<Rightarrow> Paid
      | Refunded \<Rightarrow> Refunded_invoice
      | Cancelled \<Rightarrow> Cancelled_invoice)"

record invoice_verification =
  iv_matches :: bool
  iv_status :: invoice_status
  iv_reasons :: "string list"

definition base_units :: "string \<Rightarrow> bool" where
  "base_units s \<longleftrightarrow> s \<noteq> [] \<and> list_all is_digit s"

text \<open>The reasons are threaded through, as the array they are pushed onto is.\<close>

definition parseBaseUnits :: "string \<Rightarrow> string \<Rightarrow> string list \<Rightarrow> int option \<times> string list" where
  "parseBaseUnits v field reasons =
     (if \<not> base_units v then (None, reasons @ [field @ '' is not a base-unit integer''])
      else (Some (int (nat_of_dec v)), reasons))"

definition line_step ::
    "int option \<times> string list \<Rightarrow> nat \<times> invoice_line \<Rightarrow> int option \<times> string list" where
  "line_step acc item =
     (let (amount, reasons) = parseBaseUnits (il_lineAmount (snd item))
            (''lines['' @ dec_nat (fst item) @ ''].lineAmount'') (snd acc)
      in (case (fst acc, amount) of (Some s, Some a) \<Rightarrow> Some (s + a) | _ \<Rightarrow> None, reasons))"

text \<open>\<open>a !== null && b !== null && a !== b\<close>.\<close>

definition both_differ :: "int option \<Rightarrow> int option \<Rightarrow> bool" where
  "both_differ a b \<longleftrightarrow> (case (a, b) of (Some x, Some y) \<Rightarrow> x \<noteq> y | _ \<Rightarrow> False)"

definition nullable_text :: "string option \<Rightarrow> string" where
  "nullable_text s = (case s of None \<Rightarrow> ''null'' | Some t \<Rightarrow> t)"

definition verifyInvoice ::
    "(bytes \<Rightarrow> bytes) \<Rightarrow> (string \<Rightarrow> string) \<Rightarrow> invoice \<Rightarrow> lifecycle \<Rightarrow> string \<Rightarrow> invoice_verification result" where
  "verifyInvoice sha nfc i l escrowTermsHash =
     bindR (invoiceCommitment sha nfc i) (\<lambda>commitment.
     let reasons = push_if (commitment \<noteq> escrowTermsHash)
           (''the escrow'' @ [CHR 0x27] @ ''s terms hash is not this invoice'' @ [CHR 0x27] @ ''s commitment'') [];
         reasons = push_if (Some (in_mint i) \<noteq> lc_mint l)
           (''the invoice is in '' @ in_mint i @ '', the escrow in '' @ nullable_text (lc_mint l)) reasons;
         reasons = push_if (in_issuer i \<noteq> lc_seller l)
           (''the invoice'' @ [CHR 0x27] @ ''s issuer is not the escrow'' @ [CHR 0x27] @ ''s payee'') reasons;
         reasons = push_if (in_payer i \<noteq> lc_buyer l)
           (''the invoice'' @ [CHR 0x27] @ ''s payer is not the escrow'' @ [CHR 0x27] @ ''s funder'') reasons;
         (total, reasons) = parseBaseUnits (in_totalAmount i) ''totalAmount'' reasons;
         (lineSum, reasons) = foldl line_step (Some 0, reasons)
           (zip [0 ..< length (in_lines i)] (in_lines i));
         reasons = push_if (both_differ total lineSum)
           ''the invoice lines do not add up to its total'' reasons;
         reasons = push_if (both_differ total (lc_fundedAmount l))
           ''the escrow was funded for a different amount than the invoice asks'' reasons;
         reasons = push_if (both_differ total (lc_settledAmount l))
           ''the amount paid is not the amount invoiced'' reasons
     in Inr \<lparr>iv_matches = (length reasons = 0), iv_status = invoiceStatus l, iv_reasons = reasons\<rparr>)"

section \<open>The document an invoice is\<close>

text \<open>What is relied on of \<open>String.prototype.normalize\<close>: idempotent, and the identity on ASCII.\<close>

definition nfc_ok :: "(string \<Rightarrow> string) \<Rightarrow> bool" where
  "nfc_ok nfc \<longleftrightarrow> normal_form nfc \<and> (\<forall>s. list_all (\<lambda>c. (of_char c :: nat) < 128) s \<longrightarrow> nfc s = s)"

lemma nfc_ascii: "nfc_ok nfc \<Longrightarrow> list_all (\<lambda>c. (of_char c :: nat) < 128) s \<Longrightarrow> nfc s = s"
  by (simp add: nfc_ok_def)

definition line_doc :: "(string \<Rightarrow> string) \<Rightarrow> invoice_line \<Rightarrow> doc" where
  "line_doc nfc l = D_obj
     [(''description'', D_str (nfc (il_description l))), (''lineAmount'', D_str (nfc (il_lineAmount l))),
      (''quantity'', D_str (nfc (il_quantity l))), (''unitAmount'', D_str (nfc (il_unitAmount l)))]"

definition invoice_doc :: "(string \<Rightarrow> string) \<Rightarrow> invoice \<Rightarrow> doc" where
  "invoice_doc nfc i = D_obj
     ([(''dueAt'', D_str (nfc (in_dueAt i))), (''invoiceNumber'', D_str (nfc (in_invoiceNumber i))),
       (''issuedAt'', D_str (nfc (in_issuedAt i))), (''issuer'', D_str (nfc (in_issuer i))),
       (''lines'', D_arr (map (line_doc nfc) (in_lines i)))]
      @ (case in_memo i of None \<Rightarrow> [] | Some m \<Rightarrow> [(''memo'', D_str (nfc m))])
      @ [(''mint'', D_str (nfc (in_mint i))), (''payer'', D_str (nfc (in_payer i))),
         (''schema'', D_str (nfc (in_schema i))), (''specVersion'', D_str ''1''),
         (''totalAmount'', D_str (nfc (in_totalAmount i)))])"

definition line_values :: "invoice_line \<Rightarrow> (string \<times> cval) list" where
  "line_values l =
     [(''description'', C_string (il_description l)), (''lineAmount'', C_string (il_lineAmount l)),
      (''quantity'', C_string (il_quantity l)), (''unitAmount'', C_string (il_unitAmount l))]"

definition invoice_values :: "invoice \<Rightarrow> (string \<times> cval) list \<Rightarrow> (string \<times> cval) list" where
  "invoice_values i version =
     [(''dueAt'', C_string (in_dueAt i)), (''invoiceNumber'', C_string (in_invoiceNumber i)),
      (''issuedAt'', C_string (in_issuedAt i)), (''issuer'', C_string (in_issuer i)), (''lines'', C_ref 1)]
     @ (case in_memo i of None \<Rightarrow> [] | Some m \<Rightarrow> [(''memo'', C_string m)])
     @ [(''mint'', C_string (in_mint i)), (''payer'', C_string (in_payer i)),
        (''schema'', C_string (in_schema i))] @ version
     @ [(''totalAmount'', C_string (in_totalAmount i))]"

lemma keys_fixed:
  assumes "nfc_ok nfc" and "list_all (\<lambda>p. list_all (\<lambda>c. (of_char c :: nat) < 128) (fst p)) pairs"
  shows "map (nfc \<circ> fst) pairs = map fst pairs" "(\<lambda>(r, v). (nfc r, v)) ` set pairs = set pairs"
proof -
  have fixed: "p \<in> set pairs \<Longrightarrow> nfc (fst p) = fst p" for p
    using assms by (auto simp: list_all_iff nfc_ok_def)
  then show "map (nfc \<circ> fst) pairs = map fst pairs" by simp
  have "(\<lambda>(r, v). (nfc r, v)) ` set pairs = (\<lambda>p. p) ` set pairs"
    using fixed by (intro image_cong) auto
  then show "(\<lambda>(r, v). (nfc r, v)) ` set pairs = set pairs" by simp
qed

lemma record_values_plain:
  assumes "nfc_ok nfc" and "list_all (\<lambda>p. list_all (\<lambda>c. (of_char c :: nat) < 128) (fst p)) pairs"
    and "distinct (map fst pairs)" and "sorted_keys kvs" and "set kvs = set pairs"
  shows "record_values nfc (plain_object pairs) kvs"
  unfolding record_values_def
proof (intro conjI exI)
  show "distinct (map (nfc \<circ> fst) pairs)" "set kvs = (\<lambda>(r, v). (nfc r, v)) ` set pairs"
    unfolding keys_fixed [OF assms(1,2)] by (rule assms(3), rule assms(5))
qed (simp_all add: plain_object_def assms(4))

lemma line_record: "nfc_ok nfc \<Longrightarrow> record_values nfc (plain_object (line_pairs l)) (line_values l)"
  by (rule record_values_plain)
    (auto simp: line_pairs_def line_values_def sorted_keys_def)

lemma sorted_keys_map: "sorted_keys kvs \<longleftrightarrow> sorted_wrt (<) (map fst kvs)"
  by (simp add: sorted_keys_def sorted_wrt_map)

lemma invoice_values_sorted:
  assumes "version \<in> {[], [version_entry]}"
  shows "sorted_keys (invoice_values i version)"
proof -
  let ?keys = "\<lambda>memo version. [''dueAt'', ''invoiceNumber'', ''issuedAt'', ''issuer'', ''lines''] @ memo
    @ [''mint'', ''payer'', ''schema''] @ version @ [''totalAmount'']"
  have "map fst (invoice_values i version)
      = ?keys (if in_memo i = None then [] else [''memo'']) (if version = [] then [] else [''specVersion''])"
    using assms by (cases "in_memo i") (auto simp: invoice_values_def version_entry_def)
  moreover have "sorted_wrt (<) (?keys [] [])" "sorted_wrt (<) (?keys [] [''specVersion''])"
    "sorted_wrt (<) (?keys [''memo''] [])" "sorted_wrt (<) (?keys [''memo''] [''specVersion''])"
    by code_simp+
  ultimately show ?thesis unfolding sorted_keys_map by (simp del: sorted_wrt.simps append.simps)
qed

lemma invoice_record:
  "nfc_ok nfc \<Longrightarrow> record_values nfc (plain_object (invoice_pairs i)) (invoice_values i [])"
proof (rule record_values_plain)
  show "distinct (map fst (invoice_pairs i))"
    by (cases "in_memo i") (simp_all add: invoice_pairs_def)
  show "sorted_keys (invoice_values i [])"
    by (rule invoice_values_sorted) simp
  show "set (invoice_values i []) = set (invoice_pairs i)"
    by (cases "in_memo i") (simp_all add: invoice_values_def invoice_pairs_def insert_commute)
qed (cases "in_memo i"; simp add: invoice_pairs_def)+

lemma invoice_document:
  assumes "nfc_ok nfc"
  shows "document_values nfc (plain_object (invoice_pairs i)) (invoice_values i [version_entry])"
  unfolding document_values_def
proof (intro conjI exI)
  show "record_values nfc (plain_object (invoice_pairs i)) (invoice_values i [])"
    using assms by (rule invoice_record)
  show "sorted_keys (invoice_values i [version_entry])"
    by (rule invoice_values_sorted) simp
  show "set (invoice_values i [version_entry]) = insert version_entry (set (invoice_values i []))"
    by (cases "in_memo i") (simp_all add: invoice_values_def insert_commute)
qed

lemma dense_array_values: "array_values (dense_array vs) vs"
proof -
  let ?items = "map (\<lambda>(i, v). (dec_nat i, Data v True)) (zip [0 ..< length vs] vs)"
  have keys: "map fst ?items = map dec_nat [0 ..< length vs]"
    by (intro nth_equalityI) auto
  have not_length: "''length'' \<noteq> dec_nat i" for i
  proof
    assume "''length'' = dec_nat i"
    then have "CHR ''l'' \<in> set (dec_nat i)" by (metis list.set_intros(1))
    moreover have "\<not> is_digit CHR ''l''" by (simp add: is_digit_def)
    ultimately show False using dec_nat_not_in by blast
  qed
  have "map_of ?items (dec_nat i) = Some (Data (vs ! i) True)" if "i < length vs" for i
  proof (rule map_of_is_SomeI)
    show "distinct (map fst ?items)" unfolding keys by (simp add: distinct_map inj_on_def)
    show "(dec_nat i, Data (vs ! i) True) \<in> set ?items"
      using that by (auto simp: set_zip image_iff intro!: exI [of _ i])
  qed
  moreover have "enumerable_keys (dense_array vs) = map dec_nat [0 ..< length vs]"
    unfolding keys [symmetric] enumerable_keys_def dense_array_def
    by (simp add: filter_map comp_def case_prod_beta')
  moreover have "map_of (ob_props (dense_array vs)) (dec_nat i) = map_of ?items (dec_nat i)" for i
    using not_length [of i] by (simp add: dense_array_def map_add_def split: option.split)
  ultimately show ?thesis
    by (simp add: array_values_def) (simp add: dense_array_def)
qed

lemma heap_line:
  assumes "k < length (in_lines i)"
  shows "map_of (invoice_heap i) (k + 2) = Some (plain_object (line_pairs (in_lines i ! k)))"
proof -
  let ?n = "length (in_lines i)"
  have "map_of (zip (line_refs i) (map (plain_object \<circ> line_pairs) (in_lines i))) ((line_refs i) ! k)
      = Some (map (plain_object \<circ> line_pairs) (in_lines i) ! k)"
    using assms by (intro map_of_zip_nth) (simp_all add: line_refs_def distinct_map)
  with assms show ?thesis by (simp add: invoice_heap_def line_refs_def)
qed

text \<open>The fields of a value, aligned with those of its document.\<close>

lemma aligned:
  "list_all2 (\<lambda>kv f. fst f = fst kv \<and> denotes nfc heap (snd kv) (snd f)) kvs fs \<longleftrightarrow>
     length fs = length kvs \<and> (\<forall>i < length kvs. fst (fs ! i) = fst (kvs ! i)
       \<and> denotes nfc heap (snd (kvs ! i)) (snd (fs ! i)))"
  by (auto simp: list_all2_conv_all_nth)

lemma line_denotes:
  assumes "nfc_ok nfc" and "k < length (in_lines i)"
  shows "denotes nfc (invoice_heap i) (C_ref (k + 2)) (line_doc nfc (in_lines i ! k))"
proof -
  let ?l = "in_lines i ! k"
  have "list_all2 (\<lambda>kv f. fst f = fst kv \<and> denotes nfc (invoice_heap i) (snd kv) (snd f))
      (line_values ?l)
      [(''description'', D_str (nfc (il_description ?l))), (''lineAmount'', D_str (nfc (il_lineAmount ?l))),
       (''quantity'', D_str (nfc (il_quantity ?l))), (''unitAmount'', D_str (nfc (il_unitAmount ?l)))]"
    by (simp add: line_values_def)
  then show ?thesis
    unfolding aligned line_doc_def
    by (intro den_obj [OF heap_line [OF assms(2)] _ _ line_record [OF assms(1)]])
      (simp_all add: plain_object_def)
qed

lemma lines_denote:
  assumes "nfc_ok nfc"
  shows "denotes nfc (invoice_heap i) (C_ref 1) (D_arr (map (line_doc nfc) (in_lines i)))"
proof (rule den_arr [OF _ _ dense_array_values])
  let ?n = "length (in_lines i)"
  show "map_of (invoice_heap i) 1 = Some (dense_array (map C_ref (line_refs i)))"
    by (simp add: invoice_heap_def)
  show "ob_isArray (dense_array (map C_ref (line_refs i)))" by (simp add: dense_array_def)
  show "denotes nfc (invoice_heap i) (map C_ref (line_refs i) ! k) (map (line_doc nfc) (in_lines i) ! k)"
    if "k < length (map C_ref (line_refs i))" for k
    using that line_denotes [OF assms, of k i] by (simp add: line_refs_def)
qed (simp add: line_refs_def)

lemma invoice_denotes:
  assumes "nfc_ok nfc"
  shows "denotes_document nfc (invoice_heap i) (C_ref 0) (invoice_doc nfc i)"
proof -
  have one: "nfc ''1'' = ''1''" using assms by (rule nfc_ascii) simp
  obtain fs where fs: "invoice_doc nfc i = D_obj fs" by (simp add: invoice_doc_def)
  have "list_all2 (\<lambda>kv f. fst f = fst kv \<and> denotes nfc (invoice_heap i) (snd kv) (snd f))
      (invoice_values i [version_entry]) fs"
    using fs one lines_denote [OF assms, of i] by (cases "in_memo i")
      (auto simp: invoice_doc_def invoice_values_def version_entry_def PPV_CANONICALIZATION_VERSION_def)
  then show ?thesis
    using invoice_document [OF assms, of i] unfolding denotes_document_def aligned fs
    by (intro exI [of _ 0] exI [of _ "plain_object (invoice_pairs i)"] exI [of _ "invoice_values i [version_entry]"]
        exI [of _ fs]) (simp add: invoice_heap_def plain_object_def)
qed

definition invoice_bytes :: "(string \<Rightarrow> string) \<Rightarrow> invoice \<Rightarrow> bytes" where
  "invoice_bytes nfc i = text_encoder (print (invoice_doc nfc i))"

text \<open>An invoice always has a commitment: the hash of the printed document.\<close>

lemma invoiceCommitment_total:
  assumes "nfc_ok nfc"
  shows "invoiceCommitment sha nfc i = Inr (hex (sha (invoice_bytes nfc i)))"
proof -
  have "normal_form nfc" "nfc ''specVersion'' = ''specVersion''"
    using assms by (simp_all add: nfc_ok_def)
  from document_complete [OF this invoice_denotes [OF assms]]
  show ?thesis
    by (simp add: invoiceCommitment_def hashDocumentHexV1_def hashDocumentV1_def canonicalizeBytesV1_def
        bytesToHex_hex invoice_bytes_def)
qed

text \<open>The same invoice up to the normal form of its texts.\<close>

definition same_invoice :: "(string \<Rightarrow> string) \<Rightarrow> invoice \<Rightarrow> invoice \<Rightarrow> bool" where
  "same_invoice nfc i j \<longleftrightarrow>
     list_all (\<lambda>f. nfc (f i) = nfc (f j))
       [in_schema, in_invoiceNumber, in_issuedAt, in_dueAt, in_issuer, in_payer, in_mint, in_totalAmount]
     \<and> map_option nfc (in_memo i) = map_option nfc (in_memo j)
     \<and> list_all2 (\<lambda>l m. list_all (\<lambda>f. nfc (f l) = nfc (f m))
          [il_description, il_quantity, il_unitAmount, il_lineAmount]) (in_lines i) (in_lines j)"

lemma line_doc_eq: "line_doc nfc l = line_doc nfc m \<longleftrightarrow>
    list_all (\<lambda>f. nfc (f l) = nfc (f m)) [il_description, il_quantity, il_unitAmount, il_lineAmount]"
  by (auto simp: line_doc_def)

lemma invoice_bytes_eq: "invoice_bytes nfc i = invoice_bytes nfc j \<longleftrightarrow> same_invoice nfc i j"
proof -
  have "invoice_bytes nfc i = invoice_bytes nfc j \<longleftrightarrow> invoice_doc nfc i = invoice_doc nfc j"
    using print_inject [of "invoice_doc nfc i" "[]" "invoice_doc nfc j" "[]"] by (auto simp: invoice_bytes_def)
  moreover have "map (line_doc nfc) ls = map (line_doc nfc) ms \<longleftrightarrow>
      list_all2 (\<lambda>l m. list_all (\<lambda>f. nfc (f l) = nfc (f m))
        [il_description, il_quantity, il_unitAmount, il_lineAmount]) ls ms" for ls ms
    unfolding line_doc_eq [symmetric] by (auto simp: list_all2_conv_all_nth list_eq_iff_nth_eq)
  ultimately show ?thesis
    by (cases "in_memo i"; cases "in_memo j") (auto simp: invoice_doc_def same_invoice_def)
qed

section \<open>The verdict\<close>

definition line_amount :: "invoice_line \<Rightarrow> int" where
  "line_amount l = int (nat_of_dec (il_lineAmount l))"

lemma line_steps_valid:
  "list_all (\<lambda>x. base_units (il_lineAmount (snd x))) items \<Longrightarrow>
    foldl line_step (Some s, reasons) items = (Some (s + (\<Sum>x \<leftarrow> items. line_amount (snd x))), reasons)"
  by (induction items arbitrary: s) (simp_all add: line_step_def parseBaseUnits_def line_amount_def)

lemma line_steps_reasons:
  "snd (foldl line_step acc items) = [] \<longleftrightarrow>
     snd acc = [] \<and> list_all (\<lambda>x. base_units (il_lineAmount (snd x))) items"
proof (induction items arbitrary: acc)
  case (Cons x items)
  show ?case
    by (simp add: Cons.IH) (auto simp: line_step_def parseBaseUnits_def)
qed simp

lemma parseBaseUnits_reasons:
  "snd (parseBaseUnits v field reasons) = [] \<longleftrightarrow> reasons = [] \<and> base_units v"
  by (simp add: parseBaseUnits_def)

lemma numbered_all: "list_all (\<lambda>x. f (snd x)) (zip [0 ..< length ls] ls) \<longleftrightarrow> list_all f ls"
proof -
  have "list_all (\<lambda>x. f (snd x)) (zip [0 ..< length ls] ls)
      \<longleftrightarrow> list_all f (map snd (zip [0 ..< length ls] ls))" by (simp only: list.pred_map comp_def)
  then show ?thesis by simp
qed

lemma numbered_sum: "(\<Sum>x \<leftarrow> zip [0 ..< length ls] ls. f (snd x)) = (\<Sum>l \<leftarrow> ls. f l)"
proof -
  have "(\<Sum>x \<leftarrow> zip [0 ..< length ls] ls. f (snd x)) = sum_list (map f (map snd (zip [0 ..< length ls] ls)))"
    by (simp only: map_map comp_def)
  then show ?thesis by simp
qed

definition agrees :: "int option \<Rightarrow> int \<Rightarrow> bool" where
  "agrees amount due \<longleftrightarrow> amount = None \<or> amount = Some due"

lemma both_differ_Some [simp]: "both_differ (Some t) a \<longleftrightarrow> \<not> agrees a t"
  by (auto simp: both_differ_def agrees_def split: option.splits)

definition invoice_total :: "invoice \<Rightarrow> int" where
  "invoice_total i = int (nat_of_dec (in_totalAmount i))"

text \<open>What it takes for an invoice to match.\<close>

definition invoice_matches ::
    "(bytes \<Rightarrow> bytes) \<Rightarrow> (string \<Rightarrow> string) \<Rightarrow> invoice \<Rightarrow> lifecycle \<Rightarrow> string \<Rightarrow> bool" where
  "invoice_matches sha nfc i l termsHash \<longleftrightarrow>
     hex (sha (invoice_bytes nfc i)) = termsHash \<and> lc_mint l = Some (in_mint i)
     \<and> lc_seller l = in_issuer i \<and> lc_buyer l = in_payer i
     \<and> base_units (in_totalAmount i) \<and> list_all (base_units \<circ> il_lineAmount) (in_lines i)
     \<and> (\<Sum>x \<leftarrow> in_lines i. line_amount x) = invoice_total i
     \<and> agrees (lc_fundedAmount l) (invoice_total i) \<and> agrees (lc_settledAmount l) (invoice_total i)"

lemma verifyInvoice_verdict:
  assumes "nfc_ok nfc"
  shows "\<exists>v. verifyInvoice sha nfc i l h = Inr v \<and> iv_status v = invoiceStatus l
    \<and> (iv_matches v \<longleftrightarrow> iv_reasons v = []) \<and> (iv_matches v \<longleftrightarrow> invoice_matches sha nfc i l h)"
proof -
  let ?items = "zip [0 ..< length (in_lines i)] (in_lines i)"
  obtain v where v: "verifyInvoice sha nfc i l h = Inr v" "iv_status v = invoiceStatus l"
    and m: "iv_matches v \<longleftrightarrow> iv_reasons v = []"
    by (simp add: verifyInvoice_def invoiceCommitment_total [OF assms] Let_def case_prod_beta)
  have "iv_matches v \<longleftrightarrow> invoice_matches sha nfc i l h"
  proof (cases "base_units (in_totalAmount i) \<and> list_all (base_units \<circ> il_lineAmount) (in_lines i)")
    case True
    then have lines: "list_all (\<lambda>x. base_units (il_lineAmount (snd x))) ?items"
      using numbered_all [of "base_units \<circ> il_lineAmount" "in_lines i"] unfolding comp_def by blast
    show ?thesis
      using v(1) True
      by (auto simp: verifyInvoice_def invoiceCommitment_total [OF assms] Let_def case_prod_beta
          line_steps_valid [OF lines] numbered_sum parseBaseUnits_def invoice_matches_def
          invoice_total_def agrees_def)
  next
    case False
    then have "iv_reasons v \<noteq> []"
      using v(1) numbered_all [of "base_units \<circ> il_lineAmount" "in_lines i"]
      by (auto simp: verifyInvoice_def invoiceCommitment_total [OF assms] Let_def case_prod_beta
          line_steps_reasons parseBaseUnits_reasons)
    with m False show ?thesis by (auto simp: invoice_matches_def)
  qed
  with v m show ?thesis by blast
qed

lemma settled_report:
  assumes "reconstructAgreementLifecycle lc rs = Inr l" and "lc_state l = Settled"
    and "\<And>r. r \<in> set rs \<Longrightarrow> rc_kind r \<noteq> Annotation \<Longrightarrow> rc_newState r = Settled \<Longrightarrow>
      rc_action r = Name_SettlementExecuted"
  shows "has_move Name_SettlementExecuted (lc_receipts l)"
proof -
  let ?ts = "moves (lc_receipts l)"
  obtain "?ts \<noteq> []" "lc_state l = rc_newState (last ?ts)" "set (lc_receipts l) \<subseteq> set rs"
    using report_moves [OF assms(1)] by metis
  moreover from this have "last ?ts \<in> set ?ts" by simp
  moreover from this have "last ?ts \<in> set (lc_receipts l)" "rc_kind (last ?ts) \<noteq> Annotation"
    by (simp_all add: moves_def)
  ultimately show ?thesis
    using assms(2,3) unfolding has_move_def by (metis subsetD)
qed

section \<open>Properties\<close>

text \<open>
  Checking an invoice never fails, and it matches exactly when its commitment is the
  escrow's terms hash, it is in the escrow's mint, from its payee to its funder, its total and
  all its line amounts are base-unit integers that add up, and what was funded and what was
  paid out so far, if anything, is that total.
\<close>

theorem verifyInvoice_exact:
  assumes "nfc_ok nfc"
  shows "\<exists>v. verifyInvoice sha nfc i l h = Inr v \<and> iv_status v = invoiceStatus l
    \<and> (iv_matches v \<longleftrightarrow> iv_reasons v = []) \<and> (iv_matches v \<longleftrightarrow> invoice_matches sha nfc i l h)"
  using assms by (rule verifyInvoice_verdict)

definition sample_invoice :: "string \<Rightarrow> invoice" where
  "sample_invoice amount =
     \<lparr>in_schema = PPV_INVOICE_SCHEMA_VERSION, in_invoiceNumber = ''1'', in_issuedAt = ''a'', in_dueAt = ''b'',
      in_issuer = ''seller'', in_payer = ''buyer'', in_mint = ''mint'', in_totalAmount = amount,
      in_lines = [\<lparr>il_description = ''d'', il_quantity = ''1'', il_unitAmount = amount,
         il_lineAmount = amount\<rparr>], in_memo = None\<rparr>"

lemma nfc_ok_id: "nfc_ok (\<lambda>s. s)"
  by (simp add: nfc_ok_def normal_form_def)

lemma sample_paid:
  "case reconstructAgreementLifecycle str_cmp sample_history of
     Inr l \<Rightarrow> lc_state l = Settled \<and> lc_mint l = Some ''mint'' \<and> lc_seller l = ''seller''
       \<and> lc_buyer l = ''buyer'' \<and> lc_fundedAmount l = Some 50 \<and> lc_settledAmount l = Some 50
   | Inl _ \<Rightarrow> False"
  by code_simp

lemma sample_verified:
  obtains l where "reconstructAgreementLifecycle str_cmp sample_history = Inr l" "lc_state l = Settled"
    "invoice_matches (\<lambda>bs. bs) (\<lambda>s. s) (sample_invoice ''50'') l
      (hex (invoice_bytes (\<lambda>s. s) (sample_invoice ''50'')))"
proof -
  obtain l where l: "reconstructAgreementLifecycle str_cmp sample_history = Inr l"
    "lc_state l = Settled" "lc_mint l = Some ''mint''" "lc_seller l = ''seller''" "lc_buyer l = ''buyer''"
    "lc_fundedAmount l = Some 50" "lc_settledAmount l = Some 50"
    using sample_paid by (auto split: sum.splits)
  have amount: "base_units ''50''" "nat_of_dec ''50'' = 50" by code_simp+
  have "invoice_matches (\<lambda>bs. bs) (\<lambda>s. s) (sample_invoice ''50'') l
      (hex (invoice_bytes (\<lambda>s. s) (sample_invoice ''50'')))"
    using l amount by (simp add: invoice_matches_def sample_invoice_def line_amount_def invoice_total_def
        agrees_def)
  with l(1,2) that show thesis by blast
qed

lemma sample_settles:
  "r \<in> set sample_history \<Longrightarrow> rc_kind r \<noteq> Annotation \<Longrightarrow> rc_newState r = Settled \<Longrightarrow>
    rc_action r = Name_SettlementExecuted"
  by (auto simp: sample_history_def sample_receipt_def)

theorem verifyInvoice_exact_witness:
  "\<exists>l v. reconstructAgreementLifecycle str_cmp sample_history = Inr l
     \<and> verifyInvoice (\<lambda>bs. bs) (\<lambda>s. s) (sample_invoice ''50'') l
         (hex (invoice_bytes (\<lambda>s. s) (sample_invoice ''50''))) = Inr v
     \<and> iv_status v = Paid \<and> iv_matches v"
proof -
  obtain l where l: "reconstructAgreementLifecycle str_cmp sample_history = Inr l" "lc_state l = Settled"
    "invoice_matches (\<lambda>bs. bs) (\<lambda>s. s) (sample_invoice ''50'') l
      (hex (invoice_bytes (\<lambda>s. s) (sample_invoice ''50'')))"
    by (rule sample_verified)
  from verifyInvoice_exact [OF nfc_ok_id, of "\<lambda>bs. bs" "sample_invoice ''50''" l
      "hex (invoice_bytes (\<lambda>s. s) (sample_invoice ''50''))"] l
  show ?thesis by (auto simp: invoiceStatus_def)
qed

text \<open>
  C20: Paid means paid. When a history whose agreement settles only by a settlement rebuilds,
  an invoice that matches it and is reported as paid has been funded and paid out in full, to
  the unit: the sum of its lines is its total, the amount funded and the amount
  settled. No other invoice matches the same escrow unless it is the same
  document or the hash collides.
\<close>

theorem invoice_paid_in_full:
  assumes "nfc_ok nfc" and "reconstructAgreementLifecycle lc rs = Inr l"
    and "\<And>r. r \<in> set rs \<Longrightarrow> rc_kind r \<noteq> Annotation \<Longrightarrow> rc_newState r = Settled \<Longrightarrow>
      rc_action r = Name_SettlementExecuted"
    and "verifyInvoice sha nfc i l h = Inr v" and "iv_matches v" and "iv_status v = Paid"
  shows "lc_fundedAmount l = Some (invoice_total i) \<and> lc_settledAmount l = Some (invoice_total i)
    \<and> (\<Sum>x \<leftarrow> in_lines i. line_amount x) = invoice_total i
    \<and> lc_seller l = in_issuer i \<and> lc_buyer l = in_payer i \<and> lc_mint l = Some (in_mint i)
    \<and> (\<forall>j w. verifyInvoice sha nfc j l h = Inr w \<and> iv_matches w \<longrightarrow>
         same_invoice nfc i j
         \<or> (invoice_bytes nfc i \<noteq> invoice_bytes nfc j
            \<and> sha (invoice_bytes nfc i) = sha (invoice_bytes nfc j)))"
proof -
  have state: "lc_state l = Settled"
    using verifyInvoice_verdict [OF assms(1), of sha i l h] assms(4,6)
    by (auto simp: invoiceStatus_def split: agreement_state.splits)
  have m: "invoice_matches sha nfc i l h"
    using verifyInvoice_verdict [OF assms(1), of sha i l h] assms(4,5) by auto
  have "has_move Name_SettlementExecuted (lc_receipts l)"
    using settled_report [OF assms(2) state] assms(3) by blast
  with report_money [OF assms(2)] have "lc_settledAmount l = lc_fundedAmount l" "lc_settledAmount l \<noteq> None"
    by blast+
  with m have paid: "lc_fundedAmount l = Some (invoice_total i) \<and> lc_settledAmount l = Some (invoice_total i)"
    by (auto simp: invoice_matches_def agrees_def)
  have "same_invoice nfc i j \<or> (invoice_bytes nfc i \<noteq> invoice_bytes nfc j
      \<and> sha (invoice_bytes nfc i) = sha (invoice_bytes nfc j))"
    if "verifyInvoice sha nfc j l h = Inr w \<and> iv_matches w" for j w
  proof -
    have "invoice_matches sha nfc j l h"
      using verifyInvoice_verdict [OF assms(1), of sha j l h] that by auto
    with m show ?thesis by (auto simp: invoice_matches_def invoice_bytes_eq)
  qed
  with paid m show ?thesis by (auto simp: invoice_matches_def)
qed

theorem invoice_paid_in_full_witness:
  "\<exists>l. reconstructAgreementLifecycle str_cmp sample_history = Inr l
     \<and> lc_settledAmount l = Some (invoice_total (sample_invoice ''50''))"
proof -
  let ?h = "hex (invoice_bytes (\<lambda>s. s) (sample_invoice ''50''))"
  obtain l where l: "reconstructAgreementLifecycle str_cmp sample_history = Inr l" "lc_state l = Settled"
    "invoice_matches (\<lambda>bs. bs) (\<lambda>s. s) (sample_invoice ''50'') l ?h"
    by (rule sample_verified)
  obtain v where v: "verifyInvoice (\<lambda>bs. bs) (\<lambda>s. s) (sample_invoice ''50'') l ?h = Inr v"
    "iv_matches v" "iv_status v = Paid"
    using verifyInvoice_verdict [OF nfc_ok_id, of "\<lambda>bs. bs" "sample_invoice ''50''" l ?h] l(2,3)
    by (auto simp: invoiceStatus_def)
  from invoice_paid_in_full [OF nfc_ok_id l(1) sample_settles v] l(1) show ?thesis by blast
qed

end
