(* ===== verification/Rpc.thy ===== *)
theory Rpc
  imports Complex_Main Prelude
begin

text \<open>
  The JSON-RPC clients: the indexer's read-only source (\<open>indexer/src/rpc.ts\<close>) and the operator
  scripts' client (\<open>scripts/lib/rpc.mjs\<close>). Both retry a read on HTTP 429 and on nothing else.
  The endpoint, the clock and the random source are functions of the number of the request,
  so they may answer differently every time.
\<close>

section \<open>Waiting\<close>

definition RATE_LIMIT_STATUS :: int where "RATE_LIMIT_STATUS = 429"
definition RATE_LIMIT_MAX_RETRIES :: int where "RATE_LIMIT_MAX_RETRIES = 4"
definition RATE_LIMIT_BACKOFF_MS :: "int list" where "RATE_LIMIT_BACKOFF_MS = [500, 1000, 2000, 4000]"
definition RATE_LIMIT_MAX_DELAY_MS :: int where "RATE_LIMIT_MAX_DELAY_MS = 8000"

definition is_space :: "char \<Rightarrow> bool" where
  "is_space c \<longleftrightarrow> (of_char c :: nat) \<in> {9, 10, 11, 12, 13, 32, 160}"

definition js_trim :: "string \<Rightarrow> string" where
  "js_trim s = rev (dropWhile is_space (rev (dropWhile is_space s)))"

definition is_letter :: "char \<Rightarrow> bool" where
  "is_letter c \<longleftrightarrow> (CHR ''A'' \<le> c \<and> c \<le> CHR ''Z'') \<or> (CHR ''a'' \<le> c \<and> c \<le> CHR ''z'')"

text \<open>The integers \<open>Number\<close> does not round to infinity.\<close>

definition finite_number :: "int \<Rightarrow> bool" where
  "finite_number n \<longleftrightarrow> n < 2 ^ 1024 - 2 ^ 970"

text \<open>\<open>Date.parse\<close> of an HTTP date is the parameter \<open>date\<close>; \<open>NaN\<close> is None.\<close>

definition parseRetryAfter ::
    "(string \<Rightarrow> int option) \<Rightarrow> int \<Rightarrow> int \<Rightarrow> string option \<Rightarrow> int option" where
  "parseRetryAfter date now maxDelayMs v =
     (case v of
        None \<Rightarrow> None
      | Some raw \<Rightarrow>
          let text = js_trim raw
          in if text = [] then None
             else if list_all is_digit text
             then (let seconds = int (nat_of_dec text)
                   in if \<not> finite_number seconds then None
                      else Some (min (seconds * 1000) maxDelayMs))
             else if \<not> list_ex is_letter text then None
             else case date text of
                 None \<Rightarrow> None
               | Some moment \<Rightarrow>
                   let delta = moment - now
                   in if delta \<le> 0 then Some 0 else Some (min delta maxDelayMs))"

text \<open>\<open>Math.round\<close>.\<close>

definition js_round :: "rat \<Rightarrow> int" where
  "js_round x = \<lfloor>x + 1 / 2\<rfloor>"

definition backoff_base :: "int \<Rightarrow> int" where
  "backoff_base attempt =
     (let index = max 1 (min attempt (int (length RATE_LIMIT_BACKOFF_MS))) - 1
      in if nat index < length RATE_LIMIT_BACKOFF_MS then RATE_LIMIT_BACKOFF_MS ! nat index
         else RATE_LIMIT_MAX_DELAY_MS)"

definition rateLimitDelayMs ::
    "(string \<Rightarrow> int option) \<Rightarrow> int \<Rightarrow> rat \<Rightarrow> int \<Rightarrow> string option \<Rightarrow> int" where
  "rateLimitDelayMs date now random attempt header =
     (case parseRetryAfter date now RATE_LIMIT_MAX_DELAY_MS header of
        Some honoured \<Rightarrow> honoured
      | None \<Rightarrow>
          let capped = min (backoff_base attempt) RATE_LIMIT_MAX_DELAY_MS
          in js_round (of_int capped / 2 + random * (of_int capped / 2)))"

section \<open>Answers\<close>

record transport_error =
  te_causeCode :: "string option"
  te_code :: "string option"

definition known_reasons :: "(string \<times> string) list" where
  "known_reasons =
     [(''ENOTFOUND'', ''the host could not be resolved''),
      (''EAI_AGAIN'', ''the host could not be resolved''),
      (''ECONNREFUSED'', ''the connection was refused''),
      (''ECONNRESET'', ''the connection was reset''),
      (''ETIMEDOUT'', ''the connection timed out''),
      (''UND_ERR_CONNECT_TIMEOUT'', ''the connection timed out''),
      (''UND_ERR_HEADERS_TIMEOUT'', ''the response headers timed out''),
      (''UND_ERR_BODY_TIMEOUT'', ''the response body timed out''),
      (''CERT_HAS_EXPIRED'', ''the TLS certificate is not valid''),
      (''ERR_TLS_CERT_ALTNAME_INVALID'', ''the TLS certificate is not valid'')]"

definition classified :: "string \<Rightarrow> transport_error \<Rightarrow> string" where
  "classified otherwise e =
     (let code = (case te_causeCode e of Some c \<Rightarrow> c
                  | None \<Rightarrow> (case te_code e of Some c \<Rightarrow> c | None \<Rightarrow> []))
      in case map_of known_reasons code of Some reason \<Rightarrow> reason | None \<Rightarrow> otherwise)"

definition transportReason :: "transport_error \<Rightarrow> string" where
  "transportReason = classified ''the request could not be completed''"

text \<open>What one request comes back with. A body that is no JSON makes \<open>response.json()\<close> throw.\<close>

datatype 'a rpc_body = Body_result 'a | Body_error "string option" | Body_malformed js_error

datatype 'a rpc_outcome =
    Unreachable transport_error
  | Response (status: int) (ok: bool) (retry_after: "string option") (body: "'a rpc_body")

record 'a endpoint =
  ep_fetch :: "int \<Rightarrow> 'a rpc_outcome"
  ep_now :: "int \<Rightarrow> int"
  ep_random :: "int \<Rightarrow> rat"
  ep_date :: "string \<Rightarrow> int option"

datatype rpc_event = Sent int | Slept int

record rpc_state =
  rs_nextId :: int
  rs_trace :: "rpc_event list"

definition after_sent :: "rpc_state \<Rightarrow> rpc_state" where
  "after_sent st = st\<lparr>rs_nextId := rs_nextId st + 1, rs_trace := rs_trace st @ [Sent (rs_nextId st)]\<rparr>"

definition after_sleep :: "int \<Rightarrow> rpc_state \<Rightarrow> rpc_state" where
  "after_sleep d st = st\<lparr>rs_trace := rs_trace st @ [Slept d]\<rparr>"

text \<open>
  An answer that is not a rate limit is final. The two clients differ in the words of their
  errors, which are the parameters \<open>unreachable\<close> and \<open>limited\<close>.
\<close>

definition final_answer :: "string \<Rightarrow> bool \<Rightarrow> int \<Rightarrow> 'a rpc_body \<Rightarrow> 'a result" where
  "final_answer rpc_name isOk st bd =
     (if \<not> isOk then throw RpcError (rpc_name @ '' failed with HTTP '' @ dec_int st)
      else case bd of
          Body_malformed e \<Rightarrow> Inl e
        | Body_error message \<Rightarrow> throw RpcError (rpc_name @ '' failed: '' @
            (case message of Some m \<Rightarrow> m | None \<Rightarrow> ''unknown error''))
        | Body_result r \<Rightarrow> Inr r)"

function call_loop ::
    "'a endpoint \<Rightarrow> (transport_error \<Rightarrow> string) \<Rightarrow> (int \<Rightarrow> int \<Rightarrow> string) \<Rightarrow> int \<Rightarrow> string
       \<Rightarrow> int \<Rightarrow> int \<Rightarrow> rpc_state \<Rightarrow> 'a result \<times> rpc_state" where
  "call_loop ep unreachable limited maxRetries rpc_name attempt waitedMs st =
     (let n = rs_nextId st; st = after_sent st
      in case ep_fetch ep n of
          Unreachable e \<Rightarrow> (throw RpcError (unreachable e), st)
        | Response code isOk header bd \<Rightarrow>
            if code = RATE_LIMIT_STATUS
            then (if attempt \<ge> maxRetries
                  then (throw RpcRateLimitError (limited (attempt + 1) waitedMs), st)
                  else let delay = rateLimitDelayMs (ep_date ep) (ep_now ep n) (ep_random ep n) (attempt + 1) header
                       in call_loop ep unreachable limited maxRetries rpc_name (attempt + 1) (waitedMs + delay)
                            (after_sleep delay st))
            else (final_answer rpc_name isOk code bd, st))"
  by pat_completeness auto
termination
  by (relation "measure (\<lambda>(ep, u, l, maxRetries, m, attempt, w, st). nat (maxRetries - attempt))") auto

declare call_loop.simps [simp del]

section \<open>The two clients\<close>

definition READ_ONLY_METHODS :: "string list" where
  "READ_ONLY_METHODS = [''getSignaturesForAddress'', ''getTransaction'']"

definition source_call :: "'a endpoint \<Rightarrow> int \<Rightarrow> string \<Rightarrow> rpc_state \<Rightarrow> 'a result \<times> rpc_state" where
  "source_call ep maxRateLimitRetries rpc_name st =
     (if rpc_name \<notin> set READ_ONLY_METHODS
      then (throw RpcError (rpc_name @ '' is not a read method; this chain source sends reads only and cannot submit a transaction''), st)
      else call_loop ep
        (\<lambda>e. rpc_name @ '' could not reach the configured RPC endpoint: '' @ transportReason e)
        (\<lambda>attempts waited. rpc_name @ '' failed with HTTP '' @ dec_int RATE_LIMIT_STATUS @ '' after ''
           @ dec_int attempts @ '' attempts. The configured RPC endpoint is rate limiting this client; this is a fact about the endpoint and not about the chain.'')
        maxRateLimitRetries rpc_name 0 0 st)"

definition RETRYABLE_READ_METHODS :: "string list" where
  "RETRYABLE_READ_METHODS =
     [''getAccountInfo'', ''getBalance'', ''getBlockHeight'', ''getGenesisHash'', ''getLatestBlockhash'',
      ''getMultipleAccounts'', ''getProgramAccounts'', ''getSignaturesForAddress'',
      ''getSignatureStatuses'', ''getSlot'', ''getTokenAccountBalance'', ''getTransaction'', ''getVersion'']"

definition REFUSED_MUTATING_METHODS :: "string list" where
  "REFUSED_MUTATING_METHODS = [''requestAirdrop'', ''sendTransaction'', ''simulateTransaction'']"

definition script_transportReason :: "transport_error \<Rightarrow> string" where
  "script_transportReason = classified ''the request failed before a response arrived''"

definition SAFE_ENDPOINT_LABEL :: string where
  "SAFE_ENDPOINT_LABEL = ''the configured RPC endpoint''"

definition script_call :: "'a endpoint \<Rightarrow> int \<Rightarrow> string \<Rightarrow> rpc_state \<Rightarrow> 'a result \<times> rpc_state" where
  "script_call ep maxRateLimitRetries rpc_name st =
     (if rpc_name \<in> set REFUSED_MUTATING_METHODS
      then (throw RpcError (rpc_name @ '' is not available on the read-only RPC client. It retries safe reads, and retrying a submission could send a value-moving transaction twice.''), st)
      else
        let maxRetries = (if rpc_name \<in> set RETRYABLE_READ_METHODS then maxRateLimitRetries else 0)
        in call_loop ep
          (\<lambda>e. rpc_name @ '' could not reach '' @ SAFE_ENDPOINT_LABEL @ '': '' @ script_transportReason e)
          (\<lambda>attempts waited. rpc_name @ '' failed with HTTP '' @ dec_int RATE_LIMIT_STATUS @ '' after ''
             @ dec_int attempts @ '' attempt'' @ (if attempts = 1 then [] else ''s'')
             @ (if waited > 0 then '' and '' @ dec_int waited @ ''ms of backoff'' else [])
             @ ''. The endpoint is rate limiting this client. This is RPC_RATE_LIMIT: a finding about the RPC endpoint, not about the deployed program.'')
          maxRetries rpc_name 0 0 st)"

section \<open>Bounds\<close>

lemma parseRetryAfter_bounds:
  "parseRetryAfter date now limit header = Some d \<Longrightarrow> 0 \<le> limit \<Longrightarrow> 0 \<le> d \<and> d \<le> limit"
  by (auto simp: parseRetryAfter_def Let_def split: option.splits if_splits)

lemma backoff_base_range: "backoff_base attempt \<in> {500, 1000, 2000, 4000}"
proof -
  let ?i = "nat (max 1 (min attempt 4) - 1)"
  have "?i < 4" by auto
  then have "?i = 0 \<or> ?i = 1 \<or> ?i = 2 \<or> ?i = 3" by linarith
  then show ?thesis by (auto simp: backoff_base_def RATE_LIMIT_BACKOFF_MS_def Let_def)
qed

lemma js_round_bounds:
  assumes "of_int a \<le> x" and "x \<le> of_int b"
  shows "a \<le> js_round x" and "js_round x \<le> b"
proof -
  show "a \<le> js_round x" unfolding js_round_def using assms(1) by (simp add: le_floor_iff)
  have "x + 1 / 2 < of_int (b + 1)" using assms(2) by simp
  then have "\<lfloor>x + 1 / 2\<rfloor> < b + 1" unfolding floor_less_iff .
  then show "js_round x \<le> b" unfolding js_round_def by simp
qed

text \<open>Without a sane header the wait is between half the scheduled base and the base.\<close>

lemma rateLimitDelayMs_schedule:
  assumes "0 \<le> random" and "random \<le> 1" and "parseRetryAfter date now RATE_LIMIT_MAX_DELAY_MS header = None"
  shows "backoff_base attempt div 2 \<le> rateLimitDelayMs date now random attempt header"
    and "rateLimitDelayMs date now random attempt header \<le> backoff_base attempt"
proof -
  let ?b = "backoff_base attempt"
  let ?x = "of_int ?b / 2 + random * (of_int ?b / 2)"
  have b: "?b \<in> {500, 1000, 2000, 4000}" by (rule backoff_base_range)
  then have delay: "rateLimitDelayMs date now random attempt header = js_round ?x"
    using assms(3) by (auto simp: rateLimitDelayMs_def RATE_LIMIT_MAX_DELAY_MS_def Let_def)
  have pos: "(0 :: rat) \<le> of_int ?b / 2" using b by auto
  then have "random * (of_int ?b / 2) \<le> of_int ?b / 2" "0 \<le> random * (of_int ?b / 2)"
    using assms(1,2) by (simp_all add: mult_left_le_one_le)
  moreover have "(of_int (?b div 2) :: rat) = of_int ?b / 2" using b by auto
  ultimately have "of_int (?b div 2) \<le> ?x" "?x \<le> of_int ?b" by (simp_all add: field_simps)
  from js_round_bounds [OF this] show "?b div 2 \<le> rateLimitDelayMs date now random attempt header"
    and "rateLimitDelayMs date now random attempt header \<le> ?b"
    unfolding delay .
qed

lemma rateLimitDelayMs_bounds:
  assumes "0 \<le> random" and "random \<le> 1"
  shows "0 \<le> rateLimitDelayMs date now random attempt header
    \<and> rateLimitDelayMs date now random attempt header \<le> 8000"
proof (cases "parseRetryAfter date now RATE_LIMIT_MAX_DELAY_MS header")
  case None
  from rateLimitDelayMs_schedule [OF assms None, of attempt] backoff_base_range [of attempt]
  show ?thesis by auto
next
  case (Some d)
  with parseRetryAfter_bounds [OF Some] show ?thesis
    by (simp add: rateLimitDelayMs_def RATE_LIMIT_MAX_DELAY_MS_def)
qed

text \<open>The requests and waits of one call: the waits between consecutive requests.\<close>

fun attempts_log :: "int \<Rightarrow> int list \<Rightarrow> rpc_event list" where
  "attempts_log n [] = [Sent n]"
| "attempts_log n (d # ds) = Sent n # Slept d # attempts_log (n + 1) ds"

definition rate_limited :: "'a rpc_outcome \<Rightarrow> bool" where
  "rate_limited o1 \<longleftrightarrow> (case o1 of Unreachable _ \<Rightarrow> False | Response code _ _ _ \<Rightarrow> code = RATE_LIMIT_STATUS)"

text \<open>What the answer to the last request makes of the call.\<close>

definition outcome_is :: "string \<Rightarrow> 'a rpc_outcome \<Rightarrow> 'a result \<Rightarrow> bool" where
  "outcome_is rpc_name o1 r \<longleftrightarrow>
     (case o1 of
        Unreachable _ \<Rightarrow> (\<exists>m. r = throw RpcError m)
      | Response code isOk _ bd \<Rightarrow>
          if code = RATE_LIMIT_STATUS then \<exists>m. r = throw RpcRateLimitError m
          else r = final_answer rpc_name isOk code bd)"

definition bounded_run ::
    "'a endpoint \<Rightarrow> int \<Rightarrow> string \<Rightarrow> rpc_state \<Rightarrow> 'a result \<Rightarrow> rpc_state \<Rightarrow> bool" where
  "bounded_run ep maxRetries rpc_name st r st' \<longleftrightarrow>
     (\<exists>ds. length ds \<le> nat maxRetries
        \<and> rs_trace st' = rs_trace st @ attempts_log (rs_nextId st) ds
        \<and> rs_nextId st' = rs_nextId st + int (length ds) + 1
        \<and> (\<forall>d \<in> set ds. 0 \<le> d \<and> d \<le> 8000) \<and> sum_list ds \<le> 8000 * int (nat maxRetries)
        \<and> (\<forall>k < length ds. rate_limited (ep_fetch ep (rs_nextId st + int k)))
        \<and> (rate_limited (ep_fetch ep (rs_nextId st + int (length ds))) \<longrightarrow> length ds = nat maxRetries)
        \<and> outcome_is rpc_name (ep_fetch ep (rs_nextId st + int (length ds))) r)"

definition fair_random :: "'a endpoint \<Rightarrow> bool" where
  "fair_random ep \<longleftrightarrow> (\<forall>n. 0 \<le> ep_random ep n \<and> ep_random ep n \<le> 1)"

lemma sum_list_bounded: "\<forall>d \<in> set ds. d \<le> b \<Longrightarrow> sum_list ds \<le> b * int (length ds)" for ds :: "int list"
  by (induction ds) (auto simp: algebra_simps)

lemma call_loop_run:
  assumes "fair_random ep" and "0 \<le> attempt"
    and "call_loop ep u l maxRetries rpc_name attempt w st = (r, st')"
  shows "\<exists>ds. length ds \<le> nat (maxRetries - attempt)
        \<and> rs_trace st' = rs_trace st @ attempts_log (rs_nextId st) ds
        \<and> rs_nextId st' = rs_nextId st + int (length ds) + 1
        \<and> (\<forall>d \<in> set ds. 0 \<le> d \<and> d \<le> 8000)
        \<and> (\<forall>k < length ds. rate_limited (ep_fetch ep (rs_nextId st + int k)))
        \<and> (rate_limited (ep_fetch ep (rs_nextId st + int (length ds))) \<longrightarrow>
             length ds = nat (maxRetries - attempt))
        \<and> outcome_is rpc_name (ep_fetch ep (rs_nextId st + int (length ds))) r"
  using assms
proof (induction ep u l maxRetries rpc_name attempt w st arbitrary: r st' rule: call_loop.induct)
  case (1 ep u l maxRetries rpc_name attempt w st)
  let ?n = "rs_nextId st"
  show ?case
  proof (cases "rate_limited (ep_fetch ep ?n) \<and> attempt < maxRetries")
    case True
    then obtain isOk header bd where answer: "ep_fetch ep ?n = Response RATE_LIMIT_STATUS isOk header bd"
      by (auto simp: rate_limited_def split: rpc_outcome.splits)
    let ?d = "rateLimitDelayMs (ep_date ep) (ep_now ep ?n) (ep_random ep ?n) (attempt + 1) header"
    let ?st = "after_sleep ?d (after_sent st)"
    have "call_loop ep u l maxRetries rpc_name (attempt + 1) (w + ?d) ?st = (r, st')"
      using "1.prems"(3) True answer by (subst (asm) call_loop.simps) (simp add: Let_def)
    from "1.IH" [OF refl refl answer refl _ refl "1.prems"(1) _ this] True "1.prems"(2)
    obtain ds where ds: "length ds \<le> nat (maxRetries - (attempt + 1))"
      "rs_trace st' = rs_trace ?st @ attempts_log (rs_nextId ?st) ds"
      "rs_nextId st' = rs_nextId ?st + int (length ds) + 1"
      "\<forall>d \<in> set ds. 0 \<le> d \<and> d \<le> 8000"
      "\<forall>k < length ds. rate_limited (ep_fetch ep (rs_nextId ?st + int k))"
      "rate_limited (ep_fetch ep (rs_nextId ?st + int (length ds))) \<longrightarrow>
         length ds = nat (maxRetries - (attempt + 1))"
      "outcome_is rpc_name (ep_fetch ep (rs_nextId ?st + int (length ds))) r"
      by auto
    have next_id: "rs_nextId ?st = ?n + 1" "rs_trace ?st = rs_trace st @ [Sent ?n, Slept ?d]"
      by (simp_all add: after_sleep_def after_sent_def)
    have "0 \<le> ?d \<and> ?d \<le> 8000"
      using "1.prems"(1) by (intro rateLimitDelayMs_bounds) (simp_all add: fair_random_def)
    moreover have "rate_limited (ep_fetch ep (?n + int k))" if "k < length (?d # ds)" for k
      using that ds(5) True next_id(1) by (cases k) (auto simp: algebra_simps)
    ultimately show ?thesis
      using ds next_id True by (intro exI [of _ "?d # ds"]) (auto simp: algebra_simps)
  next
    case False
    with "1.prems" have "outcome_is rpc_name (ep_fetch ep ?n) r" "st' = after_sent st"
      by (subst (asm) call_loop.simps;
          auto simp: Let_def outcome_is_def rate_limited_def split: rpc_outcome.splits if_splits)+
    with False show ?thesis
      by (intro exI [of _ "[]"]) (auto simp: after_sent_def)
  qed
qed

lemma call_loop_bounded:
  assumes "fair_random ep" and "call_loop ep u l maxRetries rpc_name 0 0 st = (r, st')"
  shows "bounded_run ep maxRetries rpc_name st r st'"
proof -
  from call_loop_run [OF assms(1) _ assms(2)] obtain ds where ds: "length ds \<le> nat maxRetries"
    "rs_trace st' = rs_trace st @ attempts_log (rs_nextId st) ds"
    "rs_nextId st' = rs_nextId st + int (length ds) + 1"
    "\<forall>d \<in> set ds. 0 \<le> d \<and> d \<le> 8000"
    "\<forall>k < length ds. rate_limited (ep_fetch ep (rs_nextId st + int k))"
    "rate_limited (ep_fetch ep (rs_nextId st + int (length ds))) \<longrightarrow> length ds = nat maxRetries"
    "outcome_is rpc_name (ep_fetch ep (rs_nextId st + int (length ds))) r"
    by auto
  have "sum_list ds \<le> 8000 * int (length ds)" using ds(4) by (intro sum_list_bounded) blast
  also have "\<dots> \<le> 8000 * int (nat maxRetries)" using ds(1) by (intro mult_left_mono) auto
  finally show ?thesis unfolding bounded_run_def using ds by (intro exI [of _ ds]) blast
qed

text \<open>
  C21: A call is bounded and repeats questions only. Either client sends one request and at most
  the configured number of retries, each after an answer of 429 and a wait of at most eight
  seconds, so the whole call waits at most eight seconds per retry; every other answer ends the
  call and alone decides its result, and a call gives up on 429 only when its retries are used
  up. The indexer's source sends nothing but its two read methods, the scripts' client never
  sends a mutating method and retries only listed reads.
\<close>

theorem calls_bounded:
  assumes "fair_random ep"
  shows "(case source_call ep maxRetries rpc_name st of (r, st') \<Rightarrow>
       if rpc_name \<in> {''getSignaturesForAddress'', ''getTransaction''}
       then bounded_run ep maxRetries rpc_name st r st'
       else st' = st \<and> (\<exists>m. r = throw RpcError m))
    \<and> (case script_call ep maxRetries rpc_name st of (r, st') \<Rightarrow>
       if rpc_name \<in> {''requestAirdrop'', ''sendTransaction'', ''simulateTransaction''}
       then st' = st \<and> (\<exists>m. r = throw RpcError m)
       else bounded_run ep (if rpc_name \<in> set RETRYABLE_READ_METHODS then maxRetries else 0) rpc_name st r st')"
  using call_loop_bounded [OF assms]
  by (auto simp: source_call_def script_call_def READ_ONLY_METHODS_def REFUSED_MUTATING_METHODS_def Let_def
      split: prod.splits if_splits)

text \<open>An endpoint that limits the first request and asks for a wait of a minute.\<close>

definition sample_endpoint :: "int endpoint" where
  "sample_endpoint =
     \<lparr>ep_fetch = (\<lambda>n. if n = 1 then Response 429 False (Some ''60'') (Body_result 0)
        else Response 200 True None (Body_result n)),
      ep_now = (\<lambda>_. 0), ep_random = (\<lambda>_. 1), ep_date = (\<lambda>_. None)\<rparr>"

definition sample_rpc :: rpc_state where "sample_rpc = \<lparr>rs_nextId = 1, rs_trace = []\<rparr>"

lemma sample_call:
  "source_call sample_endpoint 4 ''getTransaction'' sample_rpc
     = (Inr 2, \<lparr>rs_nextId = 3, rs_trace = [Sent 1, Slept 8000, Sent 2]\<rparr>)"
  by code_simp

theorem calls_bounded_witness:
  "fair_random sample_endpoint
   \<and> bounded_run sample_endpoint 4 ''getTransaction'' sample_rpc (Inr 2)
       \<lparr>rs_nextId = 3, rs_trace = [Sent 1, Slept 8000, Sent 2]\<rparr>"
proof -
  have fair: "fair_random sample_endpoint" by (simp add: fair_random_def sample_endpoint_def)
  from calls_bounded [OF fair, where maxRetries = 4 and rpc_name = "''getTransaction''" and st = sample_rpc] fair
  show ?thesis by (simp add: sample_call)
qed

end
