(* ===== verification/Extract.thy ===== *)
theory Extract
  imports Chain_Events Instructions Receipts
begin

text \<open>
  Extraction of program events from confirmed transactions (\<open>indexer/src/events.ts\<close>): only
  inner instructions of a transaction that did not fail, of the program itself, and carrying
  its event authority, which only the program can make sign.
\<close>

record rpc_instruction =
  ri_programIdIndex :: int
  ri_accounts :: "int list"
  ri_data :: string

record inner_instructions =
  ii_index :: js_number
  ii_instructions :: "rpc_instruction list"

record tx_meta =
  tm_failed :: bool
  tm_innerInstructions :: "inner_instructions list option"
  tm_loadedAddresses :: "(string list \<times> string list) option"

record rpc_transaction =
  tx_slot :: js_number
  tx_blockTime :: "int option"
  tx_signatures :: "string list"
  tx_accountKeys :: "string list"
  tx_instructions :: "rpc_instruction list"
  tx_meta :: "tx_meta option"

definition indexer_deriveEventAuthority :: "(bytes \<Rightarrow> bytes) \<Rightarrow> address \<Rightarrow> address result" where
  "indexer_deriveEventAuthority sha programId =
     bindR (findProgramAddress sha [utf8 ''__event_authority''] programId) (\<lambda>found. Inr (fst found))"

definition accountKeysOf :: "rpc_transaction \<Rightarrow> string list" where
  "accountKeysOf tx =
     (let loaded = Option.bind (tx_meta tx) tm_loadedAddresses
      in tx_accountKeys tx
         @ (case loaded of None \<Rightarrow> [] | Some (w, r) \<Rightarrow> w)
         @ (case loaded of None \<Rightarrow> [] | Some (w, r) \<Rightarrow> r))"

text \<open>\<open>keys[i]\<close>: undefined outside the array.\<close>

definition key_at :: "string list \<Rightarrow> int \<Rightarrow> string option" where
  "key_at keys i = (if 0 \<le> i \<and> nat i < length keys then Some (keys ! nat i) else None)"

definition programOf :: "string list \<Rightarrow> rpc_instruction \<Rightarrow> string option" where
  "programOf keys instruction = key_at keys (ri_programIdIndex instruction)"

definition first_account :: "string list \<Rightarrow> rpc_instruction \<Rightarrow> string option" where
  "first_account keys instruction =
     key_at keys (case ri_accounts instruction of [] \<Rightarrow> -1 | a # _ \<Rightarrow> a)"

definition tx_failed :: "rpc_transaction \<Rightarrow> bool" where
  "tx_failed tx = (case tx_meta tx of None \<Rightarrow> False | Some m \<Rightarrow> tm_failed m)"

definition inner_groups :: "rpc_transaction \<Rightarrow> inner_instructions list" where
  "inner_groups tx =
     (case tx_meta tx of None \<Rightarrow> []
      | Some m \<Rightarrow> (case tm_innerInstructions m of None \<Rightarrow> [] | Some gs \<Rightarrow> gs))"

text \<open>\<open>tx.transaction.signatures[0]\<close>, where the empty string counts as absent.\<close>

definition tx_signature :: "rpc_transaction \<Rightarrow> string option" where
  "tx_signature tx = (case tx_signatures tx of [] \<Rightarrow> None | s # _ \<Rightarrow> if s = [] then None else Some s)"

text \<open>The inner loop over one group, and the loop over the groups.\<close>

definition each_indexed :: "('a list \<Rightarrow> nat \<times> 'b \<Rightarrow> 'a list result) \<Rightarrow> 'a list \<Rightarrow> 'b list \<Rightarrow> 'a list result" where
  "each_indexed step acc xs = foldR step acc (zip [0 ..< length xs] xs)"

definition escrow_step ::
    "(bytes \<Rightarrow> bytes) \<Rightarrow> rpc_transaction \<Rightarrow> string \<Rightarrow> string \<Rightarrow> string \<Rightarrow> js_number
       \<Rightarrow> event_envelope list \<Rightarrow> nat \<times> rpc_instruction \<Rightarrow> event_envelope list result" where
  "escrow_step sha tx programId eventAuthority signature index envelopes item =
     (let keys = accountKeysOf tx; instruction = snd item
      in if programOf keys instruction \<noteq> Some programId then Inr envelopes
         else if first_account keys instruction \<noteq> Some eventAuthority then Inr envelopes
         else
           bindR (decodeBase58 (ri_data instruction)) (\<lambda>data.
           bindR (decodeEscrowEventData sha data) (\<lambda>event.
           case event of None \<Rightarrow> Inr envelopes
           | Some e \<Rightarrow> Inr (envelopes @
               [\<lparr>en_event = e, en_programId = programId, en_transactionSignature = signature,
                 en_slot = tx_slot tx, en_instructionIndex = index,
                 en_innerInstructionIndex = Some (int (fst item)),
                 en_blockTime = tx_blockTime tx\<rparr>]))))"

definition extractEscrowEvents ::
    "(bytes \<Rightarrow> bytes) \<Rightarrow> rpc_transaction \<Rightarrow> string \<Rightarrow> string option \<Rightarrow> event_envelope list result" where
  "extractEscrowEvents sha tx programId eventAuthority =
     (if tx_failed tx then Inr []
      else case tx_signature tx of None \<Rightarrow> Inr []
        | Some signature \<Rightarrow>
            bindR (case eventAuthority of Some ea \<Rightarrow> Inr ea
                   | None \<Rightarrow> indexer_deriveEventAuthority sha programId) (\<lambda>ea.
            foldR (\<lambda>envelopes g. each_indexed (escrow_step sha tx programId ea signature (ii_index g))
                envelopes (ii_instructions g))
              [] (inner_groups tx)))"

definition isAddress :: "string \<Rightarrow> bool" where
  "isAddress v = (case decodeBase58 v of Inl _ \<Rightarrow> False | Inr bs \<Rightarrow> length bs = 32)"

definition isProgramDerivable :: "(bytes \<Rightarrow> bytes) \<Rightarrow> bytes list \<Rightarrow> string \<Rightarrow> bool" where
  "isProgramDerivable sha seeds programId =
     (case createProgramAddress sha seeds programId of Inl _ \<Rightarrow> False | Inr _ \<Rightarrow> True)"

record ppv_envelope =
  px_event :: chain_event
  px_program :: ppv_program
  px_programId :: string
  px_transactionSignature :: string
  px_slot :: js_number
  px_instructionIndex :: js_number
  px_innerInstructionIndex :: int
  px_blockTime :: "int option"

text \<open>The two maps keyed by program id; a later program replaces an earlier of the same id.\<close>

definition program_entry ::
    "(bytes \<Rightarrow> bytes) \<Rightarrow> (string \<times> ppv_program \<times> string) list \<Rightarrow> ppv_program \<times> string
       \<Rightarrow> (string \<times> ppv_program \<times> string) list result" where
  "program_entry sha byProgramId entry =
     bindR (indexer_deriveEventAuthority sha (snd entry)) (\<lambda>authority.
       Inr (map_set (snd entry) (fst entry, authority) byProgramId))"

definition ppv_step ::
    "(bytes \<Rightarrow> bytes) \<Rightarrow> (string \<times> ppv_program \<times> string) list \<Rightarrow> rpc_transaction \<Rightarrow> string \<Rightarrow> js_number
       \<Rightarrow> ppv_envelope list \<Rightarrow> nat \<times> rpc_instruction \<Rightarrow> ppv_envelope list result" where
  "ppv_step sha byProgramId tx signature index envelopes item =
     (let keys = accountKeysOf tx; instruction = snd item
      in case programOf keys instruction of None \<Rightarrow> Inr envelopes
         | Some programId \<Rightarrow>
             (case map_get byProgramId programId of None \<Rightarrow> Inr envelopes
              | Some (program, authority) \<Rightarrow>
                  if first_account keys instruction \<noteq> Some authority then Inr envelopes
                  else
                    bindR (decodeBase58 (ri_data instruction)) (\<lambda>data.
                    bindR (decodeEventForProgram sha program data) (\<lambda>decoded.
                    case decoded of
                      Some (Chain_Event owner e) \<Rightarrow> Inr (envelopes @
                        [\<lparr>px_event = e, px_program = owner, px_programId = programId,
                          px_transactionSignature = signature, px_slot = tx_slot tx,
                          px_instructionIndex = index, px_innerInstructionIndex = int (fst item),
                          px_blockTime = tx_blockTime tx\<rparr>])
                    | _ \<Rightarrow> Inr envelopes))))"

definition extractPpvEvents ::
    "(bytes \<Rightarrow> bytes) \<Rightarrow> rpc_transaction \<Rightarrow> (ppv_program \<times> string) list \<Rightarrow> ppv_envelope list result" where
  "extractPpvEvents sha tx programs =
     (if tx_failed tx then Inr []
      else case tx_signature tx of None \<Rightarrow> Inr []
        | Some signature \<Rightarrow>
            bindR (foldR (program_entry sha) [] programs) (\<lambda>byProgramId.
            foldR (\<lambda>envelopes g. each_indexed (ppv_step sha byProgramId tx signature (ii_index g))
                envelopes (ii_instructions g))
              [] (inner_groups tx)))"

section \<open>What the loops collect\<close>

text \<open>A loop that appends what each item yields, and stops at the first that throws.\<close>

lemma collect_fold:
  assumes "\<And>acc x. step acc x = bindR (pick x) (\<lambda>y. Inr (acc @ (case y of None \<Rightarrow> [] | Some z \<Rightarrow> [z])))"
  shows "foldR step acc xs = bindR (mapR pick xs) (\<lambda>ys. Inr (acc @ List.map_filter id ys))"
proof (induction xs arbitrary: acc)
  case (Cons x xs)
  then show ?case
    by (cases "pick x"; cases "mapR pick xs") (auto simp: assms split: option.splits)
qed simp

lemma foldR_map: "foldR f acc (map k xs) = foldR (\<lambda>acc x. f acc (k x)) acc xs"
  by (induction xs arbitrary: acc) (simp_all add: bindR_def split: sum.splits)

lemma foldR_nested:
  "foldR (\<lambda>acc g. foldR (f g) acc (items g)) acc gs
     = foldR (\<lambda>acc x. f (fst x) acc (snd x)) acc (concat (map (\<lambda>g. map (Pair g) (items g)) gs))"
  by (induction gs arbitrary: acc) (simp_all add: foldR_append foldR_map bindR_def split: sum.splits)

lemma mapR_Inl: "mapR f xs = Inl e \<Longrightarrow> \<exists>x \<in> set xs. f x = Inl e"
  by (induction xs) (auto simp: bindR_eq_Inl)

lemma mapR_picked:
  "mapR f xs = Inr ys \<Longrightarrow> z \<in> set (List.map_filter id ys) \<longleftrightarrow> (\<exists>x \<in> set xs. f x = Inr (Some z))"
proof (induction xs arbitrary: ys)
  case (Cons x xs)
  then obtain y ys' where ys: "ys = y # ys'" "f x = Inr y" "mapR f xs = Inr ys'"
    by (auto simp: bindR_eq_Inr)
  with Cons.IH [OF ys(3)] show ?case by (auto split: option.splits)
qed simp

section \<open>Escrow events\<close>

definition inner_items :: "rpc_transaction \<Rightarrow> (inner_instructions \<times> nat \<times> rpc_instruction) list" where
  "inner_items tx =
     concat (map (\<lambda>g. map (Pair g) (zip [0 ..< length (ii_instructions g)] (ii_instructions g))) (inner_groups tx))"

lemma inner_items_iff:
  "(g, i, x) \<in> set (inner_items tx) \<longleftrightarrow>
     g \<in> set (inner_groups tx) \<and> i < length (ii_instructions g) \<and> x = ii_instructions g ! i"
proof -
  have "(i, x) \<in> set (zip [0 ..< length xs] xs) \<longleftrightarrow> i < length xs \<and> x = xs ! i" for xs
    by (auto simp: in_set_zip intro!: exI [of _ i])
  then show ?thesis by (auto simp: inner_items_def)
qed

text \<open>The program invoking itself, with the authority only it can make sign.\<close>

definition self_emitted :: "rpc_transaction \<Rightarrow> string \<Rightarrow> string \<Rightarrow> rpc_instruction \<Rightarrow> bool" where
  "self_emitted tx programId authority instruction \<longleftrightarrow>
     programOf (accountKeysOf tx) instruction = Some programId
     \<and> first_account (accountKeysOf tx) instruction = Some authority"

definition escrow_envelope ::
    "rpc_transaction \<Rightarrow> string \<Rightarrow> string \<Rightarrow> js_number \<Rightarrow> nat \<Rightarrow> escrow_event \<Rightarrow> event_envelope" where
  "escrow_envelope tx programId signature index i e =
     \<lparr>en_event = e, en_programId = programId, en_transactionSignature = signature,
      en_slot = tx_slot tx, en_instructionIndex = index,
      en_innerInstructionIndex = Some (int i), en_blockTime = tx_blockTime tx\<rparr>"

definition escrow_data :: "(bytes \<Rightarrow> bytes) \<Rightarrow> rpc_instruction \<Rightarrow> escrow_event option result" where
  "escrow_data sha instruction = bindR (decodeBase58 (ri_data instruction)) (decodeEscrowEventData sha)"

definition escrow_pick ::
    "(bytes \<Rightarrow> bytes) \<Rightarrow> rpc_transaction \<Rightarrow> string \<Rightarrow> string \<Rightarrow> string
       \<Rightarrow> inner_instructions \<times> nat \<times> rpc_instruction \<Rightarrow> event_envelope option result" where
  "escrow_pick sha tx programId ea signature item =
     (case item of (g, i, x) \<Rightarrow>
        if self_emitted tx programId ea x
        then bindR (escrow_data sha x) (\<lambda>e. Inr (map_option (escrow_envelope tx programId signature (ii_index g) i) e))
        else Inr None)"

lemma extractEscrowEvents_picks:
  assumes "\<not> tx_failed tx" and "tx_signature tx = Some s"
  shows "extractEscrowEvents sha tx programId (Some ea)
    = bindR (mapR (escrow_pick sha tx programId ea s) (inner_items tx)) (\<lambda>ys. Inr (List.map_filter id ys))"
proof -
  have step: "escrow_step sha tx programId ea s (ii_index (fst x)) acc (snd x)
      = bindR (escrow_pick sha tx programId ea s x) (\<lambda>y. Inr (acc @ (case y of None \<Rightarrow> [] | Some z \<Rightarrow> [z])))"
    for acc x
    by (cases x) (auto simp: escrow_step_def escrow_pick_def Let_def self_emitted_def escrow_data_def
        escrow_envelope_def bindR_def split: sum.splits option.splits)
  show ?thesis
    using assms collect_fold [OF step, where acc = "[]" and xs = "inner_items tx"]
    by (simp add: extractEscrowEvents_def each_indexed_def foldR_nested inner_items_def)
qed

lemma extract_escrow_iff:
  "case extractEscrowEvents sha tx programId (Some ea) of
     Inl err \<Rightarrow> \<not> tx_failed tx \<and> (\<exists>g i x. (g, i, x) \<in> set (inner_items tx)
       \<and> self_emitted tx programId ea x \<and> escrow_data sha x = Inl err)
   | Inr es \<Rightarrow> \<forall>en. en \<in> set es \<longleftrightarrow> (\<exists>s g i x e. \<not> tx_failed tx \<and> tx_signature tx = Some s
       \<and> (g, i, x) \<in> set (inner_items tx) \<and> self_emitted tx programId ea x
       \<and> escrow_data sha x = Inr (Some e) \<and> en = escrow_envelope tx programId s (ii_index g) i e)"
proof (cases "tx_failed tx \<or> tx_signature tx = None")
  case True
  then show ?thesis by (auto simp: extractEscrowEvents_def)
next
  case False
  then obtain s where s: "\<not> tx_failed tx" "tx_signature tx = Some s" by auto
  let ?pick = "escrow_pick sha tx programId ea s"
  have picked: "?pick (g, i, x) = Inr (Some en) \<longleftrightarrow> self_emitted tx programId ea x
      \<and> (\<exists>e. escrow_data sha x = Inr (Some e) \<and> en = escrow_envelope tx programId s (ii_index g) i e)"
    for g i x en
    by (auto simp: escrow_pick_def bindR_eq_Inr)
  have thrown: "?pick (g, i, x) = Inl err \<longleftrightarrow> self_emitted tx programId ea x \<and> escrow_data sha x = Inl err"
    for g i x err
    by (auto simp: escrow_pick_def bindR_eq_Inl)
  show ?thesis
  proof (cases "mapR ?pick (inner_items tx)")
    case (Inl err)
    then obtain g i x where "(g, i, x) \<in> set (inner_items tx)" "?pick (g, i, x) = Inl err"
      using mapR_Inl [OF Inl] by auto
    with s Inl thrown show ?thesis by (auto simp: extractEscrowEvents_picks)
  next
    case (Inr ys)
    have "en \<in> set (List.map_filter id ys) \<longleftrightarrow> (\<exists>g i x e. (g, i, x) \<in> set (inner_items tx)
        \<and> self_emitted tx programId ea x \<and> escrow_data sha x = Inr (Some e)
        \<and> en = escrow_envelope tx programId s (ii_index g) i e)" for en
      unfolding mapR_picked [OF Inr] using picked by (auto simp: Bex_def)
    with s Inr show ?thesis by (simp add: extractEscrowEvents_picks)
  qed
qed

text \<open>
  C13: Only what the program itself emitted is read as an event. An envelope is produced exactly
  for each inner instruction, of a transaction that did not fail, that is addressed to the
  program, leads with its event authority and whose data decode to an event; it carries that
  event, the transaction's signature and slot and the instruction's coordinates. Neither
  top-level instructions nor instructions of other programs matter, and extraction throws only
  where an instruction the program emitted does not decode.
\<close>

theorem extractEscrowEvents_exact:
  "case extractEscrowEvents sha tx programId (Some ea) of
     Inl err \<Rightarrow> \<not> tx_failed tx \<and> (\<exists>g i x. (g, i, x) \<in> set (inner_items tx)
       \<and> self_emitted tx programId ea x \<and> escrow_data sha x = Inl err)
   | Inr es \<Rightarrow> \<forall>en. en \<in> set es \<longleftrightarrow> (\<exists>s g i x e. \<not> tx_failed tx \<and> tx_signature tx = Some s
       \<and> (g, i, x) \<in> set (inner_items tx) \<and> self_emitted tx programId ea x
       \<and> escrow_data sha x = Inr (Some e) \<and> en = escrow_envelope tx programId s (ii_index g) i e)"
  by (rule extract_escrow_iff)

section \<open>Core and commerce events\<close>

definition ppv_pick ::
    "(bytes \<Rightarrow> bytes) \<Rightarrow> (string \<times> ppv_program \<times> string) list \<Rightarrow> rpc_transaction \<Rightarrow> string
       \<Rightarrow> inner_instructions \<times> nat \<times> rpc_instruction \<Rightarrow> ppv_envelope option result" where
  "ppv_pick sha byProgramId tx signature item =
     (case item of (g, i, x) \<Rightarrow>
        (case Option.bind (programOf (accountKeysOf tx) x)
             (\<lambda>p. map_option (Pair p) (map_get byProgramId p)) of
           Some (p, program, authority) \<Rightarrow>
             if self_emitted tx p authority x
             then bindR (bindR (decodeBase58 (ri_data x)) (decodeEventForProgram sha program)) (\<lambda>decoded.
               Inr (case decoded of
                  Some (Chain_Event owner e) \<Rightarrow>
                    Some \<lparr>px_event = e, px_program = owner, px_programId = p,
                      px_transactionSignature = signature, px_slot = tx_slot tx,
                      px_instructionIndex = ii_index g, px_innerInstructionIndex = int i,
                      px_blockTime = tx_blockTime tx\<rparr>
                | _ \<Rightarrow> None))
             else Inr None
         | None \<Rightarrow> Inr None))"

lemma ppv_step_pick:
  "ppv_step sha m tx s (ii_index (fst x)) acc (snd x)
     = bindR (ppv_pick sha m tx s x) (\<lambda>y. Inr (acc @ (case y of None \<Rightarrow> [] | Some z \<Rightarrow> [z])))"
proof -
  obtain g i instr where x: "x = (g, i, instr)" by (cases x)
  show ?thesis
  proof (cases "programOf (accountKeysOf tx) instr")
    case None
    then show ?thesis by (simp add: x ppv_step_def ppv_pick_def Let_def)
  next
    case (Some p)
    show ?thesis
    proof (cases "map_get m p")
      case None
      with Some show ?thesis by (simp add: x ppv_step_def ppv_pick_def Let_def)
    next
      case (Some entry)
      obtain program authority where "entry = (program, authority)" by force
      with Some \<open>programOf _ _ = Some p\<close> show ?thesis
        by (simp add: x ppv_step_def ppv_pick_def Let_def self_emitted_def bindR_def
            split: sum.split option.split program_event.split)
    qed
  qed
qed

lemma program_entries:
  "foldR (program_entry sha) m programs = Inr m' \<Longrightarrow> map_get m' p = Some (program, authority) \<Longrightarrow>
     map_get m p = Some (program, authority)
     \<or> ((program, p) \<in> set programs \<and> indexer_deriveEventAuthority sha p = Inr authority)"
proof (induction programs arbitrary: m)
  case (Cons e programs)
  then obtain m2 where m2: "program_entry sha m e = Inr m2" "foldR (program_entry sha) m2 programs = Inr m'"
    by (auto simp: bindR_eq_Inr)
  then obtain a where "indexer_deriveEventAuthority sha (snd e) = Inr a" "m2 = map_set (snd e) (fst e, a) m"
    by (auto simp: program_entry_def bindR_eq_Inr)
  with m2(2) have a: "indexer_deriveEventAuthority sha (snd e) = Inr a"
      "foldR (program_entry sha) (map_set (snd e) (fst e, a) m) programs = Inr m'" by simp_all
  from Cons.IH [OF a(2) Cons.prems(2)] a(1) show ?case
    by (auto simp: map_get_set split: if_splits)
qed simp

lemma some_chain_event:
  "(case decoded of Some (Chain_Event owner e) \<Rightarrow> Some (f owner e) | _ \<Rightarrow> None) = Some z
     \<longleftrightarrow> (\<exists>owner e. decoded = Some (Chain_Event owner e) \<and> z = f owner e)"
  by (auto split: option.splits program_event.splits)

text \<open>
  Every envelope names a configured program: the one whose id the instruction carried, whose
  own event authority signed, and to which the event belongs.
\<close>

lemma extractPpvEvents_attributes:
  assumes "extractPpvEvents sha tx programs = Inr es" and "en \<in> set es"
  shows "\<not> tx_failed tx \<and> tx_signature tx = Some (px_transactionSignature en)
    \<and> (px_program en, px_programId en) \<in> set programs
    \<and> programForEvent (ce_name (px_event en)) = px_program en
    \<and> (\<exists>authority g i x data. indexer_deriveEventAuthority sha (px_programId en) = Inr authority
         \<and> (g, i, x) \<in> set (inner_items tx) \<and> self_emitted tx (px_programId en) authority x
         \<and> decodeBase58 (ri_data x) = Inr data
         \<and> decodePpvEventData sha data = Inr (Some (px_event en))
         \<and> px_instructionIndex en = ii_index g \<and> px_innerInstructionIndex en = int i)"
proof -
  from assms obtain s m where s: "\<not> tx_failed tx" "tx_signature tx = Some s"
    and m: "foldR (program_entry sha) [] programs = Inr m"
    and run: "foldR (\<lambda>acc g. each_indexed (ppv_step sha m tx s (ii_index g)) acc (ii_instructions g)) []
      (inner_groups tx) = Inr es"
    by (auto simp: extractPpvEvents_def bindR_eq_Inr split: if_splits option.splits)
  from run have "bindR (mapR (ppv_pick sha m tx s) (inner_items tx)) (\<lambda>ys. Inr (List.map_filter id ys)) = Inr es"
    using collect_fold [OF ppv_step_pick, where acc = "[]" and xs = "inner_items tx"]
    by (simp add: each_indexed_def foldR_nested inner_items_def)
  then obtain ys where ys: "mapR (ppv_pick sha m tx s) (inner_items tx) = Inr ys" "es = List.map_filter id ys"
    by (auto simp: bindR_eq_Inr)
  with assms(2) mapR_picked [OF ys(1)] obtain g i x where
    item: "(g, i, x) \<in> set (inner_items tx)" "ppv_pick sha m tx s (g, i, x) = Inr (Some en)"
    by auto
  then obtain p program authority where p: "programOf (accountKeysOf tx) x = Some p"
      "map_get m p = Some (program, authority)" "self_emitted tx p authority x"
    by (auto simp: ppv_pick_def bind_eq_Some_conv split: option.splits if_splits)
  with item(2) obtain data owner e where d: "decodeBase58 (ri_data x) = Inr data"
      "decodeEventForProgram sha program data = Inr (Some (Chain_Event owner e))"
      "en = \<lparr>px_event = e, px_program = owner, px_programId = p,
         px_transactionSignature = s, px_slot = tx_slot tx, px_instructionIndex = ii_index g,
         px_innerInstructionIndex = int i, px_blockTime = tx_blockTime tx\<rparr>"
    by (auto simp: ppv_pick_def bindR_eq_Inr some_chain_event)
  then have owner: "owner = program" "programForEvent (ce_name e) = program"
      "decodePpvEventData sha data = Inr (Some e)"
    by (auto simp: decodeEventForProgram_def bindR_eq_Inr Let_def split: if_splits option.splits)
  from program_entries [OF m p(2)] have "(program, p) \<in> set programs"
      "indexer_deriveEventAuthority sha p = Inr authority" by auto
  with s p(3) item(1) d(1,3) owner show ?thesis by auto
qed

end
