(* ===== verification/Replay.thy ===== *)
theory Replay
  imports Extract Invoice
begin

text \<open>
  The receipt store and the replay of an agreement (\<open>indexer/src/projections.ts\<close>,
  \<open>indexer/src/replay.ts\<close>): signatures are paged newest first, each transaction is read oldest
  first, the events of the agreement become receipts, and the receipts a lifecycle. The chain
  source is a parameter that may answer differently on every request.
\<close>

section \<open>The receipt store\<close>

type_synonym receipt_store = "(string \<times> escrow_receipt) list"

definition store_size :: "receipt_store \<Rightarrow> nat" where "store_size store = length store"

definition store_add :: "receipt_store \<Rightarrow> escrow_receipt \<Rightarrow> (bool \<times> receipt_store) result" where
  "store_add store receipt =
     (case map_get store (rc_receiptId receipt) of
        Some existing \<Rightarrow>
          if rc_action existing \<noteq> rc_action receipt \<or> rc_agreement existing \<noteq> rc_agreement receipt
          then throw PlainError (''receipt '' @ rc_receiptId receipt @ '' replayed with different content'')
          else Inr (False, store)
      | None \<Rightarrow> Inr (True, map_set (rc_receiptId receipt) receipt store))"

definition store_addEvent ::
    "(bytes \<Rightarrow> bytes) \<Rightarrow> receipt_store \<Rightarrow> event_envelope \<Rightarrow> (bool \<times> receipt_store) result" where
  "store_addEvent sha store en = bindR (escrowReceiptFromEvent sha en) (store_add store)"

definition store_addEvents ::
    "(bytes \<Rightarrow> bytes) \<Rightarrow> receipt_store \<Rightarrow> event_envelope list \<Rightarrow> (int \<times> receipt_store) result" where
  "store_addEvents sha store envelopes =
     foldR (\<lambda>(added, store) en. bindR (store_addEvent sha store en) (\<lambda>(new, store).
         Inr (if new then added + 1 else added, store)))
       (0, store) envelopes"

definition store_all :: "receipt_store \<Rightarrow> escrow_receipt list" where "store_all store = map snd store"

definition store_forAgreement :: "receipt_store \<Rightarrow> string \<Rightarrow> escrow_receipt list" where
  "store_forAgreement store agreement = filter (\<lambda>r. rc_agreement r = agreement) (store_all store)"

definition group_step ::
    "(string \<times> escrow_receipt list) list \<Rightarrow> escrow_receipt \<Rightarrow> (string \<times> escrow_receipt list) list" where
  "group_step grouped receipt =
     (case map_get grouped (rc_agreement receipt) of
        Some held \<Rightarrow> map_set (rc_agreement receipt) (held @ [receipt]) grouped
      | None \<Rightarrow> map_set (rc_agreement receipt) [receipt] grouped)"

definition store_project ::
    "(string \<Rightarrow> string \<Rightarrow> int) \<Rightarrow> receipt_store \<Rightarrow> (string \<times> lifecycle) list result" where
  "store_project lc store =
     foldR (\<lambda>projections (agreement, receipts).
         bindR (reconstructAgreementLifecycle lc receipts) (\<lambda>l. Inr (map_set agreement l projections)))
       [] (foldl group_step [] (store_all store))"

definition store_projectAgreement ::
    "(string \<Rightarrow> string \<Rightarrow> int) \<Rightarrow> receipt_store \<Rightarrow> string \<Rightarrow> lifecycle result" where
  "store_projectAgreement lc store agreement = reconstructAgreementLifecycle lc (store_forAgreement store agreement)"

section \<open>The history of an address\<close>

record signature_entry =
  se_signature :: string
  se_slot :: int
  se_failed :: bool

record chain_source =
  cs_signatures :: "nat \<Rightarrow> string \<Rightarrow> string option \<Rightarrow> int \<Rightarrow> signature_entry list result"
  cs_transaction :: "nat \<Rightarrow> string \<Rightarrow> rpc_transaction option result"

record replay_options =
  ro_programId :: string
  ro_until :: "string option"
  ro_pageSize :: "int option"
  ro_maxSignatures :: "int option"

definition DEFAULT_PAGE_SIZE :: int where "DEFAULT_PAGE_SIZE = 100"
definition DEFAULT_MAX_SIGNATURES :: int where "DEFAULT_MAX_SIGNATURES = 10000"

definition default_to :: "'a \<Rightarrow> 'a option \<Rightarrow> 'a" where
  "default_to d v = (case v of None \<Rightarrow> d | Some x \<Rightarrow> x)"

text \<open>One page: \<open>Inl\<close> when \<open>until\<close> was met, with what was collected before it.\<close>

fun take_page ::
    "string option \<Rightarrow> signature_entry list \<Rightarrow> signature_entry list
       \<Rightarrow> signature_entry list + signature_entry list" where
  "take_page until collected [] = Inr collected"
| "take_page until collected (entry # page) =
     (if until \<noteq> None \<and> until \<noteq> Some [] \<and> Some (se_signature entry) = until then Inl collected
      else take_page until (collected @ [entry]) page)"

lemma take_page_length:
  "take_page until collected page = Inr c \<Longrightarrow> c = collected @ page"
  by (induction page arbitrary: collected) (fastforce split: if_splits)+

text \<open>The loop, with the number of requests made so far.\<close>

function history_loop ::
    "chain_source \<Rightarrow> string \<Rightarrow> string option \<Rightarrow> int \<Rightarrow> int \<Rightarrow> nat \<Rightarrow> string option
       \<Rightarrow> signature_entry list \<Rightarrow> signature_entry list result \<times> nat" where
  "history_loop source address until pageSize maxSignatures n before collected =
     (case cs_signatures source n address before pageSize of
        Inl e \<Rightarrow> (Inl e, Suc n)
      | Inr page \<Rightarrow>
          if page = [] then (Inr (rev collected), Suc n)
          else case take_page until collected page of
              Inl c \<Rightarrow> (Inr (rev c), Suc n)
            | Inr c \<Rightarrow>
                if int (length c) \<ge> maxSignatures
                then (throw PlainError (address @ '' has more than '' @ dec_int maxSignatures
                       @ '' signatures; raise maxSignatures''), Suc n)
                else if int (length page) < pageSize then (Inr (rev c), Suc n)
                else let before = se_signature (last page)
                     in if before = [] then (Inr (rev c), Suc n)
                        else history_loop source address until pageSize maxSignatures (Suc n) (Some before) c)"
  by pat_completeness auto
termination
proof (relation "measure (\<lambda>(source, address, until, pageSize, m, n, before, collected). nat (m - int (length collected)))")
  fix source :: chain_source and address until pageSize m n before collected page c x
  assume "page \<noteq> []" "take_page until collected page = Inr c" "\<not> int (length c) \<ge> m"
  then have "length collected < length c" "int (length c) < m"
    by (auto dest: take_page_length)
  then show "((source, address, until, pageSize, m, Suc n, Some x, c),
      source, address, until, pageSize, m, n, before, collected)
    \<in> measure (\<lambda>(source, address, until, pageSize, m, n, before, collected). nat (m - int (length collected)))"
    by simp
qed simp

declare history_loop.simps [simp del]

definition signatureHistory ::
    "chain_source \<Rightarrow> string \<Rightarrow> replay_options \<Rightarrow> signature_entry list result \<times> nat" where
  "signatureHistory source address options =
     history_loop source address (ro_until options) (default_to DEFAULT_PAGE_SIZE (ro_pageSize options))
       (default_to DEFAULT_MAX_SIGNATURES (ro_maxSignatures options)) 0 None []"

section \<open>Replay\<close>

record replay_state =
  rp_store :: receipt_store
  rp_events :: "event_envelope list"
  rp_scanned :: int
  rp_skipped :: int

record replay_result =
  rr_agreement :: string
  rr_lifecycle :: lifecycle
  rr_events :: "event_envelope list"
  rr_transactionsScanned :: int
  rr_failedTransactionsSkipped :: int

definition event_step ::
    "(bytes \<Rightarrow> bytes) \<Rightarrow> string \<Rightarrow> replay_state \<Rightarrow> event_envelope \<Rightarrow> replay_state result" where
  "event_step sha agreement st en =
     (if ev_agreement (en_event en) \<noteq> agreement then Inr st
      else bindR (store_addEvent sha (rp_store st) en) (\<lambda>(new, store).
        Inr (st\<lparr>rp_events := rp_events st @ [en], rp_store := store\<rparr>)))"

definition replay_step ::
    "(bytes \<Rightarrow> bytes) \<Rightarrow> chain_source \<Rightarrow> string \<Rightarrow> string \<Rightarrow> string \<Rightarrow> replay_state
       \<Rightarrow> nat \<times> signature_entry \<Rightarrow> replay_state result" where
  "replay_step sha source programId eventAuthority agreement st item =
     (if se_failed (snd item) then Inr (st\<lparr>rp_skipped := rp_skipped st + 1\<rparr>)
      else bindR (cs_transaction source (fst item) (se_signature (snd item))) (\<lambda>tx.
        case tx of None \<Rightarrow> Inr st
        | Some tx \<Rightarrow>
            bindR (extractEscrowEvents sha tx programId (Some eventAuthority)) (\<lambda>envelopes.
            foldR (event_step sha agreement) (st\<lparr>rp_scanned := rp_scanned st + 1\<rparr>) envelopes)))"

definition replayAgreement ::
    "(bytes \<Rightarrow> bytes) \<Rightarrow> (string \<Rightarrow> string \<Rightarrow> int) \<Rightarrow> chain_source \<Rightarrow> string \<Rightarrow> replay_options
       \<Rightarrow> replay_result result" where
  "replayAgreement sha lc source agreement options =
     bindR (indexer_deriveEventAuthority sha (ro_programId options)) (\<lambda>eventAuthority.
     bindR (fst (signatureHistory source agreement options)) (\<lambda>history.
     bindR (foldR (replay_step sha source (ro_programId options) eventAuthority agreement)
         \<lparr>rp_store = [], rp_events = [], rp_scanned = 0, rp_skipped = 0\<rparr>
         (zip [0 ..< length history] history)) (\<lambda>st.
     if rp_events st = []
     then throw PlainError (''no '' @ ro_programId options @ '' events for '' @ agreement @ '' in ''
       @ dec_int (rp_scanned st) @ '' transactions''
       @ (if rp_skipped st > 0 then '' ('' @ dec_int (rp_skipped st) @ '' failed and skipped)'' else []))
     else bindR (store_projectAgreement lc (rp_store st) agreement) (\<lambda>l.
       Inr \<lparr>rr_agreement = agreement, rr_lifecycle = l, rr_events = rp_events st,
            rr_transactionsScanned = rp_scanned st, rr_failedTransactionsSkipped = rp_skipped st\<rparr>))))"

definition replayAgreementById ::
    "(bytes \<Rightarrow> bytes) \<Rightarrow> (string \<Rightarrow> string \<Rightarrow> int) \<Rightarrow> chain_source \<Rightarrow> string \<Rightarrow> int \<Rightarrow> replay_options
       \<Rightarrow> replay_result result" where
  "replayAgreementById sha lc source creator agreementId options =
     bindR (deriveAgreementAddresses sha (ro_programId options) creator agreementId) (\<lambda>addresses.
       replayAgreement sha lc source (aa_agreement addresses) options)"

section \<open>Paging\<close>

definition stops :: "string option \<Rightarrow> signature_entry \<Rightarrow> bool" where
  "stops until e \<longleftrightarrow> until \<noteq> None \<and> until \<noteq> Some [] \<and> Some (se_signature e) = until"

lemma take_page_takeWhile:
  "take_page until c page =
     (if list_ex (stops until) page then Inl (c @ takeWhile (\<lambda>e. \<not> stops until e) page) else Inr (c @ page))"
  by (induction page arbitrary: c) (simp_all add: stops_def)

lemma history_loop_requests:
  assumes "1 \<le> pageSize" and "int n * pageSize \<le> int (length collected)"
  shows "let r = snd (history_loop source address until pageSize m n before collected)
    in Suc n \<le> r \<and> (r = Suc n \<or> (int r - 1) * pageSize < m)"
  using assms
proof (induction source address until pageSize m n before collected rule: history_loop.induct)
  case (1 source address until pageSize m n before collected)
  let ?r = "snd (history_loop source address until pageSize m n before collected)"
  show ?case
  proof (cases "cs_signatures source n address before pageSize")
    case (Inl e)
    then show ?thesis by (subst history_loop.simps) simp
  next
    case (Inr page)
    show ?thesis
    proof (cases "page \<noteq> [] \<and> \<not> list_ex (stops until) page \<and> int (length (collected @ page)) < m
        \<and> pageSize \<le> int (length page) \<and> se_signature (last page) \<noteq> []")
      case False
      then have "?r = Suc n"
        using Inr by (subst history_loop.simps) (auto simp: take_page_takeWhile Let_def)
      then show ?thesis by simp
    next
      case True
      let ?c = "collected @ page"
      let ?s = "snd (history_loop source address until pageSize m (Suc n) (Some (se_signature (last page))) ?c)"
      have r: "?r = ?s"
        using Inr True by (subst history_loop.simps) (simp add: take_page_takeWhile Let_def)
      have grown: "int (Suc n) * pageSize \<le> int (length ?c)"
        using "1.prems"(2) True by (simp add: algebra_simps)
      have "take_page until collected page = Inr ?c" using True by (simp add: take_page_takeWhile)
      from "1.IH" [OF Inr _ this _ _ refl _ "1.prems"(1) grown] True
      have "Suc (Suc n) \<le> ?s \<and> (?s = Suc (Suc n) \<or> (int ?s - 1) * pageSize < m)"
        by (simp add: Let_def)
      moreover have "int (Suc n) * pageSize < m" using grown True by linarith
      ultimately show ?thesis unfolding r Let_def by auto
    qed
  qed
qed

text \<open>A chain that answers every page from one history, newest first.\<close>

definition after_signature :: "string option \<Rightarrow> signature_entry list \<Rightarrow> signature_entry list" where
  "after_signature before h =
     (case before of None \<Rightarrow> h | Some b \<Rightarrow> tl (dropWhile (\<lambda>e. se_signature e \<noteq> b) h))"

definition pages_of :: "chain_source \<Rightarrow> string \<Rightarrow> signature_entry list \<Rightarrow> bool" where
  "pages_of source address h \<longleftrightarrow>
     (\<forall>n before limit. 1 \<le> limit \<longrightarrow>
        cs_signatures source n address before limit = Inr (take (nat limit) (after_signature before h)))
     \<and> distinct (map se_signature h) \<and> [] \<notin> se_signature ` set h"

lemma after_signature_nth:
  assumes "distinct (map se_signature h)" and "k < length h"
  shows "after_signature (Some (se_signature (h ! k))) h = drop (Suc k) h"
proof -
  let ?b = "se_signature (h ! k)"
  have split: "h = take k h @ h ! k # drop (Suc k) h" using assms(2) by (simp add: id_take_nth_drop)
  have other: "se_signature e \<noteq> ?b" if "e \<in> set (take k h)" for e
  proof -
    from that obtain i where "i < k" "e = h ! i" using assms(2) by (auto simp: in_set_conv_nth)
    with assms show ?thesis by (auto simp: distinct_conv_nth)
  qed
  have "dropWhile (\<lambda>e. se_signature e \<noteq> ?b) (take k h @ h ! k # drop (Suc k) h) = h ! k # drop (Suc k) h"
    using other by (subst dropWhile_append2) auto
  then show ?thesis unfolding after_signature_def split [symmetric] by simp
qed

text \<open>One page of a faithful chain, from position \<open>k\<close> of the history.\<close>

lemma page_at:
  assumes "pages_of source address h" and "1 \<le> pageSize" and "k \<le> length h"
    and "after_signature before h = drop k h"
  defines "page \<equiv> take (nat pageSize) (drop k h)"
  shows "cs_signatures source n address before pageSize = Inr page"
    and "take k h @ page = take (k + length page) h"
    and "page = [] \<longleftrightarrow> k = length h"
    and "int (length page) < pageSize \<Longrightarrow> k + length page = length h"
    and "page \<noteq> [] \<Longrightarrow> se_signature (last page) \<noteq> []
      \<and> after_signature (Some (se_signature (last page))) h = drop (k + length page) h"
proof -
  have len: "length page = min (nat pageSize) (length h - k)" by (simp add: page_def)
  show "cs_signatures source n address before pageSize = Inr page"
    using assms(1,2,4) by (simp add: pages_of_def page_def)
  show "take k h @ page = take (k + length page) h"
    unfolding len by (simp add: page_def take_add [symmetric] min_def assms(3))
  show "page = [] \<longleftrightarrow> k = length h" using assms(2,3) by (auto simp: page_def)
  show "int (length page) < pageSize \<Longrightarrow> k + length page = length h" using assms(3) unfolding len by simp
  assume ne: "page \<noteq> []"
  then have k: "k + length page - 1 < length h" using assms(3) unfolding len by (auto simp: page_def)
  have last: "last page = h ! (k + length page - 1)"
  proof -
    let ?i = "length page - 1"
    have i: "?i < length page" using ne by simp
    then have "page ! ?i = h ! (k + ?i)"
      using assms(3) unfolding len by (simp add: page_def)
    moreover have "k + length page - 1 = k + ?i" using ne by (cases page) auto
    ultimately show ?thesis using ne by (simp add: last_conv_nth)
  qed
  from after_signature_nth [OF _ k] assms(1) ne
  have "after_signature (Some (se_signature (last page))) h = drop (k + length page) h"
    unfolding last by (simp add: pages_of_def)
  moreover have "se_signature (last page) \<noteq> []"
    using assms(1) k unfolding last pages_of_def by (metis image_eqI nth_mem)
  ultimately show "se_signature (last page) \<noteq> []
      \<and> after_signature (Some (se_signature (last page))) h = drop (k + length page) h" by blast
qed

lemma history_loop_complete:
  assumes "pages_of source address h" and "1 \<le> pageSize"
  shows "k \<le> length h \<Longrightarrow> collected = take k h \<Longrightarrow> \<not> list_ex (stops until) collected \<Longrightarrow>
    after_signature before h = drop k h \<Longrightarrow>
    int (length (takeWhile (\<lambda>e. \<not> stops until e) h)) < m \<Longrightarrow>
    fst (history_loop source address until pageSize m n before collected)
      = Inr (rev (takeWhile (\<lambda>e. \<not> stops until e) h))"
  using assms
proof (induction source address until pageSize m n before collected arbitrary: k rule: history_loop.induct)
  case (1 source address until pageSize m n before collected)
  let ?page = "take (nat pageSize) (drop k h)" and ?go = "\<lambda>e. \<not> stops until e"
  note page = page_at [OF "1.prems"(6,7,1,4)]
  have split: "takeWhile ?go h = collected @ takeWhile ?go (drop k h)"
    using "1.prems"(2,3) by (subst append_take_drop_id [of k h, symmetric])
      (auto simp: list_ex_iff simp del: append_take_drop_id intro!: takeWhile_append2)
  show ?case
  proof (cases "?page = []")
    case True
    then have "k = length h" using page(3) by simp
    then have "takeWhile ?go h = collected" using split by simp
    with page(1) True show ?thesis by (subst history_loop.simps) simp
  next
    case ne: False
    show ?thesis
    proof (cases "list_ex (stops until) ?page")
      case True
      then obtain e where "e \<in> set ?page" "stops until e" by (auto simp: list_ex_iff)
      then have "takeWhile ?go (?page @ drop (nat pageSize) (drop k h)) = takeWhile ?go ?page"
        by (intro takeWhile_append1) auto
        then have "takeWhile ?go (drop k h) = takeWhile ?go ?page" by (simp only: append_take_drop_id)
      with True ne page(1) show ?thesis
        unfolding split by (subst history_loop.simps) (simp add: take_page_takeWhile)
    next
      case False
      let ?c = "take (k + length ?page) h"
      have c: "take_page until collected ?page = Inr ?c"
        using False page(2) "1.prems"(2) by (simp add: take_page_takeWhile)
      have clean: "\<not> list_ex (stops until) ?c"
        using False "1.prems"(2,3) unfolding page(2) [symmetric] by simp
      have "takeWhile ?go h = ?c @ takeWhile ?go (drop (k + length ?page) h)"
        using clean by (subst append_take_drop_id [of "k + length ?page" h, symmetric])
          (auto simp: list_ex_iff simp del: append_take_drop_id intro!: takeWhile_append2)
      note w = this
      then have small: "\<not> m \<le> int (length ?c)" using "1.prems"(5) by simp
      show ?thesis
      proof (cases "int (length ?page) < pageSize")
        case True
        with page(4) have "takeWhile ?go h = ?c" using w by simp
        moreover have "fst (history_loop source address until pageSize m n before collected) = Inr (rev ?c)"
          using True ne page(1) c small
          by (subst history_loop.simps) (simp del: length_take take_eq_Nil take_eq_Nil2)
        ultimately show ?thesis by simp
      next
        case full: False
        have next_k: "k + length ?page \<le> length h" using "1.prems"(1) by simp
        have "fst (history_loop source address until pageSize m (Suc n) (Some (se_signature (last ?page))) ?c)
            = Inr (rev (takeWhile ?go h))"
          by (rule "1.IH" [OF page(1) ne c _ full refl _ next_k refl clean _ "1.prems"(5,6,7)])
            (use small page(5) [OF ne] in auto)
        with ne page(1) c small full page(5) [OF ne] show ?thesis
          by (subst history_loop.simps) (simp add: Let_def)
      qed
    qed
  qed
qed

lemma history_loop_limit:
  assumes "pages_of source address h" and "1 \<le> pageSize"
  shows "k < length h \<Longrightarrow> collected = take k h \<Longrightarrow> \<not> list_ex (stops until) h \<Longrightarrow>
    after_signature before h = drop k h \<Longrightarrow> m \<le> int (length h) \<Longrightarrow>
    \<exists>msg. fst (history_loop source address until pageSize m n before collected) = throw PlainError msg"
  using assms
proof (induction source address until pageSize m n before collected arbitrary: k rule: history_loop.induct)
  case (1 source address until pageSize m n before collected)
  let ?page = "take (nat pageSize) (drop k h)"
  have k: "k \<le> length h" using "1.prems"(1) by simp
  note page = page_at [OF "1.prems"(6,7) k "1.prems"(4)]
  have ne: "?page \<noteq> []" using page(3) "1.prems"(1) by simp
  let ?c = "take (k + length ?page) h"
  have "\<not> list_ex (stops until) ?page"
    using "1.prems"(3) by (auto simp: list_ex_iff dest: in_set_takeD in_set_dropD)
  then have c: "take_page until collected ?page = Inr ?c"
    using page(2) "1.prems"(2) by (simp add: take_page_takeWhile)
  show ?case
  proof (cases "m \<le> int (length ?c)")
    case True
    with ne page(1) c show ?thesis by (subst history_loop.simps) simp
  next
    case small: False
    then have next_k: "k + length ?page < length h" using "1.prems"(5) by (simp add: min_def split: if_splits)
    then have full: "\<not> int (length ?page) < pageSize" using page(4) by auto
    have "\<exists>msg. fst (history_loop source address until pageSize m (Suc n) (Some (se_signature (last ?page))) ?c)
        = throw PlainError msg"
      by (rule "1.IH" [OF page(1) ne c small full refl _ next_k refl "1.prems"(3) _ "1.prems"(5,6,7)])
        (use page(5) [OF ne] in auto)
    with ne page(1) c small full page(5) [OF ne] show ?thesis
      by (subst history_loop.simps) (simp add: Let_def)
  qed
qed

section \<open>The store as a set of receipts\<close>

lemma store_add_Inr:
  assumes "store_add s r = Inr (new, s')" and "keyed s"
  shows "keyed s' \<and> (new \<longleftrightarrow> rc_receiptId r \<notin> rc_receiptId ` set (store_all s))
    \<and> set (store_all s') = (if new then insert r (set (store_all s)) else set (store_all s))
    \<and> length s' = length s + (if new then 1 else 0)"
proof (cases "map_get s (rc_receiptId r)")
  case None
  have "rc_receiptId r \<notin> rc_receiptId ` set (store_all s)"
  proof
    assume "rc_receiptId r \<in> rc_receiptId ` set (store_all s)"
    then obtain q where "q \<in> set (map snd s)" "rc_receiptId r = rc_receiptId q" by (auto simp: store_all_def)
    with map_of_keyed [OF assms(2), of "rc_receiptId r" q] None show False by simp
  qed
  moreover from None assms have "new" "s' = s @ [(rc_receiptId r, r)]"
    by (auto simp: store_add_def map_set_new)
  ultimately show ?thesis using keyed_set [OF assms(2), of r] map_set_new [OF None, of r]
    by (simp add: store_all_def)
next
  case (Some q)
  with map_of_keyed [OF assms(2), of "rc_receiptId r" q] assms show ?thesis
    by (auto simp: store_add_def store_all_def split: if_splits)
qed

text \<open>
  Under one receipt per id, the store holds exactly the receipts delivered, whatever the order
  and the repetitions, and no delivery is refused.
\<close>

lemma store_fold:
  assumes "inj_on rc_receiptId (set (store_all s) \<union> set rs)" and "keyed s"
    and "list_all2 (\<lambda>en r. escrowReceiptFromEvent sha en = Inr r) ens rs"
  shows "\<exists>m t. foldR (\<lambda>(added, store) en. bindR (store_addEvent sha store en) (\<lambda>(new, store).
           Inr (if new then added + 1 else added, store))) (n, s) ens = Inr (m, t)
      \<and> keyed t \<and> set (store_all t) = set (store_all s) \<union> set rs
      \<and> m - n = int (length t) - int (length s)"
  using assms(3,1,2)
proof (induction ens rs arbitrary: n s rule: list_all2_induct)
  case (Cons en ens r rs)
  have step: "\<exists>new s'. store_add s r = Inr (new, s')"
  proof (cases "map_get s (rc_receiptId r)")
    case (Some q)
    then have "q \<in> set (store_all s)" "rc_receiptId q = rc_receiptId r"
      using map_of_keyed [OF Cons.prems(2), of "rc_receiptId r" q] by (auto simp: store_all_def)
    then have "q = r" using inj_onD [OF Cons.prems(1), of q r] by simp
    with Some show ?thesis by (auto simp: store_add_def)
  qed (auto simp: store_add_def)
  then obtain new s' where s': "store_add s r = Inr (new, s')" by blast
  note f = store_add_Inr [OF s' Cons.prems(2)]
  have "set (store_all s') = insert r (set (store_all s))"
  proof (cases new)
    case False
    with f obtain q where "q \<in> set (store_all s)" "rc_receiptId q = rc_receiptId r" by auto
    with Cons.prems(1) have "r \<in> set (store_all s)" by (metis Un_iff inj_onD list.set_intros(1))
    with f False show ?thesis by auto
  qed (use f in simp)
  note all = this
  have "inj_on rc_receiptId (set (store_all s') \<union> set rs)"
    using Cons.prems(1) all by (simp add: insert_commute Un_commute)
  from Cons.IH [OF this, of "if new then n + 1 else n"] f obtain m t where
    "foldR (\<lambda>(added, store) en. bindR (store_addEvent sha store en) (\<lambda>(new, store).
        Inr (if new then added + 1 else added, store))) (if new then n + 1 else n, s') ens = Inr (m, t)"
    "keyed t" "set (store_all t) = set (store_all s') \<union> set rs"
    "m - (if new then n + 1 else n) = int (length t) - int (length s')"
    by blast
  with s' f all Cons.hyps(1) show ?case
    by (intro exI [of _ m] exI [of _ t]) (auto simp: store_addEvent_def split: if_splits)
qed auto

lemma addEvents_set:
  assumes "\<And>en. en \<in> set ens \<Longrightarrow> escrowReceiptFromEvent sha en = Inr (rc en)"
    and "inj_on rc_receiptId (rc ` set ens)"
  shows "\<exists>t. store_addEvents sha [] ens = Inr (int (card (rc ` set ens)), t)
    \<and> keyed t \<and> set (store_all t) = rc ` set ens"
proof -
  have "list_all2 (\<lambda>en r. escrowReceiptFromEvent sha en = Inr r) ens (map rc ens)"
    using assms(1) by (simp add: list_all2_map2 list_all2_same)
  from store_fold [OF _ keyed_Nil this, of 0] assms(2) obtain m t where
    t: "store_addEvents sha [] ens = Inr (m, t)" "keyed t" "set (store_all t) = rc ` set ens"
      "m = int (length t)"
    by (auto simp: store_addEvents_def store_all_def)
  have "distinct (store_all t)"
    using keyed_distinct t(2) distinct_map unfolding store_all_def by blast
  then have "length t = card (rc ` set ens)"
    using distinct_card [of "store_all t"] t(3) by (simp add: store_all_def)
  with t show ?thesis by auto
qed


text \<open>
  C11: Reading a history ends and is complete. From a chain that pages one history faithfully, at
  most one request more than the limit needs is made; when what lies before the \<open>until\<close>
  signature is shorter than the limit, exactly that is returned, oldest first; and a history
  that reaches the limit without meeting \<open>until\<close> is refused.
\<close>

theorem signatureHistory_whole:
  assumes "pages_of source address h" and "1 \<le> default_to DEFAULT_PAGE_SIZE (ro_pageSize options)"
  shows "let (answer, requests) = signatureHistory source address options;
       pageSize = default_to DEFAULT_PAGE_SIZE (ro_pageSize options);
       limit = default_to DEFAULT_MAX_SIGNATURES (ro_maxSignatures options);
       recent = takeWhile (\<lambda>e. \<not> stops (ro_until options) e) h
     in 1 \<le> requests \<and> (requests = 1 \<or> (int requests - 1) * pageSize < limit)
        \<and> (int (length recent) < limit \<longrightarrow> answer = Inr (rev recent))
        \<and> (recent = h \<and> h \<noteq> [] \<and> limit \<le> int (length h) \<longrightarrow> (\<exists>m. answer = throw PlainError m))"
proof -
  let ?m = "default_to DEFAULT_MAX_SIGNATURES (ro_maxSignatures options)"
  let ?p = "default_to DEFAULT_PAGE_SIZE (ro_pageSize options)"
  let ?loop = "history_loop source address (ro_until options) ?p ?m 0 None []"
  have requests: "1 \<le> snd ?loop \<and> (snd ?loop = 1 \<or> (int (snd ?loop) - 1) * ?p < ?m)"
    using history_loop_requests [OF assms(2), where n = 0 and collected = "[]"] by (simp add: Let_def)
  note whole = history_loop_complete [OF assms, of 0 "[]" "ro_until options" None ?m 0]
  have "\<exists>m. fst ?loop = throw PlainError m"
    if "takeWhile (\<lambda>e. \<not> stops (ro_until options) e) h = h" "h \<noteq> []" "?m \<le> int (length h)"
  proof -
    have "\<not> list_ex (stops (ro_until options)) h"
      using that(1) by (auto simp: takeWhile_eq_all_conv list_ex_iff)
    with history_loop_limit [OF assms, of 0 "[]" "ro_until options" None ?m 0] that(2,3)
    show ?thesis by (simp add: after_signature_def)
  qed
  with requests whole show ?thesis
    unfolding signatureHistory_def by (cases ?loop) (auto simp: after_signature_def)
qed

section \<open>What a replay is made of\<close>

definition grounded :: "(bytes \<Rightarrow> bytes) \<Rightarrow> replay_state \<Rightarrow> bool" where
  "grounded sha st \<longleftrightarrow> keyed (rp_store st) \<and>
     (\<forall>r \<in> set (store_all (rp_store st)). \<exists>en \<in> set (rp_events st). escrowReceiptFromEvent sha en = Inr r)"

lemma event_step_Inr:
  assumes "event_step sha a st en = Inr st'" and "grounded sha st"
  shows "grounded sha st' \<and> set (rp_events st') = set (rp_events st) \<union> {x. x = en \<and> ev_agreement (en_event x) = a}"
proof (cases "ev_agreement (en_event en) = a")
  case True
  with assms(1) obtain r new s where r: "escrowReceiptFromEvent sha en = Inr r"
    "store_add (rp_store st) r = Inr (new, s)"
    "st' = st\<lparr>rp_events := rp_events st @ [en], rp_store := s\<rparr>"
    by (auto simp: event_step_def store_addEvent_def bindR_eq_Inr)
  from assms(2) have "keyed (rp_store st)" by (simp add: grounded_def)
  from store_add_Inr [OF r(2) this] r assms(2) True show ?thesis
    by (auto simp: grounded_def split: if_splits)
next
  case False
  with assms show ?thesis by (auto simp: event_step_def)
qed

lemma event_fold:
  "foldR (event_step sha a) st ens = Inr st' \<Longrightarrow> grounded sha st \<Longrightarrow>
     grounded sha st' \<and> set (rp_events st') = set (rp_events st) \<union> {en \<in> set ens. ev_agreement (en_event en) = a}"
proof (induction ens arbitrary: st)
  case (Cons en ens)
  then obtain s where s: "event_step sha a st en = Inr s" "foldR (event_step sha a) s ens = Inr st'"
    by (auto simp: bindR_eq_Inr)
  from event_step_Inr [OF s(1) Cons.prems(2)] Cons.IH [OF s(2)] show ?case by auto
qed simp

text \<open>An event of the agreement that the program emitted in the transaction read for an entry.\<close>

definition emitted_by ::
    "(bytes \<Rightarrow> bytes) \<Rightarrow> chain_source \<Rightarrow> string \<Rightarrow> string \<Rightarrow> string \<Rightarrow> nat \<times> signature_entry
       \<Rightarrow> event_envelope \<Rightarrow> bool" where
  "emitted_by sha source programId ea agreement item en \<longleftrightarrow>
     \<not> se_failed (snd item) \<and> ev_agreement (en_event en) = agreement \<and>
     (\<exists>tx s g i x e. cs_transaction source (fst item) (se_signature (snd item)) = Inr (Some tx)
        \<and> \<not> tx_failed tx \<and> tx_signature tx = Some s \<and> (g, i, x) \<in> set (inner_items tx)
        \<and> self_emitted tx programId ea x \<and> escrow_data sha x = Inr (Some e)
        \<and> en = escrow_envelope tx programId s (ii_index g) i e)"

lemma replay_step_Inr:
  assumes "replay_step sha source programId ea a st item = Inr st'" and "grounded sha st"
  shows "grounded sha st'
    \<and> set (rp_events st') = set (rp_events st) \<union> Collect (emitted_by sha source programId ea a item)"
proof (cases "se_failed (snd item)")
  case True
  with assms show ?thesis by (auto simp: replay_step_def grounded_def emitted_by_def)
next
  case False
  with assms(1) obtain t where t: "cs_transaction source (fst item) (se_signature (snd item)) = Inr t"
    by (auto simp: replay_step_def bindR_eq_Inr)
  show ?thesis
  proof (cases t)
    case None
    with False t assms show ?thesis by (auto simp: replay_step_def emitted_by_def)
  next
    case (Some tx)
    with False t assms(1) obtain es where es: "extractEscrowEvents sha tx programId (Some ea) = Inr es"
      "foldR (event_step sha a) (st\<lparr>rp_scanned := rp_scanned st + 1\<rparr>) es = Inr st'"
      by (auto simp: replay_step_def bindR_eq_Inr)
    have "grounded sha (st\<lparr>rp_scanned := rp_scanned st + 1\<rparr>)" using assms(2) by (simp add: grounded_def)
    note f = event_fold [OF es(2) this]
    have own: "en \<in> set es \<longleftrightarrow> (\<exists>s g i x e. \<not> tx_failed tx \<and> tx_signature tx = Some s
       \<and> (g, i, x) \<in> set (inner_items tx) \<and> self_emitted tx programId ea x
       \<and> escrow_data sha x = Inr (Some e) \<and> en = escrow_envelope tx programId s (ii_index g) i e)" for en
      using extract_escrow_iff [where sha = sha and tx = tx and programId = programId and ea = ea]
      unfolding es(1) sum.case by blast
    have "{en \<in> set es. ev_agreement (en_event en) = a} = Collect (emitted_by sha source programId ea a item)"
      unfolding emitted_by_def own t Some sum.inject option.inject using False by blast
    with f show ?thesis by simp
  qed
qed

lemma replay_fold:
  "foldR (replay_step sha source programId ea a) st items = Inr st' \<Longrightarrow> grounded sha st \<Longrightarrow>
     grounded sha st' \<and> set (rp_events st') = set (rp_events st)
       \<union> {en. \<exists>item \<in> set items. emitted_by sha source programId ea a item en}"
proof (induction items arbitrary: st)
  case (Cons item items)
  then obtain s where s: "replay_step sha source programId ea a st item = Inr s"
    "foldR (replay_step sha source programId ea a) s items = Inr st'"
    by (auto simp: bindR_eq_Inr)
  from replay_step_Inr [OF s(1) Cons.prems(2)] Cons.IH [OF s(2)] show ?case by auto
qed simp

text \<open>
  C10: A replayed lifecycle comes from the chain and from nothing else. The events a replay
  reports are exactly those of the agreement that the program itself emitted in the
  transactions of the address's history that did not fail; and every receipt of the lifecycle
  is the receipt of one of them.
\<close>

theorem replayAgreement_grounded:
  assumes "replayAgreement sha lc source agreement options = Inr r"
  shows "\<exists>ea history. indexer_deriveEventAuthority sha (ro_programId options) = Inr ea
     \<and> fst (signatureHistory source agreement options) = Inr history
     \<and> (\<forall>en. en \<in> set (rr_events r) \<longleftrightarrow> (\<exists>n < length history.
           emitted_by sha source (ro_programId options) ea agreement (n, history ! n) en))
     \<and> (\<forall>c \<in> set (lc_receipts (rr_lifecycle r)). rc_agreement c = agreement
           \<and> (\<exists>en \<in> set (rr_events r). escrowReceiptFromEvent sha en = Inr c))"
proof -
  let ?start = "\<lparr>rp_store = [], rp_events = [], rp_scanned = 0, rp_skipped = 0\<rparr>"
  obtain ea history st l where
    ea: "indexer_deriveEventAuthority sha (ro_programId options) = Inr ea"
    and h: "fst (signatureHistory source agreement options) = Inr history"
    and st: "foldR (replay_step sha source (ro_programId options) ea agreement) ?start
        (zip [0 ..< length history] history) = Inr st"
    and l: "store_projectAgreement lc (rp_store st) agreement = Inr l"
    and r: "rr_events r = rp_events st" "rr_lifecycle r = l"
    using assms by (auto simp: replayAgreement_def bindR_eq_Inr split: if_splits)
  have "grounded sha ?start" by (simp add: grounded_def store_all_def keyed_Nil)
  note f = replay_fold [OF st this]
  have items: "item \<in> set (zip [0 ..< length history] history)
      \<longleftrightarrow> (\<exists>n < length history. item = (n, history ! n))" for item
    by (cases item) (auto simp: in_set_zip intro!: exI [of _ "fst item"])
  have "set (lc_receipts l) \<subseteq> set (store_forAgreement (rp_store st) agreement)"
    by (rule report_moves [OF l [unfolded store_projectAgreement_def]])
  with f have "\<forall>c \<in> set (lc_receipts l). rc_agreement c = agreement
      \<and> (\<exists>en \<in> set (rp_events st). escrowReceiptFromEvent sha en = Inr c)"
    unfolding grounded_def store_forAgreement_def by auto
  with ea h f show ?thesis unfolding r by (auto simp: items)
qed

end
