(* ===== verification/Replay_Examples.thy ===== *)
theory Replay_Examples
  imports Replay Normalize
begin

text \<open>
  Concrete histories: a chain that pages three signatures, two deliveries of one event, and a
  replay of an agreement that was opened in a single transaction.
\<close>

definition paged_source ::
    "signature_entry list \<Rightarrow> (string \<Rightarrow> rpc_transaction option result) \<Rightarrow> chain_source" where
  "paged_source h transaction =
     \<lparr>cs_signatures = \<lambda>_ _ before limit. Inr (take (nat limit) (after_signature before h)),
      cs_transaction = \<lambda>_. transaction\<rparr>"

definition sample_entry :: "string \<Rightarrow> bool \<Rightarrow> signature_entry" where
  "sample_entry signature failed = \<lparr>se_signature = signature, se_slot = 1, se_failed = failed\<rparr>"

definition three_entries :: "signature_entry list" where
  "three_entries = [sample_entry ''c'' False, sample_entry ''b'' True, sample_entry ''a'' False]"

definition two_per_page :: "int \<Rightarrow> replay_options" where
  "two_per_page limit =
     \<lparr>ro_programId = zero_key, ro_until = None, ro_pageSize = Some 2, ro_maxSignatures = Some limit\<rparr>"

lemma three_paged: "pages_of (paged_source three_entries t) a three_entries"
  by (simp add: pages_of_def paged_source_def three_entries_def sample_entry_def)

theorem signatureHistory_whole_witness:
  "\<forall>t a. fst (signatureHistory (paged_source three_entries t) a (two_per_page 4)) = Inr (rev three_entries)
   \<and> (\<exists>m. fst (signatureHistory (paged_source three_entries t) a (two_per_page 3)) = throw PlainError m)"
proof (intro allI)
  fix t a
  have all: "takeWhile (\<lambda>e. \<not> stops None e) three_entries = three_entries"
    by (simp add: stops_def)
  show "fst (signatureHistory (paged_source three_entries t) a (two_per_page 4)) = Inr (rev three_entries)
   \<and> (\<exists>m. fst (signatureHistory (paged_source three_entries t) a (two_per_page 3)) = throw PlainError m)"
    using signatureHistory_whole [OF three_paged, of "two_per_page 4"]
      signatureHistory_whole [OF three_paged, of "two_per_page 3"]
    by (simp add: two_per_page_def default_to_def split_def Let_def all)
      (simp add: three_entries_def)
qed

section \<open>Two deliveries\<close>

lemma sample_receipt_exists: "\<exists>r. escrowReceiptFromEvent zero_sha sample_escrow = Inr r"
proof -
  have "\<not> isl (escrowReceiptFromEvent zero_sha sample_escrow)" by code_simp
  then show ?thesis by (cases "escrowReceiptFromEvent zero_sha sample_escrow") simp_all
qed


section \<open>One replayed agreement\<close>

abbreviation flat_sha :: "bytes \<Rightarrow> bytes" where "flat_sha \<equiv> \<lambda>_. y_one 128"

definition opened :: escrow_event where
  "opened = AgreementOpened zero_key 7 zero_key zero_key MilestoneContract zero_key zero_key 50
     (replicate 64 CHR ''0'') Open 1700000000"

definition opened_data :: bytes where
  "opened_data = EVENT_IX_TAG @ take 8 (y_one 128) @ enc_escrow_event opened"

definition opened_instruction :: rpc_instruction where
  "opened_instruction = \<lparr>ri_programIdIndex = 0, ri_accounts = [1], ri_data = encodeBase58 opened_data\<rparr>"

definition opened_group :: inner_instructions where
  "opened_group = \<lparr>ii_index = Whole 0, ii_instructions = [opened_instruction]\<rparr>"

definition opened_tx :: rpc_transaction where
  "opened_tx =
     \<lparr>tx_slot = Whole 9, tx_blockTime = None, tx_signatures = [''a''],
      tx_accountKeys = [zero_key, encodeBase58 (y_one 128)], tx_instructions = [],
      tx_meta = Some \<lparr>tm_failed = False,
        tm_innerInstructions = Some [opened_group], tm_loadedAddresses = None\<rparr>\<rparr>"

definition opened_source :: chain_source where
  "opened_source = paged_source [sample_entry ''a'' False] (\<lambda>_. Inr (Some opened_tx))"

lemma opened_decodes: "decodeEscrowEventData flat_sha opened_data = Inr (Some opened)"
proof -
  have "wf_escrow_event opened"
    by (simp add: opened_def zero_key_pubkey uint_in_def sample_hex safe_int_def max_safe_integer_def)
  moreover have "escrow_event_match flat_sha (take 8 (y_one 128)) = Some (ev_name opened)"
    by (simp add: escrow_event_match_def ESCROW_DISCRIMINATORS_def PPV_ESCROW_EVENT_NAMES_def
        anchorDiscriminator_def opened_def)
  ultimately show ?thesis
    unfolding decodeEscrowEventData_Some by (simp add: opened_data_def EVENT_IX_TAG_def y_one_def)
qed

definition opened_envelope :: event_envelope where
  "opened_envelope = escrow_envelope opened_tx zero_key ''a'' (Whole 0) 0 opened"

lemma opened_extract:
  "extractEscrowEvents flat_sha opened_tx zero_key (Some (encodeBase58 (y_one 128))) = Inr [opened_envelope]"
proof -
  let ?ea = "encodeBase58 (y_one 128)"
  have s: "\<not> tx_failed opened_tx" "tx_signature opened_tx = Some ''a''"
    by (simp_all add: tx_failed_def tx_signature_def opened_tx_def)
  have items: "inner_items opened_tx = [(opened_group, 0, opened_instruction)]"
    by (simp add: inner_items_def inner_groups_def opened_tx_def) (simp add: opened_group_def)
  have self: "self_emitted opened_tx zero_key ?ea opened_instruction"
    by (simp add: self_emitted_def programOf_def first_account_def key_at_def accountKeysOf_def opened_tx_def
        opened_instruction_def)
  have data: "escrow_data flat_sha opened_instruction = Inr (Some opened)"
    by (simp add: escrow_data_def opened_instruction_def decode_encode_base58 opened_decodes)
  show ?thesis
    unfolding extractEscrowEvents_picks [OF s] items
    by (simp add: escrow_pick_def self data opened_envelope_def opened_group_def)
qed

lemma opened_envelope_eq:
  "opened_envelope = \<lparr>en_event = opened, en_programId = zero_key, en_transactionSignature = ''a'',
     en_slot = Whole 9, en_instructionIndex = Whole 0, en_innerInstructionIndex = Some 0,
     en_blockTime = None\<rparr>"
  by (simp add: opened_envelope_def escrow_envelope_def) (simp add: opened_tx_def)

lemma opened_rebuilds:
  "case escrowReceiptFromEvent flat_sha opened_envelope of
     Inr c \<Rightarrow> (case reconstructAgreementLifecycle str_cmp [c] of
         Inr l \<Rightarrow> lc_state l = Open \<and> lc_receipts l = [c] | Inl _ \<Rightarrow> False)
   | Inl _ \<Rightarrow> False"
  unfolding opened_envelope_eq by code_simp

definition opened_options :: replay_options where
  "opened_options = \<lparr>ro_programId = zero_key, ro_until = None, ro_pageSize = None, ro_maxSignatures = None\<rparr>"

lemma opened_authority: "indexer_deriveEventAuthority flat_sha zero_key = Inr (encodeBase58 (y_one 128))"
proof -
  have "findProgramAddress flat_sha [utf8 ''__event_authority''] zero_key = Inr (encodeBase58 (y_one 128), 255)"
    unfolding zero_key_def
    by (rule find_off_curve [OF _ addressBytes_system])
      (simp add: seeds_ok_def MAX_SEEDS_def MAX_SEED_LENGTH_def)
  then show ?thesis by (simp add: indexer_deriveEventAuthority_def)
qed

lemma opened_history:
  "fst (signatureHistory opened_source zero_key opened_options) = Inr [sample_entry ''a'' False]"
  unfolding signatureHistory_def opened_options_def opened_source_def paged_source_def
  by (subst history_loop.simps)
    (simp add: default_to_def DEFAULT_PAGE_SIZE_def DEFAULT_MAX_SIGNATURES_def after_signature_def
      sample_entry_def)

lemma opened_replays:
  "\<exists>r. replayAgreement flat_sha str_cmp opened_source zero_key opened_options = Inr r
     \<and> lc_state (rr_lifecycle r) = Open \<and> rr_events r = [opened_envelope]"
proof -
  obtain c l where c: "escrowReceiptFromEvent flat_sha opened_envelope = Inr c"
    and l: "reconstructAgreementLifecycle str_cmp [c] = Inr l" "lc_state l = Open" "lc_receipts l = [c]"
    using opened_rebuilds by (auto split: sum.splits)
  have agreement: "ev_agreement (en_event opened_envelope) = zero_key"
    by (simp add: opened_envelope_eq opened_def)
  have own: "rc_agreement c = zero_key"
    using c unfolding opened_envelope_eq
    by (auto simp: escrowReceiptFromEvent_def buildReceipt_def bindR_eq_Inr receipt_fields_def
        receipt_of_def opened_def Let_def receipt_body.defs split: if_splits)
  have tx: "cs_transaction opened_source 0 s = Inr (Some opened_tx)" for s
    by (simp add: opened_source_def paged_source_def)
  have event: "event_step flat_sha zero_key \<lparr>rp_store = [], rp_events = [], rp_scanned = 1, rp_skipped = 0\<rparr>
      opened_envelope
    = Inr \<lparr>rp_store = [(rc_receiptId c, c)], rp_events = [opened_envelope], rp_scanned = 1, rp_skipped = 0\<rparr>"
    by (simp add: event_step_def agreement store_addEvent_def c store_add_def map_set_new)
  have step: "replay_step flat_sha opened_source zero_key (encodeBase58 (y_one 128)) zero_key
      \<lparr>rp_store = [], rp_events = [], rp_scanned = 0, rp_skipped = 0\<rparr> (0, sample_entry ''a'' False)
    = Inr \<lparr>rp_store = [(rc_receiptId c, c)], rp_events = [opened_envelope], rp_scanned = 1, rp_skipped = 0\<rparr>"
    by (simp add: replay_step_def sample_entry_def tx opened_extract event)
  show ?thesis
    unfolding replayAgreement_def opened_history bindR_Inr
    by (simp add: opened_options_def opened_authority step store_projectAgreement_def
        store_forAgreement_def store_all_def own l)
qed

theorem replayAgreement_grounded_witness:
  "\<exists>r. replayAgreement flat_sha str_cmp opened_source zero_key opened_options = Inr r
     \<and> lc_state (rr_lifecycle r) = Open
     \<and> (\<exists>ea history n. n < length history \<and> emitted_by flat_sha opened_source zero_key ea zero_key
          (n, history ! n) opened_envelope)"
proof -
  obtain r where r: "replayAgreement flat_sha str_cmp opened_source zero_key opened_options = Inr r"
    "lc_state (rr_lifecycle r) = Open" "rr_events r = [opened_envelope]"
    using opened_replays by blast
  from replayAgreement_grounded [OF r(1)] obtain ea history where
    "\<forall>en. en \<in> set (rr_events r) \<longleftrightarrow> (\<exists>n < length history.
       emitted_by flat_sha opened_source (ro_programId opened_options) ea zero_key (n, history ! n) en)"
    by blast
  from spec [OF this, of opened_envelope]
  have "\<exists>n < length history. emitted_by flat_sha opened_source zero_key ea zero_key
      (n, history ! n) opened_envelope"
    by (simp add: r(3) opened_options_def)
  with r show ?thesis by blast
qed

end
