(* ===== verification/Js_Text.thy ===== *)
theory Js_Text
  imports Canonical
begin

text \<open>
  What the scripts use of JavaScript's strings and of JSON: \<open>includes\<close>, \<open>split\<close> and
  \<open>join\<close>, the two kinds of pattern they test for, and the values a JSON response holds.
\<close>

section \<open>Searching and splitting\<close>

definition starts_with :: "string \<Rightarrow> string \<Rightarrow> bool" where
  "starts_with pat s \<longleftrightarrow> take (length pat) s = pat"

text \<open>\<open>s.includes(pat)\<close>.\<close>

fun occurs :: "string \<Rightarrow> string \<Rightarrow> bool" where
  "occurs pat [] \<longleftrightarrow> pat = []"
| "occurs pat (c # s) \<longleftrightarrow> starts_with pat (c # s) \<or> occurs pat s"

text \<open>\<open>s.split(sep)\<close> for a separator that is not empty.\<close>

function split_on :: "string \<Rightarrow> string \<Rightarrow> string \<Rightarrow> string list" where
  "split_on sep piece s =
     (if s = [] then [piece]
      else if sep \<noteq> [] \<and> starts_with sep s then piece # split_on sep [] (drop (length sep) s)
      else split_on sep (piece @ [hd s]) (tl s))"
  by pat_completeness auto
termination
  by (relation "measure (\<lambda>(sep, piece, s). length s)") auto

declare split_on.simps [simp del]

fun join_with :: "string \<Rightarrow> string list \<Rightarrow> string" where
  "join_with sep [] = []"
| "join_with sep [x] = x"
| "join_with sep (x # y # xs) = x @ sep @ join_with sep (y # xs)"

text \<open>\<open>/pat/i.test(s)\<close> for a literal of ASCII characters.\<close>

definition lower :: "char \<Rightarrow> char" where
  "lower c = (let n = of_char c :: nat in if 65 \<le> n \<and> n \<le> 90 then char_of (n + 32) else c)"

definition occurs_ci :: "string \<Rightarrow> string \<Rightarrow> bool" where
  "occurs_ci pat s = occurs (map lower pat) (map lower s)"

text \<open>\<open>/\bpat\b/.test(s)\<close>, where the pattern starts and ends with a word character.\<close>

definition word_char :: "char \<Rightarrow> bool" where
  "word_char c \<longleftrightarrow> (let n = of_char c :: nat in
     (48 \<le> n \<and> n \<le> 57) \<or> (65 \<le> n \<and> n \<le> 90) \<or> (97 \<le> n \<and> n \<le> 122) \<or> n = 95)"

fun occurs_word :: "bool \<Rightarrow> string \<Rightarrow> string \<Rightarrow> bool" where
  "occurs_word after_word pat [] = False"
| "occurs_word after_word pat (c # s) =
     ((\<not> after_word \<and> starts_with pat (c # s)
        \<and> (case drop (length pat) (c # s) of [] \<Rightarrow> True | d # _ \<Rightarrow> \<not> word_char d))
      \<or> occurs_word (word_char c) pat s)"

section \<open>JSON values\<close>

datatype json =
    J_null
  | J_bool bool
  | J_number js_number
  | J_string string
  | J_array "json list"
  | J_object "(string \<times> json) list"

fun truthy_json :: "json \<Rightarrow> bool" where
  "truthy_json J_null = False"
| "truthy_json (J_bool b) = b"
| "truthy_json (J_number n) = (n \<noteq> Whole 0 \<and> n \<noteq> Not_a_Number)"
| "truthy_json (J_string s) = (s \<noteq> [])"
| "truthy_json _ = True"

text \<open>\<open>JSON.stringify\<close>; how a number that is not an integer is written is a parameter.\<close>

fun stringify :: "(js_number \<Rightarrow> string) \<Rightarrow> json \<Rightarrow> string" where
  "stringify num J_null = ''null''"
| "stringify num (J_bool b) = (if b then ''true'' else ''false'')"
| "stringify num (J_number (Whole n)) = dec_int n"
| "stringify num (J_number n) = num n"
| "stringify num (J_string s) = json_string s"
| "stringify num (J_array xs) = ''['' @ join_with '','' (map (stringify num) xs) @ '']''"
| "stringify num (J_object members) =
     ''{'' @ join_with '','' (map (\<lambda>(k, v). json_string k @ '':'' @ stringify num v) members) @ ''}''"

section \<open>Lemmas\<close>

lemma starts_with_iff: "starts_with pat s \<longleftrightarrow> (\<exists>t. s = pat @ t)"
  unfolding starts_with_def by (metis append_eq_conv_conj)

lemma occurs_iff: "occurs pat s \<longleftrightarrow> (\<exists>a b. s = a @ pat @ b)"
proof (induction s)
  case (Cons c s)
  have "(\<exists>a b. c # s = a @ pat @ b) \<longleftrightarrow> (\<exists>b. c # s = pat @ b) \<or> (\<exists>a b. s = a @ pat @ b)"
  proof
    assume "\<exists>a b. c # s = a @ pat @ b"
    then obtain a b where "c # s = a @ pat @ b" by blast
    then show "(\<exists>b. c # s = pat @ b) \<or> (\<exists>a b. s = a @ pat @ b)" by (cases a) auto
  next
    assume "(\<exists>b. c # s = pat @ b) \<or> (\<exists>a b. s = a @ pat @ b)"
    then show "\<exists>a b. c # s = a @ pat @ b" by (metis append_Cons append_Nil)
  qed
  with Cons show ?case by (simp add: starts_with_iff)
qed simp

lemma occurs_append: "occurs pat s \<Longrightarrow> occurs pat (a @ s @ b)"
proof -
  assume "occurs pat s"
  then obtain u v where "s = u @ pat @ v" by (auto simp: occurs_iff)
  then have "a @ s @ b = (a @ u) @ pat @ (v @ b)" by simp
  then show ?thesis unfolding occurs_iff by blast
qed

lemma occurs_part [simp]: "occurs pat (a @ pat @ b)" "occurs pat (a @ pat)" "occurs pat (pat @ b)" "occurs pat pat"
  unfolding occurs_iff by (blast, metis append_Nil2, metis append_Nil, metis append_Nil append_Nil2)

lemma occurs_Nil [simp]: "occurs [] s"
  by (cases s) (simp_all add: starts_with_def)

text \<open>A pattern without a character does not reach across that character.\<close>

lemma occurs_across:
  assumes "c \<notin> set pat"
  shows "occurs pat (a @ c # b) \<longleftrightarrow> occurs pat a \<or> occurs pat b"
proof
  assume "occurs pat (a @ c # b)"
  then obtain x y where "a @ (c # b) = (x @ pat) @ y" by (auto simp: occurs_iff)
  then obtain us where "a = (x @ pat) @ us \<or> (a @ us = x @ pat \<and> c # b = us @ y)"
    unfolding append_eq_append_conv2 by blast
  then show "occurs pat a \<or> occurs pat b"
  proof
    assume "a = (x @ pat) @ us"
    then show ?thesis by (auto simp: occurs_iff)
  next
    assume us: "a @ us = x @ pat \<and> c # b = us @ y"
    then obtain vs where "(a = x @ vs \<and> vs @ us = pat) \<or> (a @ vs = x \<and> us = vs @ pat)"
      unfolding append_eq_append_conv2 by blast
    then show ?thesis
    proof
      assume "a = x @ vs \<and> vs @ us = pat"
      with us assms show ?thesis by (cases us) auto
    next
      assume v: "a @ vs = x \<and> us = vs @ pat"
      show ?thesis
      proof (cases vs)
        case Nil
        with v us assms show ?thesis by (cases pat) auto
      next
        case (Cons d ds)
        with v us have "b = ds @ pat @ y" by simp
        then show ?thesis by simp
      qed
    qed
  qed
next
  assume "occurs pat a \<or> occurs pat b"
  then show "occurs pat (a @ c # b)"
    using occurs_append [of pat a "[]" "c # b"] occurs_append [of pat b "a @ [c]" "[]"] by auto
qed

end
