(* ===== verification/Endpoint_Safety.thy ===== *)
theory Endpoint_Safety
  imports Js_Text Rpc
begin

text \<open>
  Keeping the endpoint out of every message (\<open>scripts/lib/endpoint-safety.mjs\<close>): the
  fragments of an endpoint, their registration, and the redaction of a text. What the host's
  \<open>URL\<close> makes of a text is a parameter.
\<close>

record url_parts =
  up_href :: string
  up_origin :: string
  up_host :: string
  up_hostname :: string
  up_username :: string
  up_password :: string
  up_search :: string
  up_searchValues :: "string list"
  up_pathname :: string

definition REDACTION :: string where "REDACTION = ''<redacted rpc endpoint>''"

text \<open>A \<open>Set\<close> keeps the order in which its values were first added.\<close>

definition set_add :: "'a list \<Rightarrow> 'a \<Rightarrow> 'a list" where
  "set_add xs x = (if x \<in> set xs then xs else xs @ [x])"

definition longest_first :: "string \<Rightarrow> string \<Rightarrow> int" where
  "longest_first a b = int (length b) - int (length a)"

definition search_text :: "string \<Rightarrow> string" where
  "search_text s = (case s of [] \<Rightarrow> [] | c # t \<Rightarrow> if c = CHR ''?'' then t else s)"

definition endpointFragments :: "(string \<Rightarrow> url_parts option) \<Rightarrow> string \<Rightarrow> string list" where
  "endpointFragments parse endpoint =
     (let raw = js_trim endpoint
      in if raw = [] then []
         else case parse raw of
           None \<Rightarrow> [raw]
         | Some url \<Rightarrow>
             let whole = foldl set_add [raw] [up_href url, up_origin url, up_host url, up_hostname url];
                 named = foldl set_add whole
                   (filter (\<lambda>s. s \<noteq> []) [up_username url, up_password url]);
                 searched = (if up_search url = [] then named else set_add named (search_text (up_search url)));
                 valued = foldl set_add searched (filter (\<lambda>v. 8 \<le> length v) (up_searchValues url));
                 segmented = foldl set_add valued
                   (filter (\<lambda>v. 8 \<le> length v) (split_on ''/'' [] (up_pathname url)))
             in js_sort longest_first (filter (\<lambda>f. 4 \<le> length f) segmented))"

text \<open>The registered fragments are the module's state.\<close>

definition registerSensitiveEndpoint ::
    "(string \<Rightarrow> url_parts option) \<Rightarrow> string list \<Rightarrow> string \<Rightarrow> string list" where
  "registerSensitiveEndpoint parse sensitive endpoint =
     foldl set_add sensitive (endpointFragments parse endpoint)"

definition resetSensitiveEndpoints :: "string list \<Rightarrow> string list" where
  "resetSensitiveEndpoints sensitive = []"

definition sensitiveFragments :: "string list \<Rightarrow> string list" where
  "sensitiveFragments sensitive = js_sort longest_first sensitive"

definition redact_one :: "string \<Rightarrow> string \<Rightarrow> string" where
  "redact_one out fragment =
     (if fragment \<noteq> [] \<and> occurs fragment out then join_with REDACTION (split_on fragment [] out) else out)"

definition redact :: "string list \<Rightarrow> string \<Rightarrow> string" where
  "redact sensitive text = foldl redact_one text (sensitiveFragments sensitive)"

definition scheme_char :: "char \<Rightarrow> bool" where
  "scheme_char c \<longleftrightarrow> is_letter c \<or> is_digit c \<or> c \<in> {CHR ''+'', CHR ''.'', CHR ''-''}"

definition has_scheme :: "string \<Rightarrow> bool" where
  "has_scheme s = (case s of [] \<Rightarrow> False
     | c # t \<Rightarrow> is_letter c \<and> starts_with ''://'' (dropWhile scheme_char t))"

definition looksLikeCredentialUrl :: "(string \<Rightarrow> url_parts option) \<Rightarrow> string \<Rightarrow> bool" where
  "looksLikeCredentialUrl parse v =
     (if \<not> has_scheme v then False
      else case parse v of
        None \<Rightarrow> False
      | Some url \<Rightarrow>
          up_username url \<noteq> [] \<or> up_password url \<noteq> [] \<or> up_search url \<noteq> []
          \<or> list_ex (\<lambda>segment. 16 \<le> length segment) (split_on ''/'' [] (up_pathname url)))"

section \<open>What redaction leaves\<close>

text \<open>The pieces of a split hold no separator, and only what the text held.\<close>

lemma starts_occurs: "starts_with pat s \<Longrightarrow> occurs pat s"
  by (cases s) (auto simp: starts_with_def)

lemma join_occurs:
  assumes "f \<noteq> []" and "CHR ''<'' \<notin> set f" and "CHR ''>'' \<notin> set f" and "\<not> occurs f w"
  shows "occurs f (join_with (CHR ''<'' # w @ [CHR ''>'']) ps) \<longleftrightarrow> (\<exists>p \<in> set ps. occurs f p)"
proof (induction "CHR ''<'' # w @ [CHR ''>'']" ps rule: join_with.induct)
  case 1
  show ?case using assms(1) by simp
next
  case (3 x y xs)
  have "x @ (CHR ''<'' # w @ [CHR ''>'']) @ rest = x @ CHR ''<'' # (w @ CHR ''>'' # rest)" for rest
    by simp
  with 3 show ?case
    by (simp only: join_with.simps occurs_across [OF assms(2)] occurs_across [OF assms(3)] assms(4)) auto
qed simp

lemma split_occurs:
  assumes "g \<noteq> []"
  shows "p \<in> set (split_on g piece s) \<Longrightarrow> \<exists>u v. piece @ s = u @ p @ v"
proof (induction g piece s rule: split_on.induct)
  case (1 sep piece s)
  consider "s = []" | "s \<noteq> []" "sep \<noteq> [] \<and> starts_with sep s" | "s \<noteq> []" "\<not> (sep \<noteq> [] \<and> starts_with sep s)"
    by blast
  then show ?case
  proof cases
    case 1
    with "1.prems" show ?thesis by (simp add: split_on.simps) (metis append_Nil append_Nil2)
  next
    case 2
    then obtain rest where rest: "s = sep @ rest" by (auto simp: starts_with_iff)
    from 2 "1.prems" consider "p = piece" | "p \<in> set (split_on sep [] rest)"
      by (subst (asm) split_on.simps) (auto simp: rest)
    then show ?thesis
    proof cases
      case 1
      then show ?thesis by (metis append_Nil)
    next
      case 2
      with "1.IH"(1) \<open>s \<noteq> []\<close> \<open>sep \<noteq> [] \<and> starts_with sep s\<close> obtain u v where "rest = u @ p @ v"
        by (auto simp: rest)
      then have "piece @ s = (piece @ sep @ u) @ p @ v" by (simp add: rest)
      then show ?thesis by blast
    qed
  next
    case 3
    with "1.prems" have "p \<in> set (split_on sep (piece @ [hd s]) (tl s))"
      by (subst (asm) split_on.simps) auto
    with "1.IH"(2) 3 show ?thesis by simp
  qed
qed

lemma split_free:
  assumes "g \<noteq> []"
  shows "(\<And>u v. piece @ s = u @ g @ v \<Longrightarrow> length piece \<le> length u) \<Longrightarrow>
    p \<in> set (split_on g piece s) \<Longrightarrow> \<not> occurs g p"
  using assms
proof (induction g piece s rule: split_on.induct)
  case (1 g piece s)
  have piece: "\<not> occurs g piece"
  proof
    assume "occurs g piece"
    then obtain u v where "piece = u @ g @ v" by (auto simp: occurs_iff)
    with "1.prems"(1) [of u "v @ s"] "1.prems"(3) show False by simp
  qed
  consider "s = []" | "s \<noteq> []" "g \<noteq> [] \<and> starts_with g s" | "s \<noteq> []" "\<not> (g \<noteq> [] \<and> starts_with g s)"
    by blast
  then show ?case
  proof cases
    case 1
    with piece "1.prems"(2) show ?thesis by (simp add: split_on.simps)
  next
    case 2
    with "1.prems"(2) consider "p = piece" | "p \<in> set (split_on g [] (drop (length g) s))"
      by (subst (asm) split_on.simps) auto
    then show ?thesis using piece "1.IH"(1) [OF 2] "1.prems"(3) by cases simp_all
  next
    case 3
    with "1.prems"(2) have p: "p \<in> set (split_on g (piece @ [hd s]) (tl s))"
      by (subst (asm) split_on.simps) auto
    have "length (piece @ [hd s]) \<le> length u" if "(piece @ [hd s]) @ tl s = u @ g @ v" for u v
    proof -
      have uv: "piece @ s = u @ g @ v" using that 3(1) by simp
      from "1.prems"(1) [OF uv] have le: "length piece \<le> length u" .
      moreover have "length piece \<noteq> length u"
      proof
        assume "length piece = length u"
        with uv have "s = g @ v" by simp
        with 3(2) "1.prems"(3) show False by (auto simp: starts_with_iff)
      qed
      ultimately show ?thesis by simp
    qed
    from "1.IH"(2) [OF 3 this p "1.prems"(3)] show ?thesis .
  qed
qed

text \<open>A fragment that cannot be confused with the replacement.\<close>

definition distinctive :: "string \<Rightarrow> bool" where
  "distinctive f \<longleftrightarrow> f \<noteq> [] \<and> CHR ''<'' \<notin> set f \<and> CHR ''>'' \<notin> set f
     \<and> \<not> occurs f ''redacted rpc endpoint''"

lemma replaced_occurs:
  assumes "distinctive f"
  shows "occurs f (join_with REDACTION ps) \<longleftrightarrow> (\<exists>p \<in> set ps. occurs f p)"
proof -
  have "REDACTION = CHR ''<'' # ''redacted rpc endpoint'' @ [CHR ''>'']" by (simp add: REDACTION_def)
  with join_occurs [of f "''redacted rpc endpoint''" ps] assms show ?thesis
    unfolding distinctive_def by (simp only: simp_thms)
qed

lemma redact_one_occurs:
  assumes "distinctive f" and "occurs f (redact_one out g)"
  shows "occurs f out \<and> f \<noteq> g"
proof (cases "g \<noteq> [] \<and> occurs g out")
  case True
  with assms obtain p where p: "p \<in> set (split_on g [] out)" "occurs f p"
    using replaced_occurs by (auto simp: redact_one_def)
  from split_occurs [OF _ p(1)] True obtain u v where "out = u @ p @ v" by auto
  with p(2) have "occurs f out" by (simp add: occurs_append)
  moreover from split_free [OF _ _ p(1)] True p(2) have "f \<noteq> g" by auto
  ultimately show ?thesis by blast
next
  case False
  with assms show ?thesis by (auto simp: redact_one_def distinctive_def)
qed

lemma redact_fold:
  "distinctive f \<Longrightarrow> occurs f (foldl redact_one out gs) \<Longrightarrow> occurs f out \<and> f \<notin> set gs"
  by (induction gs arbitrary: out) (auto dest: redact_one_occurs)

lemma redact_occurs:
  "distinctive f \<Longrightarrow> occurs f (redact sensitive out) \<Longrightarrow> occurs f out \<and> f \<notin> set sensitive"
  unfolding redact_def sensitiveFragments_def using redact_fold by fastforce

lemma set_add_fold [simp]: "set (foldl set_add xs ys) = set xs \<union> set ys"
  by (induction ys arbitrary: xs) (auto simp: set_add_def)

text \<open>Everything of an endpoint that identifies or authenticates it.\<close>

definition secrets_of :: "(string \<Rightarrow> url_parts option) \<Rightarrow> string \<Rightarrow> string set" where
  "secrets_of parse endpoint =
     (let raw = js_trim endpoint
      in if raw = [] then {} else insert raw (case parse raw of
           None \<Rightarrow> {}
         | Some url \<Rightarrow> {up_href url, up_origin url, up_host url, up_hostname url, up_username url,
               up_password url, search_text (up_search url)}
             \<union> {v \<in> set (up_searchValues url) \<union> set (split_on ''/'' [] (up_pathname url)). 8 \<le> length v}))"

lemma endpointFragments_secrets:
  "f \<in> secrets_of parse endpoint \<Longrightarrow> 4 \<le> length f \<Longrightarrow> f \<in> set (endpointFragments parse endpoint)"
proof -
  assume f: "f \<in> secrets_of parse endpoint" "4 \<le> length f"
  have add: "set (set_add xs x) = insert x (set xs)" for xs :: "string list" and x
    by (auto simp: set_add_def)
  show ?thesis
    using f by (cases "parse (js_trim endpoint)")
      (auto simp: secrets_of_def endpointFragments_def Let_def add search_text_def split: if_splits)
qed

text \<open>
  C35: No message carries the endpoint. Once an endpoint is registered, a redacted text holds
  none of its secrets of four or more characters (the address as given, what the URL is made
  of, its user, its password, its query, and the long values and path segments), as long as
  the secret cannot be read out of the replacement text itself; and a text that holds no
  registered fragment is left as it is.
\<close>

theorem redact_hides:
  assumes "f \<in> secrets_of parse endpoint" and "4 \<le> length f" and "distinctive f"
  shows "\<not> occurs f (redact (registerSensitiveEndpoint parse earlier endpoint) message)
    \<and> ((\<forall>g \<in> set sensitive. \<not> occurs g plain) \<longrightarrow> redact sensitive plain = plain)"
proof (intro conjI impI)
  show "\<not> occurs f (redact (registerSensitiveEndpoint parse earlier endpoint) message)"
    using redact_occurs [OF assms(3)] endpointFragments_secrets [OF assms(1,2)]
    by (fastforce simp: registerSensitiveEndpoint_def)
  have "\<forall>g \<in> set gs. \<not> occurs g plain \<Longrightarrow> foldl redact_one plain gs = plain" for gs
    by (induction gs) (auto simp: redact_one_def)
  then show "redact sensitive plain = plain" if "\<forall>g \<in> set sensitive. \<not> occurs g plain"
    using that by (simp add: redact_def sensitiveFragments_def)
qed

definition sample_url :: url_parts where
  "sample_url = \<lparr>up_href = ''https://rpc.test/?k=SECRET-KEY'', up_origin = ''https://rpc.test'',
     up_host = ''rpc.test'', up_hostname = ''rpc.test'', up_username = [], up_password = [],
     up_search = ''?k=SECRET-KEY'', up_searchValues = [''SECRET-KEY''], up_pathname = ''/''\<rparr>"

theorem redact_hides_witness:
  "\<not> occurs ''SECRET-KEY''
     (redact (registerSensitiveEndpoint (\<lambda>_. Some sample_url) [] (up_href sample_url))
        ''fetch of https://rpc.test/?k=SECRET-KEY failed'')
   \<and> redact [''rpc.test''] ''timed out'' = ''timed out''"
proof -
  have "js_trim (up_href sample_url) \<noteq> []" by code_simp
  then have "''SECRET-KEY'' \<in> secrets_of (\<lambda>_. Some sample_url) (up_href sample_url)"
    by (simp add: secrets_of_def Let_def sample_url_def)
  moreover have "distinctive ''SECRET-KEY''" by code_simp
  ultimately show ?thesis
    using redact_hides [where f = "''SECRET-KEY''" and parse = "\<lambda>_. Some sample_url"
        and endpoint = "up_href sample_url" and earlier = "[]"
        and message = "''fetch of https://rpc.test/?k=SECRET-KEY failed''"
        and sensitive = "[''rpc.test'']" and plain = "''timed out''"]
    by (simp add: starts_with_def)
qed

end
