(* ===== verification/Script_Pubkey.thy ===== *)
theory Script_Pubkey
  imports Pdas
begin

text \<open>
  The scripts' own address checks (\<open>scripts/lib/pubkey.mjs\<close>), which run without the SDK:
  the base58 codec, the curve test on an address text, and what tells a vault from a wallet.
  They are shown to agree with the SDK's codec and curve test.
\<close>

fun script_decode_loop :: "nat list \<Rightarrow> string \<Rightarrow> nat list result" where
  "script_decode_loop ds [] = Inr ds"
| "script_decode_loop ds (c # cs) =
     (case ALPHABET_MAP c of
        None \<Rightarrow> throw TypeError (''invalid base58 character: '' @ [c])
      | Some v \<Rightarrow> script_decode_loop (radix_step 256 58 ds v) cs)"

definition script_decodeBase58 :: "string \<Rightarrow> bytes result" where
  "script_decodeBase58 text =
     (let zeros = length (takeWhile (\<lambda>c. c = CHR ''1'') text)
      in bindR (script_decode_loop [] (drop zeros text))
           (\<lambda>ds. Inr (replicate zeros 0 @ map word_of_nat (rev ds))))"

definition script_isAddress :: "string \<Rightarrow> bool" where
  "script_isAddress v =
     (if length v < 32 \<or> length v > 44 then False
      else case script_decodeBase58 v of Inl _ \<Rightarrow> False | Inr bs \<Rightarrow> length bs = 32)"

definition script_mod :: "int \<Rightarrow> int" where
  "script_mod v = (let r = js_rem v P in if r < 0 then r + P else r)"

definition script_modPow :: "int \<Rightarrow> int \<Rightarrow> int" where
  "script_modPow base e = modPow_loop 1 (script_mod base) e"

definition script_isOnCurve :: "string \<Rightarrow> bool result" where
  "script_isOnCurve address =
     bindR (script_decodeBase58 address) (\<lambda>bs.
       if length bs \<noteq> 32 then Inr False
       else let y0 = read_y bs;
                signBit = take_bit 1 (drop_bit 255 y0);
                y = script_mod (take_bit 255 y0);
                ySquared = js_rem (y * y) P;
                u = script_mod (ySquared - 1);
                v = script_mod (D * ySquared + 1)
            in if v = 0 then Inr False
               else let w = js_rem (u * script_modPow v (P - 2)) P
                    in if w \<noteq> 0 \<and> script_modPow w ((P - 1) div 2) \<noteq> 1 then Inr False
                       else if w = 0 \<and> signBit = 1 then Inr False
                       else Inr True)"

definition isProgramDerived :: "string \<Rightarrow> bool result" where
  "isProgramDerived address =
     (if \<not> script_isAddress address then Inr False
      else bindR (script_isOnCurve address) (\<lambda>b. Inr (\<not> b)))"

definition script_encodeBase58 :: "bytes \<Rightarrow> string" where
  "script_encodeBase58 bs =
     (let zeros = length (takeWhile (\<lambda>b. b = 0) bs);
          digits = foldl (radix_step 58 256) [] (map unat (drop zeros bs))
      in replicate zeros (CHR ''1'') @ map (\<lambda>d. ALPHABET ! d) (rev digits))"

section \<open>Agreement with the SDK\<close>

lemma script_encode_eq: "script_encodeBase58 bs = encodeBase58 bs"
  by (simp add: script_encodeBase58_def encodeBase58_def)

lemma script_loop_eq:
  "script_decode_loop ds cs = Inr es \<longleftrightarrow> decode_loop ds cs = Inr es"
  by (induction cs arbitrary: ds) (simp_all split: option.splits)

lemma script_decode_Inr: "script_decodeBase58 t = Inr bs \<longleftrightarrow> t = encodeBase58 bs"
proof -
  have "script_decodeBase58 t = Inr bs \<longleftrightarrow> decodeBase58 t = Inr bs"
    by (simp add: script_decodeBase58_def decodeBase58_def Let_def bindR_eq_Inr script_loop_eq)
  then show ?thesis by (simp add: b58.dec_Inr_iff)
qed

lemma script_decode_encode [simp]: "script_decodeBase58 (encodeBase58 bs) = Inr bs"
  by (simp add: script_decode_Inr)

lemma script_curve_eq: "script_isOnCurve (encodeBase58 bs) = Inr (isOnCurve bs)"
proof -
  have m: "script_mod = mod_p" "script_modPow = modPow"
    by (simp_all add: fun_eq_iff script_mod_def mod_p_def script_modPow_def modPow_def)
  show ?thesis
    unfolding script_isOnCurve_def script_decode_encode bindR_Inr isOnCurve_def m isSquare_def
      inverse_p_def Let_def
    by simp
qed

lemma script_isAddress_iff: "script_isAddress a \<longleftrightarrow> (\<exists>bs. length bs = 32 \<and> a = encodeBase58 bs)"
proof
  assume "script_isAddress a"
  then obtain bs where "script_decodeBase58 a = Inr bs" "length bs = 32"
    by (auto simp: script_isAddress_def split: if_splits sum.splits)
  then show "\<exists>bs. length bs = 32 \<and> a = encodeBase58 bs" by (auto simp: script_decode_Inr)
next
  assume "\<exists>bs. length bs = 32 \<and> a = encodeBase58 bs"
  then obtain bs where "length bs = 32" "a = encodeBase58 bs" by blast
  with encodeBase58_length_32 [of bs] show "script_isAddress a" by (simp add: script_isAddress_def)
qed

text \<open>
  The scripts judge addresses as the SDK does. Their codec inverts the SDK's encoder, an
  address is accepted exactly when it is the base58 text of 32 bytes (the length check refuses
  none of them), and it is taken for program-derived exactly when the SDK's curve test refuses
  those bytes; no input makes the check throw.
\<close>

theorem isProgramDerived_agrees:
  "isProgramDerived a = Inr (\<exists>bs. length bs = 32 \<and> a = encodeBase58 bs \<and> \<not> isOnCurve bs)
   \<and> (script_isAddress a \<longleftrightarrow> (\<exists>bs. addressBytes a = Inr bs))
   \<and> (script_decodeBase58 a = Inr k \<longleftrightarrow> a = script_encodeBase58 k)"
proof -
  have "isProgramDerived a = Inr (\<exists>bs. length bs = 32 \<and> a = encodeBase58 bs \<and> \<not> isOnCurve bs)"
  proof (cases "script_isAddress a")
    case True
    then obtain bs where "length bs = 32" "a = encodeBase58 bs" by (auto simp: script_isAddress_iff)
    then show ?thesis using True by (auto simp: isProgramDerived_def script_curve_eq)
  next
    case False
    then show ?thesis by (auto simp: isProgramDerived_def script_isAddress_iff)
  qed
  then show ?thesis
    by (auto simp: script_isAddress_iff addressBytes_Inr script_decode_Inr script_encode_eq)
qed

end
