(* ===== verification/Tx_Lifecycle.thy ===== *)
theory Tx_Lifecycle
  imports Endpoint_Safety Script_Pubkey
begin

text \<open>
  Sending a transaction that must succeed, or must be refused, exactly once
  (\<open>scripts/lib/transaction-lifecycle.mjs\<close>). The connection, the read client, the clock and the
  log reader are parameters that answer from the whole trace of what was done before; every
  request, wait and answer is recorded in the trace, so that what was sent, and how often, is
  part of the result. Confirmation polls until a deadline of the clock, so a run that never
  ends is the value \<open>None\<close>.
\<close>

section \<open>Classification\<close>

datatype classification =
    PRE_SUBMISSION_BLOCKHASH_EXPIRED
  | TRANSACTION_SUBMITTED_SUCCESS
  | TRANSACTION_SUBMITTED_PROGRAM_FAILURE
  | TRANSACTION_CONFIRMATION_AMBIGUOUS
  | RPC_RATE_LIMIT
  | RPC_PROVIDER_FAILURE
  | CUSTODY_DEFECT
  | HARNESS_DEFECT

definition MAX_BLOCKHASH_RETRIES :: int where "MAX_BLOCKHASH_RETRIES = 1"
definition CONFIRMATION_POLL_INTERVAL_MS :: int where "CONFIRMATION_POLL_INTERVAL_MS = 700"
definition CONFIRMATION_TIMEOUT_MS :: int where "CONFIRMATION_TIMEOUT_MS = 90000"
definition SUBMISSION_PACING_MS :: int where "SUBMISSION_PACING_MS = 250"

definition ACCEPTED_CONFIRMATIONS :: "string list" where
  "ACCEPTED_CONFIRMATIONS = [''confirmed'', ''finalized'']"

text \<open>An error of a library: \<open>String(error)\<close> and the fields that are read of it.\<close>

record foreign_error =
  fe_message :: "string option"
  fe_text :: string
  fe_cause :: "string option"
  fe_code :: "string option"
  fe_logs :: "string list option"
  fe_classification :: "classification option"

text \<open>What a \<open>catch\<close> binds; None is a value that is not truthy.\<close>

type_synonym caught = "foreign_error option"

fun join_lines :: "string \<Rightarrow> string list option \<Rightarrow> string" where
  "join_lines sep None = []"
| "join_lines sep (Some logs) = join_with sep logs"

definition describeForClassification :: "caught \<Rightarrow> string" where
  "describeForClassification error =
     (case error of None \<Rightarrow> []
      | Some e \<Rightarrow>
          join_with '' '' [case fe_message e of Some m \<Rightarrow> m | None \<Rightarrow> fe_text e,
              case fe_cause e of Some m \<Rightarrow> m | None \<Rightarrow> [],
              case fe_code e of Some c \<Rightarrow> c | None \<Rightarrow> []]
            @ '' '' @ join_lines '' '' (fe_logs e))"

definition isPreSubmissionBlockhashExpiry :: "caught \<Rightarrow> bool" where
  "isPreSubmissionBlockhashExpiry error =
     (let text = describeForClassification error
      in if \<not> occurs_ci ''blockhash not found'' text \<and> \<not> occurs ''BlockhashNotFound'' text then False
         else if occurs_ci ''simulation failed'' text then True
         else occurs_ci ''failed to send transaction'' text \<or> occurs_ci ''sendTransaction'' text)"

definition isRateLimited :: "caught \<Rightarrow> bool" where
  "isRateLimited error =
     (let text = describeForClassification error
      in occurs_word False ''429'' text \<or> occurs_ci ''too many requests'' text)"

definition isTransportFailure :: "caught \<Rightarrow> bool" where
  "isTransportFailure error =
     (let text = describeForClassification error
      in list_ex (\<lambda>pat. occurs_ci pat text)
           [''fetch failed'', ''ECONNRESET'', ''ECONNREFUSED'', ''ENOTFOUND'', ''EAI_AGAIN'', ''ETIMEDOUT'',
            ''socket hang up'', ''network error'', ''timed out'', ''time out'', ''TLS'', ''certificate''])"

definition describeSafely :: "string list \<Rightarrow> caught \<Rightarrow> string" where
  "describeSafely sensitive error =
     (case error of None \<Rightarrow> ''unknown error''
      | Some e \<Rightarrow> redact sensitive
          ((case fe_message e of Some m \<Rightarrow> m | None \<Rightarrow> fe_text e)
            @ (case fe_logs e of None \<Rightarrow> [] | Some logs \<Rightarrow> '' :: '' @ join_with '' | '' logs)))"

record error_code =
  ec_name :: "string option"
  ec_number :: "int option"
  ec_kind :: "string option"

definition no_code :: error_code where
  "no_code = \<lparr>ec_name = None, ec_number = None, ec_kind = None\<rparr>"

text \<open>\<open>Object.keys(err)[0]\<close> and \<open>value.Custom\<close> on what \<open>typeof\<close> calls an object.\<close>

fun first_key :: "json \<Rightarrow> string option" where
  "first_key (J_object ((k, _) # _)) = Some k"
| "first_key (J_array (_ # _)) = Some ''0''"
| "first_key _ = None"

fun json_field :: "json \<Rightarrow> string \<Rightarrow> json option" where
  "json_field (J_object members) k = map_of members k"
| "json_field _ _ = None"

definition custom_code :: "json option \<Rightarrow> int option" where
  "custom_code detail =
     (case Option.bind detail (\<lambda>d. json_field d ''Custom'') of
        Some (J_number (Whole n)) \<Rightarrow> Some n | _ \<Rightarrow> None)"

fun is_object :: "json \<Rightarrow> bool" where
  "is_object (J_array _) = True"
| "is_object (J_object _) = True"
| "is_object _ = False"

definition extractOnChainErrorCode :: "json option \<Rightarrow> error_code" where
  "extractOnChainErrorCode err =
     (case err of None \<Rightarrow> no_code
      | Some e \<Rightarrow>
          if \<not> is_object e then no_code
          else case json_field e ''InstructionError'' of
              Some (J_array instruction) \<Rightarrow>
                (let detail = (case instruction of _ # d # _ \<Rightarrow> Some d | _ \<Rightarrow> None)
                 in case custom_code detail of
                      Some n \<Rightarrow> \<lparr>ec_name = None, ec_number = Some n, ec_kind = Some ''Custom''\<rparr>
                    | None \<Rightarrow>
                        (case detail of
                           Some (J_string s) \<Rightarrow> \<lparr>ec_name = Some s, ec_number = None, ec_kind = Some s\<rparr>
                         | _ \<Rightarrow> \<lparr>ec_name = None, ec_number = None, ec_kind = Some ''InstructionError''\<rparr>))
            | _ \<Rightarrow> no_code\<lparr>ec_kind := first_key e\<rparr>)"

section \<open>The world\<close>

record signature_status =
  ss_level :: "string option"
  ss_unconfirmed :: bool
  ss_err :: "json option"

text \<open>
  Two ways the transaction goes out: with the simulation of the node before it is broadcast, or
  without. A send records the signature, the way and what was thrown.
\<close>

datatype send_mode = Preflight | Skip_preflight

datatype effect =
    Asked_blockhash
  | Paused int
  | Submitted string send_mode "caught option"
  | Polled string "signature_status option option"
  | Read_clock
  | Asked_logs string
  | Read_accounts "string list"
  | Read_agreement

type_synonym trace = "effect list"

record world =
  w_blockhash :: "trace \<Rightarrow> caught + string \<times> int"
  w_sign :: "string \<Rightarrow> caught + bytes option"
  w_send :: "trace \<Rightarrow> string \<Rightarrow> send_mode \<Rightarrow> caught option"
  w_statuses :: "trace \<Rightarrow> string \<Rightarrow> caught + signature_status option list option"
  w_now :: "trace \<Rightarrow> int"
  w_logs :: "trace \<Rightarrow> string \<Rightarrow> caught + string list option"
  w_number :: "js_number \<Rightarrow> string"
  w_sensitive :: "string list"

datatype failure_detail =
    No_detail
  | Resolved (rd_err: "json option") (rd_found: bool)
  | Rejected json error_code
  | Labelled string

datatype failure =
    Foreign caught
  | Lifecycle_Error (lf_message: string) (lf_class: classification) (lf_signature: "string option")
      (lf_detail: failure_detail)

type_synonym ('e, 'a) outcome = "(('e + 'a) \<times> trace) option"

type_synonym 'a run = "(failure, 'a) outcome"

definition and_then ::
    "('e, 'a) outcome \<Rightarrow> ('a \<Rightarrow> trace \<Rightarrow> ('e, 'b) outcome) \<Rightarrow> ('e, 'b) outcome" where
  "and_then m f =
     (case m of None \<Rightarrow> None
      | Some (Inl e, t) \<Rightarrow> Some (Inl e, t)
      | Some (Inr a, t) \<Rightarrow> f a t)"

section \<open>Preparing and confirming\<close>

record prepared =
  pr_signature :: string
  pr_blockhash :: string
  pr_lastValidBlockHeight :: int

definition prepareTransaction :: "world \<Rightarrow> trace \<Rightarrow> prepared run" where
  "prepareTransaction w t =
     (let t' = t @ [Asked_blockhash] in
      case w_blockhash w t of
        Inl e \<Rightarrow> Some (Inl (Foreign e), t')
      | Inr (blockhash, lastValidBlockHeight) \<Rightarrow>
          (case w_sign w blockhash of
             Inl e \<Rightarrow> Some (Inl (Foreign e), t')
           | Inr None \<Rightarrow> Some (Inl (Lifecycle_Error ''the transaction did not produce a signature after signing''
                 HARNESS_DEFECT None No_detail), t')
           | Inr (Some sig) \<Rightarrow>
               Some (Inr \<lparr>pr_signature = script_encodeBase58 sig, pr_blockhash = blockhash,
                 pr_lastValidBlockHeight = lastValidBlockHeight\<rparr>, t')))"

text \<open>\<open>result?.value?.[0] ?? null\<close>.\<close>

definition signatureStatus :: "'a option list option \<Rightarrow> 'a option" where
  "signatureStatus answer = (case answer of Some (s # _) \<Rightarrow> s | _ \<Rightarrow> None)"

text \<open>\<open>err ?? null\<close>, and whether an error is there.\<close>

definition status_err :: "signature_status \<Rightarrow> json option" where
  "status_err s = (case ss_err s of Some J_null \<Rightarrow> None | e \<Rightarrow> e)"

definition has_err :: "json option \<Rightarrow> bool" where
  "has_err err = (case err of None \<Rightarrow> False | Some e \<Rightarrow> truthy_json e)"

definition landed :: "signature_status \<Rightarrow> bool" where
  "landed s = (case ss_level s of None \<Rightarrow> ss_unconfirmed s | Some level \<Rightarrow> level \<in> set ACCEPTED_CONFIRMATIONS)"

record confirmation =
  cf_found :: bool
  cf_level :: "string option"
  cf_err :: "json option"
  cf_timedOut :: bool

definition confirmed_as :: "signature_status option \<Rightarrow> bool \<Rightarrow> confirmation" where
  "confirmed_as s timedOut =
     \<lparr>cf_found = (s \<noteq> None), cf_level = Option.bind s ss_level, cf_err = Option.bind s status_err,
      cf_timedOut = timedOut\<rparr>"

partial_function (option) confirm_loop ::
    "world \<Rightarrow> string \<Rightarrow> int \<Rightarrow> int \<Rightarrow> trace \<Rightarrow> confirmation run" where
  [code]: "confirm_loop w signature deadline intervalMs t =
     (case w_statuses w t signature of
        Inl e \<Rightarrow> Some (Inl (Foreign e), t @ [Polled signature None])
      | Inr answer \<Rightarrow>
          let found = signatureStatus answer; t = t @ [Polled signature (Some found)]
          in if (case found of None \<Rightarrow> False | Some s \<Rightarrow> landed s \<or> has_err (status_err s))
             then Some (Inr (confirmed_as found False), t)
             else if w_now w t \<ge> deadline
             then Some (Inr (confirmed_as found True), t @ [Read_clock])
             else confirm_loop w signature deadline intervalMs (t @ [Read_clock, Paused intervalMs]))"

record confirm_options =
  co_timeoutMs :: int
  co_intervalMs :: int

definition default_confirm :: confirm_options where
  "default_confirm = \<lparr>co_timeoutMs = CONFIRMATION_TIMEOUT_MS, co_intervalMs = CONFIRMATION_POLL_INTERVAL_MS\<rparr>"

definition confirmBySignature ::
    "world \<Rightarrow> string \<Rightarrow> confirm_options \<Rightarrow> trace \<Rightarrow> confirmation run" where
  "confirmBySignature w signature options t =
     confirm_loop w signature (w_now w t + co_timeoutMs options) (co_intervalMs options) (t @ [Read_clock])"

definition paced :: "int \<Rightarrow> trace \<Rightarrow> trace" where
  "paced pacingMs t = (if pacingMs > 0 then t @ [Paused pacingMs] else t)"

section \<open>A transaction that must succeed\<close>

text \<open>Both kinds prepare, pace and send in the same way.\<close>

lemma and_then_cong [fundef_cong]:
  "m = m' \<Longrightarrow> (\<And>a t. m' = Some (Inr a, t) \<Longrightarrow> f a t = g a t) \<Longrightarrow> and_then m f = and_then m' g"
  by (auto simp: and_then_def split: option.splits sum.splits)

record success_report =
  sr_signature :: string
  sr_class :: classification
  sr_level :: "string option"
  sr_resolvedAfterAmbiguity :: bool

record send_options =
  so_label :: string
  so_maxBlockhashRetries :: int
  so_pacingMs :: int
  so_confirm :: confirm_options
  so_fetchLogs :: bool
  so_escrowProgramId :: "string option"

definition attempt_send :: "world \<Rightarrow> send_options \<Rightarrow> send_mode \<Rightarrow> trace \<Rightarrow> (string \<times> caught option) run" where
  "attempt_send w opts mode t =
     and_then (prepareTransaction w t) (\<lambda>p t.
       let signature = pr_signature p; t = paced (so_pacingMs opts) t;
           answer = w_send w t signature mode
       in Some (Inr (signature, answer), t @ [Submitted signature mode answer]))"

definition classifyAmbiguity :: "caught \<Rightarrow> confirmation \<Rightarrow> classification" where
  "classifyAmbiguity error resolved =
     (if cf_found resolved \<and> has_err (cf_err resolved) then TRANSACTION_SUBMITTED_PROGRAM_FAILURE
      else if isRateLimited error then RPC_RATE_LIMIT
      else if isTransportFailure error then TRANSACTION_CONFIRMATION_AMBIGUOUS
      else TRANSACTION_CONFIRMATION_AMBIGUOUS)"

text \<open>What follows a send that was answered, and one that threw.\<close>

definition after_submitted ::
    "world \<Rightarrow> send_options \<Rightarrow> string \<Rightarrow> confirmation \<Rightarrow> failure + success_report" where
  "after_submitted w opts signature resolved =
     (if \<not> cf_found resolved \<or> cf_timedOut resolved
      then Inl (Lifecycle_Error (so_label opts @ '' was submitted but did not confirm within the deadline. Its signature is known and it was NOT resent; resolve it from chain state before doing anything else.'')
        TRANSACTION_CONFIRMATION_AMBIGUOUS (Some signature) No_detail)
      else case cf_err resolved of
          Some err \<Rightarrow>
            if truthy_json err
            then Inl (Lifecycle_Error (so_label opts @ '' was expected to succeed and the program rejected it on chain: ''
                @ stringify (w_number w) err)
              TRANSACTION_SUBMITTED_PROGRAM_FAILURE (Some signature) (Rejected err (extractOnChainErrorCode (Some err))))
            else Inr \<lparr>sr_signature = signature, sr_class = TRANSACTION_SUBMITTED_SUCCESS,
              sr_level = cf_level resolved, sr_resolvedAfterAmbiguity = False\<rparr>
        | None \<Rightarrow> Inr \<lparr>sr_signature = signature, sr_class = TRANSACTION_SUBMITTED_SUCCESS,
            sr_level = cf_level resolved, sr_resolvedAfterAmbiguity = False\<rparr>)"

definition after_ambiguity ::
    "world \<Rightarrow> send_options \<Rightarrow> string \<Rightarrow> caught \<Rightarrow> confirmation \<Rightarrow> failure + success_report" where
  "after_ambiguity w opts signature error resolved =
     (if cf_found resolved \<and> \<not> has_err (cf_err resolved)
      then Inr \<lparr>sr_signature = signature, sr_class = TRANSACTION_SUBMITTED_SUCCESS,
        sr_level = cf_level resolved, sr_resolvedAfterAmbiguity = True\<rparr>
      else Inl (Lifecycle_Error (so_label opts @ '' may or may not have been submitted, and its signature did not resolve to a confirmed success. It was NOT resent. ''
          @ describeSafely (w_sensitive w) error)
        (classifyAmbiguity error resolved) (Some signature) (Resolved (cf_err resolved) (cf_found resolved))))"

definition expired :: "send_options \<Rightarrow> int \<Rightarrow> failure" where
  "expired opts blockhashAttempts =
     Lifecycle_Error (so_label opts @ '' could not be submitted: the blockhash expired before simulation ''
         @ dec_int (blockhashAttempts + 1) @ '' times. The instruction never reached the program, so this is a finding about the RPC endpoint and not about custody.'')
       PRE_SUBMISSION_BLOCKHASH_EXPIRED None No_detail"

function success_loop :: "world \<Rightarrow> send_options \<Rightarrow> int \<Rightarrow> trace \<Rightarrow> success_report run" where
  "success_loop w opts blockhashAttempts t =
     and_then (attempt_send w opts Preflight t) (\<lambda>(signature, answer) t.
       case answer of
            None \<Rightarrow> and_then (confirmBySignature w signature (so_confirm opts) t) (\<lambda>resolved t.
                Some (after_submitted w opts signature resolved, t))
          | Some error \<Rightarrow>
              if isPreSubmissionBlockhashExpiry error
              then (if blockhashAttempts \<ge> so_maxBlockhashRetries opts
                    then Some (Inl (expired opts blockhashAttempts), t)
                    else success_loop w opts (blockhashAttempts + 1) t)
              else and_then (confirmBySignature w signature (so_confirm opts) t) (\<lambda>resolved t.
                Some (after_ambiguity w opts signature error resolved, t)))"
  by pat_completeness auto
termination
  by (relation "measure (\<lambda>(w, opts, blockhashAttempts, t). nat (so_maxBlockhashRetries opts - blockhashAttempts))") auto

declare success_loop.simps [simp del]

definition sendExpectingSuccess :: "world \<Rightarrow> send_options \<Rightarrow> trace \<Rightarrow> success_report run" where
  "sendExpectingSuccess w opts t = success_loop w opts 0 t"

section \<open>A transaction that must be refused\<close>

record refusal_row =
  rf_signature :: string
  rf_onChain :: bool
  rf_err :: "json option"
  rf_errorCode :: error_code
  rf_level :: "string option"
  rf_class :: classification
  rf_programAttributed :: string
  rf_logs :: "string list option"

text \<open>\<open>fetchLogs\<close>, whose failure is swallowed.\<close>

definition fetched_logs :: "world \<Rightarrow> send_options \<Rightarrow> string \<Rightarrow> trace \<Rightarrow> string list option \<times> trace" where
  "fetched_logs w opts signature t =
     (if so_fetchLogs opts
      then ((case w_logs w t signature of Inl _ \<Rightarrow> None | Inr logs \<Rightarrow> logs), t @ [Asked_logs signature])
      else (None, t))"

definition attribution :: "send_options \<Rightarrow> string list option \<Rightarrow> string" where
  "attribution opts logs =
     (case (logs, so_escrowProgramId opts) of
        (Some ls, Some programId) \<Rightarrow>
          if programId = [] then ''unverified''
          else if list_ex (\<lambda>line. occurs programId line) ls then ''ppv_escrow'' else ''other''
      | _ \<Rightarrow> ''unverified'')"

definition finishRefusal :: "world \<Rightarrow> send_options \<Rightarrow> string \<Rightarrow> confirmation \<Rightarrow> trace \<Rightarrow> refusal_row run" where
  "finishRefusal w opts signature resolved t =
     (if \<not> has_err (cf_err resolved)
      then Some (Inl (Lifecycle_Error (so_label opts @ '' was expected to be refused and SUCCEEDED on chain (signature ''
          @ signature @ ''). A guard the repository claims exists did not refuse this.'')
        CUSTODY_DEFECT (Some signature) (Labelled (so_label opts))), t)
      else let (logs, t) = fetched_logs w opts signature t
           in Some (Inr \<lparr>rf_signature = signature, rf_onChain = True, rf_err = cf_err resolved,
             rf_errorCode = extractOnChainErrorCode (cf_err resolved), rf_level = cf_level resolved,
             rf_class = TRANSACTION_SUBMITTED_PROGRAM_FAILURE,
             rf_programAttributed = attribution opts logs,
             rf_logs = map_option (map (redact (w_sensitive w))) logs\<rparr>, t))"

definition not_broadcast :: "send_options \<Rightarrow> failure" where
  "not_broadcast opts =
     Lifecycle_Error (so_label opts @ '' could not be submitted: the blockhash expired before broadcast. This is NOT a refusal -- the program never saw the instruction.'')
       PRE_SUBMISSION_BLOCKHASH_EXPIRED None No_detail"

definition never_landed :: "world \<Rightarrow> send_options \<Rightarrow> string \<Rightarrow> caught \<Rightarrow> failure" where
  "never_landed w opts signature error =
     Lifecycle_Error (so_label opts @ '' never landed on chain, so nothing was refused. This is a finding about the RPC endpoint, not about the program. ''
         @ describeSafely (w_sensitive w) error)
       (if isRateLimited error then RPC_RATE_LIMIT else RPC_PROVIDER_FAILURE) (Some signature) No_detail"

definition no_status :: "send_options \<Rightarrow> string \<Rightarrow> failure" where
  "no_status opts signature =
     Lifecycle_Error (so_label opts @ '' was submitted but no status for its signature appeared within the deadline. A transaction that did not land refuses nothing; this is infrastructure, not a negative test result.'')
       TRANSACTION_CONFIRMATION_AMBIGUOUS (Some signature) No_detail"

function refusal_loop :: "world \<Rightarrow> send_options \<Rightarrow> int \<Rightarrow> trace \<Rightarrow> refusal_row run" where
  "refusal_loop w opts blockhashAttempts t =
     and_then (attempt_send w opts Skip_preflight t) (\<lambda>(signature, answer) t.
       case answer of
            None \<Rightarrow> and_then (confirmBySignature w signature (so_confirm opts) t) (\<lambda>resolved t.
                if \<not> cf_found resolved \<or> cf_timedOut resolved
                then Some (Inl (no_status opts signature), t)
                else finishRefusal w opts signature resolved t)
          | Some error \<Rightarrow>
              if isPreSubmissionBlockhashExpiry error
              then (if blockhashAttempts \<ge> so_maxBlockhashRetries opts
                    then Some (Inl (not_broadcast opts), t)
                    else refusal_loop w opts (blockhashAttempts + 1) t)
              else and_then (confirmBySignature w signature (so_confirm opts) t) (\<lambda>resolved t.
                if \<not> cf_found resolved
                then Some (Inl (never_landed w opts signature error), t)
                else finishRefusal w opts signature resolved t))"
  by pat_completeness auto
termination
  by (relation "measure (\<lambda>(w, opts, blockhashAttempts, t). nat (so_maxBlockhashRetries opts - blockhashAttempts))") auto

declare refusal_loop.simps [simp del]

definition sendExpectingRefusal :: "world \<Rightarrow> send_options \<Rightarrow> trace \<Rightarrow> refusal_row run" where
  "sendExpectingRefusal w opts t = refusal_loop w opts 0 t"

text \<open>A row as the evidence holds it; None is a value that is no object.\<close>

record evidence_row =
  er_label :: "string option"
  er_signature :: "string option"
  er_onChain :: bool
  er_err :: "json option"

definition row_label :: "evidence_row \<Rightarrow> string" where
  "row_label row = (case er_label row of None \<Rightarrow> ''unnamed'' | Some l \<Rightarrow> l)"

definition refusal_named :: "evidence_row \<Rightarrow> string" where
  "refusal_named row = ''the refusal '' @ [CHR 0x22] @ row_label row @ [CHR 0x22]"

definition assertProvenRefusal :: "evidence_row option \<Rightarrow> failure + evidence_row" where
  "assertProvenRefusal r =
     (case r of
        None \<Rightarrow> Inl (Lifecycle_Error ''a refusal record is missing entirely'' HARNESS_DEFECT None No_detail)
      | Some row \<Rightarrow>
          (case er_signature row of
             None \<Rightarrow> Inl (Lifecycle_Error (refusal_named row @ '' has no transaction signature; an exception thrown by the client is not evidence that the program refused anything'')
               HARNESS_DEFECT None No_detail)
           | Some signature \<Rightarrow>
               if signature = [] then Inl (Lifecycle_Error (refusal_named row @ '' has no transaction signature; an exception thrown by the client is not evidence that the program refused anything'')
                 HARNESS_DEFECT None No_detail)
               else if \<not> er_onChain row
               then Inl (Lifecycle_Error (refusal_named row @ '' was not proved to have landed on chain'')
                 HARNESS_DEFECT (Some signature) No_detail)
               else if er_err row = None \<or> er_err row = Some J_null
               then Inl (Lifecycle_Error (refusal_named row @ '' landed without an error, which is a custody defect rather than a refusal'')
                 CUSTODY_DEFECT (Some signature) No_detail)
               else Inr row))"

end
