(* ===== verification/Tx_Safety.thy ===== *)
theory Tx_Safety
  imports Tx_Lifecycle
begin

text \<open>
  What a send leaves in the trace: how often it submitted and why, what a reported success or
  refusal rests on, and that it comes to an end when the clock runs.
\<close>

section \<open>Reading a trace\<close>

fun submission :: "effect \<Rightarrow> (string \<times> caught option) option" where
  "submission (Submitted signature mode answer) = Some (signature, answer)"
| "submission _ = None"

definition submissions :: "trace \<Rightarrow> (string \<times> caught option) list" where
  "submissions t = List.map_filter submission t"

fun is_poll :: "effect \<Rightarrow> bool" where
  "is_poll (Polled _ _) = True"
| "is_poll _ = False"

definition polls :: "trace \<Rightarrow> nat" where "polls t = length (filter is_poll t)"

fun pause :: "effect \<Rightarrow> int" where
  "pause (Paused ms) = ms"
| "pause _ = 0"

definition paused :: "trace \<Rightarrow> int" where "paused t = sum_list (map pause t)"

lemma submissions_simps [simp]:
  "submissions [] = []"
  "submissions (e # t) = (case submission e of None \<Rightarrow> submissions t | Some s \<Rightarrow> s # submissions t)"
  "submissions (t @ u) = submissions t @ submissions u"
  by (simp_all add: submissions_def map_filter_def split: option.splits)

lemma polls_simps [simp]:
  "polls [] = 0" "polls (e # t) = (if is_poll e then Suc (polls t) else polls t)"
  "polls (t @ u) = polls t + polls u"
  by (simp_all add: polls_def)

lemma paused_simps [simp]:
  "paused [] = 0" "paused (e # t) = pause e + paused t" "paused (t @ u) = paused t + paused u"
  by (simp_all add: paused_def)

section \<open>Confirming\<close>

definition confirmation_of :: "string \<Rightarrow> trace \<Rightarrow> confirmation \<Rightarrow> bool" where
  "confirmation_of signature new c \<longleftrightarrow>
     (\<exists>found late. c = confirmed_as found late \<and> Polled signature (Some found) \<in> set new
        \<and> (late \<or> (\<exists>s. found = Some s \<and> (landed s \<or> has_err (status_err s)))))"

definition loop_outcome :: "string \<Rightarrow> trace \<Rightarrow> (failure + confirmation) \<times> trace \<Rightarrow> bool" where
  "loop_outcome signature t y \<longleftrightarrow>
     (\<exists>r new. y = (r, t @ new) \<and> submissions new = []
        \<and> (case r of Inl e \<Rightarrow> \<exists>c. e = Foreign c | Inr c \<Rightarrow> confirmation_of signature new c))"

lemma confirm_loop_raw:
  assumes "confirm_loop w signature deadline intervalMs t = Some y"
  shows "loop_outcome signature t y"
proof (rule confirm_loop.raw_induct [OF _ assms, where P = "\<lambda>w signature deadline intervalMs t. loop_outcome signature t"])
  fix loop w signature deadline intervalMs t y
  assume IH: "\<And>w signature deadline intervalMs t y.
      loop w signature deadline intervalMs t = Some y \<Longrightarrow> loop_outcome signature t y"
    and prems: "(case w_statuses w t signature of
        Inl e \<Rightarrow> Some (Inl (Foreign e), t @ [Polled signature None])
      | Inr answer \<Rightarrow>
          let found = signatureStatus answer; t = t @ [Polled signature (Some found)]
          in if (case found of None \<Rightarrow> False | Some s \<Rightarrow> landed s \<or> has_err (status_err s))
             then Some (Inr (confirmed_as found False), t)
             else if w_now w t \<ge> deadline
             then Some (Inr (confirmed_as found True), t @ [Read_clock])
             else loop w signature deadline intervalMs (t @ [Read_clock, Paused intervalMs])) = Some y"
  show "loop_outcome signature t y"
  proof (cases "w_statuses w t signature")
    case (Inl e)
    with prems show ?thesis by (auto simp: loop_outcome_def)
  next
    case (Inr answer)
    let ?found = "signatureStatus answer"
    let ?t = "t @ [Polled signature (Some ?found)]"
    let ?done = "case ?found of None \<Rightarrow> False | Some s \<Rightarrow> landed s \<or> has_err (status_err s)"
    consider "?done" | "\<not> ?done" "w_now w ?t \<ge> deadline" | "\<not> ?done" "\<not> w_now w ?t \<ge> deadline"
      by blast
    then show ?thesis
    proof cases
      case 1
      then obtain s where "?found = Some s" "landed s \<or> has_err (status_err s)" by (auto split: option.splits)
      with prems 1 Inr show ?thesis unfolding loop_outcome_def
        by (intro exI [of _ "Inr (confirmed_as ?found False)"] exI [of _ "[Polled signature (Some ?found)]"])
          (auto simp: Let_def confirmation_of_def)
    next
      case 2
      with prems Inr show ?thesis unfolding loop_outcome_def
        by (intro exI [of _ "Inr (confirmed_as ?found True)"]
            exI [of _ "[Polled signature (Some ?found), Read_clock]"])
          (auto simp: Let_def confirmation_of_def)
    next
      case 3
      with prems Inr have "loop w signature deadline intervalMs (?t @ [Read_clock, Paused intervalMs]) = Some y"
        by (simp add: Let_def)
      from IH [OF this] obtain r new where "y = (r, (?t @ [Read_clock, Paused intervalMs]) @ new)"
        "submissions new = []" "case r of Inl e \<Rightarrow> \<exists>c. e = Foreign c | Inr c \<Rightarrow> confirmation_of signature new c"
        unfolding loop_outcome_def by blast
      then show ?thesis unfolding loop_outcome_def
        by (intro exI [of _ r] exI [of _ "Polled signature (Some ?found) # Read_clock # Paused intervalMs # new"])
          (auto simp: confirmation_of_def split: sum.splits)
    qed
  qed
qed

lemma confirm_facts:
  assumes "confirmBySignature w signature options t = Some (r, t')"
  obtains new where "t' = t @ new" and "submissions new = []"
    and "case r of Inl e \<Rightarrow> \<exists>c. e = Foreign c | Inr c \<Rightarrow> confirmation_of signature new c"
proof -
  from confirm_loop_raw [OF assms [unfolded confirmBySignature_def]] obtain new where
    "t' = t @ Read_clock # new" "submissions new = []"
    "case r of Inl e \<Rightarrow> \<exists>c. e = Foreign c | Inr c \<Rightarrow> confirmation_of signature new c"
    unfolding loop_outcome_def by auto
  then show ?thesis
    by (intro that [of "Read_clock # new"]) (auto simp: confirmation_of_def split: sum.splits)
qed

text \<open>A clock that is at least as fast as the waits.\<close>

definition clock_runs :: "world \<Rightarrow> bool" where
  "clock_runs w \<longleftrightarrow> (\<forall>t new. w_now w t + paused new \<le> w_now w (t @ new))"

lemma confirm_loop_total:
  assumes "clock_runs w" and "1 \<le> intervalMs"
  shows "\<exists>r new. confirm_loop w signature deadline intervalMs t = Some (r, t @ new)
    \<and> 1 \<le> polls new \<and> (polls new = 1 \<or> w_now w t + (int (polls new) - 2) * intervalMs < deadline)"
proof (induction "nat (deadline - w_now w t)" arbitrary: t rule: less_induct)
  case less
  have mono: "w_now w t + paused new \<le> w_now w (t @ new)" for t new
    using assms(1) by (simp add: clock_runs_def)
  show ?case
  proof (cases "w_statuses w t signature")
    case (Inl e)
    then show ?thesis by (subst confirm_loop.simps) simp
  next
    case (Inr answer)
    let ?found = "signatureStatus answer"
    let ?t = "t @ [Polled signature (Some ?found)]"
    let ?u = "?t @ [Read_clock, Paused intervalMs]"
    show ?thesis
    proof (cases "(case ?found of None \<Rightarrow> False | Some s \<Rightarrow> landed s \<or> has_err (status_err s))
        \<or> w_now w ?t \<ge> deadline")
      case True
      with Inr show ?thesis by (subst confirm_loop.simps) (auto simp: Let_def)
    next
      case False
      have now: "w_now w t \<le> w_now w ?t" "w_now w ?t + intervalMs \<le> w_now w ?u"
        using mono [of t "[Polled signature (Some ?found)]"] mono [of ?t "[Read_clock, Paused intervalMs]"] by simp_all
      with False assms(2) have "nat (deadline - w_now w ?u) < nat (deadline - w_now w t)" by auto
      from less [OF this] obtain r new where rec: "confirm_loop w signature deadline intervalMs ?u = Some (r, ?u @ new)"
        "1 \<le> polls new" "polls new = 1 \<or> w_now w ?u + (int (polls new) - 2) * intervalMs < deadline"
        by blast
      let ?new = "Polled signature (Some ?found) # Read_clock # Paused intervalMs # new"
      have "confirm_loop w signature deadline intervalMs t = Some (r, t @ ?new)"
        using Inr False rec(1) by (subst confirm_loop.simps) (simp add: Let_def)
      moreover have "w_now w t + (int (polls ?new) - 2) * intervalMs < deadline"
        using rec(3)
      proof
        assume "polls new = 1"
        with now(1) False show ?thesis by simp
      next
        assume "w_now w ?u + (int (polls new) - 2) * intervalMs < deadline"
        moreover have "(int (polls ?new) - 2) * intervalMs = (int (polls new) - 2) * intervalMs + intervalMs"
          by (simp add: algebra_simps)
        ultimately show ?thesis using now by linarith
      qed
      ultimately show ?thesis using rec(2) by (intro exI [of _ r] exI [of _ ?new]) simp
    qed
  qed
qed

lemma confirm_total:
  assumes "clock_runs w" and "1 \<le> co_intervalMs options"
  shows "\<exists>r new. confirmBySignature w signature options t = Some (r, t @ new)
    \<and> (polls new = 1 \<or> (int (polls new) - 2) * co_intervalMs options < co_timeoutMs options)"
proof -
  have "w_now w t + paused [Read_clock] \<le> w_now w (t @ [Read_clock])"
    using assms(1) unfolding clock_runs_def by blast
  with confirm_loop_total [OF assms, of signature "w_now w t + co_timeoutMs options" "t @ [Read_clock]"]
  obtain r new where "confirmBySignature w signature options t = Some (r, (t @ [Read_clock]) @ new)"
    "polls new = 1 \<or> (int (polls new) - 2) * co_intervalMs options < co_timeoutMs options"
    unfolding confirmBySignature_def by auto
  then show ?thesis by (intro exI [of _ r] exI [of _ "Read_clock # new"]) simp
qed

section \<open>What was sent\<close>

text \<open>A send the node refused before it could broadcast anything.\<close>

definition expired_send :: "string \<times> caught option \<Rightarrow> bool" where
  "expired_send s \<longleftrightarrow> (\<exists>e. snd s = Some e \<and> isPreSubmissionBlockhashExpiry e)"

definition never_resent :: "int \<Rightarrow> trace \<Rightarrow> bool" where
  "never_resent retries new \<longleftrightarrow>
     length (submissions new) \<le> nat retries + 1 \<and> (\<forall>s \<in> set (butlast (submissions new)). expired_send s)"

definition seen :: "string \<Rightarrow> trace \<Rightarrow> signature_status \<Rightarrow> bool" where
  "seen signature new s \<longleftrightarrow> Polled signature (Some (Some s)) \<in> set new"

definition success_outcome :: "trace \<Rightarrow> failure + success_report \<Rightarrow> bool" where
  "success_outcome new r \<longleftrightarrow>
     (case r of
        Inr report \<Rightarrow> submissions new \<noteq> [] \<and> fst (last (submissions new)) = sr_signature report
          \<and> (sr_resolvedAfterAmbiguity report \<longleftrightarrow> snd (last (submissions new)) \<noteq> None)
          \<and> (\<exists>s. seen (sr_signature report) new s \<and> \<not> has_err (status_err s)
               \<and> (landed s \<or> sr_resolvedAfterAmbiguity report))
      | Inl (Foreign _) \<Rightarrow> True
      | Inl (Lifecycle_Error _ c signature _) \<Rightarrow>
          (c = PRE_SUBMISSION_BLOCKHASH_EXPIRED \<longrightarrow> (\<forall>s \<in> set (submissions new). expired_send s))
          \<and> (c = TRANSACTION_SUBMITTED_PROGRAM_FAILURE \<longrightarrow>
               (\<exists>sg s. signature = Some sg \<and> seen sg new s \<and> has_err (status_err s)))
          \<and> c \<noteq> CUSTODY_DEFECT)"

definition refusal_outcome :: "trace \<Rightarrow> failure + refusal_row \<Rightarrow> bool" where
  "refusal_outcome new r \<longleftrightarrow>
     (case r of
        Inr row \<Rightarrow> submissions new \<noteq> [] \<and> fst (last (submissions new)) = rf_signature row
          \<and> rf_onChain row \<and> has_err (rf_err row)
          \<and> (\<exists>s. seen (rf_signature row) new s \<and> rf_err row = status_err s)
      | Inl (Foreign _) \<Rightarrow> True
      | Inl (Lifecycle_Error _ c signature _) \<Rightarrow>
          (c = PRE_SUBMISSION_BLOCKHASH_EXPIRED \<longrightarrow> (\<forall>s \<in> set (submissions new). expired_send s))
          \<and> (c = CUSTODY_DEFECT \<longrightarrow> (\<exists>sg s. signature = Some sg \<and> seen sg new s \<and> \<not> has_err (status_err s)))
          \<and> c \<noteq> TRANSACTION_SUBMITTED_SUCCESS)"

lemma success_outcome_extend:
  assumes "success_outcome new r" and "submissions pre = [] \<or> (\<exists>s. submissions pre = [s] \<and> expired_send s)"
  shows "success_outcome (pre @ new) r"
  using assms unfolding success_outcome_def seen_def
  by (cases r) (auto split: failure.splits)

lemma never_resent_extend:
  assumes "never_resent (retries - 1) new" and "submissions pre = [s]" and "expired_send s" and "1 \<le> retries"
  shows "never_resent retries (pre @ new)"
  using assms unfolding never_resent_def by (auto split: if_splits)

lemma and_then_Some:
  "and_then m f = Some (r, t) \<longleftrightarrow>
     (\<exists>e. m = Some (Inl e, t) \<and> r = Inl e) \<or> (\<exists>a u. m = Some (Inr a, u) \<and> f a u = Some (r, t))"
  by (auto simp: and_then_def split: option.splits sum.splits)

lemma attempt_facts:
  assumes "attempt_send w opts mode t = Some (r, t')"
  obtains new where "t' = t @ new" and "polls new = 0"
    and "case r of Inl e \<Rightarrow> submissions new = [] \<and> ((\<exists>c. e = Foreign c)
          \<or> (\<exists>m. e = Lifecycle_Error m HARNESS_DEFECT None No_detail)) | Inr s \<Rightarrow> submissions new = [s]"
proof -
  have "\<exists>quiet. paced (so_pacingMs opts) u = u @ quiet \<and> submissions quiet = [] \<and> polls quiet = 0" for u
    by (auto simp: paced_def)
  from this [of "t @ [Asked_blockhash]"] obtain quiet where
    quiet: "paced (so_pacingMs opts) (t @ [Asked_blockhash]) = t @ Asked_blockhash # quiet"
      "submissions quiet = []" "polls quiet = 0"
    by auto
  from assms show ?thesis unfolding attempt_send_def and_then_Some
  proof (elim disjE exE conjE)
    fix e assume "prepareTransaction w t = Some (Inl e, t')" "r = Inl e"
    then show ?thesis by (intro that [of "[Asked_blockhash]"])
        (auto simp: prepareTransaction_def Let_def split: sum.splits option.splits)
  next
    fix p u assume "prepareTransaction w t = Some (Inr p, u)"
      and f: "(let signature = pr_signature p; t = paced (so_pacingMs opts) u;
           answer = w_send w t signature mode
         in Some (Inr (signature, answer), t @ [Submitted signature mode answer])) = Some (r, t')"
    then have "u = t @ [Asked_blockhash]"
      by (auto simp: prepareTransaction_def Let_def split: sum.splits option.splits)
    with f quiet obtain s answer where "r = Inr (s, answer)" "t' = t @ Asked_blockhash # quiet @ [Submitted s mode answer]"
      by (auto simp: Let_def)
    with quiet show ?thesis by (intro that [of "Asked_blockhash # quiet @ [Submitted s mode answer]"]) auto
  qed
qed

lemma after_submitted_outcome:
  assumes "confirmation_of signature new c" and "submissions pre = [(signature, None)]" and "submissions new = []"
  shows "success_outcome (pre @ new) (after_submitted w opts signature c)"
proof -
  obtain found late where c: "c = confirmed_as found late" "Polled signature (Some found) \<in> set new"
    "late \<or> (\<exists>s. found = Some s \<and> (landed s \<or> has_err (status_err s)))"
    using assms(1) by (auto simp: confirmation_of_def)
  show ?thesis
  proof (cases "found = None \<or> late")
    case True
    then show ?thesis by (auto simp: c(1) confirmed_as_def after_submitted_def success_outcome_def)
  next
    case False
    then obtain s where "found = Some s" "landed s \<or> has_err (status_err s)" "\<not> late" using c(3) by auto
    with c(2) assms(2,3) show ?thesis
      by (auto simp: c(1) confirmed_as_def after_submitted_def success_outcome_def seen_def has_err_def
          split: option.splits)
  qed
qed

lemma after_ambiguity_outcome:
  assumes "confirmation_of signature new c" and "submissions pre = [(signature, Some error)]"
    and "submissions new = []"
  shows "success_outcome (pre @ new) (after_ambiguity w opts signature error c)"
proof -
  obtain found late where c: "c = confirmed_as found late" "Polled signature (Some found) \<in> set new"
    using assms(1) by (auto simp: confirmation_of_def)
  show ?thesis
    using c(2) assms(2,3)
    by (cases found)
      (auto simp: c(1) confirmed_as_def after_ambiguity_def success_outcome_def seen_def has_err_def
        classifyAmbiguity_def split: option.splits)
qed

lemma attempt_failed:
  assumes "attempt_send w opts mode t = Some (Inl e, t')"
  shows "\<exists>new. t' = t @ new \<and> submissions new = [] \<and> success_outcome new (Inl e) \<and> refusal_outcome new (Inl e)"
  by (rule attempt_facts [OF assms]) (auto simp: success_outcome_def refusal_outcome_def)

lemma expired_outcome:
  "submissions pre = [s] \<Longrightarrow> expired_send s \<Longrightarrow>
     success_outcome pre (Inl (expired opts k)) \<and> refusal_outcome pre (Inl (not_broadcast opts))"
  by (simp add: success_outcome_def refusal_outcome_def expired_def not_broadcast_def)

text \<open>A loop that ends after one send, or goes on after one that was refused unsent.\<close>

lemma retry_run:
  assumes step: "\<And>k t r t'. run k t = Some (r, t') \<Longrightarrow>
      (\<exists>new. t' = t @ new \<and> length (submissions new) \<le> 1 \<and> good new r)
      \<or> (\<exists>pre s. submissions pre = [s] \<and> expired_send s \<and> k < retries \<and> run (k + 1) (t @ pre) = Some (r, t'))"
    and extend: "\<And>pre new r s. submissions pre = [s] \<Longrightarrow> expired_send s \<Longrightarrow> good new r \<Longrightarrow> good (pre @ new) r"
    and "run k t = Some (r, t')"
  shows "\<exists>new. t' = t @ new \<and> never_resent (retries - k) new \<and> good new r"
  using assms(3)
proof (induction "nat (retries - k)" arbitrary: k t rule: less_induct)
  case less
  from step [OF less.prems] show ?case
  proof (elim disjE exE conjE)
    fix new assume new: "t' = t @ new" "length (submissions new) \<le> 1" "good new r"
    then have "never_resent (retries - k) new"
      unfolding never_resent_def by (cases "submissions new") auto
    with new show ?thesis by blast
  next
    fix pre s assume pre: "submissions pre = [s]" "expired_send s" "k < retries" "run (k + 1) (t @ pre) = Some (r, t')"
    from less.hyps [OF _ pre(4)] pre(3) obtain new where new: "t' = (t @ pre) @ new"
      "never_resent (retries - (k + 1)) new" "good new r" by auto
    have "never_resent (retries - k - 1) new" using new(2) by (simp add: algebra_simps)
    from never_resent_extend [OF this pre(1,2)] extend [OF pre(1,2) new(3)] new(1) pre(3)
    show ?thesis by (intro exI [of _ "pre @ new"]) auto
  qed
qed

text \<open>Confirming after a send: the outcome holds whatever the confirmation does.\<close>

lemma settle_outcome:
  assumes "and_then (confirmBySignature w signature options (t @ pre)) f = Some (r, t')"
    and "submissions pre = [s]"
    and "\<And>new c. submissions new = [] \<Longrightarrow> good (pre @ new) (Inl (Foreign c))"
    and "\<And>new c u. submissions new = [] \<Longrightarrow> confirmation_of signature new c \<Longrightarrow>
        f c u = Some (r, t') \<Longrightarrow> \<exists>more. t' = u @ more \<and> submissions more = [] \<and> good (pre @ new @ more) r"
  shows "\<exists>new. t' = t @ new \<and> length (submissions new) \<le> 1 \<and> good new r"
  using assms(1) unfolding and_then_Some
proof (elim disjE exE conjE)
  fix e assume "confirmBySignature w signature options (t @ pre) = Some (Inl e, t')" "r = Inl e"
  moreover from confirm_facts [OF this(1)] obtain new where
    "t' = (t @ pre) @ new" "submissions new = []" "\<exists>c. e = Foreign c" by auto
  ultimately show ?thesis using assms(2,3) by (intro exI [of _ "pre @ new"]) auto
next
  fix c u assume c: "confirmBySignature w signature options (t @ pre) = Some (Inr c, u)" "f c u = Some (r, t')"
  from confirm_facts [OF c(1)] obtain new where
    new: "u = (t @ pre) @ new" "submissions new = []" "confirmation_of signature new c" by auto
  from assms(4) [OF new(2,3) c(2)] obtain more where
    "t' = u @ more" "submissions more = []" "good (pre @ new @ more) r" by blast
  with new(1,2) assms(2) show ?thesis by (intro exI [of _ "pre @ new @ more"]) simp
qed

lemma success_step:
  assumes "success_loop w opts k t = Some (r, t')"
  shows "(\<exists>new. t' = t @ new \<and> length (submissions new) \<le> 1 \<and> success_outcome new r)
    \<or> (\<exists>pre s. submissions pre = [s] \<and> expired_send s \<and> k < so_maxBlockhashRetries opts
         \<and> success_loop w opts (k + 1) (t @ pre) = Some (r, t'))"
proof -
  have foreign: "success_outcome new (Inl (Foreign c))" for new c by (simp add: success_outcome_def)
  from assms consider e where "attempt_send w opts Preflight t = Some (Inl e, t')" "r = Inl e"
    | sg answer u where "attempt_send w opts Preflight t = Some (Inr (sg, answer), u)"
      "(case answer of
          None \<Rightarrow> and_then (confirmBySignature w sg (so_confirm opts) u) (\<lambda>c t. Some (after_submitted w opts sg c, t))
        | Some error \<Rightarrow>
            if isPreSubmissionBlockhashExpiry error
            then (if k \<ge> so_maxBlockhashRetries opts then Some (Inl (expired opts k), u)
                  else success_loop w opts (k + 1) u)
            else and_then (confirmBySignature w sg (so_confirm opts) u) (\<lambda>c t.
              Some (after_ambiguity w opts sg error c, t))) = Some (r, t')"
    by (subst (asm) success_loop.simps) (auto simp: and_then_Some)
  then show ?thesis
  proof cases
    case (1 e)
    with attempt_failed [OF 1(1)] show ?thesis by auto
  next
    case (2 sg answer u)
    from attempt_facts [OF 2(1)] obtain pre where pre: "u = t @ pre" "submissions pre = [(sg, answer)]" by auto
    show ?thesis
    proof (cases answer)
      case None
      with 2(2) pre(1) have run: "and_then (confirmBySignature w sg (so_confirm opts) (t @ pre)) (\<lambda>c t.
          Some (after_submitted w opts sg c, t)) = Some (r, t')" by simp
      have "\<exists>new. t' = t @ new \<and> length (submissions new) \<le> 1 \<and> success_outcome new r"
        by (rule settle_outcome [where good = success_outcome, OF run pre(2) foreign])
          (use pre(2) None after_submitted_outcome in auto)
      then show ?thesis ..
    next
      case (Some error)
      show ?thesis
      proof (cases "isPreSubmissionBlockhashExpiry error")
        case True
        then have sent: "expired_send (sg, answer)" using Some by (simp add: expired_send_def)
        show ?thesis
        proof (cases "k < so_maxBlockhashRetries opts")
          case True
          with 2(2) pre Some \<open>isPreSubmissionBlockhashExpiry error\<close> sent show ?thesis by auto
        next
          case False
          with 2(2) pre Some \<open>isPreSubmissionBlockhashExpiry error\<close> expired_outcome [OF pre(2) sent]
          show ?thesis by auto
        qed
      next
        case False
        with 2(2) pre(1) Some have run: "and_then (confirmBySignature w sg (so_confirm opts) (t @ pre)) (\<lambda>c t.
            Some (after_ambiguity w opts sg error c, t)) = Some (r, t')" by simp
        have "\<exists>new. t' = t @ new \<and> length (submissions new) \<le> 1 \<and> success_outcome new r"
          by (rule settle_outcome [where good = success_outcome, OF run pre(2) foreign])
            (use pre(2) Some after_ambiguity_outcome in auto)
        then show ?thesis ..
      qed
    qed
  qed
qed

lemma success_run:
  assumes "sendExpectingSuccess w opts t = Some (r, t')"
  shows "\<exists>new. t' = t @ new \<and> never_resent (so_maxBlockhashRetries opts) new \<and> success_outcome new r"
  using retry_run [where run = "success_loop w opts" and retries = "so_maxBlockhashRetries opts"
      and good = success_outcome, OF success_step success_outcome_extend
      assms [unfolded sendExpectingSuccess_def]]
  by simp

text \<open>
  C30: A transaction that must succeed is sent once. Over any run it is submitted at most
  once more than the retries allowed, and again only after the node refused the previous
  submission for its blockhash before broadcasting it. A success names the signature sent last,
  which the chain answered for without an error, at an accepted level unless the send itself had
  failed; a rejection by the program rests on an error the chain reported; and an expired
  blockhash is blamed only when nothing was broadcast at all.
\<close>

theorem success_sent_once:
  assumes "sendExpectingSuccess w opts t = Some (r, t')"
  shows "\<exists>new. t' = t @ new \<and> never_resent (so_maxBlockhashRetries opts) new \<and> success_outcome new r"
  using assms by (rule success_run)

lemma refusal_outcome_extend:
  assumes "submissions pre = [s]" and "expired_send s" and "refusal_outcome new r"
  shows "refusal_outcome (pre @ new) r"
  using assms unfolding refusal_outcome_def seen_def
  by (cases r) (auto split: failure.splits)

lemma finish_outcome:
  assumes "finishRefusal w opts signature c u = Some (r, t')" and "confirmation_of signature new c"
    and "cf_found c" and "submissions pre = [(signature, answer)]" and "submissions new = []"
  shows "\<exists>more. t' = u @ more \<and> submissions more = [] \<and> refusal_outcome (pre @ new @ more) r"
proof -
  obtain s late where c: "c = confirmed_as (Some s) late" "Polled signature (Some (Some s)) \<in> set new"
    using assms(2,3) by (auto simp: confirmation_of_def confirmed_as_def)
  show ?thesis
  proof (cases "has_err (status_err s)")
    case False
    with assms(1) c assms(4,5) show ?thesis
      by (auto simp: finishRefusal_def confirmed_as_def refusal_outcome_def seen_def)
  next
    case True
    obtain more where "t' = u @ more" "submissions more = []" "\<exists>row. r = Inr row \<and> rf_signature row = signature
        \<and> rf_onChain row \<and> rf_err row = status_err s"
      using assms(1) c(1) True
      by (auto simp: finishRefusal_def confirmed_as_def fetched_logs_def Let_def split: if_splits)
    with True c(2) assms(4,5) show ?thesis by (auto simp: refusal_outcome_def seen_def)
  qed
qed

lemma refusal_step:
  assumes "refusal_loop w opts k t = Some (r, t')"
  shows "(\<exists>new. t' = t @ new \<and> length (submissions new) \<le> 1 \<and> refusal_outcome new r)
    \<or> (\<exists>pre s. submissions pre = [s] \<and> expired_send s \<and> k < so_maxBlockhashRetries opts
         \<and> refusal_loop w opts (k + 1) (t @ pre) = Some (r, t'))"
proof -
  have foreign: "refusal_outcome new (Inl (Foreign c))" for new c by (simp add: refusal_outcome_def)
  have plain: "refusal_outcome new (Inl (no_status opts sg))" "refusal_outcome new (Inl (never_landed w opts sg error))"
    for new sg error by (simp_all add: refusal_outcome_def no_status_def never_landed_def)
  from assms consider e where "attempt_send w opts Skip_preflight t = Some (Inl e, t')" "r = Inl e"
    | sg answer u where "attempt_send w opts Skip_preflight t = Some (Inr (sg, answer), u)"
      "(case answer of
          None \<Rightarrow> and_then (confirmBySignature w sg (so_confirm opts) u) (\<lambda>c t.
              if \<not> cf_found c \<or> cf_timedOut c then Some (Inl (no_status opts sg), t)
              else finishRefusal w opts sg c t)
        | Some error \<Rightarrow>
            if isPreSubmissionBlockhashExpiry error
            then (if k \<ge> so_maxBlockhashRetries opts then Some (Inl (not_broadcast opts), u)
                  else refusal_loop w opts (k + 1) u)
            else and_then (confirmBySignature w sg (so_confirm opts) u) (\<lambda>c t.
              if \<not> cf_found c then Some (Inl (never_landed w opts sg error), t)
              else finishRefusal w opts sg c t)) = Some (r, t')"
    by (subst (asm) refusal_loop.simps) (auto simp: and_then_Some)
  then show ?thesis
  proof cases
    case (1 e)
    with attempt_failed [OF 1(1)] show ?thesis by auto
  next
    case (2 sg answer u)
    from attempt_facts [OF 2(1)] obtain pre where pre: "u = t @ pre" "submissions pre = [(sg, answer)]" by auto
    show ?thesis
    proof (cases answer)
      case None
      with 2(2) pre(1) have run: "and_then (confirmBySignature w sg (so_confirm opts) (t @ pre)) (\<lambda>c t.
          if \<not> cf_found c \<or> cf_timedOut c then Some (Inl (no_status opts sg), t)
          else finishRefusal w opts sg c t) = Some (r, t')" by simp
      have "\<exists>new. t' = t @ new \<and> length (submissions new) \<le> 1 \<and> refusal_outcome new r"
        by (rule settle_outcome [where good = refusal_outcome, OF run pre(2) foreign])
          (use pre(2) plain finish_outcome in \<open>auto split: if_splits\<close>)
      then show ?thesis ..
    next
      case (Some error)
      show ?thesis
      proof (cases "isPreSubmissionBlockhashExpiry error")
        case True
        then have sent: "expired_send (sg, answer)" using Some by (simp add: expired_send_def)
        show ?thesis
        proof (cases "k < so_maxBlockhashRetries opts")
          case True
          with 2(2) pre Some \<open>isPreSubmissionBlockhashExpiry error\<close> sent show ?thesis by auto
        next
          case False
          with 2(2) pre Some \<open>isPreSubmissionBlockhashExpiry error\<close> expired_outcome [OF pre(2) sent]
          show ?thesis by auto
        qed
      next
        case False
        with 2(2) pre(1) Some have run: "and_then (confirmBySignature w sg (so_confirm opts) (t @ pre)) (\<lambda>c t.
            if \<not> cf_found c then Some (Inl (never_landed w opts sg error), t)
            else finishRefusal w opts sg c t) = Some (r, t')" by simp
        have "\<exists>new. t' = t @ new \<and> length (submissions new) \<le> 1 \<and> refusal_outcome new r"
          by (rule settle_outcome [where good = refusal_outcome, OF run pre(2) foreign])
            (use pre(2) plain finish_outcome in \<open>auto split: if_splits\<close>)
        then show ?thesis ..
      qed
    qed
  qed
qed

lemma refusal_run:
  assumes "sendExpectingRefusal w opts t = Some (r, t')"
  shows "\<exists>new. t' = t @ new \<and> never_resent (so_maxBlockhashRetries opts) new \<and> refusal_outcome new r"
proof -
  have "\<exists>new. t' = t @ new \<and> never_resent (so_maxBlockhashRetries opts - 0) new \<and> refusal_outcome new r"
    by (rule retry_run [where run = "refusal_loop w opts" and good = refusal_outcome, OF refusal_step])
      (use refusal_outcome_extend assms in \<open>auto simp: sendExpectingRefusal_def\<close>)
  then show ?thesis by simp
qed

text \<open>
  C31: A refusal is evidence. A transaction that must be refused is submitted under the same rule,
  never again after it may have gone out; a refusal row is only written for a signature the
  chain answered for with an error, and passes the check every published row must pass; a
  custody defect is only raised when the chain answered for the signature without one; and
  nothing thrown by the client is ever taken for a refusal.
\<close>

theorem refusal_proven:
  assumes "sendExpectingRefusal w opts t = Some (r, t')"
  shows "\<exists>new. t' = t @ new \<and> never_resent (so_maxBlockhashRetries opts) new \<and> refusal_outcome new r
    \<and> (\<forall>row label. r = Inr row \<and> rf_signature row \<noteq> [] \<longrightarrow>
         (let e = \<lparr>er_label = label, er_signature = Some (rf_signature row), er_onChain = rf_onChain row,
                   er_err = rf_err row\<rparr>
          in assertProvenRefusal (Some e) = Inr e))"
proof -
  from refusal_run [OF assms] obtain new where
    new: "t' = t @ new" "never_resent (so_maxBlockhashRetries opts) new" "refusal_outcome new r" by blast
  have "rf_onChain row \<and> has_err (rf_err row)" if "r = Inr row" for row
    using new(3) that by (simp add: refusal_outcome_def)
  then have "assertProvenRefusal (Some \<lparr>er_label = label, er_signature = Some (rf_signature row),
      er_onChain = rf_onChain row, er_err = rf_err row\<rparr>) = Inr \<lparr>er_label = label,
      er_signature = Some (rf_signature row), er_onChain = rf_onChain row, er_err = rf_err row\<rparr>"
    if "r = Inr row" "rf_signature row \<noteq> []" for row label
    using that by (force simp: assertProvenRefusal_def has_err_def split: option.splits)
  with new show ?thesis unfolding Let_def by blast
qed

section \<open>Coming to an end\<close>

definition polls_bounded :: "send_options \<Rightarrow> trace \<Rightarrow> bool" where
  "polls_bounded opts new \<longleftrightarrow>
     polls new \<le> 1 \<or> (int (polls new) - 2) * co_intervalMs (so_confirm opts) < co_timeoutMs (so_confirm opts)"

lemma attempt_total: "\<exists>r new. attempt_send w opts mode t = Some (r, t @ new) \<and> polls new = 0"
proof -
  have "attempt_send w opts mode t \<noteq> None"
    by (auto simp: attempt_send_def and_then_def prepareTransaction_def Let_def
        split: sum.splits option.splits prod.splits)
  then obtain r t' where "attempt_send w opts mode t = Some (r, t')" by auto
  then show ?thesis using attempt_facts by blast
qed

lemma settle_total:
  assumes "clock_runs w" and "1 \<le> co_intervalMs (so_confirm opts)" and "polls pre = 0"
    and "\<And>c u. \<exists>r more. f c u = Some (r, u @ more) \<and> polls more = 0"
  shows "\<exists>r new. and_then (confirmBySignature w signature (so_confirm opts) (t @ pre)) f = Some (r, t @ new)
    \<and> polls_bounded opts new"
proof -
  from confirm_total [OF assms(1,2), of signature "t @ pre"] obtain r new where
    c: "confirmBySignature w signature (so_confirm opts) (t @ pre) = Some (r, (t @ pre) @ new)"
      "polls new = 1 \<or> (int (polls new) - 2) * co_intervalMs (so_confirm opts) < co_timeoutMs (so_confirm opts)"
    by blast
  show ?thesis
  proof (cases r)
    case (Inl e)
    with c assms(3) show ?thesis
      by (intro exI [of _ "Inl e"] exI [of _ "pre @ new"]) (auto simp: and_then_def polls_bounded_def)
  next
    case (Inr a)
    from assms(4) [of a "(t @ pre) @ new"] obtain r' more where
      "f a ((t @ pre) @ new) = Some (r', ((t @ pre) @ new) @ more)" "polls more = 0" by blast
    with c Inr assms(3) show ?thesis
      by (intro exI [of _ r'] exI [of _ "pre @ new @ more"]) (auto simp: and_then_def polls_bounded_def)
  qed
qed

lemma finish_total: "\<exists>r more. finishRefusal w opts signature c u = Some (r, u @ more) \<and> polls more = 0"
  by (auto simp: finishRefusal_def fetched_logs_def Let_def)

lemma polls_extend: "polls pre = 0 \<Longrightarrow> polls_bounded opts new \<Longrightarrow> polls_bounded opts (pre @ new)"
  by (simp add: polls_bounded_def)

lemma retry_total:
  fixes retries :: int
  assumes "\<And>k t. (\<exists>r new. run k t = Some (r, t @ new) \<and> polls_bounded opts new)
      \<or> (k < retries \<and> (\<exists>pre. polls pre = 0 \<and> run k t = run (k + 1) (t @ pre)))"
  shows "\<exists>r new. run k t = Some (r, t @ new) \<and> polls_bounded opts new"
proof (induction "nat (retries - k)" arbitrary: k t rule: less_induct)
  case less
  from assms [of k t] show ?case
  proof (elim disjE exE conjE)
    fix pre assume pre: "k < retries" "polls pre = 0" "run k t = run (k + 1) (t @ pre)"
    from less [of "k + 1" "t @ pre"] pre(1) obtain r new where
      "run (k + 1) (t @ pre) = Some (r, (t @ pre) @ new)" "polls_bounded opts new" by auto
    with pre polls_extend [OF pre(2)] show ?thesis by (auto intro!: exI [of _ "pre @ new"])
  qed blast
qed

lemma success_step_total:
  assumes "clock_runs w" and "1 \<le> co_intervalMs (so_confirm opts)"
  shows "(\<exists>r new. success_loop w opts k t = Some (r, t @ new) \<and> polls_bounded opts new)
    \<or> (k < so_maxBlockhashRetries opts
         \<and> (\<exists>pre. polls pre = 0 \<and> success_loop w opts k t = success_loop w opts (k + 1) (t @ pre)))"
proof -
  obtain r pre where pre: "attempt_send w opts Preflight t = Some (r, t @ pre)" "polls pre = 0"
    using attempt_total by blast
  note settle = settle_total [OF assms pre(2)]
  have none: "\<exists>r more. Some (x, u) = Some (r, u @ more) \<and> polls more = 0" for x :: "failure + success_report" and u
    by (auto intro: exI [of _ "[]"])
  consider e where "r = Inl e" | sg where "r = Inr (sg, None)"
    | sg error where "r = Inr (sg, Some error)" "isPreSubmissionBlockhashExpiry error"
    | sg error where "r = Inr (sg, Some error)" "\<not> isPreSubmissionBlockhashExpiry error"
    by (metis not_None_eq obj_sumE surj_pair)
  then show ?thesis
  proof cases
    case (2 sg)
    with pre settle [of "\<lambda>c t. Some (after_submitted w opts sg c, t)" sg t] none show ?thesis
      by (subst (1) success_loop.simps) (simp add: and_then_def)
  next
    case (4 sg error)
    with pre settle [of "\<lambda>c t. Some (after_ambiguity w opts sg error c, t)" sg t] none show ?thesis
      by (subst (1) success_loop.simps) (simp add: and_then_def)
  next
    case (3 sg error)
    with pre have eq: "success_loop w opts k t = (if k \<ge> so_maxBlockhashRetries opts
        then Some (Inl (expired opts k), t @ pre) else success_loop w opts (k + 1) (t @ pre))"
      by (subst success_loop.simps) (simp add: and_then_def)
    with pre(2) show ?thesis by (cases "k < so_maxBlockhashRetries opts") (auto simp: polls_bounded_def)
  qed (use pre in \<open>subst (1) success_loop.simps, auto simp: and_then_def polls_bounded_def\<close>)
qed

lemma refusal_step_total:
  assumes "clock_runs w" and "1 \<le> co_intervalMs (so_confirm opts)"
  shows "(\<exists>r new. refusal_loop w opts k t = Some (r, t @ new) \<and> polls_bounded opts new)
    \<or> (k < so_maxBlockhashRetries opts
         \<and> (\<exists>pre. polls pre = 0 \<and> refusal_loop w opts k t = refusal_loop w opts (k + 1) (t @ pre)))"
proof -
  obtain r pre where pre: "attempt_send w opts Skip_preflight t = Some (r, t @ pre)" "polls pre = 0"
    using attempt_total by blast
  note settle = settle_total [OF assms pre(2)]
  have finish: "\<exists>r more. (if b then Some (x, u) else finishRefusal w opts sg c u) = Some (r, u @ more)
      \<and> polls more = 0" for x :: "failure + refusal_row" and b sg c u
    using finish_total [of w opts sg c u] by (auto intro: exI [of _ "[]"])
  consider e where "r = Inl e" | sg where "r = Inr (sg, None)"
    | sg error where "r = Inr (sg, Some error)" "isPreSubmissionBlockhashExpiry error"
    | sg error where "r = Inr (sg, Some error)" "\<not> isPreSubmissionBlockhashExpiry error"
    by (metis not_None_eq obj_sumE surj_pair)
  then show ?thesis
  proof cases
    case (2 sg)
    with pre settle [of "\<lambda>c t. if \<not> cf_found c \<or> cf_timedOut c then Some (Inl (no_status opts sg), t)
        else finishRefusal w opts sg c t" sg t] finish show ?thesis
      by (subst (1) refusal_loop.simps) (simp add: and_then_def)
  next
    case (4 sg error)
    with pre settle [of "\<lambda>c t. if \<not> cf_found c then Some (Inl (never_landed w opts sg error), t)
        else finishRefusal w opts sg c t" sg t] finish show ?thesis
      by (subst (1) refusal_loop.simps) (simp add: and_then_def)
  next
    case (3 sg error)
    with pre have eq: "refusal_loop w opts k t = (if k \<ge> so_maxBlockhashRetries opts
        then Some (Inl (not_broadcast opts), t @ pre) else refusal_loop w opts (k + 1) (t @ pre))"
      by (subst refusal_loop.simps) (simp add: and_then_def)
    with pre(2) show ?thesis by (cases "k < so_maxBlockhashRetries opts") (auto simp: polls_bounded_def)
  qed (use pre in \<open>subst (1) refusal_loop.simps, auto simp: and_then_def polls_bounded_def\<close>)
qed

text \<open>
  C32: Every send ends. Whatever the endpoint answers, if the clock runs at least as fast as the
  waits, both kinds of send return, after no more status requests than fit into the deadline.
\<close>

theorem transactions_resolve:
  assumes "clock_runs w" and "1 \<le> co_intervalMs (so_confirm opts)"
  shows "(\<exists>r new. sendExpectingSuccess w opts t = Some (r, t @ new) \<and> polls_bounded opts new)
    \<and> (\<exists>r new. sendExpectingRefusal w opts t = Some (r, t @ new) \<and> polls_bounded opts new)"
  unfolding sendExpectingSuccess_def sendExpectingRefusal_def
  by (intro conjI) (rule retry_total, rule success_step_total [OF assms],
      rule retry_total, rule refusal_step_total [OF assms])

end
