(* ===== verification/Custody_Invariants.thy ===== *)
theory Custody_Invariants
  imports Js_Text Rpc
begin

text \<open>
  The custody invariants as arithmetic over observed balances
  (\<open>scripts/lib/custody-invariants.mjs\<close>): snapshots, movements, the complete-delta assertion
  and the checks built on it. The detail object of a violation is not modelled; its message is.
\<close>

definition invariant_violation :: "string \<Rightarrow> string \<Rightarrow> 'a result" where
  "invariant_violation invariant message = throw InvariantViolation (invariant @ '' violated: '' @ message)"

section \<open>Amounts\<close>

datatype amount_input =
    Big_amount int
  | Number_amount js_number
  | Text_amount string
  | Other_amount string

definition radix_digits :: "nat \<Rightarrow> string \<Rightarrow> int option" where
  "radix_digits r s =
     (let digit = (\<lambda>c. let n = of_char c :: nat in
            if 48 \<le> n \<and> n \<le> 57 then n - 48
            else if 65 \<le> n \<and> n \<le> 70 then n - 55
            else if 97 \<le> n \<and> n \<le> 102 then n - 87 else 99)
      in if s \<noteq> [] \<and> list_all (\<lambda>c. digit c < r) s
         then Some (foldl (\<lambda>acc c. acc * int r + int (digit c)) 0 s) else None)"

text \<open>\<open>BigInt(text)\<close>: a signed decimal, an unsigned literal with a radix, or nothing but space.\<close>

definition big_of_string :: "string \<Rightarrow> int option" where
  "big_of_string text =
     (let s = js_trim text
      in if s = [] then Some 0
         else if take 2 s = ''0x'' \<or> take 2 s = ''0X'' then radix_digits 16 (drop 2 s)
         else if take 2 s = ''0o'' \<or> take 2 s = ''0O'' then radix_digits 8 (drop 2 s)
         else if take 2 s = ''0b'' \<or> take 2 s = ''0B'' then radix_digits 2 (drop 2 s)
         else if hd s = CHR ''-'' then map_option uminus (radix_digits 10 (tl s))
         else if hd s = CHR ''+'' then radix_digits 10 (tl s)
         else radix_digits 10 s)"

text \<open>How a number that is no safe integer is written into the message is a parameter.\<close>

fun toAmount :: "(js_number \<Rightarrow> string) \<Rightarrow> amount_input \<Rightarrow> int result" where
  "toAmount num (Big_amount v) = Inr v"
| "toAmount num (Number_amount n) =
     (if \<not> (is_integer n \<and> \<bar>whole n\<bar> \<le> max_safe_integer)
      then throw TypeError (num n @ '' is not a safe integer amount'')
      else Inr (whole n))"
| "toAmount num (Text_amount s) =
     (case big_of_string s of
        Some v \<Rightarrow> Inr v
      | None \<Rightarrow> throw SyntaxError (''Cannot convert '' @ s @ '' to a BigInt''))"
| "toAmount num (Other_amount kind) = throw TypeError (''cannot read '' @ kind @ '' as a token amount'')"

section \<open>Snapshots\<close>

type_synonym balances = "(string \<times> int) list"

definition BalanceSnapshot :: "(js_number \<Rightarrow> string) \<Rightarrow> (string \<times> amount_input) list \<Rightarrow> balances result" where
  "BalanceSnapshot num entries =
     foldR (\<lambda>held (address, amount). bindR (toAmount num amount) (\<lambda>v. Inr (map_set address v held))) [] entries"

definition snapshot_get :: "balances \<Rightarrow> string \<Rightarrow> int result" where
  "snapshot_get held address =
     (case map_get held address of
        None \<Rightarrow> invariant_violation ''PPV-P1'' (''no balance was recorded for '' @ address
          @ ''; an unwatched account cannot be asserted about'')
      | Some v \<Rightarrow> Inr v)"

definition snapshot_addresses :: "balances \<Rightarrow> string list" where
  "snapshot_addresses held = js_sort str_cmp (map fst held)"

definition snapshot_json :: "balances \<Rightarrow> (string \<times> string) list" where
  "snapshot_json held = map (\<lambda>(address, amount). (address, dec_int amount)) held"

definition or_zero_at :: "balances \<Rightarrow> string \<Rightarrow> int" where
  "or_zero_at held address = (case map_get held address of None \<Rightarrow> 0 | Some v \<Rightarrow> v)"

definition watched :: "balances \<Rightarrow> balances \<Rightarrow> string list" where
  "watched before after = map fst before @ filter (\<lambda>a. a \<notin> fst ` set before) (map fst after)"

definition deltas :: "balances \<Rightarrow> balances \<Rightarrow> balances" where
  "deltas before after =
     map (\<lambda>address. (address, or_zero_at after address - or_zero_at before address)) (watched before after)"

section \<open>The complete-delta assertion\<close>

definition plus_text :: "int \<Rightarrow> string" where
  "plus_text v = (if v \<ge> 0 then ''+'' else []) @ dec_int v"

definition wanted_map :: "(js_number \<Rightarrow> string) \<Rightarrow> (string \<times> amount_input) list \<Rightarrow> balances result" where
  "wanted_map num expected =
     bindR (mapR (\<lambda>(address, amount). bindR (toAmount num amount) (\<lambda>v. Inr (address, v))) expected)
       (\<lambda>entries. Inr (foldl (\<lambda>m (address, v). map_set address v m) [] entries))"

definition wrong_moves :: "balances \<Rightarrow> balances \<Rightarrow> string list" where
  "wrong_moves wanted observed =
     List.map_filter (\<lambda>(address, moved).
       let want = or_zero_at wanted address
       in if moved \<noteq> want
          then Some (address @ '': expected '' @ plus_text want @ '', observed '' @ plus_text moved)
          else None) observed"

definition assertDeltas ::
    "(js_number \<Rightarrow> string) \<Rightarrow> balances \<Rightarrow> balances \<Rightarrow> (string \<times> amount_input) list \<Rightarrow> string \<Rightarrow> string
       \<Rightarrow> (string \<times> string) list result" where
  "assertDeltas num before after expected label invariant =
     (let observed = deltas before after
      in bindR (wanted_map num expected) (\<lambda>wanted.
         case find (\<lambda>(address, amount). map_get observed address = None) wanted of
           Some (address, amount) \<Rightarrow>
             invariant_violation invariant (label @ '': '' @ address @ '' was expected to move by ''
               @ dec_int amount @ '' but is not a watched account'')
         | None \<Rightarrow>
             (let wrong = wrong_moves wanted observed
              in if wrong \<noteq> []
                 then invariant_violation invariant (label
                   @ '': balances did not move as the protocol says -- '' @ join_with ''; '' wrong)
                 else let total = sum_list (map snd observed)
                      in if total \<noteq> 0
                         then invariant_violation ''PPV-P1'' (label @ '': watched balances changed by a net ''
                           @ dec_int total @ ''; tokens were created or destroyed, or a participating account is not being watched'')
                         else Inr (snapshot_json observed))))"

text \<open>The object literals of the callers: a repeated key keeps its place and its last value.\<close>

definition assertPayout ::
    "(js_number \<Rightarrow> string) \<Rightarrow> balances \<Rightarrow> balances \<Rightarrow> string \<Rightarrow> string \<Rightarrow> amount_input \<Rightarrow> string
       \<Rightarrow> string option \<Rightarrow> (string \<times> string) list result" where
  "assertPayout num before after vault recipient amount label invariant =
     bindR (toAmount num amount) (\<lambda>v.
       assertDeltas num before after
         (map_set recipient (Big_amount v) (map_set vault (Big_amount (- v)) [])) label
         (case invariant of None \<Rightarrow> ''PPV-P4'' | Some i \<Rightarrow> i))"

definition assertFunding ::
    "(js_number \<Rightarrow> string) \<Rightarrow> balances \<Rightarrow> balances \<Rightarrow> string \<Rightarrow> string \<Rightarrow> amount_input \<Rightarrow> string
       \<Rightarrow> (string \<times> string) list result" where
  "assertFunding num before after buyer vault amount label =
     bindR (toAmount num amount) (\<lambda>v.
       assertDeltas num before after
         (map_set vault (Big_amount v) (map_set buyer (Big_amount (- v)) [])) label ''PPV-P8'')"

definition assertNoMovement ::
    "(js_number \<Rightarrow> string) \<Rightarrow> balances \<Rightarrow> balances \<Rightarrow> string \<Rightarrow> string \<Rightarrow> (string \<times> string) list result" where
  "assertNoMovement num before after label invariant = assertDeltas num before after [] label invariant"

section \<open>State and accounting\<close>

record accounted =
  ac_amount :: amount_input
  ac_settledTotal :: amount_input
  ac_fundedAt :: "int option"

record accounting =
  ag_funded :: bool
  ag_owed :: string
  ag_balance :: string

definition assertAccountingConsistent ::
    "(js_number \<Rightarrow> string) \<Rightarrow> accounted \<Rightarrow> amount_input \<Rightarrow> string \<Rightarrow> accounting result" where
  "assertAccountingConsistent num agreement vaultBalance label =
     bindR (toAmount num (ac_amount agreement)) (\<lambda>amount.
     bindR (toAmount num (ac_settledTotal agreement)) (\<lambda>settled.
     bindR (toAmount num vaultBalance) (\<lambda>balance.
     if settled > amount
     then invariant_violation ''PPV-P2'' (label @ '': settled_total '' @ dec_int settled
       @ '' exceeds the agreement amount '' @ dec_int amount)
     else let funded = ((case ac_fundedAt agreement of None \<Rightarrow> 0 | Some t \<Rightarrow> t) \<noteq> 0)
       in if \<not> funded
          then (if settled \<noteq> 0
                then invariant_violation ''PPV-P10'' (label @ '': the agreement was never funded but records ''
                  @ dec_int settled @ '' paid out'')
                else if balance \<noteq> 0
                then invariant_violation ''PPV-P1'' (label @ '': the agreement was never funded but its vault holds ''
                  @ dec_int balance)
                else Inr \<lparr>ag_funded = False, ag_owed = ''0'', ag_balance = ''0''\<rparr>)
          else if amount - settled \<noteq> balance
          then invariant_violation ''PPV-P10'' (label @ '': the agreement says '' @ dec_int (amount - settled)
            @ '' is still owed (amount '' @ dec_int amount @ '' - settled_total '' @ dec_int settled
            @ '') but the vault holds '' @ dec_int balance)
          else Inr \<lparr>ag_funded = True, ag_owed = dec_int (amount - settled), ag_balance = dec_int balance\<rparr>)))"

definition TERMINAL_STATES :: "string list" where
  "TERMINAL_STATES = [''Settled'', ''Cancelled'', ''Refunded'']"

definition assertTerminal :: "string \<Rightarrow> string \<Rightarrow> string result" where
  "assertTerminal state label =
     (if state \<notin> set TERMINAL_STATES
      then invariant_violation ''PPV-P7'' (label @ '': state is '' @ state @ '', which is not terminal'')
      else Inr state)"

definition state_text :: "string option \<Rightarrow> string" where
  "state_text s = (case s of None \<Rightarrow> ''null'' | Some t \<Rightarrow> t)"

text \<open>An amount in a message, as it was given.\<close>

definition amount_text :: "(js_number \<Rightarrow> string) \<Rightarrow> amount_input \<Rightarrow> string" where
  "amount_text num v =
     (case v of Big_amount n \<Rightarrow> dec_int n
      | Number_amount n \<Rightarrow> if is_integer n \<and> \<bar>whole n\<bar> \<le> max_safe_integer then dec_int (whole n) else num n
      | Text_amount s \<Rightarrow> s
      | Other_amount kind \<Rightarrow> kind)"

record refusal_observation =
  ro_label :: string
  ro_before :: balances
  ro_after :: balances
  ro_stateBefore :: "string option"
  ro_stateAfter :: "string option"
  ro_settledTotalBefore :: amount_input
  ro_settledTotalAfter :: amount_input

definition assertRefusalChangedNothing :: "(js_number \<Rightarrow> string) \<Rightarrow> refusal_observation \<Rightarrow> bool result" where
  "assertRefusalChangedNothing num o1 =
     bindR (assertNoMovement num (ro_before o1) (ro_after o1) (ro_label o1 @ '' (refused)'') ''PPV-P7'') (\<lambda>_.
     if ro_stateBefore o1 \<noteq> ro_stateAfter o1
     then invariant_violation ''PPV-P7'' (ro_label o1 @ '': the transaction failed but the agreement state moved ''
       @ state_text (ro_stateBefore o1) @ '' -> '' @ state_text (ro_stateAfter o1))
     else bindR (toAmount num (ro_settledTotalBefore o1)) (\<lambda>b.
       bindR (toAmount num (ro_settledTotalAfter o1)) (\<lambda>a.
       if b \<noteq> a
       then invariant_violation ''PPV-P3'' (ro_label o1 @ '': the transaction failed but settled_total moved ''
         @ amount_text num (ro_settledTotalBefore o1) @ '' -> '' @ amount_text num (ro_settledTotalAfter o1))
       else Inr True)))"

section \<open>What the assertions accept\<close>

definition moved :: "balances \<Rightarrow> balances \<Rightarrow> string \<Rightarrow> int" where
  "moved before after a = or_zero_at after a - or_zero_at before a"

definition total_held :: "balances \<Rightarrow> int" where "total_held s = sum_list (map snd s)"

definition one_each :: "balances \<Rightarrow> bool" where "one_each s \<longleftrightarrow> distinct (map fst s)"

lemma or_zero_at_absent: "a \<notin> fst ` set s \<Longrightarrow> or_zero_at s a = 0"
  by (simp add: or_zero_at_def map_of_eq_None_iff [THEN iffD2])

lemma watched_props:
  assumes "one_each before" and "one_each after"
  shows "distinct (watched before after)" and "set (watched before after) = fst ` set before \<union> fst ` set after"
  using assms by (auto simp: watched_def one_each_def distinct_map)

lemma total_held_sum:
  assumes "one_each s" and "finite A" and "fst ` set s \<subseteq> A"
  shows "total_held s = (\<Sum>a \<in> A. or_zero_at s a)"
proof -
  have "total_held s = sum_list (map (or_zero_at s) (map fst s))"
    using assms(1) unfolding total_held_def one_each_def
    by (auto simp: or_zero_at_def intro!: arg_cong [where f = sum_list])
  also have "\<dots> = (\<Sum>a \<in> fst ` set s. or_zero_at s a)"
    using assms(1) unfolding one_each_def by (subst sum_list_distinct_conv_sum_set) simp_all
  also have "\<dots> = (\<Sum>a \<in> A. or_zero_at s a)"
    by (rule sum.mono_neutral_left [OF assms(2,3)]) (simp add: or_zero_at_absent)
  finally show ?thesis .
qed

lemma deltas_total:
  assumes "one_each before" and "one_each after"
  shows "sum_list (map snd (deltas before after)) = total_held after - total_held before"
proof -
  let ?W = "set (watched before after)"
  have "sum_list (map snd (deltas before after)) = (\<Sum>a \<in> ?W. moved before after a)"
    unfolding deltas_def using watched_props(1) [OF assms]
    by (simp add: comp_def moved_def sum_list_distinct_conv_sum_set)
  also have "\<dots> = (\<Sum>a \<in> ?W. or_zero_at after a) - (\<Sum>a \<in> ?W. or_zero_at before a)"
    by (simp add: moved_def sum_subtractf)
  also have "\<dots> = total_held after - total_held before"
    using total_held_sum [OF assms(1), of ?W] total_held_sum [OF assms(2), of ?W]
      watched_props(2) [OF assms] by simp
  finally show ?thesis .
qed

lemma deltas_get: "map_get (deltas before after) a = None \<longleftrightarrow> a \<notin> fst ` set before \<union> fst ` set after"
  by (auto simp: deltas_def watched_def map_of_eq_None_iff image_iff)

lemma wrong_moves_Nil:
  "wrong_moves wanted (deltas before after) = [] \<longleftrightarrow>
     (\<forall>a \<in> fst ` set before \<union> fst ` set after. moved before after a = or_zero_at wanted a)"
proof -
  have "wrong_moves wanted observed = [] \<longleftrightarrow> (\<forall>(a, m) \<in> set observed. m = or_zero_at wanted a)" for observed
    by (auto simp: wrong_moves_def map_filter_def filter_empty_conv Let_def split: if_splits)
  moreover have "set (watched before after) = fst ` set before \<union> fst ` set after"
    by (auto simp: watched_def)
  then have "set (deltas before after) = (\<lambda>a. (a, moved before after a)) ` (fst ` set before \<union> fst ` set after)"
    by (simp add: deltas_def moved_def)
  ultimately show ?thesis by auto
qed

lemma find_None: "find f xs = None \<longleftrightarrow> (\<forall>x \<in> set xs. \<not> f x)"
  by (auto simp: find_None_iff)

lemma assertDeltas_iff:
  assumes "one_each before" and "one_each after"
  shows "assertDeltas num before after expected label invariant = Inr observed \<longleftrightarrow>
     observed = snapshot_json (deltas before after) \<and> total_held after = total_held before
     \<and> (\<exists>wanted. wanted_map num expected = Inr wanted \<and> fst ` set wanted \<subseteq> fst ` set before \<union> fst ` set after
          \<and> (\<forall>a. moved before after a = or_zero_at wanted a))"
proof -
  have all: "(\<forall>a. moved before after a = or_zero_at w a) \<longleftrightarrow> wrong_moves w (deltas before after) = []"
    if "fst ` set w \<subseteq> fst ` set before \<union> fst ` set after" for w
  proof -
    have "moved before after a = or_zero_at w a" if "a \<notin> fst ` set before \<union> fst ` set after" for a
    proof -
      have "a \<notin> fst ` set w" using that \<open>fst ` set w \<subseteq> _\<close> by blast
      with that show ?thesis by (simp add: moved_def or_zero_at_absent)
    qed
    then show ?thesis unfolding wrong_moves_Nil by blast
  qed
  have named: "find (\<lambda>(a, amount). map_get (deltas before after) a = None) w = None
      \<longleftrightarrow> fst ` set w \<subseteq> fst ` set before \<union> fst ` set after" for w
  proof -
    have "find (\<lambda>(a, amount). map_get (deltas before after) a = None) w = None
        \<longleftrightarrow> (\<forall>a \<in> fst ` set w. a \<in> fst ` set before \<union> fst ` set after)"
      by (simp add: find_None deltas_get split_def)
    then show ?thesis by blast
  qed
  show ?thesis
  proof (cases "wanted_map num expected")
    case (Inr w)
    show ?thesis
    proof (cases "fst ` set w \<subseteq> fst ` set before \<union> fst ` set after")
      case True
      with named have "find (\<lambda>(a, amount). map_get (deltas before after) a = None) w = None" by blast
      then show ?thesis
        using Inr True all [OF True] deltas_total [OF assms]
        by (auto simp: assertDeltas_def Let_def invariant_violation_def)
    next
      case False
      with named have "find (\<lambda>(a, amount). map_get (deltas before after) a = None) w \<noteq> None" by blast
      then obtain x where "find (\<lambda>(a, amount). map_get (deltas before after) a = None) w = Some x" by blast
      with Inr False show ?thesis
        by (cases x) (auto simp: assertDeltas_def Let_def invariant_violation_def)
    qed
  qed (simp add: assertDeltas_def Let_def)
qed

section \<open>The checks built on it\<close>

text \<open>A snapshot holds one balance for each account.\<close>

lemma snapshot_one_each: "BalanceSnapshot num entries = Inr s \<Longrightarrow> one_each s"
  unfolding BalanceSnapshot_def one_each_def
  by (erule foldR_invariant) (auto simp: bindR_eq_Inr distinct_update split: prod.splits)

text \<open>A transfer between two accounts, seen as movements.\<close>

lemma transfer_iff:
  assumes "one_each before" and "one_each after" and "payer \<noteq> payee"
  shows "assertDeltas num before after (map_set payee (Big_amount v) (map_set payer (Big_amount (- v)) []))
      label invariant = Inr observed \<longleftrightarrow>
    observed = snapshot_json (deltas before after)
    \<and> {payer, payee} \<subseteq> fst ` set before \<union> fst ` set after
    \<and> (\<forall>a. or_zero_at after a = or_zero_at before a
         + (if a = payer then - v else if a = payee then v else 0))"
proof -
  let ?moves = "\<forall>a. or_zero_at after a = or_zero_at before a
    + (if a = payer then - v else if a = payee then v else 0)"
  have wanted: "wanted_map num (map_set payee (Big_amount v) (map_set payer (Big_amount (- v)) []))
      = Inr [(payer, - v), (payee, v)]"
    using assms(3) by (simp add: wanted_map_def)
  have same: "(\<forall>a. moved before after a = or_zero_at [(payer, - v), (payee, v)] a) \<longleftrightarrow> ?moves"
    using assms(3) by (simp add: moved_def or_zero_at_def diff_eq_eq algebra_simps)
  have total: "total_held after = total_held before"
    if "{payer, payee} \<subseteq> fst ` set before \<union> fst ` set after" "?moves"
  proof -
    let ?A = "fst ` set before \<union> fst ` set after"
    have "(\<Sum>a \<in> ?A. or_zero_at after a)
        = (\<Sum>a \<in> ?A. or_zero_at before a) + (\<Sum>a \<in> ?A. if a = payer then - v else if a = payee then v else 0)"
      using that(2) by (simp add: sum.distrib)
    also have "(\<Sum>a \<in> ?A. if a = payer then - v else if a = payee then v else 0)
        = (\<Sum>a \<in> {payer, payee}. if a = payer then - v else if a = payee then v else 0)"
      using that(1) by (intro sum.mono_neutral_right) auto
    also have "\<dots> = 0" using assms(3) by simp
    finally show ?thesis
      using total_held_sum [OF assms(1), of ?A] total_held_sum [OF assms(2), of ?A] by simp
  qed
  show ?thesis
  proof -
    let ?held = "{payer, payee} \<subseteq> fst ` set before \<union> fst ` set after"
    have "fst ` set [(payer, - v), (payee, v)] = {payer, payee}" by simp
    then have named: "(\<exists>w. Inr [(payer, - v), (payee, v)] = (Inr w :: balances result)
          \<and> fst ` set w \<subseteq> fst ` set before \<union> fst ` set after \<and> (\<forall>a. moved before after a = or_zero_at w a))
        \<longleftrightarrow> ?held \<and> ?moves"
      using same by (metis sum.inject(2))
    have "?held \<and> ?moves \<longrightarrow> total_held after = total_held before" using total by (intro impI) (erule conjE)
    then show ?thesis unfolding assertDeltas_iff [OF assms(1,2)] wanted named by argo
  qed
qed


definition paid_before :: "(string \<times> amount_input) list" where
  "paid_before = [(''vault'', Big_amount 10), (''seller'', Number_amount (Whole 0)), (''other'', Text_amount ''5'')]"

definition paid_after :: "(string \<times> amount_input) list" where
  "paid_after = [(''vault'', Big_amount 7), (''seller'', Big_amount 3), (''other'', Big_amount 5)]"

lemma paid_snapshots:
  "BalanceSnapshot num paid_before = Inr [(''vault'', 10), (''seller'', 0), (''other'', 5)]"
  "BalanceSnapshot num paid_after = Inr [(''vault'', 7), (''seller'', 3), (''other'', 5)]"
  by (simp_all add: BalanceSnapshot_def paid_before_def paid_after_def big_of_string_def js_trim_def
      is_space_def radix_digits_def max_safe_integer_def)


end
