(* ===== verification/Squads.thy ===== *)
theory Squads
  imports Script_Pubkey Js_Text Hashing Reader
begin

text \<open>
  Reading a Squads multisig off the chain (\<open>scripts/lib/squads.mjs\<close>): the account decoder, the
  vault derivation, and the comparison of the live account with the declared policy. The hash
  and the base64 decoder of the host are parameters.
\<close>

unbundle bit_operations_syntax

definition SQUADS_V4_PROGRAM_ID :: string where
  "SQUADS_V4_PROGRAM_ID = ''SQDS4ep65T869zMMBKyuUq6aD6EgTu8psMjkvj52pCf''"

definition MULTISIG_DISCRIMINATOR :: bytes where
  "MULTISIG_DISCRIMINATOR = [224, 116, 121, 186, 68, 161, 79, 236]"

definition PERMISSION_INITIATE :: int where "PERMISSION_INITIATE = 1"
definition PERMISSION_VOTE :: int where "PERMISSION_VOTE = 2"
definition PERMISSION_EXECUTE :: int where "PERMISSION_EXECUTE = 4"
definition PERMISSION_ALL :: int where
  "PERMISSION_ALL = PERMISSION_INITIATE OR PERMISSION_VOTE OR PERMISSION_EXECUTE"

section \<open>Vault addresses\<close>

definition squads_createProgramAddress ::
    "(bytes \<Rightarrow> bytes) \<Rightarrow> bytes list \<Rightarrow> string \<Rightarrow> string option result" where
  "squads_createProgramAddress sha seeds programId =
     bindR (script_decodeBase58 programId) (\<lambda>pid.
       let digest = sha (concat (seeds @ [pid, utf8 ''ProgramDerivedAddress'']));
           address = script_encodeBase58 digest
       in bindR (script_isOnCurve address) (\<lambda>onCurve. Inr (if onCurve then None else Some address)))"

text \<open>The loop over the bumps below \<open>n\<close>, from the highest.\<close>

fun squads_bump_loop ::
    "(bytes \<Rightarrow> bytes) \<Rightarrow> bytes list \<Rightarrow> string \<Rightarrow> nat \<Rightarrow> (string \<times> nat) result" where
  "squads_bump_loop sha seeds programId 0 = throw SquadsDecodeError ''no off-curve bump exists for these seeds''"
| "squads_bump_loop sha seeds programId (Suc bump) =
     bindR (squads_createProgramAddress sha (seeds @ [[word_of_nat bump]]) programId) (\<lambda>address.
       case address of
         Some a \<Rightarrow> if a = [] then squads_bump_loop sha seeds programId bump else Inr (a, bump)
       | None \<Rightarrow> squads_bump_loop sha seeds programId bump)"

definition squads_findProgramAddress ::
    "(bytes \<Rightarrow> bytes) \<Rightarrow> bytes list \<Rightarrow> string \<Rightarrow> (string \<times> nat) result" where
  "squads_findProgramAddress sha seeds programId = squads_bump_loop sha seeds programId 256"

definition squads_deriveVault ::
    "(bytes \<Rightarrow> bytes) \<Rightarrow> (js_number \<Rightarrow> string) \<Rightarrow> string \<Rightarrow> js_number \<Rightarrow> string \<Rightarrow> (string \<times> nat) result" where
  "squads_deriveVault sha num multisig index programId =
     (if \<not> is_integer index \<or> negative index \<or> whole index > 255
      then throw SquadsDecodeError (''vault index '' @ num index @ '' is not a u8'')
      else bindR (script_decodeBase58 multisig) (\<lambda>key.
        squads_findProgramAddress sha
          [utf8 ''multisig'', key, utf8 ''vault'', [word_of_int (whole index)]] programId))"

definition permissionNames :: "int \<Rightarrow> string list" where
  "permissionNames bits =
     (if bits AND PERMISSION_INITIATE \<noteq> 0 then [''Initiate''] else [])
     @ (if bits AND PERMISSION_VOTE \<noteq> 0 then [''Vote''] else [])
     @ (if bits AND PERMISSION_EXECUTE \<noteq> 0 then [''Execute''] else [])"

section \<open>The account\<close>

record squads_member =
  sm_key :: string
  sm_mask :: int
  sm_permissions :: "string list"

record multisig =
  ms_createKey :: string
  ms_configAuthority :: string
  ms_threshold :: int
  ms_timeLock :: int
  ms_transactionIndex :: int
  ms_staleTransactionIndex :: int
  ms_rentCollector :: "string option"
  ms_bump :: int
  ms_members :: "squads_member list"
  ms_trailingBytes :: nat

datatype account_data = Base64_text string | Byte_data bytes | No_data

definition need :: "bytes \<Rightarrow> nat \<Rightarrow> nat \<Rightarrow> string \<Rightarrow> unit result" where
  "need bs offset len what =
     (if length bs < offset + len
      then throw SquadsDecodeError (''Multisig account is '' @ dec_nat (length bs)
        @ '' bytes, too short to hold '' @ what)
      else Inr ())"

definition subarray :: "bytes \<Rightarrow> nat \<Rightarrow> nat \<Rightarrow> bytes" where
  "subarray bs offset len = take len (drop offset bs)"

definition read_le :: "bytes \<Rightarrow> nat \<Rightarrow> nat \<Rightarrow> int" where
  "read_le bs offset len = int (le_nat (subarray bs offset len))"

fun read_members :: "bytes \<Rightarrow> nat \<Rightarrow> nat \<Rightarrow> squads_member list \<times> nat" where
  "read_members bs offset 0 = ([], offset)"
| "read_members bs offset (Suc n) =
     (let key = script_encodeBase58 (subarray bs offset 32); bits = read_le bs (offset + 32) 1;
          (members, offset) = read_members bs (offset + 33) n
      in (\<lparr>sm_key = key, sm_mask = bits, sm_permissions = permissionNames bits\<rparr> # members, offset))"

text \<open>The rent collector at byte 94, with the offset behind it.\<close>

definition read_rent_collector :: "bytes \<Rightarrow> (string option \<times> nat) result" where
  "read_rent_collector bs =
     bindR (need bs 94 1 ''the rent-collector option tag'') (\<lambda>_.
       let tag = read_le bs 94 1
       in if tag = 1
          then bindR (need bs 95 32 ''a rent-collector address'') (\<lambda>_.
            Inr (Some (script_encodeBase58 (subarray bs 95 32)), 127))
          else if tag \<noteq> 0
          then throw SquadsDecodeError (''invalid Option tag '' @ dec_int tag @ '' for rent_collector'')
          else Inr (None, 95))"

definition decode_multisig_bytes :: "bytes \<Rightarrow> multisig result" where
  "decode_multisig_bytes bs =
     bindR (need bs 0 8 ''an account discriminator'') (\<lambda>_.
     if subarray bs 0 8 \<noteq> MULTISIG_DISCRIMINATOR
     then throw SquadsDecodeError (''account discriminator is '' @ hex (subarray bs 0 8)
       @ '', not the Squads V4 Multisig discriminator '' @ hex MULTISIG_DISCRIMINATOR)
     else bindR (need bs 8 86 ''the multisig header'') (\<lambda>_.
     bindR (read_rent_collector bs) (\<lambda>(rentCollector, offset).
     bindR (need bs offset 1 ''the multisig bump'') (\<lambda>_.
     bindR (need bs (offset + 1) 4 ''the member count'') (\<lambda>_.
     let memberCount = le_nat (subarray bs (offset + 1) 4)
     in bindR (need bs (offset + 5) (memberCount * 33) (dec_nat memberCount @ '' member(s)'')) (\<lambda>_.
        let (members, finish) = read_members bs (offset + 5) memberCount
        in Inr \<lparr>ms_createKey = script_encodeBase58 (subarray bs 8 32),
             ms_configAuthority = script_encodeBase58 (subarray bs 40 32),
             ms_threshold = read_le bs 72 2, ms_timeLock = read_le bs 74 4,
             ms_transactionIndex = read_le bs 78 8, ms_staleTransactionIndex = read_le bs 86 8,
             ms_rentCollector = rentCollector, ms_bump = read_le bs offset 1, ms_members = members,
             ms_trailingBytes = length bs - finish\<rparr>))))))"

definition decodeMultisig :: "(string \<Rightarrow> bytes) \<Rightarrow> account_data \<Rightarrow> multisig result" where
  "decodeMultisig base64 data =
     (case data of
        Base64_text s \<Rightarrow> decode_multisig_bytes (base64 s)
      | Byte_data bs \<Rightarrow> decode_multisig_bytes bs
      | No_data \<Rightarrow> throw SquadsDecodeError ''account data must be base64, a Buffer or a typed array'')"

record account_info =
  ai_owner :: string
  ai_executable :: bool
  ai_data :: string
  ai_lamports :: int

record live_multisig = multisig +
  lm_address :: string
  lm_owner :: string
  lm_lamports :: int

definition readMultisig ::
    "(string \<Rightarrow> bytes) \<Rightarrow> (string \<Rightarrow> account_info option result) \<Rightarrow> string \<Rightarrow> string
       \<Rightarrow> live_multisig result" where
  "readMultisig base64 accountInfo address programId =
     bindR (accountInfo address) (\<lambda>account.
     case account of
       None \<Rightarrow> throw SquadsDecodeError (''no account exists at '' @ address)
     | Some a \<Rightarrow>
         if ai_owner a \<noteq> programId
         then throw SquadsDecodeError (address @ '' is owned by '' @ ai_owner a
           @ '', not the Squads V4 program '' @ programId @ ''; it is not a multisig whatever its bytes say'')
         else if ai_executable a
         then throw SquadsDecodeError (address @ '' is executable; a multisig account is not a program'')
         else bindR (decodeMultisig base64 (Base64_text (ai_data a))) (\<lambda>m.
           Inr (multisig.extend m \<lparr>lm_address = address, lm_owner = ai_owner a, lm_lamports = ai_lamports a\<rparr>)))"

section \<open>The policy\<close>

record squads_policy =
  sp_multisig :: "string option"
  sp_threshold :: js_number
  sp_members :: "string list"
  sp_vault :: "string option"
  sp_vaultIndex :: js_number
  sp_requiredPermissionMask :: int
  sp_programId :: "string option"

definition push_unless :: "bool \<Rightarrow> string \<Rightarrow> string list" where
  "push_unless ok failure = (if ok then [] else [failure])"

definition mask_names :: "int \<Rightarrow> string" where "mask_names bits = join_with '' + '' (permissionNames bits)"

definition member_mask_failure :: "int \<Rightarrow> squads_member \<Rightarrow> string list" where
  "member_mask_failure required member =
     push_unless (sm_mask member = required) (''live member '' @ sm_key member @ '' has permission mask ''
       @ dec_int (sm_mask member) @ '' (''
       @ (let names = join_with '' + '' (sm_permissions member) in if names = [] then ''none'' else names)
       @ ''), policy requires mask '' @ dec_int required @ '' ('' @ mask_names required @ '')'')"

definition vault_failures ::
    "(bytes \<Rightarrow> bytes) \<Rightarrow> (js_number \<Rightarrow> string) \<Rightarrow> string option \<Rightarrow> squads_policy \<Rightarrow> string list result" where
  "vault_failures sha num address policy =
     (case sp_vault policy of None \<Rightarrow> Inr []
      | Some vault \<Rightarrow>
          if vault = [] then Inr []
          else let multisigAddress = (case sp_multisig policy of Some m \<Rightarrow> Some m | None \<Rightarrow> address)
            in if multisigAddress = None \<or> multisigAddress = Some []
               then throw SquadsDecodeError ''cannot derive a vault without the multisig address; pass `multisig`''
               else bindR (squads_deriveVault sha num (the multisigAddress) (sp_vaultIndex policy)
                   (case sp_programId policy of Some p \<Rightarrow> p | None \<Rightarrow> SQUADS_V4_PROGRAM_ID)) (\<lambda>(derived, bump).
                 Inr (push_unless (derived = vault) (''vault index '' @ num (sp_vaultIndex policy)
                   @ '' of the live multisig derives to '' @ derived @ '', not the declared custody vault '' @ vault))))"

definition compareToPolicy ::
    "(bytes \<Rightarrow> bytes) \<Rightarrow> (js_number \<Rightarrow> string) \<Rightarrow> multisig \<Rightarrow> string option \<Rightarrow> squads_policy
       \<Rightarrow> string list result" where
  "compareToPolicy sha num decoded address policy =
     (let members = sp_members policy;
          liveKeys = map sm_key (ms_members decoded);
          failures =
            push_unless (Whole (ms_threshold decoded) = sp_threshold policy)
              (''live threshold is '' @ dec_int (ms_threshold decoded) @ '', the declared threshold is ''
                @ num (sp_threshold policy))
            @ push_unless (length (ms_members decoded) = length members)
              (''the live multisig has '' @ dec_nat (length (ms_members decoded)) @ '' member(s), ''
                @ dec_nat (length members) @ '' were declared'')
            @ push_unless (card (set liveKeys) = length liveKeys) ''the live member list contains duplicate keys''
            @ concat (map (\<lambda>declared. push_unless (declared \<in> set liveKeys)
                (''declared member '' @ declared @ '' is not a live member'')) members)
            @ concat (map (\<lambda>live. push_unless (live \<in> set members)
                (''live member '' @ live @ '' is not in the declared member set'')) liveKeys)
            @ concat (map (member_mask_failure (sp_requiredPermissionMask policy)) (ms_members decoded))
      in bindR (vault_failures sha num address policy) (\<lambda>vault. Inr (failures @ vault)))"

section \<open>Decoding is exact\<close>

definition enc_member :: "squads_member \<Rightarrow> bytes" where
  "enc_member m = key_bytes (sm_key m) @ enc_uint 1 (sm_mask m)"

definition enc_rent :: "string option \<Rightarrow> bytes" where
  "enc_rent r = (case r of None \<Rightarrow> [0] | Some k \<Rightarrow> 1 # key_bytes k)"

definition enc_multisig :: "multisig \<Rightarrow> bytes" where
  "enc_multisig m =
     MULTISIG_DISCRIMINATOR @ key_bytes (ms_createKey m) @ key_bytes (ms_configAuthority m)
     @ enc_uint 2 (ms_threshold m) @ enc_uint 4 (ms_timeLock m)
     @ enc_uint 8 (ms_transactionIndex m) @ enc_uint 8 (ms_staleTransactionIndex m)
     @ enc_rent (ms_rentCollector m) @ enc_uint 1 (ms_bump m)
     @ enc_uint 4 (int (length (ms_members m))) @ concat (map enc_member (ms_members m))"

definition wf_member :: "squads_member \<Rightarrow> bool" where
  "wf_member m \<longleftrightarrow> is_pubkey (sm_key m) \<and> uint_in 1 (sm_mask m) \<and> sm_permissions m = permissionNames (sm_mask m)"

definition wf_multisig :: "multisig \<Rightarrow> bool" where
  "wf_multisig m \<longleftrightarrow> is_pubkey (ms_createKey m) \<and> is_pubkey (ms_configAuthority m)
     \<and> uint_in 2 (ms_threshold m) \<and> uint_in 4 (ms_timeLock m) \<and> uint_in 8 (ms_transactionIndex m)
     \<and> uint_in 8 (ms_staleTransactionIndex m) \<and> pred_option is_pubkey (ms_rentCollector m)
     \<and> uint_in 1 (ms_bump m) \<and> uint_in 4 (int (length (ms_members m))) \<and> list_all wf_member (ms_members m)"

lemma take_subarray: "take i bs @ subarray bs i n = take (i + n) bs"
  by (simp add: subarray_def take_add)

lemma subarray_append: "subarray bs i n @ subarray bs (i + n) k = subarray bs i (n + k)"
  by (simp add: subarray_def take_add drop_drop) (simp add: add.commute)

lemma length_subarray: "i + n \<le> length bs \<Longrightarrow> length (subarray bs i n) = n"
  by (simp add: subarray_def)

lemma enc_read_le: "i + n \<le> length bs \<Longrightarrow> enc_uint n (read_le bs i n) = subarray bs i n"
  using le_bytes_le_nat [of "subarray bs i n"] by (simp add: enc_uint_def read_le_def length_subarray)

lemma uint_in_read_le: "i + n \<le> length bs \<Longrightarrow> uint_in n (read_le bs i n)"
  using le_nat_less [of "subarray bs i n"]
  by (simp add: uint_in_def read_le_def length_subarray flip: of_nat_less_iff)

lemma need_Inr: "need bs i n what = Inr u \<longleftrightarrow> i + n \<le> length bs"
  by (simp add: need_def not_less)

lemma pubkey_subarray: "i + 32 \<le> length bs \<Longrightarrow> is_pubkey (script_encodeBase58 (subarray bs i 32))"
  by (simp add: script_encode_eq is_pubkey_encode length_subarray)

lemma read_members_enc:
  "read_members bs i n = (ms, j) \<Longrightarrow> i + n * 33 \<le> length bs \<Longrightarrow>
     j = i + n * 33 \<and> length ms = n \<and> list_all wf_member ms
     \<and> concat (map enc_member ms) = subarray bs i (n * 33)"
proof (induction n arbitrary: i ms j)
  case 0
  then show ?case by (simp add: subarray_def)
next
  case (Suc n)
  obtain later k where later: "read_members bs (i + 33) n = (later, k)" by (cases "read_members bs (i + 33) n")
  from Suc.IH [OF later] Suc.prems(2) have ih: "k = i + 33 + n * 33" "length later = n" "list_all wf_member later"
    "concat (map enc_member later) = subarray bs (i + 33) (n * 33)" by simp_all
  have room: "i + 32 + 1 \<le> length bs" using Suc.prems(2) by simp
  let ?m = "\<lparr>sm_key = script_encodeBase58 (subarray bs i 32), sm_mask = read_le bs (i + 32) 1,
    sm_permissions = permissionNames (read_le bs (i + 32) 1)\<rparr>"
  have ms: "ms = ?m # later" "j = k" using Suc.prems(1) later by (simp_all add: Let_def)
  have "enc_member ?m = subarray bs i 33"
    using enc_read_le [OF room] subarray_append [of bs i 32 1] by (simp add: enc_member_def script_encode_eq)
  moreover have "wf_member ?m"
    using pubkey_subarray [of i bs] uint_in_read_le [OF room] room by (simp add: wf_member_def)
  moreover have "subarray bs i (33 + n * 33) = subarray bs i 33 @ subarray bs (i + 33) (n * 33)"
    by (simp only: subarray_append)
  ultimately show ?case using ms ih by simp
qed

lemma enc_lengths:
  "length (enc_uint n v) = n" "is_pubkey k \<Longrightarrow> length (key_bytes k) = 32" "length MULTISIG_DISCRIMINATOR = 8"
  by (simp_all add: enc_uint_def is_pubkey_def MULTISIG_DISCRIMINATOR_def)

lemma subarray_at: "i = length pre \<Longrightarrow> n = length x \<Longrightarrow> subarray (pre @ x @ later) i n = x"
  by (simp add: subarray_def)

lemma read_enc: "uint_in n v \<Longrightarrow> i = length pre \<Longrightarrow> read_le (pre @ enc_uint n v @ later) i n = v"
  unfolding read_le_def using subarray_at [of i pre n "enc_uint n v" later]
  by (auto simp: enc_lengths enc_uint_def uint_in_def le_nat_le_bytes nat_less_iff)

lemma read_members_of:
  "list_all wf_member ms \<Longrightarrow>
     read_members (pre @ concat (map enc_member ms) @ later) (length pre) (length ms) = (ms, length pre + 33 * length ms)"
proof (induction ms arbitrary: pre)
  case (Cons m ms)
  let ?later = "concat (map enc_member ms) @ later"
  from Cons.prems have m: "is_pubkey (sm_key m)" "uint_in 1 (sm_mask m)"
    "sm_permissions m = permissionNames (sm_mask m)" by (simp_all add: wf_member_def)
  have key: "subarray (pre @ key_bytes (sm_key m) @ enc_uint 1 (sm_mask m) @ ?later) (length pre) 32 = key_bytes (sm_key m)"
    by (rule subarray_at) (simp_all add: enc_lengths m)
  have msk: "read_le ((pre @ key_bytes (sm_key m)) @ enc_uint 1 (sm_mask m) @ ?later) (length pre + 32) 1 = sm_mask m"
    by (rule read_enc [OF m(2)]) (simp add: enc_lengths m)
  have "script_encodeBase58 (key_bytes (sm_key m)) = sm_key m"
    using m(1) by (simp add: script_encode_eq is_pubkey_def)
  moreover have "read_members ((pre @ enc_member m) @ ?later) (length (pre @ enc_member m)) (length ms)
      = (ms, length (pre @ enc_member m) + 33 * length ms)"
    using Cons.IH [of "pre @ enc_member m"] Cons.prems by simp
  moreover have "length (enc_member m) = 33" by (simp add: enc_member_def enc_lengths m)
  ultimately show ?case using key msk m(3)
    by (simp add: Let_def enc_member_def [of m] add.commute [of 33])
qed simp

lemma rent_collector_Inr:
  "read_rent_collector bs = Inr (r, j) \<Longrightarrow>
     j \<le> length bs \<and> 94 \<le> j \<and> pred_option is_pubkey r \<and> enc_rent r = subarray bs 94 (j - 94)"
proof -
  assume h: "read_rent_collector bs = Inr (r, j)"
  then have room: "94 + 1 \<le> length bs" by (auto simp: read_rent_collector_def bindR_eq_Inr need_Inr)
  have tag: "subarray bs 94 1 = enc_uint 1 (read_le bs 94 1)" using enc_read_le [OF room] by simp
  show ?thesis
  proof (cases "read_le bs 94 1 = 1")
    case True
    with h have r: "95 + 32 \<le> length bs" "r = Some (script_encodeBase58 (subarray bs 95 32))" "j = 127"
      by (auto simp: read_rent_collector_def bindR_eq_Inr need_Inr Let_def)
    have "subarray bs 94 33 = subarray bs 94 1 @ subarray bs 95 32" using subarray_append [of bs 94 1 32] by simp
    with r tag True pubkey_subarray [OF r(1)] show ?thesis
      by (simp add: enc_rent_def enc_uint_def script_encode_eq)
  next
    case False
    with h have r: "read_le bs 94 1 = 0" "r = None" "j = 95"
      by (auto simp: read_rent_collector_def bindR_eq_Inr need_Inr Let_def split: if_splits)
    with tag room show ?thesis by (simp add: enc_rent_def enc_uint_def)
  qed
qed

lemma rent_collector_of:
  assumes "pred_option is_pubkey r" and "length pre = 94"
  shows "read_rent_collector (pre @ enc_rent r @ later) = Inr (r, length (pre @ enc_rent r))"
proof (cases r)
  case None
  have "read_le (pre @ enc_uint 1 0 @ later) 94 1 = 0"
    by (rule read_enc) (simp_all add: uint_in_def assms(2))
  with None assms(2) show ?thesis
    by (simp add: read_rent_collector_def need_def enc_rent_def enc_uint_def)
next
  case (Some k)
  with assms(1) have k: "is_pubkey k" by simp
  have "read_le (pre @ enc_uint 1 1 @ key_bytes k @ later) 94 1 = 1"
    by (rule read_enc) (simp_all add: uint_in_def assms(2))
  moreover have "subarray ((pre @ enc_uint 1 1) @ key_bytes k @ later) 95 32 = key_bytes k"
    by (rule subarray_at) (simp_all add: enc_lengths assms(2) k)
  ultimately show ?thesis using Some k assms(2)
    by (simp add: read_rent_collector_def need_def enc_rent_def enc_uint_def enc_lengths
        script_encode_eq is_pubkey_def)
qed

lemma decode_multisig_enc:
  assumes "decode_multisig_bytes bs = Inr m"
  shows "wf_multisig m \<and> (\<exists>later. bs = enc_multisig m @ later \<and> ms_trailingBytes m = length later)"
proof -
  from assms obtain r j where
    disc: "subarray bs 0 8 = MULTISIG_DISCRIMINATOR" and head: "8 + 86 \<le> length bs"
    and r: "read_rent_collector bs = Inr (r, j)"
    and room: "j + 1 + 4 \<le> length bs" "j + 5 + le_nat (subarray bs (j + 1) 4) * 33 \<le> length bs"
    and fin: "(case read_members bs (j + 5) (le_nat (subarray bs (j + 1) 4)) of (ms, k) \<Rightarrow>
          Inr \<lparr>ms_createKey = script_encodeBase58 (subarray bs 8 32),
             ms_configAuthority = script_encodeBase58 (subarray bs 40 32),
             ms_threshold = read_le bs 72 2, ms_timeLock = read_le bs 74 4,
             ms_transactionIndex = read_le bs 78 8, ms_staleTransactionIndex = read_le bs 86 8,
             ms_rentCollector = r, ms_bump = read_le bs j 1, ms_members = ms,
             ms_trailingBytes = length bs - k\<rparr>) = (Inr m :: multisig result)"
    unfolding decode_multisig_bytes_def Let_def
    by (auto simp: bindR_eq_Inr need_Inr split: if_splits)
  obtain ms k where ms: "read_members bs (j + 5) (le_nat (subarray bs (j + 1) 4)) = (ms, k)" by fastforce
  have m: "m = \<lparr>ms_createKey = script_encodeBase58 (subarray bs 8 32),
             ms_configAuthority = script_encodeBase58 (subarray bs 40 32),
             ms_threshold = read_le bs 72 2, ms_timeLock = read_le bs 74 4,
             ms_transactionIndex = read_le bs 78 8, ms_staleTransactionIndex = read_le bs 86 8,
             ms_rentCollector = r, ms_bump = read_le bs j 1, ms_members = ms,
             ms_trailingBytes = length bs - k\<rparr>"
    using fin unfolding ms by simp
  let ?n = "le_nat (subarray bs (j + 1) 4)"
  note rc = rent_collector_Inr [OF r]
  note mem = read_members_enc [OF ms room(2)]
  have count: "enc_uint 4 (int (length ms)) = subarray bs (j + 1) 4" "uint_in 4 (int (length ms))"
    using enc_read_le [of "j + 1" 4 bs] uint_in_read_le [of "j + 1" 4 bs] room(1) mem
    by (simp_all add: read_le_def)
  have merge: "subarray bs 0 8 @ subarray bs 8 32 @ subarray bs 40 32 @ subarray bs 72 2 @ subarray bs 74 4
      @ subarray bs 78 8 @ subarray bs 86 8 @ x = subarray bs 0 94 @ x" for x
    using subarray_append [of bs 0 8 32] subarray_append [of bs 0 40 32] subarray_append [of bs 0 72 2]
      subarray_append [of bs 0 74 4] subarray_append [of bs 0 78 8] subarray_append [of bs 0 86 8]
    by (simp flip: append_assoc)
  have "enc_multisig m = subarray bs 0 94 @ subarray bs 94 (j - 94) @ subarray bs j 1
      @ subarray bs (j + 1) 4 @ subarray bs (j + 5) (?n * 33)"
    using head rc room(1) mem count enc_read_le [of j 1 bs] unfolding enc_multisig_def m multisig.simps disc [symmetric]
    by (simp add: enc_read_le script_encode_eq merge)
  also have "\<dots> = take k bs"
    using rc mem subarray_append [of bs 0 94 "j - 94"] subarray_append [of bs 0 j 1]
      subarray_append [of bs 0 "j + 1" 4] subarray_append [of bs 0 "j + 5" "?n * 33"]
    by (simp flip: append_assoc) (simp add: subarray_def add.commute [of 5])
  finally have "bs = enc_multisig m @ drop k bs" by simp
  moreover have "wf_multisig m"
    unfolding wf_multisig_def m multisig.simps
    using head room(1) rc mem count(2) by (simp add: pubkey_subarray uint_in_read_le)
  ultimately show ?thesis using m by (intro conjI exI [of _ "drop k bs"]) simp_all
qed

lemma length_members: "list_all wf_member ms \<Longrightarrow> length (concat (map enc_member ms)) = 33 * length ms"
  by (induction ms) (simp_all add: enc_member_def [of "_"] enc_lengths wf_member_def)

lemma decode_multisig_of:
  assumes "wf_multisig m" and "ms_trailingBytes m = length later"
  shows "decode_multisig_bytes (enc_multisig m @ later) = Inr m"
proof -
  from assms(1) have wf: "is_pubkey (ms_createKey m)" "is_pubkey (ms_configAuthority m)"
    "uint_in 2 (ms_threshold m)" "uint_in 4 (ms_timeLock m)" "uint_in 8 (ms_transactionIndex m)"
    "uint_in 8 (ms_staleTransactionIndex m)" "pred_option is_pubkey (ms_rentCollector m)"
    "uint_in 1 (ms_bump m)" "uint_in 4 (int (length (ms_members m)))" "list_all wf_member (ms_members m)"
    by (simp_all add: wf_multisig_def)
  define c where "c = key_bytes (ms_createKey m)"
  define g where "g = key_bytes (ms_configAuthority m)"
  define members where "members = concat (map enc_member (ms_members m)) @ later"
  define count where "count = enc_uint 4 (int (length (ms_members m))) @ members"
  define bump where "bump = enc_uint 1 (ms_bump m) @ count"
  define rent where "rent = enc_rent (ms_rentCollector m) @ bump"
  define head where "head = MULTISIG_DISCRIMINATOR @ c @ g @ enc_uint 2 (ms_threshold m)
    @ enc_uint 4 (ms_timeLock m) @ enc_uint 8 (ms_transactionIndex m) @ enc_uint 8 (ms_staleTransactionIndex m)"
  define bs where "bs = head @ rent"
  have keys: "length c = 32" "length g = 32" "script_encodeBase58 c = ms_createKey m"
    "script_encodeBase58 g = ms_configAuthority m"
    using wf(1,2) by (simp_all add: c_def g_def is_pubkey_def script_encode_eq)
  have head: "length head = 94" by (simp add: head_def keys enc_lengths)
  let ?j = "length (head @ enc_rent (ms_rentCollector m))"
  have "enc_multisig m @ later = bs"
    by (simp add: enc_multisig_def bs_def head_def rent_def bump_def count_def members_def c_def g_def)
  moreover have "read_rent_collector bs = Inr (ms_rentCollector m, ?j)"
    unfolding bs_def rent_def by (rule rent_collector_of [OF wf(7) head])
  moreover have "subarray bs 0 8 = MULTISIG_DISCRIMINATOR"
    by (simp add: bs_def head_def subarray_def MULTISIG_DISCRIMINATOR_def)
  moreover have "subarray bs 8 32 = c" "subarray bs 40 32 = g"
    by (simp_all add: bs_def head_def subarray_def keys enc_lengths)
  moreover have "read_le bs 72 2 = ms_threshold m"
    unfolding bs_def head_def using read_enc [OF wf(3), of 72 "MULTISIG_DISCRIMINATOR @ c @ g"]
    by (simp add: keys enc_lengths)
  moreover have "read_le bs 74 4 = ms_timeLock m"
    unfolding bs_def head_def
    using read_enc [OF wf(4), of 74 "MULTISIG_DISCRIMINATOR @ c @ g @ enc_uint 2 (ms_threshold m)"]
    by (simp add: keys enc_lengths)
  moreover have "read_le bs 78 8 = ms_transactionIndex m"
    unfolding bs_def head_def
    using read_enc [OF wf(5), of 78 "MULTISIG_DISCRIMINATOR @ c @ g @ enc_uint 2 (ms_threshold m)
      @ enc_uint 4 (ms_timeLock m)"]
    by (simp add: keys enc_lengths)
  moreover have "read_le bs 86 8 = ms_staleTransactionIndex m"
    unfolding bs_def head_def
    using read_enc [OF wf(6), of 86 "MULTISIG_DISCRIMINATOR @ c @ g @ enc_uint 2 (ms_threshold m)
      @ enc_uint 4 (ms_timeLock m) @ enc_uint 8 (ms_transactionIndex m)"]
    by (simp add: keys enc_lengths)
  moreover have "read_le bs ?j 1 = ms_bump m"
    unfolding bs_def rent_def bump_def
    using read_enc [OF wf(8), of ?j "head @ enc_rent (ms_rentCollector m)" count] by simp
  moreover have "le_nat (subarray bs (?j + 1) 4) = length (ms_members m)"
    unfolding bs_def rent_def bump_def count_def
    using read_enc [OF wf(9), of "?j + 1" "head @ enc_rent (ms_rentCollector m) @ enc_uint 1 (ms_bump m)" members]
    by (simp add: read_le_def enc_lengths del: enc_uint_1)
  moreover have "read_members bs (?j + 5) (length (ms_members m)) = (ms_members m, ?j + 5 + 33 * length (ms_members m))"
    unfolding bs_def rent_def bump_def count_def members_def
    using read_members_of [OF wf(10), of "head @ enc_rent (ms_rentCollector m) @ enc_uint 1 (ms_bump m)
      @ enc_uint 4 (int (length (ms_members m)))" later]
    by (simp add: enc_lengths add.assoc del: enc_uint_1)
  moreover have "length (concat (map enc_member (ms_members m))) = 33 * length (ms_members m)"
    by (rule length_members [OF wf(10)])
  then have "length bs = ?j + 5 + 33 * length (ms_members m) + length later"
    by (simp add: bs_def rent_def bump_def count_def members_def enc_lengths del: enc_uint_1)
  ultimately show ?thesis
    using head by (simp add: decode_multisig_bytes_def need_def Let_def keys assms(2))
qed

text \<open>
  C34: The multisig decoder is exact. It accepts exactly the bytes that start with the encoding of
  a well-formed account, whose fields it returns with the number of bytes that follow: a
  truncated account is never read as a smaller multisig.
\<close>

theorem decodeMultisig_exact:
  "decodeMultisig base64 (Byte_data bs) = Inr m \<longleftrightarrow>
     wf_multisig m \<and> (\<exists>later. bs = enc_multisig m @ later \<and> ms_trailingBytes m = length later)"
  using decode_multisig_enc decode_multisig_of by (auto simp: decodeMultisig_def)

section \<open>The comparison\<close>

lemma push_unless_Nil [simp]: "push_unless ok f = [] \<longleftrightarrow> ok"
  by (simp add: push_unless_def)

lemma card_distinct_iff: "card (set xs) = length xs \<longleftrightarrow> distinct xs"
  by (metis card_distinct distinct_card)

definition vault_agrees ::
    "(bytes \<Rightarrow> bytes) \<Rightarrow> (js_number \<Rightarrow> string) \<Rightarrow> string option \<Rightarrow> squads_policy \<Rightarrow> bool" where
  "vault_agrees sha num address policy \<longleftrightarrow>
     (case sp_vault policy of None \<Rightarrow> True
      | Some vault \<Rightarrow> vault = [] \<or>
          (\<exists>owner bump. (case sp_multisig policy of Some x \<Rightarrow> Some x | None \<Rightarrow> address) = Some owner
             \<and> owner \<noteq> [] \<and> squads_deriveVault sha num owner (sp_vaultIndex policy)
               (case sp_programId policy of Some p \<Rightarrow> p | None \<Rightarrow> SQUADS_V4_PROGRAM_ID) = Inr (vault, bump)))"

lemma vault_failures_Nil: "vault_failures sha num address policy = Inr [] \<longleftrightarrow> vault_agrees sha num address policy"
  by (auto simp: vault_failures_def vault_agrees_def bindR_eq_Inr Let_def split: option.splits)

lemma compareToPolicy_Nil:
  "compareToPolicy sha num m address policy = Inr [] \<longleftrightarrow>
      Whole (ms_threshold m) = sp_threshold policy \<and> distinct (map sm_key (ms_members m))
      \<and> set (map sm_key (ms_members m)) = set (sp_members policy)
      \<and> length (ms_members m) = length (sp_members policy)
      \<and> set (map sm_mask (ms_members m)) \<subseteq> {sp_requiredPermissionMask policy}
      \<and> vault_agrees sha num address policy"
  using card_distinct_iff [of "map sm_key (ms_members m)"]
  by (auto simp: compareToPolicy_def Let_def bindR_eq_Inr vault_failures_Nil member_mask_failure_def)

text \<open>
  What the live multisig is held to. The comparison reports nothing exactly when the
  threshold is the declared one, the members are the declared set without repetition and as
  many, every member has the required permissions, and the declared vault is the one the
  multisig controls at the index. It says nothing of the configuration authority or the time
  lock of the account: changing them never changes the verdict.
\<close>

theorem compareToPolicy_exact:
  "(compareToPolicy sha num m address policy = Inr [] \<longleftrightarrow>
      Whole (ms_threshold m) = sp_threshold policy \<and> distinct (map sm_key (ms_members m))
      \<and> set (map sm_key (ms_members m)) = set (sp_members policy)
      \<and> length (ms_members m) = length (sp_members policy)
      \<and> set (map sm_mask (ms_members m)) \<subseteq> {sp_requiredPermissionMask policy}
      \<and> vault_agrees sha num address policy)
   \<and> compareToPolicy sha num (m\<lparr>ms_configAuthority := authority, ms_timeLock := t\<rparr>) address policy
       = compareToPolicy sha num m address policy"
  by (simp add: compareToPolicy_Nil) (simp add: compareToPolicy_def)

end
