(* ===== verification/Custody_Runner.thy ===== *)
theory Custody_Runner
  imports Tx_Safety Custody_Invariants Squads
begin

text \<open>
  What a live custody run does with one transaction (\<open>scripts/lib/custody-runner.mjs\<close>): the gate
  that refuses any cluster but devnet, the balance snapshots, the two kinds of send with their
  errors classified, and the step and the refusal that are recorded. The reads of the chain are
  functions of the trace.
\<close>

section \<open>The gate\<close>

definition MAINNET_GENESIS :: string where
  "MAINNET_GENESIS = ''5eykt4UsFv8P8NJdTREpY1vzqKqZKvdpKuc147dw2N9d''"

definition DEVNET_GENESIS :: string where
  "DEVNET_GENESIS = ''EtWTRABZaYq6iMfeYKouRu166VU2xqa1wcaWoxPkrZBG''"

definition requireDevnet :: "string result \<Rightarrow> string result" where
  "requireDevnet answer =
     bindR answer (\<lambda>genesis.
     if genesis = MAINNET_GENESIS
     then throw CustodyHarnessFailure (SAFE_ENDPOINT_LABEL @ '' is mainnet-beta (genesis '' @ genesis
       @ ''). This harness signs value-moving transactions and is authorized for devnet only. Refusing before anything is constructed.'')
     else if genesis \<noteq> DEVNET_GENESIS
     then throw CustodyHarnessFailure (SAFE_ENDPOINT_LABEL @ '' reports genesis '' @ genesis
       @ '', which is neither devnet ('' @ DEVNET_GENESIS @ '') nor a cluster this harness recognises. Refusing.'')
     else Inr genesis)"

definition requireNoMainnetEndpoint :: "string \<Rightarrow> string result" where
  "requireNoMainnetEndpoint endpoint =
     (let lowered = map lower endpoint
      in case List.find (\<lambda>marker. occurs marker lowered) [''mainnet'', ''main-net'', ''mainnet-beta''] of
           Some marker \<Rightarrow> throw CustodyHarnessFailure (SAFE_ENDPOINT_LABEL @ '' names '' @ marker
             @ ''; this harness is devnet-only and refuses it without asking the cluster'')
         | None \<Rightarrow> Inr endpoint)"

section \<open>Token accounts\<close>

definition TOKEN_ACCOUNT_AMOUNT_OFFSET :: nat where "TOKEN_ACCOUNT_AMOUNT_OFFSET = 64"
definition TOKEN_ACCOUNT_LEN :: nat where "TOKEN_ACCOUNT_LEN = 165"

definition decodeTokenAmount :: "(string \<Rightarrow> bytes) \<Rightarrow> string \<Rightarrow> int result" where
  "decodeTokenAmount base64 data =
     (let bs = base64 data
      in if length bs < TOKEN_ACCOUNT_AMOUNT_OFFSET + 8
         then throw CustodyHarnessFailure (''token account data is '' @ dec_nat (length bs)
           @ '' bytes, too short to hold an amount'')
         else Inr (read_le bs TOKEN_ACCOUNT_AMOUNT_OFFSET 8))"

definition decodeTokenMint :: "(string \<Rightarrow> bytes) \<Rightarrow> string \<Rightarrow> string" where
  "decodeTokenMint base64 data = script_encodeBase58 (subarray (base64 data) 0 32)"

definition decodeTokenOwner :: "(string \<Rightarrow> bytes) \<Rightarrow> string \<Rightarrow> string" where
  "decodeTokenOwner base64 data = script_encodeBase58 (subarray (base64 data) 32 32)"

section \<open>Errors and the world of a run\<close>

datatype runner_error =
    Harness_Failure (re_message: string) (re_class: "(classification \<times> string option) option")
  | Defect (re_message: string) (re_label: string) (re_signature: "string option")
  | Violation js_error
  | Read_Failure caught

text \<open>What \<open>readAgreement\<close> answers: the state and the recorded total of the agreement account.\<close>

record agreement_reading =
  ag_state :: string
  ag_settledTotal :: amount_input

text \<open>An account of \<open>getMultipleAccounts\<close> is absent or its base64 data.\<close>

record custody_world =
  cw_world :: world
  cw_base64 :: "string \<Rightarrow> bytes"
  cw_accounts :: "trace \<Rightarrow> string list \<Rightarrow> caught + string option list option"
  cw_agreement :: "trace \<Rightarrow> caught + agreement_reading option"

abbreviation cw_number :: "custody_world \<Rightarrow> js_number \<Rightarrow> string" where
  "cw_number cw \<equiv> w_number (cw_world cw)"

definition lift_result :: "'a result \<Rightarrow> trace \<Rightarrow> (runner_error, 'a) outcome" where
  "lift_result r t = Some (case r of Inl e \<Rightarrow> Inl (Violation e) | Inr a \<Rightarrow> Inr a, t)"

definition account_amount :: "(string \<Rightarrow> bytes) \<Rightarrow> string option \<Rightarrow> int result" where
  "account_amount base64 account =
     (case account of None \<Rightarrow> Inr 0 | Some data \<Rightarrow> decodeTokenAmount base64 data)"

definition chunk_amounts ::
    "(string \<Rightarrow> bytes) \<Rightarrow> balances \<Rightarrow> (string \<times> string option) list \<Rightarrow> balances result" where
  "chunk_amounts base64 entries accounts =
     foldR (\<lambda>held (address, account). bindR (account_amount base64 account) (\<lambda>v.
       Inr (map_set address v held))) entries accounts"

function snapshot_loop :: "custody_world \<Rightarrow> string list \<Rightarrow> balances \<Rightarrow> trace \<Rightarrow> (runner_error, balances) outcome" where
  "snapshot_loop cw list entries t =
     (if list = [] then Some (Inr entries, t)
      else let chunk = take 100 list; t' = t @ [Read_accounts chunk] in
        case cw_accounts cw t chunk of
          Inl e \<Rightarrow> Some (Inl (Read_Failure e), t')
        | Inr values \<Rightarrow>
            if (case values of None \<Rightarrow> True | Some vs \<Rightarrow> length vs \<noteq> length chunk)
            then Some (Inl (Harness_Failure (''getMultipleAccounts returned ''
                @ (case values of None \<Rightarrow> ''no'' | Some vs \<Rightarrow> dec_nat (length vs)) @ '' entries for ''
                @ dec_nat (length chunk) @ '' addresses; a missing read must not be recorded as a zero balance'') None), t')
            else case chunk_amounts (cw_base64 cw) entries (zip chunk (the values)) of
                Inl e \<Rightarrow> Some (Inl (Violation e), t')
              | Inr entries \<Rightarrow> snapshot_loop cw (drop 100 list) entries t')"
  by pat_completeness auto
termination
  by (relation "measure (\<lambda>(cw, list, entries, t). length list)") auto

declare snapshot_loop.simps [simp del]

definition snapshotBalances :: "custody_world \<Rightarrow> string list \<Rightarrow> trace \<Rightarrow> (runner_error, balances) outcome" where
  "snapshotBalances cw addresses t =
     and_then (snapshot_loop cw addresses [] t) (\<lambda>entries t.
       lift_result (BalanceSnapshot (cw_number cw) (map (\<lambda>(a, v). (a, Big_amount v)) entries)) t)"

section \<open>Sending\<close>

fun class_text :: "classification \<Rightarrow> string" where
  "class_text PRE_SUBMISSION_BLOCKHASH_EXPIRED = ''PRE_SUBMISSION_BLOCKHASH_EXPIRED''"
| "class_text TRANSACTION_SUBMITTED_SUCCESS = ''TRANSACTION_SUBMITTED_SUCCESS''"
| "class_text TRANSACTION_SUBMITTED_PROGRAM_FAILURE = ''TRANSACTION_SUBMITTED_PROGRAM_FAILURE''"
| "class_text TRANSACTION_CONFIRMATION_AMBIGUOUS = ''TRANSACTION_CONFIRMATION_AMBIGUOUS''"
| "class_text RPC_RATE_LIMIT = ''RPC_RATE_LIMIT''"
| "class_text RPC_PROVIDER_FAILURE = ''RPC_PROVIDER_FAILURE''"
| "class_text CUSTODY_DEFECT = ''CUSTODY_DEFECT''"
| "class_text HARNESS_DEFECT = ''HARNESS_DEFECT''"

fun describeError :: "string list \<Rightarrow> failure \<Rightarrow> string" where
  "describeError sensitive (Foreign None) = ''unknown error''"
| "describeError sensitive (Foreign (Some e)) =
     (let logs = join_lines '' | '' (fe_logs e)
      in redact sensitive ((case fe_message e of Some m \<Rightarrow> m | None \<Rightarrow> fe_text e)
           @ (if logs = [] then [] else '' :: '' @ logs)))"
| "describeError sensitive (Lifecycle_Error message c s d) = redact sensitive message"

text \<open>\<open>error?.classification\<close> and \<open>error?.signature\<close>.\<close>

fun failure_class :: "failure \<Rightarrow> classification option" where
  "failure_class (Foreign e) = Option.bind e fe_classification"
| "failure_class (Lifecycle_Error m c s d) = Some c"

fun failure_signature :: "failure \<Rightarrow> string option" where
  "failure_signature (Foreign e) = None"
| "failure_signature (Lifecycle_Error m c s d) = s"

definition send_classified :: "string list \<Rightarrow> string \<Rightarrow> failure \<Rightarrow> runner_error" where
  "send_classified sensitive what e =
     (let c = (case failure_class e of Some c \<Rightarrow> c | None \<Rightarrow> RPC_PROVIDER_FAILURE)
      in Harness_Failure (what @ '' ['' @ class_text c @ '']: '' @ describeError sensitive e)
           (Some (c, failure_signature e)))"

text \<open>A result kept, or the error that is thrown in the place of the one caught.\<close>

definition caught_and_kept ::
    "('e \<Rightarrow> 'd) \<Rightarrow> ('a \<Rightarrow> 'b) \<Rightarrow> ('e, 'a) outcome \<Rightarrow> ('d, 'b) outcome" where
  "caught_and_kept wrap keep m = map_option (\<lambda>(r, t). (map_sum wrap keep r, t)) m"

text \<open>\<open>client\<close> says whether a read client was passed.\<close>

definition send :: "custody_world \<Rightarrow> bool \<Rightarrow> send_options \<Rightarrow> trace \<Rightarrow> (runner_error, string) outcome" where
  "send cw client opts t =
     (if \<not> client
      then Some (Inl (Harness_Failure (so_label opts @ '' was sent without a read client; confirmation polls getSignatureStatuses and cannot fall back to a websocket subscription'') None), t)
      else caught_and_kept (send_classified (w_sensitive (cw_world cw)) (so_label opts @ '' did not complete'')) sr_signature
        (sendExpectingSuccess (cw_world cw) opts t))"

definition proven_row :: "send_options \<Rightarrow> refusal_row \<Rightarrow> failure + refusal_row" where
  "proven_row opts row =
     map_sum id (\<lambda>_. row) (assertProvenRefusal (Some \<lparr>er_label = Some (so_label opts),
       er_signature = Some (rf_signature row), er_onChain = rf_onChain row, er_err = rf_err row\<rparr>))"

definition unproven :: "string list \<Rightarrow> send_options \<Rightarrow> failure \<Rightarrow> runner_error" where
  "unproven sensitive opts e =
     (if failure_class e = Some CUSTODY_DEFECT
      then Defect (describeError sensitive e) (so_label opts) (failure_signature e)
      else send_classified sensitive (so_label opts @ '' could not be proved refused'') e)"

definition sendExpectingFailure ::
    "custody_world \<Rightarrow> bool \<Rightarrow> send_options \<Rightarrow> trace \<Rightarrow> (runner_error, refusal_row) outcome" where
  "sendExpectingFailure cw client opts t =
     (if \<not> client
      then Some (Inl (Harness_Failure (so_label opts @ '' was sent without a read client; a refusal is only a refusal once its signature is found on chain, and that requires getSignatureStatuses'') None), t)
      else caught_and_kept (unproven (w_sensitive (cw_world cw)) opts) id
        (and_then (sendExpectingRefusal (cw_world cw) opts t) (\<lambda>row t. Some (proven_row opts row, t))))"

section \<open>Codes read out of a message\<close>

text \<open>The leftmost place where a pattern matches.\<close>

fun first_match :: "(string \<Rightarrow> 'a option) \<Rightarrow> string \<Rightarrow> 'a option" where
  "first_match m [] = m []"
| "first_match m (c # s) = (case m (c # s) of Some r \<Rightarrow> Some r | None \<Rightarrow> first_match m s)"

definition after_prefix :: "string \<Rightarrow> string \<Rightarrow> string option" where
  "after_prefix pat s = (if starts_with pat s then Some (drop (length pat) s) else None)"

text \<open>\<open>/Error Code: (\w+)\. Error Number: (\d+)/\<close>: a word cannot run over the full stop.\<close>

definition named_code :: "string \<Rightarrow> (string \<times> int) option" where
  "named_code s =
     Option.bind (after_prefix ''Error Code: '' s) (\<lambda>s.
       let name = takeWhile word_char s in
       if name = [] then None
       else Option.bind (after_prefix ''. Error Number: '' (dropWhile word_char s)) (\<lambda>s.
         let digits = takeWhile is_digit s in
         if digits = [] then None else Some (name, int (nat_of_dec digits))))"

definition hex_digit :: "char \<Rightarrow> bool" where "hex_digit c \<longleftrightarrow> radix_digits 16 [c] \<noteq> None"

definition raw_code :: "string \<Rightarrow> int option" where
  "raw_code s =
     Option.bind (after_prefix ''custom program error: 0x'' s) (\<lambda>s. radix_digits 16 (takeWhile hex_digit s))"

definition constraint_name :: "string \<Rightarrow> string option" where
  "constraint_name s =
     List.find (\<lambda>name. starts_with name s)
       [''ConstraintSeeds'', ''AccountNotInitialized'', ''AccountOwnedByWrongProgram'', ''already in use'']"

definition extractAnchorErrorCode :: "string list \<Rightarrow> failure \<Rightarrow> string option \<times> int option" where
  "extractAnchorErrorCode sensitive error =
     (let text = describeError sensitive error
      in case first_match named_code text of
           Some (name, number) \<Rightarrow> (Some name, Some number)
         | None \<Rightarrow>
             (case first_match raw_code text of
                Some number \<Rightarrow> (None, Some number)
              | None \<Rightarrow> (first_match constraint_name text, None)))"

text \<open>\<open>/[1-9A-HJ-NP-Za-km-z]{86,88}/\<close>.\<close>

definition base58_run :: "string \<Rightarrow> string option" where
  "base58_run s =
     (let run = takeWhile (\<lambda>c. List.member ALPHABET c) s
      in if length run \<ge> 86 then Some (take 88 run) else None)"

definition extractSignature :: "string list \<Rightarrow> failure \<Rightarrow> string option" where
  "extractSignature sensitive error = first_match base58_run (describeError sensitive error)"

section \<open>What is recorded\<close>

definition default_send :: "string \<Rightarrow> send_options" where
  "default_send label =
     \<lparr>so_label = label, so_maxBlockhashRetries = MAX_BLOCKHASH_RETRIES, so_pacingMs = SUBMISSION_PACING_MS,
      so_confirm = default_confirm, so_fetchLogs = False, so_escrowProgramId = None\<rparr>"

record refusal_attempt =
  ra_label :: string
  ra_invariant :: string
  ra_watched :: "string list"
  ra_readAgreement :: bool

record refusal_record =
  rr_label :: string
  rr_invariant :: string
  rr_expected :: string
  rr_result :: string
  rr_signature :: string
  rr_onChain :: bool
  rr_err :: "json option"
  rr_errorCode :: error_code
  rr_confirmationStatus :: "string option"
  rr_programAttributed :: string
  rr_stateBefore :: "string option"
  rr_stateAfter :: "string option"
  rr_settledTotalBefore :: "string option"
  rr_settledTotalAfter :: "string option"
  rr_balancesBefore :: "(string \<times> string) list"
  rr_balancesAfter :: "(string \<times> string) list"

definition read_agreement_if ::
    "custody_world \<Rightarrow> bool \<Rightarrow> trace \<Rightarrow> (runner_error, agreement_reading option) outcome" where
  "read_agreement_if cw wanted t =
     (if \<not> wanted then Some (Inr None, t)
      else Some (map_sum Read_Failure id (cw_agreement cw t), t @ [Read_agreement]))"

definition total_of :: "agreement_reading option \<Rightarrow> amount_input" where
  "total_of reading = (case reading of None \<Rightarrow> Big_amount 0 | Some r \<Rightarrow> ag_settledTotal r)"

definition attemptRefusal :: "custody_world \<Rightarrow> refusal_attempt \<Rightarrow> trace \<Rightarrow> (runner_error, refusal_record) outcome" where
  "attemptRefusal cw a t =
     and_then (snapshotBalances cw (ra_watched a) t) (\<lambda>before t.
     and_then (read_agreement_if cw (ra_readAgreement a) t) (\<lambda>stateBefore t.
     and_then (sendExpectingFailure cw True (default_send (ra_label a)) t) (\<lambda>row t.
     and_then (snapshotBalances cw (ra_watched a) t) (\<lambda>after t.
     and_then (read_agreement_if cw (ra_readAgreement a) t) (\<lambda>stateAfter t.
     and_then (lift_result (assertRefusalChangedNothing (cw_number cw)
         \<lparr>ro_label = ra_label a, ro_before = before, ro_after = after,
          ro_stateBefore = map_option ag_state stateBefore, ro_stateAfter = map_option ag_state stateAfter,
          ro_settledTotalBefore = total_of stateBefore, ro_settledTotalAfter = total_of stateAfter\<rparr>) t) (\<lambda>_ t.
     Some (Inr \<lparr>rr_label = ra_label a, rr_invariant = ra_invariant a, rr_expected = ''failure'',
        rr_result = ''refused'', rr_signature = rf_signature row, rr_onChain = rf_onChain row,
        rr_err = rf_err row, rr_errorCode = rf_errorCode row, rr_confirmationStatus = rf_level row,
        rr_programAttributed = rf_programAttributed row,
        rr_stateBefore = map_option ag_state stateBefore, rr_stateAfter = map_option ag_state stateAfter,
        rr_settledTotalBefore = map_option (amount_text (cw_number cw) \<circ> ag_settledTotal) stateBefore,
        rr_settledTotalAfter = map_option (amount_text (cw_number cw) \<circ> ag_settledTotal) stateAfter,
        rr_balancesBefore = snapshot_json before, rr_balancesAfter = snapshot_json after\<rparr>, t)))))))"

record value_free_step =
  vs_label :: string
  vs_signature :: string
  vs_balancesBefore :: "(string \<times> string) list"
  vs_balancesAfter :: "(string \<times> string) list"

definition stepWithoutValue ::
    "custody_world \<Rightarrow> string \<Rightarrow> string list \<Rightarrow> trace \<Rightarrow> (runner_error, value_free_step) outcome" where
  "stepWithoutValue cw label watched_accounts t =
     and_then (snapshotBalances cw watched_accounts t) (\<lambda>before t.
     and_then (send cw True (default_send label) t) (\<lambda>signature t.
     and_then (snapshotBalances cw watched_accounts t) (\<lambda>after t.
     and_then (lift_result (assertNoMovement (cw_number cw) before after label ''PPV-P10'') t) (\<lambda>_ t.
     Some (Inr \<lparr>vs_label = label, vs_signature = signature, vs_balancesBefore = snapshot_json before,
       vs_balancesAfter = snapshot_json after\<rparr>, t)))))"

section \<open>What a run leaves in the trace\<close>

lemma and_then_Inr:
  "and_then m f = Some (Inr b, t') \<longleftrightarrow> (\<exists>a t. m = Some (Inr a, t) \<and> f a t = Some (Inr b, t'))"
  by (auto simp: and_then_def split: option.splits sum.splits)

lemma lift_result_Inr [simp]: "lift_result r t = Some (Inr a, t') \<longleftrightarrow> r = Inr a \<and> t' = t"
  by (cases r) (auto simp: lift_result_def)

text \<open>The keys of a balance map after more addresses were set.\<close>

definition keys_after :: "string list \<Rightarrow> string list \<Rightarrow> string list" where
  "keys_after ks addresses = foldl (\<lambda>ks a. if a \<in> set ks then ks else ks @ [a]) ks addresses"

lemma keys_after_simps [simp]:
  "keys_after ks [] = ks"
  "keys_after ks (a # as) = keys_after (if a \<in> set ks then ks else ks @ [a]) as"
  "keys_after ks (as @ bs) = keys_after (keys_after ks as) bs"
  by (simp_all add: keys_after_def)

lemma foldR_keys:
  "foldR (\<lambda>held (a, x). bindR (f x) (\<lambda>v. Inr (map_set a v held))) held xs = Inr m \<Longrightarrow>
     map fst m = keys_after (map fst held) (map fst xs)"
proof (induction xs arbitrary: held)
  case (Cons p xs)
  then obtain v where "foldR (\<lambda>held (a, x). bindR (f x) (\<lambda>v. Inr (map_set a v held))) (map_set (fst p) v held) xs = Inr m"
    by (cases p) (auto simp: bindR_eq_Inr)
  from Cons.IH [OF this] show ?case by (cases p) (auto simp: update_keys)
qed simp

lemma snapshot_loop_Inr:
  "snapshot_loop cw list entries t = Some (Inr m, t') \<Longrightarrow>
     (\<exists>new. t' = t @ new \<and> submissions new = []) \<and> map fst m = keys_after (map fst entries) list"
proof (induction cw list entries t rule: snapshot_loop.induct)
  case (1 cw list entries t)
  show ?case
  proof (cases "list = []")
    case True
    with 1(2) show ?thesis by (simp add: snapshot_loop.simps)
  next
    case False
    with 1(2) obtain vs entries' where
      vs: "cw_accounts cw t (take 100 list) = Inr (Some vs)" "length vs = length (take 100 list)"
        "chunk_amounts (cw_base64 cw) entries (zip (take 100 list) vs) = Inr entries'"
        "snapshot_loop cw (drop 100 list) entries' (t @ [Read_accounts (take 100 list)]) = Some (Inr m, t')"
      by (subst (asm) snapshot_loop.simps)
        (auto simp: Let_def split: sum.splits if_splits option.splits)
    have "map fst entries' = keys_after (map fst entries) (take 100 list)"
      using foldR_keys [OF vs(3) [unfolded chunk_amounts_def]] vs(2) by simp
    moreover have "(\<exists>new. t' = (t @ [Read_accounts (take 100 list)]) @ new \<and> submissions new = [])
        \<and> map fst m = keys_after (map fst entries') (drop 100 list)"
      by (rule 1(1) [OF False refl refl vs(1)]) (use vs in auto)
    moreover have "keys_after ks list = keys_after (keys_after ks (take 100 list)) (drop 100 list)" for ks
      by (metis append_take_drop_id keys_after_simps(3))
    ultimately show ?thesis by force
  qed
qed

lemma snapshotBalances_Inr:
  assumes "snapshotBalances cw addresses t = Some (Inr m, t')"
  shows "(\<exists>new. t' = t @ new \<and> submissions new = []) \<and> map fst m = keys_after [] (keys_after [] addresses)
    \<and> one_each m"
proof -
  obtain entries where entries: "snapshot_loop cw addresses [] t = Some (Inr entries, t')"
      "BalanceSnapshot (cw_number cw) (map (\<lambda>(a, v). (a, Big_amount v)) entries) = Inr m"
    using assms by (auto simp: snapshotBalances_def and_then_Inr)
  have "map fst m = keys_after [] (map fst (map (\<lambda>(a, v). (a, Big_amount v)) entries))"
    using foldR_keys [OF entries(2) [unfolded BalanceSnapshot_def]] by simp
  also have "map fst (map (\<lambda>(a, v). (a, Big_amount v)) entries) = map fst entries" by auto
  finally show ?thesis
    using snapshot_loop_Inr [OF entries(1)] snapshot_one_each [OF entries(2)] by simp
qed

lemma same_balances:
  assumes "map fst b = map fst c" and "one_each b" and "\<forall>a. or_zero_at c a = or_zero_at b a"
  shows "b = c"
proof -
  have entries: "m = map (\<lambda>a. (a, or_zero_at m a)) (map fst m)" if "one_each m" for m
  proof (rule nth_equalityI)
    fix i assume "i < length m"
    then have "map_of m (fst (m ! i)) = Some (snd (m ! i))"
      using that nth_mem [of i m] by (intro map_of_is_SomeI) (auto simp: one_each_def)
    then show "m ! i = map (\<lambda>a. (a, or_zero_at m a)) (map fst m) ! i"
      using \<open>i < length m\<close> by (simp add: or_zero_at_def prod_eq_iff)
  qed simp
  have "one_each c" using assms(1,2) by (simp add: one_each_def)
  with entries [of b] entries [of c] assms show ?thesis by simp
qed

lemma read_agreement_trace:
  "read_agreement_if cw wanted t = Some (r, t') \<Longrightarrow> \<exists>new. t' = t @ new \<and> submissions new = []"
  by (auto simp: read_agreement_if_def split: if_splits)

lemma refusal_loop_unattributed:
  "refusal_loop w opts k t = Some (Inr row, t') \<Longrightarrow> \<not> so_fetchLogs opts \<Longrightarrow> rf_programAttributed row = ''unverified''"
proof (induction w opts k t rule: refusal_loop.induct)
  case (1 w opts k t)
  have finish: "rf_programAttributed row = ''unverified''"
    if "finishRefusal w opts sg c u = Some (Inr row, t')" for sg c u
    using that 1(3) by (auto simp: finishRefusal_def fetched_logs_def attribution_def split: if_splits)
  from 1(2) show ?case
    by (subst (asm) refusal_loop.simps)
      (use 1(3) in \<open>auto simp: and_then_Inr dest: finish 1(1) split: option.splits if_splits\<close>)
qed

lemma kept_Inr:
  "caught_and_kept f g m = Some (Inr b, t') \<longleftrightarrow> (\<exists>a. m = Some (Inr a, t') \<and> b = g a)"
proof -
  have "map_sum f g r = Inr b \<longleftrightarrow> (\<exists>a. r = Inr a \<and> b = g a)" for r by (cases r) auto
  then show ?thesis by (cases m) (auto simp: caught_and_kept_def split: prod.splits)
qed

lemma sendExpectingFailure_Inr:
  assumes "sendExpectingFailure cw True opts t = Some (Inr row, t')"
  shows "\<exists>new. t' = t @ new \<and> never_resent (so_maxBlockhashRetries opts) new \<and> refusal_outcome new (Inr row)
    \<and> (\<not> so_fetchLogs opts \<longrightarrow> rf_programAttributed row = ''unverified'')"
proof -
  obtain row' where "sendExpectingRefusal (cw_world cw) opts t = Some (Inr row', t')"
      "proven_row opts row' = Inr row"
    using assms by (auto simp: sendExpectingFailure_def and_then_Inr kept_Inr)
  moreover from this(2) have "row' = row" by (cases "assertProvenRefusal (Some \<lparr>er_label = Some (so_label opts),
       er_signature = Some (rf_signature row'), er_onChain = rf_onChain row', er_err = rf_err row'\<rparr>)")
      (auto simp: proven_row_def)
  ultimately have "sendExpectingRefusal (cw_world cw) opts t = Some (Inr row, t')" by simp
  with refusal_run [OF this] refusal_loop_unattributed [of "cw_world cw" opts 0 t row t'] show ?thesis
    by (auto simp: sendExpectingRefusal_def)
qed

lemma send_Inr:
  assumes "send cw True opts t = Some (Inr signature, t')"
  shows "\<exists>new report. t' = t @ new \<and> never_resent (so_maxBlockhashRetries opts) new
    \<and> success_outcome new (Inr report) \<and> sr_signature report = signature"
proof -
  obtain report where "sendExpectingSuccess (cw_world cw) opts t = Some (Inr report, t')" "sr_signature report = signature"
    using assms by (auto simp: send_def kept_Inr)
  then show ?thesis using success_run [of "cw_world cw" opts t "Inr report" t'] by blast
qed

lemma unmoved_balances:
  assumes "snapshotBalances cw addresses t = Some (Inr before, t1)"
    and "snapshotBalances cw addresses t2 = Some (Inr after, t3)"
    and "assertNoMovement num before after label invariant = Inr observed"
  shows "after = before"
proof -
  have b: "map fst before = map fst after" "one_each before" "one_each after"
    using snapshotBalances_Inr [OF assms(1)] snapshotBalances_Inr [OF assms(2)] by simp_all
  have "\<forall>a. moved before after a = 0"
    using assms(3) unfolding assertNoMovement_def assertDeltas_iff [OF b(2,3)]
    by (auto simp: wanted_map_def or_zero_at_def)
  then show ?thesis using same_balances [OF b(1,2)] by (simp add: moved_def)
qed

lemma quiet_never_resent:
  "submissions pre = [] \<Longrightarrow> submissions post = [] \<Longrightarrow> never_resent n new \<Longrightarrow> never_resent n (pre @ new @ post)"
  by (simp add: never_resent_def)

definition watched_balances :: "string list \<Rightarrow> (string \<times> string) list \<Rightarrow> bool" where
  "watched_balances addresses rows \<longleftrightarrow> map fst rows = keys_after [] (keys_after [] addresses)"

lemma attemptRefusal_Inr:
  assumes "attemptRefusal cw a t = Some (Inr row, t')"
  shows "\<exists>new s. t' = t @ new \<and> never_resent MAX_BLOCKHASH_RETRIES new \<and> submissions new \<noteq> []
      \<and> fst (last (submissions new)) = rr_signature row
      \<and> seen (rr_signature row) new s \<and> rr_err row = status_err s \<and> has_err (status_err s)"
    and "watched_balances (ra_watched a) (rr_balancesBefore row)
      \<and> rr_balancesAfter row = rr_balancesBefore row \<and> rr_stateAfter row = rr_stateBefore row
      \<and> rr_programAttributed row = ''unverified''"
proof -
  from assms obtain before t1 state_before t2 r t3 after t4 state_after t5 ok where
    run: "snapshotBalances cw (ra_watched a) t = Some (Inr before, t1)"
      "read_agreement_if cw (ra_readAgreement a) t1 = Some (Inr state_before, t2)"
      "sendExpectingFailure cw True (default_send (ra_label a)) t2 = Some (Inr r, t3)"
      "snapshotBalances cw (ra_watched a) t3 = Some (Inr after, t4)"
      "read_agreement_if cw (ra_readAgreement a) t4 = Some (Inr state_after, t5)"
    and check: "assertRefusalChangedNothing (cw_number cw)
         \<lparr>ro_label = ra_label a, ro_before = before, ro_after = after,
          ro_stateBefore = map_option ag_state state_before, ro_stateAfter = map_option ag_state state_after,
          ro_settledTotalBefore = total_of state_before, ro_settledTotalAfter = total_of state_after\<rparr> = Inr ok"
    and row: "rr_signature row = rf_signature r" "rr_err row = rf_err r" "rr_programAttributed row = rf_programAttributed r"
      "rr_stateBefore row = map_option ag_state state_before" "rr_stateAfter row = map_option ag_state state_after"
      "rr_balancesBefore row = snapshot_json before" "rr_balancesAfter row = snapshot_json after" "t' = t5"
    unfolding attemptRefusal_def and_then_Inr lift_result_Inr by auto
  obtain observed where "assertNoMovement (cw_number cw) before after (ra_label a @ '' (refused)'') ''PPV-P7'' = Inr observed"
    and states: "map_option ag_state state_before = map_option ag_state state_after"
    using check by (auto simp: assertRefusalChangedNothing_def bindR_eq_Inr invariant_violation_def split: if_splits)
  with unmoved_balances [OF run(1,4)] have still: "after = before" by blast
  obtain new where new: "t3 = t2 @ new" "never_resent MAX_BLOCKHASH_RETRIES new" "refusal_outcome new (Inr r)"
      "rf_programAttributed r = ''unverified''"
    using sendExpectingFailure_Inr [OF run(3)] by (auto simp: default_send_def)
  obtain pre where pre: "t2 = t @ pre" "submissions pre = []"
    using snapshotBalances_Inr [OF run(1)] read_agreement_trace [OF run(2)] by auto
  obtain post where post: "t5 = t3 @ post" "submissions post = []"
    using snapshotBalances_Inr [OF run(4)] read_agreement_trace [OF run(5)] by auto
  obtain s where "seen (rf_signature r) new s" "rf_err r = status_err s" "has_err (rf_err r)"
      "submissions new \<noteq> []" "fst (last (submissions new)) = rf_signature r"
    using new(3) by (auto simp: refusal_outcome_def)
  then show "\<exists>new s. t' = t @ new \<and> never_resent MAX_BLOCKHASH_RETRIES new \<and> submissions new \<noteq> []
      \<and> fst (last (submissions new)) = rr_signature row
      \<and> seen (rr_signature row) new s \<and> rr_err row = status_err s \<and> has_err (status_err s)"
    using row new pre post quiet_never_resent [OF pre(2) post(2) new(2)]
    by (intro exI [of _ "pre @ new @ post"] exI [of _ s]) (auto simp: seen_def)
  show "watched_balances (ra_watched a) (rr_balancesBefore row)
      \<and> rr_balancesAfter row = rr_balancesBefore row \<and> rr_stateAfter row = rr_stateBefore row
      \<and> rr_programAttributed row = ''unverified''"
    using row still states new(4) snapshotBalances_Inr [OF run(1)]
    by (simp add: watched_balances_def snapshot_json_def comp_def split_def)
qed

lemma stepWithoutValue_Inr:
  assumes "stepWithoutValue cw label addresses t = Some (Inr entry, t')"
  shows "\<exists>new s. t' = t @ new \<and> never_resent MAX_BLOCKHASH_RETRIES new \<and> submissions new \<noteq> []
      \<and> fst (last (submissions new)) = vs_signature entry
      \<and> seen (vs_signature entry) new s \<and> \<not> has_err (status_err s)"
    and "watched_balances addresses (vs_balancesBefore entry) \<and> vs_balancesAfter entry = vs_balancesBefore entry"
proof -
  from assms obtain before t1 signature t2 after observed where
    run: "snapshotBalances cw addresses t = Some (Inr before, t1)"
      "send cw True (default_send label) t1 = Some (Inr signature, t2)"
      "snapshotBalances cw addresses t2 = Some (Inr after, t')"
    and check: "assertNoMovement (cw_number cw) before after label ''PPV-P10'' = Inr observed"
    and entry: "vs_signature entry = signature" "vs_balancesBefore entry = snapshot_json before"
      "vs_balancesAfter entry = snapshot_json after"
    unfolding stepWithoutValue_def and_then_Inr lift_result_Inr by auto
  have still: "after = before" by (rule unmoved_balances [OF run(1,3) check])
  obtain new report where new: "t2 = t1 @ new" "never_resent MAX_BLOCKHASH_RETRIES new"
      "success_outcome new (Inr report)" "sr_signature report = signature"
    using send_Inr [OF run(2)] by (auto simp: default_send_def)
  obtain pre where pre: "t1 = t @ pre" "submissions pre = []" using snapshotBalances_Inr [OF run(1)] by auto
  obtain post where post: "t' = t2 @ post" "submissions post = []" using snapshotBalances_Inr [OF run(3)] by auto
  obtain s where "seen signature new s" "\<not> has_err (status_err s)" "submissions new \<noteq> []"
      "fst (last (submissions new)) = signature"
    using new(3,4) by (auto simp: success_outcome_def)
  then show "\<exists>new s. t' = t @ new \<and> never_resent MAX_BLOCKHASH_RETRIES new \<and> submissions new \<noteq> []
      \<and> fst (last (submissions new)) = vs_signature entry
      \<and> seen (vs_signature entry) new s \<and> \<not> has_err (status_err s)"
    using entry new pre post quiet_never_resent [OF pre(2) post(2) new(2)]
    by (intro exI [of _ "pre @ new @ post"] exI [of _ s]) (auto simp: seen_def)
  show "watched_balances addresses (vs_balancesBefore entry) \<and> vs_balancesAfter entry = vs_balancesBefore entry"
    using entry still snapshotBalances_Inr [OF run(1)]
    by (simp add: watched_balances_def snapshot_json_def comp_def split_def)
qed


end
