(* ===== verification/Tx_Examples.thy ===== *)
theory Tx_Examples
  imports Tx_Safety
begin

text \<open>
  Concrete runs: a send that is retried once for its blockhash, a refusal the chain reports, and
  the runs in which a transaction that is only processed is taken for settled.
\<close>

definition plain_error :: "string \<Rightarrow> foreign_error" where
  "plain_error message =
     \<lparr>fe_message = Some message, fe_text = message, fe_cause = None, fe_code = None, fe_logs = Some [],
       fe_classification = None\<rparr>"

definition status_at :: "string \<Rightarrow> json option \<Rightarrow> signature_status" where
  "status_at level err = \<lparr>ss_level = Some level, ss_unconfirmed = False, ss_err = err\<rparr>"

text \<open>A world whose clock is moved by the waits alone.\<close>

definition world_of ::
    "(trace \<Rightarrow> caught option) \<Rightarrow> (trace \<Rightarrow> caught + signature_status option list option) \<Rightarrow> world" where
  "world_of send statuses =
     \<lparr>w_blockhash = \<lambda>_. Inr (''hash'', 100), w_sign = \<lambda>_. Inr (Some [1]),
      w_send = \<lambda>t _ _. send t, w_statuses = \<lambda>t _. statuses t, w_now = paused,
      w_logs = \<lambda>_ _. Inr None, w_number = \<lambda>_. [], w_sensitive = []\<rparr>"

definition brief :: send_options where
  "brief = \<lparr>so_label = ''settle'', so_maxBlockhashRetries = MAX_BLOCKHASH_RETRIES,
     so_pacingMs = SUBMISSION_PACING_MS,
     so_confirm = \<lparr>co_timeoutMs = 1000, co_intervalMs = CONFIRMATION_POLL_INTERVAL_MS\<rparr>,
     so_fetchLogs = False, so_escrowProgramId = None\<rparr>"

definition stale :: foreign_error where
  "stale = plain_error ''Transaction simulation failed: Blockhash not found''"

lemma clock_of: "clock_runs (world_of send statuses)"
  by (simp add: clock_runs_def world_of_def)

lemma brief_interval: "1 \<le> co_intervalMs (so_confirm brief)"
  by (simp add: brief_def CONFIRMATION_POLL_INTERVAL_MS_def)

lemma returned:
  "(case m of Some (Inr a, t) \<Rightarrow> Q a t | _ \<Rightarrow> False) \<Longrightarrow> \<exists>a t. m = Some (Inr a, t) \<and> Q a t"
  by (simp split: option.splits prod.splits sum.splits)

section \<open>A stale blockhash\<close>

definition stale_once :: world where
  "stale_once = world_of (\<lambda>t. if submissions t = [] then Some (Some stale) else None)
     (\<lambda>_. Inr (Some [Some (status_at ''confirmed'' None)]))"

definition always_stale :: world where
  "always_stale = world_of (\<lambda>_. Some (Some stale)) (\<lambda>_. Inr None)"

lemma stale_once_run:
  "case sendExpectingSuccess stale_once brief [] of
     Some (Inr report, t) \<Rightarrow> sr_signature report = ''2'' \<and> length (submissions t) = 2 | _ \<Rightarrow> False"
  unfolding stale_once_def world_of_def by code_simp

theorem success_sent_once_witness:
  "\<exists>report t'. sendExpectingSuccess stale_once brief [] = Some (Inr report, t')
     \<and> length (submissions t') = 2 \<and> never_resent 1 t' \<and> success_outcome t' (Inr report)"
proof -
  obtain report t' where run: "sendExpectingSuccess stale_once brief [] = Some (Inr report, t')"
    "length (submissions t') = 2"
    using returned [OF stale_once_run] by blast
  from success_sent_once [OF run(1)] run show ?thesis
    by (auto simp: brief_def MAX_BLOCKHASH_RETRIES_def)
qed

section \<open>A refusal on chain\<close>

definition refusing :: world where
  "refusing = world_of (\<lambda>_. None) (\<lambda>_. Inr (Some [Some (status_at ''finalized'' (Some
     (J_object [(''InstructionError'', J_array [J_number (Whole 0), J_object [(''Custom'', J_number (Whole 6001))]])])))]))"

lemma refusing_run:
  "case sendExpectingRefusal refusing brief [] of
     Some (Inr row, t) \<Rightarrow> rf_signature row = ''2'' \<and> ec_number (rf_errorCode row) = Some 6001 | _ \<Rightarrow> False"
  unfolding refusing_def world_of_def by code_simp

theorem refusal_proven_witness:
  "\<exists>row t'. sendExpectingRefusal refusing brief [] = Some (Inr row, t') \<and> never_resent 1 t'
     \<and> has_err (rf_err row) \<and> ec_number (rf_errorCode row) = Some 6001"
proof -
  obtain row t' where run: "sendExpectingRefusal refusing brief [] = Some (Inr row, t')"
    "ec_number (rf_errorCode row) = Some 6001"
    using returned [OF refusing_run] by blast
  from refusal_proven [OF run(1)] run show ?thesis
    by (auto simp: brief_def MAX_BLOCKHASH_RETRIES_def refusal_outcome_def)
qed

section \<open>An endpoint that never answers for the signature\<close>

definition silent :: world where "silent = world_of (\<lambda>_. None) (\<lambda>_. Inr None)"

theorem transactions_resolve_witness:
  "\<exists>r new. sendExpectingSuccess silent brief [] = Some (r, new) \<and> polls_bounded brief new"
  using transactions_resolve [of silent brief "[]"] brief_interval
  by (simp add: silent_def clock_of)

section \<open>Processed is not confirmed\<close>

text \<open>
  When the send itself failed, the deadline of the confirmation is not looked at: a transaction
  that is still only \<open>processed\<close> when the time is up, a level a fork can take back and the
  other path refuses, is reported as a success, and as a custody defect where a refusal was due.
\<close>

definition lost_connection :: world where
  "lost_connection = world_of (\<lambda>_. Some (Some (plain_error ''read ECONNRESET'')))
     (\<lambda>_. Inr (Some [Some (status_at ''processed'' None)]))"

definition only_processed :: world where
  "only_processed = world_of (\<lambda>_. None) (\<lambda>_. Inr (Some [Some (status_at ''processed'' None)]))"

theorem processed_after_ambiguity:
  "(case sendExpectingSuccess lost_connection brief [] of
      Some (Inr report, _) \<Rightarrow> sr_class report = TRANSACTION_SUBMITTED_SUCCESS \<and> sr_level report = Some ''processed''
    | _ \<Rightarrow> False)
   \<and> (case sendExpectingRefusal lost_connection brief [] of
        Some (Inl (Lifecycle_Error _ c _ _), _) \<Rightarrow> c = CUSTODY_DEFECT | _ \<Rightarrow> False)
   \<and> (case sendExpectingSuccess only_processed brief [] of
        Some (Inl (Lifecycle_Error _ c _ _), _) \<Rightarrow> c = TRANSACTION_CONFIRMATION_AMBIGUOUS | _ \<Rightarrow> False)"
  unfolding lost_connection_def only_processed_def world_of_def by (intro conjI; code_simp)

end
