(* ===== verification/Custody_Examples.thy ===== *)
theory Custody_Examples
  imports Custody_Runner Tx_Examples
begin

text \<open>
  A concrete run of the custody runner: a refusal and a step that are recorded over accounts that
  stay empty.
\<close>

definition still_world :: "world \<Rightarrow> custody_world" where
  "still_world w =
     \<lparr>cw_world = w, cw_base64 = \<lambda>_. [],
      cw_accounts = \<lambda>_ chunk. Inr (Some (map (\<lambda>_. None) chunk)),
      cw_agreement = \<lambda>_. Inr (Some \<lparr>ag_state = ''Funded'', ag_settledTotal = Big_amount 0\<rparr>)\<rparr>"

definition over_settle :: refusal_attempt where
  "over_settle = \<lparr>ra_label = ''settle twice'', ra_invariant = ''PPV-P3'', ra_watched = [''vault'', ''seller''],
     ra_readAgreement = True\<rparr>"

definition accepting :: world where
  "accepting = world_of (\<lambda>_. None) (\<lambda>_. Inr (Some [Some (status_at ''confirmed'' None)]))"

lemma over_settle_run:
  "case attemptRefusal (still_world refusing) over_settle [] of
     Some (Inr row, t) \<Rightarrow> rr_balancesBefore row = [(''vault'', ''0''), (''seller'', ''0'')] | _ \<Rightarrow> False"
  unfolding refusing_def world_of_def by code_simp

lemma mark_step_run:
  "case stepWithoutValue (still_world accepting) ''mark completed'' [''vault''] [] of
     Some (Inr row, t) \<Rightarrow> vs_balancesBefore row = [(''vault'', ''0'')] | _ \<Rightarrow> False"
  unfolding accepting_def world_of_def by code_simp


end
