(* ===== verification/Script_Ix.thy ===== *)
theory Script_Ix
  imports Instructions Custody_Invariants
begin

text \<open>
  The instruction set the live runs encode by hand (\<open>scripts/lib/escrow-instructions.mjs\<close>), and
  its agreement with the client library's builders. A public key is its 32 bytes; the search
  for a program-derived address is the one of \<open>@solana/web3.js\<close> and a parameter.
\<close>

type_synonym pubkey = bytes

type_synonym pda_search = "bytes list \<Rightarrow> pubkey \<Rightarrow> (pubkey \<times> nat) result"

record key_meta =
  km_pubkey :: pubkey
  km_isSigner :: bool
  km_isWritable :: bool

record web3_instruction =
  wi_programId :: pubkey
  wi_keys :: "key_meta list"
  wi_data :: bytes

text \<open>\<open>new PublicKey(text)\<close> of a constant.\<close>

definition key_constant :: "string \<Rightarrow> pubkey" where
  "key_constant text = (case decodeBase58 text of Inr bs \<Rightarrow> bs | Inl _ \<Rightarrow> [])"

definition SCRIPT_ESCROW_PROGRAM_ID :: pubkey where
  "SCRIPT_ESCROW_PROGRAM_ID = key_constant ''7U1bCHQcr8Jg6J8G69JGaAWCRtsrZB1RYx4zo1sNEVF4''"

definition SCRIPT_CORE_PROGRAM_ID :: pubkey where
  "SCRIPT_CORE_PROGRAM_ID = key_constant ''9cWE41ZDNQChvFrRoVuPQDeoVLg46ACTiZRCZaBZzfwU''"

definition TOKEN_PROGRAM_ID :: pubkey where
  "TOKEN_PROGRAM_ID = key_constant ''TokenkegQfeZyiNwAJbNbGKPFXCWuBvf9Ss623VQ5DA''"

definition TOKEN_2022_PROGRAM_ID :: pubkey where
  "TOKEN_2022_PROGRAM_ID = key_constant ''TokenzQdBNbLqP5VEhdkAS6EPFLC1PHnBqCXEpPxuEb''"

definition ASSOCIATED_TOKEN_PROGRAM_ID :: pubkey where
  "ASSOCIATED_TOKEN_PROGRAM_ID = key_constant ''ATokenGPvbdGVxr1b2hvZbsiqW5xWH25efTNsLJA8knL''"

text \<open>\<open>SystemProgram.programId\<close>.\<close>

definition system_program :: pubkey where "system_program = replicate 32 0"

section \<open>Accounts and seeds\<close>

definition instructionDiscriminator :: "(bytes \<Rightarrow> bytes) \<Rightarrow> string \<Rightarrow> bytes" where
  "instructionDiscriminator sha name = take 8 (sha (utf8 (''global:'' @ name)))"

definition key_ro :: "pubkey \<Rightarrow> key_meta" where
  "key_ro k = \<lparr>km_pubkey = k, km_isSigner = False, km_isWritable = False\<rparr>"

definition key_rw :: "pubkey \<Rightarrow> key_meta" where
  "key_rw k = \<lparr>km_pubkey = k, km_isSigner = False, km_isWritable = True\<rparr>"

definition key_signer :: "pubkey \<Rightarrow> bool \<Rightarrow> key_meta" where
  "key_signer k w = \<lparr>km_pubkey = k, km_isSigner = True, km_isWritable = w\<rparr>"

definition eventCpiAccounts :: "pda_search \<Rightarrow> pubkey \<Rightarrow> key_meta list result" where
  "eventCpiAccounts seek programId =
     bindR (seek [utf8 ''__event_authority''] programId) (\<lambda>(eventAuthority, _).
       Inr [\<lparr>km_pubkey = eventAuthority, km_isSigner = False, km_isWritable = False\<rparr>,
            \<lparr>km_pubkey = programId, km_isSigner = False, km_isWritable = False\<rparr>])"

text \<open>
  The range error of the fixed-width writes of \<open>Buffer\<close>: a large number is written with
  separators.
\<close>

function separated :: "string \<Rightarrow> string" where
  "separated s =
     (if length s \<le> (if s \<noteq> [] \<and> hd s = CHR ''-'' then 4 else 3) then s
      else separated (take (length s - 3) s) @ ''_'' @ drop (length s - 3) s)"
  by auto
termination by (relation "measure length") auto

declare separated.simps [simp del]

definition out_of_range :: "string \<Rightarrow> string \<Rightarrow> 'a result" where
  "out_of_range bounds received =
     throw RangeError (''The value of \"value\" is out of range. It must be '' @ bounds
       @ ''. Received '' @ received)"

text \<open>\<open>BigInt(value)\<close>.\<close>

fun big_int :: "(js_number \<Rightarrow> string) \<Rightarrow> amount_input \<Rightarrow> int result" where
  "big_int num (Big_amount v) = Inr v"
| "big_int num (Number_amount n) =
     (if is_integer n then Inr (whole n)
      else throw RangeError (''The number '' @ num n
        @ '' cannot be converted to a BigInt because it is not an integer''))"
| "big_int num (Text_amount s) =
     (case big_of_string s of
        Some v \<Rightarrow> Inr v
      | None \<Rightarrow> throw SyntaxError (''Cannot convert '' @ s @ '' to a BigInt''))"
| "big_int num (Other_amount kind) = throw TypeError (''Cannot convert '' @ kind @ '' to a BigInt'')"

definition script_u64 :: "(js_number \<Rightarrow> string) \<Rightarrow> amount_input \<Rightarrow> bytes result" where
  "script_u64 num v = bindR (big_int num v) (\<lambda>i.
     if i < 0 \<or> i > 0xffffffffffffffff
     then out_of_range ''>= 0n and < 2n ** 64n''
       ((if \<bar>i\<bar> > 2 ^ 32 then separated (dec_int i) else dec_int i) @ ''n'')
     else Inr (le_bytes 8 (nat i)))"

text \<open>A fraction in range is cut off, and \<open>NaN\<close> is written as zero.\<close>

definition script_u32 :: "(js_number \<Rightarrow> string) \<Rightarrow> js_number \<Rightarrow> bytes result" where
  "script_u32 num v =
     (let refused = out_of_range ''>= 0 and <= 4294967295''
            (if is_integer v \<and> \<bar>whole v\<bar> > 2 ^ 32 then separated (num v) else num v)
      in case v of
           Whole i \<Rightarrow> if i < 0 \<or> i > 0xffffffff then refused else Inr (le_bytes 4 (nat i))
         | Fractional i \<Rightarrow> if i < 0 \<or> i \<ge> 0xffffffff then refused else Inr (le_bytes 4 (nat i))
         | Not_a_Number \<Rightarrow> Inr (le_bytes 4 0)
         | _ \<Rightarrow> refused)"

definition script_deriveAgreement ::
    "pda_search \<Rightarrow> (js_number \<Rightarrow> string) \<Rightarrow> pubkey \<Rightarrow> amount_input \<Rightarrow> pubkey \<Rightarrow> (pubkey \<times> nat) result" where
  "script_deriveAgreement seek num creator agreementId programId =
     bindR (script_u64 num agreementId) (\<lambda>i. seek [utf8 ''agreement'', creator, i] programId)"

definition script_deriveVaultAuthority :: "pda_search \<Rightarrow> pubkey \<Rightarrow> pubkey \<Rightarrow> (pubkey \<times> nat) result" where
  "script_deriveVaultAuthority seek agreement programId = seek [utf8 ''vault'', agreement] programId"

definition script_deriveVault :: "pda_search \<Rightarrow> pubkey \<Rightarrow> pubkey \<Rightarrow> (pubkey \<times> nat) result" where
  "script_deriveVault seek agreement programId = seek [utf8 ''vault_token'', agreement] programId"

definition script_deriveProof ::
    "pda_search \<Rightarrow> (js_number \<Rightarrow> string) \<Rightarrow> pubkey \<Rightarrow> js_number \<Rightarrow> pubkey \<Rightarrow> (pubkey \<times> nat) result" where
  "script_deriveProof seek num agreement proofIndex programId =
     bindR (script_u32 num proofIndex) (\<lambda>i. seek [utf8 ''proof'', agreement, i] programId)"

definition script_deriveMilestone ::
    "pda_search \<Rightarrow> (js_number \<Rightarrow> string) \<Rightarrow> pubkey \<Rightarrow> js_number \<Rightarrow> pubkey \<Rightarrow> (pubkey \<times> nat) result" where
  "script_deriveMilestone seek num agreement milestoneIndex programId =
     bindR (script_u32 num milestoneIndex) (\<lambda>i. seek [utf8 ''milestone'', agreement, i] programId)"

definition script_coreProofId ::
    "(bytes \<Rightarrow> bytes) \<Rightarrow> (js_number \<Rightarrow> string) \<Rightarrow> pubkey \<Rightarrow> js_number \<Rightarrow> bytes result" where
  "script_coreProofId sha num agreement proofIndex =
     bindR (script_u32 num proofIndex) (\<lambda>i.
       Inr (take 16 (sha (utf8 ''ppv:escrow:core-proof:v1'' @ agreement @ i))))"

definition script_deriveCoreProof :: "pda_search \<Rightarrow> pubkey \<Rightarrow> bytes \<Rightarrow> pubkey \<Rightarrow> (pubkey \<times> nat) result" where
  "script_deriveCoreProof seek submitter proofId programId =
     seek [utf8 ''proof'', submitter, proofId] programId"

definition coreEventAuthority :: "pda_search \<Rightarrow> pubkey \<Rightarrow> pubkey result" where
  "coreEventAuthority seek programId =
     bindR (seek [utf8 ''__event_authority''] programId) (\<lambda>r. Inr (fst r))"

section \<open>Enumerations\<close>

definition SCRIPT_AGREEMENT_TYPE :: "(string \<times> nat) list" where
  "SCRIPT_AGREEMENT_TYPE =
     [(''Escrow'', 0), (''Invoice'', 1), (''Contract'', 2), (''MilestoneContract'', 3),
      (''Bounty'', 4), (''ProofOnly'', 5)]"

definition SCRIPT_AGREEMENT_STATE :: "string list" where
  "SCRIPT_AGREEMENT_STATE =
     [''Open'', ''Funded'', ''Completed'', ''Settled'', ''Cancelled'', ''Disputed'', ''Refunded'']"

definition SCRIPT_MILESTONE_STATE :: "string list" where
  "SCRIPT_MILESTONE_STATE = [''Pending'', ''Submitted'', ''Approved'', ''Settled'']"

text \<open>
  \<open>AGREEMENT_TYPE[agreementType]\<close> of an object with a prototype: an inherited name is not
  undefined, and \<open>Buffer.from\<close> writes what it yields as zero.
\<close>

definition inherited_names :: "string list" where
  "inherited_names =
     [''constructor'', ''__defineGetter__'', ''__defineSetter__'', ''hasOwnProperty'',
      ''__lookupGetter__'', ''__lookupSetter__'', ''isPrototypeOf'', ''propertyIsEnumerable'',
      ''toString'', ''valueOf'', ''__proto__'', ''toLocaleString'']"

definition type_byte :: "string \<Rightarrow> nat option" where
  "type_byte name =
     (case map_of SCRIPT_AGREEMENT_TYPE name of
        Some i \<Rightarrow> Some i
      | None \<Rightarrow> if List.member inherited_names name then Some 0 else None)"

section \<open>Instructions\<close>

definition escrowIx ::
    "(bytes \<Rightarrow> bytes) \<Rightarrow> pda_search \<Rightarrow> string \<Rightarrow> key_meta list \<Rightarrow> bytes \<Rightarrow> pubkey \<Rightarrow> web3_instruction result" where
  "escrowIx sha seek name keys data programId =
     bindR (eventCpiAccounts seek programId) (\<lambda>events.
       Inr \<lparr>wi_programId = programId, wi_keys = keys @ events,
            wi_data = instructionDiscriminator sha name @ data\<rparr>)"

definition optionalAccount :: "pubkey option \<Rightarrow> pubkey \<Rightarrow> key_meta" where
  "optionalAccount account programId = key_ro (case account of Some k \<Rightarrow> k | None \<Rightarrow> programId)"

definition initializeAgreementInstruction ::
    "(bytes \<Rightarrow> bytes) \<Rightarrow> pda_search \<Rightarrow> (js_number \<Rightarrow> string) \<Rightarrow> pubkey \<Rightarrow> pubkey \<Rightarrow> amount_input \<Rightarrow> pubkey
       \<Rightarrow> string \<Rightarrow> amount_input \<Rightarrow> bytes \<Rightarrow> pubkey \<Rightarrow> pubkey \<Rightarrow> web3_instruction result" where
  "initializeAgreementInstruction sha seek num creator mint agreementId counterparty agreementType
       amount termsHash programId tokenProgram =
     bindR (script_deriveAgreement seek num creator agreementId programId) (\<lambda>(agreement, _).
     bindR (script_deriveVaultAuthority seek agreement programId) (\<lambda>(vaultAuthority, _).
     bindR (script_deriveVault seek agreement programId) (\<lambda>(vault, _).
     case type_byte agreementType of
       None \<Rightarrow> throw PlainError (''unknown agreement type: '' @ agreementType)
     | Some typeIndex \<Rightarrow>
         bindR (script_u64 num agreementId) (\<lambda>idBytes.
         bindR (script_u64 num amount) (\<lambda>amountBytes.
         escrowIx sha seek ''initialize_agreement''
           [key_signer creator True, key_ro mint, key_rw agreement, key_ro vaultAuthority, key_rw vault,
            key_ro tokenProgram, key_ro system_program]
           (concat [idBytes, counterparty, [word_of_nat typeIndex], amountBytes, termsHash])
           programId)))))"

definition fundInstruction ::
    "(bytes \<Rightarrow> bytes) \<Rightarrow> pda_search \<Rightarrow> pubkey \<Rightarrow> pubkey \<Rightarrow> pubkey \<Rightarrow> pubkey \<Rightarrow> pubkey \<Rightarrow> pubkey \<Rightarrow> pubkey
       \<Rightarrow> web3_instruction result" where
  "fundInstruction sha seek buyer agreement mint vault funderTokenAccount programId tokenProgram =
     escrowIx sha seek ''fund''
       [key_signer buyer False, key_rw agreement, key_ro mint, key_rw vault, key_rw funderTokenAccount,
        key_ro tokenProgram] [] programId"

definition markCompletedInstruction ::
    "(bytes \<Rightarrow> bytes) \<Rightarrow> pda_search \<Rightarrow> pubkey \<Rightarrow> pubkey \<Rightarrow> pubkey \<Rightarrow> web3_instruction result" where
  "markCompletedInstruction sha seek seller agreement programId =
     escrowIx sha seek ''mark_completed'' [key_signer seller False, key_rw agreement] [] programId"

definition settleInstruction ::
    "(bytes \<Rightarrow> bytes) \<Rightarrow> pda_search \<Rightarrow> pubkey \<Rightarrow> pubkey \<Rightarrow> pubkey \<Rightarrow> pubkey \<Rightarrow> pubkey \<Rightarrow> pubkey
       \<Rightarrow> pubkey option \<Rightarrow> pubkey option \<Rightarrow> pubkey \<Rightarrow> pubkey \<Rightarrow> web3_instruction result" where
  "settleInstruction sha seek signerKey agreement mint vault vaultAuthority sellerTokenAccount
       settlementProof coreProof programId tokenProgram =
     escrowIx sha seek ''settle''
       [key_signer signerKey False, key_rw agreement, key_ro mint, key_rw vault, key_ro vaultAuthority,
        key_rw sellerTokenAccount, optionalAccount settlementProof programId,
        optionalAccount coreProof programId, key_ro tokenProgram] [] programId"

definition cancelInstruction ::
    "(bytes \<Rightarrow> bytes) \<Rightarrow> pda_search \<Rightarrow> pubkey \<Rightarrow> pubkey \<Rightarrow> pubkey \<Rightarrow> web3_instruction result" where
  "cancelInstruction sha seek creator agreement programId =
     escrowIx sha seek ''cancel'' [key_signer creator False, key_rw agreement] [] programId"

definition refundInstruction ::
    "(bytes \<Rightarrow> bytes) \<Rightarrow> pda_search \<Rightarrow> pubkey \<Rightarrow> pubkey \<Rightarrow> pubkey \<Rightarrow> pubkey \<Rightarrow> pubkey \<Rightarrow> pubkey
       \<Rightarrow> pubkey \<Rightarrow> pubkey \<Rightarrow> web3_instruction result" where
  "refundInstruction sha seek seller agreement mint vault vaultAuthority buyerTokenAccount programId
       tokenProgram =
     escrowIx sha seek ''refund''
       [key_signer seller False, key_rw agreement, key_ro mint, key_rw vault, key_ro vaultAuthority,
        key_rw buyerTokenAccount, key_ro tokenProgram] [] programId"

definition openDisputeInstruction ::
    "(bytes \<Rightarrow> bytes) \<Rightarrow> pda_search \<Rightarrow> pubkey \<Rightarrow> pubkey \<Rightarrow> bytes \<Rightarrow> pubkey \<Rightarrow> web3_instruction result" where
  "openDisputeInstruction sha seek party agreement reasonHash programId =
     escrowIx sha seek ''open_dispute'' [key_signer party False, key_rw agreement] reasonHash programId"

definition resolveDisputeInstruction ::
    "(bytes \<Rightarrow> bytes) \<Rightarrow> pda_search \<Rightarrow> pubkey \<Rightarrow> pubkey \<Rightarrow> pubkey \<Rightarrow> pubkey \<Rightarrow> pubkey \<Rightarrow> pubkey
       \<Rightarrow> pubkey \<Rightarrow> pubkey \<Rightarrow> web3_instruction result" where
  "resolveDisputeInstruction sha seek signerKey agreement mint vault vaultAuthority destination
       programId tokenProgram =
     escrowIx sha seek ''resolve_dispute''
       [key_signer signerKey False, key_rw agreement, key_ro mint, key_rw vault, key_ro vaultAuthority,
        key_rw destination, key_ro tokenProgram] [] programId"

definition selectCounterpartyInstruction ::
    "(bytes \<Rightarrow> bytes) \<Rightarrow> pda_search \<Rightarrow> pubkey \<Rightarrow> pubkey \<Rightarrow> pubkey \<Rightarrow> pubkey \<Rightarrow> web3_instruction result" where
  "selectCounterpartyInstruction sha seek creator agreement counterparty programId =
     escrowIx sha seek ''select_counterparty'' [key_signer creator False, key_rw agreement] counterparty
       programId"

definition createMilestoneInstruction ::
    "(bytes \<Rightarrow> bytes) \<Rightarrow> pda_search \<Rightarrow> (js_number \<Rightarrow> string) \<Rightarrow> pubkey \<Rightarrow> pubkey \<Rightarrow> pubkey \<Rightarrow> amount_input
       \<Rightarrow> bytes \<Rightarrow> pubkey \<Rightarrow> web3_instruction result" where
  "createMilestoneInstruction sha seek num creator agreement milestone amount termsHash programId =
     bindR (script_u64 num amount) (\<lambda>amountBytes.
     escrowIx sha seek ''create_milestone''
       [key_signer creator True, key_rw agreement, key_rw milestone, key_ro system_program]
       (amountBytes @ termsHash) programId)"

definition updateMilestoneInstruction ::
    "(bytes \<Rightarrow> bytes) \<Rightarrow> pda_search \<Rightarrow> string \<Rightarrow> pubkey \<Rightarrow> pubkey \<Rightarrow> pubkey \<Rightarrow> pubkey \<Rightarrow> web3_instruction result" where
  "updateMilestoneInstruction sha seek name signerKey agreement milestone programId =
     (if \<not> List.member [''submit_milestone'', ''approve_milestone'', ''reject_milestone''] name
      then throw PlainError (''not a milestone update instruction: '' @ name)
      else escrowIx sha seek name [key_signer signerKey False, key_ro agreement, key_rw milestone] [] programId)"

definition settleMilestoneInstruction ::
    "(bytes \<Rightarrow> bytes) \<Rightarrow> pda_search \<Rightarrow> pubkey \<Rightarrow> pubkey \<Rightarrow> pubkey \<Rightarrow> pubkey \<Rightarrow> pubkey \<Rightarrow> pubkey \<Rightarrow> pubkey
       \<Rightarrow> pubkey option \<Rightarrow> pubkey option \<Rightarrow> pubkey \<Rightarrow> pubkey \<Rightarrow> web3_instruction result" where
  "settleMilestoneInstruction sha seek signerKey agreement milestone mint vault vaultAuthority
       sellerTokenAccount settlementProof coreProof programId tokenProgram =
     escrowIx sha seek ''settle_milestone''
       [key_signer signerKey False, key_rw agreement, key_rw milestone, key_ro mint, key_rw vault,
        key_ro vaultAuthority, key_rw sellerTokenAccount, optionalAccount settlementProof programId,
        optionalAccount coreProof programId, key_ro tokenProgram] [] programId"

definition submitProofInstruction ::
    "(bytes \<Rightarrow> bytes) \<Rightarrow> pda_search \<Rightarrow> (js_number \<Rightarrow> string) \<Rightarrow> pubkey \<Rightarrow> pubkey \<Rightarrow> js_number \<Rightarrow> bytes
       \<Rightarrow> bytes \<Rightarrow> pubkey \<Rightarrow> pubkey \<Rightarrow> web3_instruction result" where
  "submitProofInstruction sha seek num submitter agreement proofIndex contentHash metadataHash
       programId coreProgramId =
     bindR (script_deriveProof seek num agreement proofIndex programId) (\<lambda>(proof, _).
     bindR (script_coreProofId sha num agreement proofIndex) (\<lambda>proofId.
     bindR (script_deriveCoreProof seek submitter proofId coreProgramId) (\<lambda>(coreProof, _).
     bindR (coreEventAuthority seek coreProgramId) (\<lambda>authority.
     escrowIx sha seek ''submit_proof''
       [key_signer submitter True, key_rw agreement, key_rw proof, key_rw coreProof, key_ro authority,
        key_ro coreProgramId, key_ro system_program]
       (contentHash @ metadataHash) programId))))"

definition decideProofInstruction ::
    "(bytes \<Rightarrow> bytes) \<Rightarrow> pda_search \<Rightarrow> string \<Rightarrow> pubkey \<Rightarrow> pubkey \<Rightarrow> pubkey \<Rightarrow> pubkey \<Rightarrow> web3_instruction result" where
  "decideProofInstruction sha seek name decider agreement proof programId =
     (if \<not> List.member [''approve_proof'', ''reject_proof''] name
      then throw PlainError (''not a proof decision instruction: '' @ name)
      else escrowIx sha seek name [key_signer decider False, key_ro agreement, key_rw proof] [] programId)"

section \<open>Agreement with the client library\<close>

text \<open>
  What the search of \<open>@solana/web3.js\<close> documents: the address and bump of
  \<open>find_program_address\<close>, which is what the client library computes by itself.
\<close>

definition web3_search :: "(bytes \<Rightarrow> bytes) \<Rightarrow> pda_search \<Rightarrow> bool" where
  "web3_search sha seek \<longleftrightarrow>
     (\<forall>seeds p. length p = 32 \<longrightarrow>
        (\<forall>k bump. seek seeds p = Inr (k, bump) \<longrightarrow> length k = 32)
        \<and> (\<forall>a bump. findProgramAddress sha seeds (encodeBase58 p) = Inr (a, bump) \<longleftrightarrow>
             (\<exists>k. seek seeds p = Inr (k, bump) \<and> a = encodeBase58 k)))"

definition key_view :: "key_meta \<Rightarrow> account_spec" where
  "key_view k = \<lparr>ac_address = encodeBase58 (km_pubkey k), ac_isSigner = km_isSigner k,
     ac_isWritable = km_isWritable k\<rparr>"

definition sdk_view :: "web3_instruction \<Rightarrow> instruction_spec" where
  "sdk_view w = \<lparr>ix_programId = encodeBase58 (wi_programId w), ix_accounts = map key_view (wi_keys w),
     ix_data = wi_data w\<rparr>"

text \<open>The one is built exactly when the other is, and they are the same instruction.\<close>

definition same_instruction :: "instruction_spec result \<Rightarrow> web3_instruction result \<Rightarrow> bool" where
  "same_instruction sdk script \<longleftrightarrow> (\<forall>ix. sdk = Inr ix \<longleftrightarrow> (\<exists>w. script = Inr w \<and> sdk_view w = ix))"

lemma key_view_simps [simp]:
  "key_view (key_ro k) = ro (encodeBase58 k)" "key_view (key_rw k) = rw (encodeBase58 k)"
  "key_view (key_signer k w) = signer (encodeBase58 k) w"
  by (simp_all add: key_view_def key_ro_def key_rw_def key_signer_def ro_def rw_def signer_def)

lemma key_view_optional [simp]:
  "key_view (optionalAccount account p)
     = ro (case map_option encodeBase58 account of Some k \<Rightarrow> k | None \<Rightarrow> encodeBase58 p)"
  by (cases account) (simp_all add: optionalAccount_def)

lemma seek_length: "web3_search sha seek \<Longrightarrow> length p = 32 \<Longrightarrow> seek seeds p = Inr (k, b) \<Longrightarrow> length k = 32"
  unfolding web3_search_def by blast

lemma seek_iff:
  "web3_search sha seek \<Longrightarrow> length p = 32 \<Longrightarrow>
     findProgramAddress sha seeds (encodeBase58 p) = Inr (a, b) \<longleftrightarrow>
       (\<exists>k. seek seeds p = Inr (k, b) \<and> a = encodeBase58 k)"
  unfolding web3_search_def by blast

lemma event_authority_iff:
  "web3_search sha seek \<Longrightarrow> length p = 32 \<Longrightarrow>
     deriveEventAuthority sha (encodeBase58 p) = Inr ea \<longleftrightarrow>
       (\<exists>k. coreEventAuthority seek p = Inr k \<and> ea = encodeBase58 k)"
  unfolding deriveEventAuthority_def coreEventAuthority_def EVENT_AUTHORITY_SEED_def
  by (auto simp: bindR_eq_Inr seek_iff)

lemma escrowIx_same:
  assumes "web3_search sha seek" and "length p = 32" and "accs = map key_view keys" and "data = concat args"
  shows "same_instruction (escrowInstruction sha (encodeBase58 p) name accs args)
     (escrowIx sha seek name keys data p)"
proof -
  have d: "anchorDiscriminator sha ''global'' name = instructionDiscriminator sha name"
    by (simp add: anchorDiscriminator_def instructionDiscriminator_def)
  show ?thesis
    using d unfolding same_instruction_def escrowInstruction_def build_instruction_Inr escrowIx_def
      event_authority_iff [OF assms(1,2)]
    by (auto simp: assms(3,4) eventCpiAccounts_def coreEventAuthority_def bindR_eq_Inr sdk_view_def
        key_ro_def [symmetric])
qed

lemma same_instruction_fails: "same_instruction (Inl e) (Inl e')"
  by (simp add: same_instruction_def)

text \<open>Values the library encodes are encoded alike.\<close>

lemma script_u64_Big:
  "script_u64 num (Big_amount v) = Inr bs \<longleftrightarrow> ix_u64 (Big v) label = Inr bs"
  by (auto simp: script_u64_def ix_u64_Inr out_of_range_def)

lemma script_u32_Whole: "script_u32 num (Whole i) = Inr bs \<longleftrightarrow> proofIndexSeed (Whole i) = Inr bs"
  by (auto simp: script_u32_def proofIndexSeed_def out_of_range_def Let_def)

lemma addressBytes_key [simp]: "length k = 32 \<Longrightarrow> addressBytes (encodeBase58 k) = Inr k"
  by (simp add: addressBytes_Inr)

lemma ix_addressBytes_key [simp]: "length k = 32 \<Longrightarrow> ix_addressBytes (encodeBase58 k) = Inr k"
  by (simp add: ix_addressBytes_Inr)

lemma system_program_text [simp]: "encodeBase58 system_program = SYSTEM_PROGRAM_ID"
  unfolding system_program_def SYSTEM_PROGRAM_ID_def by code_simp

lemma script_addresses:
  assumes "web3_search sha seek" and "length p = 32"
  shows "length c = 32 \<Longrightarrow> deriveAgreement sha (encodeBase58 p) (encodeBase58 c) i = Inr (a, b) \<longleftrightarrow>
      (\<exists>k. script_deriveAgreement seek num c (Big_amount i) p = Inr (k, b) \<and> a = encodeBase58 k)"
    and "length g = 32 \<Longrightarrow> deriveVaultAuthority sha (encodeBase58 p) (encodeBase58 g) = Inr (a, b) \<longleftrightarrow>
      (\<exists>k. script_deriveVaultAuthority seek g p = Inr (k, b) \<and> a = encodeBase58 k)"
    and "length g = 32 \<Longrightarrow> deriveVault sha (encodeBase58 p) (encodeBase58 g) = Inr (a, b) \<longleftrightarrow>
      (\<exists>k. script_deriveVault seek g p = Inr (k, b) \<and> a = encodeBase58 k)"
    and "length g = 32 \<Longrightarrow> deriveProof sha (encodeBase58 p) (encodeBase58 g) (Whole n) = Inr (a, b) \<longleftrightarrow>
      (\<exists>k. script_deriveProof seek num g (Whole n) p = Inr (k, b) \<and> a = encodeBase58 k)"
    and "length g = 32 \<Longrightarrow> deriveMilestone sha (encodeBase58 p) (encodeBase58 g) (Whole n) = Inr (a, b) \<longleftrightarrow>
      (\<exists>k. script_deriveMilestone seek num g (Whole n) p = Inr (k, b) \<and> a = encodeBase58 k)"
    and "length g = 32 \<Longrightarrow> coreProofId sha (encodeBase58 g) (Whole n) = Inr i' \<longleftrightarrow>
      script_coreProofId sha num g (Whole n) = Inr i'"
  unfolding deriveAgreement_def script_deriveAgreement_def deriveVaultAuthority_def
    script_deriveVaultAuthority_def deriveVault_def script_deriveVault_def deriveProof_def
    script_deriveProof_def deriveMilestone_def script_deriveMilestone_def coreProofId_def
    script_coreProofId_def AGREEMENT_SEED_def VAULT_AUTHORITY_SEED_def VAULT_TOKEN_SEED_def
    PROOF_SEED_def MILESTONE_SEED_def CORE_PROOF_ID_DOMAIN_def
  by (auto simp: bindR_eq_Inr seek_iff [OF assms] script_u32_Whole agreementIdSeed_def script_u64_def
      out_of_range_def)

definition citable :: "pubkey option \<Rightarrow> pubkey option \<Rightarrow> bool" where
  "citable settlementProof coreProof \<longleftrightarrow>
     (settlementProof = None) = (coreProof = None) \<and> (settlementProof = None \<or> settlementProof \<noteq> coreProof)"

definition real_hash :: "bytes \<Rightarrow> bool" where
  "real_hash h \<longleftrightarrow> length h = 32 \<and> h \<noteq> replicate 32 0"

lemma citation_keys:
  "citable s c \<Longrightarrow> citationAccounts (encodeBase58 p) (map_option encodeBase58 s) (map_option encodeBase58 c)
     = Inr [key_view (optionalAccount s p), key_view (optionalAccount c p)]"
  by (cases s; cases c) (auto simp: citable_def citationAccounts_def)

lemma real_hash_fixed: "real_hash h \<Longrightarrow> fixed h 32 label nz = Inr h"
  using all_zero_bytes [of h 32] by (auto simp: real_hash_def fixed_def)

lemmas script_builders =
  buildFundEscrowInstruction_def fundInstruction_def buildMarkCompletedEscrowInstruction_def
  markCompletedInstruction_def buildCancelEscrowInstruction_def cancelInstruction_def
  buildRefundEscrowInstruction_def refundInstruction_def buildResolveDisputeEscrowInstruction_def
  resolveDisputeInstruction_def buildOpenDisputeEscrowInstruction_def openDisputeInstruction_def
  buildSelectCounterpartyEscrowInstruction_def selectCounterpartyInstruction_def
  buildSettleEscrowInstruction_def settleInstruction_def buildSettleMilestoneEscrowInstruction_def
  settleMilestoneInstruction_def buildUpdateMilestoneEscrowInstruction_def updateMilestoneInstruction_def
  buildDecideProofEscrowInstruction_def decideProofInstruction_def token_program_def

lemma same_state_steps:
  assumes "web3_search sha seek" and "length p = 32"
  shows "same_instruction (buildMarkCompletedEscrowInstruction sha (encodeBase58 p) (encodeBase58 s) (encodeBase58 g))
      (markCompletedInstruction sha seek s g p)"
    and "same_instruction (buildCancelEscrowInstruction sha (encodeBase58 p) (encodeBase58 s) (encodeBase58 g))
      (cancelInstruction sha seek s g p)"
    and "real_hash h \<Longrightarrow> same_instruction
      (buildOpenDisputeEscrowInstruction sha (encodeBase58 p) (encodeBase58 s) (encodeBase58 g) h)
      (openDisputeInstruction sha seek s g h p)"
    and "length k = 32 \<Longrightarrow> same_instruction
      (buildSelectCounterpartyEscrowInstruction sha (encodeBase58 p) (encodeBase58 s) (encodeBase58 g) (encodeBase58 k))
      (selectCounterpartyInstruction sha seek s g k p)"
    and "same_instruction
      (buildUpdateMilestoneEscrowInstruction sha (encodeBase58 p) u (encodeBase58 s) (encodeBase58 g) (encodeBase58 m))
      (updateMilestoneInstruction sha seek (milestone_update_text u) s g m p)"
    and "same_instruction
      (buildDecideProofEscrowInstruction sha (encodeBase58 p) d (encodeBase58 s) (encodeBase58 g) (encodeBase58 m))
      (decideProofInstruction sha seek (proof_decision_text d) s g m p)"
  unfolding script_builders
  by (cases u; cases d; simp add: real_hash_fixed escrowIx_same [OF assms])+

lemma same_payouts:
  assumes "web3_search sha seek" and "length p = 32"
  shows "same_instruction (buildFundEscrowInstruction sha (encodeBase58 p) (encodeBase58 s) (encodeBase58 g)
        (encodeBase58 mint) (encodeBase58 v) (encodeBase58 t) (Some (encodeBase58 tp)))
      (fundInstruction sha seek s g mint v t p tp)"
    and "same_instruction (buildRefundEscrowInstruction sha (encodeBase58 p) (encodeBase58 s) (encodeBase58 g)
        (encodeBase58 mint) (encodeBase58 v) (encodeBase58 va) (encodeBase58 t) (Some (encodeBase58 tp)))
      (refundInstruction sha seek s g mint v va t p tp)"
    and "same_instruction (buildResolveDisputeEscrowInstruction sha (encodeBase58 p) (encodeBase58 s) (encodeBase58 g)
        (encodeBase58 mint) (encodeBase58 v) (encodeBase58 va) (encodeBase58 t) (Some (encodeBase58 tp)))
      (resolveDisputeInstruction sha seek s g mint v va t p tp)"
    and "citable sp cp \<Longrightarrow> same_instruction (buildSettleEscrowInstruction sha (encodeBase58 p) (encodeBase58 s)
        (encodeBase58 g) (encodeBase58 mint) (encodeBase58 v) (encodeBase58 va) (encodeBase58 t)
        (map_option encodeBase58 sp) (map_option encodeBase58 cp) (Some (encodeBase58 tp)))
      (settleInstruction sha seek s g mint v va t sp cp p tp)"
    and "citable sp cp \<Longrightarrow> same_instruction (buildSettleMilestoneEscrowInstruction sha (encodeBase58 p) (encodeBase58 s)
        (encodeBase58 g) (encodeBase58 m) (encodeBase58 mint) (encodeBase58 v) (encodeBase58 va) (encodeBase58 t)
        (map_option encodeBase58 sp) (map_option encodeBase58 cp) (Some (encodeBase58 tp)))
      (settleMilestoneInstruction sha seek s g m mint v va t sp cp p tp)"
  unfolding script_builders
  by (simp_all add: citation_keys escrowIx_same [OF assms])

lemma same_create_milestone:
  assumes "web3_search sha seek" and "length p = 32" and "length g = 32"
    and "script_deriveMilestone seek num g (Whole n) p = Inr (m, b)" and "0 < v" and "real_hash h"
  shows "same_instruction (buildCreateMilestoneEscrowInstruction sha (encodeBase58 p) (encodeBase58 s)
       (encodeBase58 g) (Whole n) (Big v) h)
     (createMilestoneInstruction sha seek num s g m (Big_amount v) h p)"
proof (cases "v < 2 ^ 64")
  case True
  then have "positiveU64 (Big v) ''amountBaseUnits'' = Inr (le_bytes 8 (nat v))"
    "script_u64 num (Big_amount v) = Inr (le_bytes 8 (nat v))"
    using assms(5) by (simp_all add: positiveU64_Inr script_u64_def)
  moreover have "deriveMilestone sha (encodeBase58 p) (encodeBase58 g) (Whole n) = Inr (encodeBase58 m, b)"
    using script_addresses(5) [OF assms(1,2,3)] assms(4) by blast
  ultimately show ?thesis
    by (simp add: buildCreateMilestoneEscrowInstruction_def createMilestoneInstruction_def
        real_hash_fixed [OF assms(6)] escrowIx_same [OF assms(1,2)])
next
  case False
  then have "\<not> (\<exists>bs. positiveU64 (Big v) ''amountBaseUnits'' = Inr bs)"
    "\<not> (\<exists>bs. script_u64 num (Big_amount v) = Inr bs)"
    by (simp_all add: positiveU64_Inr script_u64_def out_of_range_def)
  then show ?thesis
    by (auto simp: same_instruction_def buildCreateMilestoneEscrowInstruction_def
        createMilestoneInstruction_def bindR_eq_Inr)
qed

lemma same_instruction_bind:
  assumes "\<And>a b. sdk = Inr (a, b) \<longleftrightarrow> (\<exists>k. script = Inr (k, b) \<and> a = encodeBase58 k)"
    and "\<And>k b. script = Inr (k, b) \<Longrightarrow> same_instruction (f (encodeBase58 k, b)) (g (k, b))"
  shows "same_instruction (bindR sdk f) (bindR script g)"
  unfolding same_instruction_def bindR_eq_Inr
  using assms(1) assms(2) [unfolded same_instruction_def] by (cases script) force+

lemma same_instruction_bind_eq:
  assumes "\<And>x. sdk = Inr x \<longleftrightarrow> script = Inr x" and "\<And>x. script = Inr x \<Longrightarrow> same_instruction (f x) (g x)"
  shows "same_instruction (bindR sdk f) (bindR script g)"
  unfolding same_instruction_def bindR_eq_Inr
  using assms(1) assms(2) [unfolded same_instruction_def] by (cases script) force+

lemma same_submit_proof:
  assumes w: "web3_search sha seek" and p: "length p = 32" and q: "length q = 32"
    and k: "length g = 32" "length s = 32" and h: "real_hash content" "length metadata = 32"
  shows "same_instruction (buildSubmitProofEscrowInstruction sha (encodeBase58 p) (encodeBase58 q)
       (encodeBase58 s) (encodeBase58 g) (Whole n) content metadata)
     (submitProofInstruction sha seek num s g (Whole n) content metadata p q)"
proof -
  have core: "deriveCoreProof sha (encodeBase58 q) (encodeBase58 s) (encodeBase58 g) (Whole n)
      = bindR (coreProofId sha (encodeBase58 g) (Whole n))
          (\<lambda>i. findProgramAddress sha [CORE_PROOF_SEED, s, i] (encodeBase58 q))"
    using k by (simp add: deriveCoreProof_def)
  have "bindR (bindR m f) f' = bindR m (\<lambda>x. bindR (f x) f')"
    for m :: "bytes result" and f :: "bytes \<Rightarrow> (address \<times> nat) result"
    and f' :: "address \<times> nat \<Rightarrow> instruction_spec result"
    by (cases m) simp_all
  then show ?thesis
    unfolding buildSubmitProofEscrowInstruction_def submitProofInstruction_def core
    apply (simp only:)
    apply (rule same_instruction_bind)
     apply (rule script_addresses(4) [OF w p k(1)])
    apply (simp only: prod.case)
    apply (rule same_instruction_bind_eq)
     apply (rule script_addresses(6) [OF w p k(1)])
    apply (rule same_instruction_bind)
     apply (simp add: seek_iff [OF w q] script_deriveCoreProof_def CORE_PROOF_SEED_def)
    subgoal for k1 b1 i1 k2 b2
      apply (cases "coreEventAuthority seek q")
      subgoal using event_authority_iff [OF w q] by (auto simp: same_instruction_def bindR_eq_Inr)
      subgoal for ea
        using event_authority_iff [OF w q, of "encodeBase58 ea"] h
        by (simp add: real_hash_fixed fixed_def [of metadata] escrowIx_same [OF w p])
      done
    done
qed

lemma positiveU64_Big:
  "0 < v \<Longrightarrow> positiveU64 (Big v) label = Inr bs \<longleftrightarrow> script_u64 num (Big_amount v) = Inr bs"
  by (auto simp: positiveU64_Inr script_u64_def out_of_range_def)

lemma same_initialize:
  assumes w: "web3_search sha seek" and p: "length p = 32"
    and k: "length s = 32" "length c = 32" and h: "real_hash h" and v: "0 < v"
    and ty: "ty \<in> {''Escrow'', ''MilestoneContract'', ''Bounty''}"
    and c: "c \<noteq> s" "ty \<noteq> ''Bounty'' \<Longrightarrow> c \<noteq> system_program"
  shows "same_instruction (buildInitializeEscrowInstruction sha (encodeBase58 p) (encodeBase58 s)
       (encodeBase58 mint) (Big i) (encodeBase58 c) (Some ty) (Big v) h (Some (encodeBase58 tp)))
     (initializeAgreementInstruction sha seek num s mint (Big_amount i) c ty (Big_amount v) h p tp)"
proof -
  obtain n where n: "map_of ESCROW_AGREEMENT_TYPES ty = Some n" "type_byte ty = Some n"
    using ty by (auto simp: ESCROW_AGREEMENT_TYPES_def type_byte_def SCRIPT_AGREEMENT_TYPE_def)
  have open_type: "\<not> \<not> List.member [''Escrow'', ''MilestoneContract'', ''Bounty''] ty"
    using ty by auto
  have parties: "\<not> (encodeBase58 c = encodeBase58 s \<or> ty \<noteq> ''Bounty'' \<and> encodeBase58 c = SYSTEM_PROGRAM_ID)"
    using c by (auto simp flip: system_program_text)
  show ?thesis
    unfolding buildInitializeEscrowInstruction_def initializeAgreementInstruction_def Let_def
      option.case n if_not_P [OF parties] exactInteger.simps bindR_Inr if_not_P [OF open_type]
    apply (rule same_instruction_bind, rule script_addresses(1) [OF w p k(1)], simp only: prod.case)
    subgoal for g
      apply (subgoal_tac "length g = 32")
       apply (rule same_instruction_bind, rule script_addresses(2) [OF w p], assumption, simp only: prod.case)
       apply (rule same_instruction_bind, rule script_addresses(3) [OF w p], assumption, simp only: prod.case)
       apply (rule same_instruction_bind_eq, rule script_u64_Big [symmetric])
       apply (simp only: ix_addressBytes_key [OF k(2)] bindR_Inr)
       apply (rule same_instruction_bind_eq, rule positiveU64_Big [OF v])
       apply (simp add: real_hash_fixed [OF h] escrowIx_same [OF w p] token_program_def)
      apply (auto simp: script_deriveAgreement_def bindR_eq_Inr dest: seek_length [OF w p])
      done
    done
qed

lemma citation_refused:
  "\<not> citable s c \<Longrightarrow> \<exists>e. citationAccounts (encodeBase58 p) (map_option encodeBase58 s) (map_option encodeBase58 c) = Inl e"
  by (cases s; cases c) (auto simp: citable_def citationAccounts_def)

abbreviation (input) b58 :: "pubkey \<Rightarrow> address" where "b58 \<equiv> encodeBase58"

text \<open>
  C29: The live runs and the client library speak one protocol. With the same keys, ids, amounts and
  hashes, the instruction encoded by hand is built exactly when the library's is, and the two
  name the same program, the same accounts in the same order with the same privileges, and the
  same data: creation, funding, completion, settlement, cancellation, refund, disputes, the
  choice of a counterparty, milestones and proofs. The library refuses more: a citation without
  its second record, an empty hash.
\<close>

theorem script_matches_library:
  assumes "web3_search sha seek" and "length p = 32" and "length q = 32" and "length g = 32"
    and "length s = 32" and "length c = 32"
  shows "(real_hash h \<and> 0 < v \<and> c \<noteq> s \<and> ty \<in> {''Escrow'', ''MilestoneContract'', ''Bounty''}
        \<and> (ty = ''Bounty'' \<or> c \<noteq> system_program) \<longrightarrow>
        same_instruction (buildInitializeEscrowInstruction sha (b58 p) (b58 s) (b58 mint) (Big i) (b58 c) (Some ty) (Big v) h (Some (b58 tp)))
          (initializeAgreementInstruction sha seek num s mint (Big_amount i) c ty (Big_amount v) h p tp))
    \<and> same_instruction (buildFundEscrowInstruction sha (b58 p) (b58 s) (b58 g) (b58 mint) (b58 vault) (b58 dest) (Some (b58 tp)))
        (fundInstruction sha seek s g mint vault dest p tp)
    \<and> same_instruction (buildMarkCompletedEscrowInstruction sha (b58 p) (b58 s) (b58 g)) (markCompletedInstruction sha seek s g p)
    \<and> same_instruction (buildCancelEscrowInstruction sha (b58 p) (b58 s) (b58 g)) (cancelInstruction sha seek s g p)
    \<and> same_instruction (buildRefundEscrowInstruction sha (b58 p) (b58 s) (b58 g) (b58 mint) (b58 vault) (b58 va) (b58 dest) (Some (b58 tp)))
        (refundInstruction sha seek s g mint vault va dest p tp)
    \<and> same_instruction (buildResolveDisputeEscrowInstruction sha (b58 p) (b58 s) (b58 g) (b58 mint) (b58 vault) (b58 va) (b58 dest) (Some (b58 tp)))
        (resolveDisputeInstruction sha seek s g mint vault va dest p tp)
    \<and> (real_hash h \<longrightarrow> same_instruction (buildOpenDisputeEscrowInstruction sha (b58 p) (b58 s) (b58 g) h)
        (openDisputeInstruction sha seek s g h p))
    \<and> same_instruction (buildSelectCounterpartyEscrowInstruction sha (b58 p) (b58 s) (b58 g) (b58 c))
        (selectCounterpartyInstruction sha seek s g c p)
    \<and> (if citable sp cp
       then same_instruction (buildSettleEscrowInstruction sha (b58 p) (b58 s) (b58 g) (b58 mint) (b58 vault) (b58 va) (b58 dest)
              (map_option b58 sp) (map_option b58 cp) (Some (b58 tp)))
            (settleInstruction sha seek s g mint vault va dest sp cp p tp)
         \<and> same_instruction (buildSettleMilestoneEscrowInstruction sha (b58 p) (b58 s) (b58 g) (b58 m) (b58 mint) (b58 vault) (b58 va)
              (b58 dest) (map_option b58 sp) (map_option b58 cp) (Some (b58 tp)))
            (settleMilestoneInstruction sha seek s g m mint vault va dest sp cp p tp)
       else \<exists>e. buildSettleEscrowInstruction sha (b58 p) (b58 s) (b58 g) (b58 mint) (b58 vault) (b58 va) (b58 dest)
              (map_option b58 sp) (map_option b58 cp) (Some (b58 tp)) = Inl e)
    \<and> same_instruction (buildUpdateMilestoneEscrowInstruction sha (b58 p) u (b58 s) (b58 g) (b58 m))
        (updateMilestoneInstruction sha seek (milestone_update_text u) s g m p)
    \<and> same_instruction (buildDecideProofEscrowInstruction sha (b58 p) d (b58 s) (b58 g) (b58 m))
        (decideProofInstruction sha seek (proof_decision_text d) s g m p)
    \<and> (script_deriveMilestone seek num g (Whole n) p = Inr (m, b) \<and> 0 < v \<and> real_hash h \<longrightarrow>
        same_instruction (buildCreateMilestoneEscrowInstruction sha (b58 p) (b58 s) (b58 g) (Whole n) (Big v) h)
          (createMilestoneInstruction sha seek num s g m (Big_amount v) h p))
    \<and> (real_hash h \<and> length metadata = 32 \<longrightarrow>
        same_instruction (buildSubmitProofEscrowInstruction sha (b58 p) (b58 q) (b58 s) (b58 g) (Whole n) h metadata)
          (submitProofInstruction sha seek num s g (Whole n) h metadata p q))"
proof (intro conjI impI)
  note w = assms(1,2)
  show "if citable sp cp
       then same_instruction (buildSettleEscrowInstruction sha (b58 p) (b58 s) (b58 g)
              (b58 mint) (b58 vault) (b58 va) (b58 dest)
              (map_option b58 sp) (map_option b58 cp) (Some (b58 tp)))
            (settleInstruction sha seek s g mint vault va dest sp cp p tp)
         \<and> same_instruction (buildSettleMilestoneEscrowInstruction sha (b58 p) (b58 s) (b58 g)
              (b58 m) (b58 mint) (b58 vault) (b58 va) (b58 dest)
              (map_option b58 sp) (map_option b58 cp) (Some (b58 tp)))
            (settleMilestoneInstruction sha seek s g m mint vault va dest sp cp p tp)
       else \<exists>e. buildSettleEscrowInstruction sha (b58 p) (b58 s) (b58 g)
              (b58 mint) (b58 vault) (b58 va) (b58 dest)
              (map_option b58 sp) (map_option b58 cp) (Some (b58 tp)) = Inl e"
    using same_payouts(4,5) [OF w] citation_refused [of sp cp p] by (auto simp: buildSettleEscrowInstruction_def)
qed (use same_state_steps [OF assms(1,2)] same_payouts [OF assms(1,2)] assms same_initialize [OF assms(1,2)]
    same_create_milestone [OF assms(1,2)] same_submit_proof [OF assms(1,2)] in \<open>auto\<close>)

definition library_search :: "(bytes \<Rightarrow> bytes) \<Rightarrow> pda_search" where
  "library_search sha seeds p =
     bindR (findProgramAddress sha seeds (encodeBase58 p)) (\<lambda>(a, b).
       bindR (decodeBase58 a) (\<lambda>k. Inr (k, b)))"

lemma library_search_web3: "(\<And>x. length (sha x) = 32) \<Longrightarrow> web3_search sha (library_search sha)"
  unfolding web3_search_def library_search_def
  by (auto simp: bindR_eq_Inr findProgramAddress_Inr decode_encode_base58)

theorem script_matches_library_witness:
  "\<exists>w. fundInstruction (\<lambda>_. y_one 128) (library_search (\<lambda>_. y_one 128)) (y_one 1) (y_one 2) [] [] []
        system_program TOKEN_PROGRAM_ID = Inr w
     \<and> buildFundEscrowInstruction (\<lambda>_. y_one 128) (b58 system_program) (b58 (y_one 1))
        (b58 (y_one 2)) (b58 []) (b58 []) (b58 []) (Some (b58 TOKEN_PROGRAM_ID)) = Inr (sdk_view w)"
proof -
  have "(replicate 32 CHR ''1'') = b58 system_program"
    unfolding system_program_text SYSTEM_PROGRAM_ID_def by (simp add: numeral_eq_Suc)
  then have "\<exists>ix. buildFundEscrowInstruction (\<lambda>_. y_one 128) (b58 system_program) (b58 (y_one 1))
        (b58 (y_one 2)) (b58 []) (b58 []) (b58 []) (Some (b58 TOKEN_PROGRAM_ID)) = Inr ix"
    using deriveEventAuthority_toy
    by (simp add: buildFundEscrowInstruction_def escrowInstruction_def build_instruction_Inr
        del: system_program_text)
  moreover have "length system_program = 32" by (simp add: system_program_def)
  ultimately show ?thesis
    using script_matches_library [OF library_search_web3, of "\<lambda>_. y_one 128" system_program "y_one 3"
        "y_one 2" "y_one 1" "y_one 4", THEN conjunct2, THEN conjunct1]
    unfolding same_instruction_def by fastforce
qed

end
