(* ===== verification/Evidence_Scrub.thy ===== *)
theory Evidence_Scrub
  imports Endpoint_Safety Rpc
begin

text \<open>
  What may go into a published evidence record (\<open>assertNoSecrets\<close> and \<open>jsonSafe\<close> of
  \<open>scripts/lib/custody-runner.mjs\<close>): the walk over the record that refuses key material, and
  the conversion that makes it serializable.
\<close>

text \<open>The values a record is built of; a byte value is a typed array or a \<open>Buffer\<close>.\<close>

datatype evidence =
    E_undefined
  | E_null
  | E_bool bool
  | E_number js_number
  | E_big int
  | E_text string
  | E_bytes bytes
  | E_array "evidence list"
  | E_object "(string \<times> evidence) list"

definition SECRET_FIELD_NAMES :: "string list" where
  "SECRET_FIELD_NAMES =
     [''secretkey'', ''secret_key'', ''privatekey'', ''private_key'', ''keypair'', ''seed'', ''seedphrase'',
      ''mnemonic'', ''passphrase'', ''password'', ''token'', ''credential'', ''credentials'', ''apikey'',
      ''api_key'']"

text \<open>\<open>key.toLowerCase().replace(/[^a-z_]/g, "")\<close>.\<close>

definition field_letter :: "char \<Rightarrow> bool" where
  "field_letter c \<longleftrightarrow> (CHR ''a'' \<le> c \<and> c \<le> CHR ''z'') \<or> c = CHR ''_''"

definition normalized_field :: "string \<Rightarrow> string" where
  "normalized_field key = filter field_letter (map lower key)"

fun is_byte :: "evidence \<Rightarrow> bool" where
  "is_byte (E_number (Whole n)) = (0 \<le> n \<and> n \<le> 255)"
| "is_byte _ = False"

definition key_array :: "evidence list \<Rightarrow> bool" where
  "key_array entries \<longleftrightarrow>
     (entries \<noteq> [] \<and> list_all is_byte entries) \<and> (length entries = 64 \<or> length entries = 32)"

text \<open>
  The pattern of a written-out byte array: a bracket, at least 32 runs of digits with spaces
  around them and commas between, and a bracket at the end. One item leaves the rest.
\<close>

definition number_item :: "string \<Rightarrow> string option" where
  "number_item s =
     (let t = dropWhile is_space s
      in if takeWhile is_digit t = [] then None else Some (dropWhile is_space (dropWhile is_digit t)))"

function number_items :: "nat \<Rightarrow> string \<Rightarrow> bool" where
  "number_items n s =
     (case number_item s of
        None \<Rightarrow> False
      | Some [] \<Rightarrow> False
      | Some (c # rest) \<Rightarrow>
          if c = CHR '','' then number_items (Suc n) rest
          else c = CHR '']'' \<and> rest = [] \<and> Suc n \<ge> 32)"
  by pat_completeness auto
termination
proof (relation "measure (\<lambda>(n, s). length s)")
  fix n s u c rest
  assume h: "number_item s = Some u" "u = c # rest"
  have "length (dropWhile P (x :: string)) \<le> length x" for P x by (simp add: length_dropWhile_le)
  then have "length u \<le> length s"
    using h(1) by (auto simp: number_item_def Let_def split: if_splits) (meson le_trans)
  with h(2) show "((Suc n, rest), n, s) \<in> measure (\<lambda>(n, s). length s)" by simp
qed simp

declare number_items.simps [simp del]

definition serialized_array :: "string \<Rightarrow> bool" where
  "serialized_array s \<longleftrightarrow> s \<noteq> [] \<and> hd s = CHR ''['' \<and> number_items 0 (tl s)"

fun assertNoSecrets :: "(string \<Rightarrow> url_parts option) \<Rightarrow> string \<Rightarrow> evidence \<Rightarrow> unit result"
  and secrets_from :: "(string \<Rightarrow> url_parts option) \<Rightarrow> string \<Rightarrow> nat \<Rightarrow> evidence list \<Rightarrow> unit result"
  and secrets_in :: "(string \<Rightarrow> url_parts option) \<Rightarrow> string \<Rightarrow> (string \<times> evidence) list \<Rightarrow> unit result" where
  "assertNoSecrets parse path (E_array entries) =
     (if key_array entries
      then throw CustodyHarnessFailure (path @ '' is a '' @ dec_nat (length entries)
        @ ''-byte array, which is the shape of ed25519 key material. Evidence records hold public addresses, signatures and balances only.'')
      else secrets_from parse path 0 entries)"
| "assertNoSecrets parse path (E_bytes bs) =
     throw CustodyHarnessFailure (path
       @ '' is raw bytes; encode public values as base58 strings and never put bytes in evidence'')"
| "assertNoSecrets parse path (E_object members) = secrets_in parse path members"
| "assertNoSecrets parse path (E_text s) =
     (if serialized_array s
      then throw CustodyHarnessFailure (path @ '' holds a serialized byte array, which is how a keypair file is written'')
      else if looksLikeCredentialUrl parse s
      then throw CustodyHarnessFailure (path @ '' holds a URL carrying credentials or an opaque path; an evidence record names the cluster by genesis hash and never the endpoint that was read'')
      else Inr ())"
| "assertNoSecrets parse path _ = Inr ()"
| "secrets_from parse path index [] = Inr ()"
| "secrets_from parse path index (entry # entries) =
     bindR (assertNoSecrets parse (path @ ''['' @ dec_nat index @ '']'') entry) (\<lambda>_.
       secrets_from parse path (Suc index) entries)"
| "secrets_in parse path [] = Inr ()"
| "secrets_in parse path ((key, entry) # members) =
     (if List.member SECRET_FIELD_NAMES (normalized_field key)
      then throw CustodyHarnessFailure (path @ ''.'' @ key @ '' names secret material; it must not appear in an evidence record'')
      else bindR (assertNoSecrets parse (path @ ''.'' @ key) entry) (\<lambda>_. secrets_in parse path members))"

text \<open>
  \<open>Object.entries\<close> of a typed array is its bytes under their indices.
\<close>

fun jsonSafe :: "evidence \<Rightarrow> evidence" where
  "jsonSafe (E_big v) = E_text (dec_int v)"
| "jsonSafe (E_array entries) = E_array (map jsonSafe entries)"
| "jsonSafe (E_object members) = E_object (map (\<lambda>(k, v). (k, jsonSafe v)) members)"
| "jsonSafe (E_bytes bs) =
     E_object (map (\<lambda>(i, b). (dec_nat i, E_number (Whole (int (unat b))))) (enumerate 0 bs))"
| "jsonSafe v = v"

section \<open>What the walk lets through\<close>

fun parts :: "evidence \<Rightarrow> evidence set" where
  "parts (E_array entries) = insert (E_array entries) (\<Union>e \<in> set entries. parts e)"
| "parts (E_object members) = insert (E_object members) (\<Union>m \<in> set members. parts (snd m))"
| "parts v = {v}"

definition revealing :: "(string \<Rightarrow> url_parts option) \<Rightarrow> evidence \<Rightarrow> bool" where
  "revealing parse v \<longleftrightarrow>
     (case v of
        E_bytes _ \<Rightarrow> True
      | E_array entries \<Rightarrow> key_array entries
      | E_text s \<Rightarrow> serialized_array s \<or> looksLikeCredentialUrl parse s
      | E_object members \<Rightarrow> \<exists>k \<in> fst ` set members. normalized_field k \<in> set SECRET_FIELD_NAMES
      | _ \<Rightarrow> False)"

lemma scrub_iff:
  "assertNoSecrets parse path v = Inr () \<longleftrightarrow> (\<forall>x \<in> parts v. \<not> revealing parse x)"
  "secrets_from parse path n entries = Inr () \<longleftrightarrow> (\<forall>e \<in> set entries. \<forall>x \<in> parts e. \<not> revealing parse x)"
  "secrets_in parse path members = Inr () \<longleftrightarrow>
     (\<forall>m \<in> set members. normalized_field (fst m) \<notin> set SECRET_FIELD_NAMES
        \<and> (\<forall>x \<in> parts (snd m). \<not> revealing parse x))"
  by (induction parse path v and parse path n entries and parse path members
      rule: assertNoSecrets_secrets_from_secrets_in.induct)
    (auto simp: revealing_def bindR_eq_Inr)

lemma dec_nat_field: "normalized_field (dec_nat n) = []"
proof -
  have "\<not> field_letter (lower c)" if "c \<in> set ''0123456789''" for c
    using that by (auto simp: field_letter_def lower_def Let_def)
  then show ?thesis
    using dec_nat_digits [of n] by (auto simp: normalized_field_def list_all_iff is_digit_def filter_empty_conv)
qed

definition no_bytes :: "evidence \<Rightarrow> bool" where
  "no_bytes v \<longleftrightarrow> (\<forall>x \<in> parts v. case x of E_bytes _ \<Rightarrow> False | _ \<Rightarrow> True)"

lemma no_bytes_simps [simp]:
  "no_bytes (E_array entries) \<longleftrightarrow> (\<forall>e \<in> set entries. no_bytes e)"
  "no_bytes (E_object members) \<longleftrightarrow> (\<forall>m \<in> set members. no_bytes (snd m))"
  "\<not> no_bytes (E_bytes bs)"
  by (auto simp: no_bytes_def)

lemma dec_int_hd: "dec_int v \<noteq> [] \<and> (hd (dec_int v) = CHR ''-'' \<or> is_digit (hd (dec_int v)))"
  using dec_nat_nonempty [of "nat v"] dec_nat_digits [of "nat v"] by (auto simp: dec_int_def)

lemma dec_int_quiet: "\<not> revealing parse (E_text (dec_int v))"
proof -
  obtain c s where s: "dec_int v = c # s" "c = CHR ''-'' \<or> is_digit c"
    using dec_int_hd [of v] by (cases "dec_int v") auto
  then have "\<not> is_letter c" "c \<noteq> CHR ''[''" by (auto simp: is_digit_def is_letter_def)
  then show ?thesis
    using s by (simp add: revealing_def serialized_array_def looksLikeCredentialUrl_def has_scheme_def)
qed

lemma is_byte_jsonSafe: "is_byte (jsonSafe e) \<longleftrightarrow> is_byte e"
  by (cases e) simp_all

lemma key_array_jsonSafe: "key_array (map jsonSafe entries) \<longleftrightarrow> key_array entries"
  by (simp add: key_array_def list.pred_map comp_def is_byte_jsonSafe)

lemma scrub_jsonSafe:
  "no_bytes v \<Longrightarrow> (\<forall>x \<in> parts (jsonSafe v). \<not> revealing parse x) \<longleftrightarrow> (\<forall>x \<in> parts v. \<not> revealing parse x)"
proof (induction v rule: jsonSafe.induct)
  case (2 entries)
  then show ?case by (auto simp: revealing_def key_array_jsonSafe)
next
  case (3 members)
  then have "(\<forall>x \<in> parts (jsonSafe (snd m)). \<not> revealing parse x) \<longleftrightarrow> (\<forall>x \<in> parts (snd m). \<not> revealing parse x)"
    if "m \<in> set members" for m
  proof (cases m)
    case (Pair k w)
    with that 3(2) have "no_bytes w" by auto
    then show ?thesis using 3(1) [OF _ refl, of k w] that Pair by simp
  qed
  then show ?case by (force simp: revealing_def split_beta)
qed (use dec_int_quiet in \<open>auto simp: revealing_def\<close>)

lemma bytes_scrubbed: "assertNoSecrets parse path (jsonSafe (E_bytes bs)) = Inr ()"
proof -
  have "\<not> revealing parse (jsonSafe (E_bytes bs))"
    by (auto simp: revealing_def dec_nat_field SECRET_FIELD_NAMES_def)
  moreover have "\<not> revealing parse (E_number n)" for n by (simp add: revealing_def)
  ultimately show ?thesis unfolding scrub_iff by auto
qed



end
