(* ===== verification/Release_Approval.thy ===== *)
theory Release_Approval
  imports Script_Pubkey Rpc Js_Text
begin

text \<open>
  The approval of a devnet release (\<open>scripts/verify-devnet-release-approval.mjs\<close>): the policy
  each program is released under, the message the members sign, and the checks on an approval.
  The signature check and the base64 decoder of the host are parameters.
\<close>

record release_policy =
  po_programIds :: "(string \<times> string) list"
  po_squadsVaultPda :: string
  po_squadsMembers :: "string list"
  po_squadsThreshold :: string

definition RELEASE_PROGRAM_IDS :: "(string \<times> string) list" where
  "RELEASE_PROGRAM_IDS =
     [(''ppv_core'', ''9cWE41ZDNQChvFrRoVuPQDeoVLg46ACTiZRCZaBZzfwU''),
      (''ppv_commerce'', ''GmRDoFuPrBrsxnvTX751WK5rLu14JXe4sgjh6vNwHzr3''),
      (''ppv_escrow'', ''7U1bCHQcr8Jg6J8G69JGaAWCRtsrZB1RYx4zo1sNEVF4'')]"

definition EXPECTED_SQUADS_MEMBERS :: "string list" where
  "EXPECTED_SQUADS_MEMBERS = js_sort str_cmp
     [''58kuGbxpvaamvYE44WYkyipBB6FVKt2qT9u3vAKtyKYV'',
      ''2FFVcm9xJmUHG6zfo15ktzuGQTXACPG42iquGHe6faTN'',
      ''BJmFM4k7Q32CiCYSdoYkAhXdD5Sk3BegMh2cbEAsgSwJ'']"

definition EXPECTED_CUSTODY_MEMBERS :: "string list" where
  "EXPECTED_CUSTODY_MEMBERS = js_sort str_cmp
     [''HDkMBufpYfm1LN6apVkeV3aA2dhMk57PmBujwJ4j4Ecx'',
      ''5y12g4GKbba3k6WDUyZT8eUfeBdboxxGrjkdjM4kX2Wo'',
      ''BJmFM4k7Q32CiCYSdoYkAhXdD5Sk3BegMh2cbEAsgSwJ'']"

definition NON_CUSTODY_POLICY :: release_policy where
  "NON_CUSTODY_POLICY =
     \<lparr>po_programIds = RELEASE_PROGRAM_IDS,
      po_squadsVaultPda = ''B6tcsTrMCKTZV5vi3rRCnA3FMPeeWACSHuuTSz5XQgnX'',
      po_squadsMembers = EXPECTED_SQUADS_MEMBERS, po_squadsThreshold = ''2''\<rparr>"

definition CUSTODY_POLICY :: release_policy where
  "CUSTODY_POLICY =
     \<lparr>po_programIds = RELEASE_PROGRAM_IDS,
      po_squadsVaultPda = ''FD2spnsMVgsuddPSRWAe3ee4DMbgDx5ivpvVfvKcNrLE'',
      po_squadsMembers = EXPECTED_CUSTODY_MEMBERS, po_squadsThreshold = ''2''\<rparr>"

definition policyFor :: "string option \<Rightarrow> release_policy" where
  "policyFor program = (if program = Some ''ppv_escrow'' then CUSTODY_POLICY else NON_CUSTODY_POLICY)"

definition DEFAULT_POLICY :: release_policy where "DEFAULT_POLICY = NON_CUSTODY_POLICY"

text \<open>A value from the environment: absent and empty are refused alike.\<close>

definition requireValue :: "string option \<Rightarrow> string \<Rightarrow> string result" where
  "requireValue v name =
     (case v of None \<Rightarrow> throw PlainError (name @ '' is required.'')
      | Some s \<Rightarrow> if s = [] then throw PlainError (name @ '' is required.'') else Inr s)"

section \<open>Keys and signatures\<close>

text \<open>The number a text stands for, then its bytes from the lowest.\<close>

definition RELEASE_ALPHABET :: string where
  "RELEASE_ALPHABET = ''123456789ABCDEFGHJKLMNPQRSTUVWXYZabcdefghijkmnopqrstuvwxyz''"

fun big_base58 :: "nat \<Rightarrow> string \<Rightarrow> nat result" where
  "big_base58 num [] = Inr num"
| "big_base58 num (c # cs) =
     (case index_of c RELEASE_ALPHABET of
        None \<Rightarrow> throw PlainError (''Invalid base58 character in public key: '' @ [c])
      | Some index \<Rightarrow> big_base58 (num * 58 + index) cs)"

function low_bytes :: "nat \<Rightarrow> nat list" where
  "low_bytes num = (if num > 0 then (num mod 256) # low_bytes (num div 256) else [])"
  by auto
termination by (relation "measure id") auto

declare low_bytes.simps [simp del]

definition release_decodeBase58 :: "string \<Rightarrow> bytes result" where
  "release_decodeBase58 input =
     bindR (big_base58 0 input) (\<lambda>num.
       let leadingZeroes = length (takeWhile (\<lambda>c. c = CHR ''1'') input)
       in Inr (replicate leadingZeroes 0 @ map word_of_nat (rev (low_bytes num))))"

definition publicKeyFromSolanaBase58 :: "string \<Rightarrow> bytes result" where
  "publicKeyFromSolanaBase58 v =
     bindR (release_decodeBase58 v) (\<lambda>raw.
       if length raw \<noteq> 32 then throw PlainError (''Approval public key '' @ v @ '' did not decode to 32 bytes.'')
       else Inr raw)"

definition releaseMessage :: "string \<Rightarrow> string \<Rightarrow> string \<Rightarrow> string" where
  "releaseMessage program programId commit =
     ''PPV_DEVNET_RELEASE_V1'' @ [CHR 0x0A]
     @ ''program='' @ program @ [CHR 0x0A]
     @ ''program_id='' @ programId @ [CHR 0x0A]
     @ ''commit='' @ commit @ [CHR 0x0A]
     @ ''cluster=devnet''"

definition base64_char :: "char \<Rightarrow> bool" where
  "base64_char c \<longleftrightarrow> is_letter c \<or> is_digit c \<or> c = CHR ''+'' \<or> c = CHR ''/''"

definition canonical_base64 :: "string \<Rightarrow> bool" where
  "canonical_base64 s \<longleftrightarrow>
     length s mod 4 = 0
     \<and> list_all base64_char
         (if drop (length s - 2) s = ''=='' then take (length s - 2) s
          else if drop (length s - 1) s = ''='' then take (length s - 1) s else s)"

text \<open>\<open>verify key message signature\<close> is \<open>crypto.verify\<close> of an Ed25519 key.\<close>

type_synonym signature_check = "bytes \<Rightarrow> bytes \<Rightarrow> bytes \<Rightarrow> bool"

definition verifySignature ::
    "signature_check \<Rightarrow> (string \<Rightarrow> bytes) \<Rightarrow> string \<Rightarrow> string \<Rightarrow> string \<Rightarrow> bool result" where
  "verifySignature verify base64 publicKeyBase58 signatureBase64 message =
     (if \<not> canonical_base64 signatureBase64
      then throw PlainError ''Approval signature is not canonical standard base64.''
      else let signature = base64 signatureBase64 in
        if length signature \<noteq> 64
        then throw PlainError (''Approval signature must decode to exactly 64 bytes; got ''
          @ dec_nat (length signature) @ ''.'')
        else bindR (publicKeyFromSolanaBase58 publicKeyBase58) (\<lambda>key.
          Inr (verify key (utf8 message) signature)))"

section \<open>The approval\<close>

record approval_input =
  ap_program :: "string option"
  ap_programId :: "string option"
  ap_commit :: "string option"
  ap_configuredVault :: "string option"
  ap_configuredThreshold :: "string option"
  ap_memberList :: "string option"
  ap_approval1Key :: "string option"
  ap_approval1Signature :: "string option"
  ap_approval2Key :: "string option"
  ap_approval2Signature :: "string option"
  ap_actualCommit :: "string option"

record approved_release =
  ar_program :: string
  ar_programId :: string
  ar_commit :: string
  ar_approver1 :: string
  ar_approver2 :: string

definition hex_sha :: "string \<Rightarrow> bool" where
  "hex_sha s \<longleftrightarrow> length s = 40 \<and> list_all (\<lambda>c. lower c \<in> set ''0123456789abcdef'') s"

definition split_members :: "string \<Rightarrow> string list" where
  "split_members s = js_sort str_cmp (filter (\<lambda>m. m \<noteq> []) (map js_trim (split_on '','' [] s)))"

definition refuse_if :: "bool \<Rightarrow> string \<Rightarrow> unit result" where
  "refuse_if bad message = (if bad then throw PlainError message else Inr ())"

definition verifyDevnetReleaseApproval ::
    "signature_check \<Rightarrow> (string \<Rightarrow> bytes) \<Rightarrow> approval_input \<Rightarrow> release_policy \<Rightarrow> approved_release result" where
  "verifyDevnetReleaseApproval verify base64 input policy =
     bindR (requireValue (ap_program input) ''PPV_RELEASE_PROGRAM'') (\<lambda>program.
     bindR (requireValue (ap_programId input) ''PPV_RELEASE_PROGRAM_ID'') (\<lambda>programId.
     bindR (requireValue (ap_commit input) ''PPV_RELEASE_COMMIT'') (\<lambda>commit.
     bindR (requireValue (ap_configuredVault input) ''PPV_SQUADS_VAULT_PDA'') (\<lambda>configuredVault.
     bindR (requireValue (ap_configuredThreshold input) ''PPV_SQUADS_THRESHOLD'') (\<lambda>configuredThreshold.
     bindR (requireValue (ap_memberList input) ''PPV_SQUADS_MEMBER_PUBKEYS'') (\<lambda>members.
     let memberList = split_members members in
     bindR (requireValue (ap_approval1Key input) ''PPV_RELEASE_APPROVER_1'') (\<lambda>approval1Key.
     bindR (requireValue (ap_approval1Signature input) ''PPV_RELEASE_SIGNATURE_1'') (\<lambda>approval1Signature.
     bindR (requireValue (ap_approval2Key input) ''PPV_RELEASE_APPROVER_2'') (\<lambda>approval2Key.
     bindR (requireValue (ap_approval2Signature input) ''PPV_RELEASE_SIGNATURE_2'') (\<lambda>approval2Signature.
     bindR (requireValue (ap_actualCommit input) ''checked-out Git commit'') (\<lambda>actualCommit.
     bindR (refuse_if (map_of (po_programIds policy) program = None)
       (''Unsupported release program: '' @ program)) (\<lambda>_.
     bindR (refuse_if (Some programId \<noteq> map_of (po_programIds policy) program)
       (''PPV_RELEASE_PROGRAM_ID does not match the permanent '' @ program @ '' identity.'')) (\<lambda>_.
     bindR (refuse_if (\<not> hex_sha commit)
       ''PPV_RELEASE_COMMIT must be an exact 40-character Git commit SHA.'') (\<lambda>_.
     bindR (refuse_if (map lower commit \<noteq> map lower actualCommit)
       ''PPV_RELEASE_COMMIT does not match the checked-out Git commit.'') (\<lambda>_.
     bindR (refuse_if (configuredVault \<noteq> po_squadsVaultPda policy)
       ''PPV_SQUADS_VAULT_PDA does not match the approved PPV Squads Vault PDA.'') (\<lambda>_.
     bindR (refuse_if (configuredThreshold \<noteq> po_squadsThreshold policy)
       (''PPV_SQUADS_THRESHOLD must be exactly '' @ po_squadsThreshold policy @ '' for the PPV 2-of-3 policy.'')) (\<lambda>_.
     let expectedMembers = js_sort str_cmp (po_squadsMembers policy) in
     bindR (refuse_if (length memberList \<noteq> length expectedMembers \<or> card (set memberList) \<noteq> length memberList
         \<or> list_ex (\<lambda>(member, expected). member \<noteq> expected) (zip memberList expectedMembers))
       ''Configured Squads members do not match the approved PPV 2-of-3 member set.'') (\<lambda>_.
     bindR (refuse_if (approval1Key \<notin> set memberList) ''Approver 1 is not a configured Squads member.'') (\<lambda>_.
     bindR (refuse_if (approval2Key \<notin> set memberList) ''Approver 2 is not a configured Squads member.'') (\<lambda>_.
     bindR (refuse_if (approval1Key = approval2Key)
       ''Release approvals must come from two distinct Squads members.'') (\<lambda>_.
     let message = releaseMessage program programId commit in
     bindR (verifySignature verify base64 approval1Key approval1Signature message) (\<lambda>first_ok.
     bindR (refuse_if (\<not> first_ok) ''Approver 1 signature is invalid.'') (\<lambda>_.
     bindR (verifySignature verify base64 approval2Key approval2Signature message) (\<lambda>second_ok.
     bindR (refuse_if (\<not> second_ok) ''Approver 2 signature is invalid.'') (\<lambda>_.
     Inr \<lparr>ar_program = program, ar_programId = programId, ar_commit = commit,
       ar_approver1 = approval1Key, ar_approver2 = approval2Key\<rparr>)))))))))))))))))))))))))"

text \<open>What \<open>main\<close> verifies: the environment under the policy of the program it names.\<close>

definition releaseApproval ::
    "signature_check \<Rightarrow> (string \<Rightarrow> bytes) \<Rightarrow> approval_input \<Rightarrow> approved_release result" where
  "releaseApproval verify base64 input =
     verifyDevnetReleaseApproval verify base64 input (policyFor (ap_program input))"

section \<open>The third base58 decoder\<close>

lemma low_bytes_eq: "low_bytes n = push_carry 256 n"
  by (induction n rule: low_bytes.induct)
    (subst low_bytes.simps, subst push_carry.simps, simp)

lemma index_of_RELEASE [simp]: "index_of c RELEASE_ALPHABET = ALPHABET_MAP c"
  by (simp add: RELEASE_ALPHABET_def ALPHABET_MAP_def ALPHABET_def)

lemma big_base58_Inr:
  "big_base58 num cs = Inr n \<longleftrightarrow>
     (\<exists>vs. (\<forall>v \<in> set vs. v < 58) \<and> cs = map (\<lambda>d. ALPHABET ! d) vs \<and> n = foldl (\<lambda>a v. 58 * a + v) num vs)"
proof (induction num cs rule: big_base58.induct)
  case (1 num)
  then show ?case by auto
next
  case (2 num c cs)
  show ?case
  proof (cases "ALPHABET_MAP c")
    case None
    then have "c \<notin> set ALPHABET" by (simp add: ALPHABET_MAP_None)
    then have "\<not> (v < 58 \<and> c = ALPHABET ! v)" for v by (metis ALPHABET_length nth_mem)
    then show ?thesis using None by (auto simp: Cons_eq_map_conv)
  next
    case (Some v)
    then have v: "v < 58" "ALPHABET ! v = c" using ALPHABET_MAP_Some by blast+
    have uniq: "w < 58 \<and> c = ALPHABET ! w \<longleftrightarrow> w = v" for w
      using v Some by (metis ALPHABET_MAP_nth option.inject)
    have "big_base58 num (c # cs) = Inr n \<longleftrightarrow> (\<exists>vs. (\<forall>v \<in> set vs. v < 58) \<and> cs = map (\<lambda>d. ALPHABET ! d) vs
        \<and> n = foldl (\<lambda>a v. 58 * a + v) (num * 58 + v) vs)"
      using 2 Some by simp
    also have "\<dots> \<longleftrightarrow> (\<exists>vs. (\<forall>v \<in> set vs. v < 58) \<and> c # cs = map (\<lambda>d. ALPHABET ! d) vs
        \<and> n = foldl (\<lambda>a v. 58 * a + v) num vs)" (is "?l \<longleftrightarrow> ?r")
    proof
      assume ?l
      then obtain vs where "\<forall>v \<in> set vs. v < 58" "cs = map (\<lambda>d. ALPHABET ! d) vs"
        "n = foldl (\<lambda>a v. 58 * a + v) (num * 58 + v) vs" by blast
      with v show ?r by (intro exI [of _ "v # vs"]) (simp add: mult.commute)
    next
      assume ?r
      then obtain w vs where "w < 58" "c = ALPHABET ! w" "\<forall>v \<in> set vs. v < 58"
        "cs = map (\<lambda>d. ALPHABET ! d) vs" "n = foldl (\<lambda>a v. 58 * a + v) (58 * num + w) vs"
        by (auto simp: Cons_eq_map_conv)
      with uniq [of w] show ?l by (intro exI [of _ vs]) (simp add: mult.commute)
    qed
    finally show ?thesis .
  qed
qed

lemma big_base58_ones: "big_base58 0 (replicate k CHR ''1'' @ cs) = big_base58 0 cs"
proof -
  have "ALPHABET_MAP CHR ''1'' = Some 0" by (simp add: ALPHABET_MAP_def ALPHABET_def)
  then show ?thesis by (induction k) simp_all
qed

lemma takeWhile_same: "takeWhile (\<lambda>c. c = a) s = replicate (length (takeWhile (\<lambda>c. c = a) s)) a"
  by (induction s) auto

lemma both_loops: "(\<exists>n. big_base58 0 cs = Inr n \<and> ds = low_bytes n) \<longleftrightarrow> decode_loop [] cs = Inr ds"
proof -
  have digits: "foldl (radix_step 256 58) [] vs = low_bytes (be_val 58 vs)" for vs
    unfolding low_bytes_eq
    by (rule normal_unique [of 256]) (use foldl_radix_step [of 256 58 vs] push_carry_props [of 256 "be_val 58 vs"] in simp_all)
  have "decode_loop [] cs = Inr ds \<longleftrightarrow>
      (\<exists>vs. (\<forall>v \<in> set vs. v < 58) \<and> cs = map (\<lambda>d. ALPHABET ! d) vs \<and> ds = low_bytes (be_val 58 vs))"
    using decode_loop_Inr [of "[]" cs ds] decode_loop_map [of _ "[]"] digits by metis
  then show ?thesis unfolding big_base58_Inr be_val_def [symmetric] by blast
qed

text \<open>It decodes what the client library encodes, and nothing else.\<close>

lemma release_decode_Inr: "release_decodeBase58 s = Inr bs \<longleftrightarrow> s = encodeBase58 bs"
proof -
  let ?k = "length (takeWhile (\<lambda>c. c = CHR ''1'') s)"
  have "s = replicate ?k (CHR ''1'') @ drop ?k s"
    by (metis takeWhile_same takeWhile_dropWhile_id dropWhile_eq_drop)
  then have ones: "big_base58 0 s = big_base58 0 (drop ?k s)" by (metis big_base58_ones)
  have "release_decodeBase58 s = Inr bs \<longleftrightarrow> decodeBase58 s = Inr bs"
    unfolding release_decodeBase58_def decodeBase58_def Let_def bindR_eq_Inr ones
      both_loops [symmetric] by blast
  then show ?thesis by (simp add: b58.dec_Inr_iff)
qed

section \<open>What an approval stands for\<close>

lemma refuse_if_Inr [simp]: "refuse_if bad m = Inr u \<longleftrightarrow> \<not> bad"
  by (simp add: refuse_if_def)

lemma requireValue_Inr [simp]: "requireValue v name = Inr s \<longleftrightarrow> v = Some s \<and> s \<noteq> []"
  by (auto simp: requireValue_def split: option.splits)

lemma publicKey_Inr: "publicKeyFromSolanaBase58 v = Inr key \<longleftrightarrow> length key = 32 \<and> v = encodeBase58 key"
  by (auto simp: publicKeyFromSolanaBase58_def bindR_eq_Inr release_decode_Inr)

definition signed_by :: "signature_check \<Rightarrow> (string \<Rightarrow> bytes) \<Rightarrow> string \<Rightarrow> string option \<Rightarrow> string \<Rightarrow> bool" where
  "signed_by verify base64 member sig message \<longleftrightarrow>
     (\<exists>key s. member = encodeBase58 key \<and> length key = 32 \<and> sig = Some s \<and> canonical_base64 s
        \<and> length (base64 s) = 64 \<and> verify key (utf8 message) (base64 s))"

lemma verifySignature_Inr:
  "verifySignature verify base64 member s message = Inr True \<longleftrightarrow> signed_by verify base64 member (Some s) message"
  by (auto simp: verifySignature_def signed_by_def Let_def bindR_eq_Inr publicKey_Inr)

lemma zip_pairs_equal:
  "length a = length b \<Longrightarrow> \<not> list_ex (\<lambda>(x, y). x \<noteq> y) (zip a b) \<longleftrightarrow> a = b"
  by (induction a b rule: list_induct2) auto

lemma verify_approval_Inr:
  assumes "verifyDevnetReleaseApproval verify base64 input policy = Inr r"
  shows "map_of (po_programIds policy) (ar_program r) = Some (ar_programId r)
      \<and> ap_program input = Some (ar_program r) \<and> hex_sha (ar_commit r)
      \<and> (\<exists>actual. ap_actualCommit input = Some actual \<and> map lower (ar_commit r) = map lower actual)
      \<and> ar_approver1 r \<noteq> ar_approver2 r \<and> {ar_approver1 r, ar_approver2 r} \<subseteq> set (po_squadsMembers policy)
      \<and> signed_by verify base64 (ar_approver1 r) (ap_approval1Signature input)
           (releaseMessage (ar_program r) (ar_programId r) (ar_commit r))
      \<and> signed_by verify base64 (ar_approver2 r) (ap_approval2Signature input)
           (releaseMessage (ar_program r) (ar_programId r) (ar_commit r))"
proof -
  note run = assms [unfolded verifyDevnetReleaseApproval_def Let_def bindR_eq_Inr refuse_if_Inr not_not
      requireValue_Inr, simplified]
  then obtain program programId commit members k1 s1 k2 s2 actual where
    input: "ap_program input = Some program" "ap_approval1Signature input = Some s1"
      "ap_approval2Signature input = Some s2" "ap_actualCommit input = Some actual"
    and ok: "map_of (po_programIds policy) program = Some programId" "hex_sha commit"
      "map lower commit = map lower actual"
      "length (split_members members) = length (po_squadsMembers policy)"
      "\<not> list_ex (\<lambda>(x, y). x \<noteq> y) (zip (split_members members) (js_sort str_cmp (po_squadsMembers policy)))"
      "k1 \<in> set (split_members members)" "k2 \<in> set (split_members members)" "k1 \<noteq> k2"
    and signed: "verifySignature verify base64 k1 s1 (releaseMessage program programId commit) = Inr True"
      "verifySignature verify base64 k2 s2 (releaseMessage program programId commit) = Inr True"
    and r: "r = \<lparr>ar_program = program, ar_programId = programId, ar_commit = commit,
       ar_approver1 = k1, ar_approver2 = k2\<rparr>"
    by auto
  have "set (split_members members) = set (po_squadsMembers policy)"
    using ok(4,5) zip_pairs_equal [of "split_members members" "js_sort str_cmp (po_squadsMembers policy)"] by simp
  with input ok signed show ?thesis by (simp add: r verifySignature_Inr)
qed

lemma releaseMessage_inject:
  assumes "map_of RELEASE_PROGRAM_IDS p = Some i" and "map_of RELEASE_PROGRAM_IDS p' = Some i'"
    and "releaseMessage p i c = releaseMessage p' i' c'"
  shows "p = p' \<and> i = i' \<and> c = c'"
proof -
  have known: "(p, i) \<in> set RELEASE_PROGRAM_IDS" "(p', i') \<in> set RELEASE_PROGRAM_IDS"
    using assms(1,2) by (auto dest: map_of_SomeD)
  then have "p = p' \<and> i = i'"
    using assms(3) unfolding RELEASE_PROGRAM_IDS_def set_simps insert_iff empty_iff prod.inject simp_thms
    by (elim disjE conjE; hypsubst; simp add: releaseMessage_def)
  with assms(3) show ?thesis unfolding releaseMessage_def by simp
qed

lemma shared_members:
  "set EXPECTED_CUSTODY_MEMBERS \<inter> set EXPECTED_SQUADS_MEMBERS = {''BJmFM4k7Q32CiCYSdoYkAhXdD5Sk3BegMh2cbEAsgSwJ''}"
  by (simp add: EXPECTED_CUSTODY_MEMBERS_def EXPECTED_SQUADS_MEMBERS_def)

lemma two_of_one: "{a, b} \<subseteq> X \<Longrightarrow> X = {c} \<Longrightarrow> a = b"
  by blast

lemma policy_members:
  "po_squadsMembers (policyFor (Some p)) = (if p = ''ppv_escrow'' then EXPECTED_CUSTODY_MEMBERS else EXPECTED_SQUADS_MEMBERS)"
  by (simp add: policyFor_def CUSTODY_POLICY_def NON_CUSTODY_POLICY_def)

text \<open>
  C26: What an approved release stands for. The release is of a known program under its permanent
  id, at exactly the commit that is checked out; two different members of that program's own
  multisig each signed the message of this release; for the escrow program they are custody
  members and at least one of them governs nothing else; and the signatures are good for no
  other release, because the message determines program, id and commit.
\<close>

theorem release_approval_sound:
  assumes "releaseApproval verify base64 input = Inr r"
  shows "map_of RELEASE_PROGRAM_IDS (ar_program r) = Some (ar_programId r)
    \<and> hex_sha (ar_commit r)
    \<and> (\<exists>actual. ap_actualCommit input = Some actual \<and> map lower (ar_commit r) = map lower actual)
    \<and> (\<exists>a b. a \<noteq> b \<and> {a, b} \<subseteq> set (if ar_program r = ''ppv_escrow'' then EXPECTED_CUSTODY_MEMBERS
           else EXPECTED_SQUADS_MEMBERS)
        \<and> (ar_program r = ''ppv_escrow'' \<longrightarrow> \<not> {a, b} \<subseteq> set EXPECTED_SQUADS_MEMBERS)
        \<and> signed_by verify base64 a (ap_approval1Signature input)
            (releaseMessage (ar_program r) (ar_programId r) (ar_commit r))
        \<and> signed_by verify base64 b (ap_approval2Signature input)
            (releaseMessage (ar_program r) (ar_programId r) (ar_commit r)))
    \<and> (\<forall>p i c. map_of RELEASE_PROGRAM_IDS p = Some i
          \<and> releaseMessage p i c = releaseMessage (ar_program r) (ar_programId r) (ar_commit r)
        \<longrightarrow> p = ar_program r \<and> i = ar_programId r \<and> c = ar_commit r)"
proof -
  have ids: "po_programIds (policyFor v) = RELEASE_PROGRAM_IDS" for v
    by (simp add: policyFor_def CUSTODY_POLICY_def NON_CUSTODY_POLICY_def)
  note ok = verify_approval_Inr [OF assms [unfolded releaseApproval_def], unfolded ids]
  have prog: "ap_program input = Some (ar_program r)" using ok by (elim conjE)
  have members: "set (po_squadsMembers (policyFor (ap_program input)))
      = set (if ar_program r = ''ppv_escrow'' then EXPECTED_CUSTODY_MEMBERS else EXPECTED_SQUADS_MEMBERS)"
    by (simp only: prog policy_members)
  have "\<not> {ar_approver1 r, ar_approver2 r} \<subseteq> set EXPECTED_SQUADS_MEMBERS" if "ar_program r = ''ppv_escrow''"
  proof
    assume "{ar_approver1 r, ar_approver2 r} \<subseteq> set EXPECTED_SQUADS_MEMBERS"
    moreover have "{ar_approver1 r, ar_approver2 r} \<subseteq> set EXPECTED_CUSTODY_MEMBERS"
      using ok that unfolding members by (simp only: if_True refl)
    ultimately have "ar_approver1 r = ar_approver2 r"
      by (intro two_of_one [OF _ shared_members]) (rule Int_greatest)
    moreover have "ar_approver1 r \<noteq> ar_approver2 r" using ok by (elim conjE)
    ultimately show False by (rule notE [rotated])
  qed
  then have "\<exists>a b. a \<noteq> b \<and> {a, b} \<subseteq> set (if ar_program r = ''ppv_escrow'' then EXPECTED_CUSTODY_MEMBERS
           else EXPECTED_SQUADS_MEMBERS)
        \<and> (ar_program r = ''ppv_escrow'' \<longrightarrow> \<not> {a, b} \<subseteq> set EXPECTED_SQUADS_MEMBERS)
        \<and> signed_by verify base64 a (ap_approval1Signature input)
            (releaseMessage (ar_program r) (ar_programId r) (ar_commit r))
        \<and> signed_by verify base64 b (ap_approval2Signature input)
            (releaseMessage (ar_program r) (ar_programId r) (ar_commit r))"
    using ok unfolding members by (intro exI [of _ "ar_approver1 r"] exI [of _ "ar_approver2 r"]) simp
  moreover have "\<forall>p i c. map_of RELEASE_PROGRAM_IDS p = Some i
          \<and> releaseMessage p i c = releaseMessage (ar_program r) (ar_programId r) (ar_commit r)
        \<longrightarrow> p = ar_program r \<and> i = ar_programId r \<and> c = ar_commit r"
  proof (intro allI impI)
    fix p i c
    assume "map_of RELEASE_PROGRAM_IDS p = Some i
      \<and> releaseMessage p i c = releaseMessage (ar_program r) (ar_programId r) (ar_commit r)"
    then show "p = ar_program r \<and> i = ar_programId r \<and> c = ar_commit r"
      using releaseMessage_inject [of p i "ar_program r" "ar_programId r" c "ar_commit r"] ok by simp
  qed
  ultimately show ?thesis
    using ok by - (elim conjE, intro conjI; assumption)
qed

text \<open>
  The exported default is the policy of the other programs, also for the escrow program: with it
  an escrow release is judged by the members that must not approve one.
\<close>

theorem default_policy_is_not_custody:
  "map_of (po_programIds DEFAULT_POLICY) ''ppv_escrow'' \<noteq> None
   \<and> po_squadsMembers DEFAULT_POLICY = EXPECTED_SQUADS_MEMBERS
   \<and> policyFor (Some ''ppv_escrow'') \<noteq> DEFAULT_POLICY"
  by (simp add: DEFAULT_POLICY_def NON_CUSTODY_POLICY_def CUSTODY_POLICY_def policyFor_def RELEASE_PROGRAM_IDS_def)

section \<open>An approval of the escrow program\<close>

definition escrow_approval :: approval_input where
  "escrow_approval =
     \<lparr>ap_program = Some ''ppv_escrow'', ap_programId = Some ''7U1bCHQcr8Jg6J8G69JGaAWCRtsrZB1RYx4zo1sNEVF4'',
      ap_commit = Some (replicate 40 CHR ''a''),
      ap_configuredVault = Some ''FD2spnsMVgsuddPSRWAe3ee4DMbgDx5ivpvVfvKcNrLE'', ap_configuredThreshold = Some ''2'',
      ap_memberList = Some ''HDkMBufpYfm1LN6apVkeV3aA2dhMk57PmBujwJ4j4Ecx,5y12g4GKbba3k6WDUyZT8eUfeBdboxxGrjkdjM4kX2Wo,BJmFM4k7Q32CiCYSdoYkAhXdD5Sk3BegMh2cbEAsgSwJ'',
      ap_approval1Key = Some ''HDkMBufpYfm1LN6apVkeV3aA2dhMk57PmBujwJ4j4Ecx'', ap_approval1Signature = Some ''c2ln'',
      ap_approval2Key = Some ''5y12g4GKbba3k6WDUyZT8eUfeBdboxxGrjkdjM4kX2Wo'', ap_approval2Signature = Some ''bW9y'',
      ap_actualCommit = Some (replicate 40 CHR ''a'')\<rparr>"

lemma custody_keys:
  "release_decodeBase58 ''HDkMBufpYfm1LN6apVkeV3aA2dhMk57PmBujwJ4j4Ecx'' = Inr
     [240, 254, 249, 110, 252, 62, 52, 161, 75, 173, 55, 214, 222, 249, 16, 196, 48, 206, 100, 242, 68, 208, 112, 51, 146, 154, 83, 21, 205, 168, 66, 49]"
  "release_decodeBase58 ''5y12g4GKbba3k6WDUyZT8eUfeBdboxxGrjkdjM4kX2Wo'' = Inr
     [73, 199, 78, 62, 42, 9, 124, 108, 160, 148, 201, 186, 9, 19, 143, 170, 118, 160, 57, 198, 130, 109, 51, 147, 24, 235, 70, 85, 40, 21, 207, 36]"
  by (simp_all add: release_decodeBase58_def ALPHABET_MAP_def ALPHABET_def low_bytes.simps)

lemma approval_members:
  "split_members ''HDkMBufpYfm1LN6apVkeV3aA2dhMk57PmBujwJ4j4Ecx,5y12g4GKbba3k6WDUyZT8eUfeBdboxxGrjkdjM4kX2Wo,BJmFM4k7Q32CiCYSdoYkAhXdD5Sk3BegMh2cbEAsgSwJ''
     = js_sort str_cmp (po_squadsMembers CUSTODY_POLICY)"
  by code_simp

lemma approval_shape: "canonical_base64 ''c2ln'' \<and> canonical_base64 ''bW9y'' \<and> hex_sha (replicate 40 CHR ''a'')"
  by code_simp

lemma escrow_approval_granted:
  "releaseApproval (\<lambda>_ _ _. True) (\<lambda>_. replicate 64 0) escrow_approval = Inr
     \<lparr>ar_program = ''ppv_escrow'', ar_programId = ''7U1bCHQcr8Jg6J8G69JGaAWCRtsrZB1RYx4zo1sNEVF4'',
      ar_commit = replicate 40 CHR ''a'', ar_approver1 = ''HDkMBufpYfm1LN6apVkeV3aA2dhMk57PmBujwJ4j4Ecx'',
      ar_approver2 = ''5y12g4GKbba3k6WDUyZT8eUfeBdboxxGrjkdjM4kX2Wo''\<rparr>"
proof -
  have policy: "policyFor (Some ''ppv_escrow'') = CUSTODY_POLICY" by (simp add: policyFor_def)
  have fields: "po_programIds CUSTODY_POLICY = RELEASE_PROGRAM_IDS"
    "po_squadsVaultPda CUSTODY_POLICY = ''FD2spnsMVgsuddPSRWAe3ee4DMbgDx5ivpvVfvKcNrLE''"
    "po_squadsThreshold CUSTODY_POLICY = ''2''"
    "po_squadsMembers CUSTODY_POLICY = EXPECTED_CUSTODY_MEMBERS"
    by (simp_all add: CUSTODY_POLICY_def)
  have ok: "refuse_if bad m = Inr ()" if "\<not> bad" for bad m using that by (simp add: refuse_if_def)
  have given: "requireValue (Some s) name = Inr s" if "s \<noteq> []" for s name
    using that by (simp add: requireValue_def)
  have member: "''HDkMBufpYfm1LN6apVkeV3aA2dhMk57PmBujwJ4j4Ecx'' \<in> set EXPECTED_CUSTODY_MEMBERS"
    "''5y12g4GKbba3k6WDUyZT8eUfeBdboxxGrjkdjM4kX2Wo'' \<in> set EXPECTED_CUSTODY_MEMBERS"
    by (simp_all add: EXPECTED_CUSTODY_MEMBERS_def)
  have three: "length EXPECTED_CUSTODY_MEMBERS = 3" "distinct EXPECTED_CUSTODY_MEMBERS"
    by (simp_all add: EXPECTED_CUSTODY_MEMBERS_def)
  have same: "list_ex (\<lambda>(x, y). x \<noteq> y) (zip xs xs) = False" for xs :: "string list"
    by (induction xs) auto
  have cards: "card (set EXPECTED_CUSTODY_MEMBERS) = length EXPECTED_CUSTODY_MEMBERS"
    using three(2) by (rule distinct_card)
  have id: "map_of RELEASE_PROGRAM_IDS ''ppv_escrow'' = Some ''7U1bCHQcr8Jg6J8G69JGaAWCRtsrZB1RYx4zo1sNEVF4''"
    by (simp add: RELEASE_PROGRAM_IDS_def)
  show ?thesis
    unfolding releaseApproval_def verifyDevnetReleaseApproval_def escrow_approval_def approval_input.simps
      policy fields Let_def
    using approval_shape member
    by (simp add: ok given id fields approval_members cards same verifySignature_def
        publicKeyFromSolanaBase58_def custody_keys)
qed

theorem release_approval_sound_witness:
  "\<exists>r. releaseApproval (\<lambda>_ _ _. True) (\<lambda>_. replicate 64 0) escrow_approval = Inr r
     \<and> ar_program r = ''ppv_escrow''
     \<and> (\<exists>a b. a \<noteq> b \<and> {a, b} \<subseteq> set EXPECTED_CUSTODY_MEMBERS \<and> \<not> {a, b} \<subseteq> set EXPECTED_SQUADS_MEMBERS)"
proof -
  obtain r where r: "releaseApproval (\<lambda>_ _ _. True) (\<lambda>_. replicate 64 0) escrow_approval = Inr r"
      "ar_program r = ''ppv_escrow''"
    using escrow_approval_granted by simp
  have "\<exists>a b. a \<noteq> b \<and> {a, b} \<subseteq> set EXPECTED_CUSTODY_MEMBERS \<and> \<not> {a, b} \<subseteq> set EXPECTED_SQUADS_MEMBERS"
    using release_approval_sound [OF r(1), unfolded r(2) if_True simp_thms]
    by (elim conjE exE) (intro exI conjI; assumption)
  with r show ?thesis by (intro exI [of _ r] conjI)
qed

end
