(* ===== verification/Deployed_Program.thy ===== *)
theory Deployed_Program
  imports Script_Ix Squads Tx_Lifecycle Custody_Runner
begin

text \<open>
  Verifying a deployed program against a recorded release: the permanent identities
  (\<open>scripts/lib/identity.mjs\<close>), the reading of an upgradeable program off the chain
  (\<open>readDeployedProgram\<close> of \<open>scripts/lib/rpc.mjs\<close>) and
  \<open>scripts/verify-deployed-program.mjs\<close>. The record is a JSON object of any shape. The hash, the
  base64 decoder and the conversions of numbers to text and back are the host; the chain is a
  function of the number of the request, so it may answer differently every time.
\<close>

section \<open>The permanent identities\<close>

definition PERMANENT_PROGRAM_IDS :: "(string \<times> string) list" where
  "PERMANENT_PROGRAM_IDS =
     [(''ppv_core'', ''9cWE41ZDNQChvFrRoVuPQDeoVLg46ACTiZRCZaBZzfwU''),
      (''ppv_commerce'', ''GmRDoFuPrBrsxnvTX751WK5rLu14JXe4sgjh6vNwHzr3''),
      (''ppv_escrow'', ''7U1bCHQcr8Jg6J8G69JGaAWCRtsrZB1RYx4zo1sNEVF4'')]"

definition PROGRAM_NAMES :: "string list" where
  "PROGRAM_NAMES = map fst PERMANENT_PROGRAM_IDS"

definition DEVNET_DEPLOYED_PROGRAMS :: "string list" where
  "DEVNET_DEPLOYED_PROGRAMS = [''ppv_core'', ''ppv_commerce'', ''ppv_escrow'']"

definition ESCROW_PERMANENT_ID :: string where
  "ESCROW_PERMANENT_ID = ''7U1bCHQcr8Jg6J8G69JGaAWCRtsrZB1RYx4zo1sNEVF4''"

definition ESCROW_PLACEHOLDER_ID :: string where
  "ESCROW_PLACEHOLDER_ID = ''7BECot7zFqH2oCxTu9uLmmwvzQSBtxWro47jMa2MqUdR''"

record custody_governance =
  cg_multisig :: string
  cg_vault :: string
  cg_threshold :: int
  cg_members :: "string list"
  cg_permissionMask :: int
  cg_timeLock :: int
  cg_vaultIndex :: int
  cg_network :: string
  cg_creationTx :: string
  cg_sharedSignersWithNonCustody :: "string list"
  cg_sharedSignerExceptionScope :: string

definition ESCROW_CUSTODY_GOVERNANCE :: custody_governance where
  "ESCROW_CUSTODY_GOVERNANCE =
     \<lparr>cg_multisig = ''GEE6nE9xN4GsHGo8QHvyqNLH7eM7yLBrtFtfsmH9ip46'',
      cg_vault = ''FD2spnsMVgsuddPSRWAe3ee4DMbgDx5ivpvVfvKcNrLE'',
      cg_threshold = 2,
      cg_members = [''HDkMBufpYfm1LN6apVkeV3aA2dhMk57PmBujwJ4j4Ecx'',
        ''5y12g4GKbba3k6WDUyZT8eUfeBdboxxGrjkdjM4kX2Wo'',
        ''BJmFM4k7Q32CiCYSdoYkAhXdD5Sk3BegMh2cbEAsgSwJ''],
      cg_permissionMask = 7, cg_timeLock = 0, cg_vaultIndex = 0, cg_network = ''devnet'',
      cg_creationTx = ''PAr6UEy3Am4HDjZFLwWKCiG3jVMh2pE9vCfKxAq3SACyFs9wwheGCwLDRV57kE7GHZPyCJEqQBJByR1574spqR5'',
      cg_sharedSignersWithNonCustody = [''BJmFM4k7Q32CiCYSdoYkAhXdD5Sk3BegMh2cbEAsgSwJ''],
      cg_sharedSignerExceptionScope = ''devnet''\<rparr>"

definition UPGRADEABLE_LOADER_ID :: string where
  "UPGRADEABLE_LOADER_ID = ''BPFLoaderUpgradeab1e11111111111111111111111''"

definition MIN_SQUADS_THRESHOLD :: int where "MIN_SQUADS_THRESHOLD = 2"

section \<open>The host and the values of a record\<close>

record host =
  h_sha :: "bytes \<Rightarrow> bytes"
  h_base64 :: "string \<Rightarrow> bytes"
  h_num_text :: "js_number \<Rightarrow> string"
  h_to_num :: "string \<Rightarrow> js_number"

text \<open>A template literal of a JSON value; \<open>undefined\<close> is None.\<close>

fun json_text :: "host \<Rightarrow> json \<Rightarrow> string" where
  "json_text h J_null = ''null''"
| "json_text h (J_bool b) = (if b then ''true'' else ''false'')"
| "json_text h (J_number (Whole n)) = dec_int n"
| "json_text h (J_number n) = h_num_text h n"
| "json_text h (J_string s) = s"
| "json_text h (J_array xs) = join_with '','' (map (\<lambda>x. if x = J_null then [] else json_text h x) xs)"
| "json_text h (J_object _) = ''[object Object]''"

definition value_text :: "host \<Rightarrow> json option \<Rightarrow> string" where
  "value_text h v = (case v of None \<Rightarrow> ''undefined'' | Some j \<Rightarrow> json_text h j)"

text \<open>\<open>v ?? []\<close> read as \<open>Number(v)\<close>, and \<open>length < v\<close>.\<close>

definition json_number :: "host \<Rightarrow> json option \<Rightarrow> js_number" where
  "json_number h v =
     (case v of
        None \<Rightarrow> Not_a_Number
      | Some J_null \<Rightarrow> Whole 0
      | Some (J_bool b) \<Rightarrow> Whole (if b then 1 else 0)
      | Some (J_number n) \<Rightarrow> n
      | Some j \<Rightarrow> h_to_num h (json_text h j))"

definition int_less :: "int \<Rightarrow> js_number \<Rightarrow> bool" where
  "int_less n x = (case x of Whole m \<Rightarrow> n < m | Fractional m \<Rightarrow> n \<le> m | Pos_Infinity \<Rightarrow> True | _ \<Rightarrow> False)"

type_synonym json_record = "(string \<times> json) list"

definition truthy_field :: "json_record \<Rightarrow> string \<Rightarrow> bool" where
  "truthy_field r name = (case map_of r name of None \<Rightarrow> False | Some v \<Rightarrow> truthy_json v)"

definition json_address :: "json option \<Rightarrow> bool" where
  "json_address v = (case v of Some (J_string s) \<Rightarrow> script_isAddress s | _ \<Rightarrow> False)"

definition json_program_derived :: "json option \<Rightarrow> bool result" where
  "json_program_derived v = (case v of Some (J_string s) \<Rightarrow> isProgramDerived s | _ \<Rightarrow> Inr False)"

text \<open>
  \<open>table[key]\<close> of a constant object: its own entry, or what every object inherits, which is a
  function (or, for \<open>__proto__\<close>, an object) and is never equal to a recorded value.
\<close>

definition inherited_text :: "string \<Rightarrow> string" where
  "inherited_text name =
     (if name = ''__proto__'' then ''[object Object]''
      else ''function '' @ (if name = ''constructor'' then ''Object'' else name) @ ''() { [native code] }'')"

definition table_get :: "(string \<times> string) list \<Rightarrow> string \<Rightarrow> (string \<times> bool) option" where
  "table_get table key =
     (case map_of table key of
        Some v \<Rightarrow> Some (v, True)
      | None \<Rightarrow> if List.member inherited_names key then Some (inherited_text key, False) else None)"

definition is_entry :: "string \<times> bool \<Rightarrow> json option \<Rightarrow> bool" where
  "is_entry entry v \<longleftrightarrow> snd entry \<and> v = Some (J_string (fst entry))"

definition is_git_sha :: "string \<Rightarrow> bool" where
  "is_git_sha s \<longleftrightarrow> length s = 40 \<and> list_all is_lower_hex s"

definition is_sha256_text :: "string \<Rightarrow> bool" where
  "is_sha256_text s \<longleftrightarrow> take 7 s = ''sha256:'' \<and> length s = 71 \<and> list_all is_lower_hex (drop 7 s)"

section \<open>Reading a program off the chain\<close>

text \<open>\<open>Number\<close> of a 64-bit integer: the nearest double, ties to the even one.\<close>

fun bit_length :: "nat \<Rightarrow> nat" where
  "bit_length n = (if n = 0 then 0 else Suc (bit_length (n div 2)))"

declare bit_length.simps [simp del]

definition to_double :: "nat \<Rightarrow> int" where
  "to_double n =
     (let unit = 2 ^ (bit_length n - 53); q = n div unit; r = n mod unit
      in int ((if 2 * r > unit \<or> (2 * r = unit \<and> odd q) then q + 1 else q) * unit))"

definition decodeProgramDataAuthority :: "host \<Rightarrow> string \<Rightarrow> (int \<times> bytes option) result" where
  "decodeProgramDataAuthority h base64Data =
     (let bs = h_base64 h base64Data; tag = read_le bs 0 4; slot = to_double (le_nat (subarray bs 4 8));
          hasAuthority = bs ! 12
      in if length bs < 45 then throw RpcError ''ProgramData account is too short''
         else if tag \<noteq> 3 then throw RpcError (''account is not ProgramData (tag '' @ dec_int tag @ '')'')
         else if hasAuthority = 0 then Inr (slot, None)
         else if hasAuthority \<noteq> 1 then throw RpcError ''invalid Option tag in ProgramData''
         else Inr (slot, Some (subarray bs 13 32)))"

definition decodeProgramDataAddress :: "host \<Rightarrow> string \<Rightarrow> bytes result" where
  "decodeProgramDataAddress h base64Data =
     (let bs = h_base64 h base64Data; tag = read_le bs 0 4
      in if length bs < 36 then throw RpcError ''Program account is too short''
         else if tag \<noteq> 2 then throw RpcError (''account is not a Program (tag '' @ dec_int tag @ '')'')
         else Inr (subarray bs 4 32))"

definition PROGRAMDATA_HEADER_LEN :: nat where "PROGRAMDATA_HEADER_LEN = 45"

text \<open>The chain behind a client: what the request with that number is answered.\<close>

record slotted_status = signature_status +
  ss_slot :: int

record chain_client =
  cc_endpoint :: string
  cc_genesis :: "nat \<Rightarrow> string result"
  cc_account :: "nat \<Rightarrow> string \<Rightarrow> account_info option result"
  cc_statuses :: "nat \<Rightarrow> string \<Rightarrow> slotted_status option list option result"

text \<open>Fields the reading did not reach are None, as is an authority that was revoked.\<close>

record deployed_state =
  ds_exists :: bool
  ds_programId :: string
  ds_executable :: bool
  ds_owner :: string
  ds_programDataAddress :: "string option"
  ds_lastDeploySlot :: "int option"
  ds_upgradeAuthority :: "string option"
  ds_programDataOwner :: "string option"
  ds_programDataLength :: "nat option"
  ds_deployedBinary :: "bytes option"
  ds_paddingLength :: "nat option"
  ds_deployedBinaryHash :: "string option"

definition no_state :: "string \<Rightarrow> deployed_state" where
  "no_state programId =
     \<lparr>ds_exists = False, ds_programId = programId, ds_executable = False, ds_owner = [],
      ds_programDataAddress = None, ds_lastDeploySlot = None, ds_upgradeAuthority = None,
      ds_programDataOwner = None, ds_programDataLength = None, ds_deployedBinary = None,
      ds_paddingLength = None, ds_deployedBinaryHash = None\<rparr>"

text \<open>The program bytes, and the padding behind the artifact where its length is known.\<close>

definition split_binary :: "bytes \<Rightarrow> nat option \<Rightarrow> (bytes \<times> nat option) result" where
  "split_binary elf binaryLength =
     (case binaryLength of
        None \<Rightarrow> Inr (elf, None)
      | Some n \<Rightarrow>
          if length elf < n
          then throw RpcError (''ProgramData holds '' @ dec_nat (length elf) @ '' bytes, shorter than the ''
            @ dec_nat n @ ''-byte release artifact'')
          else if list_ex (\<lambda>b. b \<noteq> 0) (drop n elf)
          then throw RpcError (''ProgramData holds '' @ dec_nat (length elf) @ '' bytes of which only the first ''
            @ dec_nat n @ '' were expected to be program code, but the remainder is not zero padding'')
          else Inr (take n elf, Some (length elf - n)))"

definition readDeployedProgram ::
    "host \<Rightarrow> chain_client \<Rightarrow> nat \<Rightarrow> string \<Rightarrow> nat option \<Rightarrow> deployed_state result" where
  "readDeployedProgram h client request programId binaryLength =
     bindR (cc_account client request programId) (\<lambda>program.
     case program of
       None \<Rightarrow> Inr (no_state programId)
     | Some p \<Rightarrow>
         let state = (no_state programId)\<lparr>ds_exists := True, ds_executable := ai_executable p, ds_owner := ai_owner p\<rparr>
         in if ds_owner state \<noteq> UPGRADEABLE_LOADER_ID then Inr state
            else bindR (decodeProgramDataAddress h (ai_data p)) (\<lambda>raw.
              let address = script_encodeBase58 raw; state = state\<lparr>ds_programDataAddress := Some address\<rparr>
              in bindR (cc_account client (request + 1) address) (\<lambda>programData.
                case programData of
                  None \<Rightarrow> Inr state
                | Some d \<Rightarrow>
                    bindR (decodeProgramDataAuthority h (ai_data d)) (\<lambda>(slot, authority).
                    let bs = h_base64 h (ai_data d)
                    in bindR (split_binary (drop PROGRAMDATA_HEADER_LEN bs) binaryLength) (\<lambda>(binary, padding).
                      Inr (state\<lparr>ds_programDataOwner := Some (ai_owner d), ds_lastDeploySlot := Some slot,
                        ds_upgradeAuthority := map_option script_encodeBase58 authority,
                        ds_programDataLength := Some (length bs), ds_deployedBinary := Some binary,
                        ds_paddingLength := padding, ds_deployedBinaryHash := Some (hex (h_sha h binary))\<rparr>))))))"

section \<open>The record\<close>

definition CLUSTER_GENESIS :: "(string \<times> string) list" where
  "CLUSTER_GENESIS = [(''devnet'', DEVNET_GENESIS)]"

text \<open>What \<open>for (const member of members)\<close> runs over.\<close>

definition member_values :: "json option \<Rightarrow> json list result" where
  "member_values v =
     (case v of
        None \<Rightarrow> Inr []
      | Some J_null \<Rightarrow> Inr []
      | Some (J_array xs) \<Rightarrow> Inr xs
      | Some (J_string s) \<Rightarrow> Inr (map (\<lambda>c. J_string [c]) s)
      | _ \<Rightarrow> throw TypeError ''members is not iterable'')"

text \<open>\<open>members.length\<close>: of a list or a text its length, of an object its field.\<close>

definition members_length :: "json option \<Rightarrow> json option" where
  "members_length v =
     (case v of
        None \<Rightarrow> Some (J_number (Whole 0))
      | Some J_null \<Rightarrow> Some (J_number (Whole 0))
      | Some (J_array xs) \<Rightarrow> Some (J_number (Whole (int (length xs))))
      | Some (J_string s) \<Rightarrow> Some (J_number (Whole (int (length s))))
      | Some (J_object ms) \<Rightarrow> map_of ms ''length''
      | _ \<Rightarrow> None)"

definition enough_members :: "host \<Rightarrow> json option \<Rightarrow> json option \<Rightarrow> bool" where
  "enough_members h members threshold =
     (case members of
        None \<Rightarrow> \<not> int_less 0 (json_number h threshold)
      | Some J_null \<Rightarrow> \<not> int_less 0 (json_number h threshold)
      | Some (J_array xs) \<Rightarrow> \<not> int_less (int (length xs)) (json_number h threshold)
      | _ \<Rightarrow> False)"

definition policy_threshold :: "json option \<Rightarrow> bool" where
  "policy_threshold v = (case v of Some (J_number n) \<Rightarrow> is_integer n \<and> whole n \<ge> MIN_SQUADS_THRESHOLD | _ \<Rightarrow> False)"

definition usable_length :: "json option \<Rightarrow> bool" where
  "usable_length v = (case v of Some (J_number n) \<Rightarrow> is_integer n \<and> whole n > 0 | _ \<Rightarrow> False)"

definition identity_failures :: "host \<Rightarrow> json_record \<Rightarrow> string list" where
  "identity_failures h r =
     (let program = value_text h (map_of r ''program''); programId = map_of r ''programId''
      in case table_get PERMANENT_PROGRAM_IDS program of
           None \<Rightarrow> [program @ '' is not a known PPV program'']
         | Some expected \<Rightarrow> push_unless (is_entry expected programId)
             (''record names '' @ program @ '' at '' @ value_text h programId
               @ ''; the permanent id is '' @ fst expected))"

definition cluster_failures :: "host \<Rightarrow> json_record \<Rightarrow> string list" where
  "cluster_failures h r =
     (let cluster = value_text h (map_of r ''cluster''); genesis = map_of r ''genesisHash''
      in (case table_get CLUSTER_GENESIS cluster of
            None \<Rightarrow> [''record names cluster '' @ cluster @ '', which this verifier does not accept'']
          | Some expected \<Rightarrow> push_unless (is_entry expected genesis)
              (''record claims '' @ cluster @ '' genesis '' @ value_text h genesis @ '', expected '' @ fst expected))
         @ push_unless (genesis \<noteq> Some (J_string MAINNET_GENESIS))
             ''record names mainnet-beta; mainnet is not an authorized PPV cluster'')"

definition checkRecord :: "host \<Rightarrow> json_record \<Rightarrow> string list result" where
  "checkRecord h r =
     (let authority = map_of r ''upgradeAuthority''; threshold = map_of r ''upgradeAuthorityThreshold'';
          members = map_of r ''upgradeAuthorityMembers''; commit = map_of r ''releaseCommit'';
          binaryHash = map_of r ''binaryHash''; binaryLength = map_of r ''binaryLength'';
          or_empty = (\<lambda>v. if v = None \<or> v = Some J_null then [] else value_text h v)
      in bindR (if \<not> json_address authority then Inr False else json_program_derived authority) (\<lambda>vault.
         bindR (member_values members) (\<lambda>values.
           Inr (identity_failures h r @ cluster_failures h r
             @ push_unless vault (''recorded upgrade authority '' @ value_text h authority
                 @ '' is not a program-derived address, so it is a signer wallet rather than a multisig vault'')
             @ push_unless (policy_threshold threshold) (''recorded authority threshold '' @ value_text h threshold
                 @ '' is below the policy minimum of '' @ dec_int MIN_SQUADS_THRESHOLD)
             @ push_unless (enough_members h members threshold) (''record lists ''
                 @ value_text h (members_length members) @ '' authority members for a ''
                 @ value_text h threshold @ ''-of-N authority'')
             @ concat (map (\<lambda>m. push_unless (json_address (Some m))
                 (''authority member '' @ json_text h m @ '' is not an address'')) values)
             @ concat (map (\<lambda>f. push_unless (truthy_field r f) (''record has no '' @ f))
                 [''releaseCommit'', ''deploymentSignature'', ''programDataAddress'', ''binaryHash''])
             @ push_unless (is_git_sha (or_empty commit))
                 (''releaseCommit '' @ value_text h commit @ '' is not a full 40-character git sha'')
             @ push_unless (is_sha256_text (or_empty binaryHash))
                 (''binaryHash '' @ value_text h binaryHash @ '' is not a sha256:<hex> digest'')
             @ push_unless (usable_length binaryLength)
                 (''record has no usable binaryLength ('' @ value_text h binaryLength @ '')'')))))"

section \<open>The chain\<close>

text \<open>
  What a check prints: passed, failed, or a note (\<open>report(null, ..)\<close>). Every failure is pushed
  and reported at once, so the list a check returns is the failures it has reported.
\<close>

type_synonym report = "bool option \<times> string"
type_synonym 'a reported = "report list \<times> 'a result"

definition bindW :: "'a reported \<Rightarrow> ('a \<Rightarrow> 'b reported) \<Rightarrow> 'b reported" where
  "bindW m f = (case m of
     (rs, Inl e) \<Rightarrow> (rs, Inl e)
   | (rs, Inr a) \<Rightarrow> (let (rs', r) = f a in (rs @ rs', r)))"

definition tell :: "report list \<Rightarrow> unit reported" where "tell rs = (rs, Inr ())"

definition failed :: "string \<Rightarrow> report list" where "failed m = [(Some False, m)]"
definition passed :: "string \<Rightarrow> report list" where "passed m = [(Some True, m)]"

definition failures_of :: "report list \<Rightarrow> string list" where
  "failures_of rs = map snd (filter (\<lambda>r. fst r = Some False) rs)"

definition opt_text :: "string \<Rightarrow> string option \<Rightarrow> string" where
  "opt_text missing v = (case v of None \<Rightarrow> missing | Some s \<Rightarrow> s)"

text \<open>The length is the one \<open>checkRecord\<close> has accepted, a positive integer.\<close>

definition recorded_length :: "json option \<Rightarrow> nat option" where
  "recorded_length v = (case v of Some (J_number (Whole n)) \<Rightarrow> Some (nat n) | _ \<Rightarrow> None)"

definition state_reports :: "host \<Rightarrow> json_record \<Rightarrow> deployed_state \<Rightarrow> report list" where
  "state_reports h r state =
     (let programData = opt_text ''null'' (ds_programDataAddress state);
          recorded = (\<lambda>name. map_of r name);
          liveHash = ''sha256:'' @ opt_text ''undefined'' (ds_deployedBinaryHash state)
      in passed ''owned by the BPF upgradeable loader''
         @ (if map_option J_string (ds_programDataAddress state) \<noteq> recorded ''programDataAddress''
            then failed (''ProgramData is '' @ programData @ '', the record says ''
              @ value_text h (recorded ''programDataAddress''))
            else passed (''ProgramData '' @ programData @ '' resolves and exists''))
         @ (if ds_programDataOwner state \<noteq> Some UPGRADEABLE_LOADER_ID
            then failed (''ProgramData '' @ programData @ '' is owned by ''
              @ opt_text ''undefined'' (ds_programDataOwner state)) else [])
         @ (case ds_upgradeAuthority state of
              None \<Rightarrow> failed (value_text h (recorded ''program'') @ '' is immutable: its upgrade authority has been revoked'')
            | Some authority \<Rightarrow>
                if Some (J_string authority) \<noteq> recorded ''upgradeAuthority''
                then failed (''SECURITY: live upgrade authority is '' @ authority
                  @ '', the recorded Squads vault is '' @ value_text h (recorded ''upgradeAuthority''))
                else passed (''upgrade authority is the recorded Squads vault '' @ authority))
         @ (if Some (J_string liveHash) \<noteq> recorded ''binaryHash''
            then failed (''live binary is '' @ liveHash @ '', the recorded release binary is ''
              @ value_text h (recorded ''binaryHash''))
            else passed (''live binary matches the recorded release binary ('' @ value_text h (recorded ''binaryLength'')
              @ '' bytes'' @ (case ds_paddingLength state of
                  Some (Suc n) \<Rightarrow> '', '' @ dec_nat (Suc n) @ '' bytes of loader padding'' | _ \<Rightarrow> []) @ '')'')))"

text \<open>\<open>JSON.stringify\<close> of an error that may be \<open>undefined\<close>.\<close>

definition err_text :: "host \<Rightarrow> json option \<Rightarrow> string" where
  "err_text h e = (case e of None \<Rightarrow> ''undefined'' | Some v \<Rightarrow> stringify (h_num_text h) v)"

definition signature_reports :: "host \<Rightarrow> string \<Rightarrow> string \<Rightarrow> slotted_status option \<Rightarrow> report list" where
  "signature_reports h label signature found =
     (case found of
        None \<Rightarrow> failed (label @ '' transaction '' @ signature @ '' is not in transaction history'')
      | Some s \<Rightarrow>
          if ss_err s \<noteq> Some J_null
          then failed (label @ '' transaction '' @ signature @ '' failed: '' @ err_text h (ss_err s))
          else passed (label @ '' transaction succeeded (slot '' @ dec_int (ss_slot s) @ '')''))"

text \<open>The requests of one check: the genesis hash is 0, the two accounts 1 and 2, then a status each.\<close>

fun check_signatures ::
    "host \<Rightarrow> chain_client \<Rightarrow> nat \<Rightarrow> (string \<times> json option) list \<Rightarrow> unit reported" where
  "check_signatures h client request [] = tell []"
| "check_signatures h client request ((label, signature) # rest') =
     (if \<not> (case signature of None \<Rightarrow> False | Some v \<Rightarrow> truthy_json v)
      then check_signatures h client request rest'
      else bindW ([], cc_statuses client request (value_text h signature)) (\<lambda>answer.
        bindW (tell (signature_reports h label (value_text h signature) (signatureStatus answer))) (\<lambda>_.
          check_signatures h client (request + 1) rest')))"

definition chain_reports :: "host \<Rightarrow> chain_client \<Rightarrow> json_record \<Rightarrow> unit reported" where
  "chain_reports h client r =
     bindW ([], cc_genesis client 0) (\<lambda>genesis.
     if genesis = MAINNET_GENESIS
     then ([], throw VerificationFailure (cc_endpoint client @ '' is mainnet-beta, which is not authorized''))
     else bindW (tell (if Some (J_string genesis) \<noteq> map_of r ''genesisHash''
       then failed (''cluster genesis '' @ genesis @ '' does not match the recorded '' @ value_text h (map_of r ''genesisHash''))
       else passed (''cluster is '' @ value_text h (map_of r ''cluster'') @ '' ('' @ genesis @ '')''))) (\<lambda>_.
     let programId = value_text h (map_of r ''programId'')
     in bindW ([], readDeployedProgram h client 1 programId (recorded_length (map_of r ''binaryLength''))) (\<lambda>state.
     if \<not> ds_exists state
     then tell (failed (''no account at '' @ programId @ '': the program is not deployed''))
     else bindW (tell (if ds_executable state then passed (''program '' @ programId @ '' exists and is executable'')
         else failed (programId @ '' exists but is not executable''))) (\<lambda>_.
     if ds_owner state \<noteq> UPGRADEABLE_LOADER_ID
     then tell (failed (programId @ '' is owned by '' @ ds_owner state @ '', not the BPF upgradeable loader''))
     else bindW (tell (state_reports h r state)) (\<lambda>_.
       check_signatures h client 3 [(''deployment'', map_of r ''deploymentSignature''),
         (''authority transfer'', map_of r ''authorityTransferSignature'')])))))"

definition checkChain :: "host \<Rightarrow> chain_client \<Rightarrow> json_record \<Rightarrow> string list reported" where
  "checkChain h client r =
     (let (reports, outcome) = chain_reports h client r
      in (reports, bindR outcome (\<lambda>_. Inr (failures_of reports))))"

fun verify_endpoints :: "host \<Rightarrow> json_record \<Rightarrow> chain_client list \<Rightarrow> string list reported" where
  "verify_endpoints h r [] = ([], Inr [])"
| "verify_endpoints h r (client # clients) =
     bindW (tell [(None, ''via '' @ cc_endpoint client)]) (\<lambda>_.
     bindW (checkChain h client r) (\<lambda>found.
     bindW (verify_endpoints h r clients) (\<lambda>later. ([], Inr (found @ later)))))"

definition verify :: "host \<Rightarrow> json_record \<Rightarrow> chain_client list \<Rightarrow> string list reported" where
  "verify h r clients =
     bindW ([], checkRecord h r) (\<lambda>recordFailures.
     if recordFailures \<noteq> []
     then (map (\<lambda>f. (Some False, ''record: '' @ f)) recordFailures, Inr recordFailures)
     else bindW (tell (passed (''record is internally consistent for '' @ value_text h (map_of r ''program'')
         @ '' @ '' @ value_text h (map_of r ''releaseCommit'')))) (\<lambda>_. verify_endpoints h r clients))"

text \<open>The live state without a record.\<close>

record inspection =
  in_endpoint :: string
  in_genesisHash :: string
  in_cluster :: string
  in_programId :: string
  in_state :: deployed_state
  in_programDataPayloadLength :: "nat option"
  in_programDataPayloadHash :: "string option"

definition inspect :: "host \<Rightarrow> chain_client \<Rightarrow> string \<Rightarrow> inspection result" where
  "inspect h client programId =
     bindR (cc_genesis client 0) (\<lambda>genesis.
     bindR (readDeployedProgram h client 1 programId None) (\<lambda>state.
       Inr \<lparr>in_endpoint = cc_endpoint client, in_genesisHash = genesis,
         in_cluster = (if genesis = DEVNET_GENESIS then ''devnet''
           else if genesis = MAINNET_GENESIS then ''mainnet-beta'' else ''unknown''),
         in_programId = programId, in_state = state,
         in_programDataPayloadLength = map_option length (ds_deployedBinary state),
         in_programDataPayloadHash = map_option (\<lambda>d. ''sha256:'' @ d) (ds_deployedBinaryHash state)\<rparr>))"

section \<open>Runs without a failure\<close>

definition clean :: "'a reported \<Rightarrow> 'a \<Rightarrow> bool" where
  "clean m a \<longleftrightarrow> snd m = Inr a \<and> failures_of (fst m) = []"

lemma failures_of_simps [simp]:
  "failures_of [] = []"
  "failures_of (rs @ rs') = failures_of rs @ failures_of rs'"
  "failures_of (failed m) = [m]"
  "failures_of (passed m) = []"
  by (simp_all add: failures_of_def failed_def passed_def)

lemma clean_bindW: "clean (bindW m f) b \<longleftrightarrow> (\<exists>a. clean m a \<and> clean (f a) b)"
  by (cases m; cases "snd m") (auto simp: clean_def bindW_def Let_def split: prod.splits)

lemma clean_tell [simp]: "clean (tell rs) u \<longleftrightarrow> failures_of rs = []"
  by (simp add: clean_def tell_def)

lemma clean_lift [simp]: "clean ([], r) a \<longleftrightarrow> r = Inr a"
  by (simp add: clean_def)

lemma failed_if: "failures_of (if b then failed m else passed m') = [] \<longleftrightarrow> \<not> b"
  "failures_of (if b then passed m' else failed m) = [] \<longleftrightarrow> b"
  "failures_of (if b then failed m else []) = [] \<longleftrightarrow> \<not> b"
  by simp_all

lemma checkChain_clean: "snd (checkChain h client r) = Inr [] \<longleftrightarrow> clean (chain_reports h client r) ()"
  by (cases "chain_reports h client r"; cases "snd (chain_reports h client r)")
    (auto simp: checkChain_def clean_def)

lemma verify_endpoints_Nil:
  "snd (verify_endpoints h r clients) = Inr [] \<longleftrightarrow> list_all (\<lambda>client. snd (checkChain h client r) = Inr []) clients"
proof (induction clients)
  case (Cons client clients)
  then show ?case
    by (cases "checkChain h client r"; cases "snd (checkChain h client r)"; cases "verify_endpoints h r clients";
        cases "snd (verify_endpoints h r clients)") (auto simp: bindW_def tell_def)
qed simp

section \<open>What a record and a chain must be\<close>

text \<open>The conditions on a record, each read off the record.\<close>

definition record_ok :: "host \<Rightarrow> json_record \<Rightarrow> bool" where
  "record_ok h r \<longleftrightarrow>
     (\<exists>programId vault threshold members size.
        map_of PERMANENT_PROGRAM_IDS (value_text h (map_of r ''program'')) = Some programId
        \<and> map_of r ''programId'' = Some (J_string programId)
        \<and> value_text h (map_of r ''cluster'') = ''devnet'' \<and> map_of r ''genesisHash'' = Some (J_string DEVNET_GENESIS)
        \<and> map_of r ''upgradeAuthority'' = Some (J_string vault) \<and> isProgramDerived vault = Inr True
        \<and> map_of r ''upgradeAuthorityThreshold'' = Some (J_number (Whole threshold)) \<and> threshold \<ge> 2
        \<and> map_of r ''upgradeAuthorityMembers'' = Some (J_array members) \<and> threshold \<le> int (length members)
        \<and> list_all (\<lambda>m. json_address (Some m)) members
        \<and> list_all (truthy_field r) [''releaseCommit'', ''deploymentSignature'', ''programDataAddress'', ''binaryHash'']
        \<and> is_git_sha (value_text h (map_of r ''releaseCommit''))
        \<and> is_sha256_text (value_text h (map_of r ''binaryHash''))
        \<and> map_of r ''binaryLength'' = Some (J_number (Whole size)) \<and> size > 0)"

text \<open>
  The bytes of the two accounts: the program account holds its tag and the address of its data,
  the data its tag, a slot, the authority, the program, and zeros up to what was allocated.
\<close>

definition program_account :: "bytes \<Rightarrow> string \<Rightarrow> bool" where
  "program_account bs programData \<longleftrightarrow>
     (\<exists>key rest'. length key = 32 \<and> bs = [2, 0, 0, 0] @ key @ rest' \<and> programData = encodeBase58 key)"

definition program_data :: "bytes \<Rightarrow> string \<Rightarrow> bytes \<Rightarrow> bool" where
  "program_data bs authority binary \<longleftrightarrow>
     (\<exists>slot key k. length slot = 8 \<and> length key = 32
        \<and> bs = [3, 0, 0, 0] @ slot @ [1] @ key @ binary @ replicate k 0 \<and> authority = encodeBase58 key)"

fun signatures_succeeded :: "host \<Rightarrow> chain_client \<Rightarrow> nat \<Rightarrow> json option list \<Rightarrow> bool" where
  "signatures_succeeded h client request [] = True"
| "signatures_succeeded h client request (signature # later) =
     (if \<not> (case signature of None \<Rightarrow> False | Some v \<Rightarrow> truthy_json v)
      then signatures_succeeded h client request later
      else (\<exists>s more. cc_statuses client request (value_text h signature) = Inr (Some (Some s # more))
              \<and> ss_err s = Some J_null)
        \<and> signatures_succeeded h client (request + 1) later)"

definition deployed_as_recorded :: "host \<Rightarrow> json_record \<Rightarrow> chain_client \<Rightarrow> bool" where
  "deployed_as_recorded h r client \<longleftrightarrow>
     (\<exists>programId programData authority binary p d.
        cc_genesis client 0 = Inr DEVNET_GENESIS \<and> map_of r ''programId'' = Some (J_string programId)
        \<and> cc_account client 1 programId = Inr (Some p) \<and> ai_executable p \<and> ai_owner p = UPGRADEABLE_LOADER_ID
        \<and> program_account (h_base64 h (ai_data p)) programData
        \<and> map_of r ''programDataAddress'' = Some (J_string programData)
        \<and> cc_account client 2 programData = Inr (Some d) \<and> ai_owner d = UPGRADEABLE_LOADER_ID
        \<and> program_data (h_base64 h (ai_data d)) authority binary
        \<and> map_of r ''upgradeAuthority'' = Some (J_string authority)
        \<and> map_of r ''binaryLength'' = Some (J_number (Whole (int (length binary))))
        \<and> map_of r ''binaryHash'' = Some (J_string (''sha256:'' @ hex (h_sha h binary)))
        \<and> signatures_succeeded h client 3 [map_of r ''deploymentSignature'', map_of r ''authorityTransferSignature''])"

lemma table_get_entry:
  "(case table_get table key of None \<Rightarrow> [m] | Some e \<Rightarrow> push_unless (is_entry e v) (f e)) = []
   \<longleftrightarrow> (\<exists>x. map_of table key = Some x \<and> v = Some (J_string x))"
  by (auto simp: table_get_def is_entry_def split: option.splits)

lemma identity_failures_Nil:
  "identity_failures h r = [] \<longleftrightarrow> (\<exists>programId. map_of PERMANENT_PROGRAM_IDS (value_text h (map_of r ''program'')) = Some programId
     \<and> map_of r ''programId'' = Some (J_string programId))"
  unfolding identity_failures_def Let_def by (rule table_get_entry)

lemma genesis_differ: "DEVNET_GENESIS \<noteq> MAINNET_GENESIS"
  by (simp add: DEVNET_GENESIS_def MAINNET_GENESIS_def)

lemma cluster_failures_Nil:
  "cluster_failures h r = [] \<longleftrightarrow> value_text h (map_of r ''cluster'') = ''devnet''
     \<and> map_of r ''genesisHash'' = Some (J_string DEVNET_GENESIS)"
  unfolding cluster_failures_def Let_def append_is_Nil_conv table_get_entry push_unless_Nil
  using genesis_differ by (auto simp: CLUSTER_GENESIS_def split: if_splits)

lemma vault_ok:
  "(if \<not> json_address v then Inr False else json_program_derived v) = Inr True
   \<longleftrightarrow> (\<exists>a. v = Some (J_string a) \<and> isProgramDerived a = Inr True)"
  by (auto simp: json_address_def json_program_derived_def isProgramDerived_def split: option.splits json.splits if_splits)

lemma threshold_ok: "policy_threshold v \<longleftrightarrow> (\<exists>t. v = Some (J_number (Whole t)) \<and> t \<ge> 2)"
  by (auto simp: policy_threshold_def MIN_SQUADS_THRESHOLD_def split: option.splits json.splits elim: is_integer.elims)

lemma length_ok: "usable_length v \<longleftrightarrow> (\<exists>n. v = Some (J_number (Whole n)) \<and> n > 0)"
  by (auto simp: usable_length_def split: option.splits json.splits elim: is_integer.elims)

lemma members_ok:
  "threshold \<ge> 2 \<Longrightarrow> enough_members h v (Some (J_number (Whole threshold)))
     \<longleftrightarrow> (\<exists>ms. v = Some (J_array ms) \<and> threshold \<le> int (length ms))"
  by (auto simp: enough_members_def json_number_def int_less_def split: option.splits json.splits)

lemma or_empty_truthy:
  "truthy_field r name \<Longrightarrow>
     (if map_of r name = None \<or> map_of r name = Some J_null then [] else value_text h (map_of r name))
     = value_text h (map_of r name)"
  by (auto simp: truthy_field_def split: option.splits)

lemma record_fields:
  "concat (map (\<lambda>f. push_unless (truthy_field r f) (m f)) fs) = [] \<longleftrightarrow> list_all (truthy_field r) fs"
  by (induction fs) simp_all

lemma record_members:
  "concat (map (\<lambda>x. push_unless (p x) (m x)) xs) = [] \<longleftrightarrow> list_all p xs"
  by (induction xs) simp_all

lemma checkRecord_Nil: "checkRecord h r = Inr [] \<longleftrightarrow> record_ok h r"
proof
  assume "checkRecord h r = Inr []"
  then obtain vault "values" where
    v: "(if \<not> json_address (map_of r ''upgradeAuthority'') then Inr False
          else json_program_derived (map_of r ''upgradeAuthority'')) = Inr vault"
    and m: "member_values (map_of r ''upgradeAuthorityMembers'') = Inr values"
    and ok: "identity_failures h r = []" "cluster_failures h r = []" "vault"
      "policy_threshold (map_of r ''upgradeAuthorityThreshold'')"
      "enough_members h (map_of r ''upgradeAuthorityMembers'') (map_of r ''upgradeAuthorityThreshold'')"
      "list_all (\<lambda>m. json_address (Some m)) values"
      "list_all (truthy_field r) [''releaseCommit'', ''deploymentSignature'', ''programDataAddress'', ''binaryHash'']"
      "is_git_sha (if map_of r ''releaseCommit'' = None \<or> map_of r ''releaseCommit'' = Some J_null then []
         else value_text h (map_of r ''releaseCommit''))"
      "is_sha256_text (if map_of r ''binaryHash'' = None \<or> map_of r ''binaryHash'' = Some J_null then []
         else value_text h (map_of r ''binaryHash''))"
      "usable_length (map_of r ''binaryLength'')"
    unfolding checkRecord_def Let_def bindR_eq_Inr record_fields record_members by (auto simp: list_all_iff)
  obtain t where t: "map_of r ''upgradeAuthorityThreshold'' = Some (J_number (Whole t))" "t \<ge> 2"
    using ok(4) threshold_ok by blast
  obtain ms where ms: "map_of r ''upgradeAuthorityMembers'' = Some (J_array ms)" "t \<le> int (length ms)"
    using ok(5) [unfolded t(1) members_ok [OF t(2)]] by blast
  have "values = ms" using m ms(1) by (simp add: member_values_def)
  moreover obtain a where "map_of r ''upgradeAuthority'' = Some (J_string a)" "isProgramDerived a = Inr True"
    using v ok(3) vault_ok [of "map_of r ''upgradeAuthority''"] by auto
  ultimately show "record_ok h r"
    unfolding record_ok_def using ok t ms identity_failures_Nil cluster_failures_Nil length_ok
    by (auto simp: or_empty_truthy)
next
  assume "record_ok h r"
  then obtain programId a t ms n where
    r: "map_of PERMANENT_PROGRAM_IDS (value_text h (map_of r ''program'')) = Some programId"
      "map_of r ''programId'' = Some (J_string programId)" "value_text h (map_of r ''cluster'') = ''devnet''"
      "map_of r ''genesisHash'' = Some (J_string DEVNET_GENESIS)"
      "map_of r ''upgradeAuthority'' = Some (J_string a)" "isProgramDerived a = Inr True"
      "map_of r ''upgradeAuthorityThreshold'' = Some (J_number (Whole t))" "t \<ge> 2"
      "map_of r ''upgradeAuthorityMembers'' = Some (J_array ms)" "t \<le> int (length ms)"
      "list_all (\<lambda>m. json_address (Some m)) ms"
      "list_all (truthy_field r) [''releaseCommit'', ''deploymentSignature'', ''programDataAddress'', ''binaryHash'']"
      "is_git_sha (value_text h (map_of r ''releaseCommit''))" "is_sha256_text (value_text h (map_of r ''binaryHash''))"
      "map_of r ''binaryLength'' = Some (J_number (Whole n))" "n > 0"
    unfolding record_ok_def by auto
  have v: "(if \<not> json_address (map_of r ''upgradeAuthority'') then Inr False
      else json_program_derived (map_of r ''upgradeAuthority'')) = Inr True"
    unfolding vault_ok using r by blast
  have "identity_failures h r = []" "cluster_failures h r = []"
    unfolding identity_failures_Nil cluster_failures_Nil using r by blast+
  moreover have "policy_threshold (map_of r ''upgradeAuthorityThreshold'')"
    "usable_length (map_of r ''binaryLength'')"
    "enough_members h (map_of r ''upgradeAuthorityMembers'') (map_of r ''upgradeAuthorityThreshold'')"
    unfolding threshold_ok length_ok using r members_ok [OF r(8)] by auto
  moreover have "truthy_field r ''releaseCommit''" "truthy_field r ''binaryHash''" using r(12) by simp_all
  ultimately show "checkRecord h r = Inr []"
    unfolding checkRecord_def Let_def v bindR_Inr record_fields record_members or_empty_truthy
    using r by (simp add: member_values_def record_members or_empty_truthy list_all_iff)
qed

lemma bytes4: "length b = 4 \<Longrightarrow> le_nat b = n \<Longrightarrow> n < 256 \<Longrightarrow> b = [word_of_nat n, 0, 0, 0]"
proof -
  assume "length b = 4" "le_nat b = n" "n < 256"
  then have "b = le_bytes 4 n" using le_bytes_le_nat [of b] by simp
  also have "4 = Suc (Suc (Suc (Suc 0)))" by simp
  also have "le_bytes (Suc (Suc (Suc (Suc 0)))) n = [word_of_nat n, 0, 0, 0]" using \<open>n < 256\<close> by simp
  finally show ?thesis .
qed

lemma head_split: "k \<le> length bs \<Longrightarrow> bs = take k bs @ drop k bs"
  by simp

lemma tag_bytes:
  assumes "4 \<le> length bs" and "n < 256"
  shows "read_le bs 0 4 = int n \<longleftrightarrow> (\<exists>rest'. bs = [word_of_nat n, 0, 0, 0] @ rest')"
proof
  assume "read_le bs 0 4 = int n"
  then have "le_nat (take 4 bs) = n" by (simp add: read_le_def subarray_def)
  moreover have "length (take 4 bs) = 4" using assms(1) by simp
  ultimately have "take 4 bs = [word_of_nat n, 0, 0, 0]" using bytes4 assms(2) by blast
  then show "\<exists>rest'. bs = [word_of_nat n, 0, 0, 0] @ rest'" by (metis append_take_drop_id)
next
  assume "\<exists>rest'. bs = [word_of_nat n, 0, 0, 0] @ rest'"
  then show "read_le bs 0 4 = int n" using assms(2) by (auto simp: read_le_def subarray_def unat_of_nat)
qed

lemma program_address_Inr:
  "(\<exists>raw. decodeProgramDataAddress h d = Inr raw \<and> a = script_encodeBase58 raw) \<longleftrightarrow> program_account (h_base64 h d) a"
proof -
  let ?bs = "h_base64 h d"
  have "decodeProgramDataAddress h d = Inr raw \<longleftrightarrow> 36 \<le> length ?bs \<and> read_le ?bs 0 4 = int 2 \<and> raw = subarray ?bs 4 32" for raw
    by (auto simp: decodeProgramDataAddress_def Let_def)
  moreover have "36 \<le> length ?bs \<and> read_le ?bs 0 4 = int 2 \<and> a = encodeBase58 (subarray ?bs 4 32) \<longleftrightarrow> program_account ?bs a"
  proof
    assume l: "36 \<le> length ?bs \<and> read_le ?bs 0 4 = int 2 \<and> a = encodeBase58 (subarray ?bs 4 32)"
    then obtain later where bs: "?bs = [2, 0, 0, 0] @ later" using tag_bytes [of ?bs 2] by auto
    with l show "program_account ?bs a"
      unfolding program_account_def by (intro exI [of _ "take 32 later"] exI [of _ "drop 32 later"]) (simp add: subarray_def)
  next
    assume "program_account ?bs a"
    then show "36 \<le> length ?bs \<and> read_le ?bs 0 4 = int 2 \<and> a = encodeBase58 (subarray ?bs 4 32)"
      using tag_bytes [of ?bs 2] by (auto simp: program_account_def subarray_def)
  qed
  ultimately show ?thesis by (auto simp: script_encode_eq)
qed

lemma zeros_iff: "\<not> list_ex (\<lambda>b. b \<noteq> (0::byte)) xs \<longleftrightarrow> (\<exists>k. xs = replicate k 0)"
  by (auto simp: list_ex_iff) (metis replicate_length_same)

lemma split_binary_Inr:
  "split_binary elf (Some n) = Inr (b, pad) \<longleftrightarrow> (\<exists>k. elf = b @ replicate k 0 \<and> length b = n \<and> pad = Some k)"
proof
  assume "split_binary elf (Some n) = Inr (b, pad)"
  then have l: "n \<le> length elf" "\<not> list_ex (\<lambda>b. b \<noteq> 0) (drop n elf)" "b = take n elf" "pad = Some (length elf - n)"
    by (auto simp: split_binary_def split: if_splits)
  then obtain k where k: "drop n elf = replicate k 0" using zeros_iff by blast
  then have "length elf - n = k" by (metis length_drop length_replicate)
  with l k show "\<exists>k. elf = b @ replicate k 0 \<and> length b = n \<and> pad = Some k" by (metis append_take_drop_id length_take min.absorb2)
next
  assume "\<exists>k. elf = b @ replicate k 0 \<and> length b = n \<and> pad = Some k"
  then show "split_binary elf (Some n) = Inr (b, pad)" by (auto simp: split_binary_def list_ex_iff)
qed

lemma program_data_Inr:
  "(\<exists>slot raw pad. decodeProgramDataAuthority h d = Inr (slot, Some raw) \<and> a = script_encodeBase58 raw
       \<and> split_binary (drop PROGRAMDATA_HEADER_LEN (h_base64 h d)) (Some n) = Inr (b, pad))
   \<longleftrightarrow> program_data (h_base64 h d) a b \<and> length b = n"
proof -
  let ?bs = "h_base64 h d"
  have dec: "decodeProgramDataAuthority h d = Inr (slot, Some raw) \<longleftrightarrow>
      45 \<le> length ?bs \<and> read_le ?bs 0 4 = int 3 \<and> ?bs ! 12 = 1 \<and> raw = subarray ?bs 13 32
      \<and> slot = to_double (le_nat (subarray ?bs 4 8))" for slot raw
    by (auto simp: decodeProgramDataAuthority_def Let_def)
  have "(\<exists>k. 45 \<le> length ?bs \<and> read_le ?bs 0 4 = int 3 \<and> ?bs ! 12 = 1 \<and> a = encodeBase58 (subarray ?bs 13 32)
      \<and> drop 45 ?bs = b @ replicate k 0) \<longleftrightarrow> program_data ?bs a b" (is "?l \<longleftrightarrow> ?r")
  proof
    assume ?l
    then obtain k later where bs: "?bs = [3, 0, 0, 0] @ later" and l: "45 \<le> length ?bs" "?bs ! 12 = 1"
        "a = encodeBase58 (subarray ?bs 13 32)" "drop 45 ?bs = b @ replicate k 0"
      using tag_bytes [of ?bs 3] by auto
    have len: "41 \<le> length later" and one: "later ! 8 = 1" and a: "a = encodeBase58 (take 32 (drop 9 later))"
      and rest': "drop 41 later = b @ replicate k 0"
      using l bs by (simp_all add: subarray_def)
    have "drop 8 later = later ! 8 # drop 9 later" using len Cons_nth_drop_Suc [of 8 later] by simp
    moreover have "drop 9 later = take 32 (drop 9 later) @ drop 41 later"
      using append_take_drop_id [of 32 "drop 9 later"] by (simp add: drop_drop)
    moreover have "later = take 8 later @ drop 8 later" by simp
    ultimately have "later = take 8 later @ later ! 8 # take 32 (drop 9 later) @ drop 41 later" by metis
    then have "?bs = [3, 0, 0, 0] @ take 8 later @ [1] @ take 32 (drop 9 later) @ b @ replicate k 0"
      using bs one rest' by simp
    then show ?r unfolding program_data_def using len a
      by (intro exI [of _ "take 8 later"] exI [of _ "take 32 (drop 9 later)"] exI [of _ k]) simp
  next
    assume ?r
    then show ?l using tag_bytes [of ?bs 3] by (auto simp: program_data_def subarray_def nth_append)
  qed
  then show ?thesis unfolding dec split_binary_Inr PROGRAMDATA_HEADER_LEN_def script_encode_eq by blast
qed

section \<open>Verified means deployed as recorded\<close>

lemma read_loader_program:
  "(\<exists>state. readDeployedProgram h client n i (Some len) = Inr state \<and> ds_exists state \<and> ds_executable state
      \<and> ds_owner state = UPGRADEABLE_LOADER_ID \<and> ds_programDataAddress state = Some a
      \<and> ds_programDataOwner state = Some UPGRADEABLE_LOADER_ID \<and> ds_upgradeAuthority state = Some authority
      \<and> ds_deployedBinaryHash state = Some digest)
   \<longleftrightarrow> (\<exists>p d b. cc_account client n i = Inr (Some p) \<and> ai_executable p \<and> ai_owner p = UPGRADEABLE_LOADER_ID
      \<and> program_account (h_base64 h (ai_data p)) a
      \<and> cc_account client (n + 1) a = Inr (Some d) \<and> ai_owner d = UPGRADEABLE_LOADER_ID
      \<and> program_data (h_base64 h (ai_data d)) authority b \<and> length b = len \<and> digest = hex (h_sha h b))"
  (is "?l \<longleftrightarrow> ?r")
proof
  assume ?l
  then obtain state where read: "readDeployedProgram h client n i (Some len) = Inr state"
    and state: "ds_exists state" "ds_executable state" "ds_owner state = UPGRADEABLE_LOADER_ID"
      "ds_programDataAddress state = Some a" "ds_programDataOwner state = Some UPGRADEABLE_LOADER_ID"
      "ds_upgradeAuthority state = Some authority" "ds_deployedBinaryHash state = Some digest" by blast
  obtain answer where "cc_account client n i = Inr answer"
    using read by (auto simp: readDeployedProgram_def bindR_eq_Inr)
  moreover from this obtain p where "answer = Some p"
    using read state(1) by (cases answer) (auto simp: readDeployedProgram_def no_state_def)
  ultimately have p1: "cc_account client n i = Inr (Some p)" by simp
  have loader: "ai_owner p = UPGRADEABLE_LOADER_ID"
    by (rule ccontr) (use read state(3) in \<open>auto simp: readDeployedProgram_def p1 no_state_def\<close>)
  obtain raw where raw: "decodeProgramDataAddress h (ai_data p) = Inr raw"
    using read by (auto simp: readDeployedProgram_def p1 loader bindR_eq_Inr Let_def no_state_def)
  obtain more where more: "cc_account client (n + 1) (script_encodeBase58 raw) = Inr more"
    using read by (auto simp: readDeployedProgram_def p1 loader raw bindR_eq_Inr Let_def no_state_def)
  then obtain d where d1: "cc_account client (n + 1) (script_encodeBase58 raw) = Inr (Some d)"
    using read state(5) by (cases more) (auto simp: readDeployedProgram_def p1 loader raw Let_def no_state_def)
  obtain slot key b pad where d2: "decodeProgramDataAuthority h (ai_data d) = Inr (slot, key)"
      "split_binary (drop PROGRAMDATA_HEADER_LEN (h_base64 h (ai_data d))) (Some len) = Inr (b, pad)"
    using read d1 by (auto simp: readDeployedProgram_def p1 loader raw Let_def no_state_def bindR_eq_Inr)
  have fields: "ai_executable p" "a = script_encodeBase58 raw" "ai_owner d = UPGRADEABLE_LOADER_ID"
      "map_option script_encodeBase58 key = Some authority" "digest = hex (h_sha h b)"
    using read d1 d2 state by (auto simp: readDeployedProgram_def p1 loader raw Let_def no_state_def)
  then obtain k where key: "key = Some k" "authority = script_encodeBase58 k" by auto
  have p: "cc_account client n i = Inr (Some p)" "ai_executable p" "ai_owner p = UPGRADEABLE_LOADER_ID"
    using p1 fields loader by auto
  have d: "cc_account client (n + 1) a = Inr (Some d)" "ai_owner d = UPGRADEABLE_LOADER_ID"
      "decodeProgramDataAuthority h (ai_data d) = Inr (slot, Some k)" "authority = script_encodeBase58 k"
      "split_binary (drop PROGRAMDATA_HEADER_LEN (h_base64 h (ai_data d))) (Some len) = Inr (b, pad)"
      "digest = hex (h_sha h b)"
    using d1 d2 fields key by simp_all
  have "program_account (h_base64 h (ai_data p)) a" using raw fields(2) program_address_Inr by blast
  moreover have "program_data (h_base64 h (ai_data d)) authority b \<and> length b = len"
    using d(3-5) program_data_Inr [of h "ai_data d" authority len b] by blast
  ultimately show ?r using p d by blast
next
  assume ?r
  then obtain p d b where p: "cc_account client n i = Inr (Some p)" "ai_executable p" "ai_owner p = UPGRADEABLE_LOADER_ID"
      "program_account (h_base64 h (ai_data p)) a"
    and d: "cc_account client (n + 1) a = Inr (Some d)" "ai_owner d = UPGRADEABLE_LOADER_ID"
      "program_data (h_base64 h (ai_data d)) authority b" "length b = len" "digest = hex (h_sha h b)" by blast
  obtain raw where raw: "decodeProgramDataAddress h (ai_data p) = Inr raw" "a = script_encodeBase58 raw"
    using p(4) program_address_Inr by blast
  obtain slot key pad where "decodeProgramDataAuthority h (ai_data d) = Inr (slot, Some key)" "authority = script_encodeBase58 key"
      "split_binary (drop PROGRAMDATA_HEADER_LEN (h_base64 h (ai_data d))) (Some len) = Inr (b, pad)"
    using d(3,4) program_data_Inr [of h "ai_data d" authority len b] by blast
  with p d raw show ?l
    by (auto simp: readDeployedProgram_def Let_def no_state_def)
qed

lemma signatureStatus_Some: "signatureStatus answer = Some s \<longleftrightarrow> (\<exists>more. answer = Some (Some s # more))"
  by (auto simp: signatureStatus_def split: option.splits list.splits)

lemma signature_reports_clean:
  "failures_of (signature_reports h label s found) = [] \<longleftrightarrow> (\<exists>x. found = Some x \<and> ss_err x = Some J_null)"
  by (auto simp: signature_reports_def split: option.splits)

lemma check_signatures_clean:
  "clean (check_signatures h client n xs) () \<longleftrightarrow> signatures_succeeded h client n (map snd xs)"
proof (induction xs arbitrary: n)
  case (Cons x xs)
  obtain label signature where x: "x = (label, signature)" by (cases x)
  have one: "(\<exists>answer. cc_statuses client n s = Inr answer
        \<and> failures_of (signature_reports h label s (signatureStatus answer)) = [])
      \<longleftrightarrow> (\<exists>found more. cc_statuses client n s = Inr (Some (Some found # more)) \<and> ss_err found = Some J_null)" for s
    unfolding signature_reports_clean signatureStatus_Some by blast
  show ?case unfolding x by (auto simp: clean_bindW Cons.IH signature_reports_clean signatureStatus_Some)
qed simp

lemma state_reports_clean:
  "failures_of (state_reports h r state) = [] \<longleftrightarrow>
     map_option J_string (ds_programDataAddress state) = map_of r ''programDataAddress''
     \<and> ds_programDataOwner state = Some UPGRADEABLE_LOADER_ID
     \<and> (\<exists>authority. ds_upgradeAuthority state = Some authority \<and> map_of r ''upgradeAuthority'' = Some (J_string authority))
     \<and> map_of r ''binaryHash'' = Some (J_string (''sha256:'' @ opt_text ''undefined'' (ds_deployedBinaryHash state)))"
  unfolding state_reports_def Let_def failures_of_simps append_is_Nil_conv failed_if
  by (auto split: option.splits)

lemma clean_if: "clean (if b then m else m') a \<longleftrightarrow> (if b then clean m a else clean m' a)"
  by simp

lemma clean_throw: "clean ([], throw c m) a \<longleftrightarrow> False"
  by simp

lemma chain_reports_clean:
  assumes "record_ok h r"
  shows "clean (chain_reports h client r) () \<longleftrightarrow> deployed_as_recorded h r client"
proof -
  obtain programId n vault where r: "map_of r ''programId'' = Some (J_string programId)"
      "map_of r ''genesisHash'' = Some (J_string DEVNET_GENESIS)"
      "map_of r ''binaryLength'' = Some (J_number (Whole n))" "n > 0"
    using assms by (auto simp: record_ok_def)
  have vals: "value_text h (map_of r ''programId'') = programId" "recorded_length (map_of r ''binaryLength'') = Some (nat n)"
    using r by (simp_all add: value_text_def recorded_length_def)
  let ?read = "readDeployedProgram h client 1 programId (Some (nat n))"
  define signed where "signed = signatures_succeeded h client 3 [map_of r ''deploymentSignature'', map_of r ''authorityTransferSignature'']"
  have sigs: "signatures_succeeded h client 3 (map snd [(''deployment'', map_of r ''deploymentSignature''),
      (''authority transfer'', map_of r ''authorityTransferSignature'')]) = signed"
    by (simp add: signed_def)
  have genesis: "clean (chain_reports h client r) () \<longleftrightarrow> cc_genesis client 0 = Inr DEVNET_GENESIS
      \<and> (\<exists>state. ?read = Inr state \<and> ds_exists state \<and> ds_executable state
          \<and> ds_owner state = UPGRADEABLE_LOADER_ID \<and> failures_of (state_reports h r state) = [] \<and> signed)"
    unfolding chain_reports_def clean_bindW Let_def vals clean_lift clean_if clean_tell failed_if
      check_signatures_clean sigs r(2) option.inject json.inject clean_throw failures_of_simps
    using genesis_differ by auto
  also have "\<dots> \<longleftrightarrow> deployed_as_recorded h r client"
  proof
    assume l: "cc_genesis client 0 = Inr DEVNET_GENESIS
      \<and> (\<exists>state. ?read = Inr state \<and> ds_exists state \<and> ds_executable state
          \<and> ds_owner state = UPGRADEABLE_LOADER_ID \<and> failures_of (state_reports h r state) = [] \<and> signed)"
    then obtain state where state: "?read = Inr state" "ds_exists state" "ds_executable state"
      "ds_owner state = UPGRADEABLE_LOADER_ID" "failures_of (state_reports h r state) = []" by blast
    note clean_state = state(5) [unfolded state_reports_clean]
    have "map_of r ''programDataAddress'' \<noteq> None"
      using assms by (auto simp: record_ok_def truthy_field_def split: option.splits)
    then obtain a where a: "ds_programDataAddress state = Some a" "map_of r ''programDataAddress'' = Some (J_string a)"
      using clean_state by (cases "ds_programDataAddress state") auto
    obtain authority where authority: "ds_upgradeAuthority state = Some authority"
        "map_of r ''upgradeAuthority'' = Some (J_string authority)"
      using clean_state by blast
    have "is_sha256_text (''sha256:'' @ opt_text ''undefined'' (ds_deployedBinaryHash state))"
      using assms clean_state by (auto simp: record_ok_def value_text_def)
    then obtain digest where digest: "ds_deployedBinaryHash state = Some digest"
      by (cases "ds_deployedBinaryHash state") (simp_all add: is_sha256_text_def opt_text_def)
    have "\<exists>p d b. cc_account client 1 programId = Inr (Some p) \<and> ai_executable p \<and> ai_owner p = UPGRADEABLE_LOADER_ID
      \<and> program_account (h_base64 h (ai_data p)) a
      \<and> cc_account client (1 + 1) a = Inr (Some d) \<and> ai_owner d = UPGRADEABLE_LOADER_ID
      \<and> program_data (h_base64 h (ai_data d)) authority b \<and> length b = nat n \<and> digest = hex (h_sha h b)"
      unfolding read_loader_program [symmetric] using state a authority digest clean_state by blast
    then obtain p d b where "cc_account client 1 programId = Inr (Some p)" "ai_executable p"
      "ai_owner p = UPGRADEABLE_LOADER_ID" "program_account (h_base64 h (ai_data p)) a"
      "cc_account client 2 a = Inr (Some d)" "ai_owner d = UPGRADEABLE_LOADER_ID"
      "program_data (h_base64 h (ai_data d)) authority b" "length b = nat n" "digest = hex (h_sha h b)"
      unfolding one_add_one by blast
    moreover have "map_of r ''binaryHash'' = Some (J_string (''sha256:'' @ digest))"
      using clean_state digest by (simp add: opt_text_def)
    moreover have "cc_genesis client 0 = Inr DEVNET_GENESIS" "signed" using l by blast+
    ultimately show "deployed_as_recorded h r client"
      unfolding deployed_as_recorded_def signed_def using r a(2) authority(2)
      by - (rule exI [of _ programId], rule exI [of _ a], rule exI [of _ authority], rule exI [of _ b],
        rule exI [of _ p], rule exI [of _ d], intro conjI; simp)
  next
    assume "deployed_as_recorded h r client"
    then obtain a authority binary p d where g: "cc_genesis client 0 = Inr DEVNET_GENESIS"
        "cc_account client 1 programId = Inr (Some p)" "ai_executable p" "ai_owner p = UPGRADEABLE_LOADER_ID"
        "program_account (h_base64 h (ai_data p)) a" "map_of r ''programDataAddress'' = Some (J_string a)"
        "cc_account client 2 a = Inr (Some d)" "ai_owner d = UPGRADEABLE_LOADER_ID"
        "program_data (h_base64 h (ai_data d)) authority binary"
        "map_of r ''upgradeAuthority'' = Some (J_string authority)" "length binary = nat n"
        "map_of r ''binaryHash'' = Some (J_string (''sha256:'' @ hex (h_sha h binary)))" "signed"
      unfolding deployed_as_recorded_def signed_def using r by auto
    then have "\<exists>p d b. cc_account client 1 programId = Inr (Some p) \<and> ai_executable p \<and> ai_owner p = UPGRADEABLE_LOADER_ID
      \<and> program_account (h_base64 h (ai_data p)) a
      \<and> cc_account client (1 + 1) a = Inr (Some d) \<and> ai_owner d = UPGRADEABLE_LOADER_ID
      \<and> program_data (h_base64 h (ai_data d)) authority b \<and> length b = nat n
      \<and> hex (h_sha h binary) = hex (h_sha h b)" unfolding one_add_one by blast
    then obtain state where "?read = Inr state" "ds_exists state" "ds_executable state"
      "ds_owner state = UPGRADEABLE_LOADER_ID" "ds_programDataAddress state = Some a"
      "ds_programDataOwner state = Some UPGRADEABLE_LOADER_ID" "ds_upgradeAuthority state = Some authority"
      "ds_deployedBinaryHash state = Some (hex (h_sha h binary))"
      unfolding read_loader_program [symmetric] by blast
    with g show "cc_genesis client 0 = Inr DEVNET_GENESIS
      \<and> (\<exists>state. ?read = Inr state \<and> ds_exists state \<and> ds_executable state
          \<and> ds_owner state = UPGRADEABLE_LOADER_ID \<and> failures_of (state_reports h r state) = [] \<and> signed)"
      by (auto simp: state_reports_clean opt_text_def)
  qed
  finally show ?thesis .
qed

lemma verify_clean:
  "snd (verify h r clients) = Inr [] \<longleftrightarrow> record_ok h r \<and> list_all (deployed_as_recorded h r) clients"
proof (cases "checkRecord h r = Inr []")
  case True
  then have ok: "record_ok h r" by (simp add: checkRecord_Nil)
  have "snd (verify h r clients) = snd (verify_endpoints h r clients)"
    by (cases "verify_endpoints h r clients") (simp add: verify_def True bindW_def tell_def)
  then show ?thesis
    using ok by (simp add: verify_endpoints_Nil checkChain_clean chain_reports_clean)
next
  case False
  then show ?thesis
    by (cases "checkRecord h r") (auto simp: verify_def bindW_def checkRecord_Nil [symmetric])
qed

text \<open>
  C22: What a verified release is. The verifier reports no failure exactly when the record is one
  of a known program under its permanent id, on devnet, held by a program-derived authority with
  a threshold of at least two out of enough addresses, naming a commit, a digest and a length;
  and every endpoint is devnet and holds an executable program of the upgradeable loader whose
  data account is the recorded one, carries the recorded authority, and after its header holds
  exactly the recorded program and zeros, with the recorded transactions on the ledger without
  an error.
\<close>

theorem deployment_verified:
  "snd (verify h r clients) = Inr [] \<longleftrightarrow> record_ok h r \<and> list_all (deployed_as_recorded h r) clients"
  by (rule verify_clean)

end
