(* ===== verification/Deployment_Evidence.thy ===== *)
theory Deployment_Evidence
  imports Deployed_Program
begin

text \<open>
  The canonical record of a deployment, collected from the chain and the rebuilt artifact
  (\<open>scripts/collect-deployment-evidence.mjs\<close>). The files of the build, the JSON parser and the
  clock are parameters, as are the host and the chain. A collected record is shown to be one the
  verifier accepts on the same chain.
\<close>

section \<open>The environment\<close>

text \<open>What \<open>main\<close> hands over: an optional variable that is not set is the empty text.\<close>

record collect_env =
  ev_PROGRAM :: string
  ev_RELEASE_COMMIT :: string
  ev_DEPLOY_SIGNATURE :: string
  ev_AUTHORITY_TRANSFER_SIGNATURE :: string
  ev_UPGRADE_AUTHORITY_MEMBERS :: string
  ev_UPGRADE_AUTHORITY_THRESHOLD :: string
  ev_SOURCE_WORKFLOW_RUN :: string
  ev_EVIDENCE_WORKFLOW_RUN :: string
  ev_EVIDENCE_RECOVERY_COMMIT :: string
  ev_RECOVERY_WORKFLOW_RUN :: string

definition required :: "(string \<Rightarrow> string option) \<Rightarrow> string \<Rightarrow> string result" where
  "required environment name =
     (case environment name of
        None \<Rightarrow> throw PlainError (name @ '' is not set'')
      | Some v \<Rightarrow> if v = [] then throw PlainError (name @ '' is not set'') else Inr v)"

definition optional :: "(string \<Rightarrow> string option) \<Rightarrow> string \<Rightarrow> string" where
  "optional environment name = (case environment name of None \<Rightarrow> [] | Some v \<Rightarrow> v)"

definition env_values :: "collect_env \<Rightarrow> string list" where
  "env_values e =
     [ev_PROGRAM e, ev_RELEASE_COMMIT e, ev_DEPLOY_SIGNATURE e, ev_AUTHORITY_TRANSFER_SIGNATURE e,
      ev_UPGRADE_AUTHORITY_MEMBERS e, ev_UPGRADE_AUTHORITY_THRESHOLD e, ev_SOURCE_WORKFLOW_RUN e,
      ev_EVIDENCE_WORKFLOW_RUN e, ev_EVIDENCE_RECOVERY_COMMIT e, ev_RECOVERY_WORKFLOW_RUN e]"

definition assertPublicData :: "string list \<Rightarrow> unit result" where
  "assertPublicData texts =
     (if list_ex (occurs ''['') texts
      then throw PlainError ''Refusing to run: an input looks like a keypair, not public data.''
      else Inr ())"

definition read_env :: "(string \<Rightarrow> string option) \<Rightarrow> collect_env result" where
  "read_env environment =
     bindR (required environment ''PPV_PROGRAM'') (\<lambda>program.
     bindR (required environment ''PPV_RELEASE_COMMIT'') (\<lambda>commit.
     bindR (required environment ''PPV_DEPLOY_SIGNATURE'') (\<lambda>deploy.
     bindR (required environment ''PPV_UPGRADE_AUTHORITY_MEMBERS'') (\<lambda>members.
     bindR (required environment ''PPV_UPGRADE_AUTHORITY_THRESHOLD'') (\<lambda>threshold.
     let e = \<lparr>ev_PROGRAM = program, ev_RELEASE_COMMIT = commit, ev_DEPLOY_SIGNATURE = deploy,
       ev_AUTHORITY_TRANSFER_SIGNATURE = optional environment ''PPV_AUTHORITY_TRANSFER_SIGNATURE'',
       ev_UPGRADE_AUTHORITY_MEMBERS = members, ev_UPGRADE_AUTHORITY_THRESHOLD = threshold,
       ev_SOURCE_WORKFLOW_RUN = optional environment ''PPV_SOURCE_WORKFLOW_RUN'',
       ev_EVIDENCE_WORKFLOW_RUN = optional environment ''PPV_EVIDENCE_WORKFLOW_RUN'',
       ev_EVIDENCE_RECOVERY_COMMIT = optional environment ''PPV_EVIDENCE_RECOVERY_COMMIT'',
       ev_RECOVERY_WORKFLOW_RUN = optional environment ''PPV_RECOVERY_WORKFLOW_RUN''\<rparr>
     in bindR (assertPublicData (env_values e)) (\<lambda>_. Inr e))))))"

section \<open>The checks\<close>

definition refuse_when :: "bool \<Rightarrow> string \<Rightarrow> unit result" where
  "refuse_when bad message = (if bad then throw PlainError message else Inr ())"

text \<open>The build output: the bytes of a file, and the parser of the interface description.\<close>

record build_files =
  bf_read :: "string \<Rightarrow> bytes result"
  bf_parse :: "bytes \<Rightarrow> json result"

definition json_member :: "json \<Rightarrow> string \<Rightarrow> json option result" where
  "json_member v name =
     (case v of
        J_object ms \<Rightarrow> Inr (map_of ms name)
      | J_null \<Rightarrow> throw TypeError (''Cannot read properties of null (reading '' @ [CHR 0x27] @ name @ [CHR 0x27] @ '')'')
      | _ \<Rightarrow> Inr None)"

definition env_members :: "string \<Rightarrow> string list" where
  "env_members s = filter (\<lambda>m. m \<noteq> []) (map js_trim (split_on '','' [] s))"

definition recovery_note :: string where
  "recovery_note = ''Evidence reconstructed from public chain state after the deployment run's evidence step failed. releaseCommit is the deployed source; recoveryCommit is the tooling that recovered the facts and built nothing that is deployed.''"

definition null_if_empty :: "string \<Rightarrow> json" where
  "null_if_empty s = (if s = [] then J_null else J_string s)"

definition recovery_of :: "collect_env \<Rightarrow> json" where
  "recovery_of e =
     (if ev_EVIDENCE_RECOVERY_COMMIT e = [] then J_null
      else J_object [(''recoveredAfterFailedRecording'', J_bool True),
        (''recoveryCommit'', J_string (ev_EVIDENCE_RECOVERY_COMMIT e)),
        (''recoveryWorkflowRun'', null_if_empty (ev_RECOVERY_WORKFLOW_RUN e)),
        (''note'', J_string recovery_note)])"

definition provenance_checks :: "collect_env \<Rightarrow> unit result" where
  "provenance_checks e =
     bindR (refuse_when (\<not> is_git_sha (ev_RELEASE_COMMIT e))
       (''PPV_RELEASE_COMMIT '' @ ev_RELEASE_COMMIT e @ '' is not a full 40-character git sha'')) (\<lambda>_.
     bindR (refuse_when (ev_EVIDENCE_RECOVERY_COMMIT e \<noteq> [] \<and> \<not> is_git_sha (ev_EVIDENCE_RECOVERY_COMMIT e))
       (''PPV_EVIDENCE_RECOVERY_COMMIT '' @ ev_EVIDENCE_RECOVERY_COMMIT e @ '' is not a full 40-character git sha'')) (\<lambda>_.
     refuse_when (ev_EVIDENCE_RECOVERY_COMMIT e \<noteq> [] \<and> ev_EVIDENCE_RECOVERY_COMMIT e = ev_RELEASE_COMMIT e)
       ''PPV_EVIDENCE_RECOVERY_COMMIT equals PPV_RELEASE_COMMIT. The recovery tooling did not produce the deployed program; recording it as the deployed source would falsify the release history.''))"

definition member_checks :: "host \<Rightarrow> collect_env \<Rightarrow> (int \<times> string list) result" where
  "member_checks h e =
     (let members = env_members (ev_UPGRADE_AUTHORITY_MEMBERS e); threshold = h_to_num h (ev_UPGRADE_AUTHORITY_THRESHOLD e);
          t = whole threshold
      in bindR (refuse_when (\<not> is_integer threshold \<or> t < MIN_SQUADS_THRESHOLD)
           (''PPV_UPGRADE_AUTHORITY_THRESHOLD is '' @ [CHR 0x27] @ ev_UPGRADE_AUTHORITY_THRESHOLD e @ [CHR 0x27]
             @ ''; policy requires at least '' @ dec_int MIN_SQUADS_THRESHOLD @ ''.'')) (\<lambda>_.
         bindR (refuse_when (int (length members) < t)
           (dec_nat (length members) @ '' authority members were given for a '' @ dec_int t @ ''-of-N authority'')) (\<lambda>_.
         bindR (mapR (\<lambda>m. refuse_when (\<not> script_isAddress m) (''authority member '' @ m @ '' is not an address'')) members) (\<lambda>_.
         bindR (refuse_when (card (set members) \<noteq> length members)
           (''authority members contain duplicates: '' @ dec_nat (length members) @ '' entries, ''
             @ dec_nat (card (set members)) @ '' distinct keys. A '' @ dec_int t @ ''-of-'' @ dec_nat (length members)
             @ '' whose members repeat does not require '' @ dec_int t @ '' holders.'')) (\<lambda>_.
         Inr (t, members))))))"

text \<open>The record of a signature: the fields the evidence takes from its status.\<close>

definition signature_row ::
    "host \<Rightarrow> chain_client \<Rightarrow> nat \<Rightarrow> string \<Rightarrow> string \<Rightarrow> (json \<times> json \<times> json) result" where
  "signature_row h client request key signature =
     (if signature = [] then Inr (J_null, J_null, J_null)
      else bindR (cc_statuses client request signature) (\<lambda>answer.
        case signatureStatus answer of
          None \<Rightarrow> throw PlainError (key @ '' signature '' @ signature @ '' is not in transaction history'')
        | Some s \<Rightarrow>
            if ss_err s \<noteq> Some J_null
            then throw PlainError (key @ '' signature '' @ signature @ '' is recorded with error '' @ err_text h (ss_err s))
            else Inr (J_string signature, J_number (Whole (ss_slot s)),
              J_string (case ss_level s of None \<Rightarrow> ''confirmed'' | Some level \<Rightarrow> level))))"

definition state_checks :: "string \<Rightarrow> string \<Rightarrow> string list \<Rightarrow> deployed_state \<Rightarrow> (string \<times> string) result" where
  "state_checks program programId members state =
     bindR (refuse_when (\<not> ds_exists state) (''no account at '' @ programId @ '': the program is not deployed'')) (\<lambda>_.
     bindR (refuse_when (\<not> ds_executable state) (programId @ '' exists but is not executable'')) (\<lambda>_.
     bindR (refuse_when (ds_owner state \<noteq> UPGRADEABLE_LOADER_ID)
       (programId @ '' is owned by '' @ ds_owner state @ '', not the BPF upgradeable loader'')) (\<lambda>_.
     case ds_programDataAddress state of
       None \<Rightarrow> throw PlainError (''could not resolve ProgramData for '' @ programId)
     | Some programData \<Rightarrow>
         bindR (refuse_when (ds_programDataOwner state \<noteq> Some UPGRADEABLE_LOADER_ID)
           (''ProgramData '' @ programData @ '' is owned by '' @ opt_text ''undefined'' (ds_programDataOwner state))) (\<lambda>_.
         case ds_upgradeAuthority state of
           None \<Rightarrow> throw PlainError (program @ '' is immutable: its upgrade authority has been revoked'')
         | Some authority \<Rightarrow>
             bindR (refuse_when (authority \<in> set members)
               (''SECURITY: the upgrade authority '' @ authority @ '' is listed as one of its own members'')) (\<lambda>_.
             bindR (isProgramDerived authority) (\<lambda>vault.
             bindR (refuse_when (\<not> vault)
               (''SECURITY: live upgrade authority '' @ authority
                 @ '' is on the ed25519 curve, so it is a signer wallet rather than a multisig vault'')) (\<lambda>_.
             Inr (programData, authority))))))))"

definition REQUIRED_TOOLCHAIN :: "(string \<times> json) list" where
  "REQUIRED_TOOLCHAIN =
     [(''anchor'', J_string ''0.30.1''), (''solana'', J_string ''1.18.17''), (''rustHost'', J_string ''1.85.1''),
      (''rustAnchorBuild'', J_string ''1.79.0''), (''idlNightly'', J_string ''nightly-2024-06-15''),
      (''nodeMajor'', J_number (Whole 22))]"

definition toolchain_of :: json where
  "toolchain_of = J_object (filter (\<lambda>(k, _). k \<in> {''anchor'', ''solana'', ''rustHost''}) REQUIRED_TOOLCHAIN
     @ [(''rustSbf'', J_string ''1.75.0'')])"

definition or_null :: "('a \<Rightarrow> json) \<Rightarrow> 'a option \<Rightarrow> json" where
  "or_null f v = (case v of None \<Rightarrow> J_null | Some x \<Rightarrow> f x)"

definition json_nat :: "nat \<Rightarrow> json" where "json_nat n = J_number (Whole (int n))"

definition evidence_record ::
    "host \<Rightarrow> chain_client \<Rightarrow> string \<Rightarrow> collect_env \<Rightarrow> string \<Rightarrow> string \<Rightarrow> deployed_state \<Rightarrow> string \<Rightarrow> string \<Rightarrow> int
       \<Rightarrow> string list \<Rightarrow> bytes \<Rightarrow> bytes \<Rightarrow> json \<times> json \<times> json \<Rightarrow> json \<times> json \<times> json \<Rightarrow> json_record" where
  "evidence_record h client now e programId genesis state programData authority threshold members idl binary deployment transfer =
     (let builtHash = ''sha256:'' @ hex (h_sha h binary)
      in [(''cluster'', J_string ''devnet''), (''genesisHash'', J_string genesis),
          (''program'', J_string (ev_PROGRAM e)), (''programId'', J_string programId),
          (''programDataAddress'', J_string programData), (''programOwner'', J_string (ds_owner state)),
          (''programDataOwner'', or_null J_string (ds_programDataOwner state)),
          (''programExecutable'', J_bool (ds_executable state)), (''releaseCommit'', J_string (ev_RELEASE_COMMIT e)),
          (''deploymentSignature'', fst deployment), (''deploymentSlot'', fst (snd deployment)),
          (''deploymentStatus'', snd (snd deployment)),
          (''lastDeploySlot'', or_null (\<lambda>n. J_number (Whole n)) (ds_lastDeploySlot state)),
          (''authorityTransferSignature'', fst transfer), (''authorityTransferSlot'', fst (snd transfer)),
          (''authorityTransferStatus'', snd (snd transfer)),
          (''upgradeAuthority'', J_string authority), (''upgradeAuthorityKind'', J_string ''squads-multisig''),
          (''upgradeAuthorityThreshold'', J_number (Whole threshold)),
          (''upgradeAuthorityMembers'', J_array (map J_string members)),
          (''binaryLength'', json_nat (length binary)), (''binaryHash'', J_string builtHash),
          (''builtBinaryHash'', J_string builtHash),
          (''onChainBinaryHash'', J_string (''sha256:'' @ opt_text ''undefined'' (ds_deployedBinaryHash state))),
          (''binaryHashesMatch'', J_bool True),
          (''programDataLength'', or_null json_nat (ds_programDataLength state)),
          (''programDataPaddingLength'', or_null json_nat (ds_paddingLength state)),
          (''idlAddress'', J_string programId), (''idlHash'', J_string (''sha256:'' @ hex (h_sha h idl))),
          (''toolchain'', toolchain_of), (''verificationMethod'', J_string ''raw-solana-json-rpc-read-only''),
          (''verificationRpc'', J_string (cc_endpoint client)), (''verificationTimestamp'', J_string now),
          (''sourceWorkflowRun'', null_if_empty (ev_SOURCE_WORKFLOW_RUN e)),
          (''evidenceWorkflowRun'', null_if_empty (ev_EVIDENCE_WORKFLOW_RUN e)),
          (''evidenceRecovery'', recovery_of e)])"

text \<open>The requests are numbered as in a verification: genesis 0, accounts 1 and 2, statuses from 3.\<close>

definition collect ::
    "host \<Rightarrow> chain_client \<Rightarrow> build_files \<Rightarrow> string \<Rightarrow> string \<Rightarrow> collect_env \<Rightarrow> json_record result" where
  "collect h client files buildDir now e =
     (let program = ev_PROGRAM e
      in case table_get PERMANENT_PROGRAM_IDS program of
           None \<Rightarrow> throw PlainError (program @ '' is not a known PPV program'')
         | Some (programId, own) \<Rightarrow>
             bindR (provenance_checks e) (\<lambda>_.
             bindR (member_checks h e) (\<lambda>(threshold, members).
             bindR (bf_read files (buildDir @ ''/idl/'' @ program @ ''.json'')) (\<lambda>idl.
             bindR (bf_read files (buildDir @ ''/deploy/'' @ program @ ''.so'')) (\<lambda>binary.
             bindR (bindR (bf_parse files idl) (\<lambda>v. json_member v ''address'')) (\<lambda>idlAddress.
             bindR (refuse_when (\<not> is_entry (programId, own) idlAddress)
               (''Built '' @ program @ '' IDL names '' @ value_text h idlAddress @ '', permanent id is '' @ programId)) (\<lambda>_.
             bindR (cc_genesis client 0) (\<lambda>genesis.
             bindR (refuse_when (genesis = MAINNET_GENESIS)
               (cc_endpoint client @ '' is mainnet-beta, which is not an authorized PPV cluster'')) (\<lambda>_.
             bindR (refuse_when (genesis \<noteq> DEVNET_GENESIS)
               (cc_endpoint client @ '' reports genesis '' @ genesis @ '', expected devnet '' @ DEVNET_GENESIS)) (\<lambda>_.
             bindR (readDeployedProgram h client 1 programId (Some (length binary))) (\<lambda>state.
             bindR (state_checks program programId members state) (\<lambda>(programData, authority).
             let builtHash = hex (h_sha h binary)
             in bindR (refuse_when (Some builtHash \<noteq> ds_deployedBinaryHash state)
               (''BINARY MISMATCH: rebuild of '' @ ev_RELEASE_COMMIT e @ '' is sha256:'' @ builtHash
                 @ '', the live program is sha256:'' @ opt_text ''undefined'' (ds_deployedBinaryHash state)
                 @ ''. Do not redeploy; investigate provenance.'')) (\<lambda>_.
             bindR (signature_row h client 3 ''deployment'' (ev_DEPLOY_SIGNATURE e)) (\<lambda>deployment.
             bindR (signature_row h client (if ev_DEPLOY_SIGNATURE e = [] then 3 else 4) ''authorityTransfer''
               (ev_AUTHORITY_TRANSFER_SIGNATURE e)) (\<lambda>transfer.
             Inr (evidence_record h client now e programId genesis state programData authority threshold members
               idl binary deployment transfer))))))))))))))))"

definition collect_from ::
    "host \<Rightarrow> chain_client \<Rightarrow> build_files \<Rightarrow> (string \<Rightarrow> string option) \<Rightarrow> string \<Rightarrow> json_record result" where
  "collect_from h client files environment now =
     bindR (read_env environment) (\<lambda>e.
       collect h client files (let d = optional environment ''PPV_BUILD_DIR'' in if d = [] then ''target'' else d) now e)"

section \<open>A collected record verifies\<close>

lemma refuse_when_Inr [simp]: "refuse_when bad m = Inr u \<longleftrightarrow> \<not> bad"
  by (simp add: refuse_when_def)

lemma table_get_own: "table_get t k = Some (v, own) \<Longrightarrow> is_entry (v, own) x \<Longrightarrow> map_of t k = Some v"
  by (auto simp: table_get_def is_entry_def split: option.splits if_splits)

lemma member_checks_Inr:
  assumes "member_checks h e = Inr (t, members)"
  shows "t \<ge> 2 \<and> t \<le> int (length members) \<and> list_all script_isAddress members \<and> distinct members"
  using assms card_distinct [of members]
  by (auto simp: member_checks_def Let_def bindR_eq_Inr MIN_SQUADS_THRESHOLD_def mapR_Inr_iff list_all_iff
      list_all2_conv_all_nth in_set_conv_nth)

lemma signature_row_Inr:
  assumes "signature_row h client n key s = Inr row" and "s \<noteq> []"
  shows "fst row = J_string s \<and> (\<exists>x more. cc_statuses client n s = Inr (Some (Some x # more)) \<and> ss_err x = Some J_null)"
proof -
  obtain answer where a: "cc_statuses client n s = Inr answer"
    using assms by (auto simp: signature_row_def elim: bindR_InrE)
  obtain x where "signatureStatus answer = Some x" "ss_err x = Some J_null" "fst row = J_string s"
    using assms a by (auto simp: signature_row_def split: option.splits if_splits)
  with a show ?thesis by (auto simp: signatureStatus_Some)
qed

lemma signature_row_Nil: "signature_row h client n key [] = Inr row \<Longrightarrow> row = (J_null, J_null, J_null)"
  by (simp add: signature_row_def)

lemma state_checks_Inr:
  assumes "state_checks program programId members state = Inr (programData, authority)"
  shows "ds_exists state \<and> ds_executable state \<and> ds_owner state = UPGRADEABLE_LOADER_ID
    \<and> ds_programDataAddress state = Some programData \<and> ds_programDataOwner state = Some UPGRADEABLE_LOADER_ID
    \<and> ds_upgradeAuthority state = Some authority \<and> authority \<notin> set members \<and> isProgramDerived authority = Inr True"
  using assms by (auto simp: state_checks_def bindR_eq_Inr split: option.splits)

lemma sha256_text: "length (d :: bytes) = 32 \<Longrightarrow> is_sha256_text (''sha256:'' @ hex d)"
  using hex_chars [of d] by (simp add: is_sha256_text_def list_all_iff)

lemma collect_Inr:
  assumes "collect h client files dir now e = Inr r"
  obtains programId threshold members idl binary state programData authority deployment transfer where
    "map_of PERMANENT_PROGRAM_IDS (ev_PROGRAM e) = Some programId" "provenance_checks e = Inr ()"
    "member_checks h e = Inr (threshold, members)"
    "bf_read files (dir @ ''/deploy/'' @ ev_PROGRAM e @ ''.so'') = Inr binary"
    "cc_genesis client 0 = Inr DEVNET_GENESIS"
    "readDeployedProgram h client 1 programId (Some (length binary)) = Inr state"
    "state_checks (ev_PROGRAM e) programId members state = Inr (programData, authority)"
    "ds_deployedBinaryHash state = Some (hex (h_sha h binary))"
    "signature_row h client 3 ''deployment'' (ev_DEPLOY_SIGNATURE e) = Inr deployment"
    "signature_row h client (if ev_DEPLOY_SIGNATURE e = [] then 3 else 4) ''authorityTransfer''
       (ev_AUTHORITY_TRANSFER_SIGNATURE e) = Inr transfer"
    "r = evidence_record h client now e programId DEVNET_GENESIS state programData authority threshold members
       idl binary deployment transfer"
proof -
  obtain programId own where id: "table_get PERMANENT_PROGRAM_IDS (ev_PROGRAM e) = Some (programId, own)"
    using assms by (cases "table_get PERMANENT_PROGRAM_IDS (ev_PROGRAM e)") (auto simp: collect_def)
  note run = assms [unfolded collect_def Let_def id option.case prod.case]
  from run obtain checked threshold members idl binary idlAddress genesis state programData authority deployment transfer where
    steps: "provenance_checks e = Inr checked" "member_checks h e = Inr (threshold, members)"
      "bf_read files (dir @ ''/deploy/'' @ ev_PROGRAM e @ ''.so'') = Inr binary"
      "is_entry (programId, own) idlAddress" "cc_genesis client 0 = Inr genesis" "genesis = DEVNET_GENESIS"
      "readDeployedProgram h client 1 programId (Some (length binary)) = Inr state"
      "state_checks (ev_PROGRAM e) programId members state = Inr (programData, authority)"
      "Some (hex (h_sha h binary)) = ds_deployedBinaryHash state"
      "signature_row h client 3 ''deployment'' (ev_DEPLOY_SIGNATURE e) = Inr deployment"
      "signature_row h client (if ev_DEPLOY_SIGNATURE e = [] then 3 else 4) ''authorityTransfer''
         (ev_AUTHORITY_TRANSFER_SIGNATURE e) = Inr transfer"
      "evidence_record h client now e programId genesis state programData authority threshold members
         idl binary deployment transfer = r"
    by (elim bindR_pairE bindR_InrE) (unfold refuse_when_Inr not_not sum.inject, blast)
  show thesis
    by (rule that [of programId threshold members binary state programData authority deployment transfer idl])
      (use steps table_get_own [OF id steps(4)] in \<open>simp_all\<close>)
qed

lemma evidence_fields:
  fixes h client now e programId genesis state programData authority threshold members idl binary deployment transfer
  defines "r \<equiv> evidence_record h client now e programId genesis state programData authority threshold members
    idl binary deployment transfer"
  shows "map_of r ''cluster'' = Some (J_string ''devnet'')" "map_of r ''genesisHash'' = Some (J_string genesis)"
    "map_of r ''program'' = Some (J_string (ev_PROGRAM e))" "map_of r ''programId'' = Some (J_string programId)"
    "map_of r ''programDataAddress'' = Some (J_string programData)"
    "map_of r ''releaseCommit'' = Some (J_string (ev_RELEASE_COMMIT e))"
    "map_of r ''deploymentSignature'' = Some (fst deployment)"
    "map_of r ''authorityTransferSignature'' = Some (fst transfer)"
    "map_of r ''upgradeAuthority'' = Some (J_string authority)"
    "map_of r ''upgradeAuthorityThreshold'' = Some (J_number (Whole threshold))"
    "map_of r ''upgradeAuthorityMembers'' = Some (J_array (map J_string members))"
    "map_of r ''binaryLength'' = Some (J_number (Whole (int (length binary))))"
    "map_of r ''binaryHash'' = Some (J_string (''sha256:'' @ hex (h_sha h binary)))"
    "map_of r ''evidenceRecovery'' = Some (recovery_of e)"
  unfolding r_def evidence_record_def Let_def json_nat_def by simp_all

lemma program_data_unique:
  assumes "program_data bs a b" and "program_data bs a' b'" and "length b = length b'"
  shows "b = b'"
  using assms by (auto simp: program_data_def)

lemma collected_record_ok:
  assumes "collect h client files dir now e = Inr r" and "ev_DEPLOY_SIGNATURE e \<noteq> []"
    and "\<forall>bs. length (h_sha h bs) = 32"
    and "bf_read files (dir @ ''/deploy/'' @ ev_PROGRAM e @ ''.so'') \<noteq> Inr []"
  shows "record_ok h r \<and> deployed_as_recorded h r client"
proof
  obtain programId threshold members idl binary state programData authority deployment transfer where
    run: "map_of PERMANENT_PROGRAM_IDS (ev_PROGRAM e) = Some programId" "provenance_checks e = Inr ()"
    "member_checks h e = Inr (threshold, members)"
    "bf_read files (dir @ ''/deploy/'' @ ev_PROGRAM e @ ''.so'') = Inr binary"
    "cc_genesis client 0 = Inr DEVNET_GENESIS"
    "readDeployedProgram h client 1 programId (Some (length binary)) = Inr state"
    "state_checks (ev_PROGRAM e) programId members state = Inr (programData, authority)"
    "ds_deployedBinaryHash state = Some (hex (h_sha h binary))"
    "signature_row h client 3 ''deployment'' (ev_DEPLOY_SIGNATURE e) = Inr deployment"
    "signature_row h client (if ev_DEPLOY_SIGNATURE e = [] then 3 else 4) ''authorityTransfer''
       (ev_AUTHORITY_TRANSFER_SIGNATURE e) = Inr transfer"
    and r: "r = evidence_record h client now e programId DEVNET_GENESIS state programData authority threshold members
       idl binary deployment transfer"
    using collect_Inr [OF assms(1)] by metis
  note fields = evidence_fields [of h client now e programId DEVNET_GENESIS state programData authority threshold members
       idl binary deployment transfer, folded r]
  note live = state_checks_Inr [OF run(7)]
  note who = member_checks_Inr [OF run(3)]
  have commit: "is_git_sha (ev_RELEASE_COMMIT e)" using run(2) by (auto simp: provenance_checks_def bindR_eq_Inr)
  have deploy: "fst deployment = J_string (ev_DEPLOY_SIGNATURE e)"
      "\<exists>x more. cc_statuses client 3 (ev_DEPLOY_SIGNATURE e) = Inr (Some (Some x # more)) \<and> ss_err x = Some J_null"
    using signature_row_Inr [OF run(9) assms(2)] by blast+
  have size: "length binary > 0" using run(4) assms(4) by auto
  have "\<exists>state. readDeployedProgram h client 1 programId (Some (length binary)) = Inr state \<and> ds_exists state \<and> ds_executable state
      \<and> ds_owner state = UPGRADEABLE_LOADER_ID \<and> ds_programDataAddress state = Some programData
      \<and> ds_programDataOwner state = Some UPGRADEABLE_LOADER_ID \<and> ds_upgradeAuthority state = Some authority
      \<and> ds_deployedBinaryHash state = Some (hex (h_sha h binary))"
    using run(6,8) live by blast
  then obtain p d b where chain: "cc_account client 1 programId = Inr (Some p)" "ai_executable p"
      "ai_owner p = UPGRADEABLE_LOADER_ID" "program_account (h_base64 h (ai_data p)) programData"
      "cc_account client 2 programData = Inr (Some d)" "ai_owner d = UPGRADEABLE_LOADER_ID"
      "program_data (h_base64 h (ai_data d)) authority b" "length b = length binary"
      "hex (h_sha h binary) = hex (h_sha h b)"
    unfolding read_loader_program one_add_one by blast
  obtain raw where raw: "length raw = 32" "programData = encodeBase58 raw" using chain(4) by (auto simp: program_account_def)
  have "programData \<noteq> []"
    using raw encodeBase58_length_32 [of raw] by auto
  moreover have "list_all (\<lambda>m. json_address (Some m)) (map J_string members)"
    using who by (simp add: list_all_iff json_address_def)
  moreover have "ev_RELEASE_COMMIT e \<noteq> []" using commit by (auto simp: is_git_sha_def)
  moreover have "is_sha256_text (''sha256:'' @ hex (h_sha h binary))" using sha256_text assms(3) by blast
  ultimately show "record_ok h r"
    unfolding record_ok_def fields truthy_field_def list.pred_inject option.case deploy value_text_def json_text.simps truthy_json.simps
    using run(1) live who commit size assms(2)
    by - (rule exI [of _ programId], rule exI [of _ authority], rule exI [of _ threshold],
        rule exI [of _ "map J_string members"], rule exI [of _ "int (length binary)"], intro conjI; simp)
  have later: "signatures_succeeded h client 4 [Some (fst transfer)]"
  proof (cases "ev_AUTHORITY_TRANSFER_SIGNATURE e = []")
    case True
    then show ?thesis using run(10) by (auto dest: signature_row_Nil)
  next
    case False
    then have "fst transfer = J_string (ev_AUTHORITY_TRANSFER_SIGNATURE e)"
      "\<exists>x more. cc_statuses client 4 (ev_AUTHORITY_TRANSFER_SIGNATURE e) = Inr (Some (Some x # more)) \<and> ss_err x = Some J_null"
      using signature_row_Inr [OF run(10) False] assms(2) by simp_all
    then show ?thesis by (simp add: value_text_def)
  qed
  have "signatures_succeeded h client 3 [Some (fst deployment), Some (fst transfer)]"
    using deploy later assms(2) by (simp add: value_text_def)
  then show "deployed_as_recorded h r client"
    unfolding deployed_as_recorded_def fields using chain run(5)
    by - (rule exI [of _ programId], rule exI [of _ programData], rule exI [of _ authority], rule exI [of _ b],
        rule exI [of _ p], rule exI [of _ d], intro conjI; simp)
qed

lemma required_Inr [simp]: "required environment name = Inr v \<longleftrightarrow> environment name = Some v \<and> v \<noteq> []"
  by (auto simp: required_def split: option.splits)

lemma read_env_Inr:
  assumes "read_env environment = Inr e"
  shows "environment ''PPV_RELEASE_COMMIT'' = Some (ev_RELEASE_COMMIT e) \<and> ev_DEPLOY_SIGNATURE e \<noteq> []
    \<and> ev_EVIDENCE_RECOVERY_COMMIT e = optional environment ''PPV_EVIDENCE_RECOVERY_COMMIT''"
  using assms by (auto simp: read_env_def bindR_eq_Inr Let_def)

text \<open>
  C23: The collector and the verifier agree. Whatever record is collected, the verifier finds
  nothing wrong with it when the chain answers it as it answered the collector; the commit it
  names as the source is the released one, and never the commit of recovery tooling. The hash
  has 32 bytes and no file of the build is empty.
\<close>

theorem collected_record_verifies:
  assumes "collect_from h client files environment now = Inr r"
    and "\<forall>bs. length (h_sha h bs) = 32" and "\<forall>path. bf_read files path \<noteq> Inr []"
  shows "snd (verify h r [client]) = Inr []
    \<and> map_of r ''releaseCommit'' = map_option J_string (environment ''PPV_RELEASE_COMMIT'')
    \<and> environment ''PPV_EVIDENCE_RECOVERY_COMMIT'' \<noteq> environment ''PPV_RELEASE_COMMIT''"
proof -
  obtain e dir where e: "read_env environment = Inr e" and c: "collect h client files dir now e = Inr r"
    using assms(1) by (auto simp: collect_from_def bindR_eq_Inr Let_def)
  note env = read_env_Inr [OF e]
  have "record_ok h r \<and> deployed_as_recorded h r client"
    using collected_record_ok [OF c] env assms(2,3) by blast
  moreover have "map_of r ''releaseCommit'' = Some (J_string (ev_RELEASE_COMMIT e))"
    by (rule collect_Inr [OF c]) (simp only: evidence_fields)
  moreover have "provenance_checks e = Inr ()" by (rule collect_Inr [OF c])
  moreover have "\<not> is_git_sha []" by (simp add: is_git_sha_def)
  ultimately show ?thesis
    using env by (auto simp: verify_clean provenance_checks_def bindR_eq_Inr optional_def split: option.splits)
qed

section \<open>A collection\<close>

definition sample_members :: string where
  "sample_members = replicate 32 CHR ''1'' @ '','' @ replicate 31 CHR ''1'' @ ''2''"

definition sample_host :: host where
  "sample_host = \<lparr>h_sha = (\<lambda>_. replicate 32 0),
     h_base64 = (\<lambda>s. if s = ''P'' then [2, 0, 0, 0] @ replicate 32 0
       else [3, 0, 0, 0] @ replicate 8 0 @ [1] @ y_one 128 @ [7, 0]),
     h_num_text = (\<lambda>_. []), h_to_num = (\<lambda>_. Whole 2)\<rparr>"

definition sample_chain :: chain_client where
  "sample_chain = \<lparr>cc_endpoint = ''http://devnet'', cc_genesis = (\<lambda>_. Inr DEVNET_GENESIS),
     cc_account = (\<lambda>n _. Inr (Some \<lparr>ai_owner = UPGRADEABLE_LOADER_ID, ai_executable = True,
       ai_data = (if n = 1 then ''P'' else ''D''), ai_lamports = 0\<rparr>)),
     cc_statuses = (\<lambda>_ _. Inr (Some [Some \<lparr>ss_level = Some ''finalized'', ss_unconfirmed = False,
       ss_err = Some J_null, ss_slot = 5\<rparr>]))\<rparr>"

definition sample_files :: build_files where
  "sample_files = \<lparr>bf_read = (\<lambda>_. Inr [7]),
     bf_parse = (\<lambda>_. Inr (J_object [(''address'', J_string ''9cWE41ZDNQChvFrRoVuPQDeoVLg46ACTiZRCZaBZzfwU'')]))\<rparr>"

definition sample_environment :: "string \<Rightarrow> string option" where
  "sample_environment = map_of [(''PPV_PROGRAM'', ''ppv_core''), (''PPV_RELEASE_COMMIT'', replicate 40 CHR ''a''),
     (''PPV_DEPLOY_SIGNATURE'', ''s''), (''PPV_UPGRADE_AUTHORITY_MEMBERS'', sample_members),
     (''PPV_UPGRADE_AUTHORITY_THRESHOLD'', ''2'')]"

lemma sample_split: "env_members sample_members = [replicate 32 CHR ''1'', replicate 31 CHR ''1'' @ ''2'']"
  by code_simp

lemma sample_addresses:
  "script_isAddress (replicate 32 CHR ''1'')" "script_isAddress (replicate 31 CHR ''1'' @ ''2'')"
  "script_decodeBase58 (replicate 32 CHR ''1'') \<noteq> Inr (y_one 128)"
  "script_decodeBase58 (replicate 31 CHR ''1'' @ ''2'') \<noteq> Inr (y_one 128)"
  by code_simp+

lemma sample_distinct: "replicate 32 CHR ''1'' \<noteq> replicate 31 CHR ''1'' @ ''2''"
  by code_simp

lemma sample_vault:
  "encodeBase58 (y_one 128) \<notin> {replicate 32 CHR ''1'', replicate 31 CHR ''1'' @ ''2''}"
  "isProgramDerived (encodeBase58 (y_one 128)) = Inr True"
proof -
  show "encodeBase58 (y_one 128) \<notin> {replicate 32 CHR ''1'', replicate 31 CHR ''1'' @ ''2''}"
    using sample_addresses(3,4) script_decode_encode [of "y_one 128"] by (metis insertE emptyE)
  have "script_isAddress (encodeBase58 (y_one 128))" unfolding script_isAddress_iff by (intro exI conjI) (rule length_y_one, rule refl)
  then show "isProgramDerived (encodeBase58 (y_one 128)) = Inr True"
    by (simp add: isProgramDerived_def script_curve_eq y_one_off_curve)
qed

lemma sample_public: "\<not> list_ex (occurs ''['') [sample_members, replicate 40 CHR ''a'', ''ppv_core'', ''s'', ''2'', []]"
  by code_simp

lemma sample_env: "read_env sample_environment = Inr \<lparr>ev_PROGRAM = ''ppv_core'', ev_RELEASE_COMMIT = replicate 40 CHR ''a'',
   ev_DEPLOY_SIGNATURE = ''s'', ev_AUTHORITY_TRANSFER_SIGNATURE = [], ev_UPGRADE_AUTHORITY_MEMBERS = sample_members,
   ev_UPGRADE_AUTHORITY_THRESHOLD = ''2'', ev_SOURCE_WORKFLOW_RUN = [], ev_EVIDENCE_WORKFLOW_RUN = [],
   ev_EVIDENCE_RECOVERY_COMMIT = [], ev_RECOVERY_WORKFLOW_RUN = []\<rparr>"
  by code_simp

lemma sample_program:
  "table_get PERMANENT_PROGRAM_IDS ''ppv_core'' = Some (''9cWE41ZDNQChvFrRoVuPQDeoVLg46ACTiZRCZaBZzfwU'', True)"
  by (simp add: table_get_def PERMANENT_PROGRAM_IDS_def)

lemma sample_read:
  "\<exists>state. readDeployedProgram sample_host sample_chain 1 programId (Some 1) = Inr state \<and> ds_exists state
     \<and> ds_executable state \<and> ds_owner state = UPGRADEABLE_LOADER_ID
     \<and> ds_programDataAddress state = Some (encodeBase58 (replicate 32 0))
     \<and> ds_programDataOwner state = Some UPGRADEABLE_LOADER_ID
     \<and> ds_upgradeAuthority state = Some (encodeBase58 (y_one 128))
     \<and> ds_deployedBinaryHash state = Some (hex (replicate 32 0))"
proof -
  have bytes: "h_base64 sample_host ''P'' = [2, 0, 0, 0] @ replicate 32 0"
    "h_base64 sample_host ''D'' = [3, 0, 0, 0] @ replicate 8 0 @ [1] @ y_one 128 @ [7] @ replicate 1 0"
    by (simp_all add: sample_host_def)
  have "program_account (h_base64 sample_host ''P'') (encodeBase58 (replicate 32 0))"
    unfolding bytes program_account_def by (intro exI [of _ "replicate 32 0"] exI [of _ "[]"]) simp
  moreover have "program_data (h_base64 sample_host ''D'') (encodeBase58 (y_one 128)) [7]"
    unfolding bytes program_data_def by (intro exI conjI) (rule length_replicate, rule length_y_one, rule refl, rule refl)
  moreover define p where "p = \<lparr>ai_owner = UPGRADEABLE_LOADER_ID, ai_executable = True, ai_data = ''P'', ai_lamports = 0\<rparr>"
  moreover define d where "d = p\<lparr>ai_data := ''D''\<rparr>"
  moreover have "cc_account sample_chain 1 programId = Inr (Some p)"
    "cc_account sample_chain (1 + 1) (encodeBase58 (replicate 32 0)) = Inr (Some d)"
    by (simp_all add: sample_chain_def p_def d_def)
  moreover have "h_sha sample_host [7] = replicate 32 0" by (simp add: sample_host_def)
  ultimately show ?thesis
    unfolding read_loader_program
    by - (rule exI [of _ p], rule exI [of _ d], rule exI [of _ "[7]"], intro conjI; simp)
qed

lemma sample_members_ok:
  "ev_UPGRADE_AUTHORITY_MEMBERS e = sample_members \<Longrightarrow> member_checks sample_host e
     = Inr (2, [replicate 32 CHR ''1'', replicate 31 CHR ''1'' @ ''2''])"
  unfolding member_checks_def Let_def
  using sample_split sample_addresses sample_distinct
  by (simp add: sample_host_def refuse_when_def MIN_SQUADS_THRESHOLD_def)

lemma sample_collected: "\<exists>r. collect_from sample_host sample_chain sample_files sample_environment ''now'' = Inr r"
proof -
  obtain state where state: "readDeployedProgram sample_host sample_chain 1 ''9cWE41ZDNQChvFrRoVuPQDeoVLg46ACTiZRCZaBZzfwU'' (Some 1) = Inr state"
      "ds_exists state" "ds_executable state" "ds_owner state = UPGRADEABLE_LOADER_ID"
      "ds_programDataAddress state = Some (encodeBase58 (replicate 32 0))"
      "ds_programDataOwner state = Some UPGRADEABLE_LOADER_ID"
      "ds_upgradeAuthority state = Some (encodeBase58 (y_one 128))"
      "ds_deployedBinaryHash state = Some (hex (replicate 32 0))"
    using sample_read by blast
  have checked: "state_checks program id [replicate 32 CHR ''1'', replicate 31 CHR ''1'' @ ''2''] state
      = Inr (encodeBase58 (replicate 32 0), encodeBase58 (y_one 128))" for program id
    using state sample_vault by (simp add: state_checks_def refuse_when_def)
  have sha: "is_git_sha (replicate 40 CHR ''a'')" by code_simp
  have build: "bf_read sample_files path = Inr [7]"
    "bindR (bf_parse sample_files [7]) (\<lambda>v. json_member v ''address'')
       = Inr (Some (J_string ''9cWE41ZDNQChvFrRoVuPQDeoVLg46ACTiZRCZaBZzfwU''))" for path
    by (simp_all add: sample_files_def json_member_def)
  have chain: "cc_genesis sample_chain 0 = Inr DEVNET_GENESIS" by (simp add: sample_chain_def)
  have signed: "\<exists>row. signature_row sample_host sample_chain n key s = Inr row" for n key s
    by (simp add: signature_row_def sample_chain_def signatureStatus_def)
  obtain deployment transfer where rows: "signature_row sample_host sample_chain 3 ''deployment'' ''s'' = Inr deployment"
      "signature_row sample_host sample_chain 4 ''authorityTransfer'' [] = Inr transfer"
    using signed by metis
  have digest: "h_sha sample_host [7] = replicate 32 0" by (simp add: sample_host_def)
  show ?thesis
    unfolding collect_from_def sample_env bindR_Inr collect_def Let_def collect_env.simps sample_program
      option.case prod.case build chain
    by (simp add: provenance_checks_def sample_members_ok refuse_when_def sha build is_entry_def chain genesis_differ state(1) [unfolded One_nat_def]
        checked digest state(8) rows)
qed

theorem collected_record_verifies_witness:
  "\<exists>r. collect_from sample_host sample_chain sample_files sample_environment ''now'' = Inr r
     \<and> snd (verify sample_host r [sample_chain]) = Inr []"
proof -
  obtain r where r: "collect_from sample_host sample_chain sample_files sample_environment ''now'' = Inr r"
    using sample_collected by blast
  have "\<forall>bs. length (h_sha sample_host bs) = 32" "\<forall>path. bf_read sample_files path \<noteq> Inr []"
    by (simp_all add: sample_host_def sample_files_def)
  with r show ?thesis
    using collected_record_verifies [OF r] by blast
qed

end
