(* ===== verification/Governance.thy ===== *)
theory Governance
  imports Deployed_Program Release_Approval
begin

text \<open>
  The policy a custody multisig is held to (\<open>scripts/verify-custody-governance.mjs\<close>): the checks
  that need no network, the live decode, and the command that joins them. What is written to the
  terminal is part of the result, as notes in the order they are written, blank lines left out.
\<close>

section \<open>The policy\<close>

definition NON_CUSTODY_VAULT :: string where
  "NON_CUSTODY_VAULT = ''B6tcsTrMCKTZV5vi3rRCnA3FMPeeWACSHuuTSz5XQgnX''"

definition NON_CUSTODY_MEMBERS :: "string list" where
  "NON_CUSTODY_MEMBERS =
     [''58kuGbxpvaamvYE44WYkyipBB6FVKt2qT9u3vAKtyKYV'',
      ''2FFVcm9xJmUHG6zfo15ktzuGQTXACPG42iquGHe6faTN'',
      ''BJmFM4k7Q32CiCYSdoYkAhXdD5Sk3BegMh2cbEAsgSwJ'']"

definition MAX_APPROVED_SHARED_SIGNERS :: nat where "MAX_APPROVED_SHARED_SIGNERS = 1"

text \<open>A value on the command line: a switch, a text, or \<open>undefined\<close> behind the last word.\<close>

datatype arg = A_true | A_text string | A_undefined

type_synonym args = "string \<Rightarrow> arg option"

fun parse_args :: "args \<Rightarrow> string list \<Rightarrow> args" where
  "parse_args args [] = args"
| "parse_args args (token # tokens) =
     (if \<not> starts_with ''--'' token then parse_args args tokens
      else if drop 2 token = ''allow-shared-signers'' then parse_args (args(''allowSharedSigners'' \<mapsto> A_true)) tokens
      else if drop 2 token = ''live-squads'' then parse_args (args(''liveSquads'' \<mapsto> A_true)) tokens
      else case tokens of
          [] \<Rightarrow> args(drop 2 token \<mapsto> A_undefined)
        | v # tokens' \<Rightarrow> parse_args (args(drop 2 token \<mapsto> A_text v)) tokens')"

definition parseArgs :: "string list \<Rightarrow> args" where "parseArgs argv = parse_args Map.empty argv"

definition arg_text :: "args \<Rightarrow> string \<Rightarrow> string option" where
  "arg_text args name = (case args name of Some (A_text s) \<Rightarrow> Some s | _ \<Rightarrow> None)"

definition arg_bool :: "args \<Rightarrow> string \<Rightarrow> bool" where
  "arg_bool args name = (case args name of Some A_true \<Rightarrow> True | Some (A_text s) \<Rightarrow> s \<noteq> [] | _ \<Rightarrow> False)"

record policy_config =
  pc_multisig :: "string option"
  pc_vault :: "string option"
  pc_threshold :: js_number
  pc_members :: "string list"
  pc_nonCustodyVault :: string
  pc_nonCustodyMembers :: "string list"
  pc_allowSharedSigners :: bool
  pc_liveSquads :: bool
  pc_vaultIndex :: js_number
  pc_squadsProgramId :: string

definition number_text :: "host \<Rightarrow> js_number \<Rightarrow> string" where
  "number_text h n = json_text h (J_number n)"

definition address_failure :: "string \<Rightarrow> string option \<Rightarrow> string list" where
  "address_failure label address =
     (case address of
        None \<Rightarrow> [''no '' @ label @ '' address was given'']
      | Some a \<Rightarrow> if a = [] then [''no '' @ label @ '' address was given'']
          else push_unless (script_isAddress a) (''the '' @ label @ '' address '' @ a @ '' is not a Solana address''))"

definition address_failures :: "policy_config \<Rightarrow> string list" where
  "address_failures c =
     address_failure ''multisig'' (pc_multisig c) @ address_failure ''vault'' (pc_vault c)
     @ concat (map (\<lambda>m. push_unless (script_isAddress m) (''member '' @ m @ '' is not a Solana address'')) (pc_members c))"

definition shared_text :: "string list \<Rightarrow> string" where
  "shared_text shared = dec_nat (length shared) @ '' member(s) also govern the non-custodial programs: ''
     @ join_with '', '' shared @ ''. ''"

definition separation_failures :: "policy_config \<Rightarrow> string \<Rightarrow> string \<Rightarrow> string list" where
  "separation_failures c multisig vault =
     (let shared = filter (\<lambda>m. m \<in> set (pc_members c)) (pc_nonCustodyMembers c)
      in push_unless (vault \<notin> set (pc_members c)) (''the vault '' @ vault @ '' is listed as one of its own members'')
         @ push_unless (multisig \<notin> set (pc_members c)) (''the multisig '' @ multisig @ '' is listed as one of its own members'')
         @ push_unless (multisig \<noteq> vault) ''the multisig and its vault are the same address''
         @ push_unless (vault \<noteq> pc_nonCustodyVault c) (''the custody vault is '' @ pc_nonCustodyVault c
             @ '', which already governs the non-custodial programs; policy requires a separate one'')
         @ push_unless (multisig \<noteq> pc_nonCustodyVault c) ''the custody multisig is the non-custodial programs' vault''
         @ push_unless (shared = [] \<or> pc_allowSharedSigners c) (shared_text shared
             @ ''A separate multisig held by the same people falls to one compromise of those people. Pass --allow-shared-signers to accept this deliberately.'')
         @ push_unless (length shared \<le> MAX_APPROVED_SHARED_SIGNERS) (shared_text shared @ ''At most ''
             @ dec_nat MAX_APPROVED_SHARED_SIGNERS
             @ '' shared signer is approved, and --allow-shared-signers does not raise that limit: a second shared key can reach a 2-of-3 threshold together with the first, which ends the separation entirely.''))"

definition threshold_failures :: "host \<Rightarrow> policy_config \<Rightarrow> string list" where
  "threshold_failures h c =
     (let members = pc_members c; t = pc_threshold c
      in push_unless (is_integer t \<and> whole t \<ge> MIN_SQUADS_THRESHOLD) (''threshold is '' @ number_text h t
           @ ''; policy requires at least '' @ dec_int MIN_SQUADS_THRESHOLD)
         @ push_unless (\<not> int_less (int (length members)) t) (dec_nat (length members)
           @ '' members cannot satisfy a threshold of '' @ number_text h t)
         @ push_unless (card (set members) = length members) (''members contain duplicates: ''
           @ dec_nat (length members) @ '' entries, '' @ dec_nat (card (set members)) @ '' distinct keys''))"

definition checkPolicy :: "host \<Rightarrow> policy_config \<Rightarrow> string list result" where
  "checkPolicy h c =
     (case (pc_multisig c, pc_vault c) of
        (Some multisig, Some vault) \<Rightarrow>
          if address_failures c \<noteq> [] then Inr (address_failures c)
          else bindR (script_isOnCurve vault) (\<lambda>wallet.
            bindR (isProgramDerived vault) (\<lambda>program.
            bindR (squads_deriveVault (h_sha h) (number_text h) multisig (pc_vaultIndex c) (pc_squadsProgramId c)) (\<lambda>(derived, bump).
            Inr (threshold_failures h c
              @ push_unless (\<not> wallet) (''the vault '' @ vault
                  @ '' is on the ed25519 curve, so it is a signer wallet rather than a program-derived vault'')
              @ push_unless program (''the vault '' @ vault @ '' is not program-derived'')
              @ push_unless (derived = vault) (''vault index '' @ number_text h (pc_vaultIndex c) @ '' of multisig ''
                  @ multisig @ '' derives to '' @ derived @ '', not the declared vault '' @ vault)
              @ separation_failures c multisig vault))))
      | _ \<Rightarrow> Inr (address_failures c))"

section \<open>The chain\<close>

record chain_verdict =
  cv_failures :: "string list"
  cv_genesisHash :: string
  cv_squads :: "live_multisig option"
  cv_vaultAccountExists :: "bool option"

text \<open>
  The requests are the genesis hash (0), the vault (1) and the multisig (2). An address that was
  not given is asked for all the same.
\<close>

definition checkGovernanceChain ::
    "host \<Rightarrow> chain_client \<Rightarrow> policy_config \<Rightarrow> chain_verdict result" where
  "checkGovernanceChain h client c =
     bindR (cc_genesis client 0) (\<lambda>genesis.
     if genesis = MAINNET_GENESIS
     then throw GovernanceFailure (cc_endpoint client @ '' is mainnet-beta, which is not an authorized PPV cluster'')
     else if genesis \<noteq> DEVNET_GENESIS
     then Inr \<lparr>cv_failures = [''cluster genesis is '' @ genesis @ '', expected devnet '' @ DEVNET_GENESIS],
       cv_genesisHash = genesis, cv_squads = None, cv_vaultAccountExists = None\<rparr>
     else bindR (cc_account client 1 (opt_text ''undefined'' (pc_vault c))) (\<lambda>account.
       let verdict = \<lparr>cv_failures = [], cv_genesisHash = genesis, cv_squads = None,
             cv_vaultAccountExists = Some (account \<noteq> None)\<rparr>;
           multisig = opt_text ''undefined'' (pc_multisig c)
       in if \<not> pc_liveSquads c then Inr verdict
          else case readMultisig (h_base64 h) (cc_account client 2) multisig SQUADS_V4_PROGRAM_ID of
              Inl e \<Rightarrow>
                if err_class e = SquadsDecodeError
                then Inr (verdict\<lparr>cv_failures := [''the live Squads multisig could not be read: '' @ err_message e]\<rparr>)
                else Inl e
            | Inr decoded \<Rightarrow>
                bindR (compareToPolicy (h_sha h) (number_text h) (multisig.truncate decoded) (Some (lm_address decoded))
                    \<lparr>sp_multisig = pc_multisig c, sp_threshold = pc_threshold c, sp_members = pc_members c,
                     sp_vault = pc_vault c, sp_vaultIndex = pc_vaultIndex c,
                     sp_requiredPermissionMask = PERMISSION_ALL, sp_programId = None\<rparr>) (\<lambda>failures.
                Inr (verdict\<lparr>cv_failures := failures, cv_squads := Some decoded\<rparr>))))"

section \<open>The command\<close>

definition said :: "string \<Rightarrow> report list" where "said m = [(None, m)]"

definition config_of :: "host \<Rightarrow> args \<Rightarrow> policy_config" where
  "config_of h args =
     \<lparr>pc_multisig = arg_text args ''multisig'', pc_vault = arg_text args ''vault'',
      pc_threshold = (case arg_text args ''threshold'' of None \<Rightarrow> Not_a_Number | Some s \<Rightarrow> h_to_num h s),
      pc_members = filter (\<lambda>m. m \<noteq> []) (map js_trim (split_on '','' [] (opt_text [] (arg_text args ''members'')))),
      pc_nonCustodyVault = NON_CUSTODY_VAULT, pc_nonCustodyMembers = NON_CUSTODY_MEMBERS,
      pc_allowSharedSigners = arg_bool args ''allowSharedSigners'', pc_liveSquads = arg_bool args ''liveSquads'',
      pc_vaultIndex = Whole 0, pc_squadsProgramId = SQUADS_V4_PROGRAM_ID\<rparr>"

definition header_lines :: "args \<Rightarrow> policy_config \<Rightarrow> report list" where
  "header_lines args c =
     said ''PPV custody governance''
     @ said (''  multisig  '' @ opt_text ''(none given)'' (pc_multisig c))
     @ said (''  vault     '' @ opt_text ''(none given)'' (pc_vault c))
     @ said (''  threshold '' @ opt_text ''(none given)'' (arg_text args ''threshold'') @ '' of ''
         @ dec_nat (length (pc_members c)) @ '' member(s)'')
     @ concat (map (\<lambda>m. said (''    member  '' @ m)) (pc_members c))"

definition or_none :: "string \<Rightarrow> string" where "or_none s = (if s = [] then ''none'' else s)"

definition squads_lines :: "string \<Rightarrow> live_multisig \<Rightarrow> string \<times> nat \<Rightarrow> report list" where
  "squads_lines multisig squads derived =
     said ''Live Squads multisig, decoded from chain state'' @ said (''  program    '' @ SQUADS_V4_PROGRAM_ID)
     @ said (''  account    '' @ multisig)
     @ said (''  threshold  '' @ dec_int (ms_threshold squads) @ '' of '' @ dec_nat (length (ms_members squads)) @ '' member(s)'')
     @ concat (map (\<lambda>m. said (''    member   '' @ sm_key m @ ''  mask '' @ dec_int (sm_mask m) @ '' (''
         @ or_none (join_with '' + '' (sm_permissions m)) @ '')'')) (ms_members squads))
     @ said (''  vault[0]   '' @ fst derived @ '' (bump '' @ dec_nat (snd derived) @ '')'')
     @ said (''  timeLock   '' @ dec_int (ms_timeLock squads))"

text \<open>The vault of the given multisig at index 0, derived again for what is printed.\<close>

definition vault_zero :: "host \<Rightarrow> policy_config \<Rightarrow> (string \<times> nat) result" where
  "vault_zero h c =
     squads_deriveVault (h_sha h) (number_text h) (opt_text ''undefined'' (pc_multisig c)) (Whole 0) SQUADS_V4_PROGRAM_ID"

definition chain_lines :: "host \<Rightarrow> policy_config \<Rightarrow> chain_verdict \<Rightarrow> unit reported" where
  "chain_lines h c verdict =
     bindW (tell (said (''  cluster   '' @ cv_genesisHash verdict)
       @ said (''  vault acct '' @ (if cv_vaultAccountExists verdict = Some True then ''exists''
           else ''none (a Squads vault is a pure signer PDA)'')))) (\<lambda>_.
     case cv_squads verdict of
       None \<Rightarrow> tell (if pc_liveSquads c then said ''  squads    NOT DECODED'' else [])
     | Some squads \<Rightarrow> bindW ([], vault_zero h c) (\<lambda>derived.
         tell (squads_lines (opt_text ''undefined'' (pc_multisig c)) squads derived)))"

record governance_result =
  gr_ok :: bool
  gr_failures :: "string list"
  gr_squads :: "live_multisig option"

definition verdict_lines ::
    "host \<Rightarrow> policy_config \<Rightarrow> string list \<Rightarrow> live_multisig option \<Rightarrow> governance_result reported" where
  "verdict_lines h c failures squads =
     (if failures \<noteq> []
      then (said ''GOVERNANCE POLICY NOT SATISFIED'' @ concat (map (\<lambda>f. said (''  '' @ f)) failures)
              @ said ''Do not give this configuration authority over ppv_escrow.'',
            Inr \<lparr>gr_ok = False, gr_failures = failures, gr_squads = squads\<rparr>)
      else bindW (tell (said ''PPV_CUSTODY_GOVERNANCE_VALID''
          @ said (''custody_vault='' @ opt_text ''undefined'' (pc_vault c))
          @ said (''threshold='' @ number_text h (pc_threshold c))
          @ said (''members='' @ dec_nat (length (pc_members c)))
          @ said (''squads_live_decode='' @ (if squads = None then ''declared-only'' else ''read-from-chain'')))) (\<lambda>_.
        bindW (case squads of
            None \<Rightarrow> tell []
          | Some live \<Rightarrow>
              bindW (tell (said (''squads_live_threshold='' @ dec_int (ms_threshold live))
                @ said (''squads_live_members='' @ join_with '','' (map sm_key (ms_members live)))
                @ said (''squads_live_permissions='' @ join_with '','' (map (\<lambda>m. dec_int (sm_mask m)) (ms_members live))))) (\<lambda>_.
              bindW ([], vault_zero h c) (\<lambda>derived. tell (said (''squads_vault_derived='' @ fst derived))))) (\<lambda>_.
        (said ''result=valid'', Inr \<lparr>gr_ok = True, gr_failures = [], gr_squads = squads\<rparr>))))"

definition verifyGovernance :: "host \<Rightarrow> string list \<Rightarrow> chain_client option \<Rightarrow> governance_result reported" where
  "verifyGovernance h argv client =
     (let args = parseArgs argv; c = config_of h args
      in bindW (tell (header_lines args c)) (\<lambda>_.
         bindW ([], checkPolicy h c) (\<lambda>policy.
         case client of
           Some live \<Rightarrow>
             bindW ([], checkGovernanceChain h live c) (\<lambda>verdict.
             bindW (chain_lines h c verdict) (\<lambda>_.
               verdict_lines h c (policy @ cv_failures verdict) (cv_squads verdict)))
         | None \<Rightarrow>
             bindW (tell (said ''  cluster   not checked (no RPC endpoint given)'')) (\<lambda>_.
               verdict_lines h c (policy @ (if pc_liveSquads c
                 then [''--live-squads was requested but no RPC endpoint was given (set PPV_RPC_URL); a live decode that did not happen is not a live decode'']
                 else [])) None))))"

section \<open>What a valid configuration is\<close>

text \<open>The separation the policy is after, as conditions on the configuration.\<close>

definition policy_ok :: "host \<Rightarrow> policy_config \<Rightarrow> bool" where
  "policy_ok h c \<longleftrightarrow>
     (\<exists>multisig vault threshold bump shared.
        pc_multisig c = Some multisig \<and> pc_vault c = Some vault \<and> pc_threshold c = Whole threshold
        \<and> script_isAddress multisig \<and> isProgramDerived vault = Inr True
        \<and> squads_deriveVault (h_sha h) (number_text h) multisig (pc_vaultIndex c) (pc_squadsProgramId c) = Inr (vault, bump)
        \<and> 2 \<le> threshold \<and> threshold \<le> int (length (pc_members c))
        \<and> list_all script_isAddress (pc_members c) \<and> distinct (pc_members c)
        \<and> vault \<notin> set (pc_members c) \<and> multisig \<notin> set (pc_members c) \<and> multisig \<noteq> vault
        \<and> pc_nonCustodyVault c \<noteq> vault \<and> pc_nonCustodyVault c \<noteq> multisig
        \<and> shared = filter (\<lambda>m. m \<in> set (pc_members c)) (pc_nonCustodyMembers c)
        \<and> (shared = [] \<or> pc_allowSharedSigners c) \<and> length shared \<le> 1)"

lemma address_failures_Nil:
  "address_failures c = [] \<longleftrightarrow> (\<exists>m v. pc_multisig c = Some m \<and> pc_vault c = Some v
     \<and> script_isAddress m \<and> script_isAddress v \<and> list_all script_isAddress (pc_members c))"
  by (auto simp: address_failures_def address_failure_def list_all_iff script_isAddress_def split: option.splits if_splits)

lemma not_wallet:
  assumes "isProgramDerived v = Inr True"
  shows "script_isAddress v \<and> script_isOnCurve v = Inr False"
  using assms by (auto simp: isProgramDerived_def bindR_eq_Inr split: if_splits)

lemma threshold_failures_Nil:
  "threshold_failures h c = [] \<longleftrightarrow> (\<exists>t. pc_threshold c = Whole t \<and> 2 \<le> t \<and> t \<le> int (length (pc_members c)))
     \<and> distinct (pc_members c)"
  by (cases "pc_threshold c")
    (auto simp: threshold_failures_def Let_def MIN_SQUADS_THRESHOLD_def int_less_def card_distinct_iff)

lemma separation_failures_Nil:
  "separation_failures c multisig vault = [] \<longleftrightarrow> vault \<notin> set (pc_members c) \<and> multisig \<notin> set (pc_members c)
     \<and> multisig \<noteq> vault \<and> pc_nonCustodyVault c \<noteq> vault \<and> pc_nonCustodyVault c \<noteq> multisig
     \<and> (filter (\<lambda>m. m \<in> set (pc_members c)) (pc_nonCustodyMembers c) = [] \<or> pc_allowSharedSigners c)
     \<and> length (filter (\<lambda>m. m \<in> set (pc_members c)) (pc_nonCustodyMembers c)) \<le> 1"
  unfolding separation_failures_def Let_def append_is_Nil_conv push_unless_Nil MAX_APPROVED_SHARED_SIGNERS_def by metis

lemma checkPolicy_Nil: "checkPolicy h c = Inr [] \<longleftrightarrow> policy_ok h c"
proof
  assume ok: "checkPolicy h c = Inr []"
  then have "address_failures c = []" by (auto simp: checkPolicy_def split: option.splits if_splits)
  then obtain m v where a: "pc_multisig c = Some m" "pc_vault c = Some v" "script_isAddress m" "script_isAddress v"
      "list_all script_isAddress (pc_members c)" unfolding address_failures_Nil by blast
  from ok \<open>address_failures c = []\<close> obtain wallet derived bump where
    "isProgramDerived v = Inr True" "threshold_failures h c = []" "separation_failures c m v = []"
    "squads_deriveVault (h_sha h) (number_text h) m (pc_vaultIndex c) (pc_squadsProgramId c) = Inr (derived, bump)" "derived = v"
    by (auto simp: checkPolicy_def a(1,2) bindR_eq_Inr)
  then show "policy_ok h c"
    using a unfolding policy_ok_def threshold_failures_Nil separation_failures_Nil by metis
next
  assume "policy_ok h c"
  then obtain m v t bump where a: "pc_multisig c = Some m" "pc_vault c = Some v" "pc_threshold c = Whole t"
      "script_isAddress m" "isProgramDerived v = Inr True"
      "squads_deriveVault (h_sha h) (number_text h) m (pc_vaultIndex c) (pc_squadsProgramId c) = Inr (v, bump)"
      "list_all script_isAddress (pc_members c)"
    and ok: "threshold_failures h c = []" "separation_failures c m v = []"
    unfolding policy_ok_def threshold_failures_Nil separation_failures_Nil by blast
  have "address_failures c = []" unfolding address_failures_Nil using a not_wallet by blast
  then show "checkPolicy h c = Inr []"
    using a ok not_wallet [OF a(5)] by (simp add: checkPolicy_def)
qed

text \<open>What the live multisig must be, and what a run of the command must have seen.\<close>

definition live_matches :: "policy_config \<Rightarrow> live_multisig \<Rightarrow> bool" where
  "live_matches c live \<longleftrightarrow>
     Whole (ms_threshold live) = pc_threshold c \<and> distinct (map sm_key (ms_members live))
     \<and> set (map sm_key (ms_members live)) = set (pc_members c) \<and> length (ms_members live) = length (pc_members c)
     \<and> set (map sm_mask (ms_members live)) \<subseteq> {PERMISSION_ALL}"

definition chain_ok :: "host \<Rightarrow> policy_config \<Rightarrow> chain_client option \<Rightarrow> bool" where
  "chain_ok h c client \<longleftrightarrow>
     (case client of
        None \<Rightarrow> \<not> pc_liveSquads c
      | Some live \<Rightarrow> cc_genesis live 0 = Inr DEVNET_GENESIS
          \<and> (\<exists>account. cc_account live 1 (opt_text ''undefined'' (pc_vault c)) = Inr account)
          \<and> (pc_liveSquads c \<longrightarrow> (\<exists>decoded. readMultisig (h_base64 h) (cc_account live 2)
               (opt_text ''undefined'' (pc_multisig c)) SQUADS_V4_PROGRAM_ID = Inr decoded \<and> live_matches c decoded)))"

definition minority :: "policy_config \<Rightarrow> bool" where
  "minority c \<longleftrightarrow> int (card (set (pc_members c) \<inter> set (pc_nonCustodyMembers c))) < whole (pc_threshold c)"

lemma policy_ok_minority:
  assumes "policy_ok h c"
  shows "minority c"
proof -
  let ?shared = "filter (\<lambda>m. m \<in> set (pc_members c)) (pc_nonCustodyMembers c)"
  obtain t where t: "pc_threshold c = Whole t" "2 \<le> t" "length ?shared \<le> 1"
    using assms unfolding policy_ok_def by blast
  have "set (pc_members c) \<inter> set (pc_nonCustodyMembers c) = set ?shared" by auto
  then have "card (set (pc_members c) \<inter> set (pc_nonCustodyMembers c)) \<le> 1"
    using card_length [of ?shared] t(3) by simp
  with t show ?thesis by (simp add: minority_def)
qed

lemma config_defaults:
  "pc_vaultIndex (config_of h args) = Whole 0" "pc_squadsProgramId (config_of h args) = SQUADS_V4_PROGRAM_ID"
  "pc_nonCustodyMembers (config_of h args) = NON_CUSTODY_MEMBERS" "pc_nonCustodyVault (config_of h args) = NON_CUSTODY_VAULT"
  by (simp_all add: config_of_def)

lemma snd_bindW: "snd (bindW m f) = bindR (snd m) (\<lambda>a. snd (f a))"
  by (cases m; cases "snd m") (auto simp: bindW_def Let_def split: prod.splits)

lemma snd_tell [simp]: "snd (tell rs) = Inr ()"
  by (simp add: tell_def)

definition run_ok :: "governance_result reported \<Rightarrow> bool" where
  "run_ok m \<longleftrightarrow> (\<exists>g. snd m = Inr g \<and> gr_ok g)"

lemma run_ok_bindW: "run_ok (bindW m f) \<longleftrightarrow> (\<exists>a. snd m = Inr a \<and> run_ok (f a))"
  by (auto simp: run_ok_def snd_bindW bindR_eq_Inr)

lemma verdict_ok:
  assumes "vault_zero h c = Inr derived"
  shows "run_ok (verdict_lines h c failures squads) \<longleftrightarrow> failures = []"
  by (auto simp: verdict_lines_def run_ok_def snd_bindW assms split: option.splits)

lemma chain_lines_ok: "vault_zero h c = Inr derived \<Longrightarrow> snd (chain_lines h c verdict) = Inr ()"
  by (auto simp: chain_lines_def snd_bindW split: option.splits)

lemma checkGovernanceChain_ok:
  assumes "policy_ok h c" and "pc_vaultIndex c = Whole 0" and "pc_squadsProgramId c = SQUADS_V4_PROGRAM_ID"
  shows "(\<exists>verdict. checkGovernanceChain h client c = Inr verdict \<and> cv_failures verdict = []) \<longleftrightarrow> chain_ok h c (Some client)"
proof -
  obtain m v bump where p: "pc_multisig c = Some m" "pc_vault c = Some v" "script_isAddress m"
      "squads_deriveVault (h_sha h) (number_text h) m (Whole 0) SQUADS_V4_PROGRAM_ID = Inr (v, bump)"
    using assms unfolding policy_ok_def by metis
  have "m \<noteq> []" using p(3) by (auto simp: script_isAddress_def)
  then have agrees: "vault_agrees (h_sha h) (number_text h) address
      \<lparr>sp_multisig = pc_multisig c, sp_threshold = pc_threshold c, sp_members = pc_members c,
       sp_vault = pc_vault c, sp_vaultIndex = pc_vaultIndex c,
       sp_requiredPermissionMask = PERMISSION_ALL, sp_programId = None\<rparr>" for address
    using p assms(2) by (simp add: vault_agrees_def)
  have compare: "compareToPolicy (h_sha h) (number_text h) (multisig.truncate decoded) address
      \<lparr>sp_multisig = pc_multisig c, sp_threshold = pc_threshold c, sp_members = pc_members c,
       sp_vault = pc_vault c, sp_vaultIndex = pc_vaultIndex c,
       sp_requiredPermissionMask = PERMISSION_ALL, sp_programId = None\<rparr> = Inr [] \<longleftrightarrow> live_matches c decoded"
    for decoded :: live_multisig and address
    unfolding compareToPolicy_Nil using agrees by (simp add: live_matches_def multisig.defs)
  show ?thesis
  proof (cases "pc_liveSquads c")
    case False
    then show ?thesis using genesis_differ by (auto simp: checkGovernanceChain_def chain_ok_def bindR_eq_Inr Let_def)
  next
    case True
    let ?read = "readMultisig (h_base64 h) (cc_account client 2) m SQUADS_V4_PROGRAM_ID"
    show ?thesis
    proof (cases ?read)
      case (Inl e)
      then show ?thesis using True genesis_differ p(1)
        by (auto simp: checkGovernanceChain_def chain_ok_def bindR_eq_Inr Let_def opt_text_def)
    next
      case (Inr decoded)
      then show ?thesis using True genesis_differ p(1) compare [of decoded "Some (lm_address decoded)"]
        by (auto simp: checkGovernanceChain_def chain_ok_def bindR_eq_Inr Let_def opt_text_def)
    qed
  qed
qed

text \<open>
  C24: When the command calls a configuration valid. It does so exactly when multisig and vault
  are addresses, the vault is the program-derived one of the multisig at index 0 and neither is
  among the members, the threshold is at least two of at least as many distinct member
  addresses, neither address is the vault of the other programs, at most one signer is shared
  with them and that only by request, and the chain it was given is devnet and, where a live
  decode was requested, holds exactly that multisig with full permissions; a live decode that
  could not happen is no success. The signers of the other programs never reach the threshold.
\<close>

theorem governance_valid:
  "run_ok (verifyGovernance h argv client) \<longleftrightarrow>
     (let c = config_of h (parseArgs argv) in policy_ok h c \<and> minority c \<and> chain_ok h c client)"
proof -
  let ?c = "config_of h (parseArgs argv)"
  show ?thesis
  proof (cases "policy_ok h ?c")
    case True
    then obtain m v bump where p: "pc_multisig ?c = Some m"
        "squads_deriveVault (h_sha h) (number_text h) m (Whole 0) SQUADS_V4_PROGRAM_ID = Inr (v, bump)"
      unfolding policy_ok_def config_defaults by metis
    then have zero: "vault_zero h ?c = Inr (v, bump)" by (simp add: vault_zero_def opt_text_def)
    have policy: "checkPolicy h ?c = Inr []" using True by (simp add: checkPolicy_Nil)
    show ?thesis
    proof (cases client)
      case None
      then show ?thesis using policy True policy_ok_minority [OF True] verdict_ok [OF zero]
        by (simp add: verifyGovernance_def Let_def run_ok_bindW chain_ok_def)
    next
      case (Some live)
      have "run_ok (verifyGovernance h argv client) \<longleftrightarrow> (\<exists>verdict. checkGovernanceChain h live ?c = Inr verdict \<and> cv_failures verdict = [])"
        using Some policy verdict_ok [OF zero] chain_lines_ok [OF zero]
        by (simp add: verifyGovernance_def Let_def run_ok_bindW)
      then show ?thesis
        using True policy_ok_minority [OF True] Some
        by (simp add: checkGovernanceChain_ok [OF True] config_defaults Let_def)
    qed
  next
    case False
    then have "checkPolicy h ?c \<noteq> Inr []" by (simp add: checkPolicy_Nil)
    then have "\<not> run_ok (verifyGovernance h argv client)"
      by (auto simp: verifyGovernance_def Let_def run_ok_bindW verdict_lines_def run_ok_def snd_bindW bindR_eq_Inr
          split: option.splits)
    with False show ?thesis by simp
  qed
qed

end
