(* ===== verification/Recovery.thy ===== *)
theory Recovery
  imports Deployed_Program
begin

text \<open>
  Recovering the facts of a deployment from public reads
  (\<open>scripts/recover-escrow-evidence.mjs\<close>). A transaction is the JSON value the node answers with;
  what a read of an absent or a wrong kind of field does is written out. The reads are numbered:
  the genesis hash, the two accounts, the deployment, the list of signatures, then a transaction each.
\<close>

definition DEPLOY_SIGNATURE :: string where
  "DEPLOY_SIGNATURE = ''5xDmBitgkrQ1R9zVhvU3714VFE7arNeMJnhkimMWvP16cFmZVPytGad9j3XMa9CPMvTeoiRzAMJHPb3wmyazEzuA''"

definition LOADER_SET_AUTHORITY :: int where "LOADER_SET_AUTHORITY = 4"
definition LOADER_SET_AUTHORITY_CHECKED :: int where "LOADER_SET_AUTHORITY_CHECKED = 7"

section \<open>Reading JSON\<close>

text \<open>\<open>v?.name\<close>, \<open>v ?? d\<close>, and a list that may be absent.\<close>

definition dig :: "json option \<Rightarrow> string \<Rightarrow> json option" where
  "dig v name = (case v of Some (J_object ms) \<Rightarrow> map_of ms name | _ \<Rightarrow> None)"

definition nullish :: "json option \<Rightarrow> bool" where
  "nullish v \<longleftrightarrow> v = None \<or> v = Some J_null"

definition or_else :: "json option \<Rightarrow> json option \<Rightarrow> json option" where
  "or_else v d = (if nullish v then d else v)"

definition list_or_empty :: "string \<Rightarrow> json option \<Rightarrow> json list result" where
  "list_or_empty what v =
     (if nullish v then Inr []
      else case v of Some (J_array xs) \<Rightarrow> Inr xs | _ \<Rightarrow> throw TypeError what)"

text \<open>\<open>keys[index]\<close>: the index is a property name, so a text of digits is one as well.\<close>

definition recovery_key_at :: "host \<Rightarrow> json option list \<Rightarrow> json option \<Rightarrow> json option" where
  "recovery_key_at h keys index =
     (case filter (\<lambda>i. dec_nat i = value_text h index) [0..<length keys] of
        [] \<Rightarrow> None
      | i # _ \<Rightarrow> keys ! i)"

section \<open>What an instruction does\<close>

definition parsed_change :: "host \<Rightarrow> string \<Rightarrow> string \<Rightarrow> json option \<Rightarrow> bool" where
  "parsed_change h programData newAuthority parsed =
     (let kind = map lower (if nullish (dig parsed ''type'') then [] else value_text h (dig parsed ''type''));
          info = dig parsed ''info'';
          account = or_else (or_else (dig info ''account'') (dig info ''programData'')) (dig info ''programDataAccount'');
          installed = or_else (dig info ''newAuthority'') (dig info ''newAuthorityAccount'')
      in starts_with ''setauthority'' kind
         \<and> account = Some (J_string programData) \<and> installed = Some (J_string newAuthority))"

definition raw_change :: "host \<Rightarrow> string \<Rightarrow> string \<Rightarrow> json option list \<Rightarrow> json option \<Rightarrow> bool result" where
  "raw_change h programData newAuthority keys instruction =
     (if recovery_key_at h keys (dig instruction ''programIdIndex'') \<noteq> Some (J_string UPGRADEABLE_LOADER_ID) then Inr False
      else case script_decodeBase58 (if nullish (dig instruction ''data'') then [] else value_text h (dig instruction ''data'')) of
          Inl _ \<Rightarrow> Inr False
        | Inr data \<Rightarrow>
            if length data < 4 then Inr False
            else if read_le data 0 4 \<noteq> LOADER_SET_AUTHORITY \<and> read_le data 0 4 \<noteq> LOADER_SET_AUTHORITY_CHECKED
            then Inr False
            else bindR (list_or_empty ''(instruction.accounts ?? []).map is not a function'' (dig instruction ''accounts'')) (\<lambda>indices.
              let accounts = map (\<lambda>i. recovery_key_at h keys (Some i)) indices
              in Inr (length accounts > 2 \<and> accounts ! 0 = Some (J_string programData)
                   \<and> accounts ! 2 = Some (J_string newAuthority))))"

definition isAuthorityChange ::
    "host \<Rightarrow> string \<Rightarrow> string \<Rightarrow> json option list \<Rightarrow> json \<Rightarrow> bool result" where
  "isAuthorityChange h programData newAuthority keys instruction =
     (if instruction = J_null
      then throw TypeError ''Cannot read properties of null (reading 'parsed')''
      else case dig (Some instruction) ''parsed'' of
          Some (J_object ms) \<Rightarrow> Inr (parsed_change h programData newAuthority (Some (J_object ms)))
        | Some (J_array xs) \<Rightarrow> Inr (parsed_change h programData newAuthority (Some (J_array xs)))
        | _ \<Rightarrow> raw_change h programData newAuthority keys (Some instruction))"

definition entry_instructions :: "json \<Rightarrow> json list result" where
  "entry_instructions entry =
     (if entry = J_null then throw TypeError ''Cannot read properties of null (reading 'instructions')''
      else list_or_empty ''entry.instructions is not a list'' (dig (Some entry) ''instructions''))"

definition allInstructions :: "json option \<Rightarrow> json list result" where
  "allInstructions transaction =
     (let message = dig (dig transaction ''transaction'') ''message'';
          innerInstructions = dig (dig transaction ''meta'') ''innerInstructions''
      in bindR (list_or_empty ''flatMap is not a function'' innerInstructions) (\<lambda>entries.
         bindR (mapR entry_instructions entries) (\<lambda>inner.
         bindR (list_or_empty ''top is not iterable'' (dig message ''instructions'')) (\<lambda>top.
           Inr (top @ concat inner)))))"

definition key_value :: "json \<Rightarrow> json option" where
  "key_value key = (case key of J_string s \<Rightarrow> Some (J_string s) | _ \<Rightarrow> dig (Some key) ''pubkey'')"

definition recoveryAccountKeys :: "json option \<Rightarrow> json option list result" where
  "recoveryAccountKeys transaction =
     (let message = dig (dig transaction ''transaction'') ''message'';
          loaded = dig (dig transaction ''meta'') ''loadedAddresses''
      in bindR (list_or_empty ''keys.map is not a function'' (dig message ''accountKeys'')) (\<lambda>keys.
         bindR (list_or_empty ''loaded.writable is not iterable'' (dig loaded ''writable'')) (\<lambda>writable.
         bindR (list_or_empty ''loaded.readonly is not iterable'' (dig loaded ''readonly'')) (\<lambda>readonly.
           Inr (map key_value keys @ map Some writable @ map Some readonly)))))"

text \<open>\<open>some\<close> stops at the first instruction that passes; the test may throw before it.\<close>

fun someR :: "('a \<Rightarrow> bool result) \<Rightarrow> 'a list \<Rightarrow> bool result" where
  "someR p [] = Inr False"
| "someR p (x # xs) = bindR (p x) (\<lambda>b. if b then Inr True else someR p xs)"

datatype transfer_verdict = Proved (pv_slot: json) (pv_blockTime: json) | Refused string

definition truthy_opt :: "json option \<Rightarrow> bool" where
  "truthy_opt err = (case err of None \<Rightarrow> False | Some e \<Rightarrow> truthy_json e)"

definition or_json_null :: "json option \<Rightarrow> json" where
  "or_json_null v = (case v of None \<Rightarrow> J_null | Some x \<Rightarrow> x)"

definition provesAuthorityChange ::
    "host \<Rightarrow> string \<Rightarrow> string \<Rightarrow> json option \<Rightarrow> transfer_verdict result" where
  "provesAuthorityChange h programData newAuthority transaction =
     (if \<not> truthy_opt transaction then Inr (Refused ''transaction not found'')
      else let err = dig (dig transaction ''meta'') ''err''
        in if truthy_opt err then Inr (Refused (''transaction failed on chain: '' @ err_text h err))
           else bindR (recoveryAccountKeys transaction) (\<lambda>keys.
             bindR (allInstructions transaction) (\<lambda>instructions.
             bindR (someR (isAuthorityChange h programData newAuthority keys) instructions) (\<lambda>found.
               Inr (if found then Proved (or_json_null (dig transaction ''slot'')) (or_json_null (dig transaction ''blockTime''))
                    else Refused ''no loader SetAuthority instruction for this ProgramData and authority'')))))"

section \<open>The phases\<close>

record recovery_client = chain_client +
  rc_signatures :: "nat \<Rightarrow> string \<Rightarrow> nat \<Rightarrow> string list option result"
  rc_transaction :: "nat \<Rightarrow> string \<Rightarrow> json option result"

record live_program =
  lp_genesis :: string
  lp_programData :: string
  lp_authority :: string
  lp_lastDeploySlot :: int
  lp_owner :: string

definition stop :: "string \<Rightarrow> 'a result" where "stop m = throw RecoveryFailure (''STOP -- '' @ m)"

definition out_of_bounds :: string where
  "out_of_bounds = ''Attempt to access memory outside buffer bounds''"

definition slot_of :: "bytes \<Rightarrow> int result" where
  "slot_of bs =
     (if length bs < 8 then throw RangeError out_of_bounds
      else if length bs < 12
      then throw RangeError (''The value of \"offset\" is out of range. It must be >= 0 and <= ''
        @ dec_nat (length bs - 8) @ ''. Received 4'')
      else Inr (to_double (le_nat (subarray bs 4 8))))"

definition verifyLiveProgram ::
    "host \<Rightarrow> recovery_client \<Rightarrow> string \<Rightarrow> string \<Rightarrow> string \<Rightarrow> live_program result" where
  "verifyLiveProgram h client programId expectedProgramData expectedAuthority =
     bindR (cc_genesis client 0) (\<lambda>genesis.
     if genesis \<noteq> DEVNET_GENESIS
     then stop (''cluster genesis is '' @ genesis @ '', expected devnet '' @ DEVNET_GENESIS)
     else bindR (cc_account client 1 programId) (\<lambda>program.
     case program of
       None \<Rightarrow> stop (''no account exists at '' @ programId)
     | Some p \<Rightarrow>
         if \<not> ai_executable p then stop (programId @ '' is not executable'')
         else if ai_owner p \<noteq> UPGRADEABLE_LOADER_ID
         then stop (programId @ '' is owned by '' @ ai_owner p @ '', not the upgradeable loader'')
         else let bs = h_base64 h (ai_data p); programData = script_encodeBase58 (subarray bs 4 32)
           in if length bs < 4 then throw RangeError out_of_bounds
              else if read_le bs 0 4 \<noteq> 2 then stop (programId @ '' is not a Program account'')
              else if expectedProgramData \<noteq> [] \<and> programData \<noteq> expectedProgramData
              then stop (''live ProgramData is '' @ programData @ '', expected '' @ expectedProgramData)
              else bindR (cc_account client 2 programData) (\<lambda>dataAccount.
                case dataAccount of
                  None \<Rightarrow> stop (''ProgramData '' @ programData @ '' is missing'')
                | Some d \<Rightarrow>
                    let dataBytes = h_base64 h (ai_data d); authority = script_encodeBase58 (subarray dataBytes 13 32)
                    in if length dataBytes < 4 then throw RangeError out_of_bounds
                       else if read_le dataBytes 0 4 \<noteq> 3 then stop (programData @ '' is not a ProgramData account'')
                       else bindR (slot_of dataBytes) (\<lambda>lastDeploySlot.
                         if length dataBytes \<le> 12 \<or> dataBytes ! 12 \<noteq> 1
                         then stop (programId @ '' is immutable; its upgrade authority is revoked'')
                         else if authority \<noteq> expectedAuthority
                         then stop (''CRITICAL_AUTHORITY_MISMATCH: live authority is '' @ authority @ '', expected '' @ expectedAuthority)
                         else Inr \<lparr>lp_genesis = genesis, lp_programData = programData, lp_authority = authority,
                           lp_lastDeploySlot = lastDeploySlot, lp_owner = ai_owner p\<rparr>))))"

record transfer =
  tf_signature :: "string option"
  tf_slot :: json
  tf_blockTime :: json
  tf_considered :: "(string \<times> transfer_verdict) list"

text \<open>The candidates from the oldest; \<open>request\<close> is the number of the next read.\<close>

fun seek_transfer ::
    "host \<Rightarrow> recovery_client \<Rightarrow> string \<Rightarrow> string \<Rightarrow> nat \<Rightarrow> (string \<times> transfer_verdict) list \<Rightarrow> string list \<Rightarrow> transfer result" where
  "seek_transfer h client programData newAuthority request considered [] =
     Inr \<lparr>tf_signature = None, tf_slot = J_null, tf_blockTime = J_null, tf_considered = considered\<rparr>"
| "seek_transfer h client programData newAuthority request considered (signature # later) =
     bindR (rc_transaction client request signature) (\<lambda>transaction.
     bindR (provesAuthorityChange h programData newAuthority transaction) (\<lambda>verdict.
     let considered = considered @ [(signature, verdict)]
     in case verdict of
          Proved slot blockTime \<Rightarrow> Inr \<lparr>tf_signature = Some signature, tf_slot = slot, tf_blockTime = blockTime,
            tf_considered = considered\<rparr>
        | Refused _ \<Rightarrow> seek_transfer h client programData newAuthority (request + 1) considered later))"

definition findAuthorityTransfer ::
    "host \<Rightarrow> recovery_client \<Rightarrow> nat \<Rightarrow> string \<Rightarrow> string \<Rightarrow> nat \<Rightarrow> transfer result" where
  "findAuthorityTransfer h client request programData newAuthority limit =
     bindR (rc_signatures client request programData limit) (\<lambda>signatures.
       seek_transfer h client programData newAuthority (request + 1) []
         (rev (case signatures of None \<Rightarrow> [] | Some xs \<Rightarrow> xs)))"

definition verifyDeployment :: "host \<Rightarrow> recovery_client \<Rightarrow> nat \<Rightarrow> string \<Rightarrow> string \<Rightarrow> transfer_verdict result" where
  "verifyDeployment h client request signature programId =
     bindR (rc_transaction client request signature) (\<lambda>transaction.
     if \<not> truthy_opt transaction then Inr (Refused ''deployment transaction not found on this cluster'')
     else let err = dig (dig transaction ''meta'') ''err''
       in if truthy_opt err then Inr (Refused (''deployment transaction failed: '' @ err_text h err))
          else bindR (recoveryAccountKeys transaction) (\<lambda>keys.
            Inr (if Some (J_string programId) \<in> set keys
                 then Proved (or_json_null (dig transaction ''slot'')) (or_json_null (dig transaction ''blockTime''))
                 else Refused (''deployment transaction does not reference '' @ programId))))"

record recovered_facts =
  rf_live :: live_program
  rf_deployment :: transfer_verdict
  rf_transfer :: transfer

definition EXPECTED_PROGRAM_DATA :: string where
  "EXPECTED_PROGRAM_DATA = ''2bWfopyJ8LxJ6azd9ZhaGmfs9S2gGRQKx6TX88ddULAa''"

definition recover :: "host \<Rightarrow> recovery_client \<Rightarrow> recovered_facts result" where
  "recover h client =
     (let programId = ESCROW_PERMANENT_ID; vault = cg_vault ESCROW_CUSTODY_GOVERNANCE
      in bindR (verifyLiveProgram h client programId EXPECTED_PROGRAM_DATA vault) (\<lambda>live.
         bindR (verifyDeployment h client 3 DEPLOY_SIGNATURE programId) (\<lambda>deployment.
         bindR (findAuthorityTransfer h client 4 (lp_programData live) vault 25) (\<lambda>found.
           Inr \<lparr>rf_live = live, rf_deployment = deployment, rf_transfer = found\<rparr>))))"

text \<open>Whether the command ends with success.\<close>

definition recovery_complete :: "recovered_facts \<Rightarrow> bool" where
  "recovery_complete facts \<longleftrightarrow>
     (case rf_deployment facts of Proved _ _ \<Rightarrow> tf_signature (rf_transfer facts) \<noteq> None \<and> tf_signature (rf_transfer facts) \<noteq> Some []
      | Refused _ \<Rightarrow> False)"

section \<open>What is accepted as the transfer\<close>

text \<open>An instruction the node parsed, and one it did not, that installs the authority.\<close>

definition parsed_install :: "host \<Rightarrow> string \<Rightarrow> string \<Rightarrow> json \<Rightarrow> bool" where
  "parsed_install h programData newAuthority i \<longleftrightarrow>
     (\<exists>p. dig (Some i) ''parsed'' = Some p \<and> ((\<exists>ms. p = J_object ms) \<or> (\<exists>xs. p = J_array xs))
        \<and> parsed_change h programData newAuthority (Some p))"

definition raw_install :: "host \<Rightarrow> string \<Rightarrow> string \<Rightarrow> json option list \<Rightarrow> json \<Rightarrow> bool" where
  "raw_install h programData newAuthority keys i \<longleftrightarrow>
     (\<exists>tag rest' a b c more.
        recovery_key_at h keys (dig (Some i) ''programIdIndex'') = Some (J_string UPGRADEABLE_LOADER_ID)
        \<and> value_text h (dig (Some i) ''data'') = encodeBase58 ([tag, 0, 0, 0] @ rest') \<and> (tag = 4 \<or> tag = 7)
        \<and> dig (Some i) ''accounts'' = Some (J_array (a # b # c # more))
        \<and> recovery_key_at h keys (Some a) = Some (J_string programData)
        \<and> recovery_key_at h keys (Some c) = Some (J_string newAuthority))"

lemma someR_True: "someR p xs = Inr True \<Longrightarrow> \<exists>x. x \<in> set xs \<and> p x = Inr True"
  by (induction xs) (auto simp: bindR_eq_Inr split: if_splits)

lemma list_or_empty_long:
  "list_or_empty what v = Inr xs \<Longrightarrow> xs \<noteq> [] \<Longrightarrow> v = Some (J_array xs)"
  by (auto simp: list_or_empty_def split: if_splits option.splits json.splits)

lemma raw_change_True:
  assumes "raw_change h pd na keys (Some i) = Inr True"
  shows "raw_install h pd na keys i"
proof -
  let ?d = "if nullish (dig (Some i) ''data'') then [] else value_text h (dig (Some i) ''data'')"
  have loader: "recovery_key_at h keys (dig (Some i) ''programIdIndex'') = Some (J_string UPGRADEABLE_LOADER_ID)"
    using assms by (auto simp: raw_change_def split: if_splits)
  obtain data where data: "script_decodeBase58 ?d = Inr data" "4 \<le> length data"
      "read_le data 0 4 = 4 \<or> read_le data 0 4 = 7"
    using assms by (auto simp: raw_change_def LOADER_SET_AUTHORITY_def LOADER_SET_AUTHORITY_CHECKED_def
        split: if_splits sum.splits)
  obtain tag later where tag: "data = [tag, 0, 0, 0] @ later" "tag = 4 \<or> tag = 7"
    using data(3) tag_bytes [OF data(2), of 4] tag_bytes [OF data(2), of 7] by auto
  have shown: "?d = encodeBase58 data" using data(1) by (simp add: script_decode_Inr)
  have "?d \<noteq> []"
  proof
    assume "?d = []"
    then have "script_decodeBase58 [] = Inr data" using data(1) by simp
    then show False using data(2) by (simp add: script_decodeBase58_def)
  qed
  with shown have recorded: "value_text h (dig (Some i) ''data'') = encodeBase58 data" by (simp split: if_splits)
  obtain indices where indices: "list_or_empty ''(instruction.accounts ?? []).map is not a function'' (dig (Some i) ''accounts'') = Inr indices"
      "length indices > 2" "map (\<lambda>i. recovery_key_at h keys (Some i)) indices ! 0 = Some (J_string pd)"
      "map (\<lambda>i. recovery_key_at h keys (Some i)) indices ! 2 = Some (J_string na)"
    using assms loader data
    by (auto simp: raw_change_def LOADER_SET_AUTHORITY_def LOADER_SET_AUTHORITY_CHECKED_def bindR_eq_Inr Let_def
        split: if_splits)
  then obtain a b c more where abc: "indices = a # b # c # more"
    by (cases indices; cases "tl indices"; cases "tl (tl indices)") auto
  then have "dig (Some i) ''accounts'' = Some (J_array indices)" using list_or_empty_long [OF indices(1)] by simp
  with loader recorded tag indices(3,4) abc show ?thesis
    unfolding raw_install_def by (intro exI [of _ tag] exI [of _ later] exI [of _ a] exI [of _ b] exI [of _ c] exI [of _ more]) simp
qed

lemma isAuthorityChange_True:
  assumes "isAuthorityChange h pd na keys i = Inr True"
  shows "parsed_install h pd na i \<or> raw_install h pd na keys i"
  using assms raw_change_True
  by (auto simp: isAuthorityChange_def parsed_install_def split: if_splits option.splits json.splits)

definition installs :: "host \<Rightarrow> string \<Rightarrow> string \<Rightarrow> json option \<Rightarrow> bool" where
  "installs h programData newAuthority transaction \<longleftrightarrow>
     truthy_opt transaction \<and> \<not> truthy_opt (dig (dig transaction ''meta'') ''err'')
     \<and> (\<exists>keys instructions. recoveryAccountKeys transaction = Inr keys \<and> allInstructions transaction = Inr instructions
          \<and> list_ex (\<lambda>i. parsed_install h programData newAuthority i \<or> raw_install h programData newAuthority keys i) instructions)"

lemma proves_installs:
  assumes "provesAuthorityChange h pd na t = Inr (Proved slot time)"
  shows "installs h pd na t"
  using assms isAuthorityChange_True
  by (fastforce simp: provesAuthorityChange_def installs_def bindR_eq_Inr Let_def list_ex_iff dest!: someR_True split: if_splits)

text \<open>The candidates before the one that was found have all been read and refused.\<close>

definition refused :: "string \<times> transfer_verdict \<Rightarrow> bool" where
  "refused c \<longleftrightarrow> (case snd c of Refused _ \<Rightarrow> True | Proved _ _ \<Rightarrow> False)"

lemma seek_found:
  assumes "seek_transfer h client pd na n considered sigs = Inr t" and "tf_signature t = Some s"
  shows "\<exists>before after transaction v. sigs = map fst before @ s # after \<and> list_all refused before
     \<and> tf_considered t = considered @ before @ [(s, v)]
     \<and> rc_transaction client (n + length before) s = Inr transaction \<and> installs h pd na transaction"
  using assms
proof (induction sigs arbitrary: n considered)
  case (Cons x sigs)
  obtain transaction verdict where read: "rc_transaction client n x = Inr transaction"
      "provesAuthorityChange h pd na transaction = Inr verdict"
    using Cons.prems(1) by (auto simp: bindR_eq_Inr)
  show ?case
  proof (cases verdict)
    case (Proved slot time)
    then have "s = x" "tf_considered t = considered @ [(x, verdict)]"
      using Cons.prems read by (auto simp: Let_def)
    moreover have "installs h pd na transaction" using proves_installs read(2) Proved by blast
    ultimately show ?thesis
      using read(1) by (intro exI [of _ "[]"] exI [of _ sigs] exI [of _ transaction] exI [of _ verdict]) simp
  next
    case (Refused reason)
    then have "seek_transfer h client pd na (n + 1) (considered @ [(x, verdict)]) sigs = Inr t"
      using Cons.prems(1) read by (simp add: Let_def)
    from Cons.IH [OF this Cons.prems(2)] obtain before later tx v where
      "sigs = map fst before @ s # later" "list_all refused before"
      "tf_considered t = (considered @ [(x, verdict)]) @ before @ [(s, v)]"
      "rc_transaction client (n + 1 + length before) s = Inr tx" "installs h pd na tx" by blast
    then show ?thesis using Refused
      by (intro exI [of _ "(x, verdict) # before"] exI [of _ later] exI [of _ tx] exI [of _ v]) (simp add: list_all_iff refused_def)
  qed
qed auto

definition live_escrow :: "host \<Rightarrow> recovery_client \<Rightarrow> bool" where
  "live_escrow h client \<longleftrightarrow> cc_genesis client 0 = Inr DEVNET_GENESIS
     \<and> (\<exists>p d later slot later'.
          cc_account client 1 ESCROW_PERMANENT_ID = Inr (Some p) \<and> ai_executable p \<and> ai_owner p = UPGRADEABLE_LOADER_ID
          \<and> h_base64 h (ai_data p) = [2, 0, 0, 0] @ later
          \<and> encodeBase58 (take 32 later) = EXPECTED_PROGRAM_DATA
          \<and> cc_account client 2 EXPECTED_PROGRAM_DATA = Inr (Some d)
          \<and> h_base64 h (ai_data d) = [3, 0, 0, 0] @ slot @ [1] @ later' \<and> length slot = 8
          \<and> encodeBase58 (take 32 later') = cg_vault ESCROW_CUSTODY_GOVERNANCE)"

lemma live_program_Inr:
  assumes "verifyLiveProgram h client ESCROW_PERMANENT_ID EXPECTED_PROGRAM_DATA (cg_vault ESCROW_CUSTODY_GOVERNANCE) = Inr live"
  shows "live_escrow h client \<and> lp_programData live = EXPECTED_PROGRAM_DATA
    \<and> lp_authority live = cg_vault ESCROW_CUSTODY_GOVERNANCE"
proof -
  note run = assms [unfolded verifyLiveProgram_def stop_def]
  have genesis: "cc_genesis client 0 = Inr DEVNET_GENESIS" using run by (auto simp: bindR_eq_Inr split: if_splits)
  obtain p where p: "cc_account client (Suc 0) ESCROW_PERMANENT_ID = Inr (Some p)"
    using run by (auto simp: bindR_eq_Inr split: if_splits option.splits)
  let ?bs = "h_base64 h (ai_data p)"
  have pd: "EXPECTED_PROGRAM_DATA \<noteq> []" by (simp add: EXPECTED_PROGRAM_DATA_def)
  have p': "ai_executable p" "ai_owner p = UPGRADEABLE_LOADER_ID" "4 \<le> length ?bs" "read_le ?bs 0 4 = int 2"
      "script_encodeBase58 (subarray ?bs 4 32) = EXPECTED_PROGRAM_DATA"
    using run pd by (auto simp: genesis p Let_def split: if_splits)
  obtain d where d: "cc_account client 2 EXPECTED_PROGRAM_DATA = Inr (Some d)"
    using run p' by (auto simp: genesis p Let_def bindR_eq_Inr split: if_splits option.splits)
  let ?ds = "h_base64 h (ai_data d)"
  have d': "4 \<le> length ?ds" "read_le ?ds 0 4 = int 3" "12 < length ?ds" "?ds ! 12 = 1"
      "script_encodeBase58 (subarray ?ds 13 32) = cg_vault ESCROW_CUSTODY_GOVERNANCE"
      "lp_programData live = EXPECTED_PROGRAM_DATA" "lp_authority live = cg_vault ESCROW_CUSTODY_GOVERNANCE"
    using run p' by (auto simp: genesis p d Let_def bindR_eq_Inr split: if_splits)
  obtain later where later: "?bs = [2, 0, 0, 0] @ later" using tag_bytes [OF p'(3), of 2] p'(4) by auto
  obtain body where body: "?ds = [3, 0, 0, 0] @ body" using tag_bytes [OF d'(1), of 3] d'(2) by auto
  have long: "8 < length body" "body ! 8 = 1" using d'(3,4) body by simp_all
  then have "body = take 8 body @ [1] @ drop 9 body" using id_take_nth_drop [of 8 body] by simp
  then have "?ds = [3, 0, 0, 0] @ take 8 body @ [1] @ drop 9 body" using body by simp
  moreover have "encodeBase58 (take 32 (drop 9 body)) = cg_vault ESCROW_CUSTODY_GOVERNANCE"
    using d'(5) body by (simp add: subarray_def script_encode_eq)
  moreover have "encodeBase58 (take 32 later) = EXPECTED_PROGRAM_DATA"
    using p'(5) later by (simp add: subarray_def script_encode_eq)
  moreover have "length (take 8 body) = 8" using long by simp
  ultimately show ?thesis
    unfolding live_escrow_def One_nat_def using genesis p p'(1,2) d d'(6,7) later by blast
qed


end
