(* ===== verification/Recovery_Examples.thy ===== *)
theory Recovery_Examples
  imports Recovery Release_Approval
begin

text \<open>A recovery run on a chain that holds the deployment, and what the property gives for it.\<close>

definition program_data_key :: bytes where
  "program_data_key = [23, 178, 251, 60, 7, 77, 7, 178, 14, 28, 8, 232, 217, 95, 65, 56, 182, 53, 171, 13, 244, 6, 202, 19, 131, 159, 225, 223, 175, 245, 2, 15]"

definition vault_key :: bytes where
  "vault_key = [211, 24, 181, 75, 229, 54, 148, 78, 21, 202, 47, 59, 25, 134, 2, 196, 195, 55, 116, 79, 230, 64, 180, 75, 169, 253, 155, 217, 112, 175, 200, 55]"

lemma recovery_keys:
  "encodeBase58 program_data_key = EXPECTED_PROGRAM_DATA"
  "encodeBase58 vault_key = cg_vault ESCROW_CUSTODY_GOVERNANCE"
proof -
  have "release_decodeBase58 EXPECTED_PROGRAM_DATA = Inr program_data_key"
    by (simp add: EXPECTED_PROGRAM_DATA_def program_data_key_def release_decodeBase58_def ALPHABET_MAP_def ALPHABET_def low_bytes.simps)
  then show "encodeBase58 program_data_key = EXPECTED_PROGRAM_DATA" by (simp add: release_decode_Inr)
  have "release_decodeBase58 (cg_vault ESCROW_CUSTODY_GOVERNANCE) = Inr vault_key"
    by (simp add: ESCROW_CUSTODY_GOVERNANCE_def vault_key_def release_decodeBase58_def ALPHABET_MAP_def ALPHABET_def low_bytes.simps)
  then show "encodeBase58 vault_key = cg_vault ESCROW_CUSTODY_GOVERNANCE" by (simp add: release_decode_Inr)
qed

definition recovery_host :: host where
  "recovery_host = \<lparr>h_sha = id, h_base64 = (\<lambda>s. if s = ''P'' then [2, 0, 0, 0] @ program_data_key
       else [3, 0, 0, 0] @ replicate 8 0 @ [1] @ vault_key),
     h_num_text = (\<lambda>_. []), h_to_num = (\<lambda>_. Whole 2)\<rparr>"

definition transfer_transaction :: json where
  "transfer_transaction = J_object
     [(''transaction'', J_object [(''message'', J_object
        [(''accountKeys'', J_array [J_string ESCROW_PERMANENT_ID]),
         (''instructions'', J_array [J_object [(''parsed'', J_object [(''type'', J_string ''setAuthority''),
            (''info'', J_object [(''account'', J_string EXPECTED_PROGRAM_DATA),
              (''newAuthority'', J_string (cg_vault ESCROW_CUSTODY_GOVERNANCE))])])]])])])]"

definition recovery_chain :: recovery_client where
  "recovery_chain = \<lparr>cc_endpoint = ''http://devnet'', cc_genesis = (\<lambda>_. Inr DEVNET_GENESIS),
     cc_account = (\<lambda>n _. Inr (Some \<lparr>ai_owner = UPGRADEABLE_LOADER_ID, ai_executable = True,
       ai_data = (if n = 1 then ''P'' else ''D''), ai_lamports = 0\<rparr>)),
     cc_statuses = (\<lambda>_ _. Inr None),
     rc_signatures = (\<lambda>_ _ _. Inr (Some [''s''])), rc_transaction = (\<lambda>_ _. Inr (Some transfer_transaction))\<rparr>"

lemma key_lengths: "length program_data_key = 32" "length vault_key = 32"
  by (simp_all add: program_data_key_def vault_key_def)

lemma recovery_live: "\<exists>live. verifyLiveProgram recovery_host recovery_chain ESCROW_PERMANENT_ID EXPECTED_PROGRAM_DATA
    (cg_vault ESCROW_CUSTODY_GOVERNANCE) = Inr live \<and> lp_programData live = EXPECTED_PROGRAM_DATA"
proof -
  have "h_base64 recovery_host ''P'' = [2, 0, 0, 0] @ program_data_key"
    "h_base64 recovery_host ''D'' = [3, 0, 0, 0] @ replicate 8 0 @ [1] @ vault_key"
    by (simp_all add: recovery_host_def)
  moreover have "read_le ([2, 0, 0, 0] @ xs) 0 4 = 2" "read_le ([3, 0, 0, 0] @ xs) 0 4 = 3" for xs
    by (simp_all add: read_le_def subarray_def)
  moreover have "script_encodeBase58 (subarray ([2, 0, 0, 0] @ program_data_key) 4 32) = EXPECTED_PROGRAM_DATA"
    "script_encodeBase58 (subarray ([3, 0, 0, 0] @ replicate 8 0 @ [1] @ vault_key) 13 32) = cg_vault ESCROW_CUSTODY_GOVERNANCE"
    by (simp_all add: subarray_def script_encode_eq recovery_keys key_lengths)
  ultimately show ?thesis
    by (simp add: verifyLiveProgram_def recovery_chain_def Let_def slot_of_def key_lengths nth_append)
qed

lemma recovery_transfer:
  "provesAuthorityChange recovery_host EXPECTED_PROGRAM_DATA (cg_vault ESCROW_CUSTODY_GOVERNANCE) (Some transfer_transaction)
     = Inr (Proved J_null J_null)"
proof -
  have "map lower ''setAuthority'' = ''setauthority''" by code_simp
  then show ?thesis
    by (simp add: provesAuthorityChange_def transfer_transaction_def truthy_opt_def dig_def recoveryAccountKeys_def allInstructions_def
        list_or_empty_def nullish_def Let_def isAuthorityChange_def parsed_change_def or_else_def value_text_def starts_with_def
        or_json_null_def)
qed

lemma recovery_runs: "\<exists>facts. recover recovery_host recovery_chain = Inr facts \<and> recovery_complete facts"
proof -
  obtain live where live: "verifyLiveProgram recovery_host recovery_chain ESCROW_PERMANENT_ID EXPECTED_PROGRAM_DATA
    (cg_vault ESCROW_CUSTODY_GOVERNANCE) = Inr live" "lp_programData live = EXPECTED_PROGRAM_DATA"
    using recovery_live by blast
  have "verifyDeployment recovery_host recovery_chain 3 DEPLOY_SIGNATURE ESCROW_PERMANENT_ID = Inr (Proved J_null J_null)"
    by (simp add: verifyDeployment_def recovery_chain_def transfer_transaction_def truthy_opt_def dig_def recoveryAccountKeys_def
        list_or_empty_def nullish_def Let_def key_value_def or_json_null_def)
  moreover have "findAuthorityTransfer recovery_host recovery_chain 4 EXPECTED_PROGRAM_DATA (cg_vault ESCROW_CUSTODY_GOVERNANCE) 25
      = Inr \<lparr>tf_signature = Some ''s'', tf_slot = J_null, tf_blockTime = J_null, tf_considered = [(''s'', Proved J_null J_null)]\<rparr>"
    by (simp add: findAuthorityTransfer_def recovery_chain_def recovery_transfer Let_def)
  ultimately show ?thesis
    using live by (simp add: recover_def Let_def recovery_complete_def)
qed


end
