(* ===== verification/Script_Run.thy ===== *)
theory Script_Run
  imports Prelude
begin

text \<open>
  A script as a function of its state: it answers a value or the error it throws, and leaves a
  state behind either way. Whatever the script has printed, written or sent by then is in that
  state, so that a run that throws half way shows what it had done.
\<close>

type_synonym ('s, 'a) script = "'s \<Rightarrow> 'a result \<times> 's"

definition then_do :: "('s, 'a) script \<Rightarrow> ('a \<Rightarrow> ('s, 'b) script) \<Rightarrow> ('s, 'b) script" where
  "then_do m f = (\<lambda>s. case m s of (Inl e, s') \<Rightarrow> (Inl e, s') | (Inr a, s') \<Rightarrow> f a s')"

definition yields :: "'a \<Rightarrow> ('s, 'a) script" where "yields a = (\<lambda>s. (Inr a, s))"

definition lifted :: "'a result \<Rightarrow> ('s, 'a) script" where "lifted r = (\<lambda>s. (r, s))"

definition stops :: "err_class \<Rightarrow> string \<Rightarrow> ('s, 'a) script" where "stops c m = lifted (throw c m)"

definition alters :: "('s \<Rightarrow> 's) \<Rightarrow> ('s, unit) script" where "alters g = (\<lambda>s. (Inr (), g s))"

definition stops_if :: "bool \<Rightarrow> err_class \<Rightarrow> string \<Rightarrow> ('s, unit) script" where
  "stops_if b c m = (if b then stops c m else yields ())"

fun for_each :: "('a \<Rightarrow> ('s, 'b) script) \<Rightarrow> 'a list \<Rightarrow> ('s, 'b list) script" where
  "for_each f [] = yields []"
| "for_each f (x # xs) = then_do (f x) (\<lambda>y. then_do (for_each f xs) (\<lambda>ys. yields (y # ys)))"

section \<open>How a script ends\<close>

lemma yields_app [simp]: "yields a s = (Inr a, s)"
  by (simp add: yields_def)

lemma lifted_app [simp]: "lifted r s = (r, s)"
  by (simp add: lifted_def)

lemma stops_app [simp]: "stops c m s = (throw c m, s)"
  by (simp add: stops_def)

lemma alters_app [simp]: "alters g s = (Inr (), g s)"
  by (simp add: alters_def)

lemma then_do_Inl: "m s = (Inl e, s') \<Longrightarrow> then_do m f s = (Inl e, s')"
  by (simp add: then_do_def)

lemma then_do_Inr: "m s = (Inr a, s') \<Longrightarrow> then_do m f s = f a s'"
  by (simp add: then_do_def)

lemma then_do_simps [simp]:
  "then_do (yields a) f = f a"
  "then_do (stops c m) f = stops c m"
  "then_do (lifted (Inl e)) f = lifted (Inl e)"
  "then_do (lifted (Inr a)) f = f a"
  by (simp_all add: then_do_def fun_eq_iff)

lemma then_do_alters [simp]: "then_do (alters g) f s = f () (g s)"
  by (simp add: then_do_def)

lemma then_do_lifted: "then_do (lifted r) f s = (case r of Inl e \<Rightarrow> (Inl e, s) | Inr a \<Rightarrow> f a s)"
  by (simp add: then_do_def split: sum.split)

lemma then_do_stops_if [simp]: "then_do (stops_if b c m) f s = (if b then (throw c m, s) else f () s)"
  by (simp add: stops_if_def)

lemma stops_if_app [simp]: "stops_if b c m s = ((if b then throw c m else Inr ()), s)"
  by (simp add: stops_if_def)

lemma then_do_ends: "then_do m f s = (Inr b, s') \<longleftrightarrow> (\<exists>a s1. m s = (Inr a, s1) \<and> f a s1 = (Inr b, s'))"
  by (auto simp: then_do_def split: prod.splits sum.splits)

lemma then_do_assoc: "then_do (then_do m f) g = then_do m (\<lambda>a. then_do (f a) g)"
  by (simp add: then_do_def fun_eq_iff split: prod.splits sum.splits)

lemma then_do_if: "then_do (if b then m else m') f = (if b then then_do m f else then_do m' f)"
  by simp

section \<open>What a script leaves alone\<close>

text \<open>An observation of the state that the script never changes, whether it throws or not.\<close>

definition keeps :: "('s \<Rightarrow> 'o) \<Rightarrow> ('s, 'a) script \<Rightarrow> bool" where
  "keeps obs m \<longleftrightarrow> (\<forall>s. obs (snd (m s)) = obs s)"

named_theorems keeping

lemma keeps_then [keeping]: "keeps obs m \<Longrightarrow> (\<And>a. keeps obs (f a)) \<Longrightarrow> keeps obs (then_do m f)"
  unfolding keeps_def then_do_def by (simp split: prod.split sum.split) (metis snd_conv)

lemma keeps_yields [keeping]: "keeps obs (yields a)"
  by (simp add: keeps_def)

lemma keeps_lifted [keeping]: "keeps obs (lifted r)"
  by (simp add: keeps_def)

lemma keeps_stops [keeping]: "keeps obs (stops c m)"
  by (simp add: keeps_def)

lemma keeps_stops_if [keeping]: "keeps obs (stops_if b c m)"
  by (simp add: keeps_def)

lemma keeps_alters [keeping]: "(\<And>s. obs (g s) = obs s) \<Longrightarrow> keeps obs (alters g)"
  by (simp add: keeps_def)

lemma keeps_if [keeping]: "(b \<Longrightarrow> keeps obs m) \<Longrightarrow> (\<not> b \<Longrightarrow> keeps obs m') \<Longrightarrow> keeps obs (if b then m else m')"
  by simp

lemma keeps_option [keeping]:
  "(v = None \<Longrightarrow> keeps obs m) \<Longrightarrow> (\<And>a. v = Some a \<Longrightarrow> keeps obs (f a)) \<Longrightarrow>
   keeps obs (case v of None \<Rightarrow> m | Some a \<Rightarrow> f a)"
  by (simp split: option.split)

lemma keeps_for_each [keeping]: "(\<And>x. keeps obs (f x)) \<Longrightarrow> keeps obs (for_each f xs)"
  by (induction xs) (simp_all add: keeps_yields keeps_then)

lemma keeps_after: "keeps obs m \<Longrightarrow> m s = (r, s') \<Longrightarrow> obs s' = obs s"
  unfolding keeps_def by (metis snd_conv)

lemma for_each_ends:
  "for_each f (x # xs) s = (Inr zs, s') \<longleftrightarrow>
     (\<exists>y s1 ys. f x s = (Inr y, s1) \<and> for_each f xs s1 = (Inr ys, s') \<and> zs = y # ys)"
  by (auto simp: then_do_ends)

section \<open>What a script sends\<close>

text \<open>
  A script that appends to an observed log at most the given entries, in order: a run that throws has
  appended a prefix of them, a run that answers has appended them all.
\<close>

definition emits :: "('s \<Rightarrow> 'e list) \<Rightarrow> ('s, 'a) script \<Rightarrow> 'e list \<Rightarrow> bool" where
  "emits obs m xs \<longleftrightarrow> (\<forall>s. \<exists>n. obs (snd (m s)) = obs s @ take n xs \<and> ((\<exists>a. fst (m s) = Inr a) \<longrightarrow> length xs \<le> n))"

named_theorems emitting

lemma emits_prefix: "emits obs m xs \<Longrightarrow> \<exists>n. obs (snd (m s)) = obs s @ take n xs"
  by (auto simp: emits_def)

lemma emits_all: "emits obs m xs \<Longrightarrow> m s = (Inr a, s') \<Longrightarrow> obs s' = obs s @ xs"
  unfolding emits_def by (metis fst_conv snd_conv take_all)

lemma emits_then:
  assumes "emits obs m xs" and "\<And>a s s'. m s = (Inr a, s') \<Longrightarrow> emits obs (f a) ys"
  shows "emits obs (then_do m f) (xs @ ys)"
  unfolding emits_def
proof
  fix s
  obtain n where n: "obs (snd (m s)) = obs s @ take n xs" "(\<exists>a. fst (m s) = Inr a) \<longrightarrow> length xs \<le> n"
    using assms(1) by (auto simp: emits_def)
  show "\<exists>n. obs (snd (then_do m f s)) = obs s @ take n (xs @ ys)
      \<and> ((\<exists>a. fst (then_do m f s) = Inr a) \<longrightarrow> length (xs @ ys) \<le> n)"
  proof (cases "m s")
    case (Pair r s')
    show ?thesis
    proof (cases r)
      case (Inl e)
      with Pair n have "obs (snd (then_do m f s)) = obs s @ take (min n (length xs)) (xs @ ys)"
        by (simp add: then_do_Inl min_def)
      with Pair Inl show ?thesis
        by (intro exI [of _ "min n (length xs)"]) (simp add: then_do_Inl)
    next
      case (Inr a)
      with Pair n have "obs s' = obs s @ xs"
        by simp
      moreover obtain k where "obs (snd (f a s')) = obs s' @ take k ys"
        "(\<exists>b. fst (f a s') = Inr b) \<longrightarrow> length ys \<le> k"
        using assms(2) [of s a s'] Pair Inr by (auto simp: emits_def)
      ultimately show ?thesis
        using Pair Inr by (intro exI [of _ "length xs + k"]) (simp add: then_do_Inr)
    qed
  qed
qed

lemma emits_quiet: "keeps obs m \<Longrightarrow> emits obs m []"
  by (simp add: keeps_def emits_def)

lemma emits_then_quiet [emitting]:
  "keeps obs m \<Longrightarrow> (\<And>a s s'. m s = (Inr a, s') \<Longrightarrow> emits obs (f a) ys) \<Longrightarrow> emits obs (then_do m f) ys"
  using emits_then [OF emits_quiet, of obs m f ys] by simp

lemma emits_then_last: "emits obs m xs \<Longrightarrow> (\<And>a. keeps obs (f a)) \<Longrightarrow> emits obs (then_do m f) xs"
  using emits_then [of obs m xs f "[]"] by (simp add: emits_quiet)

lemma emits_stops [emitting]: "emits obs (stops c t) xs"
  unfolding emits_def by (intro allI exI [of _ 0]) simp

lemma emits_lifted [emitting]: "(\<And>a. r = Inr a \<Longrightarrow> emits obs (f a) xs) \<Longrightarrow> emits obs (then_do (lifted r) f) xs"
  by (intro emits_then_quiet keeps_lifted) simp

lemma emits_alters: "(\<And>s. obs (g s) = obs s @ xs) \<Longrightarrow> emits obs (alters g) xs"
  unfolding emits_def by (intro allI exI [of _ "length xs"]) simp

lemma emits_option [emitting]:
  "(v = None \<Longrightarrow> emits obs m xs) \<Longrightarrow> (\<And>a. v = Some a \<Longrightarrow> emits obs (f a) xs) \<Longrightarrow>
   emits obs (case v of None \<Rightarrow> m | Some a \<Rightarrow> f a) xs"
  by (simp split: option.split)

end
