(* ===== verification/Ceremony.thy ===== *)
theory Ceremony
  imports Script_Run Deployed_Program
begin

text \<open>
  The ceremony that creates the custody multisig (\<open>scripts/create-escrow-custody-multisig.mjs\<close>):
  its execution boundary, its offline checks, the key it must find again, and the one transaction
  it may send. What @solana/web3.js, @sqds/multisig and the cluster answer is the world it is given;
  the files and everything printed, written or sent are its state.
\<close>

section \<open>The world and the state\<close>

record keypair =
  kp_secret :: bytes
  kp_public :: string

record ceremony_member =
  cm_key :: string
  cm_mask :: int

record chain_multisig =
  mu_createKey :: string
  mu_threshold :: int
  mu_timeLock :: int
  mu_configAuthority :: string
  mu_members :: "ceremony_member list"

record create_ix =
  ix_treasury :: string
  ix_creator :: string
  ix_multisigPda :: string
  ix_configAuthority :: "string option"
  ix_threshold :: int
  ix_members :: "ceremony_member list"
  ix_timeLock :: int
  ix_createKey :: string
  ix_rentCollector :: "string option"

record create_tx =
  tx_ix :: create_ix
  tx_payer :: string
  tx_blockhash :: string
  tx_signers :: "keypair list"

record ceremony_world =
  w_host :: host
  w_json :: "string \<Rightarrow> json option"
  w_resolve :: "string \<Rightarrow> string"
  w_dirname :: "string \<Rightarrow> string"
  w_keypair :: "bytes \<Rightarrow> keypair option"
  w_generate :: keypair
  w_valid_key :: "string \<Rightarrow> bool"
  w_squads_id :: string
  w_mask :: "string list \<Rightarrow> int"
  w_multisigPda :: "string \<Rightarrow> string \<Rightarrow> string"
  w_vaultPda :: "string \<Rightarrow> nat \<Rightarrow> string \<Rightarrow> string"
  w_endpoint_of :: "string \<Rightarrow> string"
  w_genesis :: "string result"
  w_executable :: "string \<Rightarrow> bool option result"
  w_treasury :: "string result"
  w_blockhash :: "string result"
  w_send :: "create_tx \<Rightarrow> string result"
  w_confirm :: "string \<Rightarrow> unit result"
  w_multisig :: "string \<Rightarrow> chain_multisig result"

datatype ceremony_effect =
    Printed string
  | Made_dir string
  | Wrote_private string string
  | Sent create_tx

text \<open>A file that is there and cannot be read has no content.\<close>

record ceremony_state =
  cs_files :: "string \<Rightarrow> string option option"
  cs_effects :: "ceremony_effect list"

type_synonym env = "string \<Rightarrow> string option"

type_synonym 'a ceremony = "(ceremony_state, 'a) script"

definition act :: "ceremony_effect \<Rightarrow> ceremony_state \<Rightarrow> ceremony_state" where
  "act e s = s\<lparr>cs_effects := cs_effects s @ [e]\<rparr>"

definition write_out :: "string \<Rightarrow> unit ceremony" where "write_out t = alters (act (Printed t))"

section \<open>The policy of the ceremony\<close>

definition DEVNET_ENDPOINT :: string where "DEVNET_ENDPOINT = ''https://api.devnet.solana.com''"

definition CEREMONY_SQUADS_ID :: string where
  "CEREMONY_SQUADS_ID = ''SQDS4ep65T869zMMBKyuUq6aD6EgTu8psMjkvj52pCf''"

definition CUSTODY_MEMBERS :: "string list" where
  "CUSTODY_MEMBERS =
     [''HDkMBufpYfm1LN6apVkeV3aA2dhMk57PmBujwJ4j4Ecx'',
      ''5y12g4GKbba3k6WDUyZT8eUfeBdboxxGrjkdjM4kX2Wo'',
      ''BJmFM4k7Q32CiCYSdoYkAhXdD5Sk3BegMh2cbEAsgSwJ'']"

definition CUSTODY_THRESHOLD :: int where "CUSTODY_THRESHOLD = 2"

definition CUSTODY_VAULT_INDEX :: nat where "CUSTODY_VAULT_INDEX = 0"

definition CUSTODY_TIME_LOCK :: int where "CUSTODY_TIME_LOCK = 0"

definition custodyPermissions :: "ceremony_world \<Rightarrow> int" where
  "custodyPermissions w = w_mask w [''Initiate'', ''Vote'', ''Execute'']"

definition buildMembers :: "ceremony_world \<Rightarrow> string list \<Rightarrow> ceremony_member list" where
  "buildMembers w addresses = map (\<lambda>a. \<lparr>cm_key = a, cm_mask = custodyPermissions w\<rparr>) addresses"

section \<open>Modes\<close>

datatype ceremony_mode = Execute_mode | Preflight_mode | No_mode | Unknown_mode

definition parseMode :: "string list \<Rightarrow> ceremony_mode" where
  "parseMode argv =
     (let flags = filter (starts_with ''--'') argv in
      if flags = [''--execute''] then Execute_mode
      else if flags = [''--preflight''] then Preflight_mode
      else if flags = [] then No_mode
      else Unknown_mode)"

definition mayBroadcast :: "ceremony_mode \<Rightarrow> bool" where "mayBroadcast mode \<longleftrightarrow> mode = Execute_mode"

section \<open>Offline safety\<close>

abbreviation len_text :: "'a list \<Rightarrow> string" where "len_text xs \<equiv> dec_nat (length xs)"

definition checkSafety :: "ceremony_world \<Rightarrow> string \<Rightarrow> string \<Rightarrow> int \<Rightarrow> string list \<Rightarrow> string list" where
  "checkSafety w multisigPda vaultPda threshold members =
     (let distinct_members = remdups members in
      (if threshold \<noteq> CUSTODY_THRESHOLD
       then [''threshold is '' @ dec_int threshold @ '', expected '' @ dec_int CUSTODY_THRESHOLD] else [])
      @ (if length members \<noteq> 3 then [len_text members @ '' members, expected 3''] else [])
      @ map (\<lambda>m. ''member '' @ m @ '' is not a valid public key'') (filter (\<lambda>m. \<not> w_valid_key w m) members)
      @ (if threshold > int (length members)
         then [''a threshold of '' @ dec_int threshold @ '' cannot be met by '' @ len_text members @ '' members''] else [])
      @ (if length distinct_members \<noteq> length members
         then [''members contain duplicates: '' @ len_text members @ '' entries, ''
                 @ len_text distinct_members @ '' distinct keys''] else [])
      @ (if List.member distinct_members vaultPda then [''the vault '' @ vaultPda @ '' is one of its own members''] else [])
      @ (if List.member distinct_members multisigPda
         then [''the multisig '' @ multisigPda @ '' is one of its own members''] else [])
      @ (if multisigPda = vaultPda then [''the multisig and its vault are the same address''] else []))"

section \<open>The cluster\<close>

definition ceremony_assertDevnet :: "ceremony_world \<Rightarrow> string \<Rightarrow> string result" where
  "ceremony_assertDevnet w endpoint =
     bindR (w_genesis w) (\<lambda>genesisHash.
     if genesisHash \<noteq> DEVNET_GENESIS
     then throw CeremonyError
            (''STOP -- WRONG CLUSTER'' @ [CHR 10] @ ''  endpoint '' @ w_endpoint_of w endpoint @ [CHR 10]
               @ ''  genesis  '' @ genesisHash @ [CHR 10]
               @ ''  expected '' @ DEVNET_GENESIS @ '' (devnet)'' @ [CHR 10] @ ''Nothing was created.'')
     else Inr genesisHash)"

definition assertSquadsProgram :: "ceremony_world \<Rightarrow> string \<Rightarrow> string \<Rightarrow> unit result" where
  "assertSquadsProgram w endpoint programId =
     bindR (w_executable w programId) (\<lambda>account.
     case account of
       None \<Rightarrow> throw CeremonyError
         (''STOP -- the Squads V4 program '' @ programId @ '' does not exist on '' @ w_endpoint_of w endpoint)
     | Some executable \<Rightarrow>
         if \<not> executable
         then throw CeremonyError
                (''STOP -- the account at '' @ programId @ '' exists but is not executable; it is not the Squads program'')
         else Inr ())"

definition deriveAddresses :: "ceremony_world \<Rightarrow> string \<Rightarrow> string \<Rightarrow> string \<times> string" where
  "deriveAddresses w createKey programId =
     (let multisigPda = w_multisigPda w createKey programId in
      (multisigPda, w_vaultPda w multisigPda CUSTODY_VAULT_INDEX programId))"

section \<open>Key material\<close>

text \<open>\<open>Uint8Array.from\<close>: every element as a number, cut to its whole part and to eight bits.\<close>

fun to_uint8 :: "js_number \<Rightarrow> byte" where
  "to_uint8 (Whole n) = word_of_int n"
| "to_uint8 (Fractional n) = word_of_int (if n < 0 then n + 1 else n)"
| "to_uint8 _ = 0"

definition uint8_from :: "host \<Rightarrow> json list \<Rightarrow> bytes" where
  "uint8_from h xs = map (\<lambda>x. to_uint8 (json_number h (Some x))) xs"

definition not_set :: "env \<Rightarrow> string \<Rightarrow> bool" where
  "not_set env variable \<longleftrightarrow> env variable = None \<or> env variable = Some []"

definition readable :: "(string \<Rightarrow> string option option) \<Rightarrow> string \<Rightarrow> string option" where
  "readable files path = (case files path of None \<Rightarrow> None | Some c \<Rightarrow> c)"

definition loadKeypairFromEnv ::
    "ceremony_world \<Rightarrow> (string \<Rightarrow> string option option) \<Rightarrow> env \<Rightarrow> string \<Rightarrow> keypair result" where
  "loadKeypairFromEnv w files env variable =
     (if not_set env variable
      then throw CeremonyError
             (variable @ '' is not set. It must hold the *path* to a keypair JSON file, never the key itself.'')
      else let path = the (env variable) in
      case readable files (w_resolve w path) of
        None \<Rightarrow> throw CeremonyError (variable @ '' points at '' @ path @ '', which could not be read.'')
      | Some raw \<Rightarrow>
          (case w_json w raw of
             Some (J_array parsed) \<Rightarrow>
               (case w_keypair w (uint8_from (w_host w) parsed) of
                  None \<Rightarrow> throw CeremonyError (''the file at '' @ variable @ '' is not a valid ed25519 keypair.'')
                | Some k \<Rightarrow> Inr k)
           | _ \<Rightarrow> throw CeremonyError (''the file at '' @ variable @ '' is not a JSON keypair array.'')))"

definition secret_text :: "ceremony_world \<Rightarrow> keypair \<Rightarrow> string" where
  "secret_text w k =
     stringify (h_num_text (w_host w)) (J_array (map (\<lambda>b. J_number (Whole (uint b))) (kp_secret k)))"

definition CREATE_KEY_UNSET :: string where
  "CREATE_KEY_UNSET =
     ''PPV_CUSTODY_CREATE_KEY is not set. It must hold the *path* to the ceremony createKey file, ''
     @ ''never the key itself.'' @ [CHR 10]
     @ ''The createKey has to outlive --preflight: it is what the multisig address derives from, so ''
     @ ''a key generated fresh in each process derives a different address every run and the address ''
     @ ''an operator reviewed could never be the one created. Generating one inside an ephemeral CI ''
     @ ''or session and printing its PDA as authoritative is the same mistake with extra steps.'' @ [CHR 10]
     @ ''Set it to a path on the operator machine (ending in -keypair.json, which .gitignore ''
     @ ''excludes) and re-run.''"

definition keep_key :: "string \<Rightarrow> string \<Rightarrow> string \<Rightarrow> ceremony_state \<Rightarrow> ceremony_state" where
  "keep_key dir full content s =
     act (Wrote_private full content) (act (Made_dir dir) s)\<lparr>cs_files := (cs_files s)(full \<mapsto> Some content)\<rparr>"

definition resolveCreateKey :: "ceremony_world \<Rightarrow> ceremony_mode \<Rightarrow> env \<Rightarrow> keypair ceremony" where
  "resolveCreateKey w mode env =
     (if not_set env ''PPV_CUSTODY_CREATE_KEY'' then stops CeremonyError CREATE_KEY_UNSET
      else let path = the (env ''PPV_CUSTODY_CREATE_KEY''); full = w_resolve w path in
      (\<lambda>s.
         if cs_files s full \<noteq> None
         then (loadKeypairFromEnv w (cs_files s) env ''PPV_CUSTODY_CREATE_KEY'', s)
         else if mayBroadcast mode
         then (throw CeremonyError
                 (''PPV_CUSTODY_CREATE_KEY points at '' @ path @ '', which does not exist. --execute must reuse the ''
                  @ ''createKey generated during --preflight, not make a new one; a new one creates a different ''
                  @ ''multisig address than the one that was reviewed.''), s)
         else (Inr (w_generate w), keep_key (w_dirname w full) full (secret_text w (w_generate w)) s)))"

section \<open>Reporting\<close>

definition yes_no :: "bool \<Rightarrow> string" where "yes_no b = (if b then ''yes'' else ''no'')"

fun member_lines :: "nat \<Rightarrow> string list \<Rightarrow> string list" where
  "member_lines i [] = []"
| "member_lines i (m # ms) = (''MEMBER_'' @ dec_nat (Suc i) @ ''='' @ m) # member_lines (Suc i) ms"

definition formatSummary ::
    "ceremony_world \<Rightarrow> string \<Rightarrow> string \<Rightarrow> string \<Rightarrow> string \<Rightarrow> string list \<Rightarrow> int \<Rightarrow> string list \<Rightarrow> string" where
  "formatSummary w genesisHash multisigPda vaultPda createKeyPublic members threshold failures =
     join_with [CHR 10]
       ([''NETWORK=devnet'', ''GENESIS_HASH='' @ genesisHash, ''SQUADS_PROGRAM_ID='' @ w_squads_id w,
         ''THRESHOLD='' @ dec_int threshold]
        @ member_lines 0 members
        @ [''MEMBER_PERMISSIONS=Initiate+Vote+Execute'',
           ''PERMISSION_MASK='' @ dec_int (custodyPermissions w),
           ''TIME_LOCK='' @ dec_int CUSTODY_TIME_LOCK,
           ''VAULT_INDEX='' @ dec_nat CUSTODY_VAULT_INDEX,
           ''CREATE_KEY_PUBLIC='' @ createKeyPublic,
           ''EXPECTED_CUSTODY_MULTISIG='' @ multisigPda,
           ''EXPECTED_CUSTODY_VAULT='' @ vaultPda,
           ''THRESHOLD_VALID='' @ yes_no (threshold = CUSTODY_THRESHOLD),
           ''MEMBERS_UNIQUE='' @ yes_no (length (remdups members) = length members),
           ''VAULT_NOT_MEMBER='' @ yes_no (\<not> List.member members vaultPda),
           ''MULTISIG_NOT_MEMBER='' @ yes_no (\<not> List.member members multisigPda),
           ''SAFETY_CHECKS='' @ (if failures = [] then ''pass'' else ''FAIL'')]
        @ map (\<lambda>f. ''  failure: '' @ f) failures)
     @ [CHR 10]"

section \<open>Reading it back\<close>

record on_chain =
  oc_thresholdOk :: bool
  oc_membersOk :: bool
  oc_permissionsOk :: bool
  oc_vaultOk :: bool
  oc_threshold :: int
  oc_timeLock :: int
  oc_members :: "string list"

definition verifyOnChain :: "ceremony_world \<Rightarrow> string \<Rightarrow> string \<Rightarrow> on_chain result" where
  "verifyOnChain w multisigPda vaultPda =
     bindR (w_multisig w multisigPda) (\<lambda>account.
     let expectedMask = custodyPermissions w;
         onChainMembers = map cm_key (mu_members account);
         rederivedVault = snd (deriveAddresses w (mu_createKey account) CEREMONY_SQUADS_ID)
     in Inr \<lparr>oc_thresholdOk = (mu_threshold account = CUSTODY_THRESHOLD),
             oc_membersOk = (length onChainMembers = length CUSTODY_MEMBERS
                             \<and> list_all (List.member onChainMembers) CUSTODY_MEMBERS
                             \<and> length (remdups onChainMembers) = length onChainMembers),
             oc_permissionsOk = list_all (\<lambda>m. cm_mask m = expectedMask) (mu_members account),
             oc_vaultOk = (rederivedVault = vaultPda),
             oc_threshold = mu_threshold account,
             oc_timeLock = mu_timeLock account,
             oc_members = onChainMembers\<rparr>)"

definition all_ok :: "on_chain \<Rightarrow> bool" where
  "all_ok c \<longleftrightarrow> oc_thresholdOk c \<and> oc_membersOk c \<and> oc_permissionsOk c \<and> oc_vaultOk c"

section \<open>The ceremony\<close>

record ceremony_result =
  re_ok :: bool
  re_mode :: ceremony_mode
  re_broadcast :: bool
  re_failures :: "string list option"
  re_multisig :: "string option"
  re_vault :: "string option"
  re_createKeyPublic :: "string option"
  re_genesisHash :: "string option"
  re_signature :: "string option"
  re_onChain :: "on_chain option"

definition refused :: "ceremony_mode \<Rightarrow> ceremony_result" where
  "refused mode =
     \<lparr>re_ok = False, re_mode = mode, re_broadcast = False, re_failures = None, re_multisig = None, re_vault = None,
      re_createKeyPublic = None, re_genesisHash = None, re_signature = None, re_onChain = None\<rparr>"

definition usage_text :: "ceremony_mode \<Rightarrow> string list \<Rightarrow> string" where
  "usage_text mode argv =
     ''PPV Escrow custody multisig ceremony'' @ [CHR 10, CHR 10]
     @ (if mode = Unknown_mode then ''Unrecognized arguments: '' @ join_with '' '' argv @ [CHR 10, CHR 10] else [])
     @ ''  node scripts/create-escrow-custody-multisig.mjs --preflight   prove and derive, create nothing'' @ [CHR 10]
     @ ''  node scripts/create-escrow-custody-multisig.mjs --execute     create the multisig on devnet'' @ [CHR 10, CHR 10]
     @ ''Nothing was created. --execute is an explicit operator action and is never the default.'' @ [CHR 10]"

definition create_instruction :: "ceremony_world \<Rightarrow> string \<Rightarrow> string \<Rightarrow> string \<Rightarrow> string \<Rightarrow> create_ix" where
  "create_instruction w treasury operator multisigPda createKey =
     \<lparr>ix_treasury = treasury, ix_creator = operator, ix_multisigPda = multisigPda, ix_configAuthority = None,
      ix_threshold = CUSTODY_THRESHOLD, ix_members = buildMembers w CUSTODY_MEMBERS, ix_timeLock = CUSTODY_TIME_LOCK,
      ix_createKey = createKey, ix_rentCollector = None\<rparr>"

definition created_text :: "string \<Rightarrow> string \<Rightarrow> string \<Rightarrow> on_chain \<Rightarrow> string" where
  "created_text multisigAddress vaultAddress signature onChain =
     join_with [CHR 10]
       [[], ''NETWORK=devnet'', ''CUSTODY_MULTISIG='' @ multisigAddress, ''CUSTODY_VAULT='' @ vaultAddress,
        ''CUSTODY_THRESHOLD='' @ dec_int CUSTODY_THRESHOLD, ''CUSTODY_CREATION_TX='' @ signature,
        ''ONCHAIN_THRESHOLD_VERIFIED='' @ yes_no (oc_thresholdOk onChain),
        ''ONCHAIN_MEMBERS_VERIFIED='' @ yes_no (oc_membersOk onChain),
        ''ONCHAIN_PERMISSIONS_VERIFIED='' @ yes_no (oc_permissionsOk onChain),
        ''ONCHAIN_VAULT_VERIFIED='' @ yes_no (oc_vaultOk onChain), []]"

text \<open>The part of \<open>main\<close> that only \<open>--execute\<close> reaches.\<close>

definition broadcast_phase ::
    "ceremony_world \<Rightarrow> env \<Rightarrow> keypair \<Rightarrow> string \<Rightarrow> string \<Rightarrow> ceremony_result ceremony" where
  "broadcast_phase w env createKey multisigAddress vaultAddress =
     then_do (\<lambda>s. (loadKeypairFromEnv w (cs_files s) env ''PPV_OPERATOR_KEYPAIR'', s)) (\<lambda>operator.
     then_do (lifted (w_treasury w)) (\<lambda>treasury.
     then_do (lifted (w_blockhash w)) (\<lambda>blockhash.
     let transaction =
           \<lparr>tx_ix = create_instruction w treasury (kp_public operator) multisigAddress (kp_public createKey),
            tx_payer = kp_public operator, tx_blockhash = blockhash, tx_signers = [operator, createKey]\<rparr>
     in
     then_do (write_out ([CHR 10] @ ''BROADCASTING...'' @ [CHR 10])) (\<lambda>_.
     then_do (alters (act (Sent transaction))) (\<lambda>_.
     then_do (lifted (w_send w transaction)) (\<lambda>signature.
     then_do (lifted (w_confirm w signature)) (\<lambda>_.
     then_do (lifted (verifyOnChain w multisigAddress vaultAddress)) (\<lambda>onChain.
     then_do (write_out (created_text multisigAddress vaultAddress signature onChain)) (\<lambda>_.
     yields
       ((refused Execute_mode)\<lparr>re_ok := all_ok onChain, re_broadcast := True, re_signature := Some signature,
          re_multisig := Some multisigAddress, re_vault := Some vaultAddress, re_onChain := Some onChain\<rparr>))))))))))"

definition ceremony :: "ceremony_world \<Rightarrow> string list \<Rightarrow> env \<Rightarrow> ceremony_result ceremony" where
  "ceremony w argv env =
     (let mode = parseMode argv in
      if mode = No_mode \<or> mode = Unknown_mode
      then then_do (write_out (usage_text mode argv)) (\<lambda>_. yields (refused mode))
      else
      then_do (stops_if (w_squads_id w \<noteq> CEREMONY_SQUADS_ID) CeremonyError
                 (''STOP -- the installed @sqds/multisig targets '' @ w_squads_id w @ '', not '' @ CEREMONY_SQUADS_ID)) (\<lambda>_.
      then_do (lifted (ceremony_assertDevnet w DEVNET_ENDPOINT)) (\<lambda>genesisHash.
      then_do (lifted (assertSquadsProgram w DEVNET_ENDPOINT CEREMONY_SQUADS_ID)) (\<lambda>_.
      then_do (resolveCreateKey w mode env) (\<lambda>createKey.
      let (multisigAddress, vaultAddress) = deriveAddresses w (kp_public createKey) CEREMONY_SQUADS_ID;
          failures = checkSafety w multisigAddress vaultAddress CUSTODY_THRESHOLD CUSTODY_MEMBERS
      in
      then_do (write_out (formatSummary w genesisHash multisigAddress vaultAddress (kp_public createKey)
                            CUSTODY_MEMBERS CUSTODY_THRESHOLD failures)) (\<lambda>_.
      if failures \<noteq> []
      then then_do (write_out ([CHR 10] @ ''SAFETY CHECKS FAILED -- nothing was created.'' @ [CHR 10]))
             (\<lambda>_. yields ((refused mode)\<lparr>re_failures := Some failures\<rparr>))
      else if \<not> mayBroadcast mode
      then then_do (write_out ([CHR 10] @ ''PREFLIGHT ONLY -- no transaction was built or sent.'' @ [CHR 10]
                                 @ ''Review the addresses above, then run --execute to create the multisig.'' @ [CHR 10]))
             (\<lambda>_. yields ((refused mode)\<lparr>re_ok := True, re_multisig := Some multisigAddress, re_vault := Some vaultAddress,
                            re_createKeyPublic := Some (kp_public createKey), re_genesisHash := Some genesisHash\<rparr>))
      else broadcast_phase w env createKey multisigAddress vaultAddress))))))"

end
