(* ===== verification/Ceremony_Props.thy ===== *)
theory Ceremony_Props
  imports Ceremony
begin

text \<open>
  What the ceremony may do: the one transaction it can send and when, the address an operator
  reviewed against the one that is created, and what an accepted read-back says of the multisig.
\<close>

section \<open>What is sent\<close>

fun sent_in :: "ceremony_effect list \<Rightarrow> create_tx list" where
  "sent_in [] = []"
| "sent_in (Sent t # es) = t # sent_in es"
| "sent_in (_ # es) = sent_in es"

abbreviation sent :: "ceremony_state \<Rightarrow> create_tx list" where "sent s \<equiv> sent_in (cs_effects s)"

lemma sent_in_append [simp]: "sent_in (es @ fs) = sent_in es @ sent_in fs"
  by (induction es rule: sent_in.induct) simp_all

lemma write_out_app: "write_out t s = (Inr (), act (Printed t) s)"
  by (simp add: write_out_def)

lemma then_write_out [simp]: "then_do (write_out t) f s = f () (act (Printed t) s)"
  by (simp add: write_out_def)

lemma act_fields [simp]:
  "cs_effects (act e s) = cs_effects s @ [e]" "cs_files (act e s) = cs_files s"
  by (simp_all add: act_def)

definition safe_addresses :: "ceremony_world \<Rightarrow> string \<Rightarrow> string \<Rightarrow> bool" where
  "safe_addresses w multisigPda vaultPda \<longleftrightarrow>
     list_all (w_valid_key w) CUSTODY_MEMBERS \<and> vaultPda \<notin> set CUSTODY_MEMBERS
     \<and> multisigPda \<notin> set CUSTODY_MEMBERS \<and> multisigPda \<noteq> vaultPda"

lemma custody_members: "length CUSTODY_MEMBERS = 3" "distinct CUSTODY_MEMBERS"
  unfolding CUSTODY_MEMBERS_def by simp_all

lemma append_Nil_iff: "(xs @ ys = []) = (xs = [] \<and> ys = [])"
  by simp

lemma if_Nil_iff: "((if b then [x] else []) = []) = (\<not> b)"
  by simp

lemma checkSafety_Nil:
  "checkSafety w multisigPda vaultPda CUSTODY_THRESHOLD CUSTODY_MEMBERS = [] \<longleftrightarrow> safe_addresses w multisigPda vaultPda"
proof -
  have remdups: "remdups CUSTODY_MEMBERS = CUSTODY_MEMBERS"
    using custody_members(2) by (rule distinct_remdups_id)
  show ?thesis
    unfolding checkSafety_def safe_addresses_def Let_def remdups append_Nil_iff if_Nil_iff custody_members(1)
    by (auto simp: CUSTODY_THRESHOLD_def list_all_iff filter_empty_conv)
qed

definition create_tx_for :: "ceremony_world \<Rightarrow> keypair \<Rightarrow> keypair \<Rightarrow> string \<Rightarrow> string \<Rightarrow> create_tx" where
  "create_tx_for w operator createKey treasury blockhash =
     \<lparr>tx_ix =
        \<lparr>ix_treasury = treasury, ix_creator = kp_public operator,
         ix_multisigPda = w_multisigPda w (kp_public createKey) CEREMONY_SQUADS_ID, ix_configAuthority = None,
         ix_threshold = 2, ix_members = map (\<lambda>a. \<lparr>cm_key = a, cm_mask = custodyPermissions w\<rparr>) CUSTODY_MEMBERS,
         ix_timeLock = 0, ix_createKey = kp_public createKey, ix_rentCollector = None\<rparr>,
      tx_payer = kp_public operator, tx_blockhash = blockhash, tx_signers = [operator, createKey]\<rparr>"

definition authorized_tx :: "ceremony_world \<Rightarrow> string list \<Rightarrow> env \<Rightarrow> (string \<Rightarrow> string option option) \<Rightarrow> create_tx option" where
  "authorized_tx w argv env files =
     (case (loadKeypairFromEnv w files env ''PPV_CUSTODY_CREATE_KEY'', loadKeypairFromEnv w files env ''PPV_OPERATOR_KEYPAIR'',
            w_treasury w, w_blockhash w) of
        (Inr createKey, Inr operator, Inr treasury, Inr blockhash) \<Rightarrow>
          (let m = w_multisigPda w (kp_public createKey) CEREMONY_SQUADS_ID;
               v = w_vaultPda w m 0 CEREMONY_SQUADS_ID
           in if filter (starts_with ''--'') argv = [''--execute''] \<and> w_squads_id w = CEREMONY_SQUADS_ID
                 \<and> w_genesis w = Inr DEVNET_GENESIS \<and> w_executable w CEREMONY_SQUADS_ID = Inr (Some True)
                 \<and> safe_addresses w m v
              then Some (create_tx_for w operator createKey treasury blockhash) else None)
      | _ \<Rightarrow> None)"

definition option_list :: "'a option \<Rightarrow> 'a list" where
  "option_list v = (case v of None \<Rightarrow> [] | Some a \<Rightarrow> [a])"

lemma parse_modes:
  "parseMode argv = Execute_mode \<longleftrightarrow> filter (starts_with ''--'') argv = [''--execute'']"
  "parseMode argv = Preflight_mode \<longleftrightarrow> filter (starts_with ''--'') argv = [''--preflight'']"
  by (auto simp: parseMode_def Let_def)

lemma broadcast_phase_sent:
  "sent (snd (broadcast_phase w env k m v s)) =
     sent s @
       (case (loadKeypairFromEnv w (cs_files s) env ''PPV_OPERATOR_KEYPAIR'', w_treasury w, w_blockhash w) of
          (Inr op, Inr t, Inr b) \<Rightarrow>
            [\<lparr>tx_ix = create_instruction w t (kp_public op) m (kp_public k), tx_payer = kp_public op, tx_blockhash = b,
              tx_signers = [op, k]\<rparr>]
        | _ \<Rightarrow> [])"
  unfolding broadcast_phase_def
  by (simp add: then_do_def write_out_app Let_def split: sum.split)

lemma assertDevnet_Inr: "ceremony_assertDevnet w e = Inr g \<longleftrightarrow> w_genesis w = Inr DEVNET_GENESIS \<and> g = DEVNET_GENESIS"
  by (auto simp: ceremony_assertDevnet_def bindR_eq_Inr)

lemma assertSquads_Inr: "assertSquadsProgram w e p = Inr u \<longleftrightarrow> w_executable w p = Inr (Some True)"
  by (auto simp: assertSquadsProgram_def bindR_eq_Inr split: option.split_asm if_splits)

lemma load_needs_file:
  "loadKeypairFromEnv w files env x = Inr k \<Longrightarrow> \<not> not_set env x \<and> readable files (w_resolve w (the (env x))) \<noteq> None"
  by (auto simp: loadKeypairFromEnv_def Let_def split: if_splits option.splits)

lemma resolve_execute:
  "resolveCreateKey w Execute_mode env s =
     ((case loadKeypairFromEnv w (cs_files s) env ''PPV_CUSTODY_CREATE_KEY'' of
         Inr k \<Rightarrow> Inr k
       | Inl _ \<Rightarrow> fst (resolveCreateKey w Execute_mode env s)), s)"
proof (cases "loadKeypairFromEnv w (cs_files s) env ''PPV_CUSTODY_CREATE_KEY''")
  case (Inl e)
  then show ?thesis
    by (simp add: resolveCreateKey_def Let_def mayBroadcast_def split: if_splits)
next
  case (Inr k)
  from load_needs_file [OF Inr] have "cs_files s (w_resolve w (the (env ''PPV_CUSTODY_CREATE_KEY''))) \<noteq> None"
    by (auto simp: readable_def split: option.splits)
  with load_needs_file [OF Inr] Inr show ?thesis
    by (simp add: resolveCreateKey_def Let_def)
qed

lemma resolve_execute_Inl:
  "loadKeypairFromEnv w (cs_files s) env ''PPV_CUSTODY_CREATE_KEY'' = Inl e \<Longrightarrow>
     \<exists>e'. resolveCreateKey w Execute_mode env s = (Inl e', s)"
  by (simp add: resolveCreateKey_def Let_def mayBroadcast_def)

lemma resolve_keeps_sent: "sent (snd (resolveCreateKey w mode env s)) = sent s"
  by (simp add: resolveCreateKey_def keep_key_def Let_def)

text \<open>The execution boundary: what a run with \<open>--execute\<close> alone does after it has its key.\<close>

definition after_key :: "ceremony_world \<Rightarrow> ceremony_mode \<Rightarrow> env \<Rightarrow> string \<Rightarrow> keypair \<Rightarrow> ceremony_result ceremony" where
  "after_key w mode env genesisHash createKey =
     (let (multisigAddress, vaultAddress) = deriveAddresses w (kp_public createKey) CEREMONY_SQUADS_ID;
          failures = checkSafety w multisigAddress vaultAddress CUSTODY_THRESHOLD CUSTODY_MEMBERS
      in
      then_do (write_out (formatSummary w genesisHash multisigAddress vaultAddress (kp_public createKey)
                            CUSTODY_MEMBERS CUSTODY_THRESHOLD failures)) (\<lambda>_.
      if failures \<noteq> []
      then then_do (write_out ([CHR 10] @ ''SAFETY CHECKS FAILED -- nothing was created.'' @ [CHR 10]))
             (\<lambda>_. yields ((refused mode)\<lparr>re_failures := Some failures\<rparr>))
      else if \<not> mayBroadcast mode
      then then_do (write_out ([CHR 10] @ ''PREFLIGHT ONLY -- no transaction was built or sent.'' @ [CHR 10]
                                 @ ''Review the addresses above, then run --execute to create the multisig.'' @ [CHR 10]))
             (\<lambda>_. yields ((refused mode)\<lparr>re_ok := True, re_multisig := Some multisigAddress, re_vault := Some vaultAddress,
                            re_createKeyPublic := Some (kp_public createKey), re_genesisHash := Some genesisHash\<rparr>))
      else broadcast_phase w env createKey multisigAddress vaultAddress))"

definition gate_open :: "ceremony_world \<Rightarrow> bool" where
  "gate_open w \<longleftrightarrow> w_squads_id w = CEREMONY_SQUADS_ID \<and> w_genesis w = Inr DEVNET_GENESIS
     \<and> w_executable w CEREMONY_SQUADS_ID = Inr (Some True)"

lemma ceremony_open:
  assumes "gate_open w" and "parseMode argv = Execute_mode \<or> parseMode argv = Preflight_mode"
  shows "ceremony w argv env =
           then_do (resolveCreateKey w (parseMode argv) env) (after_key w (parseMode argv) env DEVNET_GENESIS)"
proof -
  from assms(1) have gate: "w_squads_id w = CEREMONY_SQUADS_ID"
    "ceremony_assertDevnet w DEVNET_ENDPOINT = Inr DEVNET_GENESIS"
    "assertSquadsProgram w DEVNET_ENDPOINT CEREMONY_SQUADS_ID = Inr ()"
    by (auto simp: gate_open_def assertDevnet_Inr assertSquads_Inr)
  from assms(2) have "parseMode argv \<noteq> No_mode" "parseMode argv \<noteq> Unknown_mode"
    by auto
  with gate show ?thesis
    unfolding ceremony_def after_key_def Let_def stops_if_def by (simp cong: if_cong)
qed

lemma ceremony_closed:
  assumes "\<not> gate_open w \<or> (parseMode argv \<noteq> Execute_mode \<and> parseMode argv \<noteq> Preflight_mode)"
  shows "sent (snd (ceremony w argv env s)) = sent s"
    and "fst (ceremony w argv env s) = Inr r \<Longrightarrow> \<not> re_ok r \<and> \<not> re_broadcast r"
proof -
  have "sent (snd (ceremony w argv env s)) = sent s
      \<and> (\<forall>r. fst (ceremony w argv env s) = Inr r \<longrightarrow> \<not> re_ok r \<and> \<not> re_broadcast r)"
  proof (cases "parseMode argv = No_mode \<or> parseMode argv = Unknown_mode")
    case True
    then show ?thesis
      by (auto simp: ceremony_def Let_def write_out_def refused_def)
  next
    case False
    with assms have "\<not> gate_open w"
      by (cases "parseMode argv") auto
    then have "w_squads_id w \<noteq> CEREMONY_SQUADS_ID \<or> (\<forall>g. ceremony_assertDevnet w DEVNET_ENDPOINT \<noteq> Inr g)
        \<or> (\<forall>u. assertSquadsProgram w DEVNET_ENDPOINT CEREMONY_SQUADS_ID \<noteq> Inr u)"
      by (auto simp: gate_open_def assertDevnet_Inr assertSquads_Inr)
    with False show ?thesis
      unfolding ceremony_def Let_def then_do_stops_if then_do_lifted
      by (elim disjE) (simp_all add: then_do_lifted split: sum.split)
  qed
  then show "sent (snd (ceremony w argv env s)) = sent s"
    and "fst (ceremony w argv env s) = Inr r \<Longrightarrow> \<not> re_ok r \<and> \<not> re_broadcast r"
    by blast+
qed

lemma after_key_sent:
  "sent (snd (after_key w mode env g k s)) =
     (let m = w_multisigPda w (kp_public k) CEREMONY_SQUADS_ID; v = w_vaultPda w m 0 CEREMONY_SQUADS_ID in
      if mode = Execute_mode \<and> safe_addresses w m v
      then sent (snd (broadcast_phase w env k m v (act (Printed (formatSummary w g m v (kp_public k)
                            CUSTODY_MEMBERS CUSTODY_THRESHOLD [])) s)))
      else sent s)"
  unfolding after_key_def deriveAddresses_def Let_def CUSTODY_VAULT_INDEX_def
  by (simp add: write_out_app then_do_Inr checkSafety_Nil [symmetric] mayBroadcast_def)

lemma ceremony_sends_eq:
  "sent (snd (ceremony w argv env s)) = sent s @ option_list (authorized_tx w argv env (cs_files s))"
proof (cases "gate_open w \<and> parseMode argv = Execute_mode")
  case True
  then have gate: "gate_open w" and mode: "parseMode argv = Execute_mode"
    by simp_all
  note run = ceremony_open [OF gate disjI1 [OF mode], unfolded mode]
  show ?thesis
  proof (cases "loadKeypairFromEnv w (cs_files s) env ''PPV_CUSTODY_CREATE_KEY''")
    case (Inl e)
    then obtain e' where "resolveCreateKey w Execute_mode env s = (Inl e', s)"
      using resolve_execute_Inl by blast
    with run Inl show ?thesis
      by (simp add: then_do_Inl authorized_tx_def option_list_def)
  next
    case (Inr k)
    then have "resolveCreateKey w Execute_mode env s = (Inr k, s)"
      using resolve_execute [of w env s] by simp
    then have "sent (snd (ceremony w argv env s)) = sent (snd (after_key w Execute_mode env DEVNET_GENESIS k s))"
      using run by (simp add: then_do_Inr)
    with gate mode Inr show ?thesis
      unfolding after_key_sent broadcast_phase_sent
      by (simp add: authorized_tx_def option_list_def gate_open_def Let_def parse_modes create_tx_for_def
            create_instruction_def buildMembers_def CUSTODY_THRESHOLD_def CUSTODY_TIME_LOCK_def split: sum.split)
  qed
next
  case False
  then have none: "authorized_tx w argv env (cs_files s) = None"
    by (auto simp: authorized_tx_def gate_open_def Let_def parse_modes split: sum.split)
  have "sent (snd (ceremony w argv env s)) = sent s"
  proof (cases "gate_open w \<and> parseMode argv = Preflight_mode")
    case True
    then have run: "ceremony w argv env s
        = then_do (resolveCreateKey w Preflight_mode env) (after_key w Preflight_mode env DEVNET_GENESIS) s"
      using ceremony_open by metis
    show ?thesis
    proof (cases "resolveCreateKey w Preflight_mode env s")
      case (Pair r s1)
      with resolve_keeps_sent [of w Preflight_mode env s] have "sent s1 = sent s"
        by simp
      with run Pair show ?thesis
        by (cases r) (simp_all add: then_do_def after_key_sent Let_def)
    qed
  next
    case not_preflight: False
    with False show ?thesis
      by (intro ceremony_closed(1)) blast
  qed
  with none show ?thesis
    by (simp add: option_list_def)
qed

section \<open>What an accepted read-back says\<close>

definition holds_policy :: "ceremony_world \<Rightarrow> string \<Rightarrow> chain_multisig \<Rightarrow> bool" where
  "holds_policy w vaultPda account \<longleftrightarrow>
     mu_threshold account = 2 \<and> mset (map cm_key (mu_members account)) = mset CUSTODY_MEMBERS
     \<and> list_all (\<lambda>m. cm_mask m = custodyPermissions w) (mu_members account)
     \<and> w_vaultPda w (w_multisigPda w (mu_createKey account) CEREMONY_SQUADS_ID) 0 CEREMONY_SQUADS_ID = vaultPda"

lemma members_permuted:
  assumes "distinct ys"
  shows "length xs = length ys \<and> list_all (List.member xs) ys \<and> distinct xs \<longleftrightarrow> mset xs = mset ys"
proof
  assume *: "length xs = length ys \<and> list_all (List.member xs) ys \<and> distinct xs"
  then have "distinct xs"
    by simp
  moreover have "set ys \<subseteq> set xs"
    using * by (auto simp: list_all_iff)
  then have "set ys = set xs"
    using * assms \<open>distinct xs\<close> by (intro card_subset_eq) (simp_all add: distinct_card)
  ultimately show "mset xs = mset ys"
    using assms set_eq_iff_mset_eq_distinct by blast
next
  assume *: "mset xs = mset ys"
  then have "set xs = set ys" "length xs = length ys"
    by (auto dest: mset_eq_setD mset_eq_length)
  moreover from * assms have "distinct xs"
    by (metis mset_eq_imp_distinct_iff)
  ultimately show "length xs = length ys \<and> list_all (List.member xs) ys \<and> distinct xs"
    by (simp add: list_all_iff)
qed

lemma verifyOnChain_ok:
  "(\<exists>c. verifyOnChain w multisigPda vaultPda = Inr c \<and> all_ok c) \<longleftrightarrow>
     (\<exists>account. w_multisig w multisigPda = Inr account \<and> holds_policy w vaultPda account)"
proof (cases "w_multisig w multisigPda")
  case (Inl e)
  then show ?thesis by (simp add: verifyOnChain_def)
next
  case (Inr account)
  with members_permuted [OF custody_members(2), of "map cm_key (mu_members account)"] Inr show ?thesis
    by (simp add: verifyOnChain_def all_ok_def holds_policy_def deriveAddresses_def Let_def CUSTODY_THRESHOLD_def
          CUSTODY_VAULT_INDEX_def)
qed

definition created :: "ceremony_result result \<Rightarrow> bool" where
  "created res \<longleftrightarrow> (\<exists>r. res = Inr r \<and> re_ok r \<and> re_broadcast r)"

lemma broadcast_phase_created:
  "created (fst (broadcast_phase w env k m v s)) \<longleftrightarrow>
     (\<exists>operator treasury blockhash signature account.
        loadKeypairFromEnv w (cs_files s) env ''PPV_OPERATOR_KEYPAIR'' = Inr operator
        \<and> w_treasury w = Inr treasury \<and> w_blockhash w = Inr blockhash
        \<and> w_send w \<lparr>tx_ix = create_instruction w treasury (kp_public operator) m (kp_public k),
                      tx_payer = kp_public operator, tx_blockhash = blockhash, tx_signers = [operator, k]\<rparr> = Inr signature
        \<and> w_confirm w signature = Inr () \<and> w_multisig w m = Inr account \<and> holds_policy w v account)"
proof -
  have ok: "(\<exists>c. verifyOnChain w m v = Inr c \<and> all_ok c) = (\<exists>account. w_multisig w m = Inr account \<and> holds_policy w v account)"
    by (rule verifyOnChain_ok)
  show ?thesis
    unfolding broadcast_phase_def created_def
    by (simp add: then_do_lifted then_do_def [of "\<lambda>s. (loadKeypairFromEnv w (cs_files s) env ''PPV_OPERATOR_KEYPAIR'', s)"]
          Let_def refused_def split: sum.split)
       (use ok in auto)
qed

lemma after_key_created:
  "created (fst (after_key w mode env g k s)) \<longleftrightarrow>
     (let m = w_multisigPda w (kp_public k) CEREMONY_SQUADS_ID; v = w_vaultPda w m 0 CEREMONY_SQUADS_ID in
      mode = Execute_mode \<and> safe_addresses w m v
      \<and> created (fst (broadcast_phase w env k m v (act (Printed (formatSummary w g m v (kp_public k)
                            CUSTODY_MEMBERS CUSTODY_THRESHOLD [])) s))))"
  unfolding after_key_def deriveAddresses_def Let_def CUSTODY_VAULT_INDEX_def
  by (simp add: write_out_app then_do_Inr checkSafety_Nil [symmetric] mayBroadcast_def created_def refused_def)

lemma ceremony_created_eq:
  "created (fst (ceremony w argv env s)) \<longleftrightarrow>
     (\<exists>t signature account.
        authorized_tx w argv env (cs_files s) = Some t \<and> w_send w t = Inr signature \<and> w_confirm w signature = Inr ()
        \<and> w_multisig w (ix_multisigPda (tx_ix t)) = Inr account
        \<and> holds_policy w (w_vaultPda w (ix_multisigPda (tx_ix t)) 0 CEREMONY_SQUADS_ID) account)"
proof (cases "gate_open w \<and> parseMode argv = Execute_mode")
  case True
  then have gate: "gate_open w" and mode: "parseMode argv = Execute_mode"
    by simp_all
  note run = ceremony_open [OF gate disjI1 [OF mode], unfolded mode]
  show ?thesis
  proof (cases "loadKeypairFromEnv w (cs_files s) env ''PPV_CUSTODY_CREATE_KEY''")
    case (Inl e)
    then obtain e' where "resolveCreateKey w Execute_mode env s = (Inl e', s)"
      using resolve_execute_Inl by blast
    with run Inl show ?thesis
      by (simp add: then_do_Inl authorized_tx_def created_def)
  next
    case (Inr k)
    then have "resolveCreateKey w Execute_mode env s = (Inr k, s)"
      using resolve_execute [of w env s] by simp
    then have "fst (ceremony w argv env s) = fst (after_key w Execute_mode env DEVNET_GENESIS k s)"
      using run by (simp add: then_do_Inr)
    with gate mode Inr show ?thesis
      by (simp add: after_key_created broadcast_phase_created)
         (auto simp: authorized_tx_def gate_open_def Let_def parse_modes create_tx_for_def
            create_instruction_def buildMembers_def CUSTODY_THRESHOLD_def CUSTODY_TIME_LOCK_def split: sum.split_asm if_splits)
  qed
next
  case False
  then have none: "authorized_tx w argv env (cs_files s) = None"
    by (auto simp: authorized_tx_def gate_open_def Let_def parse_modes split: sum.split)
  have "\<not> created (fst (ceremony w argv env s))"
  proof (cases "gate_open w \<and> parseMode argv = Preflight_mode")
    case True
    then have run: "ceremony w argv env s
        = then_do (resolveCreateKey w Preflight_mode env) (after_key w Preflight_mode env DEVNET_GENESIS) s"
      using ceremony_open by metis
    show ?thesis
    proof (cases "resolveCreateKey w Preflight_mode env s")
      case (Pair r s1)
      with run show ?thesis
        using after_key_created [of w Preflight_mode env DEVNET_GENESIS _ s1]
        by (cases r) (simp_all add: then_do_def created_def Let_def)
    qed
  next
    case not_preflight: False
    with False have "\<not> gate_open w \<or> (parseMode argv \<noteq> Execute_mode \<and> parseMode argv \<noteq> Preflight_mode)"
      by blast
    from ceremony_closed(2) [OF this, of env s] show ?thesis
      by (auto simp: created_def)
  qed
  with none show ?thesis
    by simp
qed

section \<open>The address that was reviewed\<close>

definition same_tools :: "ceremony_world \<Rightarrow> ceremony_world \<Rightarrow> bool" where
  "same_tools w w' \<longleftrightarrow> w_host w' = w_host w \<and> w_json w' = w_json w \<and> w_resolve w' = w_resolve w
     \<and> w_keypair w' = w_keypair w \<and> w_multisigPda w' = w_multisigPda w"

text \<open>A generated key that is written out reads back as itself.\<close>

definition reads_back :: "ceremony_world \<Rightarrow> bool" where
  "reads_back w \<longleftrightarrow>
     w_json w (secret_text w (w_generate w))
       = Some (J_array (map (\<lambda>b. J_number (Whole (uint b))) (kp_secret (w_generate w))))
     \<and> w_keypair w (kp_secret (w_generate w)) = Some (w_generate w)"

lemma uint8_from_bytes: "uint8_from h (map (\<lambda>b. J_number (Whole (uint b))) bs) = bs"
  by (simp add: uint8_from_def json_number_def comp_def)

lemma load_same_tools: "same_tools w w' \<Longrightarrow> loadKeypairFromEnv w' files env x = loadKeypairFromEnv w files env x"
  unfolding loadKeypairFromEnv_def same_tools_def Let_def by (simp cong: option.case_cong json.case_cong)

lemma resolve_persists:
  assumes "resolveCreateKey w Preflight_mode env s = (Inr k, s1)" and "reads_back w"
  shows "loadKeypairFromEnv w (cs_files s1) env ''PPV_CUSTODY_CREATE_KEY'' = Inr k"
proof -
  let ?full = "w_resolve w (the (env ''PPV_CUSTODY_CREATE_KEY''))"
  from assms(1) have isset: "\<not> not_set env ''PPV_CUSTODY_CREATE_KEY''"
    by (auto simp: resolveCreateKey_def)
  show ?thesis
  proof (cases "cs_files s ?full = None")
    case True
    with assms(1) isset have "k = w_generate w" "cs_files s1 ?full = Some (Some (secret_text w (w_generate w)))"
      by (auto simp: resolveCreateKey_def Let_def mayBroadcast_def keep_key_def)
    with isset assms(2) show ?thesis
      by (simp add: loadKeypairFromEnv_def Let_def readable_def reads_back_def uint8_from_bytes)
  next
    case False
    with assms(1) isset show ?thesis
      by (auto simp: resolveCreateKey_def Let_def)
  qed
qed

lemma after_key_preflight:
  assumes "after_key w Preflight_mode env g k s = (Inr r, s1)" and "re_ok r"
  shows "re_multisig r = Some (w_multisigPda w (kp_public k) CEREMONY_SQUADS_ID)"
    and "re_createKeyPublic r = Some (kp_public k)" and "cs_files s1 = cs_files s"
  using assms unfolding after_key_def deriveAddresses_def Let_def
  by (auto simp: write_out_app then_do_Inr mayBroadcast_def refused_def split: if_splits)

lemma preflight_pins_tx:
  assumes "ceremony w argv env s = (Inr r, s1)" and "parseMode argv = Preflight_mode" and "re_ok r"
    and "reads_back w" and "same_tools w w'" and "authorized_tx w' argv' env (cs_files s1) = Some t"
  shows "re_multisig r = Some (ix_multisigPda (tx_ix t)) \<and> re_createKeyPublic r = Some (ix_createKey (tx_ix t))"
proof -
  have gate: "gate_open w"
    using ceremony_closed(2) [of w argv env s r] assms(1,3) by auto
  from assms(1) ceremony_open [OF gate disjI2 [OF assms(2)]] assms(2) obtain k s0
    where k: "resolveCreateKey w Preflight_mode env s = (Inr k, s0)"
      "after_key w Preflight_mode env DEVNET_GENESIS k s0 = (Inr r, s1)"
    by (auto simp: then_do_ends)
  note kept = after_key_preflight [OF k(2) assms(3)]
  from resolve_persists [OF k(1) assms(4)] kept(3) load_same_tools [OF assms(5)]
  have "loadKeypairFromEnv w' (cs_files s1) env ''PPV_CUSTODY_CREATE_KEY'' = Inr k"
    by simp
  with assms(6) have "ix_multisigPda (tx_ix t) = w_multisigPda w' (kp_public k) CEREMONY_SQUADS_ID"
    "ix_createKey (tx_ix t) = kp_public k"
    by (auto simp: authorized_tx_def create_tx_for_def Let_def split: sum.splits if_splits)
  with kept assms(5) show ?thesis
    by (simp add: same_tools_def)
qed

section \<open>Properties\<close>

text \<open>
  C36: The execution boundary. Whatever the arguments, the environment, the files and the answers of
  the cluster, a run sends nothing, or exactly one transaction: the creation of a 2-of-3 multisig of
  the custody members that no outside authority governs, and only when \<open>--execute\<close> is the single
  flag, the SDK and the cluster are the expected ones, the Squads program is executable, the create
  key was already on disk, and the two derived addresses are distinct and no member's.
\<close>

theorem ceremony_sends:
  "sent (snd (ceremony w argv env s)) = sent s @ option_list (authorized_tx w argv env (cs_files s))"
  by (rule ceremony_sends_eq)

text \<open>
  C38: The ceremony reports success exactly when the authorized transaction was sent and confirmed and
  the account read back at the derived address is a 2-of-3 multisig of exactly the custody members,
  each with the mask of the three permissions, whose own create key derives the vault.
\<close>

theorem ceremony_created:
  "created (fst (ceremony w argv env s)) \<longleftrightarrow>
     (\<exists>t signature account.
        authorized_tx w argv env (cs_files s) = Some t \<and> w_send w t = Inr signature \<and> w_confirm w signature = Inr ()
        \<and> w_multisig w (ix_multisigPda (tx_ix t)) = Inr account
        \<and> holds_policy w (w_vaultPda w (ix_multisigPda (tx_ix t)) 0 CEREMONY_SQUADS_ID) account)"
  by (rule ceremony_created_eq)

text \<open>
  C37: The address an operator reviewed is the address that is created: after a preflight that
  succeeded, whatever the cluster answers later, a run that sends anything sends the creation of the
  multisig the preflight reported, with the create key it reported.
\<close>

theorem preflight_pins_address:
  assumes "ceremony w argv env s = (Inr r, s1)" and "parseMode argv = Preflight_mode" and "re_ok r"
    and "reads_back w" and "same_tools w w'"
    and "sent (snd (ceremony w' argv' env s1)) = sent s1 @ [t]"
  shows "re_multisig r = Some (ix_multisigPda (tx_ix t)) \<and> re_createKeyPublic r = Some (ix_createKey (tx_ix t))"
proof -
  from assms(6) have "authorized_tx w' argv' env (cs_files s1) = Some t"
    by (simp add: ceremony_sends_eq option_list_def split: option.splits)
  then show ?thesis
    by (rule preflight_pins_tx [OF assms(1-5)])
qed

section \<open>A run\<close>

definition ceremony_key :: keypair where "ceremony_key = \<lparr>kp_secret = [], kp_public = ''K''\<rparr>"

definition ceremony_host :: host where
  "ceremony_host = \<lparr>h_sha = id, h_base64 = (\<lambda>_. []), h_num_text = (\<lambda>_. []), h_to_num = (\<lambda>_. Not_a_Number)\<rparr>"

definition sample_ceremony :: ceremony_world where
  "sample_ceremony =
     \<lparr>w_host = ceremony_host, w_json = (\<lambda>_. Some (J_array [])), w_resolve = id, w_dirname = id,
      w_keypair = (\<lambda>_. Some ceremony_key), w_generate = ceremony_key, w_valid_key = (\<lambda>_. True),
      w_squads_id = CEREMONY_SQUADS_ID, w_mask = (\<lambda>_. 7), w_multisigPda = (\<lambda>_ _. ''M''), w_vaultPda = (\<lambda>_ _ _. ''V''),
      w_endpoint_of = id, w_genesis = Inr DEVNET_GENESIS, w_executable = (\<lambda>_. Inr (Some True)),
      w_treasury = Inr ''T'', w_blockhash = Inr ''B'', w_send = (\<lambda>_. Inr ''S''), w_confirm = (\<lambda>_. Inr ()),
      w_multisig = (\<lambda>_. Inl (Thrown PlainError []))\<rparr>"

definition ceremony_env :: env where "ceremony_env = (\<lambda>_. Some ''p'')"

definition empty_disk :: ceremony_state where "empty_disk = \<lparr>cs_files = (\<lambda>_. None), cs_effects = []\<rparr>"

lemma sample_safe: "safe_addresses sample_ceremony ''M'' ''V''"
  by (simp add: safe_addresses_def sample_ceremony_def CUSTODY_MEMBERS_def)

lemma sample_gate: "gate_open sample_ceremony"
  by (simp add: gate_open_def sample_ceremony_def)

lemma sample_preflight:
  "\<exists>r s1. ceremony sample_ceremony [''--preflight''] ceremony_env empty_disk = (Inr r, s1) \<and> re_ok r
     \<and> cs_files s1 ''p'' = Some (Some (secret_text sample_ceremony ceremony_key)) \<and> sent s1 = []"
proof -
  have mode: "parseMode [''--preflight''] = Preflight_mode"
    by (simp add: parseMode_def starts_with_def)
  have "resolveCreateKey sample_ceremony Preflight_mode ceremony_env empty_disk
      = (Inr ceremony_key, keep_key ''p'' ''p'' (secret_text sample_ceremony ceremony_key) empty_disk)"
    by (simp add: resolveCreateKey_def Let_def not_set_def ceremony_env_def empty_disk_def mayBroadcast_def sample_ceremony_def)
  with ceremony_open [OF sample_gate, of "[''--preflight'']"] mode show ?thesis
    using sample_safe checkSafety_Nil [of sample_ceremony "''M''" "''V''"]
    by (simp add: then_do_Inr after_key_def deriveAddresses_def sample_ceremony_def write_out_app mayBroadcast_def
          refused_def keep_key_def act_def empty_disk_def)
qed

lemma sample_execute:
  assumes "cs_files s ''p'' = Some (Some c)"
  shows "\<exists>t. sent (snd (ceremony sample_ceremony [''--execute''] ceremony_env s)) = sent s @ [t]"
proof -
  from assms have "loadKeypairFromEnv sample_ceremony (cs_files s) ceremony_env x = Inr ceremony_key" for x
    by (simp add: loadKeypairFromEnv_def not_set_def ceremony_env_def readable_def sample_ceremony_def)
  with sample_safe sample_gate show ?thesis
    unfolding ceremony_sends_eq
    by (simp add: authorized_tx_def option_list_def gate_open_def starts_with_def sample_ceremony_def)
qed

theorem preflight_pins_address_witness:
  "\<exists>r s1 t. ceremony sample_ceremony [''--preflight''] ceremony_env empty_disk = (Inr r, s1)
     \<and> sent (snd (ceremony sample_ceremony [''--execute''] ceremony_env s1)) = sent s1 @ [t]
     \<and> re_multisig r = Some (ix_multisigPda (tx_ix t)) \<and> re_createKeyPublic r = Some (ix_createKey (tx_ix t))"
proof -
  obtain r s1 where run: "ceremony sample_ceremony [''--preflight''] ceremony_env empty_disk = (Inr r, s1)" "re_ok r"
    "cs_files s1 ''p'' = Some (Some (secret_text sample_ceremony ceremony_key))"
    using sample_preflight by blast
  obtain t where sends: "sent (snd (ceremony sample_ceremony [''--execute''] ceremony_env s1)) = sent s1 @ [t]"
    using sample_execute [OF run(3)] by blast
  have mode: "parseMode [''--preflight''] = Preflight_mode"
    by (simp add: parseMode_def starts_with_def)
  have readback: "reads_back sample_ceremony" and same: "same_tools sample_ceremony sample_ceremony"
    by (simp_all add: reads_back_def same_tools_def sample_ceremony_def ceremony_key_def)
  from preflight_pins_address [OF run(1) mode run(2) readback same sends] run(1) sends show ?thesis
    by blast
qed

end
