(* ===== verification/Smoke_Ix.thy ===== *)
theory Smoke_Ix
  imports Script_Ix Release_Approval Deployed_Program
begin

text \<open>
  The Core and Commerce instructions of the devnet smoke suite, encoded by hand
  (\<open>scripts/devnet-lifecycle.mjs\<close>), its fixtures and addresses, and their agreement with the
  builders of the client library.
\<close>

section \<open>Addresses\<close>

definition CORE :: pubkey where "CORE = key_constant (the (map_of PERMANENT_PROGRAM_IDS ''ppv_core''))"

definition COMMERCE :: pubkey where "COMMERCE = key_constant (the (map_of PERMANENT_PROGRAM_IDS ''ppv_commerce''))"

definition smoke_discriminator :: "(bytes \<Rightarrow> bytes) \<Rightarrow> string \<Rightarrow> bytes" where
  "smoke_discriminator sha name = take 8 (sha (utf8 (''global:'' @ name)))"

definition smoke_eventCpiAccounts :: "pda_search \<Rightarrow> pubkey \<Rightarrow> key_meta list result" where
  "smoke_eventCpiAccounts seek programId =
     bindR (seek [utf8 ''__event_authority''] programId) (\<lambda>(eventAuthority, _).
       Inr [\<lparr>km_pubkey = eventAuthority, km_isSigner = False, km_isWritable = False\<rparr>,
            \<lparr>km_pubkey = programId, km_isSigner = False, km_isWritable = False\<rparr>])"

definition proofAddress :: "pda_search \<Rightarrow> pubkey \<Rightarrow> bytes \<Rightarrow> pubkey result" where
  "proofAddress seek authority proofId =
     bindR (seek [utf8 ''proof'', authority, proofId] CORE) (\<lambda>(k, _). Inr k)"

definition agreementAddress :: "pda_search \<Rightarrow> pubkey \<Rightarrow> bytes \<Rightarrow> pubkey result" where
  "agreementAddress seek partyA agreementId =
     bindR (seek [utf8 ''agreement'', partyA, agreementId] COMMERCE) (\<lambda>(k, _). Inr k)"

section \<open>Instructions\<close>

definition SMOKE_PROOF_KINDS :: "string list" where
  "SMOKE_PROOF_KINDS = [''creation'', ''document'', ''agreement'', ''invoice'', ''deliverable'', ''other'']"

definition createProofInstruction ::
    "(bytes \<Rightarrow> bytes) \<Rightarrow> pda_search \<Rightarrow> pubkey \<Rightarrow> bytes \<Rightarrow> bytes \<Rightarrow> bytes \<Rightarrow> string \<Rightarrow> web3_instruction result" where
  "createProofInstruction sha seek authority proofId contentHash contextHash kind =
     (case index_of kind SMOKE_PROOF_KINDS of
        None \<Rightarrow> throw PlainError (''unknown proof kind: '' @ kind)
      | Some kindIndex \<Rightarrow>
          bindR (proofAddress seek authority proofId) (\<lambda>proof.
          bindR (smoke_eventCpiAccounts seek CORE) (\<lambda>events.
          Inr \<lparr>wi_programId = CORE,
               wi_keys = [key_signer authority True, key_rw proof, key_ro system_program] @ events,
               wi_data = concat [smoke_discriminator sha ''create_proof'', proofId, contentHash, contextHash,
                                 [word_of_nat kindIndex]]\<rparr>)))"

definition revokeProofInstruction ::
    "(bytes \<Rightarrow> bytes) \<Rightarrow> pda_search \<Rightarrow> pubkey \<Rightarrow> pubkey \<Rightarrow> web3_instruction result" where
  "revokeProofInstruction sha seek authority proof =
     bindR (smoke_eventCpiAccounts seek CORE) (\<lambda>events.
     Inr \<lparr>wi_programId = CORE, wi_keys = [key_signer authority False, key_rw proof] @ events,
          wi_data = smoke_discriminator sha ''revoke_proof''\<rparr>)"

text \<open>\<open>writeBigInt64LE\<close>.\<close>

definition big_int64 :: "int \<Rightarrow> bytes result" where
  "big_int64 v =
     (if v < - (2 ^ 63) \<or> v \<ge> 2 ^ 63
      then out_of_range ''>= -(2n ** 63n) and < 2n ** 63n''
             ((if \<bar>v\<bar> > 2 ^ 32 then separated (dec_int v) else dec_int v) @ ''n'')
      else Inr (le_bytes 8 (nat (v mod 2 ^ 64))))"

definition createAgreementInstruction ::
    "(bytes \<Rightarrow> bytes) \<Rightarrow> pda_search \<Rightarrow> pubkey \<Rightarrow> pubkey \<Rightarrow> bytes \<Rightarrow> bytes \<Rightarrow> bytes \<Rightarrow> int \<Rightarrow> web3_instruction result" where
  "createAgreementInstruction sha seek partyA partyB agreementId contentHash termsHash expiresAt =
     bindR (agreementAddress seek partyA agreementId) (\<lambda>agreement.
     bindR (big_int64 expiresAt) (\<lambda>expiry.
     bindR (smoke_eventCpiAccounts seek COMMERCE) (\<lambda>events.
     Inr \<lparr>wi_programId = COMMERCE,
          wi_keys = [key_signer partyA True, key_rw agreement, key_ro system_program] @ events,
          wi_data = concat [smoke_discriminator sha ''create_agreement'', agreementId, partyB, contentHash, termsHash,
                            expiry]\<rparr>)))"

definition signAgreementInstruction ::
    "(bytes \<Rightarrow> bytes) \<Rightarrow> pda_search \<Rightarrow> (js_number \<Rightarrow> string) \<Rightarrow> pubkey \<Rightarrow> pubkey \<Rightarrow> js_number \<Rightarrow> bytes \<Rightarrow> bytes
       \<Rightarrow> web3_instruction result" where
  "signAgreementInstruction sha seek num party agreement version contentHash termsHash =
     bindR (script_u32 num version) (\<lambda>versionBytes.
     bindR (smoke_eventCpiAccounts seek COMMERCE) (\<lambda>events.
     Inr \<lparr>wi_programId = COMMERCE, wi_keys = [key_signer party False, key_rw agreement] @ events,
          wi_data = concat [smoke_discriminator sha ''sign_agreement'', versionBytes, contentHash, termsHash]\<rparr>))"

definition cancelAgreementInstruction ::
    "(bytes \<Rightarrow> bytes) \<Rightarrow> pda_search \<Rightarrow> pubkey \<Rightarrow> pubkey \<Rightarrow> web3_instruction result" where
  "cancelAgreementInstruction sha seek party agreement =
     bindR (smoke_eventCpiAccounts seek COMMERCE) (\<lambda>events.
     Inr \<lparr>wi_programId = COMMERCE, wi_keys = [key_signer party False, key_rw agreement] @ events,
          wi_data = smoke_discriminator sha ''cancel_agreement''\<rparr>)"

section \<open>Fixtures\<close>

record smoke_fixtures =
  fx_marker :: string
  fx_proofId :: bytes
  fx_agreementId :: bytes
  fx_contentHash :: bytes
  fx_contextHash :: bytes
  fx_termsHash :: bytes

definition devnetFixtures :: "(bytes \<Rightarrow> bytes) \<Rightarrow> string option \<Rightarrow> smoke_fixtures" where
  "devnetFixtures sha given =
     (let marker = (case given of Some m \<Rightarrow> m | None \<Rightarrow> ''ppv-devnet-smoke-fixture'');
          digest = (\<lambda>suffix. sha (utf8 (marker @ '':'' @ suffix)))
      in \<lparr>fx_marker = marker, fx_proofId = take 16 (digest ''proof-id''),
          fx_agreementId = take 16 (digest ''agreement-id''), fx_contentHash = digest ''content'',
          fx_contextHash = digest ''context'', fx_termsHash = digest ''terms''\<rparr>)"

section \<open>Agreement with the client library\<close>

lemma key_constant_decoded:
  assumes "release_decodeBase58 t = Inr bs"
  shows "encodeBase58 (key_constant t) = t" and "key_constant t = bs"
  using assms by (simp_all add: release_decode_Inr key_constant_def decode_encode_base58)

definition core_bytes :: bytes where
  "core_bytes = [127, 245, 222, 91, 34, 206, 236, 41, 98, 137, 50, 116, 7, 162, 21, 208, 33, 233, 120, 139, 209, 19, 233, 36, 8, 103, 138, 10, 147, 243, 46, 23]"

definition commerce_bytes :: bytes where
  "commerce_bytes = [234, 64, 62, 241, 45, 253, 246, 173, 199, 204, 66, 148, 132, 23, 30, 16, 237, 117, 178, 98, 130, 124, 127, 198, 119, 239, 29, 168, 53, 19, 9, 224]"

lemma permanent_ids_decode:
  "release_decodeBase58 (the (map_of PERMANENT_PROGRAM_IDS ''ppv_core'')) = Inr core_bytes"
  "release_decodeBase58 (the (map_of PERMANENT_PROGRAM_IDS ''ppv_commerce'')) = Inr commerce_bytes"
  by (simp_all add: PERMANENT_PROGRAM_IDS_def core_bytes_def commerce_bytes_def release_decodeBase58_def
        ALPHABET_MAP_def ALPHABET_def low_bytes.simps)

lemma program_keys:
  shows "encodeBase58 CORE = the (map_of PERMANENT_PROGRAM_IDS ''ppv_core'')" and "length CORE = 32"
    and "encodeBase58 COMMERCE = the (map_of PERMANENT_PROGRAM_IDS ''ppv_commerce'')" and "length COMMERCE = 32"
  using key_constant_decoded [OF permanent_ids_decode(1)] key_constant_decoded [OF permanent_ids_decode(2)]
  by (simp_all add: CORE_def COMMERCE_def core_bytes_def commerce_bytes_def)

lemma programs_differ: "CORE \<noteq> COMMERCE"
  using key_constant_decoded(2) [OF permanent_ids_decode(1)] key_constant_decoded(2) [OF permanent_ids_decode(2)]
  by (simp add: CORE_def COMMERCE_def core_bytes_def commerce_bytes_def)

lemma smoke_same:
  assumes "web3_search sha seek" and "length p = 32"
  shows "same_instruction (build_instruction sha (encodeBase58 p) name (map key_view keys) args)
     (bindR (smoke_eventCpiAccounts seek p) (\<lambda>events.
        Inr \<lparr>wi_programId = p, wi_keys = keys @ events, wi_data = smoke_discriminator sha name @ concat args\<rparr>))"
  using escrowIx_same [OF assms refl refl, of name keys args]
  by (simp add: escrowInstruction_def escrowIx_def smoke_eventCpiAccounts_def eventCpiAccounts_def smoke_discriminator_def
        instructionDiscriminator_def)

lemma smoke_addresses:
  assumes "web3_search sha seek" and "length a = 32" and "length i = 16"
  shows "deriveCoreProofRecord sha (encodeBase58 CORE) (encodeBase58 a) i = Inr r \<longleftrightarrow>
           (\<exists>k. proofAddress seek a i = Inr k \<and> r = encodeBase58 k)"
    and "deriveCommerceAgreement sha (encodeBase58 COMMERCE) (encodeBase58 a) i = Inr r \<longleftrightarrow>
           (\<exists>k. agreementAddress seek a i = Inr k \<and> r = encodeBase58 k)"
  using assms(2,3) unfolding deriveCoreProofRecord_def proofAddress_def deriveCommerceAgreement_def agreementAddress_def
    IX_CORE_PROOF_SEED_def COMMERCE_AGREEMENT_SEED_def
  by (auto simp: bindR_eq_Inr fixed_def seek_iff [OF assms(1) program_keys(2)] seek_iff [OF assms(1) program_keys(4)])

lemma big_int64_Inr: "big_int64 v = Inr bs \<longleftrightarrow> ix_i64 (Big v) label = Inr bs"
  by (auto simp: big_int64_def ix_i64_def out_of_range_def MIN_I64_def MAX_I64_def)

lemma smoke_steps:
  assumes "web3_search sha seek"
  shows "same_instruction (buildRevokeProofInstruction sha (encodeBase58 CORE) (encodeBase58 a) (encodeBase58 g))
      (revokeProofInstruction sha seek a g)"
    and "same_instruction (buildCancelCommerceAgreementInstruction sha (encodeBase58 COMMERCE) (encodeBase58 a) (encodeBase58 g))
      (cancelAgreementInstruction sha seek a g)"
  unfolding buildRevokeProofInstruction_def revokeProofInstruction_def buildCancelCommerceAgreementInstruction_def
    cancelAgreementInstruction_def
  using smoke_same [OF assms program_keys(2), of _ "[key_signer a False, key_rw g]" "[]"]
    smoke_same [OF assms program_keys(4), of _ "[key_signer a False, key_rw g]" "[]"]
  by simp_all

lemma version_bytes: "ix_u32 (Whole v) label = Inr bs \<longleftrightarrow> script_u32 num (Whole v) = Inr bs"
  by (simp add: ix_u32_def script_u32_def out_of_range_def Let_def)

lemma smoke_sign:
  assumes "web3_search sha seek" and "real_hash c" and "real_hash t"
  shows "same_instruction (buildSignCommerceAgreementInstruction sha (encodeBase58 COMMERCE) (encodeBase58 a) (encodeBase58 g)
        (Whole v) c t)
      (signAgreementInstruction sha seek num a g (Whole v) c t)"
  unfolding buildSignCommerceAgreementInstruction_def signAgreementInstruction_def real_hash_fixed [OF assms(2)]
    real_hash_fixed [OF assms(3)] bindR_Inr
proof (rule same_instruction_bind_eq [OF version_bytes])
  fix x
  show "same_instruction (build_instruction sha (encodeBase58 COMMERCE) ''sign_agreement''
      [signer (encodeBase58 a) False, rw (encodeBase58 g)] [x, c, t])
    (bindR (smoke_eventCpiAccounts seek COMMERCE) (\<lambda>events. Inr \<lparr>wi_programId = COMMERCE,
       wi_keys = [key_signer a False, key_rw g] @ events,
       wi_data = concat [smoke_discriminator sha ''sign_agreement'', x, c, t]\<rparr>))"
    using smoke_same [OF assms(1) program_keys(4), of _ "[key_signer a False, key_rw g]" "[x, c, t]"] by simp
qed

lemma same_instruction_bind_key:
  assumes "\<And>a. sdk = Inr a \<longleftrightarrow> (\<exists>k. script = Inr k \<and> a = encodeBase58 k)"
    and "\<And>k. script = Inr k \<Longrightarrow> same_instruction (f (encodeBase58 k)) (g k)"
  shows "same_instruction (bindR sdk f) (bindR script g)"
  unfolding same_instruction_def bindR_eq_Inr
  using assms(1) assms(2) [unfolded same_instruction_def] by (cases script) force+

lemma smoke_create_proof:
  assumes w: "web3_search sha seek" and "length a = 32" and "length i = 16" and "real_hash c" and "length x = 32"
  shows "same_instruction (buildCreateProofInstruction sha (encodeBase58 CORE) (encodeBase58 a) i c x kind)
      (createProofInstruction sha seek a i c x kind)"
proof (cases "index_of kind SMOKE_PROOF_KINDS")
  case None
  then show ?thesis
    by (simp add: buildCreateProofInstruction_def createProofInstruction_def IX_CORE_PROOF_KINDS_def SMOKE_PROOF_KINDS_def
          same_instruction_fails)
next
  case (Some k)
  then have k: "index_of kind IX_CORE_PROOF_KINDS = Some k"
    by (simp add: IX_CORE_PROOF_KINDS_def SMOKE_PROOF_KINDS_def)
  have fixed: "fixed i 16 l False = Inr i" "fixed x 32 l False = Inr x" "fixed c 32 l True = Inr c" for l
    using assms(3,5) real_hash_fixed [OF assms(4)] by (simp_all add: fixed_def)
  show ?thesis
    unfolding buildCreateProofInstruction_def createProofInstruction_def Some k option.case fixed bindR_Inr
  proof (rule same_instruction_bind_key [OF smoke_addresses(1) [OF w assms(2,3)]])
    fix g
    show "same_instruction (build_instruction sha (encodeBase58 CORE) ''create_proof''
        [signer (encodeBase58 a) True, rw (encodeBase58 g), ro SYSTEM_PROGRAM_ID] [i, c, x, [word_of_nat k]])
      (bindR (smoke_eventCpiAccounts seek CORE) (\<lambda>events. Inr \<lparr>wi_programId = CORE,
         wi_keys = [key_signer a True, key_rw g, key_ro system_program] @ events,
         wi_data = concat [smoke_discriminator sha ''create_proof'', i, c, x, [word_of_nat k]]\<rparr>))"
      using smoke_same [OF w program_keys(2), of _ "[key_signer a True, key_rw g, key_ro system_program]"
          "[i, c, x, [word_of_nat k]]"] by simp
  qed
qed

lemma smoke_create_agreement:
  assumes w: "web3_search sha seek" and "length a = 32" and "length b = 32" and "a \<noteq> b" and "b \<noteq> system_program"
    and "length i = 16" and "real_hash c" and "real_hash t"
  shows "same_instruction (buildCreateCommerceAgreementInstruction sha (encodeBase58 COMMERCE) (encodeBase58 a)
        (encodeBase58 b) i c t (Big e))
      (createAgreementInstruction sha seek a b i c t e)"
proof -
  have fixed: "fixed i 16 l False = Inr i" "fixed b 32 l False = Inr b" "fixed c 32 l True = Inr c" "fixed t 32 l True = Inr t" for l
    using assms(3,6) real_hash_fixed [OF assms(7)] real_hash_fixed [OF assms(8)] by (simp_all add: fixed_def)
  have "encodeBase58 a \<noteq> encodeBase58 b" "encodeBase58 b \<noteq> SYSTEM_PROGRAM_ID"
    using assms(4,5) system_program_text by (metis key_bytes_encode)+
  then have guard: "(encodeBase58 a = encodeBase58 b \<or> encodeBase58 b = SYSTEM_PROGRAM_ID) = False"
    by simp
  show ?thesis
    unfolding buildCreateCommerceAgreementInstruction_def createAgreementInstruction_def fixed bindR_Inr
      ix_addressBytes_key [OF assms(3)] guard if_False
  proof (rule same_instruction_bind_key [OF smoke_addresses(2) [OF w assms(2,6)]],
      rule same_instruction_bind_eq [OF big_int64_Inr [symmetric]])
    fix g x
    show "same_instruction (build_instruction sha (encodeBase58 COMMERCE) ''create_agreement''
        [signer (encodeBase58 a) True, rw (encodeBase58 g), ro SYSTEM_PROGRAM_ID] [i, b, c, t, x])
      (bindR (smoke_eventCpiAccounts seek COMMERCE) (\<lambda>events. Inr \<lparr>wi_programId = COMMERCE,
         wi_keys = [key_signer a True, key_rw g, key_ro system_program] @ events,
         wi_data = concat [smoke_discriminator sha ''create_agreement'', i, b, c, t, x]\<rparr>))"
      using smoke_same [OF w program_keys(4), of _ "[key_signer a True, key_rw g, key_ro system_program]"
          "[i, b, c, t, x]"] by simp
  qed
qed

text \<open>
  The instructions the smoke suite encodes by hand are those of the client library: for keys of 32
  bytes, ids of 16 and hashes that the library accepts, each is built exactly when the library
  builds its own, with the same accounts, privileges and bytes.
\<close>

theorem smoke_matches_library:
  assumes "web3_search sha seek" and "length a = 32" and "length b = 32" and "a \<noteq> b" and "b \<noteq> system_program"
    and "length i = 16" and "real_hash c" and "real_hash t" and "length x = 32"
  shows "same_instruction (buildCreateProofInstruction sha (encodeBase58 CORE) (encodeBase58 a) i c x kind)
        (createProofInstruction sha seek a i c x kind)
    \<and> same_instruction (buildRevokeProofInstruction sha (encodeBase58 CORE) (encodeBase58 a) (encodeBase58 g))
        (revokeProofInstruction sha seek a g)
    \<and> same_instruction (buildCreateCommerceAgreementInstruction sha (encodeBase58 COMMERCE) (encodeBase58 a)
          (encodeBase58 b) i c t (Big e))
        (createAgreementInstruction sha seek a b i c t e)
    \<and> same_instruction (buildSignCommerceAgreementInstruction sha (encodeBase58 COMMERCE) (encodeBase58 a)
          (encodeBase58 g) (Whole v) c t)
        (signAgreementInstruction sha seek num a g (Whole v) c t)
    \<and> same_instruction (buildCancelCommerceAgreementInstruction sha (encodeBase58 COMMERCE) (encodeBase58 a) (encodeBase58 g))
        (cancelAgreementInstruction sha seek a g)"
  using smoke_create_proof [OF assms(1,2,6,7,9)] smoke_steps [OF assms(1)] smoke_create_agreement [OF assms(1-8)]
    smoke_sign [OF assms(1,7,8)]
  by blast

end
