(* ===== verification/Smoke_Lifecycle.thy ===== *)
theory Smoke_Lifecycle
  imports Smoke_Ix Script_Run Accounts Extract Normalize Rep_Receipts
begin

text \<open>
  The lifecycle phase of the devnet smoke suite (\<open>scripts/devnet-lifecycle.mjs\<close>): seven
  transactions, the events read back with the SDK, the two accounts, and the history, the seal and
  the receipt rebuilt from them. What the chain answers is a function of what was sent before.
\<close>

section \<open>The chain and the trace\<close>

datatype smoke_effect =
    Smoke_printed string
  | Smoke_recorded string bool string
  | Submitted web3_instruction "pubkey list"

type_synonym smoke_trace = "smoke_effect list"

type_synonym 'a smoke = "(smoke_trace, 'a) script"

text \<open>
  A confirmed transaction as @solana/web3.js hands it out; its keys in the order of
  \<open>getAccountKeys\<close>, \<open>err\<close> None when it is null.
\<close>

record w3_instruction =
  w3_programIdIndex :: int
  w3_accountKeyIndexes :: "int list"
  w3_data :: bytes

record w3_group =
  w3_index :: int
  w3_instructions :: "rpc_instruction list"

record w3_transaction =
  w3_slot :: int
  w3_blockTime :: "int option"
  w3_signatures :: "string list"
  w3_keys :: "string list"
  w3_compiled :: "w3_instruction list"
  w3_err :: "json option"
  w3_inner :: "w3_group list"

record smoke_world =
  sw_sha :: "bytes \<Rightarrow> bytes"
  sw_seek :: pda_search
  sw_num :: "js_number \<Rightarrow> string"
  sw_localeCompare :: "string \<Rightarrow> string \<Rightarrow> int"
  sw_wallet :: "pubkey result"
  sw_partyB :: pubkey
  sw_now :: int
  sw_balance :: "pubkey \<Rightarrow> smoke_trace \<Rightarrow> int result"
  sw_blockhash :: "smoke_trace \<Rightarrow> unit result"
  sw_submit :: "web3_instruction \<Rightarrow> smoke_trace \<Rightarrow> string result"
  sw_confirm :: "string \<Rightarrow> smoke_trace \<Rightarrow> unit result"
  sw_transaction :: "string \<Rightarrow> smoke_trace \<Rightarrow> w3_transaction option result"
  sw_account :: "pubkey \<Rightarrow> smoke_trace \<Rightarrow> bytes option result"

definition reads_chain :: "(smoke_trace \<Rightarrow> 'a result) \<Rightarrow> 'a smoke" where
  "reads_chain f = (\<lambda>s. (f s, s))"

definition smoke_record :: "string \<Rightarrow> string \<Rightarrow> unit smoke" where
  "smoke_record name detail = alters (\<lambda>s. s @ [Smoke_recorded name True detail])"

section \<open>Sending and reading back\<close>

definition smoke_send :: "smoke_world \<Rightarrow> pubkey list \<Rightarrow> web3_instruction result \<Rightarrow> string smoke" where
  "smoke_send w signers built =
     then_do (lifted built) (\<lambda>instruction.
     then_do (reads_chain (sw_blockhash w)) (\<lambda>_.
     then_do (alters (\<lambda>s. s @ [Submitted instruction signers])) (\<lambda>_.
     then_do (reads_chain (sw_submit w instruction)) (\<lambda>signature.
     then_do (reads_chain (sw_confirm w signature)) (\<lambda>_.
     yields signature)))))"

definition smoke_event_step ::
    "(bytes \<Rightarrow> bytes) \<Rightarrow> string list \<Rightarrow> pubkey \<Rightarrow> pubkey \<Rightarrow> chain_event list \<Rightarrow> rpc_instruction \<Rightarrow> chain_event list result" where
  "smoke_event_step sha keys programId eventAuthority events ix =
     (if programOf keys ix \<noteq> Some (b58 programId) then Inr events
      else if first_account keys ix \<noteq> Some (b58 eventAuthority) then Inr events
      else bindR (script_decodeBase58 (ri_data ix)) (\<lambda>data.
           bindR (decodePpvEventData sha data) (\<lambda>decoded.
           Inr (events @ (case decoded of Some e \<Rightarrow> [e] | None \<Rightarrow> [])))))"

definition eventsOf :: "smoke_world \<Rightarrow> string \<Rightarrow> pubkey \<Rightarrow> chain_event list smoke" where
  "eventsOf w signature programId =
     then_do (reads_chain (sw_transaction w signature)) (\<lambda>found.
     case found of
       None \<Rightarrow> stops PlainError (''transaction '' @ signature @ '' not found'')
     | Some tx \<Rightarrow>
         (case w3_err tx of
            Some err \<Rightarrow>
              if truthy_json err
              then stops PlainError (''transaction '' @ signature @ '' failed: '' @ stringify (sw_num w) err)
              else lifted (bindR (sw_seek w [utf8 ''__event_authority''] programId) (\<lambda>(eventAuthority, _).
                     foldR (smoke_event_step (sw_sha w) (w3_keys tx) programId eventAuthority) []
                       (concat (map w3_instructions (w3_inner tx)))))
          | None \<Rightarrow>
              lifted (bindR (sw_seek w [utf8 ''__event_authority''] programId) (\<lambda>(eventAuthority, _).
                foldR (smoke_event_step (sw_sha w) (w3_keys tx) programId eventAuthority) []
                  (concat (map w3_instructions (w3_inner tx)))))))"

definition rpc_view :: "w3_transaction \<Rightarrow> rpc_transaction" where
  "rpc_view tx =
     \<lparr>tx_slot = Whole (w3_slot tx), tx_blockTime = w3_blockTime tx, tx_signatures = w3_signatures tx,
      tx_accountKeys = w3_keys tx,
      tx_instructions = map (\<lambda>ix. \<lparr>ri_programIdIndex = w3_programIdIndex ix, ri_accounts = w3_accountKeyIndexes ix,
                                    ri_data = b58 (w3_data ix)\<rparr>) (w3_compiled tx),
      tx_meta = Some \<lparr>tm_failed = (w3_err tx \<noteq> None),
        tm_innerInstructions = Some (map (\<lambda>g. \<lparr>ii_index = Whole (w3_index g), ii_instructions = w3_instructions g\<rparr>) (w3_inner tx)),
        tm_loadedAddresses = Some ([], [])\<rparr>\<rparr>"

definition rawTransaction :: "smoke_world \<Rightarrow> string \<Rightarrow> rpc_transaction smoke" where
  "rawTransaction w signature =
     then_do (reads_chain (sw_transaction w signature)) (\<lambda>found.
     case found of
       None \<Rightarrow> stops PlainError (''transaction '' @ signature @ '' was not retrievable'')
     | Some tx \<Rightarrow> yields (rpc_view tx))"

section \<open>Rebuilding the history\<close>

definition SMOKE_PROGRAMS :: "(ppv_program \<times> string) list" where
  "SMOKE_PROGRAMS =
     [(ppv_core, the (map_of PERMANENT_PROGRAM_IDS ''ppv_core'')),
      (ppv_commerce, the (map_of PERMANENT_PROGRAM_IDS ''ppv_commerce''))]"

definition whole_text :: "(js_number \<Rightarrow> string) \<Rightarrow> js_number \<Rightarrow> string" where
  "whole_text num n = (case n of Whole i \<Rightarrow> dec_int i | _ \<Rightarrow> num n)"

definition envelope_key :: "(js_number \<Rightarrow> string) \<Rightarrow> ppv_envelope \<Rightarrow> string" where
  "envelope_key num e =
     px_transactionSignature e @ '':'' @ whole_text num (px_instructionIndex e) @ '':'' @ dec_int (px_innerInstructionIndex e)"

definition or_int :: "int \<Rightarrow> int \<Rightarrow> int" where "or_int a b = (if a \<noteq> 0 then a else b)"

definition envelope_order :: "(string \<Rightarrow> string \<Rightarrow> int) \<Rightarrow> ppv_envelope \<Rightarrow> ppv_envelope \<Rightarrow> int" where
  "envelope_order localeCompare a b =
     or_int (whole (px_slot a) - whole (px_slot b))
       (or_int (localeCompare (px_transactionSignature a) (px_transactionSignature b))
         (or_int (whole (px_instructionIndex a) - whole (px_instructionIndex b))
           (px_innerInstructionIndex a - px_innerInstructionIndex b)))"

definition history_name :: "ppv_envelope \<Rightarrow> string" where
  "history_name e = program_text (px_program e) @ '':'' @ chain_event_name_text (ce_name (px_event e))"

definition reconstruct ::
    "(bytes \<Rightarrow> bytes) \<Rightarrow> (js_number \<Rightarrow> string) \<Rightarrow> (string \<Rightarrow> string \<Rightarrow> int) \<Rightarrow> rpc_transaction list \<Rightarrow> string list result" where
  "reconstruct sha num localeCompare txs =
     bindR (mapR (\<lambda>tx. extractPpvEvents sha tx SMOKE_PROGRAMS) txs) (\<lambda>envelopes.
     let seen = foldl (\<lambda>m e. map_set (envelope_key num e) e m) [] (concat envelopes)
     in Inr (map history_name (js_sort (envelope_order localeCompare) (map snd seen))))"

definition EXPECTED_HISTORY :: "string list" where
  "EXPECTED_HISTORY =
     [''ppv_commerce:AgreementCreated'', ''ppv_commerce:AgreementSigned'', ''ppv_commerce:AgreementSigned'',
      ''ppv_commerce:AgreementExecuted'', ''ppv_core:ProofCreated'', ''ppv_core:ProofRevoked'']"

definition name_list_text :: "string list \<Rightarrow> string" where
  "name_list_text names = stringify (\<lambda>_. []) (J_array (map J_string names))"

section \<open>The phase\<close>

definition is_event :: "chain_event_name \<Rightarrow> chain_event \<Rightarrow> bool" where
  "is_event name e \<longleftrightarrow> ce_name e = name"

fun commerce_state_text :: "commerce_state \<Rightarrow> string" where
  "commerce_state_text Commerce_Pending = ''Pending''"
| "commerce_state_text Commerce_Executed = ''Executed''"
| "commerce_state_text Commerce_Cancelled = ''Cancelled''"

fun proof_status_text :: "core_proof_status \<Rightarrow> string" where
  "proof_status_text Core_Active = ''Active''"
| "proof_status_text Core_Revoked = ''Revoked''"

text \<open>Creation and binding of the agreement; the signature of the transaction.\<close>

definition create_phase :: "smoke_world \<Rightarrow> smoke_fixtures \<Rightarrow> pubkey \<Rightarrow> int \<Rightarrow> string smoke" where
  "create_phase w fixtures wallet expiresAt =
     then_do (smoke_send w [wallet]
        (createAgreementInstruction (sw_sha w) (sw_seek w) wallet (sw_partyB w) (fx_agreementId fixtures)
           (fx_contentHash fixtures) (fx_termsHash fixtures) expiresAt)) (\<lambda>agreementSignature.
     then_do (eventsOf w agreementSignature COMMERCE) (\<lambda>agreementEvents.
     case List.find (is_event Name_AgreementCreated) agreementEvents of
       None \<Rightarrow> stops PlainError ''AgreementCreated was not emitted''
     | Some agreementCreated \<Rightarrow>
         then_do (smoke_record ''agreement creation emits a decodable AgreementCreated'' agreementSignature) (\<lambda>_.
         then_do (stops_if (ce_contentHash agreementCreated \<noteq> hex (fx_contentHash fixtures)) PlainError
                    ''on-chain content hash does not match the committed document hash'') (\<lambda>_.
         then_do (stops_if (ce_termsHash agreementCreated \<noteq> hex (fx_termsHash fixtures)) PlainError
                    ''on-chain terms hash does not match the committed terms hash'') (\<lambda>_.
         then_do (smoke_record ''contract binding: on-chain hashes match the canonical document hashes'' []) (\<lambda>_.
         yields agreementSignature))))))"

definition sign_phase :: "smoke_world \<Rightarrow> smoke_fixtures \<Rightarrow> pubkey \<Rightarrow> pubkey \<Rightarrow> (string \<times> string) smoke" where
  "sign_phase w fixtures wallet agreement =
     then_do (smoke_send w [wallet]
        (signAgreementInstruction (sw_sha w) (sw_seek w) (sw_num w) wallet agreement (Whole 1)
           (fx_contentHash fixtures) (fx_termsHash fixtures))) (\<lambda>signASignature.
     then_do (smoke_record ''party A accepts the exact version it saw'' signASignature) (\<lambda>_.
     then_do (smoke_send w [wallet, sw_partyB w]
        (signAgreementInstruction (sw_sha w) (sw_seek w) (sw_num w) (sw_partyB w) agreement (Whole 1)
           (fx_contentHash fixtures) (fx_termsHash fixtures))) (\<lambda>signBSignature.
     then_do (eventsOf w signBSignature COMMERCE) (\<lambda>executedEvents.
     then_do (stops_if (\<not> list_ex (is_event Name_AgreementExecuted) executedEvents) PlainError
                ''AgreementExecuted was not emitted after the second party accepted'') (\<lambda>_.
     then_do (smoke_record ''party B accepts and the agreement executes'' signBSignature) (\<lambda>_.
     yields (signASignature, signBSignature)))))))"

text \<open>Two distinct signers on the same terms; what the account held and what it decoded to.\<close>

definition acceptance_checks :: "commerce_agreement_account \<Rightarrow> unit smoke" where
  "acceptance_checks decoded =
     (case ca_signatureA decoded of
        None \<Rightarrow> stops PlainError ''an executed agreement is missing a signature''
      | Some a \<Rightarrow>
          (case ca_signatureB decoded of
             None \<Rightarrow> stops PlainError ''an executed agreement is missing a signature''
           | Some b \<Rightarrow>
               then_do (stops_if (cs_signer a = cs_signer b) PlainError ''SECURITY: one wallet was counted as both parties'') (\<lambda>_.
               then_do (stops_if (cs_termsHashSigned a \<noteq> ca_termsHash decoded \<or> cs_termsHashSigned b \<noteq> ca_termsHash decoded)
                          PlainError ''SECURITY: an acceptance names terms other than the committed terms'') (\<lambda>_.
               smoke_record ''executed agreement has two distinct parties on the same committed terms''
                 (cs_signer a @ '' + '' @ cs_signer b)))))"

definition executed_account :: "smoke_world \<Rightarrow> pubkey \<Rightarrow> (bytes \<times> commerce_agreement_account) smoke" where
  "executed_account w agreement =
     then_do (reads_chain (sw_account w agreement)) (\<lambda>agreementInfo.
     case agreementInfo of
       None \<Rightarrow> stops PlainError (''agreement '' @ encodeBase58 agreement @ '' disappeared'')
     | Some data \<Rightarrow>
         then_do (lifted (decodeCommerceAgreementAccount (sw_sha w) data)) (\<lambda>decoded.
         then_do (stops_if (ca_state decoded \<noteq> Commerce_Executed) PlainError
                    (''agreement state is '' @ commerce_state_text (ca_state decoded))) (\<lambda>_.
         then_do (acceptance_checks decoded) (\<lambda>_.
         yields (data, decoded)))))"

definition binding_id :: "smoke_world \<Rightarrow> pubkey \<Rightarrow> string \<Rightarrow> bytes" where
  "binding_id w agreement purpose = take 16 (sw_sha w (utf8 (b58 agreement @ '':'' @ purpose)))"

text \<open>\<open>value.data\<close> of a missing account.\<close>

definition null_data :: string where "null_data = ''Cannot read properties of null (reading 'data')''"

definition core_phase ::
    "smoke_world \<Rightarrow> smoke_fixtures \<Rightarrow> pubkey \<Rightarrow> pubkey \<Rightarrow> commerce_agreement_account
       \<Rightarrow> (pubkey \<times> string \<times> chain_event \<times> bytes) smoke" where
  "core_phase w fixtures wallet agreement decoded =
     then_do (lifted (proofAddress (sw_seek w) wallet (binding_id w agreement ''terms''))) (\<lambda>bindingProof.
     then_do (smoke_send w [wallet]
        (createProofInstruction (sw_sha w) (sw_seek w) wallet (binding_id w agreement ''terms'') (fx_termsHash fixtures)
           agreement ''agreement'')) (\<lambda>proofSignature.
     then_do (eventsOf w proofSignature CORE) (\<lambda>proofEvents.
     case List.find (is_event Name_ProofCreated) proofEvents of
       None \<Rightarrow> stops PlainError ''ProofCreated was not emitted''
     | Some created \<Rightarrow>
         then_do (smoke_record ''Core proof created over the agreement terms'' proofSignature) (\<lambda>_.
         then_do (reads_chain (sw_account w bindingProof)) (\<lambda>proofInfo.
         case proofInfo of
           None \<Rightarrow> stops TypeError null_data
         | Some data \<Rightarrow>
             then_do (lifted (decodeCoreProofAccount (sw_sha w) data)) (\<lambda>proof.
             then_do (stops_if (cp_contentHash proof \<noteq> ca_termsHash decoded) PlainError
                        ''the Core proof does not commit to the agreement's terms hash'') (\<lambda>_.
             then_do (stops_if (cp_contextHash proof \<noteq> hex agreement) PlainError
                        ''the Core proof does not name the agreement as its context'') (\<lambda>_.
             then_do (stops_if (cp_authority proof \<noteq> ca_partyA decoded) PlainError
                        ''the Core proof was not made by a party to the agreement'') (\<lambda>_.
             then_do (smoke_record ''Core proof binds to the agreement, its terms and a real party''
                        (b58 bindingProof @ '' -> '' @ b58 agreement)) (\<lambda>_.
             yields (bindingProof, proofSignature, created, data)))))))))))"

definition separation_phase :: "smoke_world \<Rightarrow> bytes \<Rightarrow> bytes \<Rightarrow> unit smoke" where
  "separation_phase w agreementData proofData =
     then_do (stops_if (case decodeCoreProofAccount (sw_sha w) agreementData of Inr _ \<Rightarrow> True | Inl _ \<Rightarrow> False) PlainError
                ''SECURITY: a Commerce agreement decoded as a Core proof'') (\<lambda>_.
     then_do (stops_if (case decodeCommerceAgreementAccount (sw_sha w) proofData of Inr _ \<Rightarrow> True | Inl _ \<Rightarrow> False) PlainError
                ''SECURITY: a Core proof decoded as a Commerce agreement'') (\<lambda>_.
     smoke_record ''Core and Commerce accounts do not decode as each other'' []))"

definition cancel_phase :: "smoke_world \<Rightarrow> smoke_fixtures \<Rightarrow> pubkey \<Rightarrow> pubkey \<Rightarrow> int \<Rightarrow> string smoke" where
  "cancel_phase w fixtures wallet agreement expiresAt =
     then_do (lifted (agreementAddress (sw_seek w) wallet (binding_id w agreement ''cancel''))) (\<lambda>cancelAgreement.
     then_do (smoke_send w [wallet]
        (createAgreementInstruction (sw_sha w) (sw_seek w) wallet (sw_partyB w) (binding_id w agreement ''cancel'')
           (fx_contentHash fixtures) (fx_termsHash fixtures) expiresAt)) (\<lambda>_.
     then_do (smoke_send w [wallet] (cancelAgreementInstruction (sw_sha w) (sw_seek w) wallet cancelAgreement)) (\<lambda>cancelSignature.
     then_do (eventsOf w cancelSignature COMMERCE) (\<lambda>cancelEvents.
     then_do (stops_if (\<not> list_ex (is_event Name_AgreementCancelled) cancelEvents) PlainError
                ''AgreementCancelled was not emitted'') (\<lambda>_.
     then_do (smoke_record ''cancellation path reaches a terminal state'' cancelSignature) (\<lambda>_.
     yields cancelSignature))))))"

definition revoke_phase :: "smoke_world \<Rightarrow> pubkey \<Rightarrow> pubkey \<Rightarrow> (string \<times> chain_event) smoke" where
  "revoke_phase w wallet bindingProof =
     then_do (smoke_send w [wallet] (revokeProofInstruction (sw_sha w) (sw_seek w) wallet bindingProof)) (\<lambda>revokeSignature.
     then_do (eventsOf w revokeSignature CORE) (\<lambda>revokeEvents.
     case List.find (is_event Name_ProofRevoked) revokeEvents of
       None \<Rightarrow> stops PlainError ''ProofRevoked was not emitted''
     | Some revoked \<Rightarrow>
         then_do (reads_chain (sw_account w bindingProof)) (\<lambda>revokedInfo.
         case revokedInfo of
           None \<Rightarrow> stops PlainError (''revoked proof '' @ b58 bindingProof @ '' disappeared'')
         | Some data \<Rightarrow>
             then_do (lifted (decodeCoreProofAccount (sw_sha w) data)) (\<lambda>revokedProof.
             then_do (stops_if (cp_status revokedProof \<noteq> Core_Revoked) PlainError
                        (''proof status after revoke is '' @ proof_status_text (cp_status revokedProof))) (\<lambda>_.
             then_do (stops_if (\<not> cp_revokedAt revokedProof > 0) PlainError ''revoked proof has no revokedAt timestamp'') (\<lambda>_.
             then_do (stops_if (cp_authority revokedProof \<noteq> b58 wallet) PlainError ''revoked proof authority changed'') (\<lambda>_.
             then_do (smoke_record ''Core proof revocation emits ProofRevoked and persists Revoked state'' revokeSignature) (\<lambda>_.
             yields (revokeSignature, revoked)))))))))"

definition history_phase :: "smoke_world \<Rightarrow> string list \<Rightarrow> string list smoke" where
  "history_phase w signatures =
     then_do (for_each (rawTransaction w) signatures) (\<lambda>transactions.
     let rebuild = reconstruct (sw_sha w) (sw_num w) (sw_localeCompare w) in
     then_do (lifted (rebuild transactions)) (\<lambda>history.
     then_do (stops_if (js_sort str_cmp history \<noteq> js_sort str_cmp EXPECTED_HISTORY) PlainError
                (''reconstructed history was '' @ name_list_text history)) (\<lambda>_.
     then_do (smoke_record ''combined Core + Commerce history reconstructs from the chain'' (join_with '', '' history)) (\<lambda>_.
     then_do (lifted (rebuild (transactions @ transactions))) (\<lambda>doubled.
     then_do (stops_if (doubled \<noteq> history) PlainError ''duplicate delivery changed the reconstructed history'') (\<lambda>_.
     then_do (lifted (rebuild (rev transactions))) (\<lambda>reversed.
     then_do (stops_if (reversed \<noteq> history) PlainError ''delivery order changed the reconstructed history'') (\<lambda>_.
     then_do (smoke_record ''replay is idempotent and order-independent'' []) (\<lambda>_.
     yields history)))))))))"

definition smoke_normalize :: "smoke_world \<Rightarrow> chain_event \<Rightarrow> string \<Rightarrow> int \<Rightarrow> reputation_event result" where
  "smoke_normalize w event signature at_time =
     normalizeChainEvent (sw_sha w) (\<lambda>_. Inr None) None (the (map_of PERMANENT_PROGRAM_IDS ''ppv_core''))
       (the (map_of PERMANENT_PROGRAM_IDS ''ppv_commerce''))
       \<lparr>xe_event = event, xe_programId = the (map_of PERMANENT_PROGRAM_IDS ''ppv_core''),
        xe_transactionSignature = signature, xe_instructionIndex = Whole 0, xe_innerInstructionIndex = Some 0,
        xe_blockTime = Some at_time\<rparr>"

definition no_hints :: "seal_state \<Rightarrow> bool \<Rightarrow> projection_context" where
  "no_hints seal disputed =
     \<lparr>pc_sealState = seal, pc_disputeOpen = disputed, pc_roleHints = Map.empty, pc_arbiterWallet = None,
      pc_arbiterGnsRecord = None\<rparr>"

definition reputation_phase ::
    "smoke_world \<Rightarrow> pubkey \<Rightarrow> chain_event \<Rightarrow> string \<Rightarrow> chain_event \<Rightarrow> string \<Rightarrow> seal_state smoke" where
  "reputation_phase w wallet created proofSignature revoked revokeSignature =
     then_do (lifted (smoke_normalize w created proofSignature (ce_createdAt created))) (\<lambda>normalized.
     then_do (lifted (smoke_normalize w revoked revokeSignature (ce_revokedAt revoked))) (\<lambda>normalizedRevoked.
     then_do (stops_if (re_eventType normalized \<noteq> Type_proof_created) PlainError
                (''unexpected normalized event type '' @ event_type_text (re_eventType normalized))) (\<lambda>_.
     then_do (stops_if (re_eventType normalizedRevoked \<noteq> Type_proof_revoked) PlainError
                (''unexpected normalized event type '' @ event_type_text (re_eventType normalizedRevoked))) (\<lambda>_.
     then_do (smoke_record ''normalized reputation events derive from live create + revoke events''
                (re_eventId normalized @ '' / '' @ re_eventId normalizedRevoked)) (\<lambda>_.
     let facts = deriveSealFacts [normalized, normalizedRevoked] True;
         seal = resolveSealState facts;
         receipts = projectReceipts (sw_sha w) normalizedRevoked (no_hints seal (sf_disputeOpen facts))
     in
     then_do (stops_if (seal \<noteq> Seal_revoked) PlainError (''revoked proof resolved to seal state '' @ seal_text seal)) (\<lambda>_.
     then_do (stops_if (length receipts \<noteq> 1 \<or> rr_holderWallet (hd receipts) \<noteq> b58 wallet) PlainError
                ''revocation receipt did not project to the proof authority'') (\<lambda>_.
     then_do (stops_if (rr_sealState (hd receipts) \<noteq> Seal_revoked) PlainError
                (''revocation receipt seal state is '' @ seal_text (rr_sealState (hd receipts)))) (\<lambda>_.
     then_do (smoke_record ''receipt and credential seal derive from revoked live chain facts'' (seal_text seal)) (\<lambda>_.
     yields seal)))))))))"

record lifecycle_signatures =
  ls_agreementCreated :: string
  ls_partyASigned :: string
  ls_partyBSignedAndExecuted :: string
  ls_coreProofCreated :: string
  ls_agreementCancelled :: string
  ls_coreProofRevoked :: string

record lifecycle_report =
  lr_agreement :: string
  lr_partyA :: string
  lr_partyB :: string
  lr_termsHash :: string
  lr_contentHash :: string
  lr_state :: commerce_state
  lr_coreProof :: string
  lr_signatures :: lifecycle_signatures
  lr_history :: "string list"
  lr_seal :: seal_state
  lr_executedSteps :: "string list"

text \<open>Every \<open>executedSteps.push\<close> of a run that returns, in order.\<close>

definition EXECUTED_STEPS :: "string list" where
  "EXECUTED_STEPS =
     [''agreement creation'', ''canonical terms-hash binding'', ''independent two-party acceptance'', ''proof creation'',
      ''Core proof bound to a Commerce agreement'', ''cross-program account decoding separation'', ''cancellation'',
      ''proof revocation'', ''cross-program event attribution'', ''combined history reconstruction'',
      ''idempotent and order-independent replay'', ''normalized reputation event'', ''receipt / credential derivation'']"

definition runLifecyclePhase :: "smoke_world \<Rightarrow> string \<Rightarrow> lifecycle_report smoke" where
  "runLifecyclePhase w runMarker =
     then_do (lifted (sw_wallet w)) (\<lambda>wallet.
     let fixtures = devnetFixtures (sw_sha w)
           (if runMarker \<noteq> [] then Some (''ppv-devnet-smoke-fixture:'' @ runMarker) else None) in
     then_do (alters (\<lambda>s. s @ [Smoke_printed ([CHR 10] @ ''Lifecycle (devnet fixtures)'' @ [CHR 10])])) (\<lambda>_.
     then_do (reads_chain (sw_balance w wallet)) (\<lambda>balance.
     then_do (stops_if (balance = 0) PlainError (''smoke wallet '' @ b58 wallet @ '' has no devnet SOL'')) (\<lambda>_.
     then_do (smoke_record ''smoke wallet is funded'' (b58 wallet @ '' ('' @ dec_int balance @ '' lamports)'')) (\<lambda>_.
     then_do (smoke_record ''disposable counterparty generated'' (b58 (sw_partyB w))) (\<lambda>_.
     let expiresAt = sw_now w div 1000 + 3600 in
     then_do (lifted (agreementAddress (sw_seek w) wallet (fx_agreementId fixtures))) (\<lambda>agreement.
     then_do (create_phase w fixtures wallet expiresAt) (\<lambda>agreementSignature.
     then_do (sign_phase w fixtures wallet agreement) (\<lambda>(signASignature, signBSignature).
     then_do (executed_account w agreement) (\<lambda>(agreementData, decoded).
     then_do (core_phase w fixtures wallet agreement decoded) (\<lambda>(bindingProof, proofSignature, created, proofData).
     then_do (separation_phase w agreementData proofData) (\<lambda>_.
     then_do (cancel_phase w fixtures wallet agreement expiresAt) (\<lambda>cancelSignature.
     then_do (revoke_phase w wallet bindingProof) (\<lambda>(revokeSignature, revoked).
     then_do (history_phase w [agreementSignature, signASignature, signBSignature, proofSignature, revokeSignature]) (\<lambda>history.
     then_do (reputation_phase w wallet created proofSignature revoked revokeSignature) (\<lambda>seal.
     yields
       \<lparr>lr_agreement = b58 agreement, lr_partyA = ca_partyA decoded, lr_partyB = ca_partyB decoded,
        lr_termsHash = ca_termsHash decoded, lr_contentHash = ca_contentHash decoded, lr_state = ca_state decoded,
        lr_coreProof = b58 bindingProof,
        lr_signatures =
          \<lparr>ls_agreementCreated = agreementSignature, ls_partyASigned = signASignature,
           ls_partyBSignedAndExecuted = signBSignature, ls_coreProofCreated = proofSignature,
           ls_agreementCancelled = cancelSignature, ls_coreProofRevoked = revokeSignature\<rparr>,
        lr_history = history, lr_seal = seal, lr_executedSteps = EXECUTED_STEPS\<rparr>))))))))))))))))"

end
