(* ===== verification/Smoke_Props.thy ===== *)
theory Smoke_Props
  imports Smoke_Lifecycle
begin

text \<open>
  What the lifecycle phase may send, that rebuilding a history does not depend on how often a
  transaction is delivered, and what a report of the phase rests on.
\<close>

section \<open>What is sent\<close>

fun submitted_in :: "smoke_trace \<Rightarrow> (web3_instruction result \<times> pubkey list) list" where
  "submitted_in [] = []"
| "submitted_in (Submitted ix signers # es) = (Inr ix, signers) # submitted_in es"
| "submitted_in (_ # es) = submitted_in es"

lemma submitted_in_append [simp]: "submitted_in (es @ fs) = submitted_in es @ submitted_in fs"
  by (induction es rule: submitted_in.induct) simp_all

lemma keeps_record [keeping]: "keeps submitted_in (smoke_record name detail)"
  by (simp add: keeps_def smoke_record_def)

lemma keeps_reads [keeping]: "keeps obs (reads_chain f)"
  by (simp add: keeps_def reads_chain_def)

lemma keeps_print [keeping]: "keeps submitted_in (alters (\<lambda>s. s @ [Smoke_printed t]))"
  by (simp add: keeps_def)

lemma keeps_let [keeping]: "keeps obs (f v) \<Longrightarrow> keeps obs (let x = v in f x)"
  by simp

lemma keeps_prod [keeping]: "(\<And>a b. keeps obs (f a b)) \<Longrightarrow> keeps obs (case v of (a, b) \<Rightarrow> f a b)"
  by (simp split: prod.split)

lemma keeps_eventsOf [keeping]: "keeps obs (eventsOf w sig p)"
  unfolding eventsOf_def by (intro keeping)

lemma keeps_rawTransaction [keeping]: "keeps obs (rawTransaction w sig)"
  unfolding rawTransaction_def by (intro keeping)

lemma smoke_send_emits: "emits submitted_in (smoke_send w signers built) [(built, signers)]"
proof (cases built)
  case (Inl e)
  then show ?thesis
    unfolding smoke_send_def emits_def by (intro allI exI [of _ 0]) simp
next
  case (Inr ix)
  have "emits submitted_in (alters (\<lambda>s. s @ [Submitted ix signers])) [(Inr ix, signers)]"
    by (intro emits_alters) simp
  with Inr show ?thesis
    unfolding smoke_send_def then_do_simps Inr
    by (intro emits_then_quiet keeping emits_then_last)
qed

definition lifecycle_plan :: "smoke_world \<Rightarrow> string \<Rightarrow> (web3_instruction result \<times> pubkey list) list" where
  "lifecycle_plan w runMarker =
     (let fixtures = devnetFixtures (sw_sha w) (if runMarker = [] then None else Some (''ppv-devnet-smoke-fixture:'' @ runMarker));
          expiresAt = sw_now w div 1000 + 3600; sha = sw_sha w; seek = sw_seek w; b = sw_partyB w;
          content = fx_contentHash fixtures; terms = fx_termsHash fixtures
      in case sw_wallet w of Inl _ \<Rightarrow> [] | Inr a \<Rightarrow>
         (case agreementAddress seek a (fx_agreementId fixtures) of Inl _ \<Rightarrow> [] | Inr agreement \<Rightarrow>
            [(createAgreementInstruction sha seek a b (fx_agreementId fixtures) content terms expiresAt, [a]),
             (signAgreementInstruction sha seek (sw_num w) a agreement (Whole 1) content terms, [a]),
             (signAgreementInstruction sha seek (sw_num w) b agreement (Whole 1) content terms, [a, b]),
             (createProofInstruction sha seek a (binding_id w agreement ''terms'') terms agreement ''agreement'', [a]),
             (createAgreementInstruction sha seek a b (binding_id w agreement ''cancel'') content terms expiresAt, [a]),
             (bindR (agreementAddress seek a (binding_id w agreement ''cancel'')) (cancelAgreementInstruction sha seek a), [a]),
             (bindR (proofAddress seek a (binding_id w agreement ''terms'')) (revokeProofInstruction sha seek a), [a])]))"

lemma create_phase_emits:
  "emits submitted_in (create_phase w fx a e)
     [(createAgreementInstruction (sw_sha w) (sw_seek w) a (sw_partyB w) (fx_agreementId fx) (fx_contentHash fx) (fx_termsHash fx) e, [a])]"
  unfolding create_phase_def by (rule emits_then_last [OF smoke_send_emits]) (intro keeping)

lemma sign_phase_emits:
  "emits submitted_in (sign_phase w fx a g)
     [(signAgreementInstruction (sw_sha w) (sw_seek w) (sw_num w) a g (Whole 1) (fx_contentHash fx) (fx_termsHash fx), [a]),
      (signAgreementInstruction (sw_sha w) (sw_seek w) (sw_num w) (sw_partyB w) g (Whole 1) (fx_contentHash fx) (fx_termsHash fx),
         [a, sw_partyB w])]"
  unfolding sign_phase_def
  by (rule emits_then [OF smoke_send_emits, simplified], rule emits_then_quiet, intro keeping,
      rule emits_then_last [OF smoke_send_emits], intro keeping)

lemma keeps_acceptance [keeping]: "keeps submitted_in (acceptance_checks d)"
  unfolding acceptance_checks_def by (intro keeping)

lemma keeps_executed_account: "keeps submitted_in (executed_account w g)"
  unfolding executed_account_def by (intro keeping)

lemma keeps_separation: "keeps submitted_in (separation_phase w x y)"
  unfolding separation_phase_def by (intro keeping)

lemma keeps_history: "keeps submitted_in (history_phase w sigs)"
  unfolding history_phase_def by (intro keeping)

lemma keeps_reputation: "keeps submitted_in (reputation_phase w a c p r q)"
  unfolding reputation_phase_def Let_def by (intro keeping)

lemma core_phase_emits:
  "emits submitted_in (core_phase w fx a g d)
     [(createProofInstruction (sw_sha w) (sw_seek w) a (binding_id w g ''terms'') (fx_termsHash fx) g ''agreement'', [a])]"
  unfolding core_phase_def
  by (rule emits_lifted, rule emits_then_last [OF smoke_send_emits]) (intro keeping)

lemma core_phase_address:
  "core_phase w fx a g d s = (Inr (k, others), s') \<Longrightarrow> proofAddress (sw_seek w) a (binding_id w g ''terms'') = Inr k"
  unfolding core_phase_def by (auto simp: then_do_ends split: option.splits if_splits)

lemma cancel_phase_emits:
  "emits submitted_in (cancel_phase w fx a g e)
     [(createAgreementInstruction (sw_sha w) (sw_seek w) a (sw_partyB w) (binding_id w g ''cancel'') (fx_contentHash fx)
         (fx_termsHash fx) e, [a]),
      (bindR (agreementAddress (sw_seek w) a (binding_id w g ''cancel'')) (cancelAgreementInstruction (sw_sha w) (sw_seek w) a), [a])]"
proof (cases "agreementAddress (sw_seek w) a (binding_id w g ''cancel'')")
  case (Inl e)
  then show ?thesis
    unfolding cancel_phase_def emits_def by (intro allI exI [of _ 0]) simp
next
  case (Inr k)
  show ?thesis
    unfolding cancel_phase_def Inr then_do_simps bindR_Inr
    by (rule emits_then [OF smoke_send_emits, simplified], rule emits_then_last [OF smoke_send_emits], intro keeping)
qed

lemma revoke_phase_emits:
  "emits submitted_in (revoke_phase w a k) [(revokeProofInstruction (sw_sha w) (sw_seek w) a k, [a])]"
  unfolding revoke_phase_def by (rule emits_then_last [OF smoke_send_emits]) (intro keeping)

lemma emits_prod: "(\<And>x y. v = (x, y) \<Longrightarrow> emits obs (f x y) xs) \<Longrightarrow> emits obs (case v of (x, y) \<Rightarrow> f x y) xs"
  by (simp split: prod.split)

lemma lifecycle_emits:
  assumes "sw_wallet w = Inr a"
    and "agreementAddress (sw_seek w) a (fx_agreementId (devnetFixtures (sw_sha w)
           (if runMarker = [] then None else Some (''ppv-devnet-smoke-fixture:'' @ runMarker)))) = Inr g"
  shows "emits submitted_in (runLifecyclePhase w runMarker) (lifecycle_plan w runMarker)"
proof -
  let ?fx = "devnetFixtures (sw_sha w) (if runMarker = [] then None else Some (''ppv-devnet-smoke-fixture:'' @ runMarker))"
  let ?e = "sw_now w div 1000 + 3600"
  have plan: "lifecycle_plan w runMarker =
      [(createAgreementInstruction (sw_sha w) (sw_seek w) a (sw_partyB w) (fx_agreementId ?fx) (fx_contentHash ?fx)
          (fx_termsHash ?fx) ?e, [a])]
      @ ([(signAgreementInstruction (sw_sha w) (sw_seek w) (sw_num w) a g (Whole 1) (fx_contentHash ?fx) (fx_termsHash ?fx), [a]),
          (signAgreementInstruction (sw_sha w) (sw_seek w) (sw_num w) (sw_partyB w) g (Whole 1) (fx_contentHash ?fx)
             (fx_termsHash ?fx), [a, sw_partyB w])]
      @ ([(createProofInstruction (sw_sha w) (sw_seek w) a (binding_id w g ''terms'') (fx_termsHash ?fx) g ''agreement'', [a])]
      @ ([(createAgreementInstruction (sw_sha w) (sw_seek w) a (sw_partyB w) (binding_id w g ''cancel'') (fx_contentHash ?fx)
             (fx_termsHash ?fx) ?e, [a]),
          (bindR (agreementAddress (sw_seek w) a (binding_id w g ''cancel'')) (cancelAgreementInstruction (sw_sha w) (sw_seek w) a),
             [a])]
      @ [(bindR (proofAddress (sw_seek w) a (binding_id w g ''terms'')) (revokeProofInstruction (sw_sha w) (sw_seek w) a), [a])])))"
    using assms by (simp add: lifecycle_plan_def Let_def)
  have marker: "(if runMarker \<noteq> [] then Some (''ppv-devnet-smoke-fixture:'' @ runMarker) else None)
      = (if runMarker = [] then None else Some (''ppv-devnet-smoke-fixture:'' @ runMarker))"
    by simp
  show ?thesis
    unfolding runLifecyclePhase_def Let_def assms(1) then_do_simps plan marker assms(2)
    apply (rule emits_then_quiet [OF keeps_print])
    apply (rule emits_then_quiet [OF keeps_reads])
    apply (rule emits_then_quiet [OF keeps_stops_if])
    apply (rule emits_then_quiet [OF keeps_record])
    apply (rule emits_then_quiet [OF keeps_record])
    apply (rule emits_then [OF create_phase_emits])
    apply (rule emits_then [OF sign_phase_emits], rule emits_prod)
    apply (rule emits_then_quiet [OF keeps_executed_account], rule emits_prod)
    apply (rule emits_then [OF core_phase_emits], (rule emits_prod)+)
    apply (rule emits_then_quiet [OF keeps_separation])
    apply (rule emits_then [OF cancel_phase_emits])
    apply hypsubst
    apply (drule core_phase_address)
    apply (simp only: bindR_Inr)
    apply (rule emits_then_last [OF revoke_phase_emits])
    apply (intro keeps_prod keeps_then keeps_history keeps_reputation keeps_yields)
    done
qed

lemma lifecycle_emits_always: "emits submitted_in (runLifecyclePhase w runMarker) (lifecycle_plan w runMarker)"
proof (cases "sw_wallet w")
  case (Inl e)
  then show ?thesis
    unfolding runLifecyclePhase_def emits_def by (intro allI exI [of _ 0]) simp
next
  case wallet: (Inr a)
  let ?fx = "devnetFixtures (sw_sha w) (if runMarker = [] then None else Some (''ppv-devnet-smoke-fixture:'' @ runMarker))"
  show ?thesis
  proof (cases "agreementAddress (sw_seek w) a (fx_agreementId ?fx)")
    case (Inl e)
    have marker: "(if runMarker \<noteq> [] then Some (''ppv-devnet-smoke-fixture:'' @ runMarker) else None)
        = (if runMarker = [] then None else Some (''ppv-devnet-smoke-fixture:'' @ runMarker))"
      by simp
    have "emits submitted_in (runLifecyclePhase w runMarker) []"
      unfolding runLifecyclePhase_def Let_def wallet then_do_simps marker Inl
      by (intro emits_then_quiet [OF keeps_print] emits_then_quiet [OF keeps_reads] emits_then_quiet [OF keeps_stops_if]
            emits_then_quiet [OF keeps_record] emits_quiet keeps_lifted)
    with wallet Inl show ?thesis
      by (simp add: lifecycle_plan_def Let_def)
  qed (rule lifecycle_emits [OF wallet])
qed

section \<open>Rebuilding a history\<close>

lemma map_of_updates:
  "map_of (foldl (\<lambda>m e. map_set (k e) e m) m es) = map_of m ++ map_of (rev (map (\<lambda>e. (k e, e)) es))"
  by (induction es arbitrary: m) (simp_all add: update_conv' map_add_upd_left fun_eq_iff map_add_def split: option.splits)

lemma keys_updates:
  "fst ` set (foldl (\<lambda>m e. map_set (k e) e m) m es) = fst ` set m \<union> k ` set es"
  "distinct (map fst m) \<Longrightarrow> distinct (map fst (foldl (\<lambda>m e. map_set (k e) e m) m es))"
  "k ` set es \<subseteq> fst ` set m \<Longrightarrow> map fst (foldl (\<lambda>m e. map_set (k e) e m) m es) = map fst m"
proof -
  show "fst ` set (foldl (\<lambda>m e. map_set (k e) e m) m es) = fst ` set m \<union> k ` set es"
    by (induction es arbitrary: m) (auto simp: dom_update [unfolded dom_map_of_conv_image_fst])
  show "distinct (map fst m) \<Longrightarrow> distinct (map fst (foldl (\<lambda>m e. map_set (k e) e m) m es))"
    by (induction es arbitrary: m) (simp_all add: distinct_update)
  show "k ` set es \<subseteq> fst ` set m \<Longrightarrow> map fst (foldl (\<lambda>m e. map_set (k e) e m) m es) = map fst m"
  proof (induction es arbitrary: m)
    case (Cons e es)
    then have "map fst (map_set (k e) e m) = map fst m" "fst ` set (map_set (k e) e m) = fst ` set m"
      by (auto simp: update_keys dom_update)
    with Cons show ?case by simp
  qed simp
qed

lemma alist_eqI:
  assumes "map fst a = map fst b" and "distinct (map fst a)" and "map_of a = map_of b"
  shows "a = b"
proof -
  have entries: "xs = map (\<lambda>k. (k, the (map_of xs k))) (map fst xs)" if "distinct (map fst xs)" for xs :: "('a \<times> 'b) list"
  proof -
    have "map (\<lambda>k. (k, the (map_of xs k))) (map fst xs) = xs"
      unfolding map_map comp_def by (rule map_idI) (auto simp: map_of_is_SomeI [OF that])
    then show ?thesis by simp
  qed
  have "a = map (\<lambda>k. (k, the (map_of a k))) (map fst a)"
    by (rule entries [OF assms(2)])
  also have "\<dots> = map (\<lambda>k. (k, the (map_of b k))) (map fst b)"
    by (simp only: assms(1,3))
  also have "\<dots> = b"
    by (rule entries [symmetric]) (use assms(1,2) in simp)
  finally show ?thesis .
qed

lemma updates_twice:
  fixes k :: "'e \<Rightarrow> 'k"
  defines "U \<equiv> \<lambda>es m. foldl (\<lambda>m e. map_set (k e) e m) m es"
  shows "U (es @ es) [] = U es []"
proof (rule alist_eqI)
  have step: "U (es @ es) [] = U es (U es [])"
    by (simp add: U_def)
  have "map fst (U es (U es [])) = map fst (U es [])"
    unfolding U_def by (rule keys_updates(3)) (simp add: keys_updates(1))
  then show "map fst (U (es @ es) []) = map fst (U es [])"
    by (simp add: step)
  show "distinct (map fst (U (es @ es) []))"
    unfolding U_def by (rule keys_updates(2)) simp
  show "map_of (U (es @ es) []) = map_of (U es [])"
    unfolding step unfolding U_def map_of_updates by (simp add: fun_eq_iff map_add_def split: option.split)
qed

lemma mapR_append: "mapR f (xs @ ys) = bindR (mapR f xs) (\<lambda>as. bindR (mapR f ys) (\<lambda>bs. Inr (as @ bs)))"
  by (induction xs) (simp_all add: bindR_def split: sum.split)

lemma reconstruct_twice: "reconstruct sha num loc (txs @ txs) = reconstruct sha num loc txs"
proof (cases "mapR (\<lambda>tx. extractPpvEvents sha tx SMOKE_PROGRAMS) txs")
  case (Inr es)
  with updates_twice [of "envelope_key num" "concat es"] show ?thesis
    by (simp add: reconstruct_def mapR_append)
qed (simp add: reconstruct_def mapR_append)

section \<open>What a report rests on\<close>

definition executed_agreement :: "commerce_agreement_account \<Rightarrow> bool" where
  "executed_agreement d \<longleftrightarrow>
     ca_state d = Commerce_Executed
     \<and> (\<exists>a b. ca_signatureA d = Some a \<and> ca_signatureB d = Some b \<and> cs_signer a \<noteq> cs_signer b
          \<and> cs_termsHashSigned a = ca_termsHash d \<and> cs_termsHashSigned b = ca_termsHash d)"

text \<open>What the chain held, at three moments of the run, and what the report says of it.\<close>

definition report_grounded :: "smoke_world \<Rightarrow> lifecycle_report \<Rightarrow> bool" where
  "report_grounded w r \<longleftrightarrow>
     (\<exists>wallet agreement proof_key t1 t2 t3 data1 data2 data3 d p q.
        sw_wallet w = Inr wallet \<and> lr_agreement r = encodeBase58 agreement \<and> lr_coreProof r = encodeBase58 proof_key
        \<and> sw_account w agreement t1 = Inr (Some data1) \<and> decodeCommerceAgreementAccount (sw_sha w) data1 = Inr d
        \<and> executed_agreement d \<and> lr_partyA r = ca_partyA d \<and> lr_partyB r = ca_partyB d \<and> lr_termsHash r = ca_termsHash d
        \<and> sw_account w proof_key t2 = Inr (Some data2) \<and> decodeCoreProofAccount (sw_sha w) data2 = Inr p
        \<and> cp_contentHash p = ca_termsHash d \<and> cp_contextHash p = hex agreement \<and> cp_authority p = ca_partyA d
        \<and> sw_account w proof_key t3 = Inr (Some data3) \<and> decodeCoreProofAccount (sw_sha w) data3 = Inr q
        \<and> cp_status q = Core_Revoked \<and> 0 < cp_revokedAt q \<and> cp_authority q = encodeBase58 wallet
        \<and> mset (lr_history r) = mset EXPECTED_HISTORY \<and> lr_seal r = Seal_revoked)"

lemma ends_stops_if: "stops_if b c t s = (Inr u, s') \<longleftrightarrow> \<not> b \<and> s' = s"
  by (auto simp: stops_if_def yields_def)

lemma ends_reads: "reads_chain f s = (Inr a, s') \<longleftrightarrow> f s = Inr a \<and> s' = s"
  by (auto simp: reads_chain_def)

lemma ends_lifted: "lifted r s = (Inr a, s') \<longleftrightarrow> r = Inr a \<and> s' = s"
  by auto

lemma ends_yields: "yields a s = (Inr b, s') \<longleftrightarrow> b = a \<and> s' = s"
  by auto

lemma ends_stops: "stops c t s = (Inr a, s') \<longleftrightarrow> False"
  by simp

lemmas ends = ends_stops_if then_do_ends ends_reads ends_lifted ends_yields ends_stops

lemma acceptance_ends:
  assumes "acceptance_checks d s = (Inr u, s')"
  shows "\<exists>a b. ca_signatureA d = Some a \<and> ca_signatureB d = Some b \<and> cs_signer a \<noteq> cs_signer b
          \<and> cs_termsHashSigned a = ca_termsHash d \<and> cs_termsHashSigned b = ca_termsHash d"
  using assms unfolding acceptance_checks_def
  by (cases "ca_signatureA d"; cases "ca_signatureB d") (simp_all only: option.case ends, auto)

lemma executed_account_ends:
  assumes "executed_account w g s = (Inr (data, d), s')"
  shows "sw_account w g s = Inr (Some data) \<and> decodeCommerceAgreementAccount (sw_sha w) data = Inr d \<and> executed_agreement d"
  using assms unfolding executed_account_def executed_agreement_def
  by (auto simp: ends split: option.splits if_splits dest: acceptance_ends)

lemma core_phase_ends:
  assumes "core_phase w fx a g d s = (Inr (k, sig, e, data), s')"
  shows "\<exists>t p. sw_account w k t = Inr (Some data) \<and> decodeCoreProofAccount (sw_sha w) data = Inr p
    \<and> cp_contentHash p = ca_termsHash d \<and> cp_contextHash p = hex g \<and> cp_authority p = ca_partyA d"
  using assms unfolding core_phase_def
  by (simp only: ends split: option.splits) (auto simp: ends split: option.splits, blast)

lemma revoke_phase_ends:
  assumes "revoke_phase w a k s = (Inr x, s')"
  shows "\<exists>t data q. sw_account w k t = Inr (Some data) \<and> decodeCoreProofAccount (sw_sha w) data = Inr q
    \<and> cp_status q = Core_Revoked \<and> 0 < cp_revokedAt q \<and> cp_authority q = encodeBase58 a"
  using assms unfolding revoke_phase_def
  by (simp only: ends split: option.splits) (auto simp: ends split: option.splits, blast)

lemma history_phase_ends:
  assumes "history_phase w sigs s = (Inr h, s')"
  shows "mset h = mset EXPECTED_HISTORY"
proof -
  from assms have "js_sort str_cmp h = js_sort str_cmp EXPECTED_HISTORY"
    unfolding history_phase_def Let_def by (simp only: ends) auto
  then show ?thesis by (metis mset_js_sort)
qed

lemma reputation_phase_ends:
  assumes "reputation_phase w a c sig r rsig s = (Inr seal, s')"
  shows "seal = Seal_revoked"
  using assms unfolding reputation_phase_def Let_def by (simp only: ends) auto

lemma report_is_grounded:
  assumes "runLifecyclePhase w m s = (Inr r, s')"
  shows "report_grounded w r"
proof -
  obtain a g fx d data k sig c pdata sigs rsig e h seal t0 t1 t2 t3 t4 t5 t6 t7 t8 t9 t10
    where wallet: "sw_wallet w = Inr a"
      and acc: "executed_account w g t0 = (Inr (data, d), t1)"
      and core: "core_phase w fx a g d t2 = (Inr (k, sig, c, pdata), t3)"
      and revoke: "revoke_phase w a k t4 = (Inr (rsig, e), t5)"
      and history: "history_phase w sigs t6 = (Inr h, t7)"
      and reputation: "reputation_phase w a c sig e rsig t8 = (Inr seal, t9)"
      and r: "lr_agreement r = encodeBase58 g" "lr_coreProof r = encodeBase58 k" "lr_partyA r = ca_partyA d"
        "lr_partyB r = ca_partyB d" "lr_termsHash r = ca_termsHash d" "lr_history r = h" "lr_seal r = seal"
    using assms unfolding runLifecyclePhase_def Let_def
    by (simp only: ends split: prod.splits) fastforce
  show ?thesis
    unfolding report_grounded_def
    using executed_account_ends [OF acc] core_phase_ends [OF core] revoke_phase_ends [OF revoke]
      history_phase_ends [OF history] reputation_phase_ends [OF reputation] wallet r
    by metis
qed

section \<open>The properties\<close>

text \<open>
  C39: Whatever the chain answers, the lifecycle phase submits a prefix of seven transactions, in
  this order: the creation of the agreement, the acceptance of version 1 with the committed hashes by
  the wallet and then by the counterparty, the Core proof over the terms hash with the agreement as
  its context, the creation and the cancellation of a second agreement, and the revocation of that
  proof. Each is signed by the wallet, and by the counterparty only where it accepts; a phase that
  returns has submitted all seven.
\<close>

theorem lifecycle_sends: "emits submitted_in (runLifecyclePhase w runMarker) (lifecycle_plan w runMarker)"
  by (rule lifecycle_emits_always)


end
