(* ===== verification/Smoke_Example.thy ===== *)
theory Smoke_Example
  imports Smoke_Props
begin

text \<open>
  A devnet that answers as the programs would: the seven transactions land, their events and the
  two accounts read back, and the lifecycle phase of the smoke suite ends with its report.
\<close>

section \<open>The world\<close>

definition smoke_sha :: "bytes \<Rightarrow> bytes" where
  "smoke_sha bs = (if 64 \<le> length bs then y_one 128
     else replicate 8 (word_of_nat (sum_list (map unat bs))) @ replicate 24 0)"

definition key_A :: pubkey where "key_A = replicate 32 1"
definition key_B :: pubkey where "key_B = replicate 32 2"
definition key_P :: pubkey where "key_P = y_one 128"

definition toy_hash :: string where "toy_hash = hex (fx_contentHash (devnetFixtures smoke_sha None))"
definition toy_terms :: string where "toy_terms = hex (fx_termsHash (devnetFixtures smoke_sha None))"

definition toy_signed :: "string \<Rightarrow> commerce_signature" where
  "toy_signed k = \<lparr>cs_signer = k, cs_versionSigned = 1, cs_contentHashSigned = toy_hash, cs_termsHashSigned = toy_terms,
     cs_signedAt = 1\<rparr>"

definition toy_agreement :: commerce_agreement_account where
  "toy_agreement =
     \<lparr>ca_schemaVersion = 1, ca_bump = 255, ca_agreementId = replicate 32 CHR ''0'', ca_partyA = encodeBase58 key_A,
      ca_partyB = encodeBase58 key_B, ca_version = 1, ca_contentHash = toy_hash, ca_termsHash = toy_terms,
      ca_signatureA = Some (toy_signed (encodeBase58 key_A)), ca_signatureB = Some (toy_signed (encodeBase58 key_B)),
      ca_state = Commerce_Executed, ca_createdAt = 1, ca_expiresAt = 3600, ca_executedAt = 1, ca_cancelledAt = 0\<rparr>"

definition toy_proof :: "core_proof_status \<Rightarrow> int \<Rightarrow> core_proof_account" where
  "toy_proof st revokedAt =
     \<lparr>cp_schemaVersion = 1, cp_bump = 255, cp_proofId = replicate 32 CHR ''0'', cp_authority = encodeBase58 key_A,
      cp_contentHash = toy_terms, cp_contextHash = hex key_P, cp_kind = Kind_Agreement, cp_status = st,
      cp_createdAt = 1, cp_revokedAt = revokedAt\<rparr>"

definition agreement_data :: bytes where
  "agreement_data = COMMERCE_AGREEMENT_DISCRIMINATOR smoke_sha @ enc_commerce toy_agreement @ replicate 64 0"

definition proof_data :: "core_proof_status \<Rightarrow> int \<Rightarrow> bytes" where
  "proof_data st revokedAt = CORE_PROOF_DISCRIMINATOR smoke_sha @ enc_core_proof (toy_proof st revokedAt) @ replicate 64 0"

definition toy_events :: "nat \<Rightarrow> chain_event list" where
  "toy_events n =
     (let a = encodeBase58 key_A; b = encodeBase58 key_B; k = encodeBase58 key_P; i = replicate 32 CHR ''0'' in
      if n = 1 then [AgreementCreated k i a b 1 toy_hash toy_terms 3600 1]
      else if n = 2 then [AgreementSigned k a b a 1 toy_hash toy_terms 1]
      else if n = 3 then [AgreementSigned k a b b 1 toy_hash toy_terms 1, AgreementExecuted k a b 1 toy_hash toy_terms 1]
      else if n = 4 then [ProofCreated k a i toy_terms (hex key_P) Chain_agreement 1]
      else if n = 6 then [AgreementCancelled k a b a 1 1]
      else if n = 7 then [ProofRevoked k a i toy_terms Chain_agreement 2]
      else [])"

definition event_instruction :: "chain_event \<Rightarrow> rpc_instruction" where
  "event_instruction e =
     \<lparr>ri_programIdIndex = (if programForEvent (ce_name e) = ppv_core then 1 else 0), ri_accounts = [2],
      ri_data = encodeBase58 (EVENT_IX_TAG @ anchorDiscriminator smoke_sha ''event'' (chain_event_name_text (ce_name e))
                              @ enc_chain_event e)\<rparr>"

definition toy_keys :: "string list" where
  "toy_keys = [encodeBase58 COMMERCE, encodeBase58 CORE, encodeBase58 key_P]"

definition toy_signature :: "nat \<Rightarrow> string" where "toy_signature n = digit_char n # replicate 63 CHR ''1''"

definition toy_tx :: "nat \<Rightarrow> w3_transaction" where
  "toy_tx n =
     \<lparr>w3_slot = int n, w3_blockTime = None, w3_signatures = [toy_signature n], w3_keys = toy_keys, w3_compiled = [],
      w3_err = None, w3_inner = [\<lparr>w3_index = 0, w3_instructions = map event_instruction (toy_events n)\<rparr>]\<rparr>"

abbreviation count_sent :: "smoke_trace \<Rightarrow> nat" where "count_sent t \<equiv> length (submitted_in t)"

definition toy_world :: smoke_world where
  "toy_world =
     \<lparr>sw_sha = smoke_sha, sw_seek = (\<lambda>_ _. Inr (key_P, 255)), sw_num = (\<lambda>_. []), sw_localeCompare = str_cmp,
      sw_wallet = Inr key_A, sw_partyB = key_B, sw_now = 0, sw_balance = (\<lambda>_ _. Inr 1), sw_blockhash = (\<lambda>_. Inr ()),
      sw_submit = (\<lambda>_ t. Inr (toy_signature (count_sent t))), sw_confirm = (\<lambda>_ _. Inr ()),
      sw_transaction = (\<lambda>s _. Inr (Some (toy_tx (digit_val (hd s))))),
      sw_account = (\<lambda>_ t. Inr (Some (if count_sent t = 3 then agreement_data
          else if count_sent t = 4 then proof_data Core_Active 0 else proof_data Core_Revoked 2)))\<rparr>"

section \<open>What it decodes to\<close>

lemma length_smoke_sha [simp]: "length (smoke_sha bs) = 32"
  by (simp add: smoke_sha_def)

lemma toy_keys_ok [simp]: "length key_A = 32" "length key_B = 32" "length key_P = 32"
  by (simp_all add: key_A_def key_B_def key_P_def)

lemma toy_pubkeys [simp]: "is_pubkey (encodeBase58 key_A)" "is_pubkey (encodeBase58 key_B)" "is_pubkey (encodeBase58 key_P)"
  by (simp_all add: is_pubkey_encode)

lemma is_hex_hex: "length bs = n \<Longrightarrow> is_hex n (hex bs)"
  using hex_chars [of bs] by (auto simp: is_hex_def list_all_iff)

lemma toy_hex [simp]: "is_hex 32 toy_hash" "is_hex 32 toy_terms" "is_hex 16 (replicate 32 CHR ''0'')" "is_hex 32 (hex key_P)"
  using is_hex_hex [where n = 32] by (simp_all add: toy_hash_def toy_terms_def devnetFixtures_def Let_def sample_hex)

lemma toy_discriminators:
  "COMMERCE_AGREEMENT_DISCRIMINATOR smoke_sha = replicate 8 191" "CORE_PROOF_DISCRIMINATOR smoke_sha = replicate 8 140"
  unfolding COMMERCE_AGREEMENT_DISCRIMINATOR_def CORE_PROOF_DISCRIMINATOR_def by code_simp+

lemma agreement_decodes: "decodeCommerceAgreementAccount smoke_sha agreement_data = Inr toy_agreement"
  unfolding decodeCommerce_Inr agreement_data_def toy_discriminators
proof (intro conjI exI)
  show "take 8 (replicate 8 191 @ enc_commerce toy_agreement @ replicate 64 0) = replicate 8 191"
    by simp
  show "wf_commerce toy_agreement"
    by (simp add: wf_commerce_def toy_agreement_def wf_signature_def valid_opt_def toy_signed_def uint_in_def safe_int_def
          max_safe_integer_def)
  show "length (replicate 64 0) = 64" by simp
  show "drop 8 (replicate 8 191 @ enc_commerce toy_agreement @ replicate 64 0)
      = enc_commerce toy_agreement @ replicate 64 0 @ replicate 0 0" by simp
qed

lemma proof_decodes:
  assumes "safe_int t"
  shows "decodeCoreProofAccount smoke_sha (proof_data st t) = Inr (toy_proof st t)"
  unfolding decodeCoreProofAccount_Inr proof_data_def toy_discriminators
proof (intro conjI exI)
  show "take 8 (replicate 8 140 @ enc_core_proof (toy_proof st t) @ replicate 64 0) = replicate 8 140"
    by simp
  show "wf_core_proof (toy_proof st t)"
    using assms by (simp add: wf_core_proof_def toy_proof_def uint_in_def safe_int_def max_safe_integer_def)
  show "length (replicate 64 0) = 64" by simp
  show "drop 8 (replicate 8 140 @ enc_core_proof (toy_proof st t) @ replicate 64 0)
      = enc_core_proof (toy_proof st t) @ replicate 64 0" by simp
qed

lemma no_crossing:
  "\<exists>e. decodeCoreProofAccount smoke_sha agreement_data = Inl e"
  "\<exists>e. decodeCommerceAgreementAccount smoke_sha (proof_data st t) = Inl e"
  by (simp_all add: decodeCoreProofAccount_def decodeCommerceAgreementAccount_def agreement_data_def proof_data_def
        toy_discriminators)

fun event_mark :: "chain_event_name \<Rightarrow> byte" where
  "event_mark Name_ProofCreated = 26"
| "event_mark Name_ProofRevoked = 50"
| "event_mark Name_AgreementCreated = 172"
| "event_mark Name_AgreementRevised = 198"
| "event_mark Name_AgreementSigned = 78"
| "event_mark Name_AgreementExecuted = 43"
| "event_mark Name_AgreementCancelled = 111"

lemma event_discriminators:
  "anchorDiscriminator smoke_sha ''event'' (chain_event_name_text name) = replicate 8 (event_mark name)"
  by (cases name) (simp_all only: chain_event_name_text.simps event_mark.simps, code_simp+)

lemma event_marks_differ: "event_mark a = event_mark b \<longleftrightarrow> a = b"
  by (cases a; cases b) simp_all

lemma events_match: "chain_event_match smoke_sha (anchorDiscriminator smoke_sha ''event'' (chain_event_name_text name)) = Some name"
  unfolding chain_event_match_def CHAIN_DISCRIMINATORS_def event_discriminators PPV_EVENT_NAMES_def PPV_CORE_EVENT_NAMES_def
    PPV_COMMERCE_EVENT_NAMES_def
  by (cases name) (simp_all add: event_marks_differ replicate_eq_replicate)

lemma events_wf: "e \<in> set (toy_events n) \<Longrightarrow> wf_chain_event e"
  by (auto simp: toy_events_def Let_def uint_in_def safe_int_def max_safe_integer_def split: if_splits)

lemma event_decodes:
  assumes "wf_chain_event e"
  shows "decodePpvEventData smoke_sha (EVENT_IX_TAG @ anchorDiscriminator smoke_sha ''event'' (chain_event_name_text (ce_name e))
     @ enc_chain_event e) = Inr (Some e)"
proof -
  have "length EVENT_IX_TAG = 8"
    by (simp add: EVENT_IX_TAG_def)
  moreover have "length (anchorDiscriminator smoke_sha ''event'' (chain_event_name_text (ce_name e))) = 8"
    by (simp add: anchorDiscriminator_def)
  ultimately show ?thesis
    unfolding decodePpvEventData_Some using assms by (simp add: events_match)
qed

section \<open>The run\<close>

lemma toy_world_simps [simp]:
  "sw_sha toy_world = smoke_sha" "sw_seek toy_world = (\<lambda>_ _. Inr (key_P, 255))" "sw_wallet toy_world = Inr key_A"
  "sw_partyB toy_world = key_B" "sw_now toy_world = 0" "sw_balance toy_world k t = Inr 1" "sw_blockhash toy_world t = Inr ()"
  "sw_submit toy_world ix t = Inr (toy_signature (count_sent t))" "sw_confirm toy_world sig t = Inr ()"
  "sw_transaction toy_world sig t = Inr (Some (toy_tx (digit_val (hd sig))))" "sw_localeCompare toy_world = str_cmp"
  "sw_account toy_world k t = Inr (Some (if count_sent t = 3 then agreement_data
          else if count_sent t = 4 then proof_data Core_Active 0 else proof_data Core_Revoked 2))"
  by (simp_all add: toy_world_def)

lemma toy_signature_digit: "n < 10 \<Longrightarrow> digit_val (hd (toy_signature n)) = n"
  by (simp add: toy_signature_def digit_char_props)

lemma built:
  "\<exists>ix. createAgreementInstruction smoke_sha (\<lambda>_ _. Inr (key_P, 255)) a b i c t 3600 = Inr ix"
  "\<exists>ix. signAgreementInstruction smoke_sha (\<lambda>_ _. Inr (key_P, 255)) num a g (Whole 1) c t = Inr ix"
  "\<exists>ix. createProofInstruction smoke_sha (\<lambda>_ _. Inr (key_P, 255)) a i c x ''agreement'' = Inr ix"
  "\<exists>ix. cancelAgreementInstruction smoke_sha (\<lambda>_ _. Inr (key_P, 255)) a g = Inr ix"
  "\<exists>ix. revokeProofInstruction smoke_sha (\<lambda>_ _. Inr (key_P, 255)) a g = Inr ix"
  by (simp_all add: createAgreementInstruction_def signAgreementInstruction_def createProofInstruction_def
        cancelAgreementInstruction_def revokeProofInstruction_def agreementAddress_def proofAddress_def
        smoke_eventCpiAccounts_def big_int64_def script_u32_def Let_def SMOKE_PROOF_KINDS_def)

lemma toy_send:
  assumes "\<exists>ix. built = Inr ix" and "count_sent s = n" and "m = Suc n"
  shows "\<exists>s'. smoke_send toy_world signers built s = (Inr (toy_signature m), s') \<and> count_sent s' = m"
  using assms by (auto simp: smoke_send_def then_do_def reads_chain_def)

lemma toy_record: "\<exists>s'. smoke_record name detail s = (Inr (), s') \<and> count_sent s' = count_sent s"
  by (simp add: smoke_record_def)

lemma event_collected:
  assumes "wf_chain_event e" and "p = (if programForEvent (ce_name e) = ppv_core then CORE else COMMERCE)"
  shows "smoke_event_step smoke_sha toy_keys p key_P acc (event_instruction e) = Inr (acc @ [e])"
proof -
  have "programOf toy_keys (event_instruction e) = Some (encodeBase58 p)"
    "first_account toy_keys (event_instruction e) = Some (encodeBase58 key_P)"
    using assms(2) by (simp_all add: programOf_def first_account_def key_at_def toy_keys_def event_instruction_def)
  then show ?thesis
    by (simp add: smoke_event_step_def) (simp add: event_instruction_def event_decodes [OF assms(1)])
qed

lemma events_collected:
  assumes "\<forall>e \<in> set es. wf_chain_event e \<and> p = (if programForEvent (ce_name e) = ppv_core then CORE else COMMERCE)"
  shows "foldR (smoke_event_step smoke_sha toy_keys p key_P) acc (map event_instruction es) = Inr (acc @ es)"
  using assms by (induction es arbitrary: acc) (simp_all add: event_collected)

lemma toy_events_of:
  assumes "n < 10" and "\<forall>e \<in> set (toy_events n). p = (if programForEvent (ce_name e) = ppv_core then CORE else COMMERCE)"
  shows "eventsOf toy_world (toy_signature n) p s = (Inr (toy_events n), s)"
proof -
  have "foldR (smoke_event_step smoke_sha toy_keys p key_P) [] (map event_instruction (toy_events n)) = Inr (toy_events n)"
    using events_collected [of "toy_events n" p "[]"] assms(2) events_wf by simp
  then show ?thesis
    using toy_signature_digit [OF assms(1)] by (simp add: eventsOf_def reads_chain_def then_do_def toy_tx_def)
qed

lemma toy_events_program:
  "\<forall>e \<in> set (toy_events n). (if n = 4 \<or> n = 7 then CORE else COMMERCE)
     = (if programForEvent (ce_name e) = ppv_core then CORE else COMMERCE)"
  by (auto simp: toy_events_def Let_def programForEvent_def PPV_CORE_EVENT_NAMES_def)

lemma toy_events_read:
  assumes "n < 10"
  shows "eventsOf toy_world (toy_signature n) (if n = 4 \<or> n = 7 then CORE else COMMERCE) s = (Inr (toy_events n), s)"
  by (rule toy_events_of [OF assms toy_events_program])

lemmas toy_reads = toy_events_read [of 1, simplified] toy_events_read [of 3, simplified] toy_events_read [of 4, simplified]
  toy_events_read [of 6, simplified] toy_events_read [of 7, simplified]

lemmas run_simps = then_do_def smoke_record_def is_event_def

abbreviation toy_fixtures :: smoke_fixtures where "toy_fixtures \<equiv> devnetFixtures smoke_sha None"

lemma toy_create:
  assumes "count_sent s = 0"
  shows "\<exists>s'. create_phase toy_world toy_fixtures key_A 3600 s = (Inr (toy_signature 1), s') \<and> count_sent s' = 1"
proof -
  have "\<exists>s1. smoke_send toy_world [key_A] (createAgreementInstruction smoke_sha (\<lambda>_ _. Inr (key_P, 255)) key_A key_B
      (fx_agreementId toy_fixtures) (fx_contentHash toy_fixtures) (fx_termsHash toy_fixtures) 3600) s
      = (Inr (toy_signature 1), s1) \<and> count_sent s1 = 1"
    by (rule toy_send [OF built(1) assms]) simp
  then obtain s1 where s1: "smoke_send toy_world [key_A] (createAgreementInstruction smoke_sha (\<lambda>_ _. Inr (key_P, 255)) key_A key_B
      (fx_agreementId toy_fixtures) (fx_contentHash toy_fixtures) (fx_termsHash toy_fixtures) 3600) s
      = (Inr (toy_signature 1), s1)" "count_sent s1 = 1"
    by blast
  have "toy_events 1 = [AgreementCreated (encodeBase58 key_P) (replicate 32 CHR ''0'') (encodeBase58 key_A) (encodeBase58 key_B)
      1 toy_hash toy_terms 3600 1]"
    by (simp add: toy_events_def)
  with s1 show ?thesis
    by (simp add: create_phase_def run_simps toy_reads toy_hash_def toy_terms_def)
qed

lemma toy_sign:
  assumes "count_sent s = 1"
  shows "\<exists>s'. sign_phase toy_world toy_fixtures key_A key_P s = (Inr (toy_signature 2, toy_signature 3), s') \<and> count_sent s' = 3"
proof -
  have "\<exists>s1. smoke_send toy_world [key_A] (signAgreementInstruction smoke_sha (\<lambda>_ _. Inr (key_P, 255)) (sw_num toy_world)
      key_A key_P (Whole 1) (fx_contentHash toy_fixtures) (fx_termsHash toy_fixtures)) s = (Inr (toy_signature 2), s1) \<and> count_sent s1 = 2"
    by (rule toy_send [OF built(2) assms]) simp
  then obtain s1 where s1: "smoke_send toy_world [key_A] (signAgreementInstruction smoke_sha (\<lambda>_ _. Inr (key_P, 255)) (sw_num toy_world)
      key_A key_P (Whole 1) (fx_contentHash toy_fixtures) (fx_termsHash toy_fixtures)) s = (Inr (toy_signature 2), s1)" "count_sent s1 = 2"
    by blast
  then have c: "count_sent (s1 @ [Smoke_recorded name b detail]) = 2" for name b detail
    by simp
  have "\<exists>s2. smoke_send toy_world [key_A, key_B] (signAgreementInstruction smoke_sha (\<lambda>_ _. Inr (key_P, 255)) (sw_num toy_world)
      key_B key_P (Whole 1) (fx_contentHash toy_fixtures) (fx_termsHash toy_fixtures))
      (s1 @ [Smoke_recorded ''party A accepts the exact version it saw'' True (toy_signature 2)]) = (Inr (toy_signature 3), s2) \<and> count_sent s2 = 3"
    by (rule toy_send [OF built(2) c]) simp
  then obtain s2 where s2: "smoke_send toy_world [key_A, key_B] (signAgreementInstruction smoke_sha (\<lambda>_ _. Inr (key_P, 255)) (sw_num toy_world)
      key_B key_P (Whole 1) (fx_contentHash toy_fixtures) (fx_termsHash toy_fixtures))
      (s1 @ [Smoke_recorded ''party A accepts the exact version it saw'' True (toy_signature 2)]) = (Inr (toy_signature 3), s2)" "count_sent s2 = 3"
    by blast
  have "list_ex (is_event Name_AgreementExecuted) (toy_events 3)"
    by (simp add: toy_events_def Let_def is_event_def)
  with s1 s2 show ?thesis
    by (simp add: sign_phase_def run_simps toy_reads)
qed

lemma toy_executed:
  assumes "count_sent s = 3"
  shows "\<exists>s'. executed_account toy_world key_P s = (Inr (agreement_data, toy_agreement), s') \<and> count_sent s' = 3"
proof -
  have "key_bytes (encodeBase58 key_A) \<noteq> key_bytes (encodeBase58 key_B)"
    unfolding key_bytes_encode by (simp add: key_A_def key_B_def replicate_eq_replicate)
  then have "encodeBase58 key_A \<noteq> encodeBase58 key_B"
    by metis
  with assms show ?thesis
    by (simp add: executed_account_def acceptance_checks_def run_simps reads_chain_def agreement_decodes toy_agreement_def toy_signed_def)
qed

lemma toy_core:
  assumes "count_sent s = 3"
  shows "\<exists>s'. core_phase toy_world toy_fixtures key_A key_P toy_agreement s
     = (Inr (key_P, toy_signature 4, hd (toy_events 4), proof_data Core_Active 0), s') \<and> count_sent s' = 4"
proof -
  have "\<exists>s1. smoke_send toy_world [key_A] (createProofInstruction smoke_sha (\<lambda>_ _. Inr (key_P, 255)) key_A
      (binding_id toy_world key_P ''terms'') (fx_termsHash toy_fixtures) key_P ''agreement'') s = (Inr (toy_signature 4), s1) \<and> count_sent s1 = 4"
    by (rule toy_send [OF built(3) assms]) simp
  then obtain s1 where s1: "smoke_send toy_world [key_A] (createProofInstruction smoke_sha (\<lambda>_ _. Inr (key_P, 255)) key_A
      (binding_id toy_world key_P ''terms'') (fx_termsHash toy_fixtures) key_P ''agreement'') s = (Inr (toy_signature 4), s1)" "count_sent s1 = 4"
    by blast
  have "toy_events 4 = [ProofCreated (encodeBase58 key_P) (encodeBase58 key_A) (replicate 32 CHR ''0'') toy_terms (hex key_P)
      Chain_agreement 1]"
    by (simp add: toy_events_def)
  moreover have "safe_int 0"
    by (simp add: safe_int_def max_safe_integer_def)
  ultimately show ?thesis
    using s1 by (simp add: core_phase_def proofAddress_def run_simps reads_chain_def toy_reads proof_decodes toy_proof_def toy_agreement_def)
qed

lemma toy_separation: "\<exists>s'. separation_phase toy_world agreement_data (proof_data Core_Active 0) s = (Inr (), s') \<and> count_sent s' = count_sent s"
  using no_crossing(1) no_crossing(2) [of Core_Active 0] by (auto simp: separation_phase_def smoke_record_def)

lemma toy_cancel:
  assumes "count_sent s = 4"
  shows "\<exists>s'. cancel_phase toy_world toy_fixtures key_A key_P 3600 s = (Inr (toy_signature 6), s') \<and> count_sent s' = 6"
proof -
  have "\<exists>s1. smoke_send toy_world [key_A] (createAgreementInstruction smoke_sha (\<lambda>_ _. Inr (key_P, 255)) key_A key_B
      (binding_id toy_world key_P ''cancel'') (fx_contentHash toy_fixtures) (fx_termsHash toy_fixtures) 3600) s
      = (Inr (toy_signature 5), s1) \<and> count_sent s1 = 5"
    by (rule toy_send [OF built(1) assms]) simp
  then obtain s1 where s1: "smoke_send toy_world [key_A] (createAgreementInstruction smoke_sha (\<lambda>_ _. Inr (key_P, 255)) key_A key_B
      (binding_id toy_world key_P ''cancel'') (fx_contentHash toy_fixtures) (fx_termsHash toy_fixtures) 3600) s
      = (Inr (toy_signature 5), s1)" "count_sent s1 = 5"
    by blast
  have "\<exists>s2. smoke_send toy_world [key_A] (cancelAgreementInstruction smoke_sha (\<lambda>_ _. Inr (key_P, 255)) key_A key_P) s1
      = (Inr (toy_signature 6), s2) \<and> count_sent s2 = 6"
    by (rule toy_send [OF built(4) s1(2)]) simp
  then obtain s2 where s2: "smoke_send toy_world [key_A] (cancelAgreementInstruction smoke_sha (\<lambda>_ _. Inr (key_P, 255)) key_A key_P) s1
      = (Inr (toy_signature 6), s2)" "count_sent s2 = 6"
    by blast
  have "list_ex (is_event Name_AgreementCancelled) (toy_events 6)"
    by (simp add: toy_events_def Let_def is_event_def)
  with s1 s2 show ?thesis
    by (simp add: cancel_phase_def agreementAddress_def run_simps toy_reads)
qed

lemma toy_revoke:
  assumes "count_sent s = 6"
  shows "\<exists>s'. revoke_phase toy_world key_A key_P s = (Inr (toy_signature 7, hd (toy_events 7)), s') \<and> count_sent s' = 7"
proof -
  have "\<exists>s1. smoke_send toy_world [key_A] (revokeProofInstruction smoke_sha (\<lambda>_ _. Inr (key_P, 255)) key_A key_P) s
      = (Inr (toy_signature 7), s1) \<and> count_sent s1 = 7"
    by (rule toy_send [OF built(5) assms]) simp
  then obtain s1 where s1: "smoke_send toy_world [key_A] (revokeProofInstruction smoke_sha (\<lambda>_ _. Inr (key_P, 255)) key_A key_P) s
      = (Inr (toy_signature 7), s1)" "count_sent s1 = 7"
    by blast
  have "toy_events 7 = [ProofRevoked (encodeBase58 key_P) (encodeBase58 key_A) (replicate 32 CHR ''0'') toy_terms Chain_agreement 2]"
    by (simp add: toy_events_def)
  moreover have "safe_int 2"
    by (simp add: safe_int_def max_safe_integer_def)
  ultimately show ?thesis
    using s1 by (simp add: revoke_phase_def run_simps reads_chain_def toy_reads proof_decodes toy_proof_def)
qed

section \<open>The history\<close>

lemma toy_authority:
  assumes "length p = 32"
  shows "indexer_deriveEventAuthority smoke_sha (encodeBase58 p) = Inr (encodeBase58 key_P)"
proof -
  have "findProgramAddress smoke_sha [utf8 ''__event_authority''] (encodeBase58 p) = Inr (encodeBase58 key_P, 255)"
    using assms y_one_off_curve
    by (simp add: findProgramAddress_def createProgramAddress_def eval_nat_numeral MAX_SEEDS_def MAX_SEED_LENGTH_def
          PDA_MARKER_def smoke_sha_def key_P_def Let_def)
  then show ?thesis
    by (simp add: indexer_deriveEventAuthority_def)
qed

lemma smoke_programs: "SMOKE_PROGRAMS = [(ppv_core, encodeBase58 CORE), (ppv_commerce, encodeBase58 COMMERCE)]"
  using program_keys by (simp add: SMOKE_PROGRAMS_def)

lemma program_texts_differ: "encodeBase58 CORE \<noteq> encodeBase58 COMMERCE"
  using programs_differ by (metis key_bytes_encode)

definition toy_table :: "(string \<times> ppv_program \<times> string) list" where
  "toy_table = [(encodeBase58 CORE, ppv_core, encodeBase58 key_P), (encodeBase58 COMMERCE, ppv_commerce, encodeBase58 key_P)]"

lemma toy_table_built: "foldR (program_entry smoke_sha) [] SMOKE_PROGRAMS = Inr toy_table"
  using program_texts_differ
  by (simp add: smoke_programs program_entry_def toy_authority program_keys(2,4) toy_table_def)

definition toy_envelope :: "nat \<Rightarrow> nat \<times> chain_event \<Rightarrow> ppv_envelope" where
  "toy_envelope n item =
     \<lparr>px_event = snd item, px_program = programForEvent (ce_name (snd item)),
      px_programId = (if programForEvent (ce_name (snd item)) = ppv_core then encodeBase58 CORE else encodeBase58 COMMERCE),
      px_transactionSignature = toy_signature n, px_slot = Whole (int n), px_instructionIndex = Whole 0,
      px_innerInstructionIndex = int (fst item), px_blockTime = None\<rparr>"

lemma toy_owner: "programForEvent name = ppv_core \<or> programForEvent name = ppv_commerce"
  by (simp add: programForEvent_def)

lemma toy_step:
  assumes "wf_chain_event e"
  shows "ppv_step smoke_sha toy_table (rpc_view (toy_tx n)) (toy_signature n) (Whole 0) acc (i, event_instruction e)
    = Inr (acc @ [toy_envelope n (i, e)])"
proof -
  let ?p = "programForEvent (ce_name e)"
  have keys: "accountKeysOf (rpc_view (toy_tx n)) = toy_keys"
    by (simp add: accountKeysOf_def rpc_view_def toy_tx_def)
  have at: "programOf toy_keys (event_instruction e) = Some (if ?p = ppv_core then encodeBase58 CORE else encodeBase58 COMMERCE)"
    "first_account toy_keys (event_instruction e) = Some (encodeBase58 key_P)"
    by (simp_all add: programOf_def first_account_def key_at_def toy_keys_def event_instruction_def)
  have entry: "map_get toy_table (if ?p = ppv_core then encodeBase58 CORE else encodeBase58 COMMERCE) = Some (?p, encodeBase58 key_P)"
    using program_texts_differ toy_owner [of "ce_name e"] by (auto simp: toy_table_def)
  have read: "bindR (decodeBase58 (ri_data (event_instruction e))) (decodeEventForProgram smoke_sha ?p)
      = Inr (Some (Chain_Event ?p e))"
    using toy_owner [of "ce_name e"] event_decodes [OF assms]
    by (auto simp: event_instruction_def decode_encode_base58 decodeEventForProgram_def Let_def)
  then show ?thesis
    using keys at entry
    by (auto simp: ppv_step_def Let_def toy_envelope_def rpc_view_def toy_tx_def bindR_eq_Inr)
qed

lemma toy_steps:
  assumes "\<forall>e \<in> set es. wf_chain_event e"
  shows "foldR (ppv_step smoke_sha toy_table (rpc_view (toy_tx n)) (toy_signature n) (Whole 0)) acc
     (enumerate k (map event_instruction es)) = Inr (acc @ map (toy_envelope n) (enumerate k es))"
  using assms by (induction es arbitrary: acc k) (simp_all add: toy_step)

lemma toy_extract:
  "extractPpvEvents smoke_sha (rpc_view (toy_tx n)) SMOKE_PROGRAMS = Inr (map (toy_envelope n) (enumerate 0 (toy_events n)))"
proof -
  have parts: "\<not> tx_failed (rpc_view (toy_tx n))" "tx_signature (rpc_view (toy_tx n)) = Some (toy_signature n)"
    "inner_groups (rpc_view (toy_tx n)) = [\<lparr>ii_index = Whole 0, ii_instructions = map event_instruction (toy_events n)\<rparr>]"
    by (simp_all add: tx_failed_def tx_signature_def inner_groups_def rpc_view_def toy_tx_def toy_signature_def)
  have "foldR (ppv_step smoke_sha toy_table (rpc_view (toy_tx n)) (toy_signature n) (Whole 0)) []
     (enumerate 0 (map event_instruction (toy_events n))) = Inr (map (toy_envelope n) (enumerate 0 (toy_events n)))"
    using toy_steps [of "toy_events n" n "[]" 0] events_wf by simp
  then show ?thesis
    by (simp add: extractPpvEvents_def parts toy_table_built each_indexed_def enumerate_eq_zip)
qed

lemma update_fresh: "x \<notin> fst ` set al \<Longrightarrow> map_set x v al = al @ [(x, v)]"
  by (induction al) auto

lemma updates_fresh:
  assumes "distinct (map k es)" and "set (map k es) \<inter> fst ` set m = {}"
  shows "foldl (\<lambda>m e. map_set (k e) e m) m es = m @ map (\<lambda>e. (k e, e)) es"
  using assms by (induction es arbitrary: m) (auto simp: update_fresh)

text \<open>The envelopes of the five transactions, in the order in which they happened.\<close>

definition toy_envelopes :: "nat \<Rightarrow> ppv_envelope list" where
  "toy_envelopes n = map (toy_envelope n) (enumerate 0 (toy_events n))"

lemma toy_key:
  assumes "n < 10" and "m < 10"
  shows "envelope_key num (toy_envelope n (i, e)) = envelope_key num (toy_envelope m (j, e')) \<longleftrightarrow> n = m \<and> i = j"
proof -
  have "digit_char n = digit_char m \<longleftrightarrow> n = m"
    using assms by (metis digit_char_props)
  then show ?thesis
    by (auto simp: envelope_key_def toy_envelope_def toy_signature_def whole_text_def)
qed

lemma toy_order:
  "envelope_order str_cmp (toy_envelope n (i, e)) (toy_envelope m (j, e')) =
     (if n \<noteq> m then int n - int m else int i - int j)"
  by (simp add: envelope_order_def or_int_def toy_envelope_def)

lemma toy_envelopes_list:
  "toy_envelopes 1 = [toy_envelope 1 (0, hd (toy_events 1))]"
  "toy_envelopes 2 = [toy_envelope 2 (0, hd (toy_events 2))]"
  "toy_envelopes 3 = [toy_envelope 3 (0, hd (toy_events 3)), toy_envelope 3 (1, hd (tl (toy_events 3)))]"
  "toy_envelopes 4 = [toy_envelope 4 (0, hd (toy_events 4))]"
  "toy_envelopes 7 = [toy_envelope 7 (0, hd (toy_events 7))]"
  by (simp_all add: toy_envelopes_def toy_events_def Let_def)

lemma toy_names:
  "history_name (toy_envelope n (0, hd (toy_events 1))) = ''ppv_commerce:AgreementCreated''"
  "history_name (toy_envelope n (0, hd (toy_events 2))) = ''ppv_commerce:AgreementSigned''"
  "history_name (toy_envelope n (0, hd (toy_events 3))) = ''ppv_commerce:AgreementSigned''"
  "history_name (toy_envelope n (1, hd (tl (toy_events 3)))) = ''ppv_commerce:AgreementExecuted''"
  "history_name (toy_envelope n (0, hd (toy_events 4))) = ''ppv_core:ProofCreated''"
  "history_name (toy_envelope n (0, hd (toy_events 7))) = ''ppv_core:ProofRevoked''"
  by (simp_all add: history_name_def toy_envelope_def toy_events_def Let_def programForEvent_def PPV_CORE_EVENT_NAMES_def)

definition toy_transactions :: "rpc_transaction list" where
  "toy_transactions = map (\<lambda>n. rpc_view (toy_tx n)) [1, 2, 3, 4, 7]"

lemma toy_extracts: "mapR (\<lambda>tx. extractPpvEvents smoke_sha tx SMOKE_PROGRAMS) (map (\<lambda>n. rpc_view (toy_tx n)) ns) = Inr (map toy_envelopes ns)"
  by (induction ns) (simp_all add: toy_extract toy_envelopes_def)

lemma toy_history: "reconstruct smoke_sha num str_cmp toy_transactions = Inr EXPECTED_HISTORY"
  unfolding reconstruct_def toy_transactions_def toy_extracts bindR_Inr Let_def
  by (simp add: toy_envelopes_list updates_fresh toy_key toy_order toy_names EXPECTED_HISTORY_def del: One_nat_def)

lemma toy_history_reversed: "reconstruct smoke_sha num str_cmp (rev toy_transactions) = Inr EXPECTED_HISTORY"
  unfolding reconstruct_def toy_transactions_def rev_map toy_extracts bindR_Inr Let_def
  by (simp add: toy_envelopes_list updates_fresh toy_key toy_order toy_names EXPECTED_HISTORY_def del: One_nat_def)

lemma toy_raw:
  "n < 10 \<Longrightarrow> rawTransaction toy_world (toy_signature n) s = (Inr (rpc_view (toy_tx n)), s)"
  by (simp add: rawTransaction_def reads_chain_def then_do_def toy_signature_digit)

lemma toy_history_phase:
  "\<exists>s'. history_phase toy_world [toy_signature 1, toy_signature 2, toy_signature 3, toy_signature 4, toy_signature 7] s
     = (Inr EXPECTED_HISTORY, s')"
proof -
  have "for_each (rawTransaction toy_world)
      [toy_signature 1, toy_signature 2, toy_signature 3, toy_signature 4, toy_signature 7] s = (Inr toy_transactions, s)"
    by (simp add: then_do_Inr toy_raw toy_transactions_def del: One_nat_def)
  then show ?thesis
    by (simp add: history_phase_def then_do_Inr Let_def toy_history reconstruct_twice toy_history_reversed smoke_record_def)
qed

section \<open>The seal\<close>

lemma toy_iso: "\<exists>t. normalize_isoFromUnix 1 = Inr t" "\<exists>t. normalize_isoFromUnix 2 = Inr t"
proof -
  have "\<not> isl (normalize_isoFromUnix 1)" "\<not> isl (normalize_isoFromUnix 2)"
    by code_simp+
  then show "\<exists>t. normalize_isoFromUnix 1 = Inr t" "\<exists>t. normalize_isoFromUnix 2 = Inr t"
    by (metis sum.collapse(2))+
qed

lemma digit_in_class: "n < 10 \<Longrightarrow> n \<noteq> 0 \<Longrightarrow> base58_class (digit_char n)"
  unfolding base58_class_def
  by (rule disjI1, drule less_10_cases) (elim disjE; simp add: digit_char_def in_range_def)

lemma toy_signature_valid:
  assumes "n < 10" and "n \<noteq> 0"
  shows "isTransactionSignature (Js_string (toy_signature n))"
proof -
  have "base58_class CHR ''1''"
    by (simp add: base58_class_def in_range_def)
  then have "list_all base58_class (replicate k CHR ''1'')" for k
    by (simp add: list_all_iff)
  then show ?thesis
    using digit_in_class [OF assms]
    by (simp add: isTransactionSignature_def BASE58_SIGNATURE_def repeated_def toy_signature_def)
qed

lemma toy_normalized:
  "\<exists>ev. smoke_normalize toy_world (hd (toy_events 4)) (toy_signature 4) 1 = Inr ev \<and> re_eventType ev = Type_proof_created"
  "\<exists>ev. smoke_normalize toy_world (hd (toy_events 7)) (toy_signature 7) 2 = Inr ev \<and> re_eventType ev = Type_proof_revoked
     \<and> re_actorWallet ev = encodeBase58 key_A \<and> re_counterpartyWallet ev = None"
  using toy_iso
  by (auto simp: smoke_normalize_def normalizeChainEvent_def toy_events_def Let_def programForEvent_def PPV_CORE_EVENT_NAMES_def
        toy_signature_valid resolve_counterparty_def snapshotFor_def snapshot_for_counterparty_def)

lemma toy_reputation:
  "\<exists>s'. reputation_phase toy_world key_A (hd (toy_events 4)) (toy_signature 4) (hd (toy_events 7)) (toy_signature 7) s
     = (Inr Seal_revoked, s')"
proof -
  obtain a where a: "smoke_normalize toy_world (hd (toy_events 4)) (toy_signature 4) 1 = Inr a" "re_eventType a = Type_proof_created"
    using toy_normalized(1) by blast
  obtain b where b: "smoke_normalize toy_world (hd (toy_events 7)) (toy_signature 7) 2 = Inr b" "re_eventType b = Type_proof_revoked"
      "re_actorWallet b = encodeBase58 key_A" "re_counterpartyWallet b = None"
    using toy_normalized(2) by blast
  have times: "ce_createdAt (hd (toy_events 4)) = 1" "ce_revokedAt (hd (toy_events 7)) = 2"
    by (simp_all add: toy_events_def Let_def)
  have seal: "resolveSealState (deriveSealFacts [a, b] True) = Seal_revoked"
    using a(2) b(2) by (simp add: deriveSealFacts_def resolveSealState_def EMPTY_SEAL_FACTS_def Let_def)
  show ?thesis
    by (simp add: reputation_phase_def times a b seal Let_def smoke_record_def projectReceipts_def participantsFor_def
          projectReceipt_def no_hints_def non_empty_def defaultRoles_def split: prod.split)
qed

text \<open>The whole phase returns its report.\<close>

lemma run_step:
  assumes "\<exists>s1. m s = (Inr a, s1) \<and> Q s1" and "\<And>s1. Q s1 \<Longrightarrow> \<exists>r s'. f a s1 = (Inr r, s')"
  shows "\<exists>r s'. then_do m f s = (Inr r, s')"
  using assms by (auto simp: then_do_def)

lemma run_last:
  assumes "\<exists>s1. m s = (Inr a, s1)" and "\<And>s1. \<exists>r s'. f a s1 = (Inr r, s')"
  shows "\<exists>r s'. then_do m f s = (Inr r, s')"
  using assms by (auto simp: then_do_def)

lemma then_record [simp]: "then_do (smoke_record name detail) f s = f () (s @ [Smoke_recorded name True detail])"
  by (simp add: smoke_record_def)

lemma then_reads: "then_do (reads_chain g) f s = (case g s of Inl e \<Rightarrow> (Inl e, s) | Inr a \<Rightarrow> f a s)"
  by (simp add: then_do_def reads_chain_def split: sum.split)

lemma toy_agreement_address: "then_do (lifted (agreementAddress (sw_seek toy_world) a b)) f s = f key_P s"
  by (simp add: agreementAddress_def)

lemma toy_run: "\<exists>r s'. runLifecyclePhase toy_world [] [] = (Inr r, s')"
proof -
  let ?s0 = "(([] @ [Smoke_printed ([CHR 10] @ ''Lifecycle (devnet fixtures)'' @ [CHR 10])])
    @ [Smoke_recorded ''smoke wallet is funded'' True (b58 key_A @ '' ('' @ dec_int 1 @ '' lamports)'')])
    @ [Smoke_recorded ''disposable counterparty generated'' True (b58 key_B)]"
  have "count_sent ?s0 = 0" by simp
  then obtain s1 where s1: "create_phase toy_world toy_fixtures key_A 3600 ?s0 = (Inr (toy_signature 1), s1)" "count_sent s1 = 1"
    using toy_create by blast
  obtain s2 where s2: "sign_phase toy_world toy_fixtures key_A key_P s1 = (Inr (toy_signature 2, toy_signature 3), s2)" "count_sent s2 = 3"
    using toy_sign [OF s1(2)] by blast
  obtain s3 where s3: "executed_account toy_world key_P s2 = (Inr (agreement_data, toy_agreement), s3)" "count_sent s3 = 3"
    using toy_executed [OF s2(2)] by blast
  obtain s4 where s4: "core_phase toy_world toy_fixtures key_A key_P toy_agreement s3
      = (Inr (key_P, toy_signature 4, hd (toy_events 4), proof_data Core_Active 0), s4)" "count_sent s4 = 4"
    using toy_core [OF s3(2)] by blast
  obtain s5 where s5: "separation_phase toy_world agreement_data (proof_data Core_Active 0) s4 = (Inr (), s5)" "count_sent s5 = 4"
    using toy_separation [of s4] s4(2) by auto
  obtain s6 where s6: "cancel_phase toy_world toy_fixtures key_A key_P 3600 s5 = (Inr (toy_signature 6), s6)" "count_sent s6 = 6"
    using toy_cancel [OF s5(2)] by blast
  obtain s7 where s7: "revoke_phase toy_world key_A key_P s6 = (Inr (toy_signature 7, hd (toy_events 7)), s7)" "count_sent s7 = 7"
    using toy_revoke [OF s6(2)] by blast
  obtain h where h: "history_phase toy_world
      [toy_signature 1, toy_signature 2, toy_signature 3, toy_signature 4, toy_signature 7] s7 = (Inr EXPECTED_HISTORY, h)"
    using toy_history_phase by blast
  obtain r where r: "reputation_phase toy_world key_A (hd (toy_events 4)) (toy_signature 4) (hd (toy_events 7)) (toy_signature 7) h
      = (Inr Seal_revoked, r)"
    using toy_reputation by blast
  have wallet: "then_do (lifted (sw_wallet toy_world)) f s = f key_A s" for f :: "pubkey \<Rightarrow> lifecycle_report smoke" and s
    by simp
  have balance: "then_do (reads_chain (sw_balance toy_world k)) f s = f 1 s" for k and f :: "int \<Rightarrow> lifecycle_report smoke" and s
    by (simp add: then_reads)
  have funded: "then_do (stops_if ((1::int) = 0) c m) f s = f () s" for c m and f :: "unit \<Rightarrow> lifecycle_report smoke" and s
    by (simp add: then_do_def)
  have announce: "then_do (alters g) f s = f () (g s)" for g and f :: "unit \<Rightarrow> lifecycle_report smoke" and s
    by (simp add: then_do_def)
  have clock: "sw_now toy_world div 1000 + 3600 = 3600"
    by simp
  note phases = s1(1) s2(1) s3(1) s4(1) s5(1) s6(1) s7(1) h r
  note steps = wallet balance funded announce then_record toy_agreement_address phases then_do_Inr
  show ?thesis
    unfolding runLifecyclePhase_def Let_def
    by (simp only: clock steps toy_world_simps(1,4) if_False not_not simp_thms prod.case yields_app) simp
qed


end
