(* ===== verification/Spec2Isabelle.thy ===== *)
theory Spec2Isabelle
  imports Accounts Lifecycle_Examples Chain_Events Instructions Rep_Receipts Eligibility Credential
    Invoice Rpc Replay_Examples Custody_Examples Script_Ix Evidence_Scrub Release_Approval Deployment_Evidence Governance Recovery_Examples
    Ceremony_Props Smoke_Example
begin

text \<open>
  Proof of payment and value. Three Solana programs hold escrows, proofs and agreements; the code
  verified here is the TypeScript and JavaScript around them: the client SDK (\<open>sdk/src\<close>) that builds
  the instructions, decodes accounts and events and derives receipts, seals and credentials from them;
  the indexer (\<open>indexer/src\<close>) that reads the chain and replays an agreement; and the release and
  custody scripts (\<open>scripts\<close>) that run against a live cluster and decide what is published about it.
  Every definition is a translation of the code it names; the theorems are about those definitions.

  \<^bold>\<open>How the parts interact.\<close> A transaction emits events. The indexer's extraction takes them from the
  inner instructions of a confirmed transaction; the event decoder gives each one its constructor; a
  receipt is a projection of one event with its coordinates; the receipts of an agreement are put
  together into its lifecycle; seal, reputation event and credential are derived from that. The scripts
  use the same codecs a second time, written by hand, and judge what the cluster answers.

  \<^bold>\<open>Foundations.\<close> \<open>Prelude\<close>: bytes, thrown errors as the left of a sum (\<open>'a result\<close>, with
  \<open>bindR\<close>, \<open>mapR\<close>, \<open>foldR\<close>), little-endian integers, hexadecimal, the JavaScript sort with the locale
  \<open>comparator\<close>. \<open>Base58\<close> (locale \<open>text_codec\<close>), \<open>Iso_Time\<close>, \<open>Curve\<close>, \<open>Hashing\<close>, \<open>Js_Text\<close>. \<open>Reader\<close>: the
  borsh reader and the locale \<open>codec\<close>: a reader that accepts exactly what an encoder writes, with the
  rest left over. Every field of every account and event is an interpretation of it, and the records
  are composed from the fields.

  \<^bold>\<open>The SDK.\<close> \<open>States\<close> (\<open>escrow/states.ts\<close>): the agreement, milestone and proof machines; which runs exist.
  \<open>Accounts\<close>, \<open>Escrow_Events\<close>, \<open>Chain_Events\<close> (\<open>accounts.ts\<close>, \<open>events.ts\<close>, \<open>chain-events.ts\<close>): the decoders accept
  exactly the encodings of well-formed values and classify every other input. \<open>Pdas\<close>, \<open>Instructions\<close>
  (\<open>pdas.ts\<close>, \<open>instructions.ts\<close>): addresses and what an instruction that is built contains. \<open>Receipts\<close>,
  \<open>Lifecycle\<close> (\<open>escrow/receipts.ts\<close>): \<open>reconstructLifecycle\<close> accepts or rejects a set of receipts;
  \<open>Lifecycle_Props\<close> and \<open>Lifecycle_Facts\<close> show that an accepted history is one path of the machine, that it
  conserves money, and that delivery order and repetition do not matter. \<open>Contracts\<close>, \<open>Seal\<close>,
  \<open>Normalize\<close>, \<open>Rep_Receipts\<close>, \<open>Eligibility\<close> (\<open>reputation\<close>): what a consumer may rely on, the seal as a function
  of the set of facts. \<open>Credential\<close>, \<open>Canonical\<close>, \<open>Canonical_Props\<close>, \<open>Commerce_Binding\<close>, \<open>Invoice\<close>: the
  escrow credential, canonical documents as a refinement of the documents they denote, the binding of
  a contract and of an invoice to the escrow that pays it.

  \<^bold>\<open>The indexer.\<close> \<open>Rpc\<close> (\<open>rpc.ts\<close>, \<open>scripts/lib/rpc.mjs\<close>): retries, waits and the classification of answers.
  \<open>Extract\<close> (\<open>events.ts\<close>), \<open>Replay\<close> (\<open>projections.ts\<close>, \<open>replay.ts\<close>): what is extracted, that paging ends and is
  complete, that the store converges, and that a replay reports exactly what the chain holds.

  \<^bold>\<open>The scripts.\<close> \<open>Script_Pubkey\<close>, \<open>Script_Ix\<close>, \<open>Endpoint_Safety\<close>, \<open>Evidence_Scrub\<close>, \<open>Squads\<close>, \<open>Tx_Lifecycle\<close>
  with \<open>Tx_Safety\<close>, \<open>Custody_Invariants\<close>, \<open>Custody_Runner\<close> (\<open>scripts/lib\<close>): keys and instructions encoded by hand and their agreement with the SDK,
  keeping the endpoint and key bytes out of what is printed, reading a multisig, sending a transaction
  exactly once, checking balances. \<open>Deployed_Program\<close>, \<open>Deployment_Evidence\<close>, \<open>Release_Approval\<close>,
  \<open>Governance\<close>, \<open>Recovery\<close>: the verifiers of a release and of its custody. \<open>Script_Run\<close>: a script as a
  function from a state to a result and a state, so that what was sent or printed before an error is
  kept; \<open>keeps\<close> and \<open>emits\<close> say what a script adds to a log. \<open>Ceremony\<close>, \<open>Ceremony_Props\<close>
  (\<open>create-escrow-custody-multisig.mjs\<close>) and \<open>Smoke_Ix\<close>, \<open>Smoke_Lifecycle\<close>, \<open>Smoke_Props\<close>
  (\<open>devnet-lifecycle.mjs\<close>) are whole commands written over it. The theories named \<open>_Examples\<close> or \<open>_Example\<close>
  hold concrete inputs at which properties with hypotheses are applied.

  \<^bold>\<open>Parameters.\<close> Code that is not in the repository is an argument of the definitions that use it: SHA-256,
  Unicode normalization, \<open>Date.parse\<close>, \<open>localeCompare\<close>, the URL class, base64, the text of a number that is not
  whole, Ed25519 verification, the address search of @solana/web3.js (in the scripts; the SDK has its
  own, which is modelled), the multisig library, name resolvers, the file system, the clock, and the
  chain. What changes while a program runs is a function of the trace of effects so far, so that a
  later read may answer differently from an earlier one. No law is assumed of any of these except
  where a theorem says so (the hash yields 32 bytes; a clock that advances; two different inputs with
  one hash, which then is the conclusion of the theorems on collisions, never an excuse).

  \<^bold>\<open>Representations.\<close> Bytes are 8-bit words, unsigned fields of accounts are integers with their bounds in
  the well-formedness predicates, JavaScript numbers are integers where the code only lets integers
  through and the datatype \<open>js_number\<close> where it does not. Strings are lists of characters: JavaScript
  strings within Latin-1, with an em dash of a message written as two hyphens and an ellipsis as three
  points. Maps that are iterated are association lists in insertion order. An error is its class
  and its message; the detail objects attached to some errors for a log are left out. A promise is the
  value it resolves to: the code modelled here awaits each call before the next.

  \<^bold>\<open>Termination.\<close> Loops over data are recursions over it. The polling loop and the retry loops carry fuel,
  and the theorems on them say which clock makes the fuel enough; paging carries the number of
  signatures of the history plus one request. The bump search runs down from 255, and base58 and the
  modular power recurse on a number that shrinks.

  \<^bold>\<open>Not modelled.\<close> The on-chain programs are Rust; of them the SDK's decoders and builders are the
  contract. The scenario of \<open>devnet-escrow-custody.mjs\<close> and its recovery command are sequences of the
  operations of \<open>Custody_Runner\<close>, \<open>Tx_Lifecycle\<close> and \<open>Script_Ix\<close> over fixed accounts. Command lines that only print, the tests, the shell scripts and the workflows are left out.
\<close>

end
